(* ===== verification/Prelude.thy ===== *)
theory Prelude
  imports Complex_Main "HOL-Library.Option_ord"
begin

text \<open>
  Generic material the components share: the string operations of the Rust standard library the
  code calls, over \<open>string\<close> read as the bytes of a UTF-8 \<open>str\<close>; decimal rendering and
  parsing; the truncating cast \<open>f64 as i64\<close>; first-match search in a list; and the theorem
  collections that carry the component proofs.  Nothing here is specific to the program.
\<close>

named_theorems store_simps \<open>row-level equations of the store operations\<close>
named_theorems frame_simps \<open>what an operation leaves unchanged\<close>

type_synonym i64 = int
type_synonym millis = int

section \<open>Bytes and characters\<close>

definition byte :: "char \<Rightarrow> nat" where
  "byte c = of_char c"

definition is_cont_byte :: "char \<Rightarrow> bool" where
  "is_cont_byte c \<longleftrightarrow> 128 \<le> byte c \<and> byte c < 192"

definition is_ascii_digit :: "char \<Rightarrow> bool" where
  "is_ascii_digit c \<longleftrightarrow> 48 \<le> byte c \<and> byte c \<le> 57"

definition is_ascii_upper :: "char \<Rightarrow> bool" where
  "is_ascii_upper c \<longleftrightarrow> 65 \<le> byte c \<and> byte c \<le> 90"

definition is_ascii_lower :: "char \<Rightarrow> bool" where
  "is_ascii_lower c \<longleftrightarrow> 97 \<le> byte c \<and> byte c \<le> 122"

definition is_ascii_alphanumeric :: "char \<Rightarrow> bool" where
  "is_ascii_alphanumeric c \<longleftrightarrow> is_ascii_digit c \<or> is_ascii_upper c \<or> is_ascii_lower c"

text \<open>The ASCII white space of \<open>char::is_whitespace\<close>: tab to carriage return, and space.\<close>

definition is_space :: "char \<Rightarrow> bool" where
  "is_space c \<longleftrightarrow> (9 \<le> byte c \<and> byte c \<le> 13) \<or> byte c = 32"

definition to_lower :: "char \<Rightarrow> char" where
  "to_lower c = (if is_ascii_upper c then char_of (byte c + 32) else c)"

definition to_upper :: "char \<Rightarrow> char" where
  "to_upper c = (if is_ascii_lower c then char_of (byte c - 32) else c)"

definition to_ascii_lowercase :: "string \<Rightarrow> string" where
  "to_ascii_lowercase s = map to_lower s"

definition to_ascii_uppercase :: "string \<Rightarrow> string" where
  "to_ascii_uppercase s = map to_upper s"

lemma to_lower_idem [simp]: "to_lower (to_lower c) = to_lower c"
  by (auto simp: to_lower_def is_ascii_upper_def byte_def)

lemma to_ascii_lowercase_idem [simp]:
  "to_ascii_lowercase (to_ascii_lowercase s) = to_ascii_lowercase s"
  by (simp add: to_ascii_lowercase_def)

section \<open>Searching and cutting strings\<close>

fun starts_with :: "string \<Rightarrow> string \<Rightarrow> bool" where
  "starts_with [] s = True"
| "starts_with (p # ps) [] = False"
| "starts_with (p # ps) (c # cs) = (p = c \<and> starts_with ps cs)"

lemma starts_with_iff: "starts_with p s \<longleftrightarrow> (\<exists>r. s = p @ r)"
  by (induction p s rule: starts_with.induct) auto

lemma starts_with_append [simp]: "starts_with p (p @ s)"
  by (auto simp: starts_with_iff)

definition ends_with :: "string \<Rightarrow> string \<Rightarrow> bool" where
  "ends_with suf s = starts_with (rev suf) (rev s)"

lemma ends_with_iff: "ends_with suf s \<longleftrightarrow> (\<exists>r. s = r @ suf)"
  unfolding ends_with_def starts_with_iff by (metis rev_append rev_rev_ident)

definition strip_prefix :: "string \<Rightarrow> string \<Rightarrow> string option" where
  "strip_prefix p s = (if starts_with p s then Some (drop (length p) s) else None)"

lemma strip_prefix_append [simp]: "strip_prefix p (p @ s) = Some s"
  by (simp add: strip_prefix_def)

lemma strip_prefix_Some: "strip_prefix p s = Some r \<longleftrightarrow> s = p @ r"
  by (auto simp: strip_prefix_def starts_with_iff)

definition strip_suffix :: "string \<Rightarrow> string \<Rightarrow> string option" where
  "strip_suffix suf s =
     (if ends_with suf s then Some (take (length s - length suf) s) else None)"

text \<open>\<open>str::find\<close>: the byte offset of the first match.\<close>

fun find_sub :: "string \<Rightarrow> string \<Rightarrow> nat option" where
  "find_sub p [] = (if p = [] then Some 0 else None)"
| "find_sub p (c # cs) =
     (if starts_with p (c # cs) then Some 0 else map_option Suc (find_sub p cs))"

definition contains_sub :: "string \<Rightarrow> string \<Rightarrow> bool" where
  "contains_sub p s = (find_sub p s \<noteq> None)"

text \<open>\<open>str::rfind\<close>: the byte offset of the last match.\<close>

fun rfind_sub :: "string \<Rightarrow> string \<Rightarrow> nat option" where
  "rfind_sub p [] = (if p = [] then Some 0 else None)"
| "rfind_sub p (c # cs) =
     (case rfind_sub p cs of
        Some i \<Rightarrow> Some (Suc i)
      | None \<Rightarrow> if starts_with p (c # cs) then Some 0 else None)"

definition split_once :: "string \<Rightarrow> string \<Rightarrow> (string \<times> string) option" where
  "split_once p s =
     map_option (\<lambda>i. (take i s, drop (i + length p) s)) (find_sub p s)"

definition rsplit_once :: "string \<Rightarrow> string \<Rightarrow> (string \<times> string) option" where
  "rsplit_once p s =
     map_option (\<lambda>i. (take i s, drop (i + length p) s)) (rfind_sub p s)"

lemma find_sub_Some:
  "find_sub p s = Some i \<Longrightarrow> take i s @ p @ drop (i + length p) s = s"
proof (induction p s arbitrary: i rule: find_sub.induct)
  case (2 p c cs)
  then show ?case by (auto simp: starts_with_iff split: if_splits)
qed (auto split: if_splits)

lemma rfind_sub_Some:
  "rfind_sub p s = Some i \<Longrightarrow> take i s @ p @ drop (i + length p) s = s"
proof (induction p s arbitrary: i rule: rfind_sub.induct)
  case (1 p)
  then show ?case by (auto split: if_splits)
next
  case (2 p c cs)
  show ?case
  proof (cases "rfind_sub p cs")
    case None
    with "2.prems" show ?thesis by (auto simp: starts_with_iff split: if_splits)
  next
    case (Some k)
    with "2.prems" have i: "i = Suc k" by simp
    from "2.IH" [OF Some] i show ?thesis by simp
  qed
qed

lemma split_once_Some: "split_once p s = Some (a, b) \<Longrightarrow> s = a @ p @ b"
  using find_sub_Some by (fastforce simp: split_once_def)

lemma rsplit_once_Some: "rsplit_once p s = Some (a, b) \<Longrightarrow> s = a @ p @ b"
  using rfind_sub_Some by (fastforce simp: rsplit_once_def)

text \<open>\<open>str::split\<close> on a character: never empty, and the pieces hold no separator.\<close>

fun split_on :: "char \<Rightarrow> string \<Rightarrow> string list" where
  "split_on d [] = [[]]"
| "split_on d (c # cs) =
     (if c = d then [] # split_on d cs
      else (case split_on d cs of [] \<Rightarrow> [[c]] | w # ws \<Rightarrow> (c # w) # ws))"

lemma split_on_not_Nil [simp]: "split_on d s \<noteq> []"
  by (induction s) (auto split: list.splits)

lemma split_on_no_sep: "w \<in> set (split_on d s) \<Longrightarrow> d \<notin> set w"
  by (induction s arbitrary: w) (auto split: list.splits if_splits)

text \<open>\<open>split_whitespace\<close>: the maximal runs of non-space characters.\<close>

definition split_whitespace :: "string \<Rightarrow> string list" where
  "split_whitespace s =
     filter (\<lambda>w. w \<noteq> []) (split_on (CHR '' '') (map (\<lambda>c. if is_space c then CHR '' '' else c) s))"

text \<open>\<open>str::lines\<close>: split at line feeds, no empty piece after a final one, a carriage return
  before the line feed dropped.\<close>

definition strip_cr :: "string \<Rightarrow> string" where
  "strip_cr l = (if l \<noteq> [] \<and> last l = CHR 0x0D then butlast l else l)"

definition lines :: "string \<Rightarrow> string list" where
  "lines s =
     (let ps = split_on (CHR 0x0A) s in
      if last ps = [] then map strip_cr (butlast ps)
      else map strip_cr (butlast ps) @ [last ps])"

fun join :: "string \<Rightarrow> string list \<Rightarrow> string" where
  "join sep [] = []"
| "join sep [x] = x"
| "join sep (x # y # ys) = x @ sep @ join sep (y # ys)"

definition trim_start_by :: "(char \<Rightarrow> bool) \<Rightarrow> string \<Rightarrow> string" where
  "trim_start_by P s = dropWhile P s"

definition trim_end_by :: "(char \<Rightarrow> bool) \<Rightarrow> string \<Rightarrow> string" where
  "trim_end_by P s = rev (dropWhile P (rev s))"

definition trim_by :: "(char \<Rightarrow> bool) \<Rightarrow> string \<Rightarrow> string" where
  "trim_by P s = trim_end_by P (trim_start_by P s)"

definition trim :: "string \<Rightarrow> string" where
  "trim s = trim_by is_space s"

text \<open>\<open>trim_end_matches\<close> of a string pattern: every trailing copy goes.\<close>

function trim_end_matches :: "string \<Rightarrow> string \<Rightarrow> string" where
  "trim_end_matches p s =
     (if p \<noteq> [] \<and> ends_with p s then trim_end_matches p (take (length s - length p) s) else s)"
  by pat_completeness auto
termination
proof (relation "measure (\<lambda>(p, s). length s)")
  fix p s :: string
  assume "p \<noteq> [] \<and> ends_with p s"
  then obtain r where "s = r @ p" "p \<noteq> []" by (auto simp: ends_with_iff)
  then show "((p, take (length s - length p) s), p, s) \<in> measure (\<lambda>(p, s). length s)"
    by simp
qed simp

declare trim_end_matches.simps [simp del]

text \<open>\<open>s.chars().take(n)\<close>: the first \<open>n\<close> characters, each a lead byte with its
  continuation bytes.\<close>

function take_chars :: "nat \<Rightarrow> string \<Rightarrow> string" where
  "take_chars 0 s = []"
| "take_chars (Suc n) [] = []"
| "take_chars (Suc n) (c # cs) =
     c # takeWhile is_cont_byte cs @ take_chars n (dropWhile is_cont_byte cs)"
  by pat_completeness auto
termination
  by (relation "measure fst") auto

lemma take_chars_prefix: "\<exists>r. s = take_chars n s @ r"
proof (induction n s rule: take_chars.induct)
  case (3 n c cs)
  then obtain r where "dropWhile is_cont_byte cs = take_chars n (dropWhile is_cont_byte cs) @ r"
    by blast
  then have "cs = takeWhile is_cont_byte cs @ take_chars n (dropWhile is_cont_byte cs) @ r"
    by (metis takeWhile_dropWhile_id)
  then show ?case by auto
qed auto

text \<open>The number of characters of a UTF-8 string: its bytes that are no continuation bytes.\<close>

definition char_count :: "string \<Rightarrow> nat" where
  "char_count s = length (filter (\<lambda>c. \<not> is_cont_byte c) s)"

lemma filter_takeWhile_neg: "filter (\<lambda>c. \<not> P c) (takeWhile P xs) = []"
  by (induction xs) auto

lemma char_count_take_chars:
  "char_count (take_chars n s) \<le> n"
  by (induction n s rule: take_chars.induct)
    (auto simp: char_count_def filter_takeWhile_neg)

section \<open>Numbers\<close>

definition digit_char :: "nat \<Rightarrow> char" where
  "digit_char d = char_of (48 + d)"

fun show_nat :: "nat \<Rightarrow> string" where
  "show_nat n = (if n < 10 then [digit_char n] else show_nat (n div 10) @ [digit_char (n mod 10)])"

declare show_nat.simps [simp del]

definition show_int :: "int \<Rightarrow> string" where
  "show_int i = (if i < 0 then ''-'' @ show_nat (nat (- i)) else show_nat (nat i))"

definition digits_value :: "string \<Rightarrow> nat" where
  "digits_value s = foldl (\<lambda>a c. 10 * a + (byte c - 48)) 0 s"

definition i64_min :: int where "i64_min = - (2 ^ 63)"
definition i64_max :: int where "i64_max = 2 ^ 63 - 1"

text \<open>\<open>str::parse::<i64>\<close>: an optional sign, at least one digit, and in range.\<close>

definition parse_digits :: "string \<Rightarrow> nat option" where
  "parse_digits s = (if s \<noteq> [] \<and> list_all is_ascii_digit s then Some (digits_value s) else None)"

definition in_i64 :: "int \<Rightarrow> int option" where
  "in_i64 v = (if i64_min \<le> v \<and> v \<le> i64_max then Some v else None)"

definition parse_i64 :: "string \<Rightarrow> int option" where
  "parse_i64 s =
     (case s of
        [] \<Rightarrow> None
      | c # cs \<Rightarrow>
          if c = CHR ''-'' then Option.bind (parse_digits cs) (\<lambda>n. in_i64 (- int n))
          else if c = CHR ''+'' then Option.bind (parse_digits cs) (\<lambda>n. in_i64 (int n))
          else Option.bind (parse_digits s) (\<lambda>n. in_i64 (int n)))"

definition parse_u32 :: "string \<Rightarrow> int option" where
  "parse_u32 s =
     (case s of
        [] \<Rightarrow> None
      | c # cs \<Rightarrow>
          Option.bind (if c = CHR ''+'' then parse_digits cs else parse_digits s)
            (\<lambda>n. if int n < 2 ^ 32 then Some (int n) else None))"

lemma byte_digit_char: "d < 10 \<Longrightarrow> byte (digit_char d) = 48 + d"
  by (simp add: byte_def digit_char_def)

lemma is_ascii_digit_digit_char: "d < 10 \<Longrightarrow> is_ascii_digit (digit_char d)"
  by (simp add: is_ascii_digit_def byte_digit_char)

lemma show_nat_not_Nil [simp]: "show_nat n \<noteq> []"
  by (subst show_nat.simps) simp

lemma show_nat_digits: "list_all is_ascii_digit (show_nat n)"
proof (induction n rule: show_nat.induct)
  case (1 n)
  then show ?case
    by (subst show_nat.simps) (auto simp: is_ascii_digit_digit_char)
qed

lemma digits_value_snoc: "digits_value (s @ [c]) = 10 * digits_value s + (byte c - 48)"
  by (simp add: digits_value_def)

lemma digits_value_show_nat [simp]: "digits_value (show_nat n) = n"
proof (induction n rule: show_nat.induct)
  case (1 n)
  show ?case
  proof (cases "n < 10")
    case True
    then show ?thesis
      by (subst show_nat.simps) (simp add: digits_value_def byte_digit_char)
  next
    case False
    with 1 show ?thesis
      by (subst show_nat.simps) (simp add: digits_value_snoc byte_digit_char)
  qed
qed

lemma parse_digits_show_nat [simp]: "parse_digits (show_nat n) = Some n"
  by (simp add: parse_digits_def show_nat_digits)

lemma show_nat_hd_digit: "is_ascii_digit (hd (show_nat n))"
  using show_nat_digits [of n] by (cases "show_nat n") auto

lemma parse_i64_show_int: "i64_min \<le> i \<Longrightarrow> i \<le> i64_max \<Longrightarrow> parse_i64 (show_int i) = Some i"
proof (cases "i < 0")
  case True
  assume "i64_min \<le> i" "i \<le> i64_max"
  with True show ?thesis
    by (simp add: show_int_def parse_i64_def in_i64_def)
next
  case False
  assume r: "i64_min \<le> i" "i \<le> i64_max"
  obtain c cs where c: "show_nat (nat i) = c # cs" by (cases "show_nat (nat i)") auto
  have "is_ascii_digit c" using show_nat_hd_digit [of "nat i"] c by simp
  then have "c \<noteq> CHR ''-''" "c \<noteq> CHR ''+''" by (auto simp: is_ascii_digit_def byte_def)
  then have "parse_i64 (c # cs) = Option.bind (parse_digits (c # cs)) (\<lambda>n. in_i64 (int n))"
    by (simp add: parse_i64_def)
  moreover have "parse_digits (c # cs) = Some (nat i)" using c parse_digits_show_nat by metis
  ultimately show ?thesis using False r c by (simp add: show_int_def in_i64_def)
qed

text \<open>\<open>q as i64\<close> on a float: truncation toward zero, saturating at the range.\<close>

definition trunc_i64 :: "rat \<Rightarrow> int" where
  "trunc_i64 q =
     (if 0 \<le> q then min i64_max (floor q) else max i64_min (ceiling q))"

lemma trunc_i64_nonneg: "0 \<le> q \<Longrightarrow> 0 \<le> trunc_i64 q"
  by (simp add: trunc_i64_def i64_max_def)

lemma trunc_i64_mono_nonneg: "0 \<le> a \<Longrightarrow> a \<le> b \<Longrightarrow> trunc_i64 a \<le> trunc_i64 b"
  using floor_mono [of a b] by (simp add: trunc_i64_def min.coboundedI2)

lemma trunc_i64_ge_int:
  assumes "0 \<le> n" "n \<le> i64_max" "of_int n \<le> q"
  shows "n \<le> trunc_i64 q"
proof -
  have "0 \<le> q" using assms(1,3) by (meson of_int_0_le_iff order_trans)
  then show ?thesis using assms by (simp add: trunc_i64_def le_floor_iff)
qed

section \<open>Lists and options\<close>

text \<open>\<open>Iterator::min_by_key\<close>: the first element with the least key.\<close>

fun min_by_key :: "('a \<Rightarrow> 'k::linorder) \<Rightarrow> 'a list \<Rightarrow> 'a option" where
  "min_by_key k [] = None"
| "min_by_key k (x # xs) =
     (case min_by_key k xs of None \<Rightarrow> Some x | Some y \<Rightarrow> if k y < k x then Some y else Some x)"

lemma min_by_key_None [simp]: "min_by_key k xs = None \<longleftrightarrow> xs = []"
  by (cases xs) (auto split: option.splits)

lemma min_by_key_Some:
  "min_by_key k xs = Some x \<Longrightarrow> x \<in> set xs \<and> (\<forall>y \<in> set xs. k x \<le> k y)"
proof (induction xs arbitrary: x)
  case (Cons z zs)
  show ?case
  proof (cases "min_by_key k zs")
    case None
    with Cons.prems show ?thesis by simp
  next
    case (Some y)
    then have "y \<in> set zs \<and> (\<forall>w \<in> set zs. k y \<le> k w)" by (rule Cons.IH)
    with Some Cons.prems show ?thesis by (auto split: if_splits)
  qed
qed simp

definition opt_or :: "'a option \<Rightarrow> 'a option \<Rightarrow> 'a option" where
  "opt_or a b = (case a of None \<Rightarrow> b | Some x \<Rightarrow> Some x)"

lemma opt_or_simps [simp]: "opt_or None b = b" "opt_or (Some x) b = Some x" "opt_or a None = a"
  by (auto simp: opt_or_def split: option.splits)

definition unwrap_or :: "'a option \<Rightarrow> 'a \<Rightarrow> 'a" where
  "unwrap_or a d = (case a of None \<Rightarrow> d | Some x \<Rightarrow> x)"

lemma unwrap_or_simps [simp]: "unwrap_or None d = d" "unwrap_or (Some x) d = x"
  by (simp_all add: unwrap_or_def)

lemma map_filter_mem: "x \<in> set xs \<Longrightarrow> f x = Some y \<Longrightarrow> y \<in> set (List.map_filter f xs)"
  by (force simp: List.map_filter_def)

lemma map_filter_memD: "y \<in> set (List.map_filter f xs) \<Longrightarrow> \<exists>x \<in> set xs. f x = Some y"
  by (auto simp: List.map_filter_def)

lemma find_Some_set: "find P xs = Some x \<Longrightarrow> x \<in> set xs \<and> P x"
  by (induction xs) (auto split: if_splits)

text \<open>A \<open>BTreeMap\<close>: an association list kept in ascending key order, which is its iteration order.\<close>

fun btree_insert :: "'k::linorder \<Rightarrow> 'v \<Rightarrow> ('k \<times> 'v) list \<Rightarrow> ('k \<times> 'v) list" where
  "btree_insert k v [] = [(k, v)]"
| "btree_insert k v ((k', v') # m) =
     (if k < k' then (k, v) # (k', v') # m
      else if k = k' then (k, v) # m
      else (k', v') # btree_insert k v m)"

lemma set_btree_insert: "set (btree_insert k v m) \<subseteq> insert (k, v) (set m)"
  by (induction k v m rule: btree_insert.induct) auto

lemma keys_btree_insert: "fst ` set (btree_insert k v m) = insert k (fst ` set m)"
  by (induction k v m rule: btree_insert.induct) auto

lemma btree_insert_keys_below:
  "(\<forall>y \<in> set (map fst m). a < y) \<Longrightarrow> a < k \<Longrightarrow> \<forall>y \<in> set (map fst (btree_insert k v m)). a < y"
  by (induction k v m rule: btree_insert.induct) auto

lemma sorted_btree_insert:
  "sorted_wrt (<) (map fst m) \<Longrightarrow> sorted_wrt (<) (map fst (btree_insert k v m))"
proof (induction k v m rule: btree_insert.induct)
  case (2 k v k' v' m)
  show ?case
  proof (cases "k < k' \<or> k = k'")
    case True
    with "2.prems" show ?thesis by auto
  next
    case False
    then have "k' < k" by auto
    from "2.prems" have below: "\<forall>y \<in> set (map fst m). k' < y" and "sorted_wrt (<) (map fst m)"
      by simp_all
    then have "sorted_wrt (<) (map fst (btree_insert k v m))" using False "2.IH" by blast
    moreover have "\<forall>y \<in> set (map fst (btree_insert k v m)). k' < y"
      using below \<open>k' < k\<close> by (rule btree_insert_keys_below)
    ultimately show ?thesis using False by simp
  qed
qed simp

lemma map_of_btree_insert: "map_of (btree_insert k v m) k = Some v"
  by (induction k v m rule: btree_insert.induct) auto

lemma list_all2_from: "list_all2 R xs ys \<Longrightarrow> y \<in> set ys \<Longrightarrow> \<exists>x \<in> set xs. R x y"
  by (induction rule: list_all2_induct) auto

lemma list_all2_to: "list_all2 R xs ys \<Longrightarrow> x \<in> set xs \<Longrightarrow> \<exists>y \<in> set ys. R x y"
  by (induction rule: list_all2_induct) auto

text \<open>A row update guarded by a predicate: \<open>UPDATE t SET f WHERE P\<close> over a table held as a
  list of rows, and the number of rows it changes.\<close>

definition update_where :: "('r \<Rightarrow> bool) \<Rightarrow> ('r \<Rightarrow> 'r) \<Rightarrow> 'r list \<Rightarrow> 'r list" where
  "update_where P f = map (\<lambda>r. if P r then f r else r)"

definition rows_affected :: "('r \<Rightarrow> bool) \<Rightarrow> 'r list \<Rightarrow> nat" where
  "rows_affected P rs = length (filter P rs)"

lemma update_where_Nil [simp]: "update_where P f [] = []"
  by (simp add: update_where_def)

lemma update_where_Cons [simp]:
  "update_where P f (r # rs) = (if P r then f r else r) # update_where P f rs"
  by (simp add: update_where_def)

lemma length_update_where [simp]: "length (update_where P f rs) = length rs"
  by (simp add: update_where_def)

lemma set_update_where: "set (update_where P f rs) = (\<lambda>r. if P r then f r else r) ` set rs"
  by (simp add: update_where_def)

lemma update_where_untouched: "r \<in> set rs \<Longrightarrow> \<not> P r \<Longrightarrow> r \<in> set (update_where P f rs)"
  by (force simp: set_update_where)

lemma update_where_gone:
  assumes "\<And>r. P r \<Longrightarrow> \<not> P (f r)" "r \<in> set (update_where P f rs)"
  shows "\<not> P r"
proof -
  from assms(2) obtain q where "r = (if P q then f q else q)"
    unfolding set_update_where by (rule imageE)
  with assms(1) show ?thesis by (cases "P q") simp_all
qed

lemma map_update_where:
  "(\<And>r. P r \<Longrightarrow> k (f r) = k r) \<Longrightarrow> map k (update_where P f rs) = map k rs"
  by (simp add: update_where_def)

lemma update_where_none: "(\<And>r. r \<in> set rs \<Longrightarrow> \<not> P r) \<Longrightarrow> update_where P f rs = rs"
  by (induction rs) auto

lemma rows_affected_pos: "0 < rows_affected P rs \<longleftrightarrow> (\<exists>r \<in> set rs. P r)"
  by (auto simp: rows_affected_def filter_empty_conv)

text \<open>Lookup by key in a table, and how an update moves it.\<close>

lemma find_update_where:
  assumes "\<And>r. key (f r) = key r"
  shows "find (\<lambda>r. key r = k) (update_where P f rs) =
    map_option (\<lambda>r. if P r then f r else r) (find (\<lambda>r. key r = k) rs)"
proof (induction rs)
  case (Cons r rs)
  have "key (if P r then f r else r) = key r" by (simp add: assms)
  with Cons.IH show ?case by (simp add: update_where_def)
qed simp

end
