(* ===== verification/Domain.thy ===== *)
theory Domain
  imports Prelude
begin

text \<open>
  The enumerations of \<open>hunter-rs/src/domain.rs\<close>: statuses, job states and kinds, severities,
  finding types, the closure classes and their mapping to a status.  Each keeps the source's
  variants (with a prefix where two enumerations share a name) and its text form, which is what
  the database and the JSON API carry.  The locale \<open>text_enum\<close> is the contract every parser in
  the file keeps; each enumeration with a parser interprets it.
\<close>

section \<open>The contract of a textual enumeration\<close>

text \<open>The error text of a failed \<open>FromStr\<close>: what was being parsed, and the input.\<close>

datatype parse_error = UnknownName string string

locale text_enum =
  fixes as_text :: "'a \<Rightarrow> string"
    and parse :: "string \<Rightarrow> parse_error + 'a"
  assumes parse_text: "parse (as_text x) = Inr x"
    and parse_sound: "parse s = Inr x \<Longrightarrow> as_text x = s"
begin

lemma text_inj: "as_text x = as_text y \<Longrightarrow> x = y"
  by (metis parse_text Inr_inject)

lemma parse_iff: "parse s = Inr x \<longleftrightarrow> s = as_text x"
  using parse_text parse_sound by blast

lemma parse_fails_iff: "(\<exists>e. parse s = Inl e) \<longleftrightarrow> s \<notin> range as_text"
proof (cases "parse s")
  case (Inl e)
  then show ?thesis using parse_text by fastforce
next
  case (Inr x)
  then show ?thesis using parse_sound [OF Inr] by (simp, metis rangeI)
qed

end

section \<open>Finding status\<close>

datatype finding_status =
  New | Rechecking | Queued | Fixing | Blocked | PrOpen | Merged | Closed | Superseded | Rejected | Wontfix | Note

definition finding_status_all :: "finding_status list" where
  "finding_status_all =
     [New, Rechecking, Queued, Fixing, Blocked, PrOpen, Merged, Closed, Superseded, Rejected, Wontfix, Note]"

fun finding_status_str :: "finding_status \<Rightarrow> string" where
  "finding_status_str New = ''new''"
| "finding_status_str Rechecking = ''rechecking''"
| "finding_status_str Queued = ''queued''"
| "finding_status_str Fixing = ''fixing''"
| "finding_status_str Blocked = ''blocked''"
| "finding_status_str PrOpen = ''pr_open''"
| "finding_status_str Merged = ''merged''"
| "finding_status_str Closed = ''closed''"
| "finding_status_str Superseded = ''superseded''"
| "finding_status_str Rejected = ''rejected''"
| "finding_status_str Wontfix = ''wontfix''"
| "finding_status_str Note = ''note''"

fun is_verdict :: "finding_status \<Rightarrow> bool" where
  "is_verdict s = (s \<in> {Queued, Rejected, Wontfix, Note})"

fun awaits_verdict :: "finding_status \<Rightarrow> bool" where
  "awaits_verdict s = (s \<in> {New, Blocked, Note, Closed})"

fun reason_required :: "finding_status \<Rightarrow> bool" where
  "reason_required s = (s \<in> {Rejected, Wontfix})"

fun is_suppressed :: "finding_status \<Rightarrow> bool" where
  "is_suppressed s = (s \<in> {Rejected, Wontfix})"

text \<open>The column decoding sqlx and serde derive from the variants' snake-case names.\<close>

definition finding_status_of_text :: "string \<Rightarrow> parse_error + finding_status" where
  "finding_status_of_text s =
     (case find (\<lambda>x. finding_status_str x = s) finding_status_all of
        Some x \<Rightarrow> Inr x
      | None \<Rightarrow> Inl (UnknownName ''variant'' s))"

interpretation finding_status: text_enum finding_status_str finding_status_of_text
proof
  show "finding_status_of_text (finding_status_str x) = Inr x" for x
    by (cases x) (simp_all add: finding_status_of_text_def finding_status_all_def)
  show "finding_status_str x = s" if "finding_status_of_text s = Inr x" for s x
    using that by (auto simp: finding_status_of_text_def split: option.splits dest: find_Some_set)
qed

section \<open>Budget override\<close>

datatype budget_override =
  Once | Exempt

definition budget_override_all :: "budget_override list" where
  "budget_override_all =
     [Once, Exempt]"

fun budget_override_str :: "budget_override \<Rightarrow> string" where
  "budget_override_str Once = ''once''"
| "budget_override_str Exempt = ''exempt''"

definition budget_override_of_text :: "string \<Rightarrow> parse_error + budget_override" where
  "budget_override_of_text s =
     (case find (\<lambda>x. budget_override_str x = s) budget_override_all of
        Some x \<Rightarrow> Inr x
      | None \<Rightarrow> Inl (UnknownName ''budget override'' s))"

interpretation budget_override: text_enum budget_override_str budget_override_of_text
proof
  show "budget_override_of_text (budget_override_str x) = Inr x" for x
    by (cases x) (simp_all add: budget_override_of_text_def budget_override_all_def)
  show "budget_override_str x = s" if "budget_override_of_text s = Inr x" for s x
    using that by (auto simp: budget_override_of_text_def split: option.splits dest: find_Some_set)
qed

section \<open>Why a pull request closed without merging\<close>

datatype closure_class =
  CSuperseded | CDuplicate | CObsolete | CWrong | CUnwanted | CAbandoned

definition closure_class_all :: "closure_class list" where
  "closure_class_all =
     [CSuperseded, CDuplicate, CObsolete, CWrong, CUnwanted, CAbandoned]"

fun closure_class_str :: "closure_class \<Rightarrow> string" where
  "closure_class_str CSuperseded = ''superseded''"
| "closure_class_str CDuplicate = ''duplicate''"
| "closure_class_str CObsolete = ''obsolete''"
| "closure_class_str CWrong = ''wrong''"
| "closure_class_str CUnwanted = ''unwanted''"
| "closure_class_str CAbandoned = ''abandoned''"

fun closure_status :: "closure_class \<Rightarrow> finding_status" where
  "closure_status CSuperseded = Superseded"
| "closure_status CDuplicate = Superseded"
| "closure_status CObsolete = Superseded"
| "closure_status CWrong = Rejected"
| "closure_status CUnwanted = Wontfix"
| "closure_status CAbandoned = New"

definition closure_class_of_text :: "string \<Rightarrow> parse_error + closure_class" where
  "closure_class_of_text s =
     (case find (\<lambda>x. closure_class_str x = s) closure_class_all of
        Some x \<Rightarrow> Inr x
      | None \<Rightarrow> Inl (UnknownName ''classification'' s))"

interpretation closure_class: text_enum closure_class_str closure_class_of_text
proof
  show "closure_class_of_text (closure_class_str x) = Inr x" for x
    by (cases x) (simp_all add: closure_class_of_text_def closure_class_all_def)
  show "closure_class_str x = s" if "closure_class_of_text s = Inr x" for s x
    using that by (auto simp: closure_class_of_text_def split: option.splits dest: find_Some_set)
qed

section \<open>Job state\<close>

datatype job_state =
  JRunning | JDone | JFailed | JKilled | JSuspended | JDenied

fun job_state_str :: "job_state \<Rightarrow> string" where
  "job_state_str JRunning = ''running''"
| "job_state_str JDone = ''done''"
| "job_state_str JFailed = ''failed''"
| "job_state_str JKilled = ''killed''"
| "job_state_str JSuspended = ''suspended''"
| "job_state_str JDenied = ''denied''"

section \<open>Severity\<close>

datatype severity = Low | Medium | High

fun severity_rank :: "severity \<Rightarrow> int" where
  "severity_rank Low = 1"
| "severity_rank Medium = 2"
| "severity_rank High = 3"

fun severity_str :: "severity \<Rightarrow> string" where
  "severity_str Low = ''low''"
| "severity_str Medium = ''medium''"
| "severity_str High = ''high''"

definition severity_default :: severity where
  "severity_default = Medium"

definition severity_parse :: "string \<Rightarrow> severity option" where
  "severity_parse s =
     (let l = to_ascii_lowercase s in
      if l = ''low'' then Some Low
      else if l = ''medium'' then Some Medium
      else if l = ''high'' then Some High
      else None)"

text \<open>The derived \<open>Ord\<close>: the variants' declaration order, which is the order of the ranks.\<close>

instantiation severity :: linorder
begin

definition less_eq_severity :: "severity \<Rightarrow> severity \<Rightarrow> bool" where
  "a \<le> b \<longleftrightarrow> severity_rank a \<le> severity_rank b"

definition less_severity :: "severity \<Rightarrow> severity \<Rightarrow> bool" where
  "a < b \<longleftrightarrow> severity_rank a < severity_rank b"

instance
proof
  fix x y :: severity
  show "x = y" if "x \<le> y" "y \<le> x"
    using that by (cases x; cases y) (simp_all add: less_eq_severity_def)
qed (auto simp: less_eq_severity_def less_severity_def)

end

lemma severity_parse_str: "severity_parse (severity_str v) = Some v"
  by (cases v) (simp_all add: severity_parse_def to_ascii_lowercase_def to_lower_def
      is_ascii_upper_def byte_def)

section \<open>Finding type and job kinds\<close>

datatype finding_type =
  TBug | TDepUpdate | TTestGap | TRefactor | TModernization | TStandards

definition finding_type_all :: "finding_type list" where
  "finding_type_all =
     [TBug, TDepUpdate, TTestGap, TRefactor, TModernization, TStandards]"

fun finding_type_str :: "finding_type \<Rightarrow> string" where
  "finding_type_str TBug = ''bug''"
| "finding_type_str TDepUpdate = ''dep_update''"
| "finding_type_str TTestGap = ''test_gap''"
| "finding_type_str TRefactor = ''refactor''"
| "finding_type_str TModernization = ''modernization''"
| "finding_type_str TStandards = ''standards''"

definition finding_type_of_text :: "string \<Rightarrow> parse_error + finding_type" where
  "finding_type_of_text s =
     (if s = ''bug'' then Inr TBug
      else if s = ''dep_update'' then Inr TDepUpdate
      else if s = ''test_gap'' then Inr TTestGap
      else if s = ''refactor'' then Inr TRefactor
      else if s = ''modernization'' then Inr TModernization
      else if s = ''standards'' then Inr TStandards
      else Inl (UnknownName ''finding type'' s))"

interpretation finding_type: text_enum finding_type_str finding_type_of_text
proof
  show "finding_type_of_text (finding_type_str x) = Inr x" for x
    by (cases x) (simp_all add: finding_type_of_text_def)
  show "finding_type_str x = s" if "finding_type_of_text s = Inr x" for s x
    using that by (auto simp: finding_type_of_text_def split: if_splits)
qed

datatype repo_job_kind =
  RHunt | RTestGap | RDepUpdate | RRefactor | RModernization | RStandards

definition repo_job_kind_all :: "repo_job_kind list" where
  "repo_job_kind_all =
     [RHunt, RTestGap, RDepUpdate, RRefactor, RModernization, RStandards]"

fun repo_job_kind_str :: "repo_job_kind \<Rightarrow> string" where
  "repo_job_kind_str RHunt = ''hunt''"
| "repo_job_kind_str RTestGap = ''test_gap''"
| "repo_job_kind_str RDepUpdate = ''dep_update''"
| "repo_job_kind_str RRefactor = ''refactor''"
| "repo_job_kind_str RModernization = ''modernization''"
| "repo_job_kind_str RStandards = ''standards''"

definition repo_job_kind_of_text :: "string \<Rightarrow> parse_error + repo_job_kind" where
  "repo_job_kind_of_text s =
     (if s = ''hunt'' then Inr RHunt
      else if s = ''test_gap'' then Inr RTestGap
      else if s = ''dep_update'' then Inr RDepUpdate
      else if s = ''refactor'' then Inr RRefactor
      else if s = ''modernization'' then Inr RModernization
      else if s = ''standards'' then Inr RStandards
      else Inl (UnknownName ''repo job kind'' s))"

interpretation repo_job_kind: text_enum repo_job_kind_str repo_job_kind_of_text
proof
  show "repo_job_kind_of_text (repo_job_kind_str x) = Inr x" for x
    by (cases x) (simp_all add: repo_job_kind_of_text_def)
  show "repo_job_kind_str x = s" if "repo_job_kind_of_text s = Inr x" for s x
    using that by (auto simp: repo_job_kind_of_text_def split: if_splits)
qed

datatype finding_job_kind =
  FFix | FEngage | FHarvest | FRecheck

definition finding_job_kind_all :: "finding_job_kind list" where
  "finding_job_kind_all =
     [FFix, FEngage, FHarvest, FRecheck]"

fun finding_job_kind_str :: "finding_job_kind \<Rightarrow> string" where
  "finding_job_kind_str FFix = ''fix''"
| "finding_job_kind_str FEngage = ''engage''"
| "finding_job_kind_str FHarvest = ''harvest''"
| "finding_job_kind_str FRecheck = ''recheck''"

definition finding_job_kind_of_text :: "string \<Rightarrow> parse_error + finding_job_kind" where
  "finding_job_kind_of_text s =
     (if s = ''fix'' then Inr FFix
      else if s = ''engage'' then Inr FEngage
      else if s = ''harvest'' then Inr FHarvest
      else if s = ''recheck'' then Inr FRecheck
      else Inl (UnknownName ''finding job kind'' s))"

interpretation finding_job_kind: text_enum finding_job_kind_str finding_job_kind_of_text
proof
  show "finding_job_kind_of_text (finding_job_kind_str x) = Inr x" for x
    by (cases x) (simp_all add: finding_job_kind_of_text_def)
  show "finding_job_kind_str x = s" if "finding_job_kind_of_text s = Inr x" for s x
    using that by (auto simp: finding_job_kind_of_text_def split: if_splits)
qed

text \<open>A job kind is one of the two, serialised flat; parsing tries the repo kinds first.\<close>

datatype job_kind = Repo_kind repo_job_kind | Finding_kind finding_job_kind

fun job_kind_str :: "job_kind \<Rightarrow> string" where
  "job_kind_str (Repo_kind r) = repo_job_kind_str r"
| "job_kind_str (Finding_kind f) = finding_job_kind_str f"

fun is_repo :: "job_kind \<Rightarrow> bool" where
  "is_repo (Repo_kind _) = True"
| "is_repo (Finding_kind _) = False"

fun is_finding :: "job_kind \<Rightarrow> bool" where
  "is_finding (Finding_kind _) = True"
| "is_finding (Repo_kind _) = False"

fun as_repo :: "job_kind \<Rightarrow> repo_job_kind option" where
  "as_repo (Repo_kind r) = Some r"
| "as_repo (Finding_kind _) = None"

fun as_finding :: "job_kind \<Rightarrow> finding_job_kind option" where
  "as_finding (Finding_kind f) = Some f"
| "as_finding (Repo_kind _) = None"

definition job_kind_of_text :: "string \<Rightarrow> parse_error + job_kind" where
  "job_kind_of_text s =
     (case repo_job_kind_of_text s of
        Inr r \<Rightarrow> Inr (Repo_kind r)
      | Inl _ \<Rightarrow>
          (case finding_job_kind_of_text s of
             Inr f \<Rightarrow> Inr (Finding_kind f)
           | Inl _ \<Rightarrow> Inl (UnknownName ''job kind'' s)))"

text \<open>No finding kind has the name of a repo kind, so the order the parser tries them in does not
  matter and the flat text form is faithful.\<close>

lemma repo_finding_kind_names_disjoint: "repo_job_kind_str r \<noteq> finding_job_kind_str f"
  by (cases r; cases f) simp_all

interpretation job_kind: text_enum job_kind_str job_kind_of_text
proof
  show "job_kind_of_text (job_kind_str x) = Inr x" for x
  proof (cases x)
    case (Repo_kind r)
    then show ?thesis by (simp add: job_kind_of_text_def repo_job_kind.parse_text)
  next
    case (Finding_kind f)
    have "\<exists>e. repo_job_kind_of_text (finding_job_kind_str f) = Inl e"
      using repo_job_kind.parse_fails_iff [of "finding_job_kind_str f"]
        repo_finding_kind_names_disjoint by (metis rangeE)
    with Finding_kind show ?thesis
      by (auto simp: job_kind_of_text_def finding_job_kind.parse_text)
  qed
  show "job_kind_str x = s" if "job_kind_of_text s = Inr x" for s x
    using that repo_job_kind.parse_sound finding_job_kind.parse_sound
    by (auto simp: job_kind_of_text_def split: sum.splits)
qed

section \<open>Bug class and forge name\<close>

datatype bug_class =
  BBoundary | BErrorPath | BRace | BContractDrift | BLeak | BLogic

definition bug_class_all :: "bug_class list" where
  "bug_class_all =
     [BBoundary, BErrorPath, BRace, BContractDrift, BLeak, BLogic]"

fun bug_class_str :: "bug_class \<Rightarrow> string" where
  "bug_class_str BBoundary = ''boundary''"
| "bug_class_str BErrorPath = ''error-path''"
| "bug_class_str BRace = ''race''"
| "bug_class_str BContractDrift = ''contract-drift''"
| "bug_class_str BLeak = ''leak''"
| "bug_class_str BLogic = ''logic''"

definition bug_class_of_text :: "string \<Rightarrow> parse_error + bug_class" where
  "bug_class_of_text s =
     (if s = ''boundary'' then Inr BBoundary
      else if s = ''error-path'' then Inr BErrorPath
      else if s = ''race'' then Inr BRace
      else if s = ''contract-drift'' then Inr BContractDrift
      else if s = ''leak'' then Inr BLeak
      else if s = ''logic'' then Inr BLogic
      else Inl (UnknownName ''bug class'' s))"

interpretation bug_class: text_enum bug_class_str bug_class_of_text
proof
  show "bug_class_of_text (bug_class_str x) = Inr x" for x
    by (cases x) (simp_all add: bug_class_of_text_def)
  show "bug_class_str x = s" if "bug_class_of_text s = Inr x" for s x
    using that by (auto simp: bug_class_of_text_def split: if_splits)
qed

datatype forge_name =
  Github | Gitlab

definition forge_name_all :: "forge_name list" where
  "forge_name_all =
     [Github, Gitlab]"

fun forge_name_str :: "forge_name \<Rightarrow> string" where
  "forge_name_str Github = ''github''"
| "forge_name_str Gitlab = ''gitlab''"

definition forge_name_of_text :: "string \<Rightarrow> parse_error + forge_name" where
  "forge_name_of_text s =
     (if s = ''github'' then Inr Github
      else if s = ''gitlab'' then Inr Gitlab
      else Inl (UnknownName ''forge name'' s))"

interpretation forge_name: text_enum forge_name_str forge_name_of_text
proof
  show "forge_name_of_text (forge_name_str x) = Inr x" for x
    by (cases x) (simp_all add: forge_name_of_text_def)
  show "forge_name_str x = s" if "forge_name_of_text s = Inr x" for s x
    using that by (auto simp: forge_name_of_text_def split: if_splits)
qed

section \<open>Facts about the verdict groups\<close>

lemma closure_suppresses_iff:
  "is_suppressed (closure_status c) \<longleftrightarrow> c = CWrong \<or> c = CUnwanted"
  by (cases c) simp_all

lemma closure_status_never_pending:
  "closure_status c \<notin> {Closed, Merged, PrOpen, Queued, Fixing, Rechecking, Blocked, Note}"
  by (cases c) simp_all

end
