(* ===== verification/Quota.thy ===== *)
theory Quota
  imports Prelude "HOL-Library.Char_ord" "HOL-Library.List_Lexorder"
begin

text \<open>
  The providers' quota windows as data (\<open>backends/omp_scavenge/provider.rs\<close>) and the pure window
  arithmetic over them (\<open>backends/omp_scavenge/capacity.rs\<close>): the two pacing ramps and their
  inverses, the roll-forward of expired cycles, and the reading of omp's usage rows.
  A float is modelled as the rational it denotes, so the lemmas are about the arithmetic the code
  writes, without rounding.  The start of the calendar month before a reset, which the code takes
  from the chrono package, is the parameter \<open>month_start\<close>.
\<close>

section \<open>Window rows, and maps ordered by limit id\<close>

record window_state =
  ws_limit_id :: string
  ws_used_fraction :: "rat option"
  ws_status :: "string option"
  ws_resets_at :: "millis option"
  ws_recorded_at :: millis
  ws_age_s :: rat

type_synonym windows = "(string \<times> window_state) list"

section \<open>Quota windows as data\<close>

definition HEADROOM_MS :: millis where "HEADROOM_MS = 30 * 60 * 1000"
definition WEEK_MS :: millis where "WEEK_MS = 604800000"
definition FIVE_H_MS :: millis where "FIVE_H_MS = 18000000"

lemmas window_consts = HEADROOM_MS_def WEEK_MS_def FIVE_H_MS_def

datatype period = Fixed millis | CalendarMonth

datatype pacing = Linear | AfterHeadroom

datatype fallback_capacity = Tokens rat | Scaled nat rat

record quota_window =
  qw_limit_id :: string
  qw_label :: string
  qw_period :: period
  qw_pacing :: pacing
  qw_extra_prefix :: "string option"
  qw_required :: bool
  qw_fallback_capacity :: fallback_capacity

record quota =
  q_windows :: "quota_window list"
  q_exhausted_is_hard_stop :: bool
  q_reads_other_limits :: bool

definition FIVE_H_FALLBACK_TOKENS :: rat where "FIVE_H_FALLBACK_TOKENS = 2000000"
definition RATIO_5H_7D :: rat where "RATIO_5H_7D = of_int FIVE_H_MS / of_int WEEK_MS"
definition LONG_WINDOW_FALLBACK_TOKENS :: rat where
  "LONG_WINDOW_FALLBACK_TOKENS = FIVE_H_FALLBACK_TOKENS / RATIO_5H_7D"

definition ANTHROPIC :: quota where
  "ANTHROPIC =
     \<lparr>q_windows =
        [\<lparr>qw_limit_id = ''anthropic:7d'', qw_label = ''7d window'', qw_period = Fixed WEEK_MS,
          qw_pacing = Linear, qw_extra_prefix = Some ''anthropic:7d:'', qw_required = False,
          qw_fallback_capacity = Scaled 1 RATIO_5H_7D\<rparr>,
         \<lparr>qw_limit_id = ''anthropic:5h'', qw_label = ''5h window'', qw_period = Fixed FIVE_H_MS,
          qw_pacing = AfterHeadroom, qw_extra_prefix = None, qw_required = False,
          qw_fallback_capacity = Tokens FIVE_H_FALLBACK_TOKENS\<rparr>],
      q_exhausted_is_hard_stop = True, q_reads_other_limits = True\<rparr>"

definition OPENAI_CODEX :: quota where
  "OPENAI_CODEX =
     \<lparr>q_windows =
        [\<lparr>qw_limit_id = ''openai-codex:secondary'', qw_label = ''7d window'',
          qw_period = Fixed WEEK_MS, qw_pacing = Linear, qw_extra_prefix = None,
          qw_required = False, qw_fallback_capacity = Scaled 1 RATIO_5H_7D\<rparr>,
         \<lparr>qw_limit_id = ''openai-codex:primary'', qw_label = ''5h window'',
          qw_period = Fixed FIVE_H_MS, qw_pacing = AfterHeadroom, qw_extra_prefix = None,
          qw_required = False, qw_fallback_capacity = Tokens FIVE_H_FALLBACK_TOKENS\<rparr>],
      q_exhausted_is_hard_stop = False, q_reads_other_limits = True\<rparr>"

definition GITHUB_COPILOT :: quota where
  "GITHUB_COPILOT =
     \<lparr>q_windows =
        [\<lparr>qw_limit_id = ''copilot:premium'', qw_label = ''Monthly premium requests'',
          qw_period = CalendarMonth, qw_pacing = Linear, qw_extra_prefix = None,
          qw_required = True, qw_fallback_capacity = Tokens LONG_WINDOW_FALLBACK_TOKENS\<rparr>],
      q_exhausted_is_hard_stop = True, q_reads_other_limits = False\<rparr>"

lemmas quota_defs = ANTHROPIC_def OPENAI_CODEX_def GITHUB_COPILOT_def

datatype llm_provider = Anthropic | OpenAiCodex | GitHubCopilot

definition llm_provider_all :: "llm_provider list" where
  "llm_provider_all = [Anthropic, OpenAiCodex, GitHubCopilot]"

fun provider_name :: "llm_provider \<Rightarrow> string" where
  "provider_name Anthropic = ''anthropic''"
| "provider_name OpenAiCodex = ''openai-codex''"
| "provider_name GitHubCopilot = ''github-copilot''"

definition provider_parse :: "string \<Rightarrow> llm_provider option" where
  "provider_parse v = find (\<lambda>p. provider_name p = v) llm_provider_all"

fun provider_quota :: "llm_provider \<Rightarrow> quota" where
  "provider_quota Anthropic = ANTHROPIC"
| "provider_quota OpenAiCodex = OPENAI_CODEX"
| "provider_quota GitHubCopilot = GITHUB_COPILOT"

definition gates :: "quota_window \<Rightarrow> string \<Rightarrow> bool" where
  "gates qw lid \<longleftrightarrow>
     lid = qw_limit_id qw \<or>
     (case qw_extra_prefix qw of None \<Rightarrow> False | Some p \<Rightarrow> starts_with p lid)"

definition quota_window_named :: "quota \<Rightarrow> string \<Rightarrow> quota_window option" where
  "quota_window_named q lid = find (\<lambda>w. qw_limit_id w = lid) (q_windows q)"

definition gating_window :: "quota \<Rightarrow> string \<Rightarrow> quota_window option" where
  "gating_window q lid = find (\<lambda>w. gates w lid) (q_windows q)"

fun find_map :: "('a \<Rightarrow> 'b option) \<Rightarrow> 'a list \<Rightarrow> 'b option" where
  "find_map f [] = None"
| "find_map f (x # xs) = (case f x of Some y \<Rightarrow> Some y | None \<Rightarrow> find_map f xs)"

definition window_period :: "string \<Rightarrow> period option" where
  "window_period lid =
     map_option qw_period
       (find_map (\<lambda>p. quota_window_named (provider_quota p) lid) llm_provider_all)"

definition is_hard_stop :: "quota \<Rightarrow> window_state \<Rightarrow> bool" where
  "is_hard_stop q w \<longleftrightarrow> q_exhausted_is_hard_stop q \<and> ws_status w = Some ''exhausted''"

definition effective_used :: "quota \<Rightarrow> window_state \<Rightarrow> rat option" where
  "effective_used q w = (if is_hard_stop q w then Some 1 else ws_used_fraction w)"

text \<open>
  \<open>Quota::capacity\<close> calls itself on the window a \<open>Scaled\<close> fallback names.  The fuel bounds that
  recursion; \<open>capacity_fuel_enough\<close> shows that one more than the number of windows always ends it
  for the providers' quotas.
\<close>

fun capacity_fuel :: "nat \<Rightarrow> quota \<Rightarrow> nat \<Rightarrow> rat option list \<Rightarrow> rat option" where
  "capacity_fuel 0 q i est = None"
| "capacity_fuel (Suc n) q i est =
     (case (if i < length est then est ! i else None) of
        Some c \<Rightarrow> Some c
      | None \<Rightarrow>
          if i < length (q_windows q)
          then (case qw_fallback_capacity (q_windows q ! i) of
                  Tokens t \<Rightarrow> Some t
                | Scaled w ratio \<Rightarrow> map_option (\<lambda>c. c / ratio) (capacity_fuel n q w est))
          else Some 0)"

definition quota_capacity :: "quota \<Rightarrow> nat \<Rightarrow> rat option list \<Rightarrow> rat" where
  "quota_capacity q i est = unwrap_or (capacity_fuel (Suc (length (q_windows q))) q i est) 0"

section \<open>Pacing\<close>

definition ramp_linear :: "millis option \<Rightarrow> millis \<Rightarrow> millis \<Rightarrow> rat" where
  "ramp_linear resets_at period_ms now =
     (case resets_at of
        None \<Rightarrow> 1
      | Some r \<Rightarrow>
          if r = 0 then 1
          else let elapsed = of_int (now - (r - period_ms))
               in min (elapsed / of_int period_ms) 1)"

definition ramp_after_headroom :: "millis option \<Rightarrow> millis \<Rightarrow> millis \<Rightarrow> rat option" where
  "ramp_after_headroom resets_at period_ms now =
     (case resets_at of
        None \<Rightarrow> None
      | Some r \<Rightarrow>
          if r = 0 then None
          else if r \<le> now then None
          else let elapsed = of_int (period_ms - (r - now))
               in Some (max ((elapsed - of_int HEADROOM_MS) / of_int (period_ms - HEADROOM_MS)) 0))"

definition retry_at_linear :: "millis option \<Rightarrow> millis \<Rightarrow> rat \<Rightarrow> rat option" where
  "retry_at_linear resets_at period_ms eff =
     (case resets_at of
        None \<Rightarrow> None
      | Some r \<Rightarrow>
          if r = 0 then None
          else Some (min (of_int (r - period_ms) + eff * of_int period_ms) (of_int r)))"

definition retry_at_after_headroom :: "millis option \<Rightarrow> millis \<Rightarrow> rat \<Rightarrow> rat option" where
  "retry_at_after_headroom resets_at period_ms eff =
     (case resets_at of
        None \<Rightarrow> None
      | Some r \<Rightarrow>
          if r = 0 then None
          else Some (min (of_int (r - period_ms) + of_int HEADROOM_MS
                            + eff * of_int (period_ms - HEADROOM_MS))
                         (of_int r)))"

fun fixed_ms :: "period \<Rightarrow> millis option" where
  "fixed_ms (Fixed p) = Some p"
| "fixed_ms CalendarMonth = None"

fun length_ms :: "(millis \<Rightarrow> millis option) \<Rightarrow> period \<Rightarrow> millis option \<Rightarrow> millis option" where
  "length_ms month_start (Fixed p) resets_at = Some p"
| "length_ms month_start CalendarMonth resets_at =
     Option.bind resets_at (\<lambda>r. map_option (\<lambda>s. r - s) (month_start r))"

definition ramp ::
  "(millis \<Rightarrow> millis option) \<Rightarrow> quota_window \<Rightarrow> millis option \<Rightarrow> millis \<Rightarrow> rat option" where
  "ramp month_start qw resets_at now =
     Option.bind (length_ms month_start (qw_period qw) resets_at)
       (\<lambda>p. case qw_pacing qw of
              Linear \<Rightarrow> Some (ramp_linear resets_at p now)
            | AfterHeadroom \<Rightarrow> ramp_after_headroom resets_at p now)"

definition retry_at ::
  "(millis \<Rightarrow> millis option) \<Rightarrow> quota_window \<Rightarrow> millis option \<Rightarrow> rat \<Rightarrow> rat option" where
  "retry_at month_start qw resets_at eff =
     Option.bind (length_ms month_start (qw_period qw) resets_at)
       (\<lambda>p. case qw_pacing qw of
              Linear \<Rightarrow> retry_at_linear resets_at p eff
            | AfterHeadroom \<Rightarrow> retry_at_after_headroom resets_at p eff)"

definition is_missing :: "quota_window \<Rightarrow> windows \<Rightarrow> millis \<Rightarrow> bool" where
  "is_missing qw wins now \<longleftrightarrow>
     qw_required qw \<and>
     \<not> (case map_of wins (qw_limit_id qw) of
           None \<Rightarrow> False
         | Some row \<Rightarrow>
             ws_used_fraction row \<noteq> None \<and>
             (case ws_resets_at row of None \<Rightarrow> False | Some r \<Rightarrow> r > now))"

section \<open>Reading the usage mirror\<close>

text \<open>
  The loop that advances an expired reset.  The source's loop would not end for a period that is
  not positive; the guard makes that case explicit, and \<open>quota_periods_positive\<close> shows it never
  arises.
\<close>

function roll_forward :: "millis \<Rightarrow> millis \<Rightarrow> millis \<Rightarrow> millis \<Rightarrow> millis \<times> millis" where
  "roll_forward period now resets recorded =
     (if resets \<le> now \<and> 0 < period
      then roll_forward period now (resets + period) resets
      else (resets, recorded))"
  by pat_completeness auto
termination
  by (relation "measure (\<lambda>(p, now, r, _). nat (now + 1 - r))") auto

declare roll_forward.simps [simp del]

record usage_row =
  ur_limit_id :: string
  ur_used_fraction :: "rat option"
  ur_status :: "string option"
  ur_resets_at :: "millis option"
  ur_recorded_at :: millis

text \<open>
  What one decoded row contributes: nothing when the provider does not read it or when its cycle
  has expired and cannot be rolled forward.
\<close>

definition read_row :: "quota \<Rightarrow> millis \<Rightarrow> usage_row \<Rightarrow> window_state option" where
  "read_row q now row =
     (let lid = ur_limit_id row in
      if \<not> q_reads_other_limits q \<and> gating_window q lid = None then None
      else case ur_resets_at row of
        Some r \<Rightarrow>
          if r > 0 \<and> r \<le> now
          then (case Option.bind (quota_window_named q lid) (\<lambda>w. fixed_ms (qw_period w)) of
                  None \<Rightarrow> None
                | Some p \<Rightarrow>
                    let (new_resets, new_recorded) = roll_forward p now r (ur_recorded_at row)
                    in Some \<lparr>ws_limit_id = lid, ws_used_fraction = Some 0,
                         ws_status = Some ''ok'', ws_resets_at = Some new_resets,
                         ws_recorded_at = new_recorded,
                         ws_age_s = of_int (now - new_recorded) / 1000\<rparr>)
          else Some \<lparr>ws_limit_id = lid, ws_used_fraction = ur_used_fraction row,
                 ws_status = ur_status row, ws_resets_at = Some r,
                 ws_recorded_at = ur_recorded_at row,
                 ws_age_s = of_int (now - ur_recorded_at row) / 1000\<rparr>
      | None \<Rightarrow>
          Some \<lparr>ws_limit_id = lid, ws_used_fraction = ur_used_fraction row,
            ws_status = ur_status row, ws_resets_at = None,
            ws_recorded_at = ur_recorded_at row,
            ws_age_s = of_int (now - ur_recorded_at row) / 1000\<rparr>)"

text \<open>
  \<open>decode\<close> is sqlx's row decoding and \<open>rows\<close> the query's newest row per limit of the provider.
  One cell that does not decode abandons the whole snapshot; \<open>read_windows\<close> then answers with the
  empty map, the "capacity unknown" state.
\<close>

fun read_rows ::
  "('raw \<Rightarrow> usage_row option) \<Rightarrow> quota \<Rightarrow> millis \<Rightarrow> 'raw list \<Rightarrow> windows \<Rightarrow> windows option" where
  "read_rows decode q now [] acc = Some acc"
| "read_rows decode q now (raw # raws) acc =
     (case decode raw of
        None \<Rightarrow> None
      | Some row \<Rightarrow>
          (case read_row q now row of
             None \<Rightarrow> read_rows decode q now raws acc
           | Some w \<Rightarrow> read_rows decode q now raws (btree_insert (ws_limit_id w) w acc)))"

definition read_windows ::
  "('raw \<Rightarrow> usage_row option) \<Rightarrow> llm_provider \<Rightarrow> millis \<Rightarrow> 'raw list option \<Rightarrow> windows" where
  "read_windows decode p now rows =
     (case rows of
        None \<Rightarrow> []
      | Some raws \<Rightarrow> unwrap_or (read_rows decode (provider_quota p) now raws []) [])"

section \<open>Facts about the data\<close>

lemma quota_periods_positive:
  "w \<in> set (q_windows (provider_quota p)) \<Longrightarrow> fixed_ms (qw_period w) = Some n \<Longrightarrow> HEADROOM_MS < n"
  by (cases p) (auto simp: quota_defs window_consts)

lemma capacity_fuel_enough:
  "\<exists>c. capacity_fuel (Suc (length (q_windows (provider_quota p)))) (provider_quota p) i est = Some c"
  by (cases p; cases "i < length est"; cases "est ! i"; cases i)
    (auto simp: quota_defs nth_Cons' numeral_2_eq_2 split: option.splits)

lemma quota_capacity_positive:
  assumes "i < length (q_windows (provider_quota p))"
    and "\<And>c. Some c \<in> set est \<Longrightarrow> 0 < c"
  shows "0 < quota_capacity (provider_quota p) i est"
proof -
  have pos: "0 < c" if "j < length est" "est ! j = Some c" for j c
    using that assms(2) by (metis nth_mem)
  have pos0: "0 < c" if "est \<noteq> []" "est ! 0 = Some c" for c
    using that pos [of 0] by simp
  show ?thesis
    using assms(1)
    by (cases p)
      (auto simp: quota_capacity_def quota_defs nth_Cons' numeral_2_eq_2 less_Suc_eq
        FIVE_H_FALLBACK_TOKENS_def RATIO_5H_7D_def LONG_WINDOW_FALLBACK_TOKENS_def window_consts
        pos pos0 split: option.splits)
qed

lemma gates_own_id [simp]: "gates qw (qw_limit_id qw)"
  by (simp add: gates_def)

section \<open>The contract of a pacing curve\<close>

text \<open>
  What the gate needs of a ramp and its inverse, for any period the curve is used with
  (\<open>valid\<close>): inside a cycle the allowance never exceeds the whole window and never shrinks, and
  the gate (which admits a use strictly below the allowance) admits a use exactly after the time
  \<open>retry\<close> names for it.
\<close>

locale pacing_curve =
  fixes valid :: "millis \<Rightarrow> bool"
    and curve :: "millis option \<Rightarrow> millis \<Rightarrow> millis \<Rightarrow> rat option"
    and retry :: "millis option \<Rightarrow> millis \<Rightarrow> rat \<Rightarrow> rat option"
  assumes curve_le_1: "valid p \<Longrightarrow> curve (Some r) p n = Some a \<Longrightarrow> n < r \<Longrightarrow> a \<le> 1"
    and curve_mono: "valid p \<Longrightarrow> curve (Some r) p n = Some a \<Longrightarrow> curve (Some r) p m = Some b \<Longrightarrow>
      n \<le> m \<Longrightarrow> m < r \<Longrightarrow> a \<le> b"
    and retry_le_reset: "valid p \<Longrightarrow> retry (Some r) p e = Some t \<Longrightarrow> t \<le> of_int r"
    and retry_exact: "valid p \<Longrightarrow> 0 \<le> e \<Longrightarrow> n < r \<Longrightarrow> retry (Some r) p e = Some t \<Longrightarrow>
      curve (Some r) p n = Some a \<Longrightarrow> e < a \<longleftrightarrow> t < of_int n"
begin

lemma retry_is_first_admission:
  assumes "valid p" "0 \<le> e" "n < r" "retry (Some r) p e = Some t" "curve (Some r) p n = Some a"
  shows "(e < a \<longleftrightarrow> t < of_int n) \<and> t \<le> of_int r"
  using assms retry_exact retry_le_reset by blast

lemma denied_stays_denied_before:
  assumes "valid p" "curve (Some r) p n = Some a" "a \<le> e" "m \<le> n" "n < r"
    and "curve (Some r) p m = Some b"
  shows "b \<le> e"
  using assms curve_mono by (meson order_trans)

end

lemma ramp_linear_active:
  "r \<noteq> 0 \<Longrightarrow> ramp_linear (Some r) p n = min (of_int (n - (r - p)) / of_int p) 1"
  by (simp add: ramp_linear_def Let_def)

lemma ramp_after_headroom_active:
  "r \<noteq> 0 \<Longrightarrow> n < r \<Longrightarrow> ramp_after_headroom (Some r) p n =
     Some (max ((of_int (p - (r - n)) - of_int HEADROOM_MS) / of_int (p - HEADROOM_MS)) 0)"
  by (simp add: ramp_after_headroom_def Let_def)

lemma min_less_of_int: "n < r \<Longrightarrow> min x (of_int r) < of_int n \<longleftrightarrow> x < (of_int n :: rat)"
  by (auto simp: min_less_iff_disj)

interpretation linear: pacing_curve
  "\<lambda>p. 0 < p" "\<lambda>r p n. Some (ramp_linear r p n)" retry_at_linear
proof
  fix p r n m :: millis and a b e t :: rat
  assume p: "0 < p"
  show "a \<le> 1" if "Some (ramp_linear (Some r) p n) = Some a" "n < r"
    using that by (auto simp: ramp_linear_def Let_def)
  show "a \<le> b" if "Some (ramp_linear (Some r) p n) = Some a"
    "Some (ramp_linear (Some r) p m) = Some b" "n \<le> m" "m < r"
    using that p by (auto simp: ramp_linear_def Let_def intro!: min.mono divide_right_mono)
  show "t \<le> of_int r" if "retry_at_linear (Some r) p e = Some t"
    using that by (auto simp: retry_at_linear_def split: if_splits)
  show "e < a \<longleftrightarrow> t < of_int n" if "0 \<le> e" "n < r" "retry_at_linear (Some r) p e = Some t"
    "Some (ramp_linear (Some r) p n) = Some a"
  proof -
    from that have r: "r \<noteq> 0" by (auto simp: retry_at_linear_def split: if_splits)
    have "of_int (n - (r - p)) / of_int p \<le> (1 :: rat)" using p that(2) by simp
    with that(4) r have a: "a = of_int (n - (r - p)) / of_int p"
      by (simp add: ramp_linear_active min_def split: if_splits)
    have "t < of_int n \<longleftrightarrow> of_int (r - p) + e * of_int p < of_int n"
      using that(2,3) r by (auto simp: retry_at_linear_def min_less_of_int)
    also have "\<dots> \<longleftrightarrow> e * of_int p < of_int (n - (r - p))" by auto
    also have "\<dots> \<longleftrightarrow> e < a" using p unfolding a by (simp add: pos_less_divide_eq)
    finally show ?thesis by blast
  qed
qed

interpretation headroom: pacing_curve
  "\<lambda>p. HEADROOM_MS < p" ramp_after_headroom retry_at_after_headroom
proof
  fix p r n m :: millis and a b e t :: rat
  assume p: "HEADROOM_MS < p"
  show "a \<le> 1" if "ramp_after_headroom (Some r) p n = Some a" "n < r"
    using that p by (auto simp: ramp_after_headroom_def Let_def split: if_splits)
  show "a \<le> b" if "ramp_after_headroom (Some r) p n = Some a"
    "ramp_after_headroom (Some r) p m = Some b" "n \<le> m" "m < r"
    using that p
    by (auto simp: ramp_after_headroom_def Let_def intro!: max.mono divide_right_mono
        split: if_splits)
  show "t \<le> of_int r" if "retry_at_after_headroom (Some r) p e = Some t"
    using that by (auto simp: retry_at_after_headroom_def split: if_splits)
  have P: "(0 :: rat) < of_int (p - HEADROOM_MS)" using p by simp
  show "e < a \<longleftrightarrow> t < of_int n" if "0 \<le> e" "n < r" "retry_at_after_headroom (Some r) p e = Some t"
    "ramp_after_headroom (Some r) p n = Some a"
  proof -
    from that have r: "r \<noteq> 0" by (auto simp: retry_at_after_headroom_def split: if_splits)
    let ?x = "(of_int (p - (r - n)) - of_int HEADROOM_MS) / of_int (p - HEADROOM_MS) :: rat"
    from that r have a: "a = max ?x 0" by (simp add: ramp_after_headroom_active)
    have "t < of_int n \<longleftrightarrow>
        of_int (r - p) + of_int HEADROOM_MS + e * of_int (p - HEADROOM_MS) < of_int n"
      using that(2,3) r by (auto simp: retry_at_after_headroom_def min_less_of_int)
    also have "\<dots> \<longleftrightarrow> e * of_int (p - HEADROOM_MS) < of_int (p - (r - n)) - of_int HEADROOM_MS"
      by auto
    also have "\<dots> \<longleftrightarrow> e < ?x" using P by (simp only: pos_less_divide_eq)
    also have "\<dots> \<longleftrightarrow> e < a" using that(1) unfolding a by (auto simp: less_max_iff_disj)
    finally show ?thesis by blast
  qed
qed

section \<open>Reading: every expired cycle is rolled forward or dropped\<close>

lemma roll_forward_future:
  "0 < period \<Longrightarrow> roll_forward period now r c = (r', c') \<Longrightarrow> now < r'"
proof (induction period now r c rule: roll_forward.induct)
  case (1 period now r c)
  then show ?case by (subst (asm) (2) roll_forward.simps) (auto split: if_splits)
qed

lemma roll_forward_cycle:
  assumes "0 < period" "r \<le> now" "roll_forward period now r c = (r', c')"
  shows "c' = r' - period \<and> c' \<le> now \<and> now < r' \<and> period dvd (r' - r)"
  using assms
proof (induction period now r c rule: roll_forward.induct)
  case (1 period now r c)
  then have step: "roll_forward period now (r + period) r = (r', c')"
    by (subst (asm) (2) roll_forward.simps) simp
  show ?case
  proof (cases "r + period \<le> now")
    case True
    with 1 step have "c' = r' - period \<and> c' \<le> now \<and> now < r' \<and> period dvd (r' - (r + period))"
      by simp
    then obtain k where "r' - (r + period) = period * k" and
      rest: "c' = r' - period" "c' \<le> now" "now < r'" by blast
    then have "r' - r = period * (k + 1)" by (simp add: algebra_simps)
    with rest show ?thesis by (simp only: dvd_triv_left simp_thms)
  next
    case False
    with step have "r' = r + period" "c' = r"
      by (subst (asm) roll_forward.simps, simp)+
    with False 1 show ?thesis by simp
  qed
qed

definition not_expired :: "millis \<Rightarrow> window_state \<Rightarrow> bool" where
  "not_expired now w \<longleftrightarrow>
     (case ws_resets_at w of None \<Rightarrow> True | Some r \<Rightarrow> \<not> (r > 0 \<and> r \<le> now))"

lemma read_row_not_expired:
  assumes "read_row (provider_quota p) now row = Some w"
  shows "not_expired now w \<and> ws_limit_id w = ur_limit_id row"
proof (cases "\<exists>r. ur_resets_at row = Some r \<and> r > 0 \<and> r \<le> now")
  case False
  with assms show ?thesis
    by (auto simp: read_row_def not_expired_def Let_def split: if_splits option.splits)
next
  case True
  then obtain r where r: "ur_resets_at row = Some r" "r > 0" "r \<le> now" by blast
  with assms obtain qw n where qw: "quota_window_named (provider_quota p) (ur_limit_id row) = Some qw"
    and n: "fixed_ms (qw_period qw) = Some n"
    by (auto simp: read_row_def Let_def bind_eq_Some_conv split: if_splits option.splits)
  from qw have "qw \<in> set (q_windows (provider_quota p))"
    by (auto simp: quota_window_named_def dest: find_Some_set)
  with n have "0 < n" using quota_periods_positive [of qw p n] by (simp add: window_consts)
  obtain r' c' where roll: "roll_forward n now r (ur_recorded_at row) = (r', c')" by force
  from roll_forward_future [OF \<open>0 < n\<close> this] r roll qw n assms show ?thesis
    by (auto simp: read_row_def not_expired_def Let_def split: if_splits)
qed

definition well_read :: "millis \<Rightarrow> windows \<Rightarrow> bool" where
  "well_read now wins \<longleftrightarrow>
     sorted_wrt (<) (map fst wins) \<and>
     (\<forall>(lid, w) \<in> set wins. ws_limit_id w = lid \<and> not_expired now w)"

lemma read_rows_well_read:
  "well_read now acc \<Longrightarrow> read_rows decode (provider_quota p) now raws acc = Some wins \<Longrightarrow>
     well_read now wins"
proof (induction raws arbitrary: acc)
  case (Cons raw raws)
  from Cons.prems(2) obtain row where row: "decode raw = Some row"
    by (auto split: option.splits)
  show ?case
  proof (cases "read_row (provider_quota p) now row")
    case None
    with Cons row show ?thesis by simp
  next
    case (Some w)
    have "well_read now (btree_insert (ws_limit_id w) w acc)"
      using Cons.prems(1) read_row_not_expired [OF Some]
        set_btree_insert [of "ws_limit_id w" w acc]
      by (auto simp: well_read_def sorted_btree_insert)
    with Cons row Some show ?thesis by simp
  qed
qed simp

lemma read_windows_well_read: "well_read now (read_windows decode p now rows)"
proof -
  have "well_read now []" by (simp add: well_read_def)
  then show ?thesis
    by (auto simp: read_windows_def unwrap_or_def split: option.splits dest: read_rows_well_read)
qed

section \<open>Properties\<close>

text \<open>C29. The retry time a denial reports is exact: for every quota window of every provider, and a
  month start that lies before the reset it belongs to, the pacing ramp admits a non-negative use
  at a moment of the cycle if and only if that moment is strictly after the reported retry time,
  which never lies after the reset.\<close>

theorem retry_at_is_first_admission:
  assumes "qw \<in> set (q_windows (provider_quota p))"
    and "\<And>s. month_start r = Some s \<Longrightarrow> s < r"
    and "0 \<le> e" "n < r"
    and "retry_at month_start qw (Some r) e = Some t"
    and "ramp month_start qw (Some r) n = Some a"
  shows "(e < a \<longleftrightarrow> t < of_int n) \<and> t \<le> of_int r"
proof -
  from assms(5) obtain l where l: "length_ms month_start (qw_period qw) (Some r) = Some l"
    by (auto simp: retry_at_def bind_eq_Some_conv)
  show ?thesis
  proof (cases "qw_pacing qw")
    case Linear
    from l have "0 < l"
      using quota_periods_positive [OF assms(1)] assms(2)
      by (cases "qw_period qw") (auto simp: window_consts)
    with Linear l assms(3-6) show ?thesis
      by (intro linear.retry_is_first_admission) (auto simp: retry_at_def ramp_def)
  next
    case AfterHeadroom
    with l assms(1) have "fixed_ms (qw_period qw) = Some l"
      by (cases p) (auto simp: quota_defs)
    then have "HEADROOM_MS < l" using quota_periods_positive [OF assms(1)] by simp
    with AfterHeadroom l assms(3-6) show ?thesis
      by (intro headroom.retry_is_first_admission) (auto simp: retry_at_def ramp_def)
  qed
qed

theorem retry_at_is_first_admission_witness:
  "((1 / 2 :: rat) < 1 / 4 \<longleftrightarrow> (302401000 :: rat) < of_int 151201000) \<and> (302401000 :: rat) \<le> of_int 604801000"
proof (rule retry_at_is_first_admission [of "hd (q_windows ANTHROPIC)" Anthropic "\<lambda>_. None" 604801000])
  show "hd (q_windows ANTHROPIC) \<in> set (q_windows (provider_quota Anthropic))"
    by (simp add: quota_defs)
  show "retry_at (\<lambda>_. None) (hd (q_windows ANTHROPIC)) (Some 604801000) (1 / 2) = Some 302401000"
    by (simp add: quota_defs retry_at_def retry_at_linear_def window_consts)
  show "ramp (\<lambda>_. None) (hd (q_windows ANTHROPIC)) (Some 604801000) 151201000 = Some (1 / 4)"
    by (simp add: quota_defs ramp_def ramp_linear_def window_consts)
qed simp_all

text \<open>The usage snapshot a decision reads never shows an expired cycle: whatever rows the mirror
  holds and whatever cells fail to decode, every window read is filed once, in ascending order,
  under its own limit id, and carries no reset that lies in the past.\<close>

theorem read_windows_live:
  "sorted_wrt (<) (map fst (read_windows decode p now rows)) \<and>
   (\<forall>(lid, w) \<in> set (read_windows decode p now rows).
      ws_limit_id w = lid \<and> not_expired now w)"
  using read_windows_well_read [of now decode p rows] by (simp add: well_read_def)

theorem read_windows_live_witness:
  "not_expired 28000000 (snd (hd (read_windows Some Anthropic 28000000
     (Some [\<lparr>ur_limit_id = ''anthropic:5h'', ur_used_fraction = Some (9 / 10),
       ur_status = Some ''exhausted'', ur_resets_at = Some 1, ur_recorded_at = 0\<rparr>]))))"
proof -
  let ?w = "read_windows Some Anthropic 28000000
     (Some [\<lparr>ur_limit_id = ''anthropic:5h'', ur_used_fraction = Some (9 / 10),
       ur_status = Some ''exhausted'', ur_resets_at = Some 1, ur_recorded_at = 0\<rparr>])"
  have "?w \<noteq> []"
    by (simp add: read_windows_def read_row_def quota_defs quota_window_named_def roll_forward.simps
        window_consts Let_def)
  moreover have "\<forall>(lid, w) \<in> set ?w. ws_limit_id w = lid \<and> not_expired 28000000 w"
    using read_windows_live by blast
  moreover have "not_expired n (snd (hd xs))"
    if "xs \<noteq> []" "\<forall>(lid, w) \<in> set xs. ws_limit_id w = lid \<and> not_expired n w" for xs n
    using that by (cases xs) auto
  ultimately show ?thesis by blast
qed

text \<open>Rolling an expired window forward lands in the cycle the decision falls in: the new reset
  is the first multiple of the period after the old one that lies in the future, and the row then
  reads as freshly recorded, unused, at the boundary where that cycle began.\<close>

theorem read_row_rolls_to_current_cycle:
  assumes "ur_resets_at row = Some r" "0 < r" "r \<le> now"
    and "read_row (provider_quota p) now row = Some w"
  shows "\<exists>period. (\<exists>qw \<in> set (q_windows (provider_quota p)).
        qw_limit_id qw = ur_limit_id row \<and> qw_period qw = Fixed period) \<and>
      (\<exists>r'. ws_resets_at w = Some r' \<and> now < r' \<and> r' - period \<le> now \<and> period dvd (r' - r) \<and>
         ws_recorded_at w = r' - period) \<and>
      ws_used_fraction w = Some 0 \<and> ws_status w = Some ''ok''"
proof -
  from assms obtain qw n where qw: "quota_window_named (provider_quota p) (ur_limit_id row) = Some qw"
    and n: "fixed_ms (qw_period qw) = Some n"
    by (auto simp: read_row_def Let_def bind_eq_Some_conv split: if_splits option.splits)
  from qw have mem: "qw \<in> set (q_windows (provider_quota p))" "qw_limit_id qw = ur_limit_id row"
    by (auto simp: quota_window_named_def dest: find_Some_set)
  with n have "0 < n" using quota_periods_positive [of qw p n] by (simp add: window_consts)
  obtain r' c' where roll: "roll_forward n now r (ur_recorded_at row) = (r', c')" by force
  note cyc = roll_forward_cycle [OF \<open>0 < n\<close> assms(3) roll]
  from n have "qw_period qw = Fixed n" by (cases "qw_period qw") auto
  moreover from assms roll qw n have "ws_resets_at w = Some r'" "ws_recorded_at w = c'"
    "ws_used_fraction w = Some 0" "ws_status w = Some ''ok''"
    by (auto simp: read_row_def Let_def split: if_splits)
  ultimately show ?thesis using mem cyc by (intro exI [of _ n]) auto
qed

theorem read_row_rolls_to_current_cycle_witness:
  "ws_resets_at \<lparr>ws_limit_id = ''anthropic:5h'', ws_used_fraction = Some 0, ws_status = Some ''ok'',
      ws_resets_at = Some 36000001, ws_recorded_at = 18000001, ws_age_s = 9999999 / 1000\<rparr>
     = Some 36000001"
proof -
  have "read_row (provider_quota Anthropic) 28000000
      \<lparr>ur_limit_id = ''anthropic:5h'', ur_used_fraction = Some (9 / 10), ur_status = Some ''exhausted'',
        ur_resets_at = Some 1, ur_recorded_at = 0\<rparr>
    = Some \<lparr>ws_limit_id = ''anthropic:5h'', ws_used_fraction = Some 0, ws_status = Some ''ok'',
      ws_resets_at = Some 36000001, ws_recorded_at = 18000001, ws_age_s = 9999999 / 1000\<rparr>"
    by (simp add: read_row_def quota_defs quota_window_named_def roll_forward.simps window_consts)
  from read_row_rolls_to_current_cycle [OF _ _ _ this] show ?thesis by simp
qed

end
