(* ===== verification/Budget.thy ===== *)
theory Budget
  imports Quota
begin

text \<open>
  The budget decision: the verdict types and the runtime overdrive switch of \<open>backend.rs\<close>, and
  the scavenging policy of \<open>backends/omp_scavenge/facade.rs\<close> (reservations, the gate, the
  headroom cap and the paired outlook).  The spend ledger the policy reads is the locale
  \<open>spend_ledger\<close>; the store provides it.  A verdict's reason is the data its prose is formatted
  from.
\<close>

section \<open>Verdicts and outlooks\<close>

datatype job_class = HuntClass | FixClass

fun job_class_str :: "job_class \<Rightarrow> string" where
  "job_class_str HuntClass = ''hunt''"
| "job_class_str FixClass = ''fix''"

datatype reason =
    NoWindowData
  | UnknownWindow string
  | OverRamp string rat rat rat rat
  | PrioOverride reason
  | Ok

datatype verdict =
    Granted "int option" reason
  | Denied reason "rat option"

fun is_granted :: "verdict \<Rightarrow> bool" where
  "is_granted (Granted _ _) = True"
| "is_granted (Denied _ _) = False"

fun cap_of :: "verdict \<Rightarrow> int option" where
  "cap_of (Granted c _) = c"
| "cap_of (Denied _ _) = None"

record outlook =
  normal :: verdict
  prioritized :: verdict

text \<open>\<open>OverdriveBackend::decide\<close>: the switch promotes the prioritized verdict to every caller.\<close>

definition overdrive_decide :: "bool \<Rightarrow> outlook \<Rightarrow> outlook" where
  "overdrive_decide enabled out =
     (if enabled then \<lparr>normal = prioritized out, prioritized = prioritized out\<rparr> else out)"

definition null_decide :: "int \<Rightarrow> outlook" where
  "null_decide anticipated =
     (let denied = Denied NoWindowData None in \<lparr>normal = denied, prioritized = denied\<rparr>)"

text \<open>The invariant the trait states of every outlook, and its quantitative form.\<close>

definition outlook_ok :: "outlook \<Rightarrow> bool" where
  "outlook_ok out \<longleftrightarrow> (is_granted (normal out) \<longrightarrow> is_granted (prioritized out))"

definition cap_le :: "int option \<Rightarrow> int option \<Rightarrow> bool" where
  "cap_le a b = (case (a, b) of (Some x, Some y) \<Rightarrow> x \<le> y | (Some _, None) \<Rightarrow> True
     | (None, None) \<Rightarrow> True | (None, Some _) \<Rightarrow> False)"

section \<open>The spend ledger\<close>

record ledger =
  running_estimate :: int
  finished_since :: "millis \<Rightarrow> int"
  estimate_capacity :: "string \<Rightarrow> rat option"

text \<open>
  What the trait documents of \<open>estimate_capacity\<close>: an estimate, when there is one, is strictly
  positive, and an id that names no quota window has none.
\<close>

locale spend_ledger =
  fixes L :: ledger
  assumes capacity_positive: "estimate_capacity L lid = Some c \<Longrightarrow> 0 < c"
    and capacity_known_only: "window_period lid = None \<Longrightarrow> estimate_capacity L lid = None"

section \<open>Reservations\<close>

definition as_fraction :: "int \<Rightarrow> rat \<Rightarrow> rat" where
  "as_fraction tokens capacity = (if capacity > 0 then of_int tokens / capacity else 0)"

record reservation =
  rv_gate :: rat
  rv_budget :: rat
  rv_capacity :: rat

definition rv_tokens :: "reservation \<Rightarrow> rat \<Rightarrow> int" where
  "rv_tokens r fr = trunc_i64 (fr * rv_capacity r)"

definition min_list :: "'a::linorder list \<Rightarrow> 'a option" where
  "min_list xs = min_by_key (\<lambda>x. x) xs"

definition window_reservation ::
  "ledger \<Rightarrow> quota \<Rightarrow> rat option list \<Rightarrow> windows \<Rightarrow> int \<Rightarrow> millis \<Rightarrow> nat \<times> quota_window \<Rightarrow> reservation" where
  "window_reservation L q estimates wins anticipated fallback_probe iw =
     (let (index, w) = iw;
          base = running_estimate L + anticipated;
          probe_at = (case map_of wins (qw_limit_id w) of
                        None \<Rightarrow> fallback_probe | Some row \<Rightarrow> ws_recorded_at row);
          unaccounted = base + finished_since L probe_at;
          capacity = quota_capacity q index estimates
      in \<lparr>rv_gate = as_fraction unaccounted capacity,
          rv_budget = as_fraction (unaccounted - anticipated) capacity,
          rv_capacity = capacity\<rparr>)"

definition reservations :: "ledger \<Rightarrow> quota \<Rightarrow> windows \<Rightarrow> int \<Rightarrow> reservation list" where
  "reservations L q wins anticipated =
     (let fallback_probe = unwrap_or (min_list (map (ws_recorded_at \<circ> snd) wins)) 0;
          estimates = map (\<lambda>w. estimate_capacity L (qw_limit_id w)) (q_windows q)
      in map (window_reservation L q estimates wins anticipated fallback_probe)
           (enumerate 0 (q_windows q)))"

section \<open>The gate and the headroom cap\<close>

text \<open>The rows the nested loops visit: per quota window, longest first, the rows it gates in
  ascending limit id.\<close>

type_synonym gated = "quota_window \<times> reservation \<times> string \<times> window_state"

definition gated_rows :: "quota \<Rightarrow> reservation list \<Rightarrow> windows \<Rightarrow> gated list" where
  "gated_rows q resvs wins =
     concat (map (\<lambda>(qw, r). map (\<lambda>(lid, w). (qw, r, lid, w))
                              (filter (\<lambda>(lid, w). gates qw lid) wins))
              (zip (q_windows q) resvs))"

text \<open>\<open>compute_headroom\<close>: the cap one gated row leaves, if the row gates at all.\<close>

definition row_cap ::
  "(millis \<Rightarrow> millis option) \<Rightarrow> quota \<Rightarrow> bool \<Rightarrow> millis \<Rightarrow> gated \<Rightarrow> int option" where
  "row_cap ms q prio now g =
     (let (qw, r, lid, w) = g in
      case effective_used q w of
        None \<Rightarrow> None
      | Some used \<Rightarrow>
          (case ramp ms qw (ws_resets_at w) now of
             None \<Rightarrow> None
           | Some allowed \<Rightarrow>
               let ceiling = (if prio then 1 else allowed)
               in Some (rv_tokens r (max (ceiling - used - rv_budget r) 0))))"

definition compute_headroom ::
  "(millis \<Rightarrow> millis option) \<Rightarrow> quota \<Rightarrow> windows \<Rightarrow> reservation list \<Rightarrow> bool \<Rightarrow> millis \<Rightarrow> int option" where
  "compute_headroom ms q wins resvs prio now =
     min_list (List.map_filter (row_cap ms q prio now) (gated_rows q resvs wins))"

text \<open>One turn of \<open>decide_inner\<close>'s loop: \<open>None\<close> is \<open>continue\<close>.\<close>

definition row_verdict ::
  "(millis \<Rightarrow> millis option) \<Rightarrow> quota \<Rightarrow> bool \<Rightarrow> millis \<Rightarrow> gated \<Rightarrow> verdict option" where
  "row_verdict ms q prio now g =
     (let (qw, r, lid, w) = g in
      if (case ws_resets_at w of Some t \<Rightarrow> t > 0 \<and> t \<le> now | None \<Rightarrow> False) then None
      else case effective_used q w of
        None \<Rightarrow> None
      | Some reported \<Rightarrow>
          (case ramp ms qw (ws_resets_at w) now of
             None \<Rightarrow> None
           | Some allowed \<Rightarrow>
               let effective = reported + rv_gate r in
               if effective < allowed then None
               else
                 let exhausted = is_hard_stop q w;
                     retry = (if exhausted then map_option of_int (ws_resets_at w)
                              else retry_at ms qw (ws_resets_at w) effective);
                     why = OverRamp lid reported (rv_gate r) effective allowed;
                     cap = rv_tokens r (max (1 - (reported + rv_budget r)) 0)
                 in if prio \<and> \<not> exhausted \<and> cap > 0
                    then Some (Granted (Some cap) (PrioOverride why))
                    else Some (Denied why retry)))"

definition decide_inner ::
  "(millis \<Rightarrow> millis option) \<Rightarrow> quota \<Rightarrow> windows \<Rightarrow> reservation list \<Rightarrow> bool \<Rightarrow> millis \<Rightarrow> verdict" where
  "decide_inner ms q wins resvs prio now =
     (if wins = [] then Denied NoWindowData None
      else case find_map (row_verdict ms q prio now) (gated_rows q resvs wins) of
        Some v \<Rightarrow> v
      | None \<Rightarrow> Granted (compute_headroom ms q wins resvs prio now) Ok)"

definition decide_with_windows ::
  "(millis \<Rightarrow> millis option) \<Rightarrow> ledger \<Rightarrow> llm_provider \<Rightarrow> windows \<Rightarrow> int \<Rightarrow> millis \<Rightarrow> outlook" where
  "decide_with_windows ms L p wins anticipated now =
     (let q = provider_quota p in
      case find (\<lambda>w. is_missing w wins now) (q_windows q) of
        Some missing \<Rightarrow>
          (let denied = Denied (UnknownWindow (qw_limit_id missing)) None
           in \<lparr>normal = denied, prioritized = denied\<rparr>)
      | None \<Rightarrow>
          (let resvs = reservations L q wins anticipated;
               nrm = decide_inner ms q wins resvs False now
           in \<lparr>normal = nrm,
               prioritized =
                 (case nrm of
                    Granted normal_cap _ \<Rightarrow>
                      (case (compute_headroom ms q wins resvs True now, normal_cap) of
                         (Some ph, None) \<Rightarrow> Granted (Some ph) Ok
                       | (Some ph, Some nc) \<Rightarrow> if ph > nc then Granted (Some ph) Ok else nrm
                       | (None, _) \<Rightarrow> nrm)
                  | Denied _ _ \<Rightarrow> decide_inner ms q wins resvs True now)\<rparr>))"

text \<open>\<open>Backend::decide\<close>: the usage is read with the clock the decision is made at.\<close>

definition decide ::
  "(millis \<Rightarrow> millis option) \<Rightarrow> ('raw \<Rightarrow> usage_row option) \<Rightarrow> ledger \<Rightarrow> llm_provider \<Rightarrow>
   'raw list option \<Rightarrow> int \<Rightarrow> millis \<Rightarrow> outlook" where
  "decide ms decode L p rows anticipated now =
     decide_with_windows ms L p (read_windows decode p now rows) anticipated now"

section \<open>Freshness, observation and the usage snapshot\<close>

definition is_fresh :: "llm_provider \<Rightarrow> rat \<Rightarrow> windows \<Rightarrow> bool" where
  "is_fresh p stale_after_s wins =
     (case q_windows (provider_quota p) of
        [] \<Rightarrow> False
      | ws \<Rightarrow> (case map_of wins (qw_limit_id (last ws)) of
                 None \<Rightarrow> False
               | Some w \<Rightarrow> ws_age_s w \<le> stale_after_s))"

text \<open>\<open>keep_fresh\<close>: whether it probes, and the answer from the probe's exit code.\<close>

definition keep_fresh :: "llm_provider \<Rightarrow> rat \<Rightarrow> windows \<Rightarrow> int \<Rightarrow> bool \<times> bool" where
  "keep_fresh p stale_after_s wins probe_rc =
     (if is_fresh p stale_after_s wins then (False, False) else (True, probe_rc = 0))"

text \<open>\<open>observe\<close>: the calibration sample one window row gives, if any.\<close>

definition calibration_sample ::
  "(millis \<Rightarrow> millis option) \<Rightarrow> quota \<Rightarrow> (string \<Rightarrow> millis \<Rightarrow> (millis \<times> rat) option) \<Rightarrow>
   (millis \<Rightarrow> millis \<Rightarrow> int) \<Rightarrow> millis \<Rightarrow> window_state \<Rightarrow> (string \<times> millis \<times> rat \<times> int) option" where
  "calibration_sample ms q last_obs finished_between now w =
     Option.bind (Option.bind (quota_window_named q (ws_limit_id w))
                    (\<lambda>qw. length_ms ms (qw_period qw) (ws_resets_at w)))
       (\<lambda>period. case (ws_resets_at w, ws_used_fraction w) of
          (Some resets, Some used) \<Rightarrow>
            Option.bind (last_obs (ws_limit_id w) resets)
              (\<lambda>(prev_at, prev_used).
                 if used > prev_used \<and> now - prev_at \<le> period
                 then (let tokens = finished_between prev_at now in
                       if tokens > 0 then Some (ws_limit_id w, resets, used - prev_used, tokens)
                       else None)
                 else None)
        | _ \<Rightarrow> None)"

definition usage_snapshot :: "llm_provider \<Rightarrow> windows \<Rightarrow> rat option" where
  "usage_snapshot p wins =
     (case q_windows (provider_quota p) of
        [] \<Rightarrow> None
      | longest # _ \<Rightarrow>
          (case List.map_filter (\<lambda>(lid, w). if gates longest lid then ws_used_fraction w else None) wins of
             [] \<Rightarrow> None
           | x # xs \<Rightarrow> Some (fold max xs x)))"

definition usage_delta :: "rat option \<Rightarrow> rat option \<Rightarrow> rat option" where
  "usage_delta pre post =
     (case (pre, post) of (Some before, Some after) \<Rightarrow> Some (after - before) | _ \<Rightarrow> None)"


section \<open>Reservations and caps\<close>

lemma length_reservations [simp]:
  "length (reservations L q wins a) = length (q_windows q)"
  by (simp add: reservations_def Let_def)

lemma min_list_None [simp]: "min_list xs = None \<longleftrightarrow> xs = []"
  by (simp add: min_list_def)

lemma min_list_Nil [simp]: "min_list [] = None"
  by (simp add: min_list_def)

lemma min_list_Some: "min_list xs = Some m \<Longrightarrow> m \<in> set xs \<and> (\<forall>x \<in> set xs. m \<le> x)"
  unfolding min_list_def by (rule min_by_key_Some)

lemma min_list_mono:
  assumes "min_list (List.map_filter f xs) = Some m" "min_list (List.map_filter g xs) = Some n"
    and "\<And>x b. x \<in> set xs \<Longrightarrow> g x = Some b \<Longrightarrow> \<exists>a. f x = Some a \<and> a \<le> b"
  shows "m \<le> n"
proof -
  from min_list_Some [OF assms(2)] obtain x where x: "x \<in> set xs" "g x = Some n"
    by (auto simp: List.map_filter_def)
  with assms(3) obtain a where "f x = Some a" "a \<le> n" by blast
  moreover from this x have "a \<in> set (List.map_filter f xs)"
    by (force simp: List.map_filter_def)
  ultimately show ?thesis using min_list_Some [OF assms(1)] by force
qed

lemma gated_rows_reservation:
  "(qw, r, lid, w) \<in> set (gated_rows q resvs wins) \<Longrightarrow>
     \<exists>i < length (q_windows q). i < length resvs \<and> qw = q_windows q ! i \<and> r = resvs ! i \<and>
       gates qw lid \<and> (lid, w) \<in> set wins"
  by (auto simp: gated_rows_def in_set_zip)

text \<open>The estimates a reservation is computed from.\<close>

lemma reservation_capacity_positive:
  assumes "\<And>lid c. estimate_capacity L lid = Some c \<Longrightarrow> 0 < c"
    and "r \<in> set (reservations L (provider_quota p) wins a)"
  shows "0 < rv_capacity r"
proof -
  let ?q = "provider_quota p"
  let ?est = "map (\<lambda>w. estimate_capacity L (qw_limit_id w)) (q_windows ?q)"
  from assms(2) obtain i where "i < length (q_windows ?q)" "rv_capacity r = quota_capacity ?q i ?est"
    by (auto simp: reservations_def Let_def window_reservation_def in_set_enumerate_eq
        split: prod.splits)
  moreover have "0 < c" if "Some c \<in> set ?est" for c
    using that assms(1) by auto
  ultimately show ?thesis using quota_capacity_positive [of i p ?est] by simp
qed

lemma reservation_gate_budget:
  assumes "r \<in> set (reservations L q wins a)" "0 < rv_capacity r"
  shows "rv_gate r = rv_budget r + of_int a / rv_capacity r"
  using assms
  by (auto simp: reservations_def Let_def window_reservation_def as_fraction_def diff_divide_distrib
      add_divide_distrib
      in_set_enumerate_eq split: prod.splits)

lemma rv_tokens_covers:
  assumes "0 < rv_capacity r" "0 \<le> a" "a \<le> i64_max"
    and "of_int a / rv_capacity r \<le> fr"
  shows "a \<le> rv_tokens r fr"
proof -
  have "of_int a \<le> fr * rv_capacity r"
    using assms(1,4) by (simp add: pos_divide_le_eq)
  then show ?thesis
    unfolding rv_tokens_def using assms(2,3) by (rule trunc_i64_ge_int [rotated 2])
qed

section \<open>The gate\<close>

lemma find_map_None: "find_map f xs = None \<longleftrightarrow> (\<forall>x \<in> set xs. f x = None)"
  by (induction xs) (auto split: option.splits)

lemma find_map_Some: "find_map f xs = Some y \<Longrightarrow> \<exists>x \<in> set xs. f x = Some y"
  by (induction xs) (auto split: option.splits)

text \<open>A normal verdict never grants at a row: it continues past it or denies.\<close>

lemma row_verdict_normal: "row_verdict ms q False now g = Some v \<Longrightarrow> \<not> is_granted v"
  by (auto simp: row_verdict_def Let_def split: prod.splits if_splits option.splits)

lemma decide_inner_normal_grant:
  assumes "decide_inner ms q wins resvs False now = Granted c why"
  shows "c = compute_headroom ms q wins resvs False now \<and> why = Ok \<and> wins \<noteq> [] \<and>
    (\<forall>g \<in> set (gated_rows q resvs wins). row_verdict ms q False now g = None)"
proof (cases "find_map (row_verdict ms q False now) (gated_rows q resvs wins)")
  case None
  then have "\<forall>g \<in> set (gated_rows q resvs wins). row_verdict ms q False now g = None"
    by (simp only: find_map_None)
  with None assms show ?thesis by (auto simp: decide_inner_def split: if_splits)
next
  case (Some v)
  then have "\<not> is_granted v" using find_map_Some row_verdict_normal by metis
  with Some assms show ?thesis by (auto simp: decide_inner_def split: if_splits)
qed

text \<open>A row the gate passes and the cap counts leaves at least the anticipated cost.\<close>

lemma row_cap_covers:
  assumes "row_verdict ms q False now (qw, r, lid, w) = None"
    and "row_cap ms q False now (qw, r, lid, w) = Some c"
    and "not_expired now w"
    and "0 < rv_capacity r" "rv_gate r = rv_budget r + of_int a / rv_capacity r"
    and "0 \<le> a" "a \<le> i64_max"
  shows "a \<le> c"
proof -
  from assms(2) obtain used allowed where u: "effective_used q w = Some used"
    and al: "ramp ms qw (ws_resets_at w) now = Some allowed"
    and c: "c = rv_tokens r (max (allowed - used - rv_budget r) 0)"
    by (auto simp: row_cap_def Let_def split: option.splits)
  have live: "\<not> (case ws_resets_at w of Some t \<Rightarrow> t > 0 \<and> t \<le> now | None \<Rightarrow> False)"
    using assms(3) by (auto simp: not_expired_def split: option.splits)
  have "used + rv_gate r < allowed"
  proof (rule ccontr)
    assume "\<not> used + rv_gate r < allowed"
    with assms(1) u al live show False
      by (simp add: row_verdict_def Let_def split: if_splits)
  qed
  then have "of_int a / rv_capacity r \<le> max (allowed - used - rv_budget r) 0"
    using assms(5) by (simp add: max_def)
  with assms(4,6,7) c show ?thesis using rv_tokens_covers by blast
qed

lemma row_cap_prio_ge:
  assumes "row_cap ms q False now (qw, r, lid, w) = Some c" "0 < rv_capacity r"
    and "\<And>al. ramp ms qw (ws_resets_at w) now = Some al \<Longrightarrow> al \<le> 1"
  shows "\<exists>c'. row_cap ms q True now (qw, r, lid, w) = Some c' \<and> c \<le> c'"
proof -
  from assms(1) obtain used allowed where u: "effective_used q w = Some used"
    and al: "ramp ms qw (ws_resets_at w) now = Some allowed"
    and c: "c = rv_tokens r (max (allowed - used - rv_budget r) 0)"
    by (auto simp: row_cap_def Let_def split: option.splits)
  have "max (allowed - used - rv_budget r) 0 * rv_capacity r \<le>
      max (1 - used - rv_budget r) 0 * rv_capacity r"
    using assms(2) assms(3) [OF al] by (intro mult_right_mono) auto
  then have "c \<le> rv_tokens r (max (1 - used - rv_budget r) 0)"
    unfolding c rv_tokens_def
    by (intro trunc_i64_mono_nonneg) (use assms(2) in auto)
  with u al show ?thesis by (simp add: row_cap_def Let_def)
qed

text \<open>Exhaustion on a gating row of an active window: the row denies, whoever asks.\<close>

lemma row_verdict_exhausted:
  assumes "is_hard_stop q w" "not_expired now w" "0 \<le> rv_gate r"
    and "ramp ms qw (ws_resets_at w) now = Some allowed" "allowed \<le> 1"
  shows "row_verdict ms q prio now (qw, r, lid, w) =
    Some (Denied (OverRamp lid 1 (rv_gate r) (1 + rv_gate r) allowed)
            (map_option of_int (ws_resets_at w)))"
proof -
  have live: "\<not> (case ws_resets_at w of Some t \<Rightarrow> t > 0 \<and> t \<le> now | None \<Rightarrow> False)"
    using assms(2) by (auto simp: not_expired_def split: option.splits)
  have "\<not> 1 + rv_gate r < allowed" using assms(3,5) by simp
  with assms(1,4) live show ?thesis
    by (simp add: row_verdict_def effective_used_def Let_def)
qed

text \<open>The two pacings never allow more than the whole window.\<close>

lemma ramp_le_1:
  assumes "qw \<in> set (q_windows (provider_quota p))" "ramp ms qw ra now = Some al"
  shows "al \<le> 1"
proof -
  from assms(2) obtain n where n: "length_ms ms (qw_period qw) ra = Some n"
    and al: "(case qw_pacing qw of Linear \<Rightarrow> Some (ramp_linear ra n now)
      | AfterHeadroom \<Rightarrow> ramp_after_headroom ra n now) = Some al"
    by (auto simp: ramp_def bind_eq_Some_conv)
  show ?thesis
  proof (cases "qw_pacing qw")
    case Linear
    with al show ?thesis
      by (auto simp: ramp_linear_def Let_def split: option.splits if_splits)
  next
    case AfterHeadroom
    with assms(1) n obtain f where "qw_period qw = Fixed f" "n = f"
      by (cases p) (auto simp: quota_defs)
    with assms(1) have "HEADROOM_MS < n" using quota_periods_positive [of qw p n] by simp
    moreover from al AfterHeadroom obtain r where "ra = Some r" "now < r"
      by (auto simp: ramp_after_headroom_def Let_def split: option.splits if_splits)
    ultimately show ?thesis using al AfterHeadroom headroom.curve_le_1 [of n r now al] by simp
  qed
qed

lemma gated_rows_mem:
  "(qw, r, lid, w) \<in> set (gated_rows q resvs wins) \<Longrightarrow>
     qw \<in> set (q_windows q) \<and> r \<in> set resvs \<and> (lid, w) \<in> set wins \<and> gates qw lid"
  using gated_rows_reservation by (metis nth_mem)

section \<open>Backends\<close>

text \<open>The interface the scheduler sees of a backend's decision: an outlook that keeps the
  invariant, for every anticipated cost.\<close>

locale backend =
  fixes dec :: "int \<Rightarrow> outlook"
  assumes dec_outlook_ok: "outlook_ok (dec a)"
begin

lemma overdrive_outlook_ok: "outlook_ok (overdrive_decide enabled (dec a))"
  using dec_outlook_ok [of a] by (simp add: overdrive_decide_def outlook_ok_def)

lemma override_at_least_as_permissive:
  "is_granted (normal (dec a)) \<Longrightarrow>
     is_granted (if use_override then prioritized (dec a) else normal (dec a))"
  using dec_outlook_ok [of a] by (simp add: outlook_ok_def)

end

lemma decide_with_windows_outlook_ok: "outlook_ok (decide_with_windows ms L p wins a now)"
  by (auto simp: decide_with_windows_def outlook_ok_def Let_def split: option.splits verdict.splits)

interpretation omp: backend "\<lambda>a. decide ms decode L p rows a now"
  for ms decode L p rows now
  by unfold_locales (simp add: decide_def decide_with_windows_outlook_ok)

interpretation null: backend null_decide
  by unfold_locales (simp add: null_decide_def outlook_ok_def Let_def)

text \<open>How a granted normal verdict arises.\<close>

lemma decide_normal_grant:
  assumes "normal (decide_with_windows ms L p wins a now) = Granted c why"
  shows "decide_inner ms (provider_quota p) wins (reservations L (provider_quota p) wins a) False now
    = Granted c why \<and> find (\<lambda>w. is_missing w wins now) (q_windows (provider_quota p)) = None"
  using assms by (auto simp: decide_with_windows_def Let_def split: option.splits)

lemma row_cap_none_agree:
  "row_cap ms q False now g = None \<longleftrightarrow> row_cap ms q True now g = None"
  by (auto simp: row_cap_def Let_def split: prod.splits option.splits)

lemma headroom_none_agree:
  assumes "compute_headroom ms q wins rs False now = None"
  shows "compute_headroom ms q wins rs True now = None"
proof -
  have "List.map_filter (row_cap ms q True now) (gated_rows q rs wins) = []"
    if "List.map_filter (row_cap ms q False now) (gated_rows q rs wins) = []"
    using that row_cap_none_agree [of ms q now]
    by (auto simp: List.map_filter_def filter_empty_conv)
  with assms show ?thesis by (simp add: compute_headroom_def)
qed

lemma gated_rows_complete:
  assumes "qw \<in> set (q_windows q)" "length rs = length (q_windows q)"
    and "(lid, w) \<in> set wins" "gates qw lid"
  shows "\<exists>r \<in> set rs. (qw, r, lid, w) \<in> set (gated_rows q rs wins)"
proof -
  from assms(1) obtain i where i: "i < length (q_windows q)" "qw = q_windows q ! i"
    by (metis in_set_conv_nth)
  with assms(2) have "(qw, rs ! i) \<in> set (zip (q_windows q) rs)" by (force simp: in_set_zip)
  with assms(3,4) have "(qw, rs ! i, lid, w) \<in> set (gated_rows q rs wins)"
    by (force simp: gated_rows_def)
  with i assms(2) show ?thesis by (metis nth_mem)
qed

lemma reservation_gate_nonneg:
  assumes "r \<in> set (reservations L q wins a)"
    and "0 \<le> running_estimate L" "\<And>t. 0 \<le> finished_since L t" "0 \<le> a"
  shows "0 \<le> rv_gate r"
proof -
  have "(0 :: rat) \<le> of_int (running_estimate L + a + finished_since L t)" for t
    using assms(2-4) by simp
  with assms(1) show ?thesis
    by (auto simp: reservations_def Let_def window_reservation_def as_fraction_def
        simp del: of_int_add split: prod.splits)
qed

lemma headroom_prio_ge:
  assumes "spend_ledger L"
    and "compute_headroom ms (provider_quota p) wins (reservations L (provider_quota p) wins a) False now
      = Some c"
  shows "\<exists>c'. compute_headroom ms (provider_quota p) wins (reservations L (provider_quota p) wins a)
      True now = Some c' \<and> c \<le> c'"
proof -
  let ?q = "provider_quota p" and ?rs = "reservations L (provider_quota p) wins a"
  let ?gs = "gated_rows ?q ?rs wins"
  have up: "\<exists>c'. row_cap ms ?q True now g = Some c' \<and> b \<le> c'"
    if "g \<in> set ?gs" "row_cap ms ?q False now g = Some b" for g b
  proof -
    obtain qw r lid w where g: "g = (qw, r, lid, w)" by (cases g) auto
    with that gated_rows_mem have m: "qw \<in> set (q_windows ?q)" "r \<in> set ?rs" by metis+
    show ?thesis
      using that(2) unfolding g
      by (rule row_cap_prio_ge)
        (use m assms(1) reservation_capacity_positive spend_ledger.capacity_positive ramp_le_1 in \<open>blast+\<close>)
  qed
  have low: "\<exists>b. row_cap ms ?q False now g = Some b" if "row_cap ms ?q True now g = Some c'" for g c'
    using that by (auto simp: row_cap_def Let_def split: prod.splits option.splits)
  from assms(2) have ne: "List.map_filter (row_cap ms ?q False now) ?gs \<noteq> []"
    by (auto simp: compute_headroom_def)
  then obtain g b where "g \<in> set ?gs" "row_cap ms ?q False now g = Some b"
    by (force simp: List.map_filter_def filter_empty_conv)
  with up obtain c' where "row_cap ms ?q True now g = Some c'" by blast
  with \<open>g \<in> set ?gs\<close> have "List.map_filter (row_cap ms ?q True now) ?gs \<noteq> []"
    by (force simp: List.map_filter_def filter_empty_conv)
  then obtain m where m: "min_list (List.map_filter (row_cap ms ?q True now) ?gs) = Some m"
    by (cases "min_list (List.map_filter (row_cap ms ?q True now) ?gs)") auto
  from min_list_Some [OF m] obtain g' where g': "g' \<in> set ?gs" "row_cap ms ?q True now g' = Some m"
    by (auto simp: List.map_filter_def)
  with low obtain b' where b': "row_cap ms ?q False now g' = Some b'" by blast
  with up [OF g'(1) b'] g'(2) have "b' \<le> m" by simp
  moreover have "c \<le> b'"
    using min_list_Some [OF assms(2) [unfolded compute_headroom_def]] 
      map_filter_mem [where f = "row_cap ms ?q False now", OF g'(1) b'] by blast
  ultimately show ?thesis using m by (simp add: compute_headroom_def)
qed

section \<open>Properties\<close>

text \<open>C28. A grant covers the job it was asked for: whenever the normal verdict grants with a token
  cap, the cap is at least the anticipated cost the gate reserved, because the gate counts that
  cost and the cap does not.\<close>

theorem granted_cap_covers_anticipated:
  assumes "spend_ledger L" "0 \<le> a" "a \<le> i64_max"
    and "normal (decide ms decode L p rows a now) = Granted (Some cap) why"
  shows "a \<le> cap"
proof -
  let ?q = "provider_quota p" and ?wins = "read_windows decode p now rows"
  let ?rs = "reservations L ?q ?wins a"
  from assms(4) have "decide_inner ms ?q ?wins ?rs False now = Granted (Some cap) why"
    unfolding decide_def by (rule decide_normal_grant [THEN conjunct1])
  from decide_inner_normal_grant [OF this]
  have cap: "compute_headroom ms ?q ?wins ?rs False now = Some cap"
    and pass: "\<forall>g \<in> set (gated_rows ?q ?rs ?wins). row_verdict ms ?q False now g = None"
    by auto
  from min_list_Some [OF cap [unfolded compute_headroom_def]] obtain g
    where g: "g \<in> set (gated_rows ?q ?rs ?wins)" "row_cap ms ?q False now g = Some cap"
    by (auto simp: List.map_filter_def)
  obtain qw r lid w where gt: "g = (qw, r, lid, w)" by (cases g) auto
  with g gated_rows_mem have m: "r \<in> set ?rs" "(lid, w) \<in> set ?wins" by metis+
  have "not_expired now w"
    using read_windows_well_read [of now decode p rows] m(2) by (auto simp: well_read_def)
  moreover have "0 < rv_capacity r"
    using reservation_capacity_positive [OF spend_ledger.capacity_positive [OF assms(1)] m(1)] .
  ultimately show ?thesis
    using row_cap_covers [of ms ?q now qw r lid w cap a] pass g gt
      reservation_gate_budget [OF m(1)] assms(2,3) by simp
qed

definition empty_ledger :: ledger where
  "empty_ledger = \<lparr>running_estimate = 0, finished_since = (\<lambda>_. 0), estimate_capacity = (\<lambda>_. None)\<rparr>"

lemma empty_ledger_ok: "spend_ledger empty_ledger"
  by unfold_locales (simp_all add: empty_ledger_def)

definition week_row :: usage_row where
  "week_row = \<lparr>ur_limit_id = ''anthropic:7d'', ur_used_fraction = Some (1 / 10), ur_status = None,
     ur_resets_at = Some (1000 + 302400000), ur_recorded_at = 0\<rparr>"

lemma week_row_windows:
  "read_windows Some Anthropic 1000 (Some [week_row]) =
     [(''anthropic:7d'', \<lparr>ws_limit_id = ''anthropic:7d'', ws_used_fraction = Some (1 / 10),
        ws_status = None, ws_resets_at = Some 302401000, ws_recorded_at = 0, ws_age_s = 1\<rparr>)]"
  by (simp add: read_windows_def week_row_def read_row_def quota_defs Let_def)

lemmas decision_defs = decide_with_windows_def quota_defs is_missing_def
  Let_def decide_inner_def gated_rows_def reservations_def window_reservation_def gates_def
  enumerate_eq_zip min_list_def row_verdict_def effective_used_def is_hard_stop_def ramp_def
  ramp_linear_def ramp_after_headroom_def compute_headroom_def row_cap_def List.map_filter_def
  as_fraction_def quota_capacity_def empty_ledger_def rv_tokens_def trunc_i64_def i64_max_def
  FIVE_H_FALLBACK_TOKENS_def RATIO_5H_7D_def window_consts upt_conv_Cons

lemma week_row_decision:
  "normal (decide (\<lambda>_. None) Some empty_ledger Anthropic (Some [week_row]) 1000000 1000) =
     Granted (Some 26880000) Ok"
  by (simp add: decide_def week_row_windows decision_defs)

theorem granted_cap_covers_anticipated_witness: "(1000000 :: int) \<le> 26880000"
  using granted_cap_covers_anticipated [OF empty_ledger_ok _ _ week_row_decision]
  by (simp add: i64_max_def)

text \<open>Priority never does worse: whenever the normal verdict grants, the prioritized verdict of
  the same decision grants too, with a token cap at least as large.\<close>

theorem prioritized_at_least_normal:
  assumes "spend_ledger L"
    and "normal (decide ms decode L p rows a now) = Granted c why"
  shows "\<exists>c' why'. prioritized (decide ms decode L p rows a now) = Granted c' why' \<and> cap_le c c'"
proof -
  let ?q = "provider_quota p" and ?wins = "read_windows decode p now rows"
  let ?rs = "reservations L ?q ?wins a"
  from assms(2) have n: "decide_inner ms ?q ?wins ?rs False now = Granted c why"
    "find (\<lambda>w. is_missing w ?wins now) (q_windows ?q) = None"
    unfolding decide_def by (blast dest: decide_normal_grant)+
  then have c: "compute_headroom ms ?q ?wins ?rs False now = c"
    using decide_inner_normal_grant by blast
  have up: "\<exists>h'. compute_headroom ms ?q ?wins ?rs True now = Some h' \<and> h \<le> h'"
    if "c = Some h" for h
    using headroom_prio_ge [OF assms(1), of ms p ?wins a now h] c that by simp
  show ?thesis
  proof (cases c)
    case None
    with c have "compute_headroom ms ?q ?wins ?rs True now = None"
      by (rule_tac ccontr) (auto dest!: headroom_none_agree)
    with None n show ?thesis
      by (simp add: decide_def decide_with_windows_def Let_def cap_le_def)
  next
    case (Some h)
    with up obtain h' where "compute_headroom ms ?q ?wins ?rs True now = Some h'" "h \<le> h'" by blast
    with Some n show ?thesis
      by (auto simp: decide_def decide_with_windows_def Let_def cap_le_def)
  qed
qed

theorem prioritized_at_least_normal_witness:
  "\<exists>c' why'. prioritized (decide (\<lambda>_. None) Some empty_ledger Anthropic (Some [week_row]) 1000000 1000)
     = Granted c' why' \<and> cap_le (Some 26880000) c'"
  by (rule prioritized_at_least_normal [OF empty_ledger_ok week_row_decision])

text \<open>An exhausted window stops normal work: when a row of the usage snapshot reports the hard
  stop and one of the provider's windows that is inside its cycle gates it, no normal request is
  granted, whatever it anticipates.\<close>

theorem exhausted_denies_normal:
  assumes "0 \<le> running_estimate L" "\<And>t. 0 \<le> finished_since L t" "0 \<le> a"
    and "(lid, w) \<in> set (read_windows decode p now rows)"
    and "qw \<in> set (q_windows (provider_quota p))" "gates qw lid"
    and "is_hard_stop (provider_quota p) w"
    and "ramp ms qw (ws_resets_at w) now = Some allowed"
  shows "\<not> is_granted (normal (decide ms decode L p rows a now))"
proof
  let ?q = "provider_quota p" and ?wins = "read_windows decode p now rows"
  let ?rs = "reservations L ?q ?wins a"
  assume "is_granted (normal (decide ms decode L p rows a now))"
  then obtain c why where "normal (decide ms decode L p rows a now) = Granted c why"
    by (cases "normal (decide ms decode L p rows a now)") auto
  then have "decide_inner ms ?q ?wins ?rs False now = Granted c why"
    unfolding decide_def by (blast dest: decide_normal_grant)
  from decide_inner_normal_grant [OF this]
  have pass: "\<forall>g \<in> set (gated_rows ?q ?rs ?wins). row_verdict ms ?q False now g = None"
    by blast
  from gated_rows_complete [OF assms(5) _ assms(4,6), of ?rs] obtain r
    where r: "r \<in> set ?rs" "(qw, r, lid, w) \<in> set (gated_rows ?q ?rs ?wins)" by auto
  have "not_expired now w"
    using read_windows_well_read [of now decode p rows] assms(4) by (auto simp: well_read_def)
  moreover have "0 \<le> rv_gate r" using reservation_gate_nonneg [OF r(1) assms(1-3)] .
  ultimately have "row_verdict ms ?q False now (qw, r, lid, w) \<noteq> None"
    using row_verdict_exhausted assms(7,8) ramp_le_1 [OF assms(5,8)] by blast
  with bspec [OF pass r(2)] show False by contradiction
qed

definition spent_row :: usage_row where
  "spent_row = \<lparr>ur_limit_id = ''anthropic:5h'', ur_used_fraction = Some 1,
     ur_status = Some ''exhausted'', ur_resets_at = Some (1000 + 9000000), ur_recorded_at = 0\<rparr>"

theorem exhausted_denies_normal_witness:
  "\<not> is_granted (normal (decide (\<lambda>_. None) Some empty_ledger Anthropic (Some [spent_row]) 0 1000))"
  by (rule exhausted_denies_normal [where lid = "''anthropic:5h''"
        and qw = "last (q_windows ANTHROPIC)" and allowed = "(9000000 - 1800000) / 16200000"
        and w = "\<lparr>ws_limit_id = ''anthropic:5h'', ws_used_fraction = Some 1,
          ws_status = Some ''exhausted'', ws_resets_at = Some 9001000, ws_recorded_at = 0,
          ws_age_s = 1\<rparr>"])
    (simp_all add: empty_ledger_def read_windows_def spent_row_def read_row_def quota_defs Let_def
      gates_def is_hard_stop_def ramp_def ramp_after_headroom_def window_consts)

text \<open>The overdrive switch promotes and never demotes: switched on, both verdicts of an outlook
  become the prioritized one, so a caller without priority gets exactly what priority would get;
  switched off, the outlook is untouched; and either way a granted normal verdict still comes with
  a granted prioritized one, for the scavenging policy and the null backend alike.\<close>

theorem overdrive_promotes:
  "overdrive_decide True out = \<lparr>normal = prioritized out, prioritized = prioritized out\<rparr> \<and>
   overdrive_decide False out = out \<and>
   outlook_ok (overdrive_decide enabled (decide ms decode L p rows a now)) \<and>
   outlook_ok (overdrive_decide enabled (null_decide a))"
  by (intro conjI omp.overdrive_outlook_ok null.overdrive_outlook_ok)
    (simp_all add: overdrive_decide_def)

definition busy_row :: usage_row where
  "busy_row = week_row\<lparr>ur_used_fraction := Some (6 / 10)\<rparr>"

lemma busy_spent_windows:
  "read_windows Some Anthropic 1000 (Some [busy_row, spent_row]) =
     [(''anthropic:5h'', \<lparr>ws_limit_id = ''anthropic:5h'', ws_used_fraction = Some 1,
        ws_status = Some ''exhausted'', ws_resets_at = Some 9001000, ws_recorded_at = 0,
        ws_age_s = 1\<rparr>),
      (''anthropic:7d'', \<lparr>ws_limit_id = ''anthropic:7d'', ws_used_fraction = Some (6 / 10),
        ws_status = None, ws_resets_at = Some 302401000, ws_recorded_at = 0, ws_age_s = 1\<rparr>)]"
  by (simp add: read_windows_def busy_row_def week_row_def spent_row_def read_row_def quota_defs Let_def)

lemma spent_windows:
  "read_windows Some Anthropic 1000 (Some [spent_row]) =
     [(''anthropic:5h'', \<lparr>ws_limit_id = ''anthropic:5h'', ws_used_fraction = Some 1,
        ws_status = Some ''exhausted'', ws_resets_at = Some 9001000, ws_recorded_at = 0,
        ws_age_s = 1\<rparr>)]"
  by (simp add: read_windows_def spent_row_def read_row_def quota_defs Let_def)

lemma busy_windows:
  "read_windows Some Anthropic 1000 (Some [busy_row]) =
     [(''anthropic:7d'', \<lparr>ws_limit_id = ''anthropic:7d'', ws_used_fraction = Some (6 / 10),
        ws_status = None, ws_resets_at = Some 302401000, ws_recorded_at = 0, ws_age_s = 1\<rparr>)]"
  by (simp add: read_windows_def busy_row_def week_row_def read_row_def quota_defs Let_def)

text \<open>Where the gate falls short of what the provider notes promise: with the short window
  exhausted, prioritized work is still granted as soon as the longer window is over its ramp,
  because the override of the first over-ramp window answers before the loop reaches the
  exhausted one.\<close>

theorem prioritized_granted_past_exhausted_window:
  "is_hard_stop ANTHROPIC (snd (hd (read_windows Some Anthropic 1000 (Some [busy_row, spent_row])))) \<and>
   is_granted (prioritized
     (decide (\<lambda>_. None) Some empty_ledger Anthropic (Some [busy_row, spent_row]) 1000000 1000)) \<and>
   \<not> is_granted (prioritized
     (decide (\<lambda>_. None) Some empty_ledger Anthropic (Some [spent_row]) 1000000 1000))"
  by (simp add: decide_def busy_spent_windows spent_windows decision_defs)

text \<open>A prioritized grant may cap a job below the cost it was asked for: over the ramp, the
  override grants whatever the window has left.\<close>

theorem prioritized_cap_below_anticipated:
  "\<exists>cap why. prioritized (decide (\<lambda>_. None) Some empty_ledger Anthropic (Some [busy_row]) 30000000 1000)
      = Granted (Some cap) (PrioOverride why) \<and> cap < 30000000"
  by (simp add: decide_def busy_windows decision_defs)

end
