(* ===== verification/Tables.thy ===== *)
theory Tables
  imports Domain
begin

text \<open>
  The tables of \<open>hunter.db\<close> as the store sees them (\<open>types.rs\<close>, \<open>store.rs\<close> and the schema of
  \<open>migrations/\<close>): one record per row, a table as the list of its rows, the database as the record
  of its tables.  A nullable column is an option.  The queries and updates of the later theories
  are total functions on this record; \<open>now\<close> is the clock reading the source takes inside the
  method.
\<close>

section \<open>Rows\<close>

record repo =
  r_id :: int
  r_name :: string
  r_url :: string
  r_path :: string
  r_forge :: forge_name
  r_default_branch :: string
  r_last_hunt_sha :: "string option"
  r_last_hunt_at :: "millis option"
  r_enabled :: int
  r_added_at :: millis
  r_last_full_hunt_at :: "millis option"
  r_last_test_gap_at :: "millis option"
  r_last_dep_update_at :: "millis option"
  r_last_refactor_at :: "millis option"
  r_last_modernization_at :: "millis option"
  r_last_standards_at :: "millis option"
  r_full_hunt_requested_at :: "int option"
  r_full_hunt_request_attempted :: "int option"
  r_deleted_at :: "millis option"

record finding =
  f_id :: int
  f_kind :: finding_type
  f_repo_id :: int
  f_fingerprint :: string
  f_file :: "string option"
  f_symbol :: "string option"
  f_line :: "int option"
  f_severity :: severity
  f_confidence :: rat
  f_summary :: string
  f_detail :: "string option"
  f_status :: finding_status
  f_pr_url :: "string option"
  f_created_at :: millis
  f_updated_at :: millis
  f_bug_class :: "bug_class option"
  f_evidence_plan :: "string option"
  f_introduced_by :: "string option"
  f_rung_achieved :: "int option"
  f_verdict_reason :: "string option"
  f_budget_override :: "budget_override option"
  f_fix_attempts :: int
  f_last_fix_failure :: "string option"
  f_recheck_attempts :: int
  f_last_recheck_failure :: "string option"
  f_ecosystem :: "string option"
  f_package :: "string option"
  f_current_version :: "string option"
  f_latest_version :: "string option"
  f_update_type :: "string option"
  f_security_advisory :: "string option"
  f_missing_tests :: "string option"
  f_test_file :: "string option"
  f_smell_type :: "string option"
  f_suggested_refactor :: "string option"
  f_modernization_class :: "string option"
  f_current_approach :: "string option"
  f_proposed_approach :: "string option"
  f_standard_section :: "string option"
  f_found_by_job :: "int option"

record job =
  j_id :: int
  j_kind :: job_kind
  j_repo_id :: int
  j_finding_id :: "int option"
  j_state :: job_state
  j_pid :: "int option"
  j_session_file :: "string option"
  j_cap_tokens :: "int option"
  j_tokens_new :: "int option"
  j_calls :: "int option"
  j_exit_code :: "int option"
  j_killed_reason :: "string option"
  j_notes :: "string option"
  j_model :: "string option"
  j_usage_delta :: "rat option"
  j_started_at :: "millis option"
  j_finished_at :: "millis option"
  j_estimated_tokens :: "int option"
  j_resumed_from :: "int option"
  j_pinned_sha :: "string option"
  j_blocker :: "string option"
  j_full_history :: bool
  j_full_hunt_request :: "int option"

record pr =
  p_finding_id :: int
  p_number :: "int option"
  p_state :: "string option"
  p_mergeable :: "string option"
  p_checks :: "string option"
  p_head_ref :: "string option"
  p_last_activity_at :: "millis option"
  p_last_engaged_activity_at :: "millis option"
  p_needs_attention :: "string option"
  p_attention_since :: "millis option"
  p_attention_fingerprint :: "string option"
  p_addressed_fingerprint :: "string option"
  p_head_sha :: "string option"
  p_addressed_head_sha :: "string option"
  p_synced_at :: "millis option"
  p_harvested_at :: "millis option"
  p_harvest_attempts :: int
  p_last_harvest_failure :: "string option"

record verdict_anchor =
  va_sha :: string
  va_files :: "string list"
  va_holds_while :: "string option"

record anchor_row =
  a_finding_id :: int
  a_anchor :: verdict_anchor
  a_created_at :: millis

record event =
  e_id :: int
  e_at :: millis
  e_kind :: string
  e_message :: string
  e_job_id :: "int option"
  e_finding_id :: "int option"
  e_user_id :: "int option"

record window_obs =
  wo_observed_at :: millis
  wo_limit_id :: string
  wo_used_fraction :: "rat option"
  wo_status :: "string option"
  wo_resets_at :: "millis option"
  wo_source_age_s :: int

record calibration =
  cs_observed_at :: millis
  cs_limit_id :: string
  cs_window_resets_at :: "millis option"
  cs_used_fraction_delta :: rat
  cs_hunter_tokens :: int

record sched_state =
  ss_state :: string
  ss_detail :: string
  ss_next_wake_at :: "millis option"
  ss_updated_at :: millis

record user =
  u_id :: int
  u_username :: string
  u_password_hash :: string
  u_created_at :: millis
  u_disabled_at :: "millis option"

record session =
  se_token_hash :: string
  se_user_id :: int
  se_created_at :: millis
  se_expires_at :: millis

record db =
  db_repo_seq :: int
  db_repos :: "repo list"
  db_findings :: "finding list"
  db_jobs :: "job list"
  db_prs :: "pr list"
  db_anchors :: "anchor_row list"
  db_events :: "event list"
  db_window_log :: "window_obs list"
  db_calibration :: "calibration list"
  db_sched :: "sched_state option"
  db_users :: "user list"
  db_sessions :: "session list"

datatype write_error = Refused string | RowNotFound | Constraint string

abbreviation K_fix :: job_kind where "K_fix \<equiv> Finding_kind FFix"
abbreviation K_engage :: job_kind where "K_engage \<equiv> Finding_kind FEngage"
abbreviation K_harvest :: job_kind where "K_harvest \<equiv> Finding_kind FHarvest"
abbreviation K_recheck :: job_kind where "K_recheck \<equiv> Finding_kind FRecheck"
abbreviation K_hunt :: job_kind where "K_hunt \<equiv> Repo_kind RHunt"

section \<open>SQL\<close>

text \<open>\<open>COALESCE\<close> of a bound value and a column, \<open><>\<close> on two nullable values (unknown, hence not
  satisfied, when either is NULL), \<open>SUM\<close> of a nullable column with the default 0, and the row
  id an \<open>INTEGER PRIMARY KEY\<close> table gives the next row.\<close>

definition coalesce :: "'a option \<Rightarrow> 'a option \<Rightarrow> 'a option" where
  "coalesce a b = opt_or a b"

definition sql_ne :: "'a option \<Rightarrow> 'a option \<Rightarrow> bool" where
  "sql_ne a b = (case (a, b) of (Some x, Some y) \<Rightarrow> x \<noteq> y | _ \<Rightarrow> False)"

definition sql_eq :: "'a option \<Rightarrow> 'a option \<Rightarrow> bool" where
  "sql_eq a b = (case (a, b) of (Some x, Some y) \<Rightarrow> x = y | _ \<Rightarrow> False)"

definition sum_col :: "int option list \<Rightarrow> int" where
  "sum_col xs = sum_list (map (\<lambda>x. unwrap_or x 0) xs)"

fun max_col :: "int option list \<Rightarrow> int option" where
  "max_col [] = None"
| "max_col (None # xs) = max_col xs"
| "max_col (Some x # xs) = (case max_col xs of None \<Rightarrow> Some x | Some y \<Rightarrow> Some (max x y))"

definition next_id :: "int list \<Rightarrow> int" where
  "next_id ids = (case ids of [] \<Rightarrow> 1 | _ \<Rightarrow> fold max ids 0 + 1)"

lemma fold_max_ge_start: "(a :: int) \<le> fold max xs a"
proof (induction xs arbitrary: a)
  case (Cons x xs)
  have "a \<le> max x a" by simp
  also have "\<dots> \<le> fold max xs (max x a)" by (rule Cons.IH)
  finally show ?case by simp
qed simp

lemma fold_max_ge: "x \<in> set xs \<Longrightarrow> x \<le> fold max xs (a :: int)"
proof (induction xs arbitrary: a)
  case (Cons y xs)
  show ?case
  proof (cases "x = y")
    case True
    have "y \<le> max y a" by simp
    also have "\<dots> \<le> fold max xs (max y a)" by (rule fold_max_ge_start)
    finally show ?thesis using True by simp
  next
    case False
    with Cons show ?thesis by simp
  qed
qed simp

lemma next_id_fresh: "i \<in> set ids \<Longrightarrow> i < next_id ids"
proof (cases ids)
  case (Cons a as)
  assume "i \<in> set ids"
  then have "i \<le> fold max ids 0" by (rule fold_max_ge)
  with Cons show ?thesis by (simp add: next_id_def)
qed simp

lemma next_id_notin [simp]: "next_id ids \<notin> set ids"
  using next_id_fresh by blast

section \<open>A table with a key\<close>

text \<open>
  The interface every keyed table offers: look a row up by its key, update the rows a condition
  picks without moving a key.  The laws are those of \<open>SELECT .. WHERE id = ?\<close> and \<open>UPDATE .. WHERE\<close>
  on a primary key.
\<close>

locale keyed_table =
  fixes key :: "'r \<Rightarrow> int"
    and rows :: "'d \<Rightarrow> 'r list"
    and get :: "'d \<Rightarrow> int \<Rightarrow> 'r option"
    and upd :: "('r \<Rightarrow> bool) \<Rightarrow> ('r \<Rightarrow> 'r) \<Rightarrow> 'd \<Rightarrow> 'd"
  assumes get_rows: "get d k = find (\<lambda>r. key r = k) (rows d)"
    and rows_upd: "rows (upd P f d) = update_where P f (rows d)"
    and upd_same: "update_where P f (rows d) = rows d \<Longrightarrow> upd P f d = d"
begin

lemma get_upd:
  assumes "\<And>r. key (f r) = key r"
  shows "get (upd P f d) k = map_option (\<lambda>r. if P r then f r else r) (get d k)"
  unfolding get_rows rows_upd by (rule find_update_where) (rule assms)

lemma get_SomeD: "get d k = Some r \<Longrightarrow> r \<in> set (rows d) \<and> key r = k"
  unfolding get_rows by (auto dest: find_Some_set)

lemma get_upd_key:
  assumes "get d k = Some r" "\<And>r. key (f r) = key r"
  shows "get (upd (\<lambda>r. key r = k) f d) k = Some (f r)"
  using assms get_SomeD [OF assms(1)] by (simp add: get_upd)

lemma get_upd_other:
  assumes "\<And>r. P r \<Longrightarrow> key r = i" "i \<noteq> k" "\<And>r. key (f r) = key r"
  shows "get (upd P f d) k = get d k"
proof (cases "get d k")
  case (Some r)
  then have "\<not> P r" using get_SomeD assms(1,2) by blast
  with Some show ?thesis by (simp add: get_upd assms(3))
qed (simp add: get_upd assms(3))

lemma get_None_iff: "get d k = None \<longleftrightarrow> k \<notin> key ` set (rows d)"
  by (auto simp: get_rows find_None_iff)

lemma get_unique:
  assumes "distinct (map key (rows d))" "r \<in> set (rows d)"
  shows "get d (key r) = Some r"
proof -
  have "find (\<lambda>x. key x = key r) rs = Some r" if "distinct (map key rs)" "r \<in> set rs" for rs
    using that
  proof (induction rs)
    case (Cons x xs)
    then show ?case by (cases "x = r") (auto simp: rev_image_eqI)
  qed simp
  with assms show ?thesis by (simp add: get_rows)
qed

lemma upd_none: "(\<And>r. r \<in> set (rows d) \<Longrightarrow> \<not> P r) \<Longrightarrow> upd P f d = d"
  by (rule upd_same, rule update_where_none)

lemma keys_upd: "(\<And>r. key (f r) = key r) \<Longrightarrow> map key (rows (upd P f d)) = map key (rows d)"
  by (simp add: rows_upd map_update_where)

end

definition get_finding :: "db \<Rightarrow> int \<Rightarrow> finding option" where
  "get_finding d k = find (\<lambda>f. f_id f = k) (db_findings d)"

definition upd_findings :: "(finding \<Rightarrow> bool) \<Rightarrow> (finding \<Rightarrow> finding) \<Rightarrow> db \<Rightarrow> db" where
  "upd_findings P f d = d\<lparr>db_findings := update_where P f (db_findings d)\<rparr>"

definition get_job :: "db \<Rightarrow> int \<Rightarrow> job option" where
  "get_job d k = find (\<lambda>j. j_id j = k) (db_jobs d)"

definition upd_jobs :: "(job \<Rightarrow> bool) \<Rightarrow> (job \<Rightarrow> job) \<Rightarrow> db \<Rightarrow> db" where
  "upd_jobs P f d = d\<lparr>db_jobs := update_where P f (db_jobs d)\<rparr>"

definition get_repo_row :: "db \<Rightarrow> int \<Rightarrow> repo option" where
  "get_repo_row d k = find (\<lambda>r. r_id r = k) (db_repos d)"

definition upd_repos :: "(repo \<Rightarrow> bool) \<Rightarrow> (repo \<Rightarrow> repo) \<Rightarrow> db \<Rightarrow> db" where
  "upd_repos P f d = d\<lparr>db_repos := update_where P f (db_repos d)\<rparr>"

definition get_pr_state :: "db \<Rightarrow> int \<Rightarrow> pr option" where
  "get_pr_state d k = find (\<lambda>p. p_finding_id p = k) (db_prs d)"

definition upd_prs :: "(pr \<Rightarrow> bool) \<Rightarrow> (pr \<Rightarrow> pr) \<Rightarrow> db \<Rightarrow> db" where
  "upd_prs P f d = d\<lparr>db_prs := update_where P f (db_prs d)\<rparr>"

lemmas table_defs = get_finding_def upd_findings_def get_job_def upd_jobs_def get_repo_row_def
  upd_repos_def get_pr_state_def upd_prs_def

interpretation findings: keyed_table f_id db_findings get_finding upd_findings
  by unfold_locales (simp_all add: table_defs)

interpretation jobs: keyed_table j_id db_jobs get_job upd_jobs
  by unfold_locales (simp_all add: table_defs)

interpretation repos: keyed_table r_id db_repos get_repo_row upd_repos
  by unfold_locales (simp_all add: table_defs)

interpretation prs: keyed_table p_finding_id db_prs get_pr_state upd_prs
  by unfold_locales (simp_all add: table_defs)

text \<open>Each update touches its own table only.\<close>

lemma upd_findings_frame [frame_simps]:
  "db_repos (upd_findings P f d) = db_repos d" "db_jobs (upd_findings P f d) = db_jobs d"
  "db_prs (upd_findings P f d) = db_prs d" "db_anchors (upd_findings P f d) = db_anchors d"
  "db_events (upd_findings P f d) = db_events d" "db_sched (upd_findings P f d) = db_sched d"
  "db_findings (upd_findings P f d) = update_where P f (db_findings d)"
  by (simp_all add: upd_findings_def)

lemma upd_jobs_frame [frame_simps]:
  "db_repos (upd_jobs P f d) = db_repos d" "db_findings (upd_jobs P f d) = db_findings d"
  "db_prs (upd_jobs P f d) = db_prs d" "db_anchors (upd_jobs P f d) = db_anchors d"
  "db_events (upd_jobs P f d) = db_events d" "db_sched (upd_jobs P f d) = db_sched d"
  "db_jobs (upd_jobs P f d) = update_where P f (db_jobs d)"
  by (simp_all add: upd_jobs_def)

lemma upd_repos_frame [frame_simps]:
  "db_findings (upd_repos P f d) = db_findings d" "db_jobs (upd_repos P f d) = db_jobs d"
  "db_prs (upd_repos P f d) = db_prs d" "db_anchors (upd_repos P f d) = db_anchors d"
  "db_events (upd_repos P f d) = db_events d" "db_sched (upd_repos P f d) = db_sched d"
  "db_repos (upd_repos P f d) = update_where P f (db_repos d)"
  by (simp_all add: upd_repos_def)

lemma upd_prs_frame [frame_simps]:
  "db_findings (upd_prs P f d) = db_findings d" "db_jobs (upd_prs P f d) = db_jobs d"
  "db_repos (upd_prs P f d) = db_repos d" "db_anchors (upd_prs P f d) = db_anchors d"
  "db_events (upd_prs P f d) = db_events d" "db_sched (upd_prs P f d) = db_sched d"
  "db_prs (upd_prs P f d) = update_where P f (db_prs d)"
  by (simp_all add: upd_prs_def)

section \<open>Events\<close>

definition insert_event ::
  "millis \<Rightarrow> string \<Rightarrow> string \<Rightarrow> int option \<Rightarrow> int option \<Rightarrow> int option \<Rightarrow> db \<Rightarrow> db" where
  "insert_event now kind message job_id finding_id user_id d =
     d\<lparr>db_events := db_events d @
         [\<lparr>e_id = next_id (map e_id (db_events d)), e_at = now, e_kind = kind, e_message = message,
           e_job_id = job_id, e_finding_id = finding_id, e_user_id = user_id\<rparr>]\<rparr>"

definition log_event :: "millis \<Rightarrow> string \<Rightarrow> string \<Rightarrow> int option \<Rightarrow> int option \<Rightarrow> db \<Rightarrow> db" where
  "log_event now kind message job_id finding_id d =
     insert_event now kind message job_id finding_id None d"

lemma insert_event_frame [frame_simps]:
  "db_findings (insert_event now k m j f u d) = db_findings d"
  "db_jobs (insert_event now k m j f u d) = db_jobs d"
  "db_repos (insert_event now k m j f u d) = db_repos d"
  "db_prs (insert_event now k m j f u d) = db_prs d"
  "db_anchors (insert_event now k m j f u d) = db_anchors d"
  by (simp_all add: insert_event_def)

lemma log_event_frame [frame_simps]:
  "db_findings (log_event now k m j f d) = db_findings d"
  "db_jobs (log_event now k m j f d) = db_jobs d"
  "db_repos (log_event now k m j f d) = db_repos d"
  "db_prs (log_event now k m j f d) = db_prs d"
  "db_anchors (log_event now k m j f d) = db_anchors d"
  by (simp_all add: log_event_def frame_simps)

section \<open>The empty database\<close>

definition empty_db :: db where
  "empty_db = \<lparr>db_repo_seq = 0, db_repos = [], db_findings = [], db_jobs = [], db_prs = [], db_anchors = [],
     db_events = [], db_window_log = [], db_calibration = [], db_sched = None, db_users = [],
     db_sessions = []\<rparr>"

end
