(* ===== verification/StoreFindings.thy ===== *)
theory StoreFindings
  imports Tables
begin

text \<open>
  The store's operations on findings and verdict anchors (\<open>store.rs\<close>): status transitions and
  verdicts, the anchor a suppressing verdict rests on, insertion and dependency-update
  bookkeeping, failure streaks, and the compare-and-set that claims a finding for a job.  An
  operation the source runs in one transaction is one function here.
\<close>

section \<open>Status and verdicts\<close>

definition set_finding_status :: "millis \<Rightarrow> int \<Rightarrow> finding_status \<Rightarrow> db \<Rightarrow> db" where
  "set_finding_status now fid status d =
     upd_findings (\<lambda>f. f_id f = fid) (\<lambda>f. f\<lparr>f_status := status, f_updated_at := now\<rparr>) d"

definition write_anchor :: "millis \<Rightarrow> int \<Rightarrow> verdict_anchor option \<Rightarrow> db \<Rightarrow> db" where
  "write_anchor now fid anchor d =
     (case anchor of
        None \<Rightarrow> d\<lparr>db_anchors := filter (\<lambda>a. a_finding_id a \<noteq> fid) (db_anchors d)\<rparr>
      | Some va \<Rightarrow>
          if \<exists>a \<in> set (db_anchors d). a_finding_id a = fid
          then d\<lparr>db_anchors := update_where (\<lambda>a. a_finding_id a = fid)
                   (\<lambda>a. a\<lparr>a_anchor := va, a_created_at := now\<rparr>) (db_anchors d)\<rparr>
          else d\<lparr>db_anchors := db_anchors d @
                   [\<lparr>a_finding_id = fid, a_anchor = va, a_created_at = now\<rparr>]\<rparr>)"

definition set_anchored_verdict ::
  "millis \<Rightarrow> int \<Rightarrow> finding_status \<Rightarrow> string \<Rightarrow> verdict_anchor option \<Rightarrow> db \<Rightarrow> db" where
  "set_anchored_verdict now fid status reason anchor d =
     write_anchor now fid anchor
       (upd_findings (\<lambda>f. f_id f = fid)
          (\<lambda>f. f\<lparr>f_status := status, f_verdict_reason := Some reason, f_updated_at := now\<rparr>) d)"

definition set_finding_verdict :: "millis \<Rightarrow> int \<Rightarrow> finding_status \<Rightarrow> string \<Rightarrow> db \<Rightarrow> db" where
  "set_finding_verdict now fid status reason d = set_anchored_verdict now fid status reason None d"

definition set_verdict_if ::
  "millis \<Rightarrow> int \<Rightarrow> finding_status \<Rightarrow> finding_status \<Rightarrow> string \<Rightarrow> db \<Rightarrow> bool \<times> db" where
  "set_verdict_if now fid from_status status reason d =
     (let P = (\<lambda>f. f_id f = fid \<and> f_status f = from_status);
          was_set = 0 < rows_affected P (db_findings d);
          d1 = upd_findings P
                 (\<lambda>f. f\<lparr>f_status := status, f_verdict_reason := Some reason, f_updated_at := now\<rparr>) d
      in (was_set, if was_set then write_anchor now fid None d1 else d1))"

definition finding_anchor :: "int \<Rightarrow> db \<Rightarrow> verdict_anchor option" where
  "finding_anchor fid d = map_option a_anchor (find (\<lambda>a. a_finding_id a = fid) (db_anchors d))"

definition suppression_anchors :: "int \<Rightarrow> finding_type \<Rightarrow> db \<Rightarrow> (int \<times> verdict_anchor) list" where
  "suppression_anchors repo_id kind d =
     sort_key fst
       (map (\<lambda>a. (a_finding_id a, a_anchor a))
          (filter (\<lambda>a. \<exists>f \<in> set (db_findings d). f_id f = a_finding_id a \<and> f_repo_id f = repo_id \<and>
               f_kind f = kind \<and> f_status f \<in> {Rejected, Wontfix}) (db_anchors d)))"

definition reconfirm_anchor :: "millis \<Rightarrow> int \<Rightarrow> string \<Rightarrow> string option \<Rightarrow> db \<Rightarrow> db" where
  "reconfirm_anchor now fid sha holds d =
     d\<lparr>db_anchors := update_where
         (\<lambda>a. a_finding_id a = fid \<and>
            (\<exists>f \<in> set (db_findings d). f_id f = a_finding_id a \<and> f_status f \<in> {Rejected, Wontfix}))
         (\<lambda>a. a\<lparr>a_anchor := (a_anchor a)\<lparr>va_sha := sha,
                   va_holds_while := coalesce holds (va_holds_while (a_anchor a))\<rparr>,
                a_created_at := now\<rparr>)
         (db_anchors d)\<rparr>"

section \<open>Inserting and reopening\<close>

record finding_insert =
  fi_fingerprint :: string
  fi_file :: string
  fi_symbol :: "string option"
  fi_line :: "int option"
  fi_severity :: severity
  fi_confidence :: rat
  fi_summary :: string
  fi_detail :: "string option"
  fi_bug_class :: "bug_class option"
  fi_evidence_plan :: "string option"
  fi_introduced_by :: "string option"
  fi_ecosystem :: "string option"
  fi_package :: "string option"
  fi_current_version :: "string option"
  fi_latest_version :: "string option"
  fi_update_type :: "string option"
  fi_security_advisory :: "string option"
  fi_missing_tests :: "string option"
  fi_test_file :: "string option"
  fi_smell_type :: "string option"
  fi_suggested_refactor :: "string option"
  fi_modernization_class :: "string option"
  fi_current_approach :: "string option"
  fi_proposed_approach :: "string option"
  fi_standard_section :: "string option"

text \<open>\<open>FindingInsert::default()\<close>, which the parsers fill in by record update.\<close>

definition finding_insert_default :: finding_insert where
  "finding_insert_default = \<lparr>fi_fingerprint = [], fi_file = [], fi_symbol = None, fi_line = None,
     fi_severity = severity_default, fi_confidence = 0, fi_summary = [], fi_detail = None,
     fi_bug_class = None, fi_evidence_plan = None, fi_introduced_by = None, fi_ecosystem = None,
     fi_package = None, fi_current_version = None, fi_latest_version = None, fi_update_type = None,
     fi_security_advisory = None, fi_missing_tests = None, fi_test_file = None,
     fi_smell_type = None, fi_suggested_refactor = None, fi_modernization_class = None,
     fi_current_approach = None, fi_proposed_approach = None, fi_standard_section = None\<rparr>"

definition new_finding :: "millis \<Rightarrow> int \<Rightarrow> int \<Rightarrow> finding_insert \<Rightarrow> finding_type \<Rightarrow> int option \<Rightarrow> finding" where
  "new_finding now fid repo_id row kind found_by =
     \<lparr>f_id = fid, f_kind = kind, f_repo_id = repo_id, f_fingerprint = fi_fingerprint row,
      f_file = Some (fi_file row), f_symbol = fi_symbol row, f_line = fi_line row,
      f_severity = fi_severity row, f_confidence = fi_confidence row, f_summary = fi_summary row,
      f_detail = fi_detail row, f_status = New, f_pr_url = None, f_created_at = now,
      f_updated_at = now, f_bug_class = fi_bug_class row, f_evidence_plan = fi_evidence_plan row,
      f_introduced_by = fi_introduced_by row, f_rung_achieved = None, f_verdict_reason = None,
      f_budget_override = None, f_fix_attempts = 0, f_last_fix_failure = None,
      f_recheck_attempts = 0, f_last_recheck_failure = None, f_ecosystem = fi_ecosystem row,
      f_package = fi_package row, f_current_version = fi_current_version row,
      f_latest_version = fi_latest_version row, f_update_type = fi_update_type row,
      f_security_advisory = fi_security_advisory row, f_missing_tests = fi_missing_tests row,
      f_test_file = fi_test_file row, f_smell_type = fi_smell_type row,
      f_suggested_refactor = fi_suggested_refactor row,
      f_modernization_class = fi_modernization_class row,
      f_current_approach = fi_current_approach row, f_proposed_approach = fi_proposed_approach row,
      f_standard_section = fi_standard_section row, f_found_by_job = found_by\<rparr>"

definition upsert_finding ::
  "millis \<Rightarrow> int \<Rightarrow> finding_insert \<Rightarrow> finding_type \<Rightarrow> int option \<Rightarrow> db \<Rightarrow> (int \<times> bool) \<times> db" where
  "upsert_finding now repo_id row kind found_by d =
     (case find (\<lambda>f. f_kind f = kind \<and> f_fingerprint f = fi_fingerprint row) (db_findings d) of
        Some f \<Rightarrow> ((f_id f, False), d)
      | None \<Rightarrow>
          (let fid = next_id (map f_id (db_findings d))
           in ((fid, True),
               d\<lparr>db_findings := db_findings d @ [new_finding now fid repo_id row kind found_by]\<rparr>)))"

definition reopen_suppressed :: "millis \<Rightarrow> int \<Rightarrow> finding_insert \<Rightarrow> db \<Rightarrow> bool \<times> db" where
  "reopen_suppressed now fid row d =
     (let P = (\<lambda>f. f_id f = fid \<and> f_status f \<in> {Rejected, Wontfix});
          reopened = 0 < rows_affected P (db_findings d);
          d1 = upd_findings P
                 (\<lambda>f. f\<lparr>f_status := New, f_verdict_reason := None, f_symbol := fi_symbol row,
                       f_line := fi_line row, f_severity := fi_severity row,
                       f_confidence := fi_confidence row, f_summary := fi_summary row,
                       f_detail := fi_detail row, f_evidence_plan := fi_evidence_plan row,
                       f_updated_at := now\<rparr>) d
      in (reopened, if reopened then write_anchor now fid None d1 else d1))"

record finding_analysis =
  fa_summary :: "string option"
  fa_detail :: "string option"
  fa_confidence :: "rat option"
  fa_severity :: "severity option"

definition update_finding_analysis :: "millis \<Rightarrow> int \<Rightarrow> finding_analysis \<Rightarrow> db \<Rightarrow> db" where
  "update_finding_analysis now fid an d =
     upd_findings (\<lambda>f. f_id f = fid)
       (\<lambda>f. f\<lparr>f_updated_at := now, f_summary := unwrap_or (fa_summary an) (f_summary f),
             f_detail := coalesce (fa_detail an) (f_detail f),
             f_confidence := unwrap_or (fa_confidence an) (f_confidence f),
             f_severity := unwrap_or (fa_severity an) (f_severity f)\<rparr>) d"

section \<open>Pull request, override and claims\<close>

definition set_finding_pr_open :: "millis \<Rightarrow> int \<Rightarrow> string \<Rightarrow> db \<Rightarrow> db" where
  "set_finding_pr_open now fid url d =
     upd_findings (\<lambda>f. f_id f = fid)
       (\<lambda>f. f\<lparr>f_status := PrOpen, f_pr_url := Some url, f_updated_at := now\<rparr>) d"

definition set_budget_override :: "millis \<Rightarrow> int \<Rightarrow> budget_override option \<Rightarrow> db \<Rightarrow> db" where
  "set_budget_override now fid mode d =
     upd_findings (\<lambda>f. f_id f = fid) (\<lambda>f. f\<lparr>f_budget_override := mode, f_updated_at := now\<rparr>) d"

definition clear_all_overrides :: "millis \<Rightarrow> db \<Rightarrow> int \<times> db" where
  "clear_all_overrides now d =
     (let P = (\<lambda>f. f_budget_override f \<noteq> None)
      in (int (rows_affected P (db_findings d)),
          upd_findings P (\<lambda>f. f\<lparr>f_budget_override := None, f_updated_at := now\<rparr>) d))"

definition claim_in_progress ::
  "millis \<Rightarrow> int \<Rightarrow> finding_status \<Rightarrow> finding_status \<Rightarrow> db \<Rightarrow> bool \<times> db" where
  "claim_in_progress now fid from_status to_status d =
     (let P = (\<lambda>f. f_id f = fid \<and> f_status f = from_status)
      in (0 < rows_affected P (db_findings d),
          upd_findings P (\<lambda>f. f\<lparr>f_status := to_status, f_updated_at := now\<rparr>) d))"

definition finalize_in_progress ::
  "millis \<Rightarrow> int \<Rightarrow> finding_status \<Rightarrow> finding_status \<Rightarrow> db \<Rightarrow> db" where
  "finalize_in_progress now fid expected fallback d =
     snd (claim_in_progress now fid expected fallback d)"

section \<open>Queries\<close>

record finding_filter =
  ff_status :: "finding_status option"
  ff_repo_id :: "int option"
  ff_kind :: "finding_type option"
  ff_min_severity_rank :: "int option"

definition list_findings :: "finding_filter \<Rightarrow> db \<Rightarrow> finding list" where
  "list_findings flt d =
     rev (sort_key f_id
       (filter (\<lambda>f. (ff_status flt = None \<or> ff_status flt = Some (f_status f)) \<and>
                    (ff_repo_id flt = None \<or> ff_repo_id flt = Some (f_repo_id f)) \<and>
                    (ff_kind flt = None \<or> ff_kind flt = Some (f_kind f)) \<and>
                    (case ff_min_severity_rank flt of None \<Rightarrow> True
                     | Some m \<Rightarrow> m \<le> severity_rank (f_severity f)))
          (db_findings d)))"

definition findings_with :: "finding_status \<Rightarrow> db \<Rightarrow> finding list" where
  "findings_with s d =
     list_findings \<lparr>ff_status = Some s, ff_repo_id = None, ff_kind = None, ff_min_severity_rank = None\<rparr> d"

definition suppressions :: "int \<Rightarrow> finding_type \<Rightarrow> db \<Rightarrow> finding list" where
  "suppressions repo_id kind d =
     sort_key f_id (filter (\<lambda>f. f_repo_id f = repo_id \<and> f_kind f = kind \<and>
       f_status f \<in> {Rejected, Wontfix}) (db_findings d))"

definition known_active :: "int \<Rightarrow> finding_type \<Rightarrow> db \<Rightarrow> finding list" where
  "known_active repo_id kind d =
     sort_key f_id (filter (\<lambda>f. f_repo_id f = repo_id \<and> f_kind f = kind \<and>
       f_status f \<notin> {Rejected, Wontfix}) (db_findings d))"

definition count_queued :: "db \<Rightarrow> int" where
  "count_queued d = int (length (filter (\<lambda>f. f_status f = Queued) (db_findings d)))"

definition follow_up_pairs :: "int list \<Rightarrow> db \<Rightarrow> (int \<times> int) list" where
  "follow_up_pairs ids d =
     (if ids = [] then []
      else sort_key snd
        (List.map_filter
           (\<lambda>f. case Option.bind (f_found_by_job f) (get_job d) of
                  None \<Rightarrow> None
                | Some j \<Rightarrow>
                    (case j_finding_id j of
                       None \<Rightarrow> None
                     | Some src \<Rightarrow> if f_id f \<in> set ids \<or> src \<in> set ids then Some (src, f_id f) else None))
           (db_findings d)))"

section \<open>Dependency updates\<close>

definition DEP_UNPROPOSED_REASON :: string where
  "DEP_UNPROPOSED_REASON = ''no longer proposed by the dependency scan''"

definition dep_fields_differ :: "finding_insert \<Rightarrow> finding \<Rightarrow> bool" where
  "dep_fields_differ row f \<longleftrightarrow>
     f_file f \<noteq> Some (fi_file row) \<or> f_severity f \<noteq> fi_severity row \<or>
     f_confidence f \<noteq> fi_confidence row \<or> f_summary f \<noteq> fi_summary row \<or>
     f_detail f \<noteq> fi_detail row \<or> f_ecosystem f \<noteq> fi_ecosystem row \<or>
     f_package f \<noteq> fi_package row \<or> f_current_version f \<noteq> fi_current_version row \<or>
     f_latest_version f \<noteq> fi_latest_version row \<or> f_update_type f \<noteq> fi_update_type row \<or>
     f_security_advisory f \<noteq> fi_security_advisory row"

definition refresh_dep_update :: "millis \<Rightarrow> int \<Rightarrow> finding_insert \<Rightarrow> db \<Rightarrow> bool \<times> db" where
  "refresh_dep_update now fid row d =
     (let P = (\<lambda>f. f_id f = fid \<and> f_kind f = TDepUpdate \<and>
                 (f_status f \<in> {New, Queued} \<or>
                  (f_status f = Superseded \<and> f_verdict_reason f = Some DEP_UNPROPOSED_REASON)) \<and>
                 (f_status f = Superseded \<or> dep_fields_differ row f))
      in (0 < rows_affected P (db_findings d),
          upd_findings P
            (\<lambda>f. f\<lparr>f_file := Some (fi_file row), f_severity := fi_severity row,
                  f_confidence := fi_confidence row, f_summary := fi_summary row,
                  f_detail := fi_detail row, f_ecosystem := fi_ecosystem row,
                  f_package := fi_package row, f_current_version := fi_current_version row,
                  f_latest_version := fi_latest_version row, f_update_type := fi_update_type row,
                  f_security_advisory := fi_security_advisory row,
                  f_status := (if f_status f = Superseded then New else f_status f),
                  f_verdict_reason := (if f_status f = Superseded then None else f_verdict_reason f),
                  f_updated_at := now\<rparr>) d))"

text \<open>SQL's \<open>NOT IN\<close>: a NULL on the left is in no non-empty set and out of none.\<close>

definition sql_not_in :: "'a option \<Rightarrow> 'a list \<Rightarrow> bool" where
  "sql_not_in x xs = (xs = [] \<or> (case x of None \<Rightarrow> False | Some v \<Rightarrow> v \<notin> set xs))"

definition supersede_unproposed_dep_updates ::
  "millis \<Rightarrow> int \<Rightarrow> string list \<Rightarrow> string list \<Rightarrow> db \<Rightarrow> nat \<times> db" where
  "supersede_unproposed_dep_updates now repo_id proposed unchecked d =
     (let P = (\<lambda>f. f_repo_id f = repo_id \<and> f_kind f = TDepUpdate \<and> f_status f = New \<and>
                 f_fingerprint f \<notin> set proposed \<and> sql_not_in (f_package f) unchecked)
      in (rows_affected P (db_findings d),
          upd_findings P
            (\<lambda>f. f\<lparr>f_status := Superseded, f_verdict_reason := Some DEP_UNPROPOSED_REASON,
                  f_updated_at := now\<rparr>) d))"

record proposed_move =
  mv_fingerprint :: string
  mv_unit :: string
  mv_package :: string
  mv_major :: bool

definition same_move :: "finding \<Rightarrow> proposed_move \<Rightarrow> bool" where
  "same_move q m \<longleftrightarrow>
     (f_package q = Some (mv_package m) \<and>
        mv_major m = (unwrap_or (f_update_type q) [] = ''major'')) \<or>
     starts_with (mv_unit m) (f_fingerprint q)"

text \<open>The pairs of the hand-over: per queued finding the scan no longer proposes, the least id of
  a new finding that makes its move.\<close>

definition hand_over_pairs :: "int \<Rightarrow> proposed_move list \<Rightarrow> db \<Rightarrow> (int \<times> int) list" where
  "hand_over_pairs repo_id moves d =
     List.map_filter
       (\<lambda>q. map_option (\<lambda>to. (f_id q, to))
              (min_by_key (\<lambda>x. x)
                 (map f_id
                    (filter (\<lambda>p. f_repo_id p = f_repo_id q \<and> f_kind p = TDepUpdate \<and>
                               f_status p = New \<and>
                               (\<exists>m \<in> set moves. same_move q m \<and> f_fingerprint p = mv_fingerprint m))
                       (db_findings d)))))
       (sort_key f_id
          (filter (\<lambda>q. f_repo_id q = repo_id \<and> f_kind q = TDepUpdate \<and> f_status q = Queued \<and>
                     f_fingerprint q \<notin> mv_fingerprint ` set moves)
             (db_findings d)))"

definition strongest_override ::
  "budget_override option \<Rightarrow> budget_override option \<Rightarrow> budget_override option" where
  "strongest_override target source =
     (if target = Some Exempt \<or> source = Some Exempt then Some Exempt else coalesce target source)"

definition hand_over_one :: "millis \<Rightarrow> int \<times> int \<Rightarrow> nat \<times> db \<Rightarrow> nat \<times> db" where
  "hand_over_one now pair acc =
     (let (src, dst) = pair; (handed, d) = acc;
          P = (\<lambda>f. f_id f = src \<and> f_status f = Queued) in
      if rows_affected P (db_findings d) = 0 then (handed, d)
      else
        let reason = ''replaced by #'' @ show_int dst @ '' from the dependency scan'';
            d1 = upd_findings P
                   (\<lambda>f. f\<lparr>f_status := Superseded, f_verdict_reason := Some reason,
                         f_updated_at := now\<rparr>) d;
            source = Option.bind (get_finding d1 src) f_budget_override;
            d2 = upd_findings (\<lambda>f. f_id f = dst \<and> f_status f \<in> {New, Queued})
                   (\<lambda>f. f\<lparr>f_status := Queued, f_updated_at := now,
                         f_budget_override := strongest_override (f_budget_override f) source\<rparr>) d1
        in (handed + 1, d2))"

definition hand_over_queued_dep_updates ::
  "millis \<Rightarrow> int \<Rightarrow> proposed_move list \<Rightarrow> db \<Rightarrow> nat \<times> db" where
  "hand_over_queued_dep_updates now repo_id moves d =
     fold (hand_over_one now) (hand_over_pairs repo_id moves d) (0, d)"

section \<open>Failure streaks\<close>

definition next_streak :: "string option \<Rightarrow> int \<Rightarrow> string \<Rightarrow> int" where
  "next_streak prev_failure prev_attempts fp =
     (if Some fp = prev_failure then prev_attempts + 1 else 1)"

definition record_fix_attempt :: "millis \<Rightarrow> int \<Rightarrow> string \<Rightarrow> db \<Rightarrow> int \<times> db" where
  "record_fix_attempt now fid fp d =
     (let (prev_failure, prev_attempts) =
            (case get_finding d fid of
               Some f \<Rightarrow> (f_last_fix_failure f, f_fix_attempts f) | None \<Rightarrow> (None, 0));
          attempts = next_streak prev_failure prev_attempts fp
      in (attempts,
          upd_findings (\<lambda>f. f_id f = fid)
            (\<lambda>f. f\<lparr>f_fix_attempts := attempts, f_last_fix_failure := Some fp, f_updated_at := now\<rparr>) d))"

definition clear_fix_attempts :: "millis \<Rightarrow> int \<Rightarrow> db \<Rightarrow> db" where
  "clear_fix_attempts now fid d =
     upd_findings (\<lambda>f. f_id f = fid)
       (\<lambda>f. f\<lparr>f_fix_attempts := 0, f_last_fix_failure := None, f_updated_at := now\<rparr>) d"

definition record_recheck_attempt :: "millis \<Rightarrow> int \<Rightarrow> string \<Rightarrow> db \<Rightarrow> int \<times> db" where
  "record_recheck_attempt now fid fp d =
     (let (prev_failure, prev_attempts) =
            (case get_finding d fid of
               Some f \<Rightarrow> (f_last_recheck_failure f, f_recheck_attempts f) | None \<Rightarrow> (None, 0));
          attempts = next_streak prev_failure prev_attempts fp
      in (attempts,
          upd_findings (\<lambda>f. f_id f = fid)
            (\<lambda>f. f\<lparr>f_recheck_attempts := attempts, f_last_recheck_failure := Some fp,
                  f_updated_at := now\<rparr>) d))"

definition clear_recheck_attempts :: "millis \<Rightarrow> int \<Rightarrow> db \<Rightarrow> db" where
  "clear_recheck_attempts now fid d =
     upd_findings (\<lambda>f. f_id f = fid)
       (\<lambda>f. f\<lparr>f_recheck_attempts := 0, f_last_recheck_failure := None, f_updated_at := now\<rparr>) d"

definition record_harvest_attempt :: "int \<Rightarrow> string \<Rightarrow> db \<Rightarrow> int \<times> db" where
  "record_harvest_attempt fid fp d =
     (let (prev_failure, prev_attempts) =
            (case get_pr_state d fid of
               Some p \<Rightarrow> (p_last_harvest_failure p, p_harvest_attempts p) | None \<Rightarrow> (None, 0));
          attempts = next_streak prev_failure prev_attempts fp
      in (attempts,
          upd_prs (\<lambda>p. p_finding_id p = fid)
            (\<lambda>p. p\<lparr>p_harvest_attempts := attempts, p_last_harvest_failure := Some fp\<rparr>) d))"

definition clear_harvest_attempts :: "int \<Rightarrow> db \<Rightarrow> db" where
  "clear_harvest_attempts fid d =
     upd_prs (\<lambda>p. p_finding_id p = fid)
       (\<lambda>p. p\<lparr>p_harvest_attempts := 0, p_last_harvest_failure := None\<rparr>) d"

section \<open>Lookups after an update\<close>

lemma rows_affected_get:
  assumes "distinct (map f_id (db_findings d))"
  shows "0 < rows_affected (\<lambda>f. f_id f = fid \<and> Q f) (db_findings d) \<longleftrightarrow>
    (\<exists>f. get_finding d fid = Some f \<and> Q f)"
proof
  assume "0 < rows_affected (\<lambda>f. f_id f = fid \<and> Q f) (db_findings d)"
  then obtain f where "f \<in> set (db_findings d)" "f_id f = fid" "Q f"
    by (auto simp: rows_affected_pos)
  with findings.get_unique [OF assms] show "\<exists>f. get_finding d fid = Some f \<and> Q f" by blast
next
  assume "\<exists>f. get_finding d fid = Some f \<and> Q f"
  then obtain f where "get_finding d fid = Some f" "Q f" by blast
  with findings.get_SomeD [of d fid f] show "0 < rows_affected (\<lambda>f. f_id f = fid \<and> Q f) (db_findings d)"
    by (auto simp: rows_affected_pos)
qed

lemma find_upsert:
  assumes "\<And>a. key (g a) = key a" "key r = k"
  shows "find (\<lambda>a. key a = k)
      (if \<exists>a \<in> set as. key a = k then update_where (\<lambda>a. key a = k) g as else as @ [r]) =
    Some (case find (\<lambda>a. key a = k) as of None \<Rightarrow> r | Some a \<Rightarrow> g a)"
proof (cases "\<exists>a \<in> set as. key a = k")
  case True
  then obtain a where a: "find (\<lambda>a. key a = k) as = Some a"
    by (cases "find (\<lambda>a. key a = k) as") (auto simp: find_None_iff)
  then have "key a = k" by (auto dest: find_Some_set)
  with True a assms(1) show ?thesis by (simp add: find_update_where)
next
  case False
  have "find (\<lambda>a. key a = k) (xs @ [r]) = Some r" if "\<forall>a \<in> set xs. key a \<noteq> k" for xs
    using that assms(2) by (induction xs) auto
  moreover have "find (\<lambda>a. key a = k) as = None" using False by (auto simp: find_None_iff)
  ultimately show ?thesis using False by simp
qed

lemma find_filter_neq: "find (\<lambda>a. key a = k) (filter (\<lambda>a. key a \<noteq> i) as) =
    (if k = i then None else find (\<lambda>a. key a = k) as)"
  by (induction as) auto

lemma find_append: "find P (xs @ ys) = (case find P xs of Some x \<Rightarrow> Some x | None \<Rightarrow> find P ys)"
  by (induction xs) auto

lemma find_upsert_other:
  assumes "\<And>a. key (g a) = key a" "key r \<noteq> k" "i \<noteq> k"
  shows "find (\<lambda>a. key a = k)
      (if \<exists>a \<in> set as. key a = i then update_where (\<lambda>a. key a = i) g as else as @ [r]) =
    find (\<lambda>a. key a = k) as"
proof -
  have "find (\<lambda>a. key a = k) (update_where (\<lambda>a. key a = i) g xs) = find (\<lambda>a. key a = k) xs" for xs
    using assms(1,3) by (induction xs) auto
  moreover have "find (\<lambda>a. key a = k) (xs @ [r]) = find (\<lambda>a. key a = k) xs" for xs
    using assms(2) by (induction xs) auto
  ultimately show ?thesis by simp
qed

lemma finding_anchor_write:
  "finding_anchor k (write_anchor now fid anchor d) =
     (if k = fid then anchor else finding_anchor k d)"
proof (cases anchor)
  case None
  then show ?thesis by (simp add: finding_anchor_def write_anchor_def find_filter_neq)
next
  case (Some va)
  let ?g = "\<lambda>a. a\<lparr>a_anchor := va, a_created_at := now\<rparr>"
  let ?r = "\<lparr>a_finding_id = fid, a_anchor = va, a_created_at = now\<rparr>"
  have rows: "db_anchors (write_anchor now fid anchor d) =
      (if \<exists>a \<in> set (db_anchors d). a_finding_id a = fid
       then update_where (\<lambda>a. a_finding_id a = fid) ?g (db_anchors d) else db_anchors d @ [?r])"
    using Some by (simp add: write_anchor_def)
  show ?thesis
  proof (cases "k = fid")
    case True
    have "find (\<lambda>a. a_finding_id a = fid) (db_anchors (write_anchor now fid anchor d)) =
        Some (case find (\<lambda>a. a_finding_id a = fid) (db_anchors d) of None \<Rightarrow> ?r | Some a \<Rightarrow> ?g a)"
      unfolding rows by (rule find_upsert) simp_all
    with True Some show ?thesis by (auto simp: finding_anchor_def split: option.splits)
  next
    case False
    have "find (\<lambda>a. a_finding_id a = k) (db_anchors (write_anchor now fid anchor d)) =
        find (\<lambda>a. a_finding_id a = k) (db_anchors d)"
      unfolding rows by (rule find_upsert_other) (use False in simp_all)
    with False show ?thesis by (simp add: finding_anchor_def)
  qed
qed

lemma write_anchor_frame [frame_simps]:
  "db_findings (write_anchor now fid anchor d) = db_findings d"
  "db_jobs (write_anchor now fid anchor d) = db_jobs d"
  "db_repos (write_anchor now fid anchor d) = db_repos d"
  "db_prs (write_anchor now fid anchor d) = db_prs d"
  by (simp_all add: write_anchor_def split: option.splits)

lemma finding_anchor_upd [simp]: "finding_anchor k (upd_findings P f d) = finding_anchor k d"
  by (simp add: finding_anchor_def frame_simps)

lemma get_finding_frame: "db_findings d' = db_findings d \<Longrightarrow> get_finding d' k = get_finding d k"
  by (simp add: get_finding_def)

section \<open>A failure streak\<close>

text \<open>
  What the three retry limits share: recording a failure on a row continues the streak when the
  failure is the one recorded last and starts a new one otherwise; clearing forgets it.
\<close>

locale streak =
  fixes streak_of :: "'d \<Rightarrow> (string option \<times> int) option"
    and attempt :: "string \<Rightarrow> 'd \<Rightarrow> int \<times> 'd"
    and clear :: "'d \<Rightarrow> 'd"
  assumes attempt_streak: "streak_of d = Some (prev, n) \<Longrightarrow>
      fst (attempt fp d) = next_streak prev n fp \<and>
      streak_of (snd (attempt fp d)) = Some (Some fp, next_streak prev n fp)"
    and clear_streak: "streak_of d = Some s \<Longrightarrow> streak_of (clear d) = Some (None, 0)"
begin

lemma repeated_attempts:
  "streak_of d = Some (prev, n) \<Longrightarrow> prev \<noteq> Some fp \<Longrightarrow>
     streak_of (((\<lambda>d. snd (attempt fp d)) ^^ Suc k) d) = Some (Some fp, int (Suc k))"
proof (induction k)
  case 0
  then show ?case using attempt_streak [of d prev n fp] by (simp add: next_streak_def)
next
  case (Suc k)
  let ?d = "((\<lambda>d. snd (attempt fp d)) ^^ Suc k) d"
  have "streak_of (snd (attempt fp ?d)) = Some (Some fp, next_streak (Some fp) (int (Suc k)) fp)"
    using Suc attempt_streak by blast
  then show ?case by (simp add: next_streak_def)
qed

lemma streak_counts:
  assumes "streak_of d = Some s"
  shows "fst (attempt fp (((\<lambda>d. snd (attempt fp d)) ^^ k) (clear d))) = int (Suc k)"
proof (cases k)
  case 0
  then show ?thesis
    using attempt_streak [OF clear_streak [OF assms], of fp] by (simp add: next_streak_def)
next
  case (Suc m)
  then have "streak_of (((\<lambda>d. snd (attempt fp d)) ^^ k) (clear d)) = Some (Some fp, int k)"
    using repeated_attempts [OF clear_streak [OF assms], of fp m] by simp
  from attempt_streak [OF this, of fp] show ?thesis by (simp add: next_streak_def)
qed

lemma new_failure_restarts:
  "streak_of d = Some (prev, n) \<Longrightarrow> prev \<noteq> Some fp \<Longrightarrow> fst (attempt fp d) = 1"
  using attempt_streak [of d prev n fp] by (simp add: next_streak_def)

end

interpretation fix_streak: streak
  "\<lambda>d. map_option (\<lambda>f. (f_last_fix_failure f, f_fix_attempts f)) (get_finding d fid)"
  "\<lambda>fp d. record_fix_attempt now fid fp d" "clear_fix_attempts now fid" for now fid
  by unfold_locales
    (auto simp: Let_def record_fix_attempt_def clear_fix_attempts_def findings.get_upd_key)

interpretation recheck_streak: streak
  "\<lambda>d. map_option (\<lambda>f. (f_last_recheck_failure f, f_recheck_attempts f)) (get_finding d fid)"
  "\<lambda>fp d. record_recheck_attempt now fid fp d" "clear_recheck_attempts now fid" for now fid
  by unfold_locales
    (auto simp: Let_def record_recheck_attempt_def clear_recheck_attempts_def findings.get_upd_key)

interpretation harvest_streak: streak
  "\<lambda>d. map_option (\<lambda>p. (p_last_harvest_failure p, p_harvest_attempts p)) (get_pr_state d fid)"
  "\<lambda>fp d. record_harvest_attempt fid fp d" "clear_harvest_attempts fid" for fid
  by unfold_locales
    (auto simp: Let_def record_harvest_attempt_def clear_harvest_attempts_def prs.get_upd_key)

section \<open>Properties\<close>

definition sample_finding :: finding where
  "sample_finding = new_finding 5 1 1 finding_insert_default TBug None"

definition sample_db :: db where
  "sample_db = empty_db\<lparr>db_findings := [sample_finding]\<rparr>"

lemma sample_db_get: "get_finding sample_db 1 = Some sample_finding"
  by (simp add: get_finding_def sample_db_def sample_finding_def new_finding_def)

text \<open>A verdict and its anchor land together: recording a verdict gives the finding that status
  and reason, leaves as its anchor exactly the one passed (none removes an earlier one), and
  touches no other finding and no other anchor.\<close>

theorem anchored_verdict_effect:
  assumes "get_finding d fid = Some f"
  shows "get_finding (set_anchored_verdict now fid status reason anchor d) fid =
      Some (f\<lparr>f_status := status, f_verdict_reason := Some reason, f_updated_at := now\<rparr>) \<and>
    finding_anchor fid (set_anchored_verdict now fid status reason anchor d) = anchor \<and>
    (\<forall>k. k \<noteq> fid \<longrightarrow>
       get_finding (set_anchored_verdict now fid status reason anchor d) k = get_finding d k \<and>
       finding_anchor k (set_anchored_verdict now fid status reason anchor d) = finding_anchor k d)"
proof -
  let ?u = "upd_findings (\<lambda>f. f_id f = fid)
    (\<lambda>f. f\<lparr>f_status := status, f_verdict_reason := Some reason, f_updated_at := now\<rparr>) d"
  have get: "get_finding (set_anchored_verdict now fid status reason anchor d) k = get_finding ?u k" for k
    unfolding set_anchored_verdict_def by (rule get_finding_frame) (simp add: frame_simps)
  have "get_finding ?u k = get_finding d k" if "k \<noteq> fid" for k
    using that findings.get_SomeD [of d k]
    by (cases "get_finding d k") (auto simp: findings.get_upd)
  moreover have "f_id f = fid" using findings.get_SomeD [OF assms] by simp
  ultimately show ?thesis
    using assms
    by (simp add: get findings.get_upd) (simp add: set_anchored_verdict_def finding_anchor_write)
qed

theorem anchored_verdict_effect_witness:
  "finding_anchor 1 (set_anchored_verdict 9 1 Rejected ''no bug''
     (Some \<lparr>va_sha = ''abc'', va_files = [''a.rs''], va_holds_while = None\<rparr>) sample_db)
   = Some \<lparr>va_sha = ''abc'', va_files = [''a.rs''], va_holds_while = None\<rparr>"
  using anchored_verdict_effect [OF sample_db_get] by blast

text \<open>An operator's verdict is a compare-and-set: it applies exactly when the finding still has
  the status the operator saw; otherwise the database is untouched, and when it applies the
  finding has the new status and no anchor.\<close>

theorem set_verdict_if_compare_and_set:
  assumes "distinct (map f_id (db_findings d))"
  shows "(fst (set_verdict_if now fid from_status status reason d) \<longleftrightarrow>
      (\<exists>f. get_finding d fid = Some f \<and> f_status f = from_status)) \<and>
    (\<not> fst (set_verdict_if now fid from_status status reason d) \<longrightarrow>
      snd (set_verdict_if now fid from_status status reason d) = d) \<and>
    (fst (set_verdict_if now fid from_status status reason d) \<longrightarrow>
      map_option f_status (get_finding (snd (set_verdict_if now fid from_status status reason d)) fid)
        = Some status \<and>
      finding_anchor fid (snd (set_verdict_if now fid from_status status reason d)) = None)"
proof -
  let ?P = "\<lambda>f. f_id f = fid \<and> f_status f = from_status"
  have on: "0 < rows_affected ?P (db_findings d) \<longleftrightarrow>
      (\<exists>f. get_finding d fid = Some f \<and> f_status f = from_status)"
    by (rule rows_affected_get [OF assms])
  show ?thesis
  proof (cases "0 < rows_affected ?P (db_findings d)")
    case True
    with on obtain f where f: "get_finding d fid = Some f" "f_status f = from_status" by blast
    with findings.get_SomeD have "f_id f = fid" by blast
    let ?u = "upd_findings ?P
      (\<lambda>f. f\<lparr>f_status := status, f_verdict_reason := Some reason, f_updated_at := now\<rparr>) d"
    have "get_finding (write_anchor now fid None ?u) fid = get_finding ?u fid"
      by (rule get_finding_frame) (simp add: frame_simps)
    also have "\<dots> = Some (f\<lparr>f_status := status, f_verdict_reason := Some reason, f_updated_at := now\<rparr>)"
      using f \<open>f_id f = fid\<close> by (simp add: findings.get_upd)
    finally show ?thesis using True on f
      by (simp add: set_verdict_if_def Let_def finding_anchor_write)
  next
    case False
    then have "\<And>f. f \<in> set (db_findings d) \<Longrightarrow> \<not> ?P f" by (auto simp: rows_affected_pos)
    then have "upd_findings ?P
      (\<lambda>f. f\<lparr>f_status := status, f_verdict_reason := Some reason, f_updated_at := now\<rparr>) d = d"
      by (rule findings.upd_none)
    with False have "set_verdict_if now fid from_status status reason d = (False, d)"
      by (simp add: set_verdict_if_def Let_def)
    with False on show ?thesis by simp
  qed
qed

theorem set_verdict_if_compare_and_set_witness:
  "snd (set_verdict_if 9 1 Queued Rejected ''x'' sample_db) = sample_db"
proof -
  have "distinct (map f_id (db_findings sample_db))" by (simp add: sample_db_def)
  from set_verdict_if_compare_and_set [OF this, of 9 1 Queued Rejected "''x''"] show ?thesis
    by (simp add: sample_db_get) (simp add: sample_finding_def new_finding_def)
qed

text \<open>A claim is exclusive: once one caller has moved a finding away from the status it claimed it
  from, a second claim from the same status fails and changes nothing, whatever it wanted to move
  the finding to.\<close>

theorem claim_exclusive:
  assumes "to_status \<noteq> from_status"
  shows "\<not> fst (claim_in_progress later fid from_status other
            (snd (claim_in_progress now fid from_status to_status d))) \<and>
    snd (claim_in_progress later fid from_status other
            (snd (claim_in_progress now fid from_status to_status d)))
      = snd (claim_in_progress now fid from_status to_status d)"
proof -
  let ?P = "\<lambda>f. f_id f = fid \<and> f_status f = from_status"
  let ?d = "snd (claim_in_progress now fid from_status to_status d)"
  have none: "\<not> ?P f" if "f \<in> set (db_findings ?d)" for f
  proof -
    have "db_findings ?d = update_where ?P (\<lambda>f. f\<lparr>f_status := to_status, f_updated_at := now\<rparr>)
        (db_findings d)"
      by (simp add: claim_in_progress_def Let_def frame_simps)
    with that have "f \<in> set (update_where ?P (\<lambda>f. f\<lparr>f_status := to_status, f_updated_at := now\<rparr>)
        (db_findings d))" by simp
    then show ?thesis by (rule update_where_gone [rotated]) (use assms in simp)
  qed
  then have "rows_affected ?P (db_findings ?d) = 0"
    by (simp add: rows_affected_def filter_empty_conv)
  moreover have "upd_findings ?P (\<lambda>f. f\<lparr>f_status := other, f_updated_at := later\<rparr>) ?d = ?d"
    using none by (rule findings.upd_none)
  ultimately have "claim_in_progress later fid from_status other ?d = (False, ?d)"
    unfolding claim_in_progress_def [of later] Let_def by simp
  then show ?thesis by simp
qed

theorem claim_exclusive_witness:
  "fst (claim_in_progress 9 1 New Fixing sample_db) \<and>
   \<not> fst (claim_in_progress 10 1 New Rechecking (snd (claim_in_progress 9 1 New Fixing sample_db)))"
proof -
  have "fst (claim_in_progress 9 1 New Fixing sample_db)"
    by (simp add: claim_in_progress_def sample_db_def sample_finding_def new_finding_def rows_affected_def)
  with claim_exclusive [of Fixing New 10 1 Rechecking 9 sample_db] show ?thesis by simp
qed

text \<open>Retry limits count consecutive identical failures: after a reset, the failure recorded for
  the n-th time in a row is attempt n, for fixes, rechecks and harvests alike, and a different
  failure starts again at one.\<close>

theorem failure_streaks_count:
  assumes "get_finding d fid = Some f" "get_pr_state d fid = Some p"
  shows "fst (record_fix_attempt now fid fp
        (((\<lambda>d. snd (record_fix_attempt now fid fp d)) ^^ k) (clear_fix_attempts now fid d))) = int (Suc k) \<and>
    fst (record_recheck_attempt now fid fp
        (((\<lambda>d. snd (record_recheck_attempt now fid fp d)) ^^ k) (clear_recheck_attempts now fid d))) = int (Suc k) \<and>
    fst (record_harvest_attempt fid fp
        (((\<lambda>d. snd (record_harvest_attempt fid fp d)) ^^ k) (clear_harvest_attempts fid d))) = int (Suc k) \<and>
    (f_last_fix_failure f \<noteq> Some fp \<longrightarrow> fst (record_fix_attempt now fid fp d) = 1)"
proof (intro conjI impI)
  show "fst (record_fix_attempt now fid fp d) = 1" if "f_last_fix_failure f \<noteq> Some fp"
    using fix_streak.new_failure_restarts [of d fid _ _ fp now] assms(1) that by simp
qed (use assms in \<open>intro fix_streak.streak_counts recheck_streak.streak_counts
    harvest_streak.streak_counts; simp\<close>)+

definition sample_pr :: pr where
  "sample_pr = \<lparr>p_finding_id = 1, p_number = Some 7, p_state = Some ''OPEN'', p_mergeable = None,
     p_checks = None, p_head_ref = None, p_last_activity_at = None,
     p_last_engaged_activity_at = None, p_needs_attention = None, p_attention_since = None,
     p_attention_fingerprint = None, p_addressed_fingerprint = None, p_head_sha = None,
     p_addressed_head_sha = None, p_synced_at = None, p_harvested_at = None,
     p_harvest_attempts = 0, p_last_harvest_failure = None\<rparr>"

theorem failure_streaks_count_witness:
  "fst (record_harvest_attempt 1 ''boom''
     (((\<lambda>d. snd (record_harvest_attempt 1 ''boom'' d)) ^^ 2)
        (clear_harvest_attempts 1 (sample_db\<lparr>db_prs := [sample_pr]\<rparr>)))) = 3"
proof -
  have "get_finding (sample_db\<lparr>db_prs := [sample_pr]\<rparr>) 1 = Some sample_finding"
    using sample_db_get by (simp add: get_finding_def)
  moreover have "get_pr_state (sample_db\<lparr>db_prs := [sample_pr]\<rparr>) 1 = Some sample_pr"
    by (simp add: get_pr_state_def sample_pr_def)
  ultimately show ?thesis
    using failure_streaks_count [of "sample_db\<lparr>db_prs := [sample_pr]\<rparr>" 1 sample_finding sample_pr
        0 "''boom''" 2] by simp
qed

text \<open>Filing is idempotent: a second report with the same type and fingerprint changes nothing
  and names the finding the first one created or found, whichever job makes it and whatever else
  it says.\<close>

theorem upsert_idempotent:
  assumes "fi_fingerprint row' = fi_fingerprint row"
    and "upsert_finding now repo_id row kind by d = ((fid, inserted), d')"
  shows "upsert_finding later repo_id' row' kind by' d' = ((fid, False), d')"
proof (cases "find (\<lambda>f. f_kind f = kind \<and> f_fingerprint f = fi_fingerprint row) (db_findings d)")
  case None
  let ?n = "new_finding now (next_id (map f_id (db_findings d))) repo_id row kind by"
  from None assms(2) have "d' = d\<lparr>db_findings := db_findings d @ [?n]\<rparr>"
    "fid = next_id (map f_id (db_findings d))"
    by (auto simp: upsert_finding_def Let_def)
  with None assms(1) show ?thesis
    by (simp add: upsert_finding_def find_append new_finding_def)
next
  case (Some f)
  with assms show ?thesis by (auto simp: upsert_finding_def)
qed

theorem upsert_idempotent_witness:
  "upsert_finding 9 2 finding_insert_default TBug (Some 4) sample_db = ((1, False), sample_db)"
proof (rule upsert_idempotent)
  show "upsert_finding 5 1 finding_insert_default TBug None empty_db = ((1, True), sample_db)"
    by (simp add: upsert_finding_def empty_db_def next_id_def sample_db_def sample_finding_def)
qed simp

text \<open>Reopening is confined to suppressed findings: a finding a scan files again goes back to
  \<open>new\<close> with the scan's analysis and neither verdict nor anchor if it was rejected or declined,
  and the database is untouched otherwise.\<close>

theorem reopen_only_suppressed:
  assumes "distinct (map f_id (db_findings d))" "get_finding d fid = Some f"
  shows "fst (reopen_suppressed now fid row d) = is_suppressed (f_status f) \<and>
    (if is_suppressed (f_status f)
     then (\<exists>g. get_finding (snd (reopen_suppressed now fid row d)) fid = Some g \<and> f_status g = New \<and>
             f_verdict_reason g = None \<and> f_summary g = fi_summary row \<and>
             f_fingerprint g = f_fingerprint f) \<and>
          finding_anchor fid (snd (reopen_suppressed now fid row d)) = None
     else snd (reopen_suppressed now fid row d) = d)"
proof -
  let ?P = "\<lambda>f. f_id f = fid \<and> f_status f \<in> {Rejected, Wontfix}"
  let ?g = "\<lambda>f. f\<lparr>f_status := New, f_verdict_reason := None, f_symbol := fi_symbol row,
     f_line := fi_line row, f_severity := fi_severity row, f_confidence := fi_confidence row,
     f_summary := fi_summary row, f_detail := fi_detail row,
     f_evidence_plan := fi_evidence_plan row, f_updated_at := now\<rparr>"
  have fid: "f_id f = fid" using findings.get_SomeD [OF assms(2)] by simp
  have sup: "is_suppressed (f_status f) \<longleftrightarrow> f_status f \<in> {Rejected, Wontfix}"
    by (cases "f_status f") simp_all
  have on: "0 < rows_affected ?P (db_findings d) \<longleftrightarrow> is_suppressed (f_status f)"
    using rows_affected_get [OF assms(1), of fid "\<lambda>f. f_status f \<in> {Rejected, Wontfix}"] assms(2) sup
    by simp
  show ?thesis
  proof (cases "is_suppressed (f_status f)")
    case True
    have "get_finding (write_anchor now fid None (upd_findings ?P ?g d)) fid
        = get_finding (upd_findings ?P ?g d) fid"
      by (rule get_finding_frame) (simp add: frame_simps)
    also have "\<dots> = Some (?g f)" using assms(2) fid True sup by (simp add: findings.get_upd)
    finally show ?thesis using True on
      by (simp add: reopen_suppressed_def Let_def finding_anchor_write)
  next
    case False
    with on have "\<And>f. f \<in> set (db_findings d) \<Longrightarrow> \<not> ?P f" by (auto simp: rows_affected_pos)
    then have "upd_findings ?P ?g d = d" by (rule findings.upd_none)
    with False on show ?thesis by (simp add: reopen_suppressed_def Let_def)
  qed
qed

theorem reopen_only_suppressed_witness:
  "snd (reopen_suppressed 9 1 finding_insert_default sample_db) = sample_db"
proof -
  have "distinct (map f_id (db_findings sample_db))" by (simp add: sample_db_def)
  from reopen_only_suppressed [OF this sample_db_get, of 9 finding_insert_default] show ?thesis
    by (simp add: sample_finding_def new_finding_def)
qed

end
