(* ===== verification/StoreJobs.thy ===== *)
theory StoreJobs
  imports StoreFindings "HOL-Library.Char_ord" "HOL-Library.List_Lexorder"
begin

text \<open>
  The store's operations on jobs (\<open>store.rs\<close>): creating a job and retiring what it supersedes,
  the resumable pool and its sweep, resume chains, the outcomes a job can end with, and the
  full-hunt requests of a repository.  The recursive queries walk at most
  \<open>RESUME_CHAIN_MAX_DEPTH\<close> links, as the source's do, so they end on any table.
\<close>

section \<open>Job rows\<close>

definition has_successor :: "db \<Rightarrow> int \<Rightarrow> bool" where
  "has_successor d jid \<longleftrightarrow> (\<exists>s \<in> set (db_jobs d). j_resumed_from s = Some jid)"

definition retire_job :: "int \<Rightarrow> job_state \<Rightarrow> string option \<Rightarrow> string \<Rightarrow> db \<Rightarrow> db" where
  "retire_job jid state killed notes d =
     upd_jobs (\<lambda>j. j_id j = jid)
       (\<lambda>j. j\<lparr>j_state := state, j_killed_reason := coalesce killed (j_killed_reason j),
             j_notes := Some notes\<rparr>) d"

definition retire_suspended_job :: "int \<Rightarrow> job_state \<Rightarrow> string option \<Rightarrow> string \<Rightarrow> db \<Rightarrow> db" where
  "retire_suspended_job jid state killed notes d = retire_job jid state killed notes d"

definition set_pinned_sha :: "int \<Rightarrow> string \<Rightarrow> db \<Rightarrow> db" where
  "set_pinned_sha jid sha d = upd_jobs (\<lambda>j. j_id j = jid) (\<lambda>j. j\<lparr>j_pinned_sha := Some sha\<rparr>) d"

definition pinned_sha :: "int \<Rightarrow> db \<Rightarrow> string option" where
  "pinned_sha jid d = Option.bind (get_job d jid) j_pinned_sha"

definition job_blocker :: "int \<Rightarrow> db \<Rightarrow> string option" where
  "job_blocker jid d = Option.bind (get_job d jid) j_blocker"

record job_outcome =
  jo_state :: job_state
  jo_tokens_new :: int
  jo_calls :: int
  jo_exit_code :: "int option"
  jo_killed_reason :: "string option"
  jo_session_file :: "string option"
  jo_notes :: "string option"
  jo_model :: "string option"
  jo_usage_delta :: "rat option"
  jo_finished_at :: millis

definition complete_job :: "int \<Rightarrow> job_outcome \<Rightarrow> db \<Rightarrow> db" where
  "complete_job jid out d =
     upd_jobs (\<lambda>j. j_id j = jid)
       (\<lambda>j. j\<lparr>j_state := jo_state out, j_pid := None, j_tokens_new := Some (jo_tokens_new out),
             j_calls := Some (jo_calls out), j_exit_code := jo_exit_code out,
             j_killed_reason := jo_killed_reason out, j_session_file := jo_session_file out,
             j_notes := jo_notes out, j_model := jo_model out, j_usage_delta := jo_usage_delta out,
             j_finished_at := Some (jo_finished_at out)\<rparr>) d"

definition fail_unstarted_job :: "millis \<Rightarrow> int \<Rightarrow> string \<Rightarrow> db \<Rightarrow> db" where
  "fail_unstarted_job now jid notes d =
     upd_jobs (\<lambda>j. j_id j = jid)
       (\<lambda>j. j\<lparr>j_state := JFailed, j_pid := None, j_notes := Some notes, j_finished_at := Some now\<rparr>) d"

definition suspend_orphan :: "int \<Rightarrow> string \<Rightarrow> int \<Rightarrow> string \<Rightarrow> millis \<Rightarrow> db \<Rightarrow> db" where
  "suspend_orphan jid session tokens notes finished d =
     upd_jobs (\<lambda>j. j_id j = jid)
       (\<lambda>j. j\<lparr>j_state := JSuspended, j_pid := None, j_killed_reason := Some ''orphaned'',
             j_session_file := Some session, j_tokens_new := Some tokens, j_notes := Some notes,
             j_finished_at := Some finished\<rparr>) d"

definition orphan_job :: "int \<Rightarrow> string \<Rightarrow> millis \<Rightarrow> db \<Rightarrow> db" where
  "orphan_job jid notes finished d =
     upd_jobs (\<lambda>j. j_id j = jid)
       (\<lambda>j. j\<lparr>j_state := JKilled, j_pid := None, j_killed_reason := Some ''orphaned'',
             j_notes := Some notes, j_finished_at := Some finished\<rparr>) d"

definition fail_job :: "int \<Rightarrow> string \<Rightarrow> db \<Rightarrow> db" where
  "fail_job jid notes d =
     upd_jobs (\<lambda>j. j_id j = jid) (\<lambda>j. j\<lparr>j_state := JFailed, j_notes := Some notes\<rparr>) d"

section \<open>Creating a job\<close>

definition live_repo :: "db \<Rightarrow> int \<Rightarrow> bool" where
  "live_repo d rid \<longleftrightarrow> (\<exists>r \<in> set (db_repos d). r_id r = rid \<and> r_deleted_at r = None)"

definition new_job ::
  "millis \<Rightarrow> job_kind \<Rightarrow> int \<Rightarrow> int option \<Rightarrow> int option \<Rightarrow> job_state \<Rightarrow> int option \<Rightarrow> int option \<Rightarrow>
   int \<Rightarrow> db \<Rightarrow> job" where
  "new_job now kind repo_id finding_id cap state est resumed jid d =
     (let pred = Option.bind resumed (get_job d)
      in \<lparr>j_id = jid, j_kind = kind, j_repo_id = repo_id, j_finding_id = finding_id,
          j_state = state, j_pid = None, j_session_file = None, j_cap_tokens = cap,
          j_tokens_new = None, j_calls = None, j_exit_code = None, j_killed_reason = None,
          j_notes = None, j_model = None, j_usage_delta = None, j_started_at = Some now,
          j_finished_at = None, j_estimated_tokens = est, j_resumed_from = resumed,
          j_pinned_sha = Option.bind pred j_pinned_sha, j_blocker = Option.bind pred j_blocker,
          j_full_history = (case pred of None \<Rightarrow> False | Some p \<Rightarrow> j_full_history p),
          j_full_hunt_request = Option.bind pred j_full_hunt_request\<rparr>)"

text \<open>The suspensions a fresh job of this kind supersedes, oldest first.\<close>

definition superseded_by ::
  "job_kind \<Rightarrow> int \<Rightarrow> int option \<Rightarrow> int \<Rightarrow> db \<Rightarrow> (int \<times> string) list" where
  "superseded_by kind repo_id finding_id jid d =
     List.map_filter
       (\<lambda>j. map_option (\<lambda>r. (j_id j, r_name r)) (get_repo_row d (j_repo_id j)))
       (sort_key j_id
          (filter (\<lambda>j. j_state j = JSuspended \<and> j_kind j = kind \<and> j_id j \<noteq> jid \<and>
                     (if is_finding kind then sql_eq (j_finding_id j) finding_id
                      else j_repo_id j = repo_id) \<and>
                     \<not> has_successor d (j_id j))
             (db_jobs d)))"

definition supersede_one ::
  "millis \<Rightarrow> job_kind \<Rightarrow> int option \<Rightarrow> int \<Rightarrow> int \<times> string \<Rightarrow> db \<Rightarrow> db" where
  "supersede_one now kind finding_id jid old d =
     (let msg = ''resume '' @ job_kind_str kind @ '' '' @ snd old @ '': job '' @ show_int (fst old) @
                '' superseded by fresh job '' @ show_int jid
      in insert_event now ''resume'' msg (Some (fst old)) finding_id None
           (retire_job (fst old) JKilled (Some ''superseded'') msg d))"

definition create_job ::
  "millis \<Rightarrow> job_kind \<Rightarrow> int \<Rightarrow> int option \<Rightarrow> int option \<Rightarrow> job_state \<Rightarrow> int option \<Rightarrow> int option \<Rightarrow>
   db \<Rightarrow> (write_error + int \<times> int list) \<times> db" where
  "create_job now kind repo_id finding_id cap state est resumed d =
     (if \<not> live_repo d repo_id
      then (Inl (Refused (''repo '' @ show_int repo_id @ '' is deleted -- cannot start a '' @
                          job_kind_str kind @ '' job'')), d)
      else
        let jid = next_id (map j_id (db_jobs d));
            d1 = d\<lparr>db_jobs := db_jobs d @
                     [new_job now kind repo_id finding_id cap state est resumed jid d]\<rparr>;
            olds = (if resumed = None then superseded_by kind repo_id finding_id jid d1 else [])
        in (Inr (jid, map fst olds), fold (supersede_one now kind finding_id jid) olds d1))"

section \<open>The resumable pool\<close>

text \<open>The status at which a finding's suspended job of this kind may be continued.\<close>

fun offered_status :: "finding_job_kind \<Rightarrow> finding_status \<Rightarrow> bool" where
  "offered_status FFix s = (s = Queued)"
| "offered_status FRecheck s = (s = Rechecking)"
| "offered_status FEngage s = (s = PrOpen)"
| "offered_status FHarvest s = (s = Merged \<or> s = Closed)"

definition kind_offered :: "db \<Rightarrow> job \<Rightarrow> bool" where
  "kind_offered d j =
     (case j_kind j of
        Repo_kind _ \<Rightarrow> True
      | Finding_kind k \<Rightarrow>
          (\<exists>f \<in> set (db_findings d). j_finding_id j = Some (f_id f) \<and> offered_status k (f_status f)))"

definition resumable :: "db \<Rightarrow> job \<Rightarrow> bool" where
  "resumable d j \<longleftrightarrow>
     j_state j = JSuspended \<and> live_repo d (j_repo_id j) \<and> j_session_file j \<noteq> None \<and>
     \<not> has_successor d (j_id j) \<and> kind_offered d j"

definition list_resumable_jobs :: "db \<Rightarrow> job list" where
  "list_resumable_jobs d = rev (sort_key j_id (filter (resumable d) (db_jobs d)))"

text \<open>What the sweep leaves suspended besides the offered ones: a fix held or being claimed.\<close>

fun kept_status :: "finding_job_kind \<Rightarrow> finding_status \<Rightarrow> bool" where
  "kept_status FFix s = (s = Queued \<or> s = Blocked \<or> s = Fixing)"
| "kept_status k s = offered_status k s"

definition stranded :: "db \<Rightarrow> job \<Rightarrow> finding \<Rightarrow> bool" where
  "stranded d j f \<longleftrightarrow>
     j_state j = JSuspended \<and> \<not> has_successor d (j_id j) \<and>
     \<not> (case j_kind j of Finding_kind k \<Rightarrow> kept_status k (f_status f) | Repo_kind _ \<Rightarrow> False)"

definition stranded_rows :: "db \<Rightarrow> (job \<times> finding \<times> repo) list" where
  "stranded_rows d =
     List.map_filter
       (\<lambda>j. case (Option.bind (j_finding_id j) (get_finding d), get_repo_row d (j_repo_id j)) of
              (Some f, Some r) \<Rightarrow> if stranded d j f then Some (j, f, r) else None
            | _ \<Rightarrow> None)
       (sort_key j_id (db_jobs d))"

definition retire_stranded_one :: "millis \<Rightarrow> job \<times> finding \<times> repo \<Rightarrow> db \<Rightarrow> db" where
  "retire_stranded_one now row d =
     (let (j, f, r) = row;
          msg = ''resume '' @ job_kind_str (j_kind j) @ '' '' @ r_name r @ '': job '' @
                show_int (j_id j) @ '' retired, finding #'' @ show_int (f_id f) @ '' is '' @
                finding_status_str (f_status f)
      in insert_event now ''resume'' msg (Some (j_id j)) (Some (f_id f)) None
           (retire_job (j_id j) JKilled (Some ''finding-moved'') msg d))"

definition retire_stranded_suspensions :: "millis \<Rightarrow> db \<Rightarrow> int list \<times> db" where
  "retire_stranded_suspensions now d =
     (map (\<lambda>(j, _, _). j_id j) (stranded_rows d),
      fold (retire_stranded_one now) (stranded_rows d) d)"

text \<open>Hold a fix: both rows or neither.\<close>

definition blocked_job :: "millis \<Rightarrow> string \<Rightarrow> db \<Rightarrow> job \<Rightarrow> job" where
  "blocked_job now reason d j =
     j\<lparr>j_state := JSuspended, j_pid := None, j_blocker := Some reason,
       j_finished_at := coalesce (j_finished_at j) (Some now),
       j_session_file := coalesce (j_session_file j)
         (Option.bind (Option.bind (j_resumed_from j) (get_job d)) j_session_file)\<rparr>"

definition blocked_finding :: "millis \<Rightarrow> finding \<Rightarrow> finding" where
  "blocked_finding now f =
     f\<lparr>f_status := Blocked, f_updated_at := now, f_fix_attempts := 0, f_last_fix_failure := None\<rparr>"

definition block_fix_job :: "millis \<Rightarrow> int \<Rightarrow> int \<Rightarrow> string \<Rightarrow> db \<Rightarrow> (write_error + unit) \<times> db" where
  "block_fix_job now fid jid reason d =
     (let P = (\<lambda>j. j_id j = jid \<and> j_finding_id j = Some fid \<and> j_kind j = K_fix);
          Q = (\<lambda>f. f_id f = fid);
          d1 = upd_jobs P (blocked_job now reason d) d
      in if rows_affected P (db_jobs d) = 0 then (Inl RowNotFound, d)
         else if rows_affected Q (db_findings d1) = 0 then (Inl RowNotFound, d)
         else (Inr (), upd_findings Q (blocked_finding now) d1))"

definition held_fix_blockers :: "db \<Rightarrow> (int \<times> string) list" where
  "held_fix_blockers d =
     fold (\<lambda>(k, v) m. btree_insert k v m)
       (List.map_filter
          (\<lambda>j. case (j_finding_id j, j_blocker j) of
                 (Some fid, Some b) \<Rightarrow>
                   if j_state j = JSuspended \<and> j_kind j = K_fix \<and> \<not> has_successor d (j_id j) \<and>
                      (\<exists>f \<in> set (db_findings d). f_id f = fid \<and> f_status f = Blocked)
                   then Some (fid, b) else None
               | _ \<Rightarrow> None)
          (sort_key j_id (db_jobs d))) []"

section \<open>Resume chains\<close>

definition RESUME_CHAIN_MAX_DEPTH :: nat where "RESUME_CHAIN_MAX_DEPTH = 64"

text \<open>The ancestors of a job, itself first, over at most the given number of links; \<open>same\<close> says
  which predecessors the walk may enter.\<close>

fun ancestry_upto :: "nat \<Rightarrow> (job \<Rightarrow> bool) \<Rightarrow> db \<Rightarrow> int \<Rightarrow> int list" where
  "ancestry_upto n same d jid =
     (case get_job d jid of
        None \<Rightarrow> []
      | Some j \<Rightarrow>
          jid # (case (n, j_resumed_from j) of
                   (Suc m, Some p) \<Rightarrow>
                     (case get_job d p of
                        Some q \<Rightarrow> if same q then ancestry_upto m same d p else []
                      | None \<Rightarrow> [])
                 | _ \<Rightarrow> []))"

declare ancestry_upto.simps [simp del]

definition ancestry :: "db \<Rightarrow> int \<Rightarrow> int list" where
  "ancestry d jid = ancestry_upto RESUME_CHAIN_MAX_DEPTH (\<lambda>_. True) d jid"

definition tokens_of :: "db \<Rightarrow> int list \<Rightarrow> int" where
  "tokens_of d ids = sum_col (map j_tokens_new (filter (\<lambda>j. j_id j \<in> set ids) (db_jobs d)))"

definition resume_origin_job :: "int \<Rightarrow> db \<Rightarrow> int" where
  "resume_origin_job jid d = unwrap_or (min_by_key (\<lambda>x. x) (ancestry d jid)) jid"

definition ancestor_tokens :: "int \<Rightarrow> db \<Rightarrow> int" where
  "ancestor_tokens jid d = tokens_of d (filter (\<lambda>i. i \<noteq> jid) (ancestry d jid))"

text \<open>The two-way walk of the chain statistics: one step adds every job of the same kind linked,
  either way, to one already reached.\<close>

definition linked_same_kind :: "job \<Rightarrow> job \<Rightarrow> bool" where
  "linked_same_kind j c \<longleftrightarrow>
     j_kind j = j_kind c \<and> (j_resumed_from c = Some (j_id j) \<or> j_resumed_from j = Some (j_id c))"

definition chain_step :: "(job \<Rightarrow> job \<Rightarrow> bool) \<Rightarrow> db \<Rightarrow> int list \<Rightarrow> int list" where
  "chain_step link d ids =
     ids @ map j_id (filter (\<lambda>j. j_id j \<notin> set ids \<and>
       (\<exists>c \<in> set (db_jobs d). j_id c \<in> set ids \<and> link j c)) (db_jobs d))"

fun chain_upto :: "nat \<Rightarrow> (job \<Rightarrow> job \<Rightarrow> bool) \<Rightarrow> db \<Rightarrow> int list \<Rightarrow> int list" where
  "chain_upto 0 link d ids = ids"
| "chain_upto (Suc n) link d ids = chain_upto n link d (chain_step link d ids)"

definition chain_rows :: "(job \<Rightarrow> job \<Rightarrow> bool) \<Rightarrow> int \<Rightarrow> db \<Rightarrow> job list" where
  "chain_rows link jid d =
     (let start = map j_id (filter (\<lambda>j. j_id j = jid) (db_jobs d));
          ids = chain_upto RESUME_CHAIN_MAX_DEPTH link d start
      in filter (\<lambda>j. j_id j \<in> set ids) (db_jobs d))"

record chain_stats =
  st_total :: int
  st_attempts :: int
  st_max_single :: int

definition counts_as_attempt :: "job \<Rightarrow> bool" where
  "counts_as_attempt j \<longleftrightarrow>
     j_resumed_from j = None \<or> j_killed_reason j = Some ''cap'' \<or> 0 < unwrap_or (j_tokens_new j) 0"

definition resume_chain_stats :: "int \<Rightarrow> db \<Rightarrow> chain_stats" where
  "resume_chain_stats jid d =
     (let rows = chain_rows linked_same_kind jid d
      in \<lparr>st_total = sum_col (map j_tokens_new rows),
          st_attempts = int (length (filter counts_as_attempt rows)),
          st_max_single = unwrap_or (max_col (map j_tokens_new rows)) 0\<rparr>)"

record chain_status =
  cst_attempts :: int
  cst_live :: int
  cst_last_finished_at :: "millis option"
  cst_clone :: "string option"

definition live_attempt :: "db \<Rightarrow> job \<Rightarrow> bool" where
  "live_attempt d j \<longleftrightarrow>
     j_state j = JRunning \<or> (j_state j = JSuspended \<and> \<not> has_successor d (j_id j))"

definition chain_status :: "int \<Rightarrow> db \<Rightarrow> chain_status" where
  "chain_status origin d =
     (let rows = chain_rows (\<lambda>j c. j_resumed_from j = Some (j_id c)) origin d
      in \<lparr>cst_attempts = int (length rows),
          cst_live = int (length (filter (live_attempt d) rows)),
          cst_last_finished_at = max_col (map j_finished_at rows),
          cst_clone = Option.bind (get_job d origin)
            (\<lambda>root. map_option r_path (get_repo_row d (j_repo_id root)))\<rparr>)"

section \<open>Estimates\<close>

definition has_warm_job :: "int \<Rightarrow> job_kind \<Rightarrow> millis \<Rightarrow> db \<Rightarrow> bool" where
  "has_warm_job repo_id kind cutoff d \<longleftrightarrow>
     (\<exists>j \<in> set (db_jobs d). j_repo_id j = repo_id \<and> j_kind j = kind \<and>
        (case j_finished_at j of None \<Rightarrow> False | Some t \<Rightarrow> t > cutoff) \<and> j_state j \<noteq> JDenied)"

definition recent_done :: "job_kind \<Rightarrow> db \<Rightarrow> int list" where
  "recent_done kind d =
     map j_id (take 20 (rev (sort_key j_id
       (filter (\<lambda>j. j_kind j = kind \<and> j_state j = JDone \<and> j_tokens_new j \<noteq> None) (db_jobs d)))))"

definition chain_cost :: "job_kind \<Rightarrow> db \<Rightarrow> int \<Rightarrow> int" where
  "chain_cost kind d head =
     tokens_of d (ancestry_upto RESUME_CHAIN_MAX_DEPTH (\<lambda>q. j_kind q = kind) d head)"

definition kind_token_history :: "job_kind \<Rightarrow> db \<Rightarrow> int list" where
  "kind_token_history kind d =
     (let done_costs = sort (map (chain_cost kind d) (recent_done kind d))
      in if length done_costs \<ge> 3 then done_costs
         else sort (List.map_filter (\<lambda>j. if j_kind j = kind then j_tokens_new j else None) (db_jobs d)))"

section \<open>Repositories\<close>

definition list_repos :: "db \<Rightarrow> repo list" where
  "list_repos d = sort_key r_name (filter (\<lambda>r. r_deleted_at r = None) (db_repos d))"

definition get_repo_by_id :: "int \<Rightarrow> db \<Rightarrow> repo option" where
  "get_repo_by_id rid d = find (\<lambda>r. r_id r = rid \<and> r_deleted_at r = None) (db_repos d)"

definition upd_repo :: "int \<Rightarrow> (repo \<Rightarrow> repo) \<Rightarrow> db \<Rightarrow> db" where
  "upd_repo rid f d = upd_repos (\<lambda>r. r_id r = rid) f d"

definition clear_last_hunt_sha :: "int \<Rightarrow> db \<Rightarrow> db" where
  "clear_last_hunt_sha rid d = upd_repo rid (\<lambda>r. r\<lparr>r_last_hunt_sha := None\<rparr>) d"

definition set_last_dep_update :: "millis \<Rightarrow> int \<Rightarrow> db \<Rightarrow> db" where
  "set_last_dep_update now rid d = upd_repo rid (\<lambda>r. r\<lparr>r_last_dep_update_at := Some now\<rparr>) d"

definition set_last_standards_at :: "millis \<Rightarrow> int \<Rightarrow> db \<Rightarrow> db" where
  "set_last_standards_at now rid d = upd_repo rid (\<lambda>r. r\<lparr>r_last_standards_at := Some now\<rparr>) d"

fun stamp_kind :: "millis \<Rightarrow> repo_job_kind \<Rightarrow> repo \<Rightarrow> repo" where
  "stamp_kind now RHunt r = r\<lparr>r_last_hunt_at := Some now\<rparr>"
| "stamp_kind now RTestGap r = r\<lparr>r_last_test_gap_at := Some now\<rparr>"
| "stamp_kind now RDepUpdate r = r\<lparr>r_last_dep_update_at := Some now\<rparr>"
| "stamp_kind now RRefactor r = r\<lparr>r_last_refactor_at := Some now\<rparr>"
| "stamp_kind now RModernization r = r\<lparr>r_last_modernization_at := Some now\<rparr>"
| "stamp_kind now RStandards r = r\<lparr>r_last_standards_at := Some now\<rparr>"

definition set_last_kind_at :: "millis \<Rightarrow> int \<Rightarrow> repo_job_kind \<Rightarrow> db \<Rightarrow> db" where
  "set_last_kind_at now rid kind d = upd_repo rid (stamp_kind now kind) d"

definition set_last_hunt :: "millis \<Rightarrow> int \<Rightarrow> string \<Rightarrow> db \<Rightarrow> db" where
  "set_last_hunt now rid sha d =
     upd_repo rid (\<lambda>r. r\<lparr>r_last_hunt_sha := Some sha, r_last_hunt_at := Some now\<rparr>) d"

definition set_last_full_hunt :: "millis \<Rightarrow> int \<Rightarrow> db \<Rightarrow> db" where
  "set_last_full_hunt now rid d = upd_repo rid (\<lambda>r. r\<lparr>r_last_full_hunt_at := Some now\<rparr>) d"

definition next_hunt_request :: "millis \<Rightarrow> repo \<Rightarrow> int" where
  "next_hunt_request now r =
     max now (max (unwrap_or (r_full_hunt_requested_at r) 0 + 1)
                  (unwrap_or (r_full_hunt_request_attempted r) 0 + 1))"

definition request_full_hunt :: "millis \<Rightarrow> int \<Rightarrow> db \<Rightarrow> bool \<times> db" where
  "request_full_hunt now rid d =
     (let P = (\<lambda>r. r_id r = rid \<and> r_deleted_at r = None)
      in (0 < rows_affected P (db_repos d),
          upd_repos P (\<lambda>r. r\<lparr>r_full_hunt_requested_at := Some (next_hunt_request now r)\<rparr>) d))"

definition mark_full_hunt_attempted :: "int \<Rightarrow> int \<Rightarrow> db \<Rightarrow> db" where
  "mark_full_hunt_attempted rid request d =
     upd_repo rid (\<lambda>r. r\<lparr>r_full_hunt_request_attempted := Some request\<rparr>) d"

definition settle_full_hunt_request :: "int \<Rightarrow> int \<Rightarrow> db \<Rightarrow> db" where
  "settle_full_hunt_request rid jid d =
     upd_repos (\<lambda>r. r_id r = rid \<and>
        sql_eq (r_full_hunt_requested_at r) (Option.bind (get_job d jid) j_full_hunt_request))
       (\<lambda>r. r\<lparr>r_full_hunt_requested_at := None\<rparr>) d"

definition mark_full_history :: "int \<Rightarrow> int option \<Rightarrow> db \<Rightarrow> db" where
  "mark_full_history jid request d =
     upd_jobs (\<lambda>j. j_id j = jid) (\<lambda>j. j\<lparr>j_full_history := True, j_full_hunt_request := request\<rparr>) d"

definition job_full_history :: "int \<Rightarrow> db \<Rightarrow> bool" where
  "job_full_history jid d = (case get_job d jid of None \<Rightarrow> False | Some j \<Rightarrow> j_full_history j)"

definition deleted_name :: "repo \<Rightarrow> string" where
  "deleted_name r = r_name r @ '' (deleted #'' @ show_int (r_id r) @ '')''"

definition soft_delete_repo :: "millis \<Rightarrow> int \<Rightarrow> db \<Rightarrow> (write_error + unit) \<times> db" where
  "soft_delete_repo now rid d =
     (let nf = length (filter (\<lambda>f. f_repo_id f = rid) (db_findings d));
          nj = length (filter (\<lambda>j. j_repo_id j = rid) (db_jobs d));
          P = (\<lambda>r. r_id r = rid \<and> r_deleted_at r = None)
      in if nf > 0 \<or> nj > 0
         then (Inl (Refused (''repo '' @ show_int rid @ '' has '' @ show_int (int nf) @
                 '' finding(s) and '' @ show_int (int nj) @
                 '' job(s) -- cannot delete without losing history; pause it instead'')), d)
         else if list_ex (\<lambda>r. P r \<and> deleted_name r \<in> r_name ` set (db_repos d)) (db_repos d)
         then (Inl (Constraint ''UNIQUE constraint failed: repos.name''), d)
         else (Inr (), upd_repos P (\<lambda>r. r\<lparr>r_deleted_at := Some now, r_name := deleted_name r\<rparr>) d))"

text \<open>A row something refers to cannot be deleted.\<close>

definition forget_deleted_repo :: "int \<Rightarrow> db \<Rightarrow> (string + unit) \<times> db" where
  "forget_deleted_repo rid d =
     (let P = (\<lambda>r. r_id r = rid \<and> r_deleted_at r \<noteq> None)
      in if list_ex P (db_repos d) \<and>
            (rid \<in> f_repo_id ` set (db_findings d) \<or> rid \<in> j_repo_id ` set (db_jobs d))
         then (Inl ''FOREIGN KEY constraint failed'', d)
         else (Inr (), d\<lparr>db_repos := filter (\<lambda>r. \<not> P r) (db_repos d)\<rparr>))"

section \<open>Start-up reconciliation and the scheduler's state\<close>

definition list_running_jobs :: "db \<Rightarrow> job list" where
  "list_running_jobs d =
     rev (sort_key j_id
       (filter (\<lambda>j. j_state j = JRunning \<and> get_repo_row d (j_repo_id j) \<noteq> None) (db_jobs d)))"

definition reconcile_orphaned_jobs :: "millis \<Rightarrow> db \<Rightarrow> (finding list \<times> job list) \<times> db" where
  "reconcile_orphaned_jobs now d =
     (let stuck = findings_with Fixing d;
          d1 = fold (\<lambda>f. set_finding_status now (f_id f) Queued) stuck d;
          running = list_running_jobs d1;
          d2 = fold (\<lambda>j. orphan_job (j_id j)
                  ''reconciled at cycle startup -- prior process died mid-job'' now) running d1
      in ((stuck, running), d2))"

definition set_scheduler_state :: "millis \<Rightarrow> string \<Rightarrow> string \<Rightarrow> millis option \<Rightarrow> db \<Rightarrow> db" where
  "set_scheduler_state now state detail wake d =
     d\<lparr>db_sched := Some \<lparr>ss_state = state, ss_detail = detail, ss_next_wake_at = wake,
        ss_updated_at = now\<rparr>\<rparr>"

section \<open>Links and frames\<close>

lemma has_successor_alt: "has_successor d k \<longleftrightarrow> Some k \<in> set (map j_resumed_from (db_jobs d))"
  unfolding has_successor_def set_map image_iff by metis

lemma has_successor_upd [simp]:
  "(\<And>j. j_resumed_from (f j) = j_resumed_from j) \<Longrightarrow>
     has_successor (upd_jobs P f d) k = has_successor d k"
  by (simp only: has_successor_alt frame_simps map_update_where)

lemma has_successor_cong: "db_jobs d' = db_jobs d \<Longrightarrow> has_successor d' k = has_successor d k"
  by (simp add: has_successor_def)

lemma retire_job_frame [frame_simps]:
  "db_findings (retire_job i s k n d) = db_findings d" "db_repos (retire_job i s k n d) = db_repos d"
  "db_prs (retire_job i s k n d) = db_prs d"
  by (simp_all add: retire_job_def frame_simps)

definition retired_as :: "job \<Rightarrow> job \<Rightarrow> bool" where
  "retired_as j j' \<longleftrightarrow>
     j' = j\<lparr>j_state := JKilled, j_killed_reason := j_killed_reason j', j_notes := j_notes j'\<rparr>"

lemma retired_asD:
  assumes "retired_as j j'"
  shows "j_id j' = j_id j" "j_kind j' = j_kind j" "j_repo_id j' = j_repo_id j"
    "j_finding_id j' = j_finding_id j" "j_resumed_from j' = j_resumed_from j" "j_state j' = JKilled"
  using arg_cong [OF assms [unfolded retired_as_def], of j_id]
    arg_cong [OF assms [unfolded retired_as_def], of j_kind]
    arg_cong [OF assms [unfolded retired_as_def], of j_repo_id]
    arg_cong [OF assms [unfolded retired_as_def], of j_finding_id]
    arg_cong [OF assms [unfolded retired_as_def], of j_resumed_from]
    arg_cong [OF assms [unfolded retired_as_def], of j_state]
  by simp_all

lemma retired_as_trans: "retired_as j j1 \<Longrightarrow> retired_as j1 j2 \<Longrightarrow> retired_as j j2"
  unfolding retired_as_def by (cases j; cases j1; cases j2) simp

text \<open>A pass that retires a list of jobs, one transaction step per job.\<close>

locale retiring =
  fixes step :: "'x \<Rightarrow> db \<Rightarrow> db" and key :: "'x \<Rightarrow> int"
  assumes step_jobs: "\<exists>k n. db_jobs (step x d) = db_jobs (retire_job (key x) JKilled (Some k) n d)"
    and step_findings: "db_findings (step x d) = db_findings d"
    and step_repos: "db_repos (step x d) = db_repos d"
begin

lemma fold_frame: "db_findings (fold step xs d) = db_findings d" "db_repos (fold step xs d) = db_repos d"
  by (induction xs arbitrary: d) (simp_all add: step_findings step_repos)

lemma fold_jobs:
  "list_all2 (\<lambda>j j'. if j_id j \<in> key ` set xs then retired_as j j' else j' = j)
     (db_jobs d) (db_jobs (fold step xs d))"
proof (induction xs arbitrary: d)
  case Nil
  then show ?case by (simp add: list_all2_same)
next
  case (Cons x xs)
  from step_jobs obtain k n where
    x: "db_jobs (step x d) = db_jobs (retire_job (key x) JKilled (Some k) n d)" by blast
  have one: "list_all2 (\<lambda>j j'. if j_id j = key x then retired_as j j' else j' = j)
      (db_jobs d) (db_jobs (step x d))"
    unfolding x retire_job_def
    by (simp add: frame_simps update_where_def list_all2_conv_all_nth retired_as_def)
  have many: "list_all2 (\<lambda>j j'. if j_id j \<in> key ` set xs then retired_as j j' else j' = j)
      (db_jobs (step x d)) (db_jobs (fold step (x # xs) d))"
    using Cons.IH [of "step x d"] by simp
  show ?case
  proof (rule list_all2_trans [OF _ one many], goal_cases)
    case (1 a b c)
    then show ?case
      using retired_as_trans [of a b c] retired_asD(1) [of a b]
      by (auto split: if_splits)
  qed
qed

lemma fold_job_from:
  assumes "j' \<in> set (db_jobs (fold step xs d))"
  shows "\<exists>j \<in> set (db_jobs d). if j_id j \<in> key ` set xs then retired_as j j' else j' = j"
  using list_all2_from [OF fold_jobs assms] .

lemma fold_job_to:
  assumes "j \<in> set (db_jobs d)"
  shows "\<exists>j' \<in> set (db_jobs (fold step xs d)). if j_id j \<in> key ` set xs then retired_as j j' else j' = j"
  using list_all2_to [OF fold_jobs assms] .

lemma fold_ids: "map j_id (db_jobs (fold step xs d)) = map j_id (db_jobs d)"
proof -
  have "list_all2 (\<lambda>j j'. j_id j = j_id j') (db_jobs d) (db_jobs (fold step xs d))"
    by (rule list_all2_mono [OF fold_jobs]) (auto dest: retired_asD split: if_splits)
  then show ?thesis by (simp add: list_all2_conv_all_nth list_eq_iff_nth_eq)
qed

lemma fold_links: "map j_resumed_from (db_jobs (fold step xs d)) = map j_resumed_from (db_jobs d)"
proof -
  have "list_all2 (\<lambda>j j'. j_resumed_from j = j_resumed_from j') (db_jobs d) (db_jobs (fold step xs d))"
    by (rule list_all2_mono [OF fold_jobs]) (auto dest: retired_asD split: if_splits)
  then show ?thesis by (simp add: list_all2_conv_all_nth list_eq_iff_nth_eq)
qed

lemma fold_has_successor: "has_successor (fold step xs d) k = has_successor d k"
  by (simp only: has_successor_alt fold_links)

end

interpretation superseding: retiring "supersede_one now kind fid jid" fst for now kind fid jid
  by unfold_locales
    (auto simp: supersede_one_def Let_def frame_simps)

interpretation stranding: retiring "retire_stranded_one now" "\<lambda>(j, _, _). j_id j" for now
  by unfold_locales
    (auto simp: retire_stranded_one_def Let_def frame_simps split: prod.splits)

section \<open>Creating a job: what changes\<close>

lemma create_job_cases:
  assumes "create_job now kind rid fid cap st est resumed d = (Inr (jid, olds), d')"
  shows "live_repo d rid" "jid = next_id (map j_id (db_jobs d))"
    "\<exists>sup. olds = map fst sup \<and>
       sup = (if resumed = None
              then superseded_by kind rid fid jid
                     (d\<lparr>db_jobs := db_jobs d @ [new_job now kind rid fid cap st est resumed jid d]\<rparr>)
              else []) \<and>
       d' = fold (supersede_one now kind fid jid) sup
              (d\<lparr>db_jobs := db_jobs d @ [new_job now kind rid fid cap st est resumed jid d]\<rparr>)"
  using assms by (auto simp: create_job_def Let_def split: if_splits)

lemma superseded_byI:
  assumes "j \<in> set (db_jobs d)" "j_state j = JSuspended" "j_kind j = kind" "j_id j \<noteq> jid"
    and "if is_finding kind then sql_eq (j_finding_id j) fid else j_repo_id j = rid"
    and "\<not> has_successor d (j_id j)" "get_repo_row d (j_repo_id j) = Some r"
  shows "(j_id j, r_name r) \<in> set (superseded_by kind rid fid jid d)"
  unfolding superseded_by_def
  by (rule map_filter_mem [where x = j]) (use assms in \<open>auto split: if_splits\<close>)

lemma superseded_byD:
  assumes "x \<in> set (superseded_by kind rid fid jid d)"
  shows "\<exists>j \<in> set (db_jobs d). j_id j = fst x \<and> j_state j = JSuspended \<and> j_kind j = kind \<and>
    j_id j \<noteq> jid \<and> \<not> has_successor d (j_id j)"
  using map_filter_memD [OF assms [unfolded superseded_by_def]] by auto

lemma new_job_simps [simp]:
  "j_id (new_job now kind rid fid cap st est resumed jid d) = jid"
  "j_kind (new_job now kind rid fid cap st est resumed jid d) = kind"
  "j_state (new_job now kind rid fid cap st est resumed jid d) = st"
  "j_resumed_from (new_job now kind rid fid cap st est resumed jid d) = resumed"
  "j_repo_id (new_job now kind rid fid cap st est resumed jid d) = rid"
  "j_finding_id (new_job now kind rid fid cap st est resumed jid d) = fid"
  "j_session_file (new_job now kind rid fid cap st est resumed jid d) = None"
  by (simp_all add: new_job_def Let_def)

lemma create_job_resumed:
  assumes "create_job now kind rid fid cap st est (Some p) d = (Inr (jid, olds), d')"
  shows "olds = []"
    "d' = d\<lparr>db_jobs := db_jobs d @ [new_job now kind rid fid cap st est (Some p) jid d]\<rparr>"
  using create_job_cases(3) [OF assms] by auto

lemma create_job_ids:
  assumes "create_job now kind rid fid cap st est resumed d = (Inr (jid, olds), d')"
  shows "map j_id (db_jobs d') = map j_id (db_jobs d) @ [jid]"
    "map j_resumed_from (db_jobs d') = map j_resumed_from (db_jobs d) @ [resumed]"
proof -
  from create_job_cases(3) [OF assms] obtain sup where
    d': "d' = fold (supersede_one now kind fid jid) sup
      (d\<lparr>db_jobs := db_jobs d @ [new_job now kind rid fid cap st est resumed jid d]\<rparr>)" by blast
  show "map j_id (db_jobs d') = map j_id (db_jobs d) @ [jid]"
    unfolding d' superseding.fold_ids by simp
  show "map j_resumed_from (db_jobs d') = map j_resumed_from (db_jobs d) @ [resumed]"
    unfolding d' superseding.fold_links by simp
qed

section \<open>The links stay acyclic\<close>

text \<open>Job ids are unique and a link only ever names an older job of the table.\<close>

definition links_ok :: "db \<Rightarrow> bool" where
  "links_ok d \<longleftrightarrow> distinct (map j_id (db_jobs d)) \<and>
     (\<forall>j \<in> set (db_jobs d). \<forall>p. j_resumed_from j = Some p \<longrightarrow> p < j_id j \<and> p \<in> set (map j_id (db_jobs d)))"

lemma links_ok_alt:
  "links_ok d \<longleftrightarrow> distinct (map j_id (db_jobs d)) \<and>
     list_all2 (\<lambda>i r. \<forall>p. r = Some p \<longrightarrow> p < i \<and> p \<in> set (map j_id (db_jobs d)))
       (map j_id (db_jobs d)) (map j_resumed_from (db_jobs d))"
proof -
  have "list_all2 (\<lambda>i r. \<forall>p. r = Some p \<longrightarrow> p < i \<and> p \<in> set ids) (map j_id js) (map j_resumed_from js) \<longleftrightarrow>
      (\<forall>j \<in> set js. \<forall>p. j_resumed_from j = Some p \<longrightarrow> p < j_id j \<and> p \<in> set ids)" for js ids
    by (induction js) auto
  then show ?thesis unfolding links_ok_def by blast
qed

lemma links_ok_cong:
  assumes "map j_id (db_jobs d') = map j_id (db_jobs d)"
    "map j_resumed_from (db_jobs d') = map j_resumed_from (db_jobs d)"
  shows "links_ok d' = links_ok d"
  unfolding links_ok_alt assms by simp

lemma links_ok_upd:
  "(\<And>j. j_id (f j) = j_id j) \<Longrightarrow> (\<And>j. j_resumed_from (f j) = j_resumed_from j) \<Longrightarrow>
     links_ok (upd_jobs P f d) = links_ok d"
  by (rule links_ok_cong) (simp_all add: frame_simps map_update_where)

lemma links_ok_jobs: "db_jobs d' = db_jobs d \<Longrightarrow> links_ok d' = links_ok d"
  by (rule links_ok_cong) simp_all

lemma links_ok_frame [simp]:
  "links_ok (upd_findings P f d) = links_ok d" "links_ok (upd_repos Q g d) = links_ok d"
  "links_ok (upd_prs R h d) = links_ok d" "links_ok (log_event now k m i j d) = links_ok d"
  by (rule links_ok_jobs, simp add: frame_simps)+

text \<open>Every way the store writes its tables, as one step.  A new job resumes nothing or a job of
  the table, which the foreign key enforces.\<close>

inductive store_step :: "db \<Rightarrow> db \<Rightarrow> bool" where
  create: "(\<forall>p. resumed = Some p \<longrightarrow> p \<in> j_id ` set (db_jobs d)) \<Longrightarrow>
    create_job now kind rid fid cap st est resumed d = (res, d') \<Longrightarrow> store_step d d'"
| complete: "store_step d (complete_job jid out d)"
| unstarted: "store_step d (fail_unstarted_job now jid notes d)"
| orphan_suspend: "store_step d (suspend_orphan jid session tokens notes finished d)"
| orphan: "store_step d (orphan_job jid notes finished d)"
| fail: "store_step d (fail_job jid notes d)"
| retire: "store_step d (retire_suspended_job jid st killed notes d)"
| sweep: "retire_stranded_suspensions now d = (ids, d') \<Longrightarrow> store_step d d'"
| block: "block_fix_job now fid jid reason d = (res, d') \<Longrightarrow> store_step d d'"
| pin: "store_step d (set_pinned_sha jid sha d)"
| history: "store_step d (mark_full_history jid request d)"
| reconcile: "reconcile_orphaned_jobs now d = (res, d') \<Longrightarrow> store_step d d'"
| findings: "store_step d (upd_findings P f d)"
| repos: "store_step d (upd_repos Q g d)"
| prs: "store_step d (upd_prs R h d)"
| events: "store_step d (log_event now kind_name msg jref fref d)"

inductive reachable :: "db \<Rightarrow> bool" where
  start: "db_jobs d = [] \<Longrightarrow> reachable d"
| step: "reachable d \<Longrightarrow> store_step d d' \<Longrightarrow> reachable d'"

lemma fold_links_ok:
  "(\<And>x d. links_ok d \<Longrightarrow> links_ok (s x d)) \<Longrightarrow> links_ok d \<Longrightarrow> links_ok (fold s xs d)"
  by (induction xs arbitrary: d) auto

lemma create_links_ok:
  assumes "links_ok d" "\<And>p. resumed = Some p \<Longrightarrow> p \<in> j_id ` set (db_jobs d)"
    and "create_job now kind rid fid cap st est resumed d = (res, d')"
  shows "links_ok d'"
proof (cases res)
  case (Inl e)
  with assms(1,3) show ?thesis by (auto simp: create_job_def Let_def split: if_splits)
next
  case (Inr x)
  obtain jid olds where x: "x = (jid, olds)" by (cases x)
  note c = assms(3) [unfolded Inr x]
  have jid: "jid = next_id (map j_id (db_jobs d))" by (rule create_job_cases(2) [OF c])
  have "p < jid" if "resumed = Some p" for p
    unfolding jid by (rule next_id_fresh) (use assms(2) [OF that] in simp)
  moreover have "jid \<notin> set (map j_id (db_jobs d))" unfolding jid by (rule next_id_notin)
  moreover have "p \<in> set (map j_id (db_jobs d))" if "resumed = Some p" for p
    using assms(2) [OF that] by simp
  moreover have "list_all2 (\<lambda>i r. \<forall>p. r = Some p \<longrightarrow> p < i \<and> p \<in> set (map j_id (db_jobs d) @ [jid]))
       (map j_id (db_jobs d)) (map j_resumed_from (db_jobs d))"
    using assms(1) unfolding links_ok_alt by (auto elim!: list_all2_mono simp del: set_map)
  ultimately show ?thesis
    using assms(1) unfolding links_ok_alt create_job_ids [OF c]
    by (simp add: list_all2_append del: set_map)
qed

lemma store_step_links_ok: "store_step d d' \<Longrightarrow> links_ok d \<Longrightarrow> links_ok d'"
proof (induction rule: store_step.induct)
  case (create resumed d now kind rid fid cap st est res d')
  then show ?case using create_links_ok by blast
next
  case (sweep now d ids d')
  then have d': "d' = fold (retire_stranded_one now) (stranded_rows d) d"
    by (simp add: retire_stranded_suspensions_def)
  have "links_ok d' = links_ok d"
    unfolding d' by (rule links_ok_cong [OF stranding.fold_ids stranding.fold_links])
  with sweep show ?case by simp
next
  case (block now fid jid reason d res d')
  then consider "d' = d" | Q P where "d' = upd_findings Q (blocked_finding now)
      (upd_jobs P (blocked_job now reason d) d)"
    unfolding block_fix_job_def Let_def by (auto split: if_splits)
  then show ?case
  proof cases
    case 2
    have "links_ok (upd_jobs P (blocked_job now reason d) d)"
      using block(2) by (simp add: links_ok_upd blocked_job_def)
    with 2 show ?thesis by simp
  qed (use block(2) in simp)
next
  case (reconcile now d res d')
  let ?d1 = "fold (\<lambda>f. set_finding_status now (f_id f) Queued) (findings_with Fixing d) d"
  have "links_ok ?d1"
    by (rule fold_links_ok [OF _ reconcile(2)])
      (simp add: set_finding_status_def)
  then have "links_ok (fold (\<lambda>j. orphan_job (j_id j)
      ''reconciled at cycle startup -- prior process died mid-job'' now) (list_running_jobs ?d1) ?d1)"
    by (rule fold_links_ok [rotated]) (simp add: orphan_job_def links_ok_upd)
  with reconcile(1) show ?case by (auto simp: reconcile_orphaned_jobs_def Let_def)
qed (simp_all add: complete_job_def fail_unstarted_job_def suspend_orphan_def orphan_job_def
    fail_job_def retire_suspended_job_def retire_job_def set_pinned_sha_def mark_full_history_def
    links_ok_upd)

lemma reachable_links_ok: "reachable d \<Longrightarrow> links_ok d"
  by (induction rule: reachable.induct) (simp add: links_ok_def, rule store_step_links_ok)

section \<open>Ancestries\<close>

definition predecessor_rel :: "db \<Rightarrow> (int \<times> int) set" where
  "predecessor_rel d = {(i, p). \<exists>j. get_job d i = Some j \<and> j_resumed_from j = Some p}"

lemma links_ok_get:
  assumes "links_ok d" "get_job d i = Some j" "j_resumed_from j = Some p"
  shows "p < i" "\<exists>q. get_job d p = Some q"
proof -
  have j: "j \<in> set (db_jobs d)" "j_id j = i" using jobs.get_SomeD [OF assms(2)] by auto
  with assms(1,3) show "p < i" unfolding links_ok_def by fastforce
  have "p \<in> j_id ` set (db_jobs d)" using assms(1,3) j unfolding links_ok_def by fastforce
  then show "\<exists>q. get_job d p = Some q" using jobs.get_None_iff [of d p] by (cases "get_job d p") auto
qed

lemma ancestry_upto_props:
  assumes "links_ok d"
  shows "get_job d i = Some j \<Longrightarrow>
    ancestry_upto n (\<lambda>_. True) d i \<noteq> [] \<and>
    hd (ancestry_upto n (\<lambda>_. True) d i) = i \<and>
    sorted_wrt (>) (ancestry_upto n (\<lambda>_. True) d i) \<and>
    (i, last (ancestry_upto n (\<lambda>_. True) d i)) \<in> (predecessor_rel d)\<^sup>* \<and>
    (length (ancestry_upto n (\<lambda>_. True) d i) \<le> n \<longrightarrow>
       (\<exists>root. get_job d (last (ancestry_upto n (\<lambda>_. True) d i)) = Some root \<and> j_resumed_from root = None))"
proof (induction n arbitrary: i j)
  case 0
  then show ?case by (subst (1 2 3 4 5 6) ancestry_upto.simps) simp
next
  case (Suc n)
  show ?case
  proof (cases "j_resumed_from j")
    case None
    with Suc.prems have "ancestry_upto (Suc n) (\<lambda>_. True) d i = [i]"
      by (subst ancestry_upto.simps) simp
    with None Suc.prems show ?thesis by simp
  next
    case (Some p)
    from links_ok_get [OF assms Suc.prems Some] obtain q where "p < i" and q: "get_job d p = Some q"
      by blast
    let ?r = "ancestry_upto n (\<lambda>_. True) d p"
    have eq: "ancestry_upto (Suc n) (\<lambda>_. True) d i = i # ?r"
      using Suc.prems Some q by (subst ancestry_upto.simps) simp
    note IH = Suc.IH [OF q]
    then have ne: "?r \<noteq> []" "hd ?r = p" "sorted_wrt (>) ?r" by blast+
    have "sorted_wrt (>) (i # ?r)"
    proof (cases ?r)
      case (Cons a as)
      with ne \<open>p < i\<close> show ?thesis by auto
    qed simp
    moreover have "(i, p) \<in> predecessor_rel d" using Suc.prems Some by (auto simp: predecessor_rel_def)
    then have "(i, last ?r) \<in> (predecessor_rel d)\<^sup>*" using IH by (meson converse_rtrancl_into_rtrancl)
    ultimately show ?thesis using eq IH ne by auto
  qed
qed

lemma min_by_key_last:
  "sorted_wrt (>) xs \<Longrightarrow> xs \<noteq> [] \<Longrightarrow> min_by_key (\<lambda>x. x) xs = Some (last xs)" for xs :: "int list"
proof (induction xs)
  case (Cons x xs)
  show ?case
  proof (cases "xs = []")
    case False
    then have "last xs \<in> set xs" by simp
    with Cons.prems have "last xs < x" by auto
    with Cons False show ?thesis by simp
  qed simp
qed simp

section \<open>Properties\<close>

definition sample_repo :: repo where
  "sample_repo = \<lparr>r_id = 1, r_name = ''demo'', r_url = ''u'', r_path = ''p'', r_forge = Github,
     r_default_branch = ''main'', r_last_hunt_sha = None, r_last_hunt_at = None, r_enabled = 1,
     r_added_at = 0, r_last_full_hunt_at = None, r_last_test_gap_at = None,
     r_last_dep_update_at = None, r_last_refactor_at = None, r_last_modernization_at = None,
     r_last_standards_at = None, r_full_hunt_requested_at = None,
     r_full_hunt_request_attempted = None, r_deleted_at = None\<rparr>"

definition repo_db :: db where
  "repo_db = sample_db\<lparr>db_repos := [sample_repo]\<rparr>"

definition sample_job :: job where
  "sample_job = new_job 3 K_fix 1 (Some 1) None JSuspended (Some 10) None 1 repo_db"

definition job_db :: db where
  "job_db = repo_db\<lparr>db_jobs := [sample_job]\<rparr>"

text \<open>C13. Resume chains never loop: from an empty job table, whatever sequence of store operations
  runs, job ids stay unique and a job continues only an older job that is still in the table.\<close>

theorem reachable_chains_acyclic:
  assumes "reachable d"
  shows "distinct (map j_id (db_jobs d)) \<and>
    (\<forall>j \<in> set (db_jobs d). \<forall>p. j_resumed_from j = Some p \<longrightarrow> p < j_id j \<and> p \<in> j_id ` set (db_jobs d)) \<and>
    acyclic (predecessor_rel d)"
proof -
  have ok: "links_ok d" using assms by (rule reachable_links_ok)
  have one: "p < i" if "(i, p) \<in> predecessor_rel d" for i p
    using that links_ok_get(1) [OF ok] by (auto simp: predecessor_rel_def)
  have "p < i" if "(i, p) \<in> (predecessor_rel d)\<^sup>+" for i p
    using that by (induction rule: trancl_induct) (use one in force)+
  then have "acyclic (predecessor_rel d)" by (auto simp: acyclic_def)
  with ok show ?thesis by (auto simp: links_ok_def)
qed

lemma repo_db_reachable: "reachable repo_db"
  by (rule reachable.start) (simp add: repo_db_def sample_db_def empty_db_def)

lemma job_db_created:
  "create_job 3 K_fix 1 (Some 1) None JSuspended (Some 10) None repo_db = (Inr (1, []), job_db)"
  by (simp add: create_job_def Let_def live_repo_def repo_db_def sample_db_def empty_db_def
      next_id_def superseded_by_def sample_repo_def job_db_def sample_job_def)

lemma job_db_reachable: "reachable job_db"
  by (rule reachable.step [OF repo_db_reachable store_step.create [OF _ job_db_created]]) simp

theorem reachable_chains_acyclic_witness: "acyclic (predecessor_rel job_db)"
  using reachable_chains_acyclic [OF job_db_reachable] by simp

text \<open>The working directory of a resumed job is found exactly: in a table the store can reach,
  the origin computed for a job is an ancestor of it (or the job itself) that continues nothing,
  as long as the chain is no longer than the depth cap.\<close>

theorem resume_origin_is_root:
  assumes "reachable d" "get_job d jid = Some j" "length (ancestry d jid) \<le> RESUME_CHAIN_MAX_DEPTH"
  shows "\<exists>root. get_job d (resume_origin_job jid d) = Some root \<and> j_resumed_from root = None \<and>
    (jid, resume_origin_job jid d) \<in> (predecessor_rel d)\<^sup>*"
proof -
  note p = ancestry_upto_props [OF reachable_links_ok [OF assms(1)] assms(2), of RESUME_CHAIN_MAX_DEPTH,
    folded ancestry_def]
  then have "resume_origin_job jid d = last (ancestry d jid)"
    by (simp add: resume_origin_job_def min_by_key_last)
  with p assms(3) show ?thesis by simp
qed

theorem resume_origin_is_root_witness: "(1, resume_origin_job 1 job_db) \<in> (predecessor_rel job_db)\<^sup>*"
proof -
  have g: "get_job job_db 1 = Some sample_job"
    by (simp add: get_job_def job_db_def sample_job_def)
  have "ancestry job_db 1 = [1]"
    unfolding ancestry_def by (subst ancestry_upto.simps) (simp add: g, simp add: sample_job_def split: nat.splits)
  then have "length (ancestry job_db 1) \<le> RESUME_CHAIN_MAX_DEPTH" by (simp add: RESUME_CHAIN_MAX_DEPTH_def)
  from resume_origin_is_root [OF job_db_reachable g this] show ?thesis by blast
qed

text \<open>Starting over leaves nothing behind to resume: after a fresh job is created, no other
  suspended job of the same work (the same kind on the same finding, or on the same repository)
  is left without a successor, and every job it reports as superseded is now killed.\<close>

theorem create_job_supersedes:
  assumes "create_job now kind rid fid cap st est None d = (Inr (jid, olds), d')"
    and "j \<in> set (db_jobs d')" "j_id j \<noteq> jid" "j_kind j = kind"
    and "if is_finding kind then sql_eq (j_finding_id j) fid else j_repo_id j = rid"
    and "get_repo_row d' (j_repo_id j) = Some r"
  shows "\<not> (j_state j = JSuspended \<and> \<not> has_successor d' (j_id j)) \<and>
    (j_id j \<in> set olds \<longrightarrow> j_state j = JKilled)"
proof -
  let ?d1 = "d\<lparr>db_jobs := db_jobs d @ [new_job now kind rid fid cap st est None jid d]\<rparr>"
  let ?sup = "superseded_by kind rid fid jid ?d1"
  from create_job_cases(3) [OF assms(1)] have olds: "set olds = fst ` set ?sup"
    and d': "d' = fold (supersede_one now kind fid jid) ?sup ?d1" by auto
  from superseding.fold_job_from [of j now kind fid jid ?sup ?d1] assms(2) d'
  obtain k where k: "k \<in> set (db_jobs ?d1)"
    "if j_id k \<in> fst ` set ?sup then retired_as k j else j = k" by blast
  have ids: "j_id j = j_id k" using k(2) by (auto dest: retired_asD split: if_splits)
  show ?thesis
  proof (cases "j_id k \<in> fst ` set ?sup")
    case True
    with k(2) have "j_state j = JKilled" by (simp add: retired_asD)
    then show ?thesis by simp
  next
    case False
    with k(2) have jk: "j = k" by simp
    have "db_repos d' = db_repos ?d1" unfolding d' by (rule superseding.fold_frame)
    then have r: "get_repo_row ?d1 (j_repo_id j) = Some r"
      using assms(6) by (simp add: get_repo_row_def)
    have succ: "has_successor d' (j_id j) = has_successor ?d1 (j_id j)"
      unfolding d' by (rule superseding.fold_has_successor)
    have "\<not> (j_state j = JSuspended \<and> \<not> has_successor d' (j_id j))"
    proof
      assume "j_state j = JSuspended \<and> \<not> has_successor d' (j_id j)"
      with superseded_byI [of j ?d1 kind jid fid rid r] k(1) jk assms(3-5) r succ
      have "(j_id j, r_name r) \<in> set ?sup" by blast
      with False jk show False by force
    qed
    with False ids olds jk show ?thesis by simp
  qed
qed

lemma superseding_run:
  "create_job 9 K_fix 1 (Some 1) None JRunning (Some 10) None job_db =
     (Inr (2, [1]), snd (create_job 9 K_fix 1 (Some 1) None JRunning (Some 10) None job_db))"
  by (simp add: create_job_def Let_def live_repo_def job_db_def repo_db_def sample_db_def empty_db_def
      next_id_def superseded_by_def sample_job_def sample_repo_def has_successor_def sql_eq_def
      get_repo_row_def List.map_filter_def)

theorem create_job_supersedes_witness:
  "\<exists>j. get_job (snd (create_job 9 K_fix 1 (Some 1) None JRunning (Some 10) None job_db)) 1 = Some j \<and>
     j_state j = JKilled"
proof -
  let ?d = "snd (create_job 9 K_fix 1 (Some 1) None JRunning (Some 10) None job_db)"
  obtain j where j: "get_job ?d 1 = Some j" "j_id j = 1" "j_kind j = K_fix" "j_finding_id j = Some 1"
    "j_repo_id j = 1"
    by (simp add: create_job_def Let_def live_repo_def job_db_def repo_db_def sample_db_def
      empty_db_def next_id_def superseded_by_def sample_job_def sample_repo_def has_successor_def
      sql_eq_def get_repo_row_def List.map_filter_def supersede_one_def insert_event_def
      retire_job_def upd_jobs_def get_job_def)
  have r: "get_repo_row ?d 1 = Some sample_repo"
    by (simp add: create_job_def Let_def live_repo_def job_db_def repo_db_def sample_db_def
      empty_db_def next_id_def superseded_by_def sample_job_def sample_repo_def has_successor_def
      sql_eq_def get_repo_row_def List.map_filter_def supersede_one_def insert_event_def
      retire_job_def upd_jobs_def)
  have "j \<in> set (db_jobs ?d)" using jobs.get_SomeD [OF j(1)] by simp
  from create_job_supersedes [OF superseding_run this, of sample_repo] j r
  show ?thesis by (simp add: sql_eq_def)
qed

text \<open>What the sweep retires, what it leaves alone, and what survives it.\<close>

lemma stranded_rowI:
  assumes "j \<in> set (db_jobs d)" "Option.bind (j_finding_id j) (get_finding d) = Some f" "get_repo_row d (j_repo_id j) = Some r" "stranded d j f"
  shows "(j, f, r) \<in> set (stranded_rows d)"
  unfolding stranded_rows_def by (rule map_filter_mem [where x = j]) (use assms in simp_all)

lemma stranded_rowD:
  assumes "i \<in> (\<lambda>(j, _, _). j_id j) ` set (stranded_rows d)"
  shows "\<exists>j f. j \<in> set (db_jobs d) \<and> j_id j = i \<and> stranded d j f \<and> Option.bind (j_finding_id j) (get_finding d) = Some f"
proof -
  from assms obtain j f r where m: "(j, f, r) \<in> set (stranded_rows d)" "i = j_id j" by auto
  from map_filter_memD [OF m(1) [unfolded stranded_rows_def]] m(2) show ?thesis
    by (auto split: option.splits if_splits)
qed

lemma swept_frame:
  assumes "retire_stranded_suspensions now d = (ids, d')"
  shows "d' = fold (retire_stranded_one now) (stranded_rows d) d" "db_findings d' = db_findings d" "db_repos d' = db_repos d"
    "has_successor d' i = has_successor d i" "get_finding d' = get_finding d" "get_repo_row d' = get_repo_row d"
proof -
  show d': "d' = fold (retire_stranded_one now) (stranded_rows d) d"
    using assms by (simp add: retire_stranded_suspensions_def)
  show rows: "db_findings d' = db_findings d" "db_repos d' = db_repos d"
    unfolding d' by (rule stranding.fold_frame)+
  show "has_successor d' i = has_successor d i"
    unfolding d' by (rule stranding.fold_has_successor)
  show "get_finding d' = get_finding d" "get_repo_row d' = get_repo_row d"
    by (simp_all add: fun_eq_iff get_finding_def get_repo_row_def rows)
qed

lemma left_suspended:
  assumes "retire_stranded_suspensions now d = (ids, d')"
    and j: "j \<in> set (db_jobs d')" "j_state j = JSuspended" "\<not> has_successor d' (j_id j)" "j_kind j = Finding_kind k"
      "Option.bind (j_finding_id j) (get_finding d') = Some f" "get_repo_row d' (j_repo_id j) = Some r"
  shows "kept_status k (f_status f)"
proof -
  note swept = swept_frame [OF assms(1)]
  from stranding.fold_job_from [of j now "stranded_rows d" d] j(1) swept(1) obtain i where
    i: "i \<in> set (db_jobs d)"
      "if j_id i \<in> (\<lambda>(j, _, _). j_id j) ` set (stranded_rows d) then retired_as i j else j = i" by blast
  with j(2) have same: "j = i" "j_id i \<notin> (\<lambda>(j, _, _). j_id j) ` set (stranded_rows d)"
    by (auto dest: retired_asD split: if_splits)
  then have "\<not> stranded d j f"
    using stranded_rowI [of j d f r] i(1) j(5,6) swept(5,6) by (auto simp: rev_image_eqI)
  with j(2-4) swept(4) show ?thesis by (simp add: stranded_def)
qed

lemma resumable_not_stranded:
  assumes "distinct (map f_id (db_findings d))" "distinct (map j_id (db_jobs d))"
    and "is_repo (j_kind j) \<Longrightarrow> j_finding_id j = None" "j \<in> set (db_jobs d)" "resumable d j"
  shows "j_id j \<notin> (\<lambda>(j, _, _). j_id j) ` set (stranded_rows d)"
proof
  assume "j_id j \<in> (\<lambda>(j, _, _). j_id j) ` set (stranded_rows d)"
  from stranded_rowD [OF this] obtain i f where i: "i \<in> set (db_jobs d)" "j_id i = j_id j" "stranded d i f"
    "Option.bind (j_finding_id i) (get_finding d) = Some f" by blast
  then have "i = j" using jobs.get_unique [OF assms(2)] assms(4) by (metis option.inject)
  with i obtain fid where fid: "j_finding_id j = Some fid" "get_finding d fid = Some f"
    by (auto simp: bind_eq_Some_conv)
  obtain k where k: "j_kind j = Finding_kind k"
    using assms(3) fid(1) by (cases "j_kind j") auto
  from assms(5) k fid(1) obtain g where g: "g \<in> set (db_findings d)" "f_id g = fid" "offered_status k (f_status g)"
    by (auto simp: resumable_def kind_offered_def)
  then have "get_finding d fid = Some g" using findings.get_unique [OF assms(1)] by blast
  with fid(2) g have "kept_status k (f_status f)" by (cases k) auto
  with i(3) \<open>i = j\<close> k show False by (simp add: stranded_def)
qed

lemma resumable_survives:
  assumes "retire_stranded_suspensions now d = (ids, d')" "j \<in> set (db_jobs d)" "resumable d j"
    and "j_id j \<notin> (\<lambda>(j, _, _). j_id j) ` set (stranded_rows d)"
  shows "j \<in> set (db_jobs d') \<and> resumable d' j"
proof -
  note swept = swept_frame [OF assms(1)]
  obtain j' where "j' \<in> set (db_jobs d')"
    "if j_id j \<in> (\<lambda>(j, _, _). j_id j) ` set (stranded_rows d) then retired_as j j' else j' = j"
    using stranding.fold_job_to [OF assms(2), of now "stranded_rows d"] swept(1) by blast
  with assms(4) have "j \<in> set (db_jobs d')" by auto
  moreover have "kind_offered d' j = kind_offered d j"
    by (cases "j_kind j") (simp_all add: kind_offered_def swept(2))
  then have "resumable d' j"
    using assms(3) by (simp add: resumable_def swept(3,4) live_repo_def)
  ultimately show ?thesis by blast
qed

lemma swept_or_kept:
  assumes "retire_stranded_suspensions now d = (ids, d')" "j \<in> set (db_jobs d)" "distinct (map j_id (db_jobs d))"
  shows "j \<in> set (db_jobs d') \<or>
    j_id j \<in> set ids \<and> j_state j = JSuspended \<and> (\<exists>j' \<in> set (db_jobs d'). retired_as j j')"
proof -
  obtain j' where "j' \<in> set (db_jobs d')"
    "if j_id j \<in> (\<lambda>(j, _, _). j_id j) ` set (stranded_rows d) then retired_as j j' else j' = j"
    using stranding.fold_job_to [OF assms(2), of now "stranded_rows d"] swept_frame(1) [OF assms(1)] by blast
  moreover have "ids = map (\<lambda>(j, _, _). j_id j) (stranded_rows d)"
    using assms(1) by (simp add: retire_stranded_suspensions_def)
  then have ids: "set ids = (\<lambda>(j, _, _). j_id j) ` set (stranded_rows d)" by simp
  moreover have "j_state j = JSuspended" if "j_id j \<in> set ids"
  proof -
    from stranded_rowD [OF that [unfolded ids]] obtain i f where "i \<in> set (db_jobs d)" "j_id i = j_id j" "stranded d i f" by blast
    moreover from this have "i = j" using jobs.get_unique [OF assms(3)] assms(2) by (metis option.inject)
    ultimately show ?thesis by (simp add: stranded_def)
  qed
  ultimately show ?thesis by (metis (no_types, lifting))
qed

lemma left_resumable_or_held:
  assumes "retire_stranded_suspensions now d = (ids, d')"
    and j: "j \<in> set (db_jobs d')" "j_state j = JSuspended" "\<not> has_successor d' (j_id j)" "j_kind j = Finding_kind k"
      "j_session_file j \<noteq> None" "live_repo d' (j_repo_id j)" "Option.bind (j_finding_id j) (get_finding d') = Some f"
  shows "resumable d' j \<or> k = FFix \<and> f_status f \<in> {Blocked, Fixing}"
proof -
  obtain r where "get_repo_row d' (j_repo_id j) = Some r"
    using j(6) unfolding live_repo_def get_repo_row_def by (metis (mono_tags, lifting) find_None_iff not_None_eq)
  from left_suspended [OF assms(1) j(1-4,7) this] have kept: "kept_status k (f_status f)" .
  show ?thesis
  proof (cases "offered_status k (f_status f)")
    case True
    obtain fid where "j_finding_id j = Some fid" "get_finding d' fid = Some f"
      using j(7) by (auto simp: bind_eq_Some_conv)
    with findings.get_SomeD have "kind_offered d' j" using j(4) True by (fastforce simp: kind_offered_def)
    with j show ?thesis by (simp add: resumable_def)
  next
    case False
    with kept show ?thesis by (cases k) auto
  qed
qed

text \<open>C4. The sweep and the resumable pool agree. After the sweep, a suspended finding job with a transcript, on a live repository,
  that nothing continues can be resumed, or is a fix held for the operator (its finding is blocked) or about to be claimed (it is
  being fixed). No job that could be resumed before the sweep is lost to it: it is still in the table as it was, and still
  resumable. Any other job is as it was too, or was a suspended one the sweep reports and killed.\<close>

theorem sweep_leaves_resumable_or_held:
  assumes "distinct (map f_id (db_findings d))" "distinct (map j_id (db_jobs d))"
    and "\<And>j. j \<in> set (db_jobs d) \<Longrightarrow> is_repo (j_kind j) \<Longrightarrow> j_finding_id j = None"
    and "retire_stranded_suspensions now d = (ids, d')"
  shows "(\<forall>j \<in> set (db_jobs d'). \<forall>k f. j_state j = JSuspended \<longrightarrow> \<not> has_successor d' (j_id j) \<longrightarrow>
        j_kind j = Finding_kind k \<longrightarrow> j_session_file j \<noteq> None \<longrightarrow> live_repo d' (j_repo_id j) \<longrightarrow>
        Option.bind (j_finding_id j) (get_finding d') = Some f \<longrightarrow>
        resumable d' j \<or> k = FFix \<and> f_status f \<in> {Blocked, Fixing}) \<and>
    (\<forall>j \<in> set (db_jobs d). resumable d j \<longrightarrow> j \<in> set (db_jobs d') \<and> resumable d' j) \<and>
    (\<forall>j \<in> set (db_jobs d). j \<in> set (db_jobs d') \<or>
        j_id j \<in> set ids \<and> j_state j = JSuspended \<and> (\<exists>j' \<in> set (db_jobs d'). j_id j' = j_id j \<and> j_state j' = JKilled))"
proof -
  have "j \<in> set (db_jobs d') \<or>
      j_id j \<in> set ids \<and> j_state j = JSuspended \<and> (\<exists>j' \<in> set (db_jobs d'). j_id j' = j_id j \<and> j_state j' = JKilled)"
    if "j \<in> set (db_jobs d)" for j
    using swept_or_kept [OF assms(4) that assms(2)] retired_asD(1,6) by metis
  then show ?thesis
    using left_resumable_or_held [OF assms(4)] resumable_survives [OF assms(4)] resumable_not_stranded [OF assms(1,2,3)] by blast
qed

definition parked_job :: job where
  "parked_job = sample_job\<lparr>j_session_file := Some ''s.jsonl''\<rparr>"

definition parked_db :: db where
  "parked_db = job_db\<lparr>db_jobs := [parked_job],
     db_findings := [sample_finding\<lparr>f_status := Queued\<rparr>]\<rparr>"

definition held_db :: db where
  "held_db = parked_db\<lparr>db_findings := [sample_finding\<lparr>f_status := Blocked\<rparr>]\<rparr>"

lemma parked_resumable: "resumable parked_db parked_job"
  by (simp add: resumable_def parked_db_def parked_job_def job_db_def repo_db_def sample_job_def
      live_repo_def sample_repo_def has_successor_def kind_offered_def sample_finding_def
      new_finding_def new_job_def Let_def)

lemma held_left: "retire_stranded_suspensions 20 held_db = ([], held_db)"
  by (simp add: retire_stranded_suspensions_def stranded_rows_def stranded_def map_filter_def held_db_def parked_db_def
      parked_job_def sample_job_def new_job_def get_finding_def sample_finding_def new_finding_def Let_def split: option.split)

lemma held_job:
  "j_state parked_job = JSuspended" "\<not> has_successor held_db (j_id parked_job)" "j_kind parked_job = K_fix"
  "j_session_file parked_job \<noteq> None" "live_repo held_db (j_repo_id parked_job)"
  "Option.bind (j_finding_id parked_job) (get_finding held_db) = Some (sample_finding\<lparr>f_status := Blocked\<rparr>)"
  by (simp_all add: parked_job_def sample_job_def new_job_def Let_def has_successor_def held_db_def parked_db_def job_db_def
      repo_db_def live_repo_def sample_repo_def get_finding_def sample_finding_def new_finding_def)

text \<open>A parked fix stays resumable; a held one stays, and is the operator's.\<close>

theorem sweep_leaves_resumable_or_held_witness:
  "resumable (snd (retire_stranded_suspensions 20 parked_db)) parked_job \<and>
   (resumable held_db parked_job \<or> f_status (sample_finding\<lparr>f_status := Blocked\<rparr>) \<in> {Blocked, Fixing}) \<and>
   retire_stranded_suspensions 20 held_db = ([], held_db)"
proof -
  have d: "distinct (map f_id (db_findings parked_db))" "distinct (map j_id (db_jobs parked_db))"
      "distinct (map f_id (db_findings held_db))" "distinct (map j_id (db_jobs held_db))"
    by (simp_all add: parked_db_def held_db_def)
  have jobs: "set (db_jobs parked_db) = {parked_job}" "set (db_jobs held_db) = {parked_job}"
    by (simp_all add: parked_db_def held_db_def)
  have r: "j_finding_id j = None" if "j \<in> {parked_job}" "is_repo (j_kind j)" for j
    using that by (simp add: parked_job_def sample_job_def)
  have "resumable (snd (retire_stranded_suspensions 20 parked_db)) parked_job"
    using sweep_leaves_resumable_or_held [OF d(1,2) r [folded jobs(1)] prod.collapse [symmetric]] parked_resumable
    by (simp add: jobs)
  moreover have "resumable held_db parked_job \<or> f_status (sample_finding\<lparr>f_status := Blocked\<rparr>) \<in> {Blocked, Fixing}"
    using sweep_leaves_resumable_or_held [OF d(3,4) r [folded jobs(2)] held_left] held_job jobs(2) by blast
  ultimately show ?thesis using held_left by simp
qed

text \<open>C40. Resuming a suspension claims it and nothing else. Creating the job that continues a suspended one adds that job to the
  table and changes nothing besides: no other suspension is retired, and the pool of resumable jobs afterwards is the one before
  without the job continued, so it is continued once. The new job carries the pinned commit, the blocker, the full-history mark and
  the request for a full hunt of the attempt it continues.\<close>

theorem resume_claims_suspension:
  assumes "get_job d p = Some q" "st \<noteq> JSuspended"
    and "create_job now kind rid fid cap st est (Some p) d = (Inr (jid, olds), d')"
  shows "olds = [] \<and> jid \<notin> set (map j_id (db_jobs d)) \<and>
    list_resumable_jobs d' = filter (\<lambda>j. j_id j \<noteq> p) (list_resumable_jobs d) \<and>
    (\<exists>new. d' = d\<lparr>db_jobs := db_jobs d @ [new]\<rparr> \<and> j_id new = jid \<and> j_kind new = kind \<and> j_repo_id new = rid \<and>
       j_finding_id new = fid \<and> j_state new = st \<and> j_resumed_from new = Some p \<and> j_pinned_sha new = j_pinned_sha q \<and>
       j_blocker new = j_blocker q \<and> j_full_history new = j_full_history q \<and> j_full_hunt_request new = j_full_hunt_request q)"
proof -
  let ?n = "new_job now kind rid fid cap st est (Some p) jid d"
  note d' = create_job_resumed(2) [OF assms(3)]
  have "resumable d' j \<longleftrightarrow> resumable d j \<and> j_id j \<noteq> p" for j
    by (auto simp: d' resumable_def has_successor_def kind_offered_def live_repo_def cong: job_kind.case_cong)
  moreover have "\<not> resumable d' ?n" using assms(2) by (simp add: resumable_def)
  ultimately have "filter (resumable d') (db_jobs d') = filter (\<lambda>j. j_id j \<noteq> p) (filter (resumable d) (db_jobs d))"
    by (simp add: d' conj_commute cong: filter_cong)
  then have pool: "list_resumable_jobs d' = filter (\<lambda>j. j_id j \<noteq> p) (list_resumable_jobs d)"
    by (simp add: list_resumable_jobs_def filter_sort flip: rev_filter)
  have "jid \<notin> set (map j_id (db_jobs d))"
    unfolding create_job_cases(2) [OF assms(3)] by (rule next_id_notin)
  moreover have "j_pinned_sha ?n = j_pinned_sha q" "j_blocker ?n = j_blocker q"
    "j_full_history ?n = j_full_history q" "j_full_hunt_request ?n = j_full_hunt_request q"
    using assms(1) by (simp_all add: new_job_def Let_def)
  ultimately show ?thesis using pool create_job_resumed(1) [OF assms(3)] by (intro conjI exI [of _ ?n] d') simp_all
qed

theorem resume_claims_suspension_witness:
  "list_resumable_jobs parked_db = [parked_job] \<and>
   list_resumable_jobs (snd (create_job 9 K_fix 1 (Some 1) None JRunning None (Some 1) parked_db)) = []"
proof -
  have pool: "list_resumable_jobs parked_db = [parked_job]"
    using parked_resumable by (simp add: list_resumable_jobs_def parked_db_def)
  have "get_job parked_db 1 = Some parked_job"
    by (simp add: get_job_def parked_db_def parked_job_def job_db_def sample_job_def new_job_def Let_def)
  moreover have "create_job 9 K_fix 1 (Some 1) None JRunning None (Some 1) parked_db =
      (Inr (next_id (map j_id (db_jobs parked_db)), []), snd (create_job 9 K_fix 1 (Some 1) None JRunning None (Some 1) parked_db))"
    by (simp add: create_job_def Let_def live_repo_def parked_db_def job_db_def repo_db_def sample_repo_def)
  moreover have "j_id parked_job = 1" by (simp add: parked_job_def sample_job_def new_job_def Let_def)
  ultimately show ?thesis using resume_claims_suspension [of parked_db 1 parked_job JRunning] pool by simp
qed

text \<open>Holding a fix is all or nothing: when the job is not a fix of that finding, or the finding
  is gone, nothing changes; otherwise the job is suspended with the report as its blocker and
  keeps its transcript (or takes over its predecessor's), the finding is blocked with its failure
  streak cleared, and the held job is not offered for resumption.\<close>

theorem block_fix_all_or_nothing:
  assumes "distinct (map j_id (db_jobs d))" "distinct (map f_id (db_findings d))"
    and "block_fix_job now fid jid reason d = (res, d')"
  shows "(res = Inr () \<longleftrightarrow>
      (\<exists>j f. get_job d jid = Some j \<and> j_finding_id j = Some fid \<and> j_kind j = K_fix \<and>
             get_finding d fid = Some f)) \<and>
    (res \<noteq> Inr () \<longrightarrow> d' = d) \<and>
    (res = Inr () \<longrightarrow>
      (\<exists>j f. get_job d' jid = Some j \<and> j_state j = JSuspended \<and> j_blocker j = Some reason \<and>
         (\<forall>old. get_job d jid = Some old \<longrightarrow> j_session_file old \<noteq> None \<longrightarrow>
            j_session_file j = j_session_file old) \<and>
         get_finding d' fid = Some f \<and> f_status f = Blocked \<and> f_fix_attempts f = 0) \<and>
      jid \<notin> j_id ` set (list_resumable_jobs d'))"
proof -
  let ?P = "\<lambda>j. j_id j = jid \<and> j_finding_id j = Some fid \<and> j_kind j = K_fix"
  let ?Q = "\<lambda>f. f_id f = fid"
  let ?d1 = "upd_jobs ?P (blocked_job now reason d) d"
  have findings: "db_findings ?d1 = db_findings d" by (simp add: frame_simps)
  show ?thesis
  proof (cases "\<exists>j f. get_job d jid = Some j \<and> j_finding_id j = Some fid \<and> j_kind j = K_fix \<and>
             get_finding d fid = Some f")
    case False
    have "rows_affected ?P (db_jobs d) = 0 \<or> rows_affected ?Q (db_findings ?d1) = 0"
    proof (rule ccontr)
      assume "\<not> ?thesis"
      then have "0 < rows_affected ?P (db_jobs d)" "0 < rows_affected ?Q (db_findings ?d1)"
        by simp_all
      then obtain j f where "j \<in> set (db_jobs d)" "?P j" "f \<in> set (db_findings d)" "?Q f"
        unfolding findings rows_affected_pos by blast
      with jobs.get_unique [OF assms(1)] findings.get_unique [OF assms(2)] False show False by blast
    qed
    with assms(3) have "res = Inl RowNotFound \<and> d' = d"
      unfolding block_fix_job_def Let_def by (auto split: if_splits)
    with False show ?thesis by simp
  next
    case True
    then obtain j f where j: "get_job d jid = Some j" "j_finding_id j = Some fid" "j_kind j = K_fix"
      and f: "get_finding d fid = Some f" by blast
    from jobs.get_SomeD [OF j(1)] have jm: "j \<in> set (db_jobs d)" "j_id j = jid" by auto
    from findings.get_SomeD [OF f] have fm: "f \<in> set (db_findings d)" "f_id f = fid" by auto
    have "0 < rows_affected ?P (db_jobs d)" "0 < rows_affected ?Q (db_findings ?d1)"
      unfolding rows_affected_pos findings using j jm fm by blast+
    with assms(3) have res: "res = Inr ()" "d' = upd_findings ?Q (blocked_finding now) ?d1"
      unfolding block_fix_job_def Let_def by auto
    have "get_job d' jid = get_job ?d1 jid" unfolding res(2) by (simp add: get_job_def frame_simps)
    also have "\<dots> = Some (blocked_job now reason d j)"
      using j jm(2) by (simp add: jobs.get_upd blocked_job_def)
    finally have gj: "get_job d' jid = Some (blocked_job now reason d j)" .
    have "get_finding ?d1 fid = Some f" using f by (simp add: get_finding_def frame_simps)
    then have gf: "get_finding d' fid = Some (blocked_finding now f)"
      unfolding res(2) by (simp add: findings.get_upd_key blocked_finding_def)
    have "jid \<notin> j_id ` set (list_resumable_jobs d')"
    proof
      assume "jid \<in> j_id ` set (list_resumable_jobs d')"
      then obtain i where i: "i \<in> set (db_jobs d')" "j_id i = jid" "resumable d' i"
        by (auto simp: list_resumable_jobs_def)
      have "map j_id (db_jobs d') = map j_id (db_jobs d)"
        unfolding res(2) by (simp add: frame_simps map_update_where blocked_job_def)
      then have "get_job d' (j_id i) = Some i"
        using assms(1) i(1) by (intro jobs.get_unique) simp_all
      with gj i(2) have i_eq: "i = blocked_job now reason d j" by simp
      have "distinct (map f_id (db_findings d'))"
        using assms(2) unfolding res(2) by (simp add: frame_simps map_update_where blocked_finding_def)
      then have "get_finding d' (f_id g) = Some g" if "g \<in> set (db_findings d')" for g
        using that by (rule findings.get_unique)
      with i(3) gf show False
        by (auto simp: resumable_def kind_offered_def i_eq blocked_job_def j blocked_finding_def)
    qed
    with res gj gf True j show ?thesis
      by (auto simp: blocked_job_def blocked_finding_def coalesce_def)
  qed
qed

theorem block_fix_all_or_nothing_witness:
  "1 \<notin> j_id ` set (list_resumable_jobs (snd (block_fix_job 30 1 1 ''needs #7'' parked_db)))"
proof -
  have d: "distinct (map j_id (db_jobs parked_db))" "distinct (map f_id (db_findings parked_db))"
    by (simp_all add: parked_db_def)
  have e: "block_fix_job 30 1 1 ''needs #7'' parked_db =
     (Inr (), snd (block_fix_job 30 1 1 ''needs #7'' parked_db))"
    by (simp add: block_fix_job_def Let_def rows_affected_def parked_db_def parked_job_def
        sample_job_def new_job_def sample_finding_def new_finding_def upd_jobs_def)
  show ?thesis using block_fix_all_or_nothing [OF d e] by blast
qed

text \<open>A request for a full hunt is never mistaken for an earlier one: it carries a value above
  any the repository has pending or attempted, and the chain that accepted another request does
  not settle it, while the chain that accepted this one does.\<close>

theorem full_hunt_request_fresh:
  assumes "get_repo_row d rid = Some r" "r_deleted_at r = None"
    and "get_job d jid = Some j"
  shows "\<exists>v. (\<exists>r'. get_repo_row (snd (request_full_hunt now rid d)) rid = Some r' \<and>
        r_full_hunt_requested_at r' = Some v) \<and>
    now \<le> v \<and> (\<forall>old. r_full_hunt_requested_at r = Some old \<longrightarrow> old < v) \<and>
    (\<forall>att. r_full_hunt_request_attempted r = Some att \<longrightarrow> att < v) \<and>
    map_option r_full_hunt_requested_at
      (get_repo_row (settle_full_hunt_request rid jid (snd (request_full_hunt now rid d))) rid)
      = Some (if j_full_hunt_request j = Some v then None else Some v)"
proof -
  let ?d = "snd (request_full_hunt now rid d)"
  let ?r = "r\<lparr>r_full_hunt_requested_at := Some (next_hunt_request now r)\<rparr>"
  have rid: "r_id r = rid" using repos.get_SomeD [OF assms(1)] by simp
  have g: "get_repo_row ?d rid = Some ?r"
    using assms(1,2) rid by (simp add: request_full_hunt_def Let_def repos.get_upd)
  have job: "get_job ?d jid = Some j"
    using assms(3) by (simp add: request_full_hunt_def Let_def get_job_def frame_simps)
  have "map_option r_full_hunt_requested_at (get_repo_row (settle_full_hunt_request rid jid ?d) rid)
      = Some (if j_full_hunt_request j = Some (next_hunt_request now r) then None
              else Some (next_hunt_request now r))"
    using rid by (simp add: settle_full_hunt_request_def repos.get_upd g job sql_eq_def split: option.splits)
  moreover have "now \<le> next_hunt_request now r" by (simp add: next_hunt_request_def)
  moreover have "old < next_hunt_request now r" if "r_full_hunt_requested_at r = Some old" for old
    using that by (simp add: next_hunt_request_def less_max_iff_disj)
  moreover have "att < next_hunt_request now r" if "r_full_hunt_request_attempted r = Some att" for att
    using that by (simp add: next_hunt_request_def less_max_iff_disj)
  ultimately show ?thesis using g by (intro exI [of _ "next_hunt_request now r"]) simp
qed

theorem full_hunt_request_fresh_witness:
  "\<exists>v. (\<exists>r'. get_repo_row (snd (request_full_hunt 50 1 parked_db)) 1 = Some r' \<and>
     r_full_hunt_requested_at r' = Some v) \<and> 50 \<le> v"
proof -
  have "get_repo_row parked_db 1 = Some sample_repo"
    by (simp add: parked_db_def job_db_def repo_db_def get_repo_row_def sample_repo_def)
  moreover have "r_deleted_at sample_repo = None" by (simp add: sample_repo_def)
  moreover have "get_job parked_db 1 = Some parked_job"
    by (simp add: parked_db_def get_job_def parked_job_def sample_job_def)
  ultimately show ?thesis using full_hunt_request_fresh [of parked_db 1 sample_repo 1 parked_job 50] by blast
qed

end
