(* ===== verification/StoreLedger.thy ===== *)
theory StoreLedger
  imports StoreJobs Budget
begin

text \<open>
  The store as the spend ledger of the budget decision (\<open>impl SpendLedger for Store\<close>): the
  reservation of running jobs, finished spend since a probe, the capacity estimate from completed
  window cycles, and the observation pass of the backend (\<open>OmpScavengeBackend::observe\<close>) that
  feeds it.  The start of the calendar month, which the query takes from SQLite's date functions,
  is the parameter \<open>mstart\<close>.
\<close>

section \<open>Spend\<close>

definition reserved_tokens :: "job \<Rightarrow> int" where
  "reserved_tokens j = unwrap_or (coalesce (j_estimated_tokens j) (j_cap_tokens j)) 0"

definition store_running_estimate :: "db \<Rightarrow> int" where
  "store_running_estimate d =
     sum_list (map reserved_tokens (filter (\<lambda>j. j_state j = JRunning) (db_jobs d)))"

definition finished_after :: "millis \<Rightarrow> job \<Rightarrow> bool" where
  "finished_after t j \<longleftrightarrow>
     j_state j \<noteq> JRunning \<and> (case j_finished_at j of None \<Rightarrow> False | Some f \<Rightarrow> f > t) \<and>
     j_tokens_new j \<noteq> None"

definition store_finished_since :: "db \<Rightarrow> millis \<Rightarrow> int" where
  "store_finished_since d t = sum_col (map j_tokens_new (filter (finished_after t) (db_jobs d)))"

definition finished_between :: "db \<Rightarrow> millis \<Rightarrow> millis \<Rightarrow> int" where
  "finished_between d t u =
     sum_col (map j_tokens_new
       (filter (\<lambda>j. finished_after t j \<and> (case j_finished_at j of None \<Rightarrow> False | Some f \<Rightarrow> f \<le> u))
          (db_jobs d)))"

section \<open>Window observations\<close>

definition log_window_observation ::
  "millis \<Rightarrow> string \<Rightarrow> rat option \<Rightarrow> string option \<Rightarrow> millis option \<Rightarrow> rat \<Rightarrow> db \<Rightarrow> db" where
  "log_window_observation now lid used status resets age d =
     d\<lparr>db_window_log := db_window_log d @
         [\<lparr>wo_observed_at = now, wo_limit_id = lid, wo_used_fraction = used, wo_status = status,
           wo_resets_at = resets, wo_source_age_s = trunc_i64 age\<rparr>]\<rparr>"

definition last_window_observation :: "db \<Rightarrow> string \<Rightarrow> millis \<Rightarrow> (millis \<times> rat) option" where
  "last_window_observation d lid resets =
     (let lo = resets - 5000; hi = resets + 5000 in
      Option.bind
        (min_by_key (\<lambda>w. - wo_observed_at w)
           (filter (\<lambda>w. wo_limit_id w = lid \<and>
                      (case wo_resets_at w of None \<Rightarrow> False | Some r \<Rightarrow> lo \<le> r \<and> r \<le> hi))
              (db_window_log d)))
        (\<lambda>w. map_option (\<lambda>fr. (wo_observed_at w, fr)) (wo_used_fraction w)))"

definition record_calibration_sample ::
  "millis \<Rightarrow> string \<Rightarrow> millis option \<Rightarrow> rat \<Rightarrow> int \<Rightarrow> db \<Rightarrow> db" where
  "record_calibration_sample now lid resets delta tokens d =
     d\<lparr>db_calibration := db_calibration d @
         [\<lparr>cs_observed_at = now, cs_limit_id = lid, cs_window_resets_at = resets,
           cs_used_fraction_delta = delta, cs_hunter_tokens = tokens\<rparr>]\<rparr>"

text \<open>\<open>observe\<close>: per window row, a calibration sample when one is due, then the log row.\<close>

definition observe_one ::
  "(millis \<Rightarrow> millis option) \<Rightarrow> quota \<Rightarrow> millis \<Rightarrow> string \<times> window_state \<Rightarrow> db \<Rightarrow> db" where
  "observe_one ms q now lw d =
     (let w = snd lw;
          d1 = (case calibration_sample ms q (last_window_observation d) (finished_between d) now w of
                  None \<Rightarrow> d
                | Some (lid, resets, delta, tokens) \<Rightarrow>
                    record_calibration_sample now lid (Some resets) delta tokens d)
      in log_window_observation now (ws_limit_id w) (ws_used_fraction w) (ws_status w)
           (ws_resets_at w) (ws_age_s w) d1)"

definition observe ::
  "(millis \<Rightarrow> millis option) \<Rightarrow> llm_provider \<Rightarrow> millis \<Rightarrow> windows \<Rightarrow> db \<Rightarrow> db" where
  "observe ms p now wins d = fold (observe_one ms (provider_quota p) now) wins d"

section \<open>Capacity from completed cycles\<close>

text \<open>SQLite's integer division truncates toward zero.\<close>

definition sql_div :: "int \<Rightarrow> int \<Rightarrow> int" where
  "sql_div a b = (if 0 \<le> a then a div b else - ((- a) div b))"

definition cycle_resets :: "string \<Rightarrow> millis \<Rightarrow> db \<Rightarrow> millis list" where
  "cycle_resets lid now d =
     (let rs = List.map_filter
                 (\<lambda>w. if wo_limit_id w = lid
                      then (case wo_resets_at w of Some r \<Rightarrow> if r < now then Some r else None
                            | None \<Rightarrow> None)
                      else None) (db_window_log d);
          buckets = take 200 (rev (sort (remdups (map (\<lambda>r. sql_div r 10000) rs))))
      in List.map_filter
           (\<lambda>b. min_by_key (\<lambda>x. x) (filter (\<lambda>r. sql_div r 10000 = b) rs)) buckets)"

definition cycle_spent :: "millis \<Rightarrow> millis \<Rightarrow> db \<Rightarrow> int" where
  "cycle_spent start resets d =
     sum_col (map j_tokens_new
       (filter (\<lambda>j. j_state j \<notin> {JDenied, JRunning} \<and> j_tokens_new j \<noteq> None \<and>
                  (case j_finished_at j of None \<Rightarrow> False | Some f \<Rightarrow> start < f \<and> f \<le> resets))
          (db_jobs d)))"

definition store_estimate_capacity ::
  "(millis \<Rightarrow> millis) \<Rightarrow> millis \<Rightarrow> db \<Rightarrow> string \<Rightarrow> rat option" where
  "store_estimate_capacity mstart now d lid =
     (case window_period lid of
        None \<Rightarrow> None
      | Some period \<Rightarrow>
          (let spent = map (\<lambda>c. cycle_spent (case fixed_ms period of None \<Rightarrow> mstart c | Some p \<Rightarrow> c - p) c d)
                         (cycle_resets lid now d);
               best = unwrap_or (max_col (map Some spent)) 0
           in if best > 0 then Some (of_int best) else None))"

definition store_ledger :: "(millis \<Rightarrow> millis) \<Rightarrow> millis \<Rightarrow> db \<Rightarrow> ledger" where
  "store_ledger mstart now d =
     \<lparr>running_estimate = store_running_estimate d, finished_since = store_finished_since d,
      estimate_capacity = store_estimate_capacity mstart now d\<rparr>"

text \<open>The store keeps the ledger's contract.\<close>

interpretation store: spend_ledger "store_ledger mstart now d" for mstart now d
  by unfold_locales
    (auto simp: store_ledger_def store_estimate_capacity_def Let_def split: option.splits if_splits)

section \<open>Sums over the job table\<close>

lemma sum_filter: "sum_list (map g (filter P xs)) = sum_list (map (\<lambda>x. if P x then g x else 0) xs)"
  for g :: "'a \<Rightarrow> int"
  by (induction xs) auto

lemma sum_col_filter:
  "sum_col (map g (filter P xs)) = sum_list (map (\<lambda>x. if P x then unwrap_or (g x) 0 else 0) xs)"
  by (induction xs) (auto simp: sum_col_def)

lemma sum_update_where:
  fixes w :: "'r \<Rightarrow> int" and key :: "'r \<Rightarrow> int"
  assumes "distinct (map key rs)" "r \<in> set rs"
  shows "sum_list (map w (update_where (\<lambda>x. key x = key r) f rs)) = sum_list (map w rs) - w r + w (f r)"
  using assms
proof (induction rs)
  case (Cons x xs)
  show ?case
  proof (cases "x = r")
    case True
    with Cons.prems have "update_where (\<lambda>x. key x = key r) f xs = xs"
      by (intro update_where_none) (auto simp: rev_image_eqI)
    with True show ?thesis by simp
  next
    case False
    with Cons.prems have "r \<in> set xs" by simp
    with Cons.prems have "key x \<noteq> key r" by (auto simp: rev_image_eqI)
    with Cons \<open>r \<in> set xs\<close> show ?thesis by simp
  qed
qed simp

lemma sum_list_all2: "list_all2 (\<lambda>a b. w a = v b) xs ys \<Longrightarrow> sum_list (map w xs) = sum_list (map v ys)"
  for w :: "'a \<Rightarrow> int"
  by (induction rule: list_all2_induct) auto

definition running_weight :: "job \<Rightarrow> int" where
  "running_weight j = (if j_state j = JRunning then reserved_tokens j else 0)"

definition finished_weight :: "millis \<Rightarrow> job \<Rightarrow> int" where
  "finished_weight t j = (if finished_after t j then unwrap_or (j_tokens_new j) 0 else 0)"

lemma running_estimate_sum: "store_running_estimate d = sum_list (map running_weight (db_jobs d))"
  unfolding store_running_estimate_def sum_filter running_weight_def by simp

lemma finished_since_sum: "store_finished_since d t = sum_list (map (finished_weight t) (db_jobs d))"
  unfolding store_finished_since_def sum_col_filter finished_weight_def by simp

lemma sum_col_disjoint:
  assumes "\<And>x. x \<in> set xs \<Longrightarrow> P x \<longleftrightarrow> Q x \<or> R x" "\<And>x. x \<in> set xs \<Longrightarrow> \<not> (Q x \<and> R x)"
  shows "sum_col (map g (filter P xs)) = sum_col (map g (filter Q xs)) + sum_col (map g (filter R xs))"
  using assms by (induction xs) (auto simp: sum_col_def)

section \<open>Properties\<close>

text \<open>Finished spend adds up: the spend since a probe is the spend between it and any later
  moment plus the spend since that moment, so no token is counted twice or lost when a probe moves
  forward.\<close>

theorem finished_spend_splits:
  assumes "t \<le> u"
  shows "store_finished_since d t = finished_between d t u + store_finished_since d u"
  unfolding store_finished_since_def finished_between_def
  by (rule sum_col_disjoint) (use assms in \<open>auto simp: finished_after_def split: option.splits\<close>)

theorem finished_spend_splits_witness:
  "store_finished_since (job_db\<lparr>db_jobs := [sample_job\<lparr>j_tokens_new := Some 40, j_finished_at := Some 7\<rparr>]\<rparr>) 5
   = 40 + store_finished_since (job_db\<lparr>db_jobs := [sample_job\<lparr>j_tokens_new := Some 40, j_finished_at := Some 7\<rparr>]\<rparr>) 8"
  using finished_spend_splits [of 5 8
      "job_db\<lparr>db_jobs := [sample_job\<lparr>j_tokens_new := Some 40, j_finished_at := Some 7\<rparr>]\<rparr>"]
  by (simp add: finished_between_def finished_after_def sample_job_def sum_col_def)

text \<open>A granted job is visible to the budget from the moment it exists: creating a running job
  raises the running reservation by exactly what was reserved for it (its estimate, else its cap,
  else nothing), and what it supersedes changes neither the reservation nor the finished spend.\<close>

theorem create_job_reserves:
  assumes "distinct (map j_id (db_jobs d))"
    and "create_job now kind rid fid cap JRunning est resumed d = (Inr (jid, olds), d')"
  shows "store_running_estimate d' = store_running_estimate d + unwrap_or (coalesce est cap) 0"
proof -
  let ?n = "new_job now kind rid fid cap JRunning est resumed jid d"
  let ?d1 = "d\<lparr>db_jobs := db_jobs d @ [?n]\<rparr>"
  from create_job_cases(3) [OF assms(2)] obtain sup where
    sup: "sup = (if resumed = None then superseded_by kind rid fid jid ?d1 else [])"
    and d': "d' = fold (supersede_one now kind fid jid) sup ?d1" by auto
  have fresh: "jid \<notin> set (map j_id (db_jobs d))"
    unfolding create_job_cases(2) [OF assms(2)] by (rule next_id_notin)
  with assms(1) have dist: "distinct (map j_id (db_jobs ?d1))" by simp
  have susp: "j_state j = JSuspended" if "j \<in> set (db_jobs ?d1)" "j_id j \<in> fst ` set sup" for j
  proof -
    from that(2) sup obtain x where x: "x \<in> set (superseded_by kind rid fid jid ?d1)" "fst x = j_id j"
      by (auto split: if_splits)
    from superseded_byD [OF x(1)] x(2) obtain i where
      i: "i \<in> set (db_jobs ?d1)" "j_id i = j_id j" "j_state i = JSuspended" by auto
    have "get_job ?d1 (j_id j) = Some i" using jobs.get_unique [OF dist i(1)] i(2) by simp
    moreover have "get_job ?d1 (j_id j) = Some j" by (rule jobs.get_unique [OF dist that(1)])
    ultimately show ?thesis using i(3) by simp
  qed
  have "list_all2 (\<lambda>j j'. running_weight j = running_weight j') (db_jobs ?d1) (db_jobs d')"
    unfolding list_all2_conv_all_nth
  proof (intro conjI allI impI)
    note L = superseding.fold_jobs [of sup ?d1 now kind fid jid, folded d', unfolded list_all2_conv_all_nth]
    then show "length (db_jobs ?d1) = length (db_jobs d')" by blast
    fix i assume i: "i < length (db_jobs ?d1)"
    let ?a = "db_jobs ?d1 ! i" and ?b = "db_jobs d' ! i"
    from L i have ab: "if j_id ?a \<in> fst ` set sup then retired_as ?a ?b else ?b = ?a" by blast
    show "running_weight ?a = running_weight ?b"
    proof (cases "j_id ?a \<in> fst ` set sup")
      case True
      with susp nth_mem [OF i] have "j_state ?a = JSuspended" by blast
      moreover from True ab have "j_state ?b = JKilled" by (simp add: retired_asD)
      ultimately show ?thesis by (simp add: running_weight_def)
    qed (use ab in simp)
  qed
  then have "store_running_estimate d' = store_running_estimate ?d1"
    unfolding running_estimate_sum by (rule sum_list_all2 [symmetric])
  then show ?thesis
    by (simp add: running_estimate_sum running_weight_def reserved_tokens_def new_job_def Let_def)
qed

theorem create_job_reserves_witness:
  "store_running_estimate (snd (create_job 9 K_fix 1 (Some 1) None JRunning (Some 10) None job_db)) = 10"
proof -
  have "distinct (map j_id (db_jobs job_db))" by (simp add: job_db_def)
  from create_job_reserves [OF this superseding_run] show ?thesis
    by (simp add: running_estimate_sum job_db_def running_weight_def sample_job_def coalesce_def)
qed

text \<open>Recording a job's outcome moves its spend from the reservation to the ledger: the running
  reservation falls by what was reserved for it and the finished spend since any earlier moment
  grows by exactly the tokens it metered.\<close>

theorem complete_job_settles:
  assumes "distinct (map j_id (db_jobs d))" "get_job d jid = Some j" "j_state j = JRunning"
    and "jo_state out \<noteq> JRunning"
  shows "store_running_estimate (complete_job jid out d) = store_running_estimate d - reserved_tokens j \<and>
    store_finished_since (complete_job jid out d) t =
      store_finished_since d t + (if t < jo_finished_at out then jo_tokens_new out else 0)"
proof -
  from jobs.get_SomeD [OF assms(2)] have j: "j \<in> set (db_jobs d)" "j_id j = jid" by auto
  let ?f = "\<lambda>j. j\<lparr>j_state := jo_state out, j_pid := None, j_tokens_new := Some (jo_tokens_new out),
     j_calls := Some (jo_calls out), j_exit_code := jo_exit_code out,
     j_killed_reason := jo_killed_reason out, j_session_file := jo_session_file out,
     j_notes := jo_notes out, j_model := jo_model out, j_usage_delta := jo_usage_delta out,
     j_finished_at := Some (jo_finished_at out)\<rparr>"
  have rows: "db_jobs (complete_job jid out d) = update_where (\<lambda>x. j_id x = j_id j) ?f (db_jobs d)"
    unfolding complete_job_def j(2) by (simp add: frame_simps)
  have "sum_list (map w (db_jobs (complete_job jid out d))) = sum_list (map w (db_jobs d)) - w j + w (?f j)"
    for w :: "job \<Rightarrow> int"
    unfolding rows by (rule sum_update_where [OF assms(1) j(1)])
  moreover have "running_weight j = reserved_tokens j" "running_weight (?f j) = 0"
    using assms(3,4) by (simp_all add: running_weight_def)
  moreover have "finished_weight t j = 0"
    "finished_weight t (?f j) = (if t < jo_finished_at out then jo_tokens_new out else 0)"
    using assms(3,4) by (simp_all add: finished_weight_def finished_after_def)
  ultimately show ?thesis unfolding running_estimate_sum finished_since_sum by simp
qed

definition done_outcome :: job_outcome where
  "done_outcome = \<lparr>jo_state = JDone, jo_tokens_new = 40, jo_calls = 2, jo_exit_code = Some 0,
     jo_killed_reason = None, jo_session_file = None, jo_notes = None, jo_model = None,
     jo_usage_delta = None, jo_finished_at = 12\<rparr>"

theorem complete_job_settles_witness:
  "store_finished_since (complete_job 1 done_outcome
     (job_db\<lparr>db_jobs := [sample_job\<lparr>j_state := JRunning\<rparr>]\<rparr>)) 5 = 40"
proof -
  let ?d = "job_db\<lparr>db_jobs := [sample_job\<lparr>j_state := JRunning\<rparr>]\<rparr>"
  have "distinct (map j_id (db_jobs ?d))" by simp
  moreover have "get_job ?d 1 = Some (sample_job\<lparr>j_state := JRunning\<rparr>)"
    by (simp add: get_job_def sample_job_def)
  ultimately have "store_finished_since (complete_job 1 done_outcome ?d) 5 =
      store_finished_since ?d 5 + (if 5 < jo_finished_at done_outcome then jo_tokens_new done_outcome else 0)"
    using complete_job_settles [of ?d 1 _ done_outcome 5] by (simp add: done_outcome_def)
  then show ?thesis
    by (simp add: done_outcome_def finished_since_sum finished_weight_def finished_after_def)
qed

text \<open>Calibration only learns from real progress: every sample an observation pass adds records a
  positive rise of the window's use, against a positive number of the hunter's own tokens.\<close>

theorem observe_samples_positive:
  "\<exists>new. db_calibration (observe ms p now wins d) = db_calibration d @ new \<and>
     (\<forall>s \<in> set new. 0 < cs_used_fraction_delta s \<and> 0 < cs_hunter_tokens s)"
proof -
  let ?q = "provider_quota p"
  have one: "\<exists>new. db_calibration (observe_one ms ?q now w d) = db_calibration d @ new \<and>
      (\<forall>s \<in> set new. 0 < cs_used_fraction_delta s \<and> 0 < cs_hunter_tokens s)" for w d
  proof (cases "calibration_sample ms ?q (last_window_observation d) (finished_between d) now (snd w)")
    case None
    then show ?thesis by (simp add: observe_one_def Let_def log_window_observation_def)
  next
    case (Some c)
    obtain lid resets delta tokens where c: "c = (lid, resets, delta, tokens)" by (cases c) auto
    with Some have "0 < delta \<and> 0 < tokens"
      by (cases "ws_resets_at (snd w)"; cases "ws_used_fraction (snd w)")
        (auto simp: calibration_sample_def Let_def bind_eq_Some_conv split: if_splits)
    with Some c show ?thesis
      by (simp add: observe_one_def Let_def log_window_observation_def record_calibration_sample_def)
  qed
  show ?thesis unfolding observe_def
  proof (induction wins arbitrary: d)
    case (Cons w wins)
    from one [of w d] obtain a where a: "db_calibration (observe_one ms ?q now w d) = db_calibration d @ a"
      "\<forall>s \<in> set a. 0 < cs_used_fraction_delta s \<and> 0 < cs_hunter_tokens s" by blast
    from Cons.IH [of "observe_one ms ?q now w d"] obtain b where
      "db_calibration (fold (observe_one ms ?q now) (w # wins) d) = (db_calibration d @ a) @ b"
      "\<forall>s \<in> set b. 0 < cs_used_fraction_delta s \<and> 0 < cs_hunter_tokens s"
      using a(1) by auto
    with a(2) show ?case by (intro exI [of _ "a @ b"]) auto
  qed simp
qed

definition observed_db :: db where
  "observed_db = job_db\<lparr>db_jobs := [sample_job\<lparr>j_state := JDone, j_tokens_new := Some 40, j_finished_at := Some 200\<rparr>],
     db_window_log := [\<lparr>wo_observed_at = 100, wo_limit_id = ''anthropic:5h'',
       wo_used_fraction = Some (1 / 10), wo_status = None, wo_resets_at = Some 9000000,
       wo_source_age_s = 0\<rparr>]\<rparr>"

definition risen_windows :: windows where
  "risen_windows = [(''anthropic:5h'', \<lparr>ws_limit_id = ''anthropic:5h'', ws_used_fraction = Some (2 / 10),
     ws_status = None, ws_resets_at = Some 9000000, ws_recorded_at = 250, ws_age_s = 0\<rparr>)]"

theorem observe_samples_positive_witness:
  "\<exists>s. db_calibration (observe (\<lambda>_. None) Anthropic 300 risen_windows observed_db) = [s] \<and>
     0 < cs_hunter_tokens s"
proof -
  have "length (db_calibration (observe (\<lambda>_. None) Anthropic 300 risen_windows observed_db)) = 1"
    by (simp add: observe_def observe_one_def risen_windows_def observed_db_def Let_def
        calibration_sample_def quota_window_named_def quota_defs window_consts
        last_window_observation_def finished_between_def finished_after_def sum_col_def
        record_calibration_sample_def log_window_observation_def job_db_def repo_db_def
        sample_db_def empty_db_def)
  moreover have "db_calibration observed_db = []"
    by (simp add: observed_db_def job_db_def repo_db_def sample_db_def empty_db_def)
  ultimately show ?thesis
    using observe_samples_positive [of "\<lambda>_. None" Anthropic 300 risen_windows observed_db]
    by (auto simp: length_Suc_conv)
qed

end
