(* ===== verification/StorePrs.thy ===== *)
theory StorePrs
  imports StoreJobs
begin

text \<open>
  The store's operations on pull-request rows (\<open>store.rs\<close>): the upserts a sync makes, the
  engagement watermark and the attention set aside, and the harvest queue.  One row per finding;
  a new pull-request number on it clears the harvest bookkeeping of the old one.
\<close>

section \<open>Upserts\<close>

definition empty_pr :: "int \<Rightarrow> pr" where
  "empty_pr fid = \<lparr>p_finding_id = fid, p_number = None, p_state = None, p_mergeable = None,
     p_checks = None, p_head_ref = None, p_last_activity_at = None,
     p_last_engaged_activity_at = None, p_needs_attention = None, p_attention_since = None,
     p_attention_fingerprint = None, p_addressed_fingerprint = None, p_head_sha = None,
     p_addressed_head_sha = None, p_synced_at = None, p_harvested_at = None,
     p_harvest_attempts = 0, p_last_harvest_failure = None\<rparr>"

definition upsert_pr :: "int \<Rightarrow> (pr \<Rightarrow> pr) \<Rightarrow> (pr \<Rightarrow> pr) \<Rightarrow> db \<Rightarrow> db" where
  "upsert_pr fid insert_row update_row d =
     d\<lparr>db_prs :=
        (if \<exists>p \<in> set (db_prs d). p_finding_id p = fid
         then update_where (\<lambda>p. p_finding_id p = fid) update_row (db_prs d)
         else db_prs d @ [insert_row (empty_pr fid)])\<rparr>"

text \<open>The three CASEs every upsert repeats.\<close>

definition carry_harvest :: "int \<Rightarrow> pr \<Rightarrow> pr" where
  "carry_harvest number p =
     (if sql_ne (p_number p) (Some number)
      then p\<lparr>p_harvested_at := None, p_harvest_attempts := 0, p_last_harvest_failure := None\<rparr>
      else p)"

definition with_state :: "string \<Rightarrow> int \<Rightarrow> millis \<Rightarrow> pr \<Rightarrow> pr" where
  "with_state st number synced p =
     p\<lparr>p_number := Some number, p_state := Some st, p_needs_attention := None, p_synced_at := Some synced\<rparr>"

definition mark_pr_merged :: "int \<Rightarrow> int \<Rightarrow> millis \<Rightarrow> db \<Rightarrow> db" where
  "mark_pr_merged fid number synced d =
     upsert_pr fid (with_state ''MERGED'' number synced)
       (\<lambda>p. with_state ''MERGED'' number synced (carry_harvest number p)) d"

definition mark_pr_closed :: "int \<Rightarrow> int \<Rightarrow> millis \<Rightarrow> db \<Rightarrow> db" where
  "mark_pr_closed fid number synced d =
     upsert_pr fid (with_state ''CLOSED'' number synced)
       (\<lambda>p. with_state ''CLOSED'' number synced (carry_harvest number p)) d"

record sync_pr_data =
  sp_pr_number :: int
  sp_state :: string
  sp_mergeable :: string
  sp_checks :: "string option"
  sp_head_ref :: string
  sp_head_sha :: string
  sp_last_activity_at :: millis
  sp_last_engaged_activity_at :: millis
  sp_needs_attention :: "string option"
  sp_attention_fingerprint :: "string option"
  sp_synced_at :: millis
  sp_attention_since :: "millis option option"
  sp_clear_addressed :: bool

definition synced_row :: "sync_pr_data \<Rightarrow> pr \<Rightarrow> pr" where
  "synced_row s p =
     p\<lparr>p_number := Some (sp_pr_number s), p_state := Some (sp_state s),
       p_mergeable := Some (sp_mergeable s), p_checks := sp_checks s,
       p_head_ref := Some (sp_head_ref s), p_head_sha := Some (sp_head_sha s),
       p_last_activity_at := Some (sp_last_activity_at s),
       p_last_engaged_activity_at := Some (sp_last_engaged_activity_at s),
       p_needs_attention := sp_needs_attention s,
       p_attention_fingerprint := sp_attention_fingerprint s, p_synced_at := Some (sp_synced_at s)\<rparr>"

definition sync_pr_open :: "int \<Rightarrow> sync_pr_data \<Rightarrow> db \<Rightarrow> db" where
  "sync_pr_open fid s d =
     (let d1 = upsert_pr fid (synced_row s) (\<lambda>p. synced_row s (carry_harvest (sp_pr_number s) p)) d;
          d2 = (case sp_attention_since s of
                  None \<Rightarrow> d1
                | Some since \<Rightarrow>
                    upd_prs (\<lambda>p. p_finding_id p = fid) (\<lambda>p. p\<lparr>p_attention_since := since\<rparr>) d1)
      in if sp_clear_addressed s
         then upd_prs (\<lambda>p. p_finding_id p = fid)
                (\<lambda>p. p\<lparr>p_addressed_fingerprint := None, p_addressed_head_sha := None\<rparr>) d2
         else d2)"

definition set_pr_number :: "int \<Rightarrow> int \<Rightarrow> db \<Rightarrow> db" where
  "set_pr_number fid number d =
     upsert_pr fid (\<lambda>p. p\<lparr>p_number := Some number\<rparr>)
       (\<lambda>p. (carry_harvest number p)\<lparr>p_number := Some number\<rparr>) d"

section \<open>Engagement and harvest\<close>

definition mark_pr_engaged ::
  "int \<Rightarrow> millis \<Rightarrow> millis \<Rightarrow> string option \<Rightarrow> string option \<Rightarrow> db \<Rightarrow> db" where
  "mark_pr_engaged fid activity synced fp sha d =
     upd_prs (\<lambda>p. p_finding_id p = fid)
       (\<lambda>p. p\<lparr>p_last_engaged_activity_at := Some activity, p_synced_at := Some synced,
             p_addressed_fingerprint := fp, p_addressed_head_sha := sha\<rparr>) d"

definition set_attention_aside :: "millis \<Rightarrow> int \<Rightarrow> db \<Rightarrow> db" where
  "set_attention_aside now fid d =
     upd_prs (\<lambda>p. p_finding_id p = fid)
       (\<lambda>p. p\<lparr>p_last_engaged_activity_at := coalesce (p_last_activity_at p) (Some now),
             p_addressed_fingerprint := p_attention_fingerprint p,
             p_addressed_head_sha := p_head_sha p, p_needs_attention := None,
             p_attention_since := None\<rparr>) d"

definition mark_pr_harvested :: "int \<Rightarrow> millis \<Rightarrow> db \<Rightarrow> db" where
  "mark_pr_harvested fid stamp d =
     upd_prs (\<lambda>p. p_finding_id p = fid) (\<lambda>p. p\<lparr>p_harvested_at := Some stamp\<rparr>) d"

definition record_closed_harvest ::
  "millis \<Rightarrow> int \<Rightarrow> finding_status \<Rightarrow> string \<Rightarrow> verdict_anchor option \<Rightarrow> millis \<Rightarrow> db \<Rightarrow> bool \<times> db" where
  "record_closed_harvest now fid status reason anchor stamp d =
     (let P = (\<lambda>f. f_id f = fid \<and> f_status f = Closed);
          classified = 0 < rows_affected P (db_findings d);
          d1 = upd_findings P
                 (\<lambda>f. f\<lparr>f_status := status, f_verdict_reason := Some reason, f_updated_at := now\<rparr>) d;
          d2 = (if classified then write_anchor now fid anchor d1 else d1)
      in (classified, mark_pr_harvested fid stamp d2))"

definition pending_harvest :: "finding \<Rightarrow> pr \<Rightarrow> bool" where
  "pending_harvest f p \<longleftrightarrow>
     p_harvested_at p = None \<and>
     (f_status f = Merged \<or> (p_state p = Some ''CLOSED'' \<and> f_status f = Closed))"

definition list_pending_harvest :: "db \<Rightarrow> finding list" where
  "list_pending_harvest d =
     map fst
       (sort_key (\<lambda>fp. p_synced_at (snd fp))
          (filter (\<lambda>(f, p). pending_harvest f p)
             (List.map_filter (\<lambda>f. map_option (Pair f) (get_pr_state d (f_id f)))
                (rev (sort_key f_id (db_findings d))))))"

definition pr_attention :: "db \<Rightarrow> (int \<times> string option) list" where
  "pr_attention d =
     sort_key fst
       (List.map_filter
          (\<lambda>p. if \<exists>f \<in> set (db_findings d). f_id f = p_finding_id p \<and> f_status f = PrOpen
                then Some (p_finding_id p, p_needs_attention p) else None)
          (db_prs d))"

section \<open>Lookups\<close>

lemma get_upsert_pr:
  assumes "\<And>p. p_finding_id (g p) = p_finding_id p" "p_finding_id (r (empty_pr fid)) = fid"
  shows "get_pr_state (upsert_pr fid r g d) fid =
    Some (case get_pr_state d fid of None \<Rightarrow> r (empty_pr fid) | Some p \<Rightarrow> g p)"
  using find_upsert [of p_finding_id g "r (empty_pr fid)" fid "db_prs d", OF assms]
  by (simp add: get_pr_state_def upsert_pr_def)

lemma carry_harvest_simps [simp]:
  "p_finding_id (carry_harvest n p) = p_finding_id p"
  "p_harvested_at (carry_harvest n p) = (if sql_ne (p_number p) (Some n) then None else p_harvested_at p)"
  "p_harvest_attempts (carry_harvest n p) = (if sql_ne (p_number p) (Some n) then 0 else p_harvest_attempts p)"
  by (simp_all add: carry_harvest_def)

lemma list_pending_harvest_iff:
  "f \<in> set (list_pending_harvest d) \<longleftrightarrow>
     f \<in> set (db_findings d) \<and> (\<exists>p. get_pr_state d (f_id f) = Some p \<and> pending_harvest f p)"
proof
  assume "f \<in> set (list_pending_harvest d)"
  then obtain p where "(f, p) \<in> set (List.map_filter (\<lambda>f. map_option (Pair f) (get_pr_state d (f_id f)))
      (rev (sort_key f_id (db_findings d))))" "pending_harvest f p"
    by (auto simp: list_pending_harvest_def)
  with map_filter_memD [OF this(1)]
  show "f \<in> set (db_findings d) \<and> (\<exists>p. get_pr_state d (f_id f) = Some p \<and> pending_harvest f p)" by auto
next
  assume "f \<in> set (db_findings d) \<and> (\<exists>p. get_pr_state d (f_id f) = Some p \<and> pending_harvest f p)"
  then obtain p where p: "f \<in> set (db_findings d)" "get_pr_state d (f_id f) = Some p" "pending_harvest f p"
    by blast
  then have "(f, p) \<in> set (List.map_filter (\<lambda>f. map_option (Pair f) (get_pr_state d (f_id f)))
      (rev (sort_key f_id (db_findings d))))"
    by (intro map_filter_mem [where x = f]) simp_all
  with p(3) have "(f, p) \<in> set (filter (\<lambda>(f, p). pending_harvest f p)
      (List.map_filter (\<lambda>f. map_option (Pair f) (get_pr_state d (f_id f)))
         (rev (sort_key f_id (db_findings d)))))" by simp
  then show "f \<in> set (list_pending_harvest d)"
    unfolding list_pending_harvest_def set_map set_sort by (rule rev_image_eqI) simp
qed

section \<open>Properties\<close>

text \<open>A harvest stamp belongs to one pull request: however a sync records a finding's pull request
  (open, merged, closed, or only its number), the stamp and the attempt count survive exactly when
  the number is the recorded one or none was recorded, and are cleared by another number.\<close>

theorem harvest_stamp_follows_number:
  assumes "get_pr_state d fid = Some p"
    and "d' \<in> {mark_pr_merged fid n stamp d, mark_pr_closed fid n stamp d, set_pr_number fid n d,
               sync_pr_open fid (s\<lparr>sp_pr_number := n\<rparr>) d}"
  shows "\<exists>p'. get_pr_state d' fid = Some p' \<and> p_number p' = Some n \<and>
    p_harvested_at p' = (if p_number p = None \<or> p_number p = Some n then p_harvested_at p else None) \<and>
    p_harvest_attempts p' = (if p_number p = None \<or> p_number p = Some n then p_harvest_attempts p else 0)"
proof -
  have ne: "sql_ne (p_number p) (Some n) \<longleftrightarrow> \<not> (p_number p = None \<or> p_number p = Some n)"
    by (auto simp: sql_ne_def split: option.splits)
  have merged: "get_pr_state (mark_pr_merged fid n stamp d) fid =
      Some (with_state ''MERGED'' n stamp (carry_harvest n p))"
    unfolding mark_pr_merged_def
    by (subst get_upsert_pr) (simp_all add: with_state_def empty_pr_def assms(1))
  have closed: "get_pr_state (mark_pr_closed fid n stamp d) fid =
      Some (with_state ''CLOSED'' n stamp (carry_harvest n p))"
    unfolding mark_pr_closed_def
    by (subst get_upsert_pr) (simp_all add: with_state_def empty_pr_def assms(1))
  have number: "get_pr_state (set_pr_number fid n d) fid = Some ((carry_harvest n p)\<lparr>p_number := Some n\<rparr>)"
    unfolding set_pr_number_def
    by (subst get_upsert_pr) (simp_all add: empty_pr_def assms(1))
  let ?s = "s\<lparr>sp_pr_number := n\<rparr>"
  have base: "get_pr_state (upsert_pr fid (synced_row ?s) (\<lambda>p. synced_row ?s (carry_harvest n p)) d) fid
      = Some (synced_row ?s (carry_harvest n p))"
    by (subst get_upsert_pr) (simp_all add: synced_row_def empty_pr_def assms(1))
  have sync: "\<exists>p'. get_pr_state (sync_pr_open fid ?s d) fid = Some p' \<and> p_number p' = Some n \<and>
      p_harvested_at p' = p_harvested_at (carry_harvest n p) \<and>
      p_harvest_attempts p' = p_harvest_attempts (carry_harvest n p)"
    unfolding sync_pr_open_def Let_def
    by (cases "sp_attention_since ?s"; cases "sp_clear_addressed ?s")
      (simp_all add: base prs.get_upd_key, simp_all add: synced_row_def)
  show ?thesis using assms(2) merged closed number sync ne by (auto simp: with_state_def)
qed

theorem harvest_stamp_follows_number_witness:
  "\<exists>p'. get_pr_state (mark_pr_merged 1 8 30
      (job_db\<lparr>db_prs := [sample_pr\<lparr>p_harvested_at := Some 4\<rparr>]\<rparr>)) 1 = Some p' \<and> p_harvested_at p' = None"
proof -
  let ?d = "job_db\<lparr>db_prs := [sample_pr\<lparr>p_harvested_at := Some 4\<rparr>]\<rparr>"
  have "get_pr_state ?d 1 = Some (sample_pr\<lparr>p_harvested_at := Some 4\<rparr>)"
    by (simp add: get_pr_state_def sample_pr_def)
  from harvest_stamp_follows_number [OF this, of "mark_pr_merged 1 8 30 ?d" 8 30] show ?thesis
    by (auto simp: sample_pr_def)
qed

text \<open>Recording a closed pull request's harvest respects a human's decision and never loses or
  repeats the work: the classification replaces only \<open>closed\<close>, together with its anchor; any other
  status and anchor stay; and in either case the finding leaves the harvest queue.\<close>

theorem closed_harvest_recorded_once:
  assumes "distinct (map f_id (db_findings d))"
    and "get_finding d fid = Some f" "get_pr_state d fid = Some p"
    and "record_closed_harvest now fid status reason anchor stamp d = (classified, d')"
  shows "classified = (f_status f = Closed) \<and>
    map_option f_status (get_finding d' fid) = Some (if f_status f = Closed then status else f_status f) \<and>
    finding_anchor fid d' = (if f_status f = Closed then anchor else finding_anchor fid d) \<and>
    fid \<notin> f_id ` set (list_pending_harvest d')"
proof -
  let ?P = "\<lambda>f. f_id f = fid \<and> f_status f = Closed"
  let ?u = "upd_findings ?P (\<lambda>f. f\<lparr>f_status := status, f_verdict_reason := Some reason, f_updated_at := now\<rparr>) d"
  have fid: "f_id f = fid" using findings.get_SomeD [OF assms(2)] by simp
  have on: "0 < rows_affected ?P (db_findings d) \<longleftrightarrow> f_status f = Closed"
    using rows_affected_get [OF assms(1), of fid "\<lambda>f. f_status f = Closed"] assms(2) by simp
  let ?e = "if f_status f = Closed then write_anchor now fid anchor ?u else ?u"
  from assms(4) on have r: "classified = (f_status f = Closed)" "d' = mark_pr_harvested fid stamp ?e"
    by (auto simp: record_closed_harvest_def Let_def)
  have "db_findings d' = db_findings ?u" unfolding r(2) by (simp add: mark_pr_harvested_def frame_simps)
  then have "get_finding d' fid = get_finding ?u fid" by (rule get_finding_frame)
  then have st: "map_option f_status (get_finding d' fid) = Some (if f_status f = Closed then status else f_status f)"
    using assms(2) fid by (simp add: findings.get_upd)
  have "finding_anchor fid d' = finding_anchor fid ?e"
    unfolding r(2) by (simp add: finding_anchor_def mark_pr_harvested_def frame_simps)
  then have an: "finding_anchor fid d' = (if f_status f = Closed then anchor else finding_anchor fid d)"
    by (simp add: finding_anchor_write)
  have "get_pr_state ?e fid = Some p"
    using assms(3) by (simp add: get_pr_state_def frame_simps)
  then have "get_pr_state d' fid = Some (p\<lparr>p_harvested_at := Some stamp\<rparr>)"
    unfolding r(2) mark_pr_harvested_def by (subst prs.get_upd_key) simp_all
  then have "fid \<notin> f_id ` set (list_pending_harvest d')"
    by (auto simp: list_pending_harvest_iff pending_harvest_def)
  with r(1) st an show ?thesis by blast
qed

theorem closed_harvest_recorded_once_witness:
  "1 \<notin> f_id ` set (list_pending_harvest (snd (record_closed_harvest 9 1 Rejected ''wrong'' None 9
      (sample_db\<lparr>db_findings := [sample_finding\<lparr>f_status := Closed\<rparr>], db_prs := [sample_pr]\<rparr>))))"
proof -
  let ?d = "sample_db\<lparr>db_findings := [sample_finding\<lparr>f_status := Closed\<rparr>], db_prs := [sample_pr]\<rparr>"
  have "distinct (map f_id (db_findings ?d))" by simp
  moreover have "get_finding ?d 1 = Some (sample_finding\<lparr>f_status := Closed\<rparr>)"
    by (simp add: get_finding_def sample_finding_def new_finding_def)
  moreover have "get_pr_state ?d 1 = Some sample_pr" by (simp add: get_pr_state_def sample_pr_def)
  ultimately show ?thesis using closed_harvest_recorded_once [OF _ _ _ prod.collapse [symmetric]] by blast
qed

end
