(* ===== verification/World.thy ===== *)
theory World
  imports Tables "HOL-Library.State_Monad" "HOL-Library.Char_ord" "HOL-Library.List_Lexorder"
begin

text \<open>
The effects the scheduler's code runs in, shared by every component above the store.

A function that awaits store calls and looks at the disk is an action of HOL-Library's state monad
over a \<open>world\<close>: the database, the disk, the error log, the forge's lookup cache, and two schedules
that say, for the n-th effect, what the clock reads and whether it fails (and with which message). A store call is one
transaction: it fails and leaves the database as it was, or happens whole; so does a change to the
disk. External commands (git, gh, glab) are the field \<open>w_shell\<close>: what the n-th effect, a command
line in a working directory, prints and does to the disk is a parameter, never a definition. The code's
\<open>anyhow::Result\<close> is a sum with the error text on the left, its \<open>?\<close> is \<open>and_then\<close>,
and a \<open>let _ =\<close> binds a result nobody looks at.

\<open>wp\<close> is the weakest-precondition reading of an action; its equations, collected in
\<open>wp_simps\<close>, reduce a statement about an action to one about the database operations it
makes.  \<open>keeps h m\<close> says that \<open>m\<close> leaves the view \<open>h\<close> of the database alone whatever
fails; its rules, in \<open>keeps_intros\<close>, follow the structure of an action.
\<close>

named_theorems wp_simps "weakest preconditions of the store effects"
named_theorems keeps_intros "actions that leave a view of the database alone"
named_theorems preserves_intros "actions that preserve a predicate on database, disk and commands"

section \<open>The world\<close>

record disk =
  k_files :: "string \<Rightarrow> string option"
  k_dirs :: "string list"
  k_mtime :: "string \<Rightarrow> millis option"

type_synonym shell = "nat \<Rightarrow> string option \<Rightarrow> string list \<Rightarrow> disk \<Rightarrow> (int \<times> string) \<times> disk"

record world =
  w_db :: db
  w_disk :: disk
  w_log :: "string list"
  w_lookups :: "string \<Rightarrow> (bool \<times> millis) option"
  w_shell :: shell
  w_fault :: "nat \<Rightarrow> string option"
  w_now :: "nat \<Rightarrow> millis"
  w_calls :: nat

type_synonym 'a act = "(world, 'a) state"
type_synonym 'a io = "(world, string + 'a) state"

definition path_exists :: "world \<Rightarrow> string \<Rightarrow> bool" where
  "path_exists w p = (p \<in> set (k_dirs (w_disk w)) \<or> k_files (w_disk w) p \<noteq> None)"

section \<open>Store calls\<close>

definition call :: "(millis \<Rightarrow> db \<Rightarrow> 'a \<times> db) \<Rightarrow> 'a io" where
  "call f = State (\<lambda>w.
     (let w' = w\<lparr>w_calls := Suc (w_calls w)\<rparr>
      in case w_fault w (w_calls w) of
           Some e \<Rightarrow> (Inl e, w')
         | None \<Rightarrow> (let (r, d) = f (w_now w (w_calls w)) (w_db w) in (Inr r, w'\<lparr>w_db := d\<rparr>))))"

definition query :: "(db \<Rightarrow> 'a) \<Rightarrow> 'a io" where
  "query f = call (\<lambda>_ d. (f d, d))"

definition exec :: "(millis \<Rightarrow> db \<Rightarrow> db) \<Rightarrow> unit io" where
  "exec f = call (\<lambda>now d. ((), f now d))"

text \<open>A store write with errors of its own: \<open>StoreWriteError\<close>, sqlx's text for no row, and SQLite's for a broken constraint.\<close>

fun write_error_text :: "write_error \<Rightarrow> string" where
  "write_error_text (Refused s) = s"
| "write_error_text RowNotFound =
     ''no rows returned by a query that expected to return at least one row''"
| "write_error_text (Constraint s) = s"

definition call_r :: "(millis \<Rightarrow> db \<Rightarrow> (write_error + 'a) \<times> db) \<Rightarrow> 'a io" where
  "call_r f = State (\<lambda>w.
     (case run_state (call f) w of
        (Inl e, w') \<Rightarrow> (Inl e, w')
      | (Inr (Inl e), w') \<Rightarrow> (Inl (write_error_text e), w')
      | (Inr (Inr x), w') \<Rightarrow> (Inr x, w')))"

definition look :: "(world \<Rightarrow> 'a) \<Rightarrow> 'a act" where
  "look f = State (\<lambda>w. (f w, w))"

text \<open>A change of the disk, and an external command: it always comes back, with its exit code and
  output.\<close>

definition disk_call :: "(disk \<Rightarrow> (string + 'a) \<times> disk) \<Rightarrow> 'a io" where
  "disk_call f = State (\<lambda>w.
     (let w' = w\<lparr>w_calls := Suc (w_calls w)\<rparr>
      in case w_fault w (w_calls w) of
           Some e \<Rightarrow> (Inl e, w')
         | None \<Rightarrow> (let (r, k) = f (w_disk w) in (r, w'\<lparr>w_disk := k\<rparr>))))"

definition shell_in :: "string option \<Rightarrow> string list \<Rightarrow> (int \<times> string) act" where
  "shell_in cwd argv = State (\<lambda>w.
     (let (r, k) = w_shell w (w_calls w) cwd argv (w_disk w)
      in (r, w\<lparr>w_calls := Suc (w_calls w), w_disk := k\<rparr>)))"

abbreviation shell :: "string list \<Rightarrow> (int \<times> string) act" where
  "shell \<equiv> shell_in None"

text \<open>The code's \<open>?\<close>, \<open>Ok\<close> and \<open>Err\<close>, and \<open>unwrap_or\<close>.\<close>

definition ok :: "'a \<Rightarrow> 'a io" where
  "ok x = State_Monad.return (Inr x)"

definition err :: "string \<Rightarrow> 'a io" where
  "err e = State_Monad.return (Inl e)"

definition and_then :: "'a io \<Rightarrow> ('a \<Rightarrow> 'b io) \<Rightarrow> 'b io" where
  "and_then m k = do { r \<leftarrow> m; case r of Inl e \<Rightarrow> err e | Inr x \<Rightarrow> k x }"

fun result_or :: "string + 'a \<Rightarrow> 'a \<Rightarrow> 'a" where
  "result_or (Inl _) y = y"
| "result_or (Inr x) _ = x"

fun is_ok :: "string + 'a \<Rightarrow> bool" where
  "is_ok (Inl _) = False"
| "is_ok (Inr _) = True"

text \<open>A result that is only logged by the tracing subscriber, or not at all.\<close>

definition ignore :: "'a io \<Rightarrow> unit act" where
  "ignore m = do { _ \<leftarrow> m; State_Monad.return () }"

text \<open>A failed write the code continues past is traced, and only traced.\<close>

definition log_write_failure :: "'a io \<Rightarrow> string \<Rightarrow> 'a option act" where
  "log_write_failure m what = do {
     r \<leftarrow> m;
     case r of
       Inl e \<Rightarrow> State (\<lambda>w. (None, w\<lparr>w_log := w_log w @ [''store write failed: '' @ what]\<rparr>))
     | Inr x \<Rightarrow> State_Monad.return (Some x) }"

definition event :: "string \<Rightarrow> string \<Rightarrow> int option \<Rightarrow> int option \<Rightarrow> unit io" where
  "event kind message job fid = exec (\<lambda>now. log_event now kind message job fid)"

section \<open>Weakest preconditions\<close>

definition wp :: "'a act \<Rightarrow> ('a \<Rightarrow> world \<Rightarrow> bool) \<Rightarrow> world \<Rightarrow> bool" where
  "wp m Q w = (case run_state m w of (a, w') \<Rightarrow> Q a w')"

lemma wp_return [wp_simps]: "wp (State_Monad.return a) Q = Q a"
  by (simp add: wp_def fun_eq_iff)

lemma wp_bind [wp_simps]: "wp (m \<bind> k) Q = wp m (\<lambda>a. wp (k a) Q)"
  by (simp add: wp_def fun_eq_iff case_prod_beta)

lemma wp_ok [wp_simps]: "wp (ok a) Q = Q (Inr a)"
  by (simp add: ok_def wp_simps)

lemma wp_err [wp_simps]: "wp (err e) Q = Q (Inl e)"
  by (simp add: err_def wp_simps)

lemma wp_case_sum: "wp (case r of Inl e \<Rightarrow> f e | Inr x \<Rightarrow> g x) Q =
    (case r of Inl e \<Rightarrow> wp (f e) Q | Inr x \<Rightarrow> wp (g x) Q)"
  by (simp split: sum.split)

lemma wp_case_option [wp_simps]: "wp (case r of None \<Rightarrow> f | Some x \<Rightarrow> g x) Q =
    (case r of None \<Rightarrow> wp f Q | Some x \<Rightarrow> wp (g x) Q)"
  by (simp split: option.split)

lemma wp_if [wp_simps]: "wp (if c then f else g) Q = (if c then wp f Q else wp g Q)"
  by simp

lemma wp_and_then [wp_simps]:
  "wp (and_then m k) Q = wp m (\<lambda>r. case r of Inl e \<Rightarrow> Q (Inl e) | Inr x \<Rightarrow> wp (k x) Q)"
  by (simp add: and_then_def wp_bind wp_case_sum wp_err cong: sum.case_cong)

lemmas [wp_simps] = wp_case_sum

lemma wp_look [wp_simps]: "wp (look f) Q = (\<lambda>w. Q (f w) w)"
  by (simp add: look_def wp_def fun_eq_iff)

lemma wp_ignore [wp_simps]: "wp (ignore m) Q = wp m (\<lambda>_. Q ())"
  by (simp add: ignore_def wp_simps)

lemma wp_mono: "wp m P w \<Longrightarrow> (\<And>a w'. P a w' \<Longrightarrow> Q a w') \<Longrightarrow> wp m Q w"
  by (auto simp: wp_def split: prod.splits)

lemma wp_conj: "wp m P w \<Longrightarrow> wp m Q w \<Longrightarrow> wp m (\<lambda>a w'. P a w' \<and> Q a w') w"
  by (auto simp: wp_def split: prod.splits)

lemma wp_bind_any: "(\<And>a w'. wp (k a) Q w') \<Longrightarrow> wp (m \<bind> k) Q w"
  by (simp add: wp_bind wp_def split: prod.split)

lemma wp_run: "wp m Q w \<Longrightarrow> run_state m w = (a, w') \<Longrightarrow> Q a w'"
  by (simp add: wp_def)

lemma run_wp: "(\<And>a w'. run_state m w = (a, w') \<Longrightarrow> Q a w') \<Longrightarrow> wp m Q w"
  by (auto simp: wp_def split: prod.splits)

text \<open>What one call does to the world: count it, and its effect unless it fails.\<close>

definition tick :: "world \<Rightarrow> world" where
  "tick w = w\<lparr>w_calls := Suc (w_calls w)\<rparr>"

lemma tick_simps [simp]:
  "w_db (tick w) = w_db w" "w_disk (tick w) = w_disk w" "w_log (tick w) = w_log w"
  "w_shell (tick w) = w_shell w" "w_lookups (tick w) = w_lookups w"
  "w_fault (tick w) = w_fault w" "w_now (tick w) = w_now w" "w_calls (tick w) = Suc (w_calls w)"
  by (simp_all add: tick_def)

definition put_db :: "db \<Rightarrow> world \<Rightarrow> world" where
  "put_db d w = (tick w)\<lparr>w_db := d\<rparr>"

lemma put_db_simps [simp]:
  "w_db (put_db d w) = d" "w_disk (put_db d w) = w_disk w" "w_log (put_db d w) = w_log w"
  "w_shell (put_db d w) = w_shell w" "w_lookups (put_db d w) = w_lookups w"
  "w_fault (put_db d w) = w_fault w" "w_now (put_db d w) = w_now w" "w_calls (put_db d w) = Suc (w_calls w)"
  by (simp_all add: put_db_def)

definition put_disk :: "disk \<Rightarrow> world \<Rightarrow> world" where
  "put_disk k w = w\<lparr>w_disk := k\<rparr>"

lemma put_disk_simps [simp]:
  "w_disk (put_disk k w) = k" "w_db (put_disk k w) = w_db w" "w_log (put_disk k w) = w_log w"
  "w_shell (put_disk k w) = w_shell w" "w_lookups (put_disk k w) = w_lookups w" "w_fault (put_disk k w) = w_fault w"
  "w_now (put_disk k w) = w_now w" "w_calls (put_disk k w) = w_calls w"
  by (simp_all add: put_disk_def)

definition put_log :: "string \<Rightarrow> world \<Rightarrow> world" where
  "put_log m w = w\<lparr>w_log := w_log w @ [m]\<rparr>"

lemma put_log_simps [simp]:
  "w_log (put_log m w) = w_log w @ [m]" "w_db (put_log m w) = w_db w" "w_disk (put_log m w) = w_disk w"
  "w_shell (put_log m w) = w_shell w" "w_lookups (put_log m w) = w_lookups w" "w_fault (put_log m w) = w_fault w"
  "w_now (put_log m w) = w_now w" "w_calls (put_log m w) = w_calls w"
  by (simp_all add: put_log_def)

lemma put_db_same: "put_db (w_db w) w = tick w"
  by (simp add: put_db_def)

lemma wp_call [wp_simps]:
  "wp (call f) Q = (\<lambda>w. case w_fault w (w_calls w) of
       Some e \<Rightarrow> Q (Inl e) (tick w)
     | None \<Rightarrow> Q (Inr (fst (f (w_now w (w_calls w)) (w_db w))))
                 (put_db (snd (f (w_now w (w_calls w)) (w_db w))) w))"
  by (simp add: fun_eq_iff wp_def call_def tick_def put_db_def Let_def split: option.split prod.split)

lemma wp_query [wp_simps]:
  "wp (query f) Q = (\<lambda>w. case w_fault w (w_calls w) of
       Some e \<Rightarrow> Q (Inl e) (tick w) | None \<Rightarrow> Q (Inr (f (w_db w))) (tick w))"
  by (simp add: query_def wp_simps put_db_same fun_eq_iff split: option.split)

lemma wp_exec [wp_simps]:
  "wp (exec f) Q = (\<lambda>w. case w_fault w (w_calls w) of
       Some e \<Rightarrow> Q (Inl e) (tick w)
     | None \<Rightarrow> Q (Inr ()) (put_db (f (w_now w (w_calls w)) (w_db w)) w))"
  by (simp add: exec_def wp_simps fun_eq_iff split: option.split)

lemma wp_call_r [wp_simps]:
  "wp (call_r f) Q = (\<lambda>w. case w_fault w (w_calls w) of
       Some e \<Rightarrow> Q (Inl e) (tick w)
     | None \<Rightarrow> Q (case fst (f (w_now w (w_calls w)) (w_db w)) of
                    Inl e \<Rightarrow> Inl (write_error_text e) | Inr x \<Rightarrow> Inr x)
                 (put_db (snd (f (w_now w (w_calls w)) (w_db w))) w))"
  by (simp add: fun_eq_iff wp_def call_r_def call_def tick_def put_db_def Let_def
      split: option.split prod.split sum.split)

lemma wp_event [wp_simps]:
  "wp (event kind message job fid) Q = (\<lambda>w. case w_fault w (w_calls w) of
       Some e \<Rightarrow> Q (Inl e) (tick w)
     | None \<Rightarrow> Q (Inr ()) (put_db (log_event (w_now w (w_calls w)) kind message job fid (w_db w)) w))"
  by (simp add: event_def wp_simps)

lemma wp_disk_call [wp_simps]:
  "wp (disk_call f) Q = (\<lambda>w. case w_fault w (w_calls w) of
       Some e \<Rightarrow> Q (Inl e) (tick w)
     | None \<Rightarrow> Q (fst (f (w_disk w))) (put_disk (snd (f (w_disk w))) (tick w)))"
  by (simp add: fun_eq_iff wp_def disk_call_def tick_def put_disk_def Let_def split: option.split prod.split)

lemma wp_shell [wp_simps]:
  "wp (shell_in cwd argv) Q = (\<lambda>w. Q (fst (w_shell w (w_calls w) cwd argv (w_disk w)))
     (put_disk (snd (w_shell w (w_calls w) cwd argv (w_disk w))) (tick w)))"
  by (simp add: fun_eq_iff wp_def shell_in_def put_disk_def tick_def Let_def split: prod.split)

lemma wp_log_write_failure [wp_simps]:
  "wp (log_write_failure m what) Q = wp m (\<lambda>r w. case r of
       Inl e \<Rightarrow> Q None (put_log (''store write failed: '' @ what) w) | Inr x \<Rightarrow> Q (Some x) w)"
proof -
  have trace: "wp (State (\<lambda>w. (None, w\<lparr>w_log := w_log w @ [x]\<rparr>))) Q = (\<lambda>w. Q None (put_log x w))" for x
    by (simp add: fun_eq_iff wp_def put_log_def)
  show ?thesis
    unfolding log_write_failure_def wp_bind
    by (rule arg_cong [of _ _ "wp m"])
      (simp add: fun_eq_iff wp_case_sum trace wp_return split: sum.split)
qed

section \<open>Walks over rows\<close>

text \<open>The first row an action settles, in order; a row that settles nothing passes to the next.\<close>

fun first_of :: "('r \<Rightarrow> 'a option io) \<Rightarrow> 'r list \<Rightarrow> 'a option io" where
  "first_of f [] = ok None"
| "first_of f (r # rs) = and_then (f r) (\<lambda>x. case x of Some a \<Rightarrow> ok (Some a) | None \<Rightarrow> first_of f rs)"

text \<open>What every action of a walk keeps, the walk keeps.\<close>

lemma wp_first_of_inv:
  assumes "I w" "\<And>r w. r \<in> set rs \<Longrightarrow> I w \<Longrightarrow> wp (f r) (\<lambda>_. I) w"
  shows "wp (first_of f rs) (\<lambda>_. I) w"
  using assms
proof (induction rs arbitrary: w)
  case Nil
  then show ?case by (simp add: wp_simps)
next
  case (Cons r rs)
  have "wp (f r) (\<lambda>_. I) w" using Cons.prems by simp
  then show ?case
    unfolding first_of.simps wp_simps
    by (rule wp_mono) (use Cons in \<open>auto simp: wp_simps split: sum.split option.split\<close>)
qed

section \<open>What an action leaves alone\<close>

definition keeps :: "(db \<Rightarrow> 'v) \<Rightarrow> 'a act \<Rightarrow> bool" where
  "keeps h m \<longleftrightarrow> (\<forall>w. h (w_db (snd (run_state m w))) = h (w_db w))"

lemma keepsD: "keeps h m \<Longrightarrow> run_state m w = (a, w') \<Longrightarrow> h (w_db w') = h (w_db w)"
  by (metis keeps_def snd_conv)

lemma keeps_wp: "keeps h m \<longleftrightarrow> (\<forall>w. wp m (\<lambda>_ w'. h (w_db w') = h (w_db w)) w)"
  by (simp add: keeps_def wp_def split_beta)

lemma keeps_finer: "keeps h m \<Longrightarrow> (\<And>d d'. h d' = h d \<Longrightarrow> g d' = g d) \<Longrightarrow> keeps g m"
  unfolding keeps_def by blast

lemma keeps_return [keeps_intros]: "keeps h (State_Monad.return a)"
  by (simp add: keeps_def)

lemma keeps_ok [keeps_intros]: "keeps h (ok a)" and keeps_err [keeps_intros]: "keeps h (err e)"
  by (simp_all add: ok_def err_def keeps_return)

lemma keeps_bind [keeps_intros]:
  "keeps h m \<Longrightarrow> (\<And>a. keeps h (k a)) \<Longrightarrow> keeps h (m \<bind> k)"
  by (simp add: keeps_def split_beta)

lemma keeps_and_then [keeps_intros]:
  "keeps h m \<Longrightarrow> (\<And>a. keeps h (k a)) \<Longrightarrow> keeps h (and_then m k)"
  unfolding and_then_def by (intro keeps_intros) (auto intro: keeps_intros split: sum.split)

lemma keeps_look [keeps_intros]: "keeps h (look f)"
  by (simp add: keeps_def look_def)

lemma keeps_call: "(\<And>now d. h (snd (f now d)) = h d) \<Longrightarrow> keeps h (call f)"
  by (simp add: keeps_wp wp_simps split: option.split)

lemma keeps_query [keeps_intros]: "keeps h (query f)"
  by (simp add: keeps_wp wp_simps split: option.split)

lemma keeps_exec: "(\<And>now d. h (f now d) = h d) \<Longrightarrow> keeps h (exec f)"
  by (simp add: keeps_wp wp_simps split: option.split)

lemma keeps_disk_call [keeps_intros]: "keeps h (disk_call f)"
  by (simp add: keeps_wp wp_simps split: option.split)

lemma keeps_shell [keeps_intros]: "keeps h (shell_in cwd argv)"
  by (simp add: keeps_wp wp_simps)

lemma keeps_log_write_failure [keeps_intros]: "keeps h m \<Longrightarrow> keeps h (log_write_failure m what)"
  unfolding log_write_failure_def
  by (intro keeps_bind) (auto simp: keeps_def split: sum.split)

lemma keeps_event: "(\<And>now d. h (log_event now kind message job fid d) = h d) \<Longrightarrow>
    keeps h (event kind message job fid)"
  unfolding event_def by (rule keeps_exec)

lemma keeps_ignore [keeps_intros]: "keeps h m \<Longrightarrow> keeps h (ignore m)"
  unfolding ignore_def by (intro keeps_intros)

lemma keeps_if [keeps_intros]: "(c \<Longrightarrow> keeps h m) \<Longrightarrow> (\<not> c \<Longrightarrow> keeps h n) \<Longrightarrow> keeps h (if c then m else n)"
  by simp

lemma keeps_case_option [keeps_intros]:
  "(x = None \<Longrightarrow> keeps h m) \<Longrightarrow> (\<And>a. x = Some a \<Longrightarrow> keeps h (k a)) \<Longrightarrow>
   keeps h (case x of None \<Rightarrow> m | Some a \<Rightarrow> k a)"
  by (cases x) auto

lemma keeps_case_sum [keeps_intros]:
  "(\<And>e. x = Inl e \<Longrightarrow> keeps h (m e)) \<Longrightarrow> (\<And>a. x = Inr a \<Longrightarrow> keeps h (k a)) \<Longrightarrow>
   keeps h (case x of Inl e \<Rightarrow> m e | Inr a \<Rightarrow> k a)"
  by (cases x) auto

lemma keeps_case_prod [keeps_intros]: "(\<And>a b. x = (a, b) \<Longrightarrow> keeps h (k a b)) \<Longrightarrow> keeps h (case x of (a, b) \<Rightarrow> k a b)"
  by (cases x) auto

lemma keeps_first_of: "(\<And>r. r \<in> set rs \<Longrightarrow> keeps h (f r)) \<Longrightarrow> keeps h (first_of f rs)"
  by (induction rs) (auto intro!: keeps_intros)

lemma run_wp_keeps:
  "keeps h m \<Longrightarrow> wp m Q w \<Longrightarrow> wp m (\<lambda>a w'. Q a w' \<and> h (w_db w') = h (w_db w)) w"
  by (rule wp_conj) (auto simp: keeps_wp)

section \<open>Invariants of an action\<close>

text \<open>A predicate on the database, the disk and what commands do, kept whatever fails.\<close>

definition preserves ::
  "(db \<Rightarrow> disk \<Rightarrow> shell \<Rightarrow> bool) \<Rightarrow> 'a act \<Rightarrow> bool" where
  "preserves J m \<longleftrightarrow>
     (\<forall>w. J (w_db w) (w_disk w) (w_shell w) \<longrightarrow> wp m (\<lambda>_ w'. J (w_db w') (w_disk w') (w_shell w')) w)"

lemma preservesD: "preserves J m \<Longrightarrow> J (w_db w) (w_disk w) (w_shell w) \<Longrightarrow> run_state m w = (a, w') \<Longrightarrow>
    J (w_db w') (w_disk w') (w_shell w')"
  by (auto simp: preserves_def wp_def)

lemma preserves_pure [preserves_intros]:
  "preserves J (State_Monad.return a)" "preserves J (ok b)" "preserves J (err e)" "preserves J (look f)"
  by (simp_all add: preserves_def wp_simps)

lemma preserves_query [preserves_intros]: "preserves J (query q)"
  by (simp add: preserves_def wp_simps split: option.split)

lemma preserves_bind [preserves_intros]:
  "preserves J m \<Longrightarrow> (\<And>a. preserves J (k a)) \<Longrightarrow> preserves J (m \<bind> k)"
  unfolding preserves_def wp_bind by (blast intro: wp_mono)

lemma preserves_and_then [preserves_intros]:
  "preserves J m \<Longrightarrow> (\<And>a. preserves J (k a)) \<Longrightarrow> preserves J (and_then m k)"
  unfolding and_then_def by (intro preserves_intros) (auto intro: preserves_intros split: sum.split)

text \<open>What was read from a database the predicate pins down is known to what follows.\<close>

lemma preserves_and_then_query:
  assumes "\<And>d k s. J d k s \<Longrightarrow> preserves J (g (f d))"
  shows "preserves J (and_then (query f) g)"
  using assms unfolding preserves_def by (auto simp: wp_simps split: option.split)

lemma preserves_call: "(\<And>now d k s. J d k s \<Longrightarrow> J (snd (f now d)) k s) \<Longrightarrow> preserves J (call f)"
  by (simp add: preserves_def wp_simps split: option.split)

lemma preserves_call_r: "(\<And>now d k s. J d k s \<Longrightarrow> J (snd (f now d)) k s) \<Longrightarrow> preserves J (call_r f)"
  by (simp add: preserves_def wp_simps split: option.split)

lemma preserves_exec: "(\<And>now d k s. J d k s \<Longrightarrow> J (f now d) k s) \<Longrightarrow> preserves J (exec f)"
  by (simp add: preserves_def wp_simps split: option.split)

lemma preserves_event: "(\<And>now d k s. J d k s \<Longrightarrow> J (log_event now kind message job fid d) k s) \<Longrightarrow>
    preserves J (event kind message job fid)"
  unfolding event_def by (rule preserves_exec)

lemma preserves_disk_call: "(\<And>d k s. J d k s \<Longrightarrow> J d (snd (f k)) s) \<Longrightarrow> preserves J (disk_call f)"
  by (simp add: preserves_def wp_simps split: option.split)

lemma preserves_shell: "(\<And>d k s n. J d k s \<Longrightarrow> J d (snd (s n cwd argv k)) s) \<Longrightarrow> preserves J (shell_in cwd argv)"
  by (simp add: preserves_def wp_simps)

lemma preserves_ignore [preserves_intros]: "preserves J m \<Longrightarrow> preserves J (ignore m)"
  unfolding ignore_def by (intro preserves_intros)

lemma preserves_log_write_failure [preserves_intros]:
  "preserves J m \<Longrightarrow> preserves J (log_write_failure m what)"
  unfolding preserves_def wp_log_write_failure
  by (intro allI impI) (erule allE, erule (1) impE, erule wp_mono, auto split: sum.split)

lemma preserves_if [preserves_intros]:
  "(c \<Longrightarrow> preserves J m) \<Longrightarrow> (\<not> c \<Longrightarrow> preserves J n) \<Longrightarrow> preserves J (if c then m else n)"
  by simp

lemma preserves_case_option [preserves_intros]:
  "(x = None \<Longrightarrow> preserves J m) \<Longrightarrow> (\<And>a. x = Some a \<Longrightarrow> preserves J (k a)) \<Longrightarrow>
   preserves J (case x of None \<Rightarrow> m | Some a \<Rightarrow> k a)"
  by (cases x) auto

lemma preserves_case_sum [preserves_intros]:
  "(\<And>e. x = Inl e \<Longrightarrow> preserves J (m e)) \<Longrightarrow> (\<And>a. x = Inr a \<Longrightarrow> preserves J (k a)) \<Longrightarrow>
   preserves J (case x of Inl e \<Rightarrow> m e | Inr a \<Rightarrow> k a)"
  by (cases x) auto

lemma preserves_case_prod [preserves_intros]:
  "(\<And>a b. x = (a, b) \<Longrightarrow> preserves J (k a b)) \<Longrightarrow> preserves J (case x of (a, b) \<Rightarrow> k a b)"
  by (cases x) auto

lemma preserves_case_bool [preserves_intros]:
  "(b \<Longrightarrow> preserves J m) \<Longrightarrow> (\<not> b \<Longrightarrow> preserves J n) \<Longrightarrow> preserves J (case b of True \<Rightarrow> m | False \<Rightarrow> n)"
  by (cases b) auto

section \<open>Paths\<close>

text \<open>\<open>Path::join\<close> of a relative name, and the component-wise \<open>Path::starts_with\<close>.\<close>

definition path_join :: "string \<Rightarrow> string \<Rightarrow> string" where
  "path_join a b = (if a = [] \<or> ends_with ''/'' a then a @ b else a @ ''/'' @ b)"

definition components :: "string \<Rightarrow> string list" where
  "components p =
     (let parts = split_on (CHR ''/'') p
      in (if starts_with ''/'' p then [''/''] else if hd parts = ''.'' then [''.''] else []) @
         filter (\<lambda>c. c \<noteq> [] \<and> c \<noteq> ''.'') parts)"

definition path_starts_with :: "string \<Rightarrow> string \<Rightarrow> bool" where
  "path_starts_with p base \<longleftrightarrow>
     take (length (components base)) (components p) = components base"

lemma split_on_append: "split_on d (a @ d # b) = split_on d a @ split_on d b"
  by (induction a) (auto simp: neq_Nil_conv split: list.split)

lemma split_on_word: "d \<notin> set w \<Longrightarrow> split_on d w = [w]"
  by (induction w) auto

definition plain_name :: "string \<Rightarrow> bool" where
  "plain_name b \<longleftrightarrow> b \<noteq> [] \<and> b \<noteq> ''.'' \<and> CHR ''/'' \<notin> set b"

lemma components_join:
  assumes "plain_name b"
  shows "components (path_join a b) = components a @ [b]"
proof -
  have b: "split_on (CHR ''/'') b = [b]" "b \<noteq> []" "b \<noteq> ''.''" "hd b \<noteq> CHR ''/''"
    using assms by (cases b; auto simp: plain_name_def split_on_word)+
  consider "a = []" | a' where "a = a' @ ''/''" | "a \<noteq> []" "\<not> ends_with ''/'' a"
    by (auto simp: ends_with_iff)
  then show ?thesis
  proof cases
    case 1
    with b show ?thesis by (cases b) (auto simp: path_join_def components_def Let_def)
  next
    case 2
    have "ends_with ''/'' a" by (simp add: 2 ends_with_iff)
    moreover have "split_on (CHR ''/'') (a @ b) = split_on (CHR ''/'') a' @ [b]"
      "split_on (CHR ''/'') a = split_on (CHR ''/'') a' @ [[]]"
      using split_on_append [of "CHR ''/''" a' b] split_on_append [of "CHR ''/''" a' "[]"] b(1) 2 by simp_all
    moreover have "starts_with ''/'' (a @ b) = starts_with ''/'' a" by (cases a') (simp_all add: 2)
    ultimately show ?thesis
      using b(2,3) by (simp add: path_join_def components_def Let_def)
  next
    case 3
    have "split_on (CHR ''/'') (a @ ''/'' @ b) = split_on (CHR ''/'') a @ [b]"
      using split_on_append [of "CHR ''/''" a b] b(1) by simp
    moreover have "starts_with ''/'' (a @ ''/'' @ b) = starts_with ''/'' a" using 3(1) by (cases a) simp_all
    ultimately show ?thesis
      using 3 b(2,3) by (simp add: path_join_def components_def Let_def)
  qed
qed

lemma path_starts_with_components:
  "path_starts_with p q \<longleftrightarrow> (\<exists>r. components p = components q @ r)"
  unfolding path_starts_with_def by (metis append_eq_conv_conj append_take_drop_id)

section \<open>The disk\<close>

text \<open>\<open>std::fs\<close>: making a directory makes its ancestors, removing one removes what is under
  it. Directories are listed by the path they were made under.\<close>

definition is_dir :: "world \<Rightarrow> string \<Rightarrow> bool" where
  "is_dir w p \<longleftrightarrow> p \<in> set (k_dirs (w_disk w))"

text \<open>\<open>read_to_string\<close>; a file that is no UTF-8 text is one of the reads that fail.\<close>

definition NOT_FOUND :: string where
  "NOT_FOUND = ''No such file or directory (os error 2)''"

definition read_file :: "string \<Rightarrow> string io" where
  "read_file p = disk_call (\<lambda>k.
     case k_files k p of None \<Rightarrow> (Inl NOT_FOUND, k) | Some t \<Rightarrow> (Inr t, k))"

definition remove_file :: "string \<Rightarrow> unit io" where
  "remove_file p = disk_call (\<lambda>k.
     case k_files k p of
       None \<Rightarrow> (Inl NOT_FOUND, k)
     | Some _ \<Rightarrow> (Inr (), k\<lparr>k_files := (k_files k)(p := None)\<rparr>))"

fun ancestors_rev :: "string \<Rightarrow> string list" where
  "ancestors_rev [] = []"
| "ancestors_rev (c # cs) = (if c = CHR ''/'' \<and> cs \<noteq> [] then [rev cs] else []) @ ancestors_rev cs"

definition create_dir_all :: "string \<Rightarrow> unit io" where
  "create_dir_all p = disk_call (\<lambda>k.
     (Inr (), k\<lparr>k_dirs := k_dirs k @ filter (\<lambda>q. q \<notin> set (k_dirs k)) (p # ancestors_rev (rev p))\<rparr>))"

definition without :: "string \<Rightarrow> disk \<Rightarrow> disk" where
  "without p k = k\<lparr>k_files := (\<lambda>q. if path_starts_with q p then None else k_files k q),
                   k_dirs := filter (\<lambda>q. \<not> path_starts_with q p) (k_dirs k)\<rparr>"

definition remove_dir_all :: "string \<Rightarrow> unit io" where
  "remove_dir_all p = disk_call (\<lambda>k.
     if p \<in> set (k_dirs k) then (Inr (), without p k)
     else (Inl NOT_FOUND, k))"

text \<open>\<open>remove_dir\<close> removes a directory only while nothing is in it, neither a directory nor a file.\<close>

definition remove_empty_dir :: "string \<Rightarrow> unit io" where
  "remove_empty_dir p = disk_call (\<lambda>k.
     if p \<in> set (k_dirs k) \<and> \<not> (\<exists>q \<in> set (k_dirs k). q \<noteq> p \<and> path_starts_with q p) \<and>
        \<not> (\<exists>q. k_files k q \<noteq> None \<and> path_starts_with q p)
     then (Inr (), k\<lparr>k_dirs := filter (\<lambda>q. q \<noteq> p) (k_dirs k)\<rparr>)
     else (Inl ''Directory not empty (os error 39)'', k))"

definition file_name :: "string \<Rightarrow> string" where
  "file_name p = (if components p = [] then [] else last (components p))"

text \<open>\<open>Path::parent\<close>\<close>

definition parent_dir :: "string \<Rightarrow> string option" where
  "parent_dir p =
     (let q = trim_end_by (\<lambda>c. c = CHR ''/'') p;
          body = dropWhile (\<lambda>c. c \<noteq> CHR ''/'') (rev q)
      in if q = [] then None
         else if body = ''/'' then Some ''/''
         else Some (rev (dropWhile (\<lambda>c. c = CHR ''/'') body)))"

definition child_dirs :: "string \<Rightarrow> disk \<Rightarrow> string list" where
  "child_dirs dir k =
     sort_key components
       (filter (\<lambda>q. components q \<noteq> [] \<and> butlast (components q) = components dir) (k_dirs k))"

section \<open>A quiet world\<close>

text \<open>For concrete runs: no effect fails, the clock stands still, the disk is empty and every command
  fails as one that is not installed.\<close>

definition quiet :: "millis \<Rightarrow> db \<Rightarrow> world" where
  "quiet now d = \<lparr>w_db = d, w_disk = \<lparr>k_files = Map.empty, k_dirs = [], k_mtime = Map.empty\<rparr>, w_log = [],
     w_lookups = Map.empty, w_shell = (\<lambda>_ _ _ k. ((127, []), k)), w_fault = (\<lambda>_. None), w_now = (\<lambda>_. now), w_calls = 0\<rparr>"

lemma quiet_simps [simp]:
  "w_db (quiet now d) = d" "w_disk (quiet now d) = \<lparr>k_files = Map.empty, k_dirs = [], k_mtime = Map.empty\<rparr>"
  "w_log (quiet now d) = []" "w_lookups (quiet now d) = Map.empty" "w_shell (quiet now d) n cwd argv k = ((127, []), k)"
  "w_fault (quiet now d) n = None" "w_now (quiet now d) n = now" "w_calls (quiet now d) = 0"
  by (simp_all add: quiet_def)

end
