(* ===== verification/Config.thy ===== *)
theory Config
  imports Quota World
begin

text \<open>
\<open>config.rs\<close>: the raw shape of config.json, the validation that turns it into the
\<open>config\<close> every component reads, the host allow list, and (from \<open>forge.rs\<close>) the normalised
list of review bots it carries.

Parsing JSON and IP addresses are parameters of \<open>load\<close>: \<open>parse_json\<close> is serde_json on the
raw shape, \<open>parse_ip\<close> and \<open>parse_ipv6\<close> give an address in its canonical text. JSON numbers are
finite, so the code's \<open>is_finite\<close> checks are part of the parser. Errors name the key at fault
where the code writes a sentence.
\<close>

section \<open>Review bots\<close>

definition normalize_login :: "string \<Rightarrow> string" where
  "normalize_login login =
     (let l = to_ascii_lowercase (trim login)
      in case strip_suffix ''[bot]'' l of Some bare \<Rightarrow> bare | None \<Rightarrow> l)"

datatype review_bots = ReviewBots "string list"

definition review_bots_new :: "string list \<Rightarrow> review_bots" where
  "review_bots_new logins = ReviewBots (map normalize_login logins)"

fun review_bots_contains :: "review_bots \<Rightarrow> string \<Rightarrow> bool" where
  "review_bots_contains (ReviewBots names) login = (normalize_login login \<in> set names)"

section \<open>Host names\<close>

datatype host_allow_list = HostNames "string list" | AnyHost

definition allows :: "host_allow_list \<Rightarrow> string \<Rightarrow> bool" where
  "allows hosts name =
     (let n = to_ascii_lowercase name
      in n \<in> {''localhost'', ''127.0.0.1'', ''::1''} \<or>
         (case hosts of AnyHost \<Rightarrow> True | HostNames names \<Rightarrow> n \<in> set names))"

section \<open>The configuration\<close>

record raw_config =
  rc_work_root :: "string option"
  rc_db_path :: "string option"
  rc_omp_bin :: "string option"
  rc_poll_s :: "rat option"
  rc_session_grace_s :: "nat option"
  rc_serve_port :: "nat option"
  rc_serve_host :: "string option"
  rc_allowed_hosts :: "string list option"
  rc_stale_after_s :: "rat option"
  rc_cache_ttl_s :: "rat option"
  rc_model_default :: "string option"
  rc_model_smol :: "string option"
  rc_model_hunt :: "string option"
  rc_model_fix :: "string option"
  rc_backend_kind :: "string option"
  rc_llm_provider :: "string option"
  rc_hunt_max_wall_s :: "int option"
  rc_hunt_max_findings :: "int option"
  rc_hunt_rehunt_days :: "int option"
  rc_fix_max_wall_s :: "int option"
  rc_scan_interval :: "rat option"
  rc_modernization_interval :: "rat option"
  rc_standards_interval :: "rat option"
  rc_github_token :: "string option"
  rc_bots :: "string list option"

definition raw_default :: raw_config where
  "raw_default = \<lparr>rc_work_root = None, rc_db_path = None, rc_omp_bin = None, rc_poll_s = None,
     rc_session_grace_s = None, rc_serve_port = None, rc_serve_host = None, rc_allowed_hosts = None,
     rc_stale_after_s = None, rc_cache_ttl_s = None, rc_model_default = None, rc_model_smol = None,
     rc_model_hunt = None, rc_model_fix = None, rc_backend_kind = None, rc_llm_provider = None,
     rc_hunt_max_wall_s = None, rc_hunt_max_findings = None, rc_hunt_rehunt_days = None,
     rc_fix_max_wall_s = None, rc_scan_interval = None, rc_modernization_interval = None,
     rc_standards_interval = None, rc_github_token = None, rc_bots = None\<rparr>"

record config =
  cf_root :: string
  cf_work_root :: string
  cf_db_path :: string
  cf_serve_port :: nat
  cf_serve_host :: string
  cf_allowed_hosts :: host_allow_list
  cf_ui_dir :: string
  cf_omp_bin :: string
  cf_stale_after_s :: rat
  cf_cache_ttl_s :: rat
  cf_poll_s :: rat
  cf_session_grace_s :: nat
  cf_min_free_disk_bytes :: nat
  cf_model_default :: "string option"
  cf_model_smol :: "string option"
  cf_model_hunt :: "string option"
  cf_model_fix :: "string option"
  cf_backend_type :: string
  cf_llm_provider :: llm_provider
  cf_hunt_max_wall_s :: int
  cf_hunt_max_findings :: int
  cf_hunt_rehunt_days :: int
  cf_fix_max_wall_s :: int
  cf_scan_interval_days :: rat
  cf_modernization_interval_days :: int
  cf_standards_interval_days :: int
  cf_renovate_github_token :: "string option"
  cf_review_bots :: review_bots

definition model_for :: "config \<Rightarrow> string \<Rightarrow> string option" where
  "model_for cfg kind =
     opt_or (if kind = ''hunt'' then cf_model_hunt cfg else cf_model_fix cfg) (cf_model_default cfg)"

section \<open>Loading\<close>

datatype config_source = NotFound | Unreadable | Contents string

datatype config_error = ReadError | ParseError | Invalid string

definition MIN_FREE_DISK_BYTES :: nat where "MIN_FREE_DISK_BYTES = 1073741824"

definition MS_PER_DAY :: int where "MS_PER_DAY = 86400000"

definition max_days :: rat where "max_days = of_int (i64_max div MS_PER_DAY)"

definition limit :: "string \<Rightarrow> int \<Rightarrow> config_error + int" where
  "limit field v = (if 0 < v then Inr v else Inl (Invalid field))"

definition whole_days :: "string \<Rightarrow> rat option \<Rightarrow> config_error + int" where
  "whole_days field raw_days =
     (let d = unwrap_or raw_days 30
      in if 1 \<le> d \<and> d \<le> max_days \<and> of_int \<lfloor>d\<rfloor> = d then Inr (trunc_i64 d) else Inl (Invalid field))"

definition login_like :: "string \<Rightarrow> bool" where
  "login_like b \<longleftrightarrow> trim b \<noteq> [] \<and> \<not> list_ex (\<lambda>c. is_space c \<or> c = CHR ''/'') (trim b)"

definition host_name_like :: "(string \<Rightarrow> string option) \<Rightarrow> string \<Rightarrow> bool" where
  "host_name_like parse_ipv6 n \<longleftrightarrow> n \<noteq> [] \<and> (CHR '':'' \<in> set n \<longrightarrow> parse_ipv6 n \<noteq> None)"

definition parse_allowed_hosts ::
  "(string \<Rightarrow> string option) \<Rightarrow> string list option \<Rightarrow> config_error + host_allow_list" where
  "parse_allowed_hosts parse_ipv6 raw =
     (case raw of
        None \<Rightarrow> Inr (HostNames [])
      | Some raw_names \<Rightarrow>
          let names = map (\<lambda>n. to_ascii_lowercase (trim n)) raw_names
          in if ''*'' \<in> set names then
               (if length names = 1 then Inr AnyHost else Inl (Invalid ''serve.allowedHosts''))
             else if list_all (host_name_like parse_ipv6) names
             then Inr (HostNames (map (\<lambda>n. unwrap_or (parse_ipv6 n) n) names))
             else Inl (Invalid ''serve.allowedHosts''))"

definition resolve_path :: "string \<Rightarrow> string \<Rightarrow> string" where
  "resolve_path dir p = (if starts_with ''/'' p then p else path_join dir p)"

definition check :: "bool \<Rightarrow> string \<Rightarrow> (config_error + 'a) \<Rightarrow> config_error + 'a" where
  "check c field rest = (if c then rest else Inl (Invalid field))"

fun bind_error :: "'e + 'a \<Rightarrow> ('a \<Rightarrow> 'e + 'b) \<Rightarrow> 'e + 'b" where
  "bind_error (Inl e) _ = Inl e"
| "bind_error (Inr x) k = k x"

definition build_config ::
  "(string \<Rightarrow> string option) \<Rightarrow> (string \<Rightarrow> string option) \<Rightarrow> string \<Rightarrow> raw_config \<Rightarrow> config_error + config" where
  "build_config parse_ip parse_ipv6 dir raw =
     (let poll_s = unwrap_or (rc_poll_s raw) 2;
          grace = unwrap_or (rc_session_grace_s raw) 120;
          stale = unwrap_or (rc_stale_after_s raw) 300;
          scan = unwrap_or (rc_scan_interval raw) 1;
          bots = unwrap_or (rc_bots raw) []
      in check (0 < poll_s) ''pollS''
        (check (0 < grace) ''sessionGraceS''
        (bind_error (limit ''hunt.maxWallS'' (unwrap_or (rc_hunt_max_wall_s raw) 1800)) (\<lambda>hunt_wall.
         bind_error (limit ''fix.maxWallS'' (unwrap_or (rc_fix_max_wall_s raw) 2700)) (\<lambda>fix_wall.
         check (0 \<le> stale) ''budget.staleAfterS''
        (check (0 < scan \<and> scan \<le> max_days \<and> 1 \<le> scan * of_int MS_PER_DAY) ''scan.intervalDays''
        (bind_error (whole_days ''modernization.intervalDays'' (rc_modernization_interval raw)) (\<lambda>modernization.
         bind_error (whole_days ''standards.intervalDays'' (rc_standards_interval raw)) (\<lambda>standards.
         check (case rc_github_token raw of Some t \<Rightarrow> trim t \<noteq> [] | None \<Rightarrow> True) ''renovate.githubToken''
        (bind_error (case rc_llm_provider raw of
             None \<Rightarrow> Inr Anthropic
           | Some name \<Rightarrow> (case provider_parse name of
                 Some p \<Rightarrow> Inr p | None \<Rightarrow> Inl (Invalid ''backend.llmProvider''))) (\<lambda>provider.
         check (list_all login_like bots) ''feedback.bots''
        (bind_error (case rc_serve_host raw of
             None \<Rightarrow> Inr ''127.0.0.1''
           | Some h \<Rightarrow> (case parse_ip h of Some a \<Rightarrow> Inr a | None \<Rightarrow> Inl (Invalid ''serve.host''))) (\<lambda>host.
         bind_error (parse_allowed_hosts parse_ipv6 (rc_allowed_hosts raw)) (\<lambda>hosts.
         Inr \<lparr>cf_root = dir,
              cf_work_root = resolve_path dir (unwrap_or (rc_work_root raw) ''data''),
              cf_db_path = resolve_path dir (unwrap_or (rc_db_path raw) ''data/hunter.db''),
              cf_serve_port = unwrap_or (rc_serve_port raw) 8377,
              cf_serve_host = host,
              cf_allowed_hosts = hosts,
              cf_ui_dir = path_join dir ''ui'',
              cf_omp_bin = unwrap_or (rc_omp_bin raw) ''omp'',
              cf_stale_after_s = stale,
              cf_cache_ttl_s = unwrap_or (rc_cache_ttl_s raw) 3600,
              cf_poll_s = poll_s,
              cf_session_grace_s = grace,
              cf_min_free_disk_bytes = MIN_FREE_DISK_BYTES,
              cf_model_default = rc_model_default raw,
              cf_model_smol = rc_model_smol raw,
              cf_model_hunt = rc_model_hunt raw,
              cf_model_fix = rc_model_fix raw,
              cf_backend_type = unwrap_or (rc_backend_kind raw) ''omp-scavenge'',
              cf_llm_provider = provider,
              cf_hunt_max_wall_s = hunt_wall,
              cf_hunt_max_findings = unwrap_or (rc_hunt_max_findings raw) 8,
              cf_hunt_rehunt_days = unwrap_or (rc_hunt_rehunt_days raw) 90,
              cf_fix_max_wall_s = fix_wall,
              cf_scan_interval_days = scan,
              cf_modernization_interval_days = modernization,
              cf_standards_interval_days = standards,
              cf_renovate_github_token = rc_github_token raw,
              cf_review_bots = review_bots_new bots\<rparr>))))))))))))))"

definition load ::
  "(string \<Rightarrow> raw_config option) \<Rightarrow> (string \<Rightarrow> string option) \<Rightarrow> (string \<Rightarrow> string option) \<Rightarrow> string \<Rightarrow>
   config_source \<Rightarrow> config_error + config" where
  "load parse_json parse_ip parse_ipv6 dir src =
     bind_error
       (case src of
          NotFound \<Rightarrow> Inr raw_default
        | Unreadable \<Rightarrow> Inl ReadError
        | Contents text \<Rightarrow> (case parse_json text of Some raw \<Rightarrow> Inr raw | None \<Rightarrow> Inl ParseError))
       (build_config parse_ip parse_ipv6 dir)"

section \<open>What a loaded configuration promises\<close>

lemma bind_error_Inr: "bind_error m k = Inr y \<longleftrightarrow> (\<exists>x. m = Inr x \<and> k x = Inr y)"
  by (cases m) auto

lemma check_Inr: "check c field rest = Inr y \<longleftrightarrow> c \<and> rest = Inr y"
  by (simp add: check_def)

lemma limit_Inr: "limit field v = Inr x \<longleftrightarrow> 0 < v \<and> x = v"
  by (auto simp: limit_def)

lemma whole_days_Inr:
  assumes "whole_days field r = Inr x"
  shows "1 \<le> x \<and> of_int x \<le> max_days \<and> of_int x = unwrap_or r 30"
proof -
  let ?d = "unwrap_or r 30"
  have d: "1 \<le> ?d" "?d \<le> max_days" "of_int \<lfloor>?d\<rfloor> = ?d" "x = trunc_i64 ?d"
    using assms by (auto simp: whole_days_def Let_def split: if_splits)
  have big: "max_days \<le> of_int i64_max"
    by (simp add: max_days_def MS_PER_DAY_def i64_max_def)
  have "\<lfloor>?d\<rfloor> \<le> i64_max" using d(2) big by (meson floor_le_iff le_less_trans less_add_one of_int_le_iff order_trans of_int_floor_le)
  moreover have "i64_min \<le> \<lfloor>?d\<rfloor>" using d(1) by (simp add: i64_min_def le_floor_iff)
  ultimately have "x = \<lfloor>?d\<rfloor>" using d(1,4) by (simp add: trunc_i64_def)
  then have "of_int x = ?d" using d(3) by argo
  then show ?thesis using d(1,2) by (metis of_int_1_le_iff)
qed

lemma build_config_fields:
  assumes "build_config ip ip6 dir raw = Inr cfg"
  shows "0 < cf_poll_s cfg" "0 < cf_session_grace_s cfg" "0 < cf_hunt_max_wall_s cfg"
    "0 < cf_fix_max_wall_s cfg" "0 \<le> cf_stale_after_s cfg"
    "1 \<le> cf_scan_interval_days cfg * of_int MS_PER_DAY" "cf_scan_interval_days cfg \<le> max_days"
    "1 \<le> cf_modernization_interval_days cfg" "of_int (cf_modernization_interval_days cfg) \<le> max_days"
    "1 \<le> cf_standards_interval_days cfg" "of_int (cf_standards_interval_days cfg) \<le> max_days"
    "cf_renovate_github_token cfg = Some t \<Longrightarrow> trim t \<noteq> []"
    "parse_allowed_hosts ip6 (rc_allowed_hosts raw) = Inr (cf_allowed_hosts cfg)"
    "cf_work_root cfg = resolve_path dir (unwrap_or (rc_work_root raw) ''data'')"
  using assms
  by (auto simp: build_config_def Let_def bind_error_Inr check_Inr limit_Inr dest: whole_days_Inr)

lemma build_config_taken:
  assumes "build_config ip ip6 dir raw = Inr cfg"
  shows "cf_hunt_max_findings cfg = unwrap_or (rc_hunt_max_findings raw) 8"
    "cf_hunt_rehunt_days cfg = unwrap_or (rc_hunt_rehunt_days raw) 90"
    "cf_renovate_github_token cfg = rc_github_token raw"
  using assms by (auto simp: build_config_def Let_def bind_error_Inr check_Inr)

text \<open>The form an entry of the allow list is compared in, and the hosts a list lets in.\<close>

definition host_form :: "(string \<Rightarrow> string option) \<Rightarrow> string \<Rightarrow> string" where
  "host_form ip6 n = (let l = to_ascii_lowercase (trim n) in case ip6 l of Some a \<Rightarrow> a | None \<Rightarrow> l)"

definition lets_in :: "(string \<Rightarrow> string option) \<Rightarrow> string list \<Rightarrow> string \<Rightarrow> bool" where
  "lets_in ip6 entries h \<longleftrightarrow>
     to_ascii_lowercase h \<in> {''localhost'', ''127.0.0.1'', ''::1''} \<or>
     map (\<lambda>n. to_ascii_lowercase (trim n)) entries = [''*''] \<or>
     (\<exists>n \<in> set entries. to_ascii_lowercase h = host_form ip6 n)"

lemma parsed_hosts_let_in:
  assumes "parse_allowed_hosts ip6 raw = Inr hosts"
  shows "allows hosts h = lets_in ip6 (unwrap_or raw []) h"
proof (cases raw)
  case None
  with assms show ?thesis by (auto simp: parse_allowed_hosts_def allows_def lets_in_def)
next
  case (Some entries)
  let ?norm = "\<lambda>n. to_ascii_lowercase (trim n)"
  show ?thesis
  proof (cases "''*'' \<in> ?norm ` set entries")
    case True
    with assms Some have "length entries = 1" "hosts = AnyHost" by (auto simp: parse_allowed_hosts_def Let_def split: if_splits)
    moreover from this True have "map ?norm entries = [''*'']" by (cases entries) auto
    ultimately show ?thesis using Some by (auto simp: allows_def lets_in_def)
  next
    case False
    with assms Some have h: "hosts = HostNames (map (host_form ip6) entries)"
      by (auto simp: parse_allowed_hosts_def Let_def host_form_def unwrap_or_def comp_def split: if_splits option.split)
    from False have "map ?norm entries \<noteq> [''*'']" by auto
    with h Some show ?thesis by (auto simp: allows_def lets_in_def Let_def)
  qed
qed

text \<open>What is checked of a configuration: the poll, the session grace and the two wall limits are positive, the staleness
  is not negative, and each of the three cadences is at least a millisecond and fits the clock.\<close>

definition limits_hold :: "config \<Rightarrow> bool" where
  "limits_hold cfg \<longleftrightarrow> 0 < cf_poll_s cfg \<and> 0 < cf_session_grace_s cfg \<and> 0 < cf_hunt_max_wall_s cfg \<and>
    0 < cf_fix_max_wall_s cfg \<and> 0 \<le> cf_stale_after_s cfg \<and>
    1 \<le> trunc_i64 (cf_scan_interval_days cfg * of_int MS_PER_DAY) \<and>
    1 \<le> cf_modernization_interval_days cfg * MS_PER_DAY \<and>
    cf_modernization_interval_days cfg * MS_PER_DAY \<le> i64_max \<and>
    1 \<le> cf_standards_interval_days cfg * MS_PER_DAY \<and>
    cf_standards_interval_days cfg * MS_PER_DAY \<le> i64_max"

definition read_as :: "(string \<Rightarrow> raw_config option) \<Rightarrow> config_source \<Rightarrow> raw_config \<Rightarrow> bool" where
  "read_as json src raw \<longleftrightarrow>
     (case src of NotFound \<Rightarrow> raw = raw_default | Unreadable \<Rightarrow> False | Contents t \<Rightarrow> json t = Some raw)"

text \<open>C32. What loads has passed the checks of \<open>Config::load\<close>: the poll, the session grace and the wall limits are
positive, the staleness is not negative, the scan, modernization and standards cadences are at least a
millisecond and fit the clock, so none is due on every cycle; a credential is never blank; and the hosts
let in are the loopback names and exactly those the file lists, compared without case and with IPv6 in
canonical form, any host only if the one entry says so. The findings per hunt and the days between full
hunts are taken as the file has them: nothing is promised of those two.\<close>

theorem load_valid:
  assumes "load json ip ip6 dir src = Inr cfg"
  shows "\<exists>raw. read_as json src raw \<and> limits_hold cfg \<and>
    cf_renovate_github_token cfg = rc_github_token raw \<and> (\<forall>t. rc_github_token raw = Some t \<longrightarrow> trim t \<noteq> []) \<and>
    (\<forall>h. allows (cf_allowed_hosts cfg) h = lets_in ip6 (unwrap_or (rc_allowed_hosts raw) []) h) \<and>
    cf_hunt_max_findings cfg = unwrap_or (rc_hunt_max_findings raw) 8 \<and>
    cf_hunt_rehunt_days cfg = unwrap_or (rc_hunt_rehunt_days raw) 90"
proof -
  from assms obtain raw where raw: "build_config ip ip6 dir raw = Inr cfg" "read_as json src raw"
    by (auto simp: load_def read_as_def bind_error_Inr split: config_source.splits option.splits)
  note f = build_config_fields [OF raw(1)]
  have days: "d * MS_PER_DAY \<le> i64_max" if "of_int d \<le> max_days" for d
    using that by (simp add: max_days_def MS_PER_DAY_def i64_max_def)
  have "1 \<le> trunc_i64 (cf_scan_interval_days cfg * of_int MS_PER_DAY)"
    using f(6) by (intro trunc_i64_ge_int) (simp_all add: i64_max_def)
  moreover have "1 \<le> cf_modernization_interval_days cfg * MS_PER_DAY"
    "1 \<le> cf_standards_interval_days cfg * MS_PER_DAY"
    using f(8,10) by (simp_all add: MS_PER_DAY_def)
  ultimately have "limits_hold cfg"
    using f(1-5) days [OF f(9)] days [OF f(11)] by (simp add: limits_hold_def)
  then show ?thesis
    using raw(2) f(12) build_config_taken [OF raw(1)] parsed_hosts_let_in [OF f(13)] by auto
qed

text \<open>A file that lists one host, in another case than the one asked for.\<close>

definition listing_config :: raw_config where
  "listing_config = raw_default\<lparr>rc_allowed_hosts := Some [''Hunter.example''], rc_hunt_rehunt_days := Some (-5)\<rparr>"

theorem load_valid_witness:
  "\<exists>cfg. load (\<lambda>_. Some listing_config) Some (\<lambda>_. None) ''/srv'' (Contents ''{}'') = Inr cfg \<and> limits_hold cfg \<and>
     allows (cf_allowed_hosts cfg) ''hunter.Example'' \<and> \<not> allows (cf_allowed_hosts cfg) ''evil.example'' \<and>
     cf_hunt_rehunt_days cfg = -5"
proof -
  have host: "to_ascii_lowercase (trim ''Hunter.example'') = ''hunter.example''" by code_simp
  have "\<exists>cfg. load (\<lambda>_. Some listing_config) Some (\<lambda>_. None) ''/srv'' (Contents ''{}'') = Inr cfg"
    by (simp add: load_def listing_config_def raw_default_def build_config_def Let_def check_def limit_def
        whole_days_def max_days_def i64_max_def MS_PER_DAY_def parse_allowed_hosts_def host_name_like_def host)
  then obtain cfg where cfg: "load (\<lambda>_. Some listing_config) Some (\<lambda>_. None) ''/srv'' (Contents ''{}'') = Inr cfg" by blast
  have "lets_in (\<lambda>_. None) [''Hunter.example''] ''hunter.Example''" "\<not> lets_in (\<lambda>_. None) [''Hunter.example''] ''evil.example''"
    by code_simp+
  with load_valid [OF cfg] cfg show ?thesis by (auto simp: read_as_def listing_config_def)
qed

text \<open>The configuration of a missing file.\<close>

definition sample_config :: config where
  "sample_config = projr (load (\<lambda>_. None) Some (\<lambda>_. None) ''/srv'' NotFound)"

end
