(* ===== verification/Attempts.thy ===== *)
theory Attempts
  imports World StoreLedger StorePrs
begin

text \<open>
The end of an attempt, from scheduler.rs: how a worker's result becomes a job state
(\<open>job_state\<close>, \<open>record_job\<close>), and how a failed attempt counts in its finding's streak and
what a stuck finding becomes (\<open>record_fix_failure\<close>, \<open>handle_recheck_failure\<close>,
\<open>record_harvest_failure\<close>). A resumed attempt's plan and the cycle summary stand here because
every executor passes them on. Also \<open>tail\<close> of util.rs, which bounds what is quoted.

Texts are the code's own; the HTML and tracing output is not modelled. Prices and usage deltas are
exact rationals.
\<close>

section \<open>Data\<close>

record workspace =
  ws_origin_id :: int
  ws_root :: string
  ws_tree :: string
  ws_session :: string
  ws_clone :: string

record resume_plan =
  rp_kind :: job_kind
  rp_repo_id :: int
  rp_repo :: string
  rp_finding_id :: "int option"
  rp_predecessor_id :: int
  rp_origin_job_id :: int
  rp_session_file :: string
  rp_workspace :: workspace
  rp_pinned_sha :: string
  rp_anticipated :: int
  rp_ctx :: int
  rp_typical :: int
  rp_chain_spent :: int
  rp_handoff :: bool

record sync_result =
  sr_synced :: int
  sr_merged :: int
  sr_closed :: int
  sr_attention :: int
  sr_errors :: int

record ingest_result =
  ir_inserted :: int
  ir_duplicates :: int
  ir_refreshed :: int
  ir_reopened :: int
  ir_invalid :: int

record cycle_summary =
  cs_kind :: "job_kind option"
  cs_repo :: "string option"
  cs_finding_id :: "int option"
  cs_job_id :: "int option"
  cs_state :: "job_state option"
  cs_tokens_new :: "int option"
  cs_error :: "string option"
  cs_skipped :: "string option"
  cs_denied :: "string option"
  cs_retry_at :: "int option"
  cs_outcome :: "string option"
  cs_diff_range :: "string option"
  cs_head :: "string option"
  cs_full_rehunt :: "bool option"
  cs_ingest :: "ingest_result option"
  cs_branch :: "string option"
  cs_pr_url :: "string option"
  cs_failure :: "string option"
  cs_attempts :: "int option"
  cs_worktree :: "string option"
  cs_pr_number :: "int option"
  cs_verdict :: "string option"
  cs_reason :: "string option"
  cs_sync :: "sync_result option"
  cs_idle :: "string option"

definition no_summary :: cycle_summary where
  "no_summary = \<lparr>cs_kind = None, cs_repo = None, cs_finding_id = None, cs_job_id = None,
     cs_state = None, cs_tokens_new = None, cs_error = None, cs_skipped = None, cs_denied = None,
     cs_retry_at = None, cs_outcome = None, cs_diff_range = None, cs_head = None,
     cs_full_rehunt = None, cs_ingest = None, cs_branch = None, cs_pr_url = None,
     cs_failure = None, cs_attempts = None, cs_worktree = None, cs_pr_number = None,
     cs_verdict = None, cs_reason = None, cs_sync = None, cs_idle = None\<rparr>"

record run_result =
  rr_exit_code :: "int option"
  rr_killed_reason :: "string option"
  rr_tokens_new :: int
  rr_calls :: int
  rr_session_file :: "string option"
  rr_duration_s :: rat
  rr_stdout_tail :: string
  rr_usage_delta :: "rat option"

definition MAX_CONSECUTIVE_SAME_FAILURE :: int where
  "MAX_CONSECUTIVE_SAME_FAILURE = 3"

text \<open>The last \<open>max_bytes\<close> of a text, from the next character on.\<close>

definition tail :: "string \<Rightarrow> nat \<Rightarrow> string" where
  "tail s max_bytes =
     (let start = length s - max_bytes
      in if start = 0 then s else dropWhile is_cont_byte (drop start s))"

section \<open>Recording a job\<close>

definition job_state :: "run_result \<Rightarrow> job_state" where
  "job_state rr =
     (case rr_killed_reason rr of
        Some reason \<Rightarrow>
          if reason = ''cap'' \<and> rr_session_file rr \<noteq> None then JSuspended
          else if reason = ''wallclock'' \<and> rr_session_file rr \<noteq> None \<and> 0 < rr_tokens_new rr then JSuspended
          else if reason = ''resume-unavailable'' then JFailed
          else JKilled
      | None \<Rightarrow>
          if rr_exit_code rr = Some 0 then JDone
          else if rr_session_file rr \<noteq> None \<and> 0 < rr_tokens_new rr then JSuspended
          else JFailed)"

text \<open>A refused job is a skipped cycle; any other write error is an error.\<close>

definition job_refused ::
  "job_kind \<Rightarrow> string option \<Rightarrow> int option \<Rightarrow> write_error \<Rightarrow> string + cycle_summary" where
  "job_refused kind repo fid e =
     (case e of
        Refused msg \<Rightarrow> Inr (no_summary\<lparr>cs_kind := Some kind, cs_repo := repo, cs_finding_id := fid,
                                 cs_skipped := Some msg\<rparr>)
      | _ \<Rightarrow> Inl (write_error_text e))"

definition outcome_of :: "run_result \<Rightarrow> string option \<Rightarrow> millis \<Rightarrow> job_outcome" where
  "outcome_of rr model now =
     \<lparr>jo_state = job_state rr, jo_tokens_new = rr_tokens_new rr, jo_calls = rr_calls rr,
      jo_exit_code = rr_exit_code rr, jo_killed_reason = rr_killed_reason rr,
      jo_session_file = rr_session_file rr,
      jo_notes = (if job_state rr \<noteq> JDone \<and> rr_stdout_tail rr \<noteq> []
                  then Some (tail (rr_stdout_tail rr) 500) else None),
      jo_model = model, jo_usage_delta = rr_usage_delta rr, jo_finished_at = now\<rparr>"

definition record_job ::
  "int \<Rightarrow> run_result \<Rightarrow> string option \<Rightarrow> resume_plan option \<Rightarrow> job_state io" where
  "record_job jid rr model resume =
     and_then (exec (\<lambda>now. complete_job jid (outcome_of rr model now))) (\<lambda>_.
       case resume of
         Some plan \<Rightarrow>
           if \<not> rp_handoff plan \<and> rr_killed_reason rr = Some ''resume-unavailable'' then
             (let msg = ''resume '' @ job_kind_str (rp_kind plan) @ '' '' @ rp_repo plan @
                        '': session gone, predecessor job '' @ show_int (rp_predecessor_id plan) @
                        '' marked killed''
              in and_then (exec (\<lambda>_. retire_suspended_job (rp_predecessor_id plan) JKilled None msg)) (\<lambda>_. do {
                   _ \<leftarrow> event ''error'' msg (Some jid) (rp_finding_id plan);
                   ok (job_state rr)
                 }))
           else ok (job_state rr)
       | None \<Rightarrow> ok (job_state rr))"

definition retire_concluded :: "int \<Rightarrow> string \<Rightarrow> unit option act" where
  "retire_concluded jid outcome =
     log_write_failure (exec (\<lambda>_. retire_suspended_job jid JKilled None
       (''job '' @ show_int jid @ '' suspended after its work concluded ('' @ outcome @
        ''); nothing to resume'')))
       (''job '' @ show_int jid @ '': retiring concluded suspended attempt'')"

section \<open>A failed recheck\<close>

definition handle_recheck_failure ::
  "cycle_summary \<Rightarrow> int \<Rightarrow> int \<Rightarrow> string \<Rightarrow> string \<Rightarrow> budget_override option \<Rightarrow> cycle_summary act" where
  "handle_recheck_failure summary fid jid failure detail override_mode =
     (let log = (\<lambda>message. ignore (event ''recheck'' message (Some jid) (Some fid)));
          requeued = summary\<lparr>cs_outcome := Some ''requeued''\<rparr>;
          this = ''#'' @ show_int fid @ '': job '' @ show_int jid @ '' '' @ detail
      in do {
        counted \<leftarrow> call (\<lambda>now. record_recheck_attempt now fid failure);
        result \<leftarrow> (case counted of
          Inl e \<Rightarrow> do {
            _ \<leftarrow> log (this @ '' -- will retry (not counted: '' @ e @ '')'');
            State_Monad.return requeued }
        | Inr n \<Rightarrow>
            if n < MAX_CONSECUTIVE_SAME_FAILURE then do {
              _ \<leftarrow> log (this @ '' -- will retry'');
              State_Monad.return requeued }
            else do {
              sent \<leftarrow> exec (\<lambda>now. set_finding_status now fid New);
              case sent of
                Inl e \<Rightarrow> do {
                  _ \<leftarrow> log (''#'' @ show_int fid @ '' '' @ show_int n @ '' identical failures ('' @ detail @
                     ''), but sending it back to the inbox failed: '' @ e @ ''; will retry'');
                  State_Monad.return requeued }
              | Inr _ \<Rightarrow> do {
                  _ \<leftarrow> log_write_failure (exec (\<lambda>now. clear_recheck_attempts now fid))
                         (''#'' @ show_int fid @ '': clearing recheck attempts'');
                  _ \<leftarrow> log (''#'' @ show_int fid @ '' gave up after '' @ show_int n @
                     '' identical failures ('' @ detail @ ''); back to inbox for human triage'');
                  State_Monad.return (requeued\<lparr>cs_outcome := Some ''stuck''\<rparr>) }
            });
        _ \<leftarrow> (if override_mode = Some Once
              then log_write_failure (exec (\<lambda>now. set_budget_override now fid None))
                     (''#'' @ show_int fid @ '': clearing one-shot budget override'')
              else State_Monad.return None);
        State_Monad.return result
      })"

section \<open>A failed fix\<close>

definition fix_event :: "string \<Rightarrow> int \<Rightarrow> int \<Rightarrow> string \<Rightarrow> unit io" where
  "fix_event kind fid jid message = event kind message (Some jid) (Some fid)"

definition release_claim_failed :: "int \<Rightarrow> string" where
  "release_claim_failed fid = ''#'' @ show_int fid @ '': finalizing fixing -> queued''"

definition release_claim :: "int \<Rightarrow> unit option act" where
  "release_claim fid =
     log_write_failure (exec (\<lambda>now. finalize_in_progress now fid Fixing Queued)) (release_claim_failed fid)"

definition hold_blocked :: "int \<Rightarrow> int \<Rightarrow> string \<Rightarrow> unit io" where
  "hold_blocked fid jid report = do {
     held \<leftarrow> call_r (\<lambda>now. block_fix_job now fid jid report);
     case held of
       Inl e \<Rightarrow> do { _ \<leftarrow> release_claim fid; err e }
     | Inr _ \<Rightarrow> ok ()
   }"

definition STREAK_HOLD_FAILURE :: string where
  "STREAK_HOLD_FAILURE = '' consecutive fix attempts hit the same failure: ''"

definition streak_hold_report :: "int \<Rightarrow> string \<Rightarrow> string \<Rightarrow> string" where
  "streak_hold_report n failure detail =
     ''stuck: '' @ show_int n @ STREAK_HOLD_FAILURE @ failure @ [CHR 0x0A, CHR 0x0A] @ detail"

definition is_streak_hold :: "string \<Rightarrow> bool" where
  "is_streak_hold report =
     (case strip_prefix ''stuck: '' report of
        None \<Rightarrow> False
      | Some [] \<Rightarrow> False
      | Some (c # rest) \<Rightarrow>
          is_ascii_digit c \<and> starts_with STREAK_HOLD_FAILURE (dropWhile is_ascii_digit rest))"

text \<open>The summary is passed in and out: the code fills it in place, also where it then fails.\<close>

definition record_fix_failure ::
  "int \<Rightarrow> int \<Rightarrow> string \<Rightarrow> string \<Rightarrow> cycle_summary \<Rightarrow> ((string + unit) \<times> cycle_summary) act" where
  "record_fix_failure fid jid failure detail summary =
     (let s1 = summary\<lparr>cs_failure := Some failure, cs_outcome := Some ''requeued''\<rparr>;
          this = ''#'' @ show_int fid
      in do {
        counted \<leftarrow> call (\<lambda>now. record_fix_attempt now fid failure);
        case counted of
          Inl e \<Rightarrow> do {
            _ \<leftarrow> fix_event ''fix'' fid jid
                  (this @ '' incomplete ('' @ failure @ ''), not counted: '' @ e @ ''. tail: '' @ detail);
            State_Monad.return (Inr (), s1) }
        | Inr n \<Rightarrow>
            if n < MAX_CONSECUTIVE_SAME_FAILURE then do {
              _ \<leftarrow> fix_event ''fix'' fid jid (this @ '' incomplete ('' @ failure @ ''). tail: '' @ detail);
              State_Monad.return (Inr (), s1) }
            else do {
              held \<leftarrow> hold_blocked fid jid (streak_hold_report n failure detail);
              case held of
                Inl e \<Rightarrow> State_Monad.return (Inl e, s1)
              | Inr _ \<Rightarrow> do {
                  _ \<leftarrow> fix_event ''fix'' fid jid
                        (this @ '' gave up after '' @ show_int n @ '' identical failures ('' @ failure @
                         ''). tail: '' @ detail);
                  State_Monad.return (Inr (), s1\<lparr>cs_state := Some JSuspended,
                    cs_outcome := Some ''blocked'', cs_attempts := Some n\<rparr>) }
            }
      })"

definition TREE_NOT_MADE :: string where
  "TREE_NOT_MADE = ''workspace not created''"

definition count_unmade_tree :: "int \<Rightarrow> int \<Rightarrow> cycle_summary \<Rightarrow> cycle_summary io" where
  "count_unmade_tree fid jid summary =
     (let note = unwrap_or (cs_failure summary) [];
          why = unwrap_or (Option.bind (strip_prefix TREE_NOT_MADE note) (strip_prefix '': '')) note
      in do {
        (counted, s1) \<leftarrow> record_fix_failure fid jid TREE_NOT_MADE why (summary\<lparr>cs_failure := None\<rparr>);
        _ \<leftarrow> release_claim fid;
        case counted of
          Inl e \<Rightarrow> err e
        | Inr _ \<Rightarrow> ok (s1\<lparr>cs_failure := Some note\<rparr>)
      })"

section \<open>A failed harvest\<close>

definition record_harvest_failure :: "int \<Rightarrow> int option \<Rightarrow> string \<Rightarrow> string \<Rightarrow> bool act" where
  "record_harvest_failure fid jid key detail =
     (let log = (\<lambda>message. ignore (event ''error'' message jid (Some fid)));
          this = ''harvest #'' @ show_int fid
      in do {
        counted \<leftarrow> call (\<lambda>_. record_harvest_attempt fid key);
        case counted of
          Inl e \<Rightarrow> do {
            _ \<leftarrow> log (this @ '': '' @ detail @ '', will retry (not counted: '' @ e @ '')'');
            State_Monad.return False }
        | Inr n \<Rightarrow>
            if n < MAX_CONSECUTIVE_SAME_FAILURE then do {
              _ \<leftarrow> log (this @ '': '' @ detail @ '', will retry'');
              State_Monad.return False }
            else do {
              marked \<leftarrow> exec (\<lambda>now. mark_pr_harvested fid now);
              case marked of
                Inl e \<Rightarrow> do {
                  _ \<leftarrow> log (this @ '': '' @ show_int n @ '' identical failures ('' @ detail @
                        ''), but giving it up failed: '' @ e @ ''; will retry'');
                  State_Monad.return False }
              | Inr _ \<Rightarrow> do {
                  _ \<leftarrow> log_write_failure (exec (\<lambda>_. clear_harvest_attempts fid))
                         (''#'' @ show_int fid @ '': clearing harvest attempts'');
                  _ \<leftarrow> log (this @ '': gave up after '' @ show_int n @ '' identical failures ('' @ detail @
                        '') -- not reviewed, will not retry'');
                  State_Monad.return True }
            }
      })"

definition harvest_prefetch_failed :: "int \<Rightarrow> bool \<Rightarrow> string \<Rightarrow> string \<Rightarrow> string \<Rightarrow> unit act" where
  "harvest_prefetch_failed fid handoff key what e =
     (if handoff
      then ignore (event ''error'' (''harvest #'' @ show_int fid @ '': PR/MR '' @ what @ '' failed: '' @ e @
             ''; counted no attempt, it will be harvested cold'') None (Some fid))
      else do {
        _ \<leftarrow> record_harvest_failure fid None key (''PR/MR '' @ what @ '' failed: '' @ e);
        State_Monad.return () })"

end
