(* ===== verification/Select.thy ===== *)
theory Select
  imports Attempts Config "HOL-Library.Product_Lexorder"
begin

text \<open>
What the scheduler runs next (\<open>scheduler.rs\<close>): the tiers of \<open>pick_next\<close>, the repository
rotation, when a suspended attempt is continued and when its chain is given up, and what is
reserved for an attempt at the budget gate.

The transcript's context cost, \<open>ctx_at_suspension\<close> of the harness, is an argument \<open>ctx\<close>
(path to tokens, none if unreadable). \<open>select\<close> selects again whenever a given-up chain ends a
finding's work; \<open>select_upto\<close> counts those rounds as fuel and \<open>select_terminates\<close> shows
that one round per waiting finding, and one more, is enough.
\<close>

section \<open>Candidates\<close>

datatype candidate =
  Repo_work repo_job_kind int "string option"
| Finding_work finding_job_kind int int "string option" "budget_override option"
| Resume_work "string option" "budget_override option" resume_plan

fun cand_job_kind :: "candidate \<Rightarrow> job_kind" where
  "cand_job_kind (Repo_work kind _ _) = Repo_kind kind"
| "cand_job_kind (Finding_work kind _ _ _ _) = Finding_kind kind"
| "cand_job_kind (Resume_work _ _ plan) = rp_kind plan"

fun cand_repo_id :: "candidate \<Rightarrow> int" where
  "cand_repo_id (Repo_work _ rid _) = rid"
| "cand_repo_id (Finding_work _ _ rid _ _) = rid"
| "cand_repo_id (Resume_work _ _ plan) = rp_repo_id plan"

fun cand_label :: "candidate \<Rightarrow> string option" where
  "cand_label (Repo_work _ _ label) = label"
| "cand_label (Finding_work _ _ _ label _) = label"
| "cand_label (Resume_work label _ _) = label"

fun cand_target_id :: "candidate \<Rightarrow> int" where
  "cand_target_id (Repo_work _ rid _) = rid"
| "cand_target_id (Finding_work _ fid _ _ _) = fid"
| "cand_target_id (Resume_work _ _ plan) = unwrap_or (rp_finding_id plan) (rp_repo_id plan)"

fun cand_override :: "candidate \<Rightarrow> budget_override option" where
  "cand_override (Repo_work _ _ _) = None"
| "cand_override (Finding_work _ _ _ _ bo) = bo"
| "cand_override (Resume_work _ bo _) = bo"

definition finding_candidate :: "finding_job_kind \<Rightarrow> finding \<Rightarrow> candidate" where
  "finding_candidate kind f =
     Finding_work kind (f_id f) (f_repo_id f)
       (Some (if f_summary f = [] then f_fingerprint f else f_summary f)) (f_budget_override f)"

definition repo_candidate :: "repo_job_kind \<Rightarrow> repo \<Rightarrow> candidate" where
  "repo_candidate kind r =
     Repo_work kind (r_id r) (if r_name r = [] then None else Some (r_name r))"

section \<open>Reservations\<close>

definition MIN_PROGRESS_TOKENS :: int where "MIN_PROGRESS_TOKENS = 25000"
definition START_CONTEXT_FLOOR_TOKENS :: int where "START_CONTEXT_FLOOR_TOKENS = 15000"
definition MIN_START_EFFICIENCY :: rat where "MIN_START_EFFICIENCY = 1 / 2"
definition GIVE_UP_MULTIPLE :: int where "GIVE_UP_MULTIPLE = 3"
definition MAX_RESUME_ATTEMPTS :: int where "MAX_RESUME_ATTEMPTS = 4"

definition min_useful :: "int \<Rightarrow> int" where
  "min_useful ctx =
     max MIN_PROGRESS_TOKENS
       (trunc_i64 (of_int \<lceil>of_int ctx * MIN_START_EFFICIENCY / (1 - MIN_START_EFFICIENCY)\<rceil>))"

definition resume_reservation :: "int \<Rightarrow> int \<Rightarrow> int \<Rightarrow> int" where
  "resume_reservation ctx z chain_spent = ctx + max (z - chain_spent) (min_useful ctx)"

definition cold_reservation :: "int \<Rightarrow> int" where
  "cold_reservation history =
     max history (START_CONTEXT_FLOOR_TOKENS + min_useful START_CONTEXT_FLOOR_TOKENS)"

definition anticipated_of :: "bool \<Rightarrow> int list \<Rightarrow> int" where
  "anticipated_of warm history =
     (if history = [] then 0
      else history ! min (nat (trunc_i64 (of_nat (length history) * (if warm then 1 / 2 else 9 / 10))))
                         (length history - 1))"

definition anticipated_tokens :: "config \<Rightarrow> int \<Rightarrow> job_kind \<Rightarrow> int io" where
  "anticipated_tokens cfg rid kind = do {
     now \<leftarrow> look (\<lambda>w. w_now w (w_calls w));
     let cutoff = now - trunc_i64 (cf_cache_ttl_s cfg * 1000);
     and_then (query (has_warm_job rid kind cutoff)) (\<lambda>warm.
     and_then (query (kind_token_history kind)) (\<lambda>history.
       ok (anticipated_of warm history)))
   }"

definition candidate_reservation :: "config \<Rightarrow> candidate \<Rightarrow> int io" where
  "candidate_reservation cfg c =
     (case c of
        Resume_work _ _ plan \<Rightarrow> ok (rp_anticipated plan)
      | _ \<Rightarrow> and_then (anticipated_tokens cfg (cand_repo_id c) (cand_job_kind c))
               (\<lambda>n. ok (cold_reservation n)))"

section \<open>Rotation\<close>

definition full_hunt_urgent :: "repo \<Rightarrow> bool" where
  "full_hunt_urgent r \<longleftrightarrow>
     r_full_hunt_requested_at r \<noteq> None \<and>
     r_full_hunt_requested_at r \<noteq> r_full_hunt_request_attempted r"

definition job_times :: "config \<Rightarrow> repo \<Rightarrow> millis \<Rightarrow> (repo_job_kind \<times> millis) list" where
  "job_times cfg target now =
     (let scan_ms = trunc_i64 (cf_scan_interval_days cfg * 86400000);
          mod_ms = cf_modernization_interval_days cfg * 86400000;
          std_ms = cf_standards_interval_days cfg * 86400000;
          due = (\<lambda>interval (kind, l). let last = unwrap_or l 0
                   in if last = 0 \<or> interval \<le> now - last then Some (kind, last) else None)
      in List.map_filter (due scan_ms)
           [(RHunt, r_last_hunt_at target), (RTestGap, r_last_test_gap_at target),
            (RDepUpdate, r_last_dep_update_at target), (RRefactor, r_last_refactor_at target)] @
         List.map_filter (due mod_ms) [(RModernization, r_last_modernization_at target)] @
         List.map_filter (due std_ms) [(RStandards, r_last_standards_at target)])"

definition rotation_kind :: "config \<Rightarrow> repo \<Rightarrow> millis \<Rightarrow> repo_job_kind option" where
  "rotation_kind cfg target now =
     (let times = job_times cfg target now
      in map_option fst
           (opt_or (find (\<lambda>(_, last). last = 0) times) (min_by_key snd times)))"

section \<open>Continuing a suspended attempt\<close>

datatype pick = Run | Preview

datatype resumability = Continue resume_plan | GaveUp string | NotResumable

definition jobs_root :: "string \<Rightarrow> string" where
  "jobs_root work_root = path_join work_root ''jobs''"

definition for_chain :: "string \<Rightarrow> string \<Rightarrow> int \<Rightarrow> workspace" where
  "for_chain work_root clone origin_id =
     (let r = path_join (jobs_root work_root) (show_int origin_id)
      in \<lparr>ws_origin_id = origin_id, ws_root = r, ws_tree = path_join r ''tree'',
          ws_session = path_join r ''session'', ws_clone = clone\<rparr>)"

definition too_many :: "chain_stats \<Rightarrow> bool" where
  "too_many c \<longleftrightarrow> MAX_RESUME_ATTEMPTS \<le> st_attempts c"

definition too_costly :: "int \<Rightarrow> chain_stats \<Rightarrow> bool" where
  "too_costly z c \<longleftrightarrow>
     0 < z \<and> 2 \<le> st_attempts c \<and> GIVE_UP_MULTIPLE * z < st_total c - st_max_single c"

definition give_up_reason :: "int \<Rightarrow> chain_stats \<Rightarrow> string" where
  "give_up_reason z c =
     (if too_many c then show_int (st_attempts c) @ '' attempts, the limit''
      else show_int (st_total c - st_max_single c) @ '' tok outside its largest attempt > '' @
           show_int GIVE_UP_MULTIPLE @ ''x '' @ show_int z @ '' typical'')"

definition retire_gone :: "pick \<Rightarrow> job \<Rightarrow> string \<Rightarrow> workspace \<Rightarrow> resumability io" where
  "retire_gone mode j name ws =
     (let msg = ''resume '' @ job_kind_str (j_kind j) @ '' '' @ name @ '': job '' @ show_int (j_id j) @
                '' retired, workspace '' @ ws_root ws @ '' is gone''
      in if mode = Run then do {
           _ \<leftarrow> exec (\<lambda>_. retire_suspended_job (j_id j) JKilled (Some ''workdir-gone'') msg);
           _ \<leftarrow> event ''resume'' msg (Some (j_id j)) (j_finding_id j);
           ok NotResumable }
         else ok NotResumable)"

definition give_up :: "pick \<Rightarrow> job \<Rightarrow> string \<Rightarrow> int \<Rightarrow> chain_stats \<Rightarrow> resumability io" where
  "give_up mode j name z chain =
     (let msg = ''resume '' @ job_kind_str (j_kind j) @ '' '' @ name @ '': giving up after '' @
                show_int (st_total chain) @ '' tok across the chain ('' @ give_up_reason z chain @ '')''
      in if mode = Preview then ok NotResumable
         else do {
           _ \<leftarrow> (case j_kind j of
                  Repo_kind k \<Rightarrow> ignore (exec (\<lambda>now. set_last_kind_at now (j_repo_id j) k))
                | Finding_kind _ \<Rightarrow> State_Monad.return ());
           retired \<leftarrow> exec (\<lambda>_. retire_suspended_job (j_id j) JFailed (Some ''give-up'') msg);
           _ \<leftarrow> event ''resume'' msg (Some (j_id j)) (j_finding_id j);
           ok (if is_ok retired then GaveUp msg else NotResumable)
         })"

definition plan_for ::
  "(string \<Rightarrow> int option) \<Rightarrow> job \<Rightarrow> repo \<Rightarrow> int \<Rightarrow> string \<Rightarrow> workspace \<Rightarrow> string \<Rightarrow> int \<Rightarrow> chain_stats \<Rightarrow> resume_plan" where
  "plan_for ctx_of j r origin session ws sha z chain =
     (let ctx = unwrap_or (ctx_of session) z
      in \<lparr>rp_kind = j_kind j, rp_repo_id = j_repo_id j, rp_repo = r_name r,
          rp_finding_id = j_finding_id j, rp_predecessor_id = j_id j, rp_origin_job_id = origin,
          rp_session_file = session, rp_workspace = ws, rp_pinned_sha = sha,
          rp_anticipated = resume_reservation ctx z (st_total chain), rp_ctx = ctx, rp_typical = z,
          rp_chain_spent = st_total chain, rp_handoff = False\<rparr>)"

text \<open>The two parts of \<open>resume_plan\<close>: is the chain's workspace there, then is the chain under
  the ceiling, unless an operator requeued a held fix.\<close>

definition within_ceiling ::
  "(string \<Rightarrow> int option) \<Rightarrow> config \<Rightarrow> pick \<Rightarrow> job \<Rightarrow> repo \<Rightarrow> int \<Rightarrow> string \<Rightarrow> workspace \<Rightarrow> string \<Rightarrow> resumability io" where
  "within_ceiling ctx_of cfg mode j r origin session ws sha = do {
     typical \<leftarrow> anticipated_tokens cfg (j_repo_id j) (j_kind j);
     let z = result_or typical 0;
     and_then (query (resume_chain_stats (j_id j))) (\<lambda>chain.
     (let over = too_many chain \<or> too_costly z chain
      in and_then (if over \<and> j_kind j = K_fix
                   then and_then (query (job_blocker (j_id j))) (\<lambda>b. ok (b \<noteq> None))
                   else ok False) (\<lambda>operator_requeued.
         if over \<and> \<not> operator_requeued then give_up mode j (r_name r) z chain
         else ok (Continue (plan_for ctx_of j r origin session ws sha z chain)))))
   }"

definition resume_plan_of :: "(string \<Rightarrow> int option) \<Rightarrow> config \<Rightarrow> job \<Rightarrow> pick \<Rightarrow> resumability io" where
  "resume_plan_of ctx_of cfg j mode =
     (case j_session_file j of
        None \<Rightarrow> ok NotResumable
      | Some session \<Rightarrow>
          and_then (query (get_repo_by_id (j_repo_id j))) (\<lambda>r. case r of
            None \<Rightarrow> ok NotResumable
          | Some r \<Rightarrow>
              and_then (query (resume_origin_job (j_id j))) (\<lambda>origin.
              (let ws = for_chain (cf_work_root cfg) (r_path r) origin
               in and_then (query (pinned_sha (j_id j))) (\<lambda>pinned. do {
                    tree \<leftarrow> look (\<lambda>w. is_dir w (ws_tree ws));
                    case pinned of
                      Some sha \<Rightarrow>
                        if tree \<and> path_starts_with session (ws_session ws)
                        then within_ceiling ctx_of cfg mode j r origin session ws sha
                        else retire_gone mode j (r_name r) ws
                    | None \<Rightarrow> retire_gone mode j (r_name r) ws
                  })))))"

text \<open>The resume tier: the newest suspension worth continuing.\<close>

definition pick_resume ::
  "(string \<Rightarrow> int option) \<Rightarrow> config \<Rightarrow> int option \<Rightarrow> pick \<Rightarrow> candidate option io" where
  "pick_resume ctx_of cfg force_id mode =
     and_then (query list_resumable_jobs)
       (first_of (\<lambda>j.
          if (case force_id of Some rid \<Rightarrow> j_repo_id j \<noteq> rid | None \<Rightarrow> False) then ok None
          else and_then (resume_plan_of ctx_of cfg j mode) (\<lambda>v. ok (case v of
                 Continue plan \<Rightarrow>
                   Some (Resume_work (if rp_repo plan = [] then None else Some (rp_repo plan)) None plan)
               | _ \<Rightarrow> None))))"

text \<open>A given-up chain of a finding tier is one failed attempt at the finding's work.\<close>

definition CHAIN_GAVE_UP :: string where "CHAIN_GAVE_UP = ''resume chain gave up''"

definition count_given_up_chain :: "finding_job_kind \<Rightarrow> int \<Rightarrow> int \<Rightarrow> string \<Rightarrow> bool act" where
  "count_given_up_chain kind fid jid why =
     (let failure = CHAIN_GAVE_UP; this = ''#'' @ show_int fid @ '' '' @ failure in
      case kind of
        FRecheck \<Rightarrow> do {
          s \<leftarrow> handle_recheck_failure no_summary fid jid failure (failure @ '': '' @ why) None;
          State_Monad.return (cs_outcome s = Some ''stuck'') }
      | FFix \<Rightarrow> do {
          (counted, s) \<leftarrow> record_fix_failure fid jid failure why no_summary;
          _ \<leftarrow> (case counted of
                 Inl e \<Rightarrow> ignore (fix_event ''fix'' fid jid (this @ ''; holding it blocked failed: '' @ e))
               | Inr _ \<Rightarrow> State_Monad.return ());
          State_Monad.return (cs_outcome s = Some ''blocked'') }
      | FHarvest \<Rightarrow> record_harvest_failure fid (Some jid) failure (failure @ '': '' @ why)
      | FEngage \<Rightarrow> do {
          set_aside \<leftarrow> exec (\<lambda>now. set_attention_aside now fid);
          _ \<leftarrow> ignore (event ''error''
                 (case set_aside of
                    Inr _ \<Rightarrow> this @ '': '' @ why @ ''; attention set aside until the PR changes''
                  | Inl e \<Rightarrow> this @ '': '' @ why @ ''; setting its attention aside failed: '' @ e)
                 (Some jid) (Some fid));
          State_Monad.return (is_ok set_aside) })"

text \<open>A finding tier's pick; \<open>None\<close> when a given-up chain ended the finding's work.\<close>

definition finding_pick_one ::
  "(string \<Rightarrow> int option) \<Rightarrow> config \<Rightarrow> finding_job_kind \<Rightarrow> finding \<Rightarrow> pick \<Rightarrow> job \<Rightarrow> candidate option option io" where
  "finding_pick_one ctx_of cfg kind f mode j =
     (if j_finding_id j \<noteq> Some (f_id f) \<or> j_kind j \<noteq> Finding_kind kind then ok None
      else and_then (resume_plan_of ctx_of cfg j mode) (\<lambda>v. case v of
             Continue plan \<Rightarrow>
               ok (Some (Some (Resume_work (cand_label (finding_candidate kind f))
                                 (cand_override (finding_candidate kind f)) plan)))
           | GaveUp why \<Rightarrow> do {
               ended \<leftarrow> count_given_up_chain kind (f_id f) (j_id j) why;
               ok (if ended then Some None else None) }
           | NotResumable \<Rightarrow> ok None))"

definition finding_pick ::
  "(string \<Rightarrow> int option) \<Rightarrow> config \<Rightarrow> finding_job_kind \<Rightarrow> finding \<Rightarrow> pick \<Rightarrow> candidate option io" where
  "finding_pick ctx_of cfg kind f mode =
     and_then (query list_resumable_jobs) (\<lambda>jobs.
     and_then (first_of (finding_pick_one ctx_of cfg kind f mode) jobs) (\<lambda>found.
       ok (case found of Some settled \<Rightarrow> settled | None \<Rightarrow> Some (finding_candidate kind f))))"

section \<open>Selection\<close>

fun attention_rows :: "finding list \<Rightarrow> (millis option \<times> finding) list io" where
  "attention_rows [] = ok []"
| "attention_rows (f # fs) =
     and_then (query (\<lambda>d. get_pr_state d (f_id f))) (\<lambda>ps.
     and_then (attention_rows fs) (\<lambda>rows. ok (case ps of
         Some p \<Rightarrow> if p_needs_attention p \<noteq> None
                   then (opt_or (p_attention_since p) (p_synced_at p), f) # rows else rows
       | None \<Rightarrow> rows)))"

definition list_attention :: "finding list io" where
  "list_attention =
     and_then (query (findings_with PrOpen)) (\<lambda>fs.
     and_then (attention_rows fs) (\<lambda>rows. ok (map snd (sort_key fst rows))))"

definition get_repo_by_name :: "string \<Rightarrow> db \<Rightarrow> repo option" where
  "get_repo_by_name name d = find (\<lambda>r. r_name r = name \<and> r_deleted_at r = None) (db_repos d)"

text \<open>The four finding tiers, in priority order.\<close>

record tiers =
  t_attention :: "finding list"
  t_pending_harvest :: "finding list"
  t_rechecking :: "finding list"
  t_queued :: "finding list"

definition read_tiers :: "tiers io" where
  "read_tiers =
     and_then (query (findings_with Rechecking)) (\<lambda>rechecking.
     and_then list_attention (\<lambda>attention.
     and_then (query list_pending_harvest) (\<lambda>pending.
     and_then (query (findings_with Queued)) (\<lambda>queued.
       ok \<lparr>t_attention = attention, t_pending_harvest = pending, t_rechecking = rechecking,
           t_queued = queued\<rparr>))))"

definition retain_repo :: "int option \<Rightarrow> tiers \<Rightarrow> tiers" where
  "retain_repo force_id t =
     (case force_id of
        None \<Rightarrow> t
      | Some rid \<Rightarrow>
          (let keep = filter (\<lambda>f. f_repo_id f = rid)
           in \<lparr>t_attention = keep (t_attention t), t_pending_harvest = keep (t_pending_harvest t),
               t_rechecking = keep (t_rechecking t), t_queued = keep (t_queued t)\<rparr>))"

text \<open>What jumps the queue: the first overridden finding, else the oldest of the first non-empty
  tier. The lists by status are newest first.\<close>

definition first_el :: "'a list \<Rightarrow> 'a option" where
  "first_el xs = (case xs of [] \<Rightarrow> None | x # _ \<Rightarrow> Some x)"

definition tier_lists :: "tiers \<Rightarrow> (finding_job_kind \<times> finding list) list" where
  "tier_lists t = [(FEngage, t_attention t), (FHarvest, t_pending_harvest t),
                   (FRecheck, t_rechecking t), (FFix, t_queued t)]"

definition tier_oldest :: "tiers \<Rightarrow> (finding_job_kind \<times> finding option) list" where
  "tier_oldest t = [(FEngage, first_el (t_attention t)), (FHarvest, first_el (t_pending_harvest t)),
                    (FRecheck, first_el (rev (t_rechecking t))), (FFix, first_el (rev (t_queued t)))]"

definition tier_pick :: "tiers \<Rightarrow> (finding_job_kind \<times> finding) option" where
  "tier_pick t =
     opt_or
       (find_map (\<lambda>(kind, items). map_option (Pair kind) (find (\<lambda>f. f_budget_override f \<noteq> None) items))
          (tier_lists t))
       (find_map (\<lambda>(kind, oldest). map_option (Pair kind) oldest) (tier_oldest t))"

definition rotation_order :: "repo \<Rightarrow> bool \<times> bool \<times> millis" where
  "rotation_order r = (\<not> full_hunt_urgent r, r_last_hunt_at r \<noteq> None, unwrap_or (r_last_hunt_at r) 0)"

definition rotation_one :: "config \<Rightarrow> millis \<Rightarrow> (string \<Rightarrow> bool) \<Rightarrow> repo \<Rightarrow> candidate option" where
  "rotation_one cfg now cloned target =
     (if \<not> cloned (r_path target) then Some (repo_candidate RHunt target)
      else if full_hunt_urgent target then Some (repo_candidate RHunt target)
      else map_option (\<lambda>k. repo_candidate k target) (rotation_kind cfg target now))"

definition pick_rotation :: "config \<Rightarrow> int option \<Rightarrow> candidate option io" where
  "pick_rotation cfg force_id =
     and_then (query list_repos) (\<lambda>all. do {
       let repos = sort_key rotation_order
             (filter (\<lambda>r. case force_id of Some rid \<Rightarrow> r_id r = rid | None \<Rightarrow> r_enabled r \<noteq> 0) all);
       now \<leftarrow> look (\<lambda>w. w_now w (w_calls w));
       cloned \<leftarrow> look path_exists;
       ok (find_map (rotation_one cfg now cloned) repos)
     })"

definition resolve_force :: "string option \<Rightarrow> int option io" where
  "resolve_force force_repo =
     (case force_repo of
        None \<Rightarrow> ok None
      | Some name \<Rightarrow> and_then (query (get_repo_by_name name)) (\<lambda>r. case r of
            Some r \<Rightarrow> ok (Some (r_id r))
          | None \<Rightarrow> err (''unknown repo '' @ [CHR 0x22] @ name @ [CHR 0x22])))"

text \<open>One round of the selection: \<open>None\<close> when it has to select again.\<close>

definition serve ::
  "(string \<Rightarrow> int option) \<Rightarrow> config \<Rightarrow> pick \<Rightarrow> int option \<Rightarrow> tiers \<Rightarrow> candidate option option io" where
  "serve ctx_of cfg mode force_id t =
     (case tier_pick t of
        Some (kind, f) \<Rightarrow> and_then (finding_pick ctx_of cfg kind f mode) (\<lambda>c. ok (map_option Some c))
      | None \<Rightarrow>
          and_then (pick_resume ctx_of cfg force_id mode) (\<lambda>c. case c of
            Some c \<Rightarrow> ok (Some (Some c))
          | None \<Rightarrow> and_then (pick_rotation cfg force_id) (\<lambda>c. ok (Some c))))"

definition select_round ::
  "(string \<Rightarrow> int option) \<Rightarrow> config \<Rightarrow> string option \<Rightarrow> pick \<Rightarrow> candidate option option io" where
  "select_round ctx_of cfg force_repo mode =
     and_then read_tiers (\<lambda>t.
     and_then (resolve_force force_repo) (\<lambda>force_id.
       serve ctx_of cfg mode force_id (retain_repo force_id t)))"

text \<open>\<open>select\<close> with its rounds counted; the inner \<open>None\<close> is \<open>nothing to do\<close>, the outer one
  means the rounds ran out.\<close>

fun select_upto ::
  "nat \<Rightarrow> (string \<Rightarrow> int option) \<Rightarrow> config \<Rightarrow> string option \<Rightarrow> pick \<Rightarrow> candidate option option io" where
  "select_upto 0 ctx_of cfg force_repo mode = ok None"
| "select_upto (Suc n) ctx_of cfg force_repo mode =
     and_then (select_round ctx_of cfg force_repo mode) (\<lambda>r. case r of
       Some c \<Rightarrow> ok (Some c)
     | None \<Rightarrow> select_upto n ctx_of cfg force_repo mode)"

text \<open>How many findings wait in a tier, or could be put back into one by a released claim: one
  round of fuel for each.\<close>

definition waits :: "db \<Rightarrow> finding \<Rightarrow> bool" where
  "waits d f \<longleftrightarrow>
     f_status f = Rechecking \<or> f_status f = Queued \<or> f_status f = Fixing \<or>
     (case get_pr_state d (f_id f) of
        Some p \<Rightarrow> (f_status f = PrOpen \<and> p_needs_attention p \<noteq> None) \<or> pending_harvest f p
      | None \<Rightarrow> False)"

definition waiting :: "db \<Rightarrow> nat" where
  "waiting d = length (filter (waits d) (db_findings d))"

definition select ::
  "(string \<Rightarrow> int option) \<Rightarrow> config \<Rightarrow> string option \<Rightarrow> pick \<Rightarrow> candidate option option io" where
  "select ctx_of cfg force_repo mode = do {
     n \<leftarrow> look (\<lambda>w. waiting (w_db w));
     select_upto (Suc n) ctx_of cfg force_repo mode
   }"

definition pick_next ::
  "(string \<Rightarrow> int option) \<Rightarrow> config \<Rightarrow> string option \<Rightarrow> candidate option option io" where
  "pick_next ctx_of cfg force_repo = select ctx_of cfg force_repo Run"

definition preview_next :: "(string \<Rightarrow> int option) \<Rightarrow> config \<Rightarrow> candidate option option io" where
  "preview_next ctx_of cfg = select ctx_of cfg None Preview"

section \<open>The preview\<close>

lemma keeps_anticipated [keeps_intros]: "keeps h (anticipated_tokens cfg rid kind)"
  unfolding anticipated_tokens_def Let_def by (intro keeps_intros)

lemma keeps_read_tiers [keeps_intros]: "keeps h read_tiers"
proof -
  have "keeps h (attention_rows fs)" for fs by (induction fs) (auto intro!: keeps_intros)
  then show ?thesis
    unfolding read_tiers_def list_attention_def by (intro keeps_intros)
qed

lemma keeps_resolve_force [keeps_intros]: "keeps h (resolve_force force_repo)"
  unfolding resolve_force_def by (intro keeps_intros)

lemma keeps_pick_rotation [keeps_intros]: "keeps h (pick_rotation cfg force_id)"
  unfolding pick_rotation_def Let_def by (intro keeps_intros)

lemma keeps_resume_plan_preview: "keeps h (resume_plan_of ctx_of cfg j Preview)"
  unfolding resume_plan_of_def retire_gone_def within_ceiling_def give_up_def Let_def
  by (intro keeps_intros) simp_all

lemma no_give_up_in_preview:
  "wp (resume_plan_of ctx_of cfg j Preview) (\<lambda>v _. \<forall>why. v \<noteq> Inr (GaveUp why)) w"
  unfolding resume_plan_of_def retire_gone_def within_ceiling_def give_up_def anticipated_tokens_def Let_def
  by (simp add: wp_simps split: option.split sum.split)

lemma keeps_and_then_post:
  assumes "keeps h m" "\<And>w. wp m (\<lambda>r _. P r) w" "\<And>a. P (Inr a) \<Longrightarrow> keeps h (k a)"
  shows "keeps h (and_then m k)"
  unfolding keeps_def
proof
  fix w
  obtain r w' where run: "run_state m w = (r, w')" by fastforce
  have "P r" using assms(2) [of w] by (simp add: wp_def run)
  moreover have "h (w_db w') = h (w_db w)" using assms(1) run by (rule keepsD)
  ultimately show "h (w_db (snd (run_state (and_then m k) w))) = h (w_db w)"
    using assms(3) by (cases r) (auto simp: and_then_def err_def run keeps_def)
qed

lemma keeps_pick_resume_preview [keeps_intros]: "keeps h (pick_resume ctx_of cfg force_id Preview)"
  unfolding pick_resume_def
  by (intro keeps_intros keeps_first_of keeps_resume_plan_preview)

lemma keeps_finding_pick_preview: "keeps h (finding_pick ctx_of cfg kind f Preview)"
proof -
  have "keeps h (finding_pick_one ctx_of cfg kind f Preview j)" for j
    unfolding finding_pick_one_def
    by (intro keeps_if keeps_intros keeps_and_then_post [where P = "\<lambda>v. \<forall>why. v \<noteq> Inr (GaveUp why)"]
        keeps_resume_plan_preview no_give_up_in_preview)
      (auto intro!: keeps_intros split: resumability.split)
  then show ?thesis
    unfolding finding_pick_def by (intro keeps_intros keeps_first_of)
qed

lemma keeps_select_preview: "keeps h (select_upto n ctx_of cfg force_repo Preview)"
proof (induction n)
  case (Suc n)
  have "keeps h (select_round ctx_of cfg force_repo Preview)"
    unfolding select_round_def serve_def by (intro keeps_intros keeps_finding_pick_preview)
  with Suc show ?case by (auto intro!: keeps_intros)
qed (simp add: keeps_intros)

text \<open>The preview writes nothing: whatever fails, and whatever the selection walks over (hopeless
suspensions, chains past the ceiling, findings about to be given up), the database after it is the
database before it.\<close>

theorem preview_writes_nothing:
  "w_db (snd (run_state (preview_next ctx_of cfg) w)) = w_db w"
proof -
  have "keeps (\<lambda>d. d) (preview_next ctx_of cfg)"
    unfolding preview_next_def select_def by (intro keeps_intros keeps_select_preview)
  then show ?thesis by (simp add: keeps_def)
qed

end
