(* ===== verification/Selection.thy ===== *)
theory Selection
  imports Select
begin

text \<open>
What the selection of \<open>Select\<close> guarantees, whatever store calls fail: it terminates
(\<open>waiting\<close> falls whenever it selects again), what it picks is due (\<open>selection_due\<close>), its
reservations fund work, its rotation is fair, and its resume tier drains.

The lemmas go by the writes a selection makes. \<open>tier_view\<close> is what the tiers depend on; the four
writes that end a finding's wait (\<open>ends_wait\<close>, \<open>block_ends_wait\<close>) lower the measure and every
other one keeps it.
\<close>

section \<open>Selection terminates\<close>

text \<open>A finding is in a tier by its status and its pull request's row.\<close>

fun in_tier :: "finding_job_kind \<Rightarrow> db \<Rightarrow> finding \<Rightarrow> bool" where
  "in_tier FRecheck d f = (f_status f = Rechecking)"
| "in_tier FFix d f = (f_status f = Queued)"
| "in_tier FEngage d f =
     (f_status f = PrOpen \<and> (\<exists>p. get_pr_state d (f_id f) = Some p \<and> p_needs_attention p \<noteq> None))"
| "in_tier FHarvest d f = (\<exists>p. get_pr_state d (f_id f) = Some p \<and> pending_harvest f p)"

definition tiered :: "finding_job_kind \<Rightarrow> int \<Rightarrow> db \<Rightarrow> bool" where
  "tiered kind fid d \<longleftrightarrow> (\<exists>f \<in> set (db_findings d). f_id f = fid \<and> in_tier kind d f)"

lemma waits_iff: "waits d f \<longleftrightarrow> f_status f = Fixing \<or> (\<exists>kind. in_tier kind d f)"
proof
  assume "waits d f"
  then have "f_status f = Fixing \<or> in_tier FRecheck d f \<or> in_tier FFix d f \<or> in_tier FEngage d f \<or>
      in_tier FHarvest d f"
    by (auto simp: waits_def split: option.splits)
  then show "f_status f = Fixing \<or> (\<exists>kind. in_tier kind d f)" by blast
next
  assume "f_status f = Fixing \<or> (\<exists>kind. in_tier kind d f)"
  then consider "f_status f = Fixing" | kind where "in_tier kind d f" by blast
  then show "waits d f"
  proof cases
    case (2 kind)
    then show ?thesis by (cases kind) (auto simp: waits_def)
  qed (simp add: waits_def)
qed

definition tier_view :: "db \<Rightarrow> finding list \<times> pr list" where
  "tier_view d = (db_findings d, db_prs d)"

lemma waits_view: "db_prs d' = db_prs d \<Longrightarrow> waits d' = waits d"
  by (intro ext) (simp add: waits_def get_pr_state_def)

lemma in_tier_cong:
  "f_id g = f_id f \<Longrightarrow> f_status g = f_status f \<Longrightarrow> db_prs d' = db_prs d \<Longrightarrow>
   in_tier kind d' g = in_tier kind d f"
  by (cases kind) (simp_all add: get_pr_state_def pending_harvest_def)

lemma waiting_view: "tier_view d' = tier_view d \<Longrightarrow> waiting d' = waiting d"
  using waits_view [of d' d] by (simp add: tier_view_def waiting_def)

lemma tiered_view: "tier_view d' = tier_view d \<Longrightarrow> tiered kind fid d' = tiered kind fid d"
  by (cases kind) (simp_all add: tier_view_def tiered_def get_pr_state_def)

text \<open>An update that moves rows one by one lowers the number of waiting findings if it makes none
  wait and ends one's wait.\<close>

lemma length_filter_map_le:
  "(\<And>x. x \<in> set xs \<Longrightarrow> Q (g x) \<Longrightarrow> P x) \<Longrightarrow> length (filter Q (map g xs)) \<le> length (filter P xs)"
  by (induction xs) (auto simp: le_SucI)

lemma length_filter_map_less:
  assumes "\<And>x. x \<in> set xs \<Longrightarrow> Q (g x) \<Longrightarrow> P x" "x \<in> set xs" "P x" "\<not> Q (g x)"
  shows "length (filter Q (map g xs)) < length (filter P xs)"
proof -
  obtain as bs where xs: "xs = as @ x # bs" using assms(2) by (meson split_list)
  have "length (filter Q (map g as)) \<le> length (filter P as)"
    "length (filter Q (map g bs)) \<le> length (filter P bs)"
    using assms(1) xs by (intro length_filter_map_le; simp)+
  then show ?thesis using assms(3,4) xs by simp
qed

lemma waiting_map_le:
  assumes "db_findings d' = map g (db_findings d)"
    and "\<And>f. f \<in> set (db_findings d) \<Longrightarrow> waits d' (g f) \<Longrightarrow> waits d f"
  shows "waiting d' \<le> waiting d"
  unfolding waiting_def assms(1) by (rule length_filter_map_le) (rule assms(2))

lemma waiting_map_less:
  assumes "db_findings d' = map g (db_findings d)"
    and "\<And>f. f \<in> set (db_findings d) \<Longrightarrow> waits d' (g f) \<Longrightarrow> waits d f"
    and "f \<in> set (db_findings d)" "waits d f" "\<not> waits d' (g f)"
  shows "waiting d' < waiting d"
  unfolding waiting_def assms(1) using assms(3-) by (intro length_filter_map_less [OF assms(2)])

text \<open>The writes a selection makes: those that end no wait, and the four that end one.\<close>

lemma waiting_upd_findings:
  assumes "\<And>f. f_id (h f) = f_id f" "\<And>f. f_status (h f) = f_status f"
  shows "waiting (upd_findings P h d) = waiting d"
proof -
  have "waits (upd_findings P h d) (if P f then h f else f) = waits d f" for f
    using in_tier_cong [of "if P f then h f else f" f "upd_findings P h d" d] assms
    by (simp add: waits_iff frame_simps)
  then show ?thesis
    by (simp add: waiting_def upd_findings_def update_where_def filter_map comp_def)
qed

lemma tiered_upd_findings:
  assumes "\<And>f. f_id (h f) = f_id f" "\<And>f. f_status (h f) = f_status f"
  shows "tiered kind fid (upd_findings P h d) = tiered kind fid d"
proof -
  have "in_tier kind (upd_findings P h d) (if P f then h f else f) = in_tier kind d f" for f
    by (rule in_tier_cong) (simp_all add: frame_simps assms)
  moreover have "f_id (if P f then h f else f) = f_id f" for f by (simp add: assms)
  ultimately show ?thesis
    unfolding tiered_def upd_findings_frame set_update_where bex_simps(7) by simp
qed

lemma in_tier_upd_prs:
  assumes "\<And>p. p_finding_id (h p) = p_finding_id p" "\<And>p. p_needs_attention (h p) = p_needs_attention p"
    "\<And>p. p_harvested_at (h p) = p_harvested_at p" "\<And>p. p_state (h p) = p_state p"
  shows "in_tier kind (upd_prs P h d) f = in_tier kind d f"
proof -
  have "pending_harvest f (if P p then h p else p) = pending_harvest f p"
    "p_needs_attention (if P p then h p else p) = p_needs_attention p" for p
    by (simp_all add: pending_harvest_def assms)
  then show ?thesis
    by (cases kind; cases "get_pr_state d (f_id f)")
      (simp_all add: prs.get_upd assms pending_harvest_def frame_simps)
qed

lemma waiting_finalize: "waiting (finalize_in_progress now fid Fixing Queued d) = waiting d"
proof -
  let ?P = "\<lambda>f. f_id f = fid \<and> f_status f = Fixing"
  let ?g = "\<lambda>f. if ?P f then f\<lparr>f_status := Queued, f_updated_at := now\<rparr> else f"
  let ?d = "finalize_in_progress now fid Fixing Queued d"
  have d: "db_findings ?d = map ?g (db_findings d)" "db_prs ?d = db_prs d"
    by (simp_all add: finalize_in_progress_def claim_in_progress_def Let_def upd_findings_def update_where_def)
  have "waits ?d (?g f) = waits d f" for f
  proof (cases "?P f")
    case True
    then show ?thesis by (simp add: waits_def)
  next
    case False
    then have "?g f = f" by (rule if_not_P)
    then show ?thesis by (simp only: waits_view [OF d(2)])
  qed
  then show ?thesis by (simp add: waiting_def d(1) filter_map comp_def)
qed

lemma tiered_finalize:
  assumes "tiered kind fid d"
  shows "tiered kind fid (finalize_in_progress now fid' Fixing Queued d)"
proof -
  let ?d = "finalize_in_progress now fid' Fixing Queued d"
  obtain f where f: "f \<in> set (db_findings d)" "f_id f = fid" "in_tier kind d f"
    using assms by (auto simp: tiered_def)
  then have "f_status f \<noteq> Fixing" by (cases kind) (auto simp: pending_harvest_def)
  then have "f \<in> set (db_findings ?d)"
    using f(1) by (force simp: finalize_in_progress_def claim_in_progress_def Let_def frame_simps set_update_where)
  moreover have "in_tier kind ?d f"
    using f(3) by (subst in_tier_cong [of f f _ d])
      (simp_all add: finalize_in_progress_def claim_in_progress_def Let_def frame_simps)
  ultimately show ?thesis using f(2) by (auto simp: tiered_def)
qed

text \<open>The four writes that end a wait.\<close>

lemma waiting_status_less:
  assumes "tiered kind fid d" "db_findings d' = update_where (\<lambda>f. f_id f = fid) h (db_findings d)"
    "db_prs d' = db_prs d" "\<And>f. f_status (h f) \<in> {New, Blocked}"
  shows "waiting d' < waiting d"
proof -
  obtain f where f: "f \<in> set (db_findings d)" "f_id f = fid" "in_tier kind d f"
    using assms(1) by (auto simp: tiered_def)
  have no: "\<not> waits d' (h f)" for f
    using assms(4) [of f] by (auto simp: waits_def pending_harvest_def split: option.split)
  show ?thesis
  proof (rule waiting_map_less)
    show "db_findings d' = map (\<lambda>f. if f_id f = fid then h f else f) (db_findings d)"
      using assms(2) by (simp add: update_where_def)
    show "waits d f" if "waits d' (if f_id f = fid then h f else f)" for f
      using that no waits_view [OF assms(3)] by (simp split: if_splits)
    show "waits d f" using f(3) by (auto simp: waits_iff)
    show "\<not> waits d' (if f_id f = fid then h f else f)" using no f(2) by simp
  qed (rule f(1))
qed

lemma waiting_pr_less:
  assumes "tiered kind fid d" "kind = FEngage \<or> kind = FHarvest"
    "d' = upd_prs (\<lambda>p. p_finding_id p = fid) h d"
    and h: "\<And>p. p_finding_id (h p) = p_finding_id p" "\<And>p. p_state (h p) = p_state p"
      "\<And>p. p_needs_attention (h p) = (if kind = FEngage then None else p_needs_attention p)"
      "\<And>p. p_harvested_at (h p) = (if kind = FHarvest then Some stamp else p_harvested_at p)"
  shows "waiting d' < waiting d"
proof -
  obtain f where f: "f \<in> set (db_findings d)" "f_id f = fid" "in_tier kind d f"
    using assms(1) by (auto simp: tiered_def)
  have get: "get_pr_state d' k = map_option (\<lambda>p. if p_finding_id p = fid then h p else p) (get_pr_state d k)" for k
    unfolding assms(3) by (rule prs.get_upd) (rule h(1))
  show ?thesis
  proof (rule waiting_map_less)
    show "db_findings d' = map (\<lambda>f. f) (db_findings d)" by (simp add: assms(3) frame_simps)
    show "waits d f" if "waits d' f" for f
      using that assms(2) h(2-4)
      by (auto simp: waits_def get pending_harvest_def split: option.splits if_splits)
    show "waits d f" using f(3) by (auto simp: waits_iff)
    show "\<not> waits d' f"
      using assms(2) f h(3,4)
      by (auto simp: waits_def get pending_harvest_def split: option.splits if_splits dest: prs.get_SomeD)
  qed (rule f(1))
qed

text \<open>Counting a given-up chain: \<open>True\<close> only when it lowered the number of waiting findings, and
  otherwise nothing a tier depends on has moved.\<close>

lemma waiting_log_event [simp]: "waiting (log_event now k m j f d) = waiting d"
  by (rule waiting_view) (simp add: tier_view_def frame_simps)

lemma tiered_log_event [simp]: "tiered kind fid (log_event now k m j f d) = tiered kind fid d"
  by (rule tiered_view) (simp add: tier_view_def frame_simps)

lemma attempts_wait [simp]:
  "waiting (snd (record_fix_attempt now fid fp d)) = waiting d"
  "tiered kind k (snd (record_fix_attempt now fid fp d)) = tiered kind k d"
  "waiting (snd (record_recheck_attempt now fid fp d)) = waiting d"
  "tiered kind k (snd (record_recheck_attempt now fid fp d)) = tiered kind k d"
  "waiting (clear_recheck_attempts now fid d) = waiting d"
  by (simp_all add: record_fix_attempt_def record_recheck_attempt_def clear_recheck_attempts_def Let_def
      split_beta waiting_upd_findings tiered_upd_findings)

lemma waiting_upd_prs:
  assumes "\<And>p. p_finding_id (h p) = p_finding_id p" "\<And>p. p_needs_attention (h p) = p_needs_attention p"
    "\<And>p. p_harvested_at (h p) = p_harvested_at p" "\<And>p. p_state (h p) = p_state p"
  shows "waiting (upd_prs P h d) = waiting d" "tiered kind k (upd_prs P h d) = tiered kind k d"
proof -
  have tier: "in_tier kind (upd_prs P h d) f = in_tier kind d f" for kind f
    by (rule in_tier_upd_prs) (rule assms)+
  then have "waits (upd_prs P h d) = waits d" by (intro ext) (simp add: waits_iff)
  then show "waiting (upd_prs P h d) = waiting d" by (simp add: waiting_def frame_simps)
  show "tiered kind k (upd_prs P h d) = tiered kind k d" by (simp add: tiered_def tier frame_simps)
qed

lemma harvest_attempts_wait [simp]:
  "waiting (snd (record_harvest_attempt fid fp d)) = waiting d"
  "tiered kind k (snd (record_harvest_attempt fid fp d)) = tiered kind k d"
  "waiting (clear_harvest_attempts fid d) = waiting d"
  by (simp_all add: record_harvest_attempt_def clear_harvest_attempts_def Let_def split_beta waiting_upd_prs)

lemma ends_wait:
  "tiered kind fid d \<Longrightarrow> waiting (set_finding_status now fid New d) < waiting d"
  "tiered FHarvest fid d \<Longrightarrow> waiting (mark_pr_harvested fid stamp d) < waiting d"
  "tiered FEngage fid d \<Longrightarrow> waiting (set_attention_aside now fid d) < waiting d"
proof -
  show "waiting (set_finding_status now fid New d) < waiting d" if "tiered kind fid d"
    using that
    by (rule waiting_status_less [where h = "\<lambda>f. f\<lparr>f_status := New, f_updated_at := now\<rparr>"])
      (simp_all add: set_finding_status_def frame_simps)
  show "waiting (mark_pr_harvested fid stamp d) < waiting d" if "tiered FHarvest fid d"
    using that
    by (rule waiting_pr_less [where stamp = stamp and h = "\<lambda>p. p\<lparr>p_harvested_at := Some stamp\<rparr>"])
      (simp_all add: mark_pr_harvested_def)
  show "waiting (set_attention_aside now fid d) < waiting d" if "tiered FEngage fid d"
    using that unfolding set_attention_aside_def
    by (rule waiting_pr_less [where stamp = 0, OF _ _ refl]) simp_all
qed

lemma block_ends_wait:
  assumes "tiered kind fid d" "block_fix_job now fid jid r d = (res, d')"
  shows "res = Inr u \<Longrightarrow> waiting d' < waiting d" and "res = Inl e \<Longrightarrow> d' = d"
proof -
  show "waiting d' < waiting d" if "res = Inr u"
    using assms(1)
    by (rule waiting_status_less [where h = "blocked_finding now"])
      (use assms(2) that in \<open>auto simp: block_fix_job_def Let_def blocked_finding_def frame_simps split: if_splits\<close>)
  show "d' = d" if "res = Inl e"
    using assms(2) that by (auto simp: block_fix_job_def Let_def split: if_splits)
qed

text \<open>The same facts in the form a run meets them: after steps that moved nothing.\<close>

lemma ends_wait_of:
  "tiered FRecheck fid d \<Longrightarrow> waiting d = n \<Longrightarrow> waiting (set_finding_status now fid New d) < n"
  "tiered FHarvest fid d \<Longrightarrow> waiting d = n \<Longrightarrow> waiting (mark_pr_harvested fid stamp d) < n"
  "tiered FEngage fid d \<Longrightarrow> waiting d = n \<Longrightarrow> waiting (set_attention_aside now fid d) < n"
  using ends_wait by blast+

definition settled :: "finding_job_kind \<Rightarrow> int \<Rightarrow> nat \<Rightarrow> bool \<Rightarrow> world \<Rightarrow> bool" where
  "settled kind fid n ended w \<longleftrightarrow>
     (if ended then waiting (w_db w) < n else waiting (w_db w) = n \<and> tiered kind fid (w_db w))"

lemma count_recheck_settles:
  assumes "tiered FRecheck fid (w_db w)"
  shows "wp (handle_recheck_failure s fid jid failure detail None)
    (\<lambda>s'. settled FRecheck fid (waiting (w_db w)) (cs_outcome s' = Some ''stuck'')) w"
  using assms
  by (simp add: handle_recheck_failure_def Let_def wp_simps settled_def ends_wait_of
      split: option.split sum.split)

lemma count_fix_settles:
  assumes "tiered FFix fid (w_db w)"
  shows "wp (record_fix_failure fid jid failure detail no_summary)
    (\<lambda>(_, s'). settled FFix fid (waiting (w_db w)) (cs_outcome s' = Some ''blocked'')) w"
proof -
  have block: "waiting (snd (block_fix_job now fid jid r d)) < waiting d"
    if "fst (block_fix_job now fid jid r d) = Inr u" "tiered FFix fid d" for now r d u
    using that by (intro block_ends_wait(1) [OF that(2), of now jid r "Inr u"]) (auto intro: prod_eqI)
  have keep: "snd (block_fix_job now fid jid r d) = d"
    if "fst (block_fix_job now fid jid r d) = Inl e" "tiered FFix fid d" for now r d e
    using that by (intro block_ends_wait(2) [OF that(2), of now jid r "Inl e"]) (auto intro: prod_eqI)
  have hold: "wp (hold_blocked fid jid report) (\<lambda>r. settled FFix fid n (is_ok r)) w'"
    if "tiered FFix fid (w_db w')" "waiting (w_db w') = n" for report n w'
    using that unfolding hold_blocked_def release_claim_def
    by (auto simp: wp_simps settled_def waiting_finalize tiered_finalize keep dest!: block
        split: option.split sum.split)
  show ?thesis
    unfolding record_fix_failure_def Let_def fix_event_def wp_simps
    by (auto simp: assms settled_def no_summary_def wp_simps split: option.split sum.split
        intro!: wp_mono [OF hold])
qed

lemma count_harvest_settles:
  assumes "tiered FHarvest fid (w_db w)"
  shows "wp (record_harvest_failure fid jid key detail) (settled FHarvest fid (waiting (w_db w))) w"
  using assms
  by (simp add: record_harvest_failure_def Let_def wp_simps settled_def ends_wait_of
      split: option.split sum.split)

lemma settled_log [simp]:
  "settled kind fid n b (put_db (log_event now k m j f (w_db w)) w') = settled kind fid n b w"
  "settled kind fid n b (tick w) = settled kind fid n b w"
  by (simp_all add: settled_def)

lemma count_settles:
  assumes "tiered kind fid (w_db w)"
  shows "wp (count_given_up_chain kind fid jid why) (settled kind fid (waiting (w_db w))) w"
proof (cases kind)
  case FRecheck
  with assms have "tiered FRecheck fid (w_db w)" by simp
  from count_recheck_settles [OF this] show ?thesis
    unfolding FRecheck count_given_up_chain_def Let_def wp_simps
    by (simp add: wp_simps)
next
  case FFix
  with assms have "tiered FFix fid (w_db w)" by simp
  note run = count_fix_settles [OF this, of jid CHAIN_GAVE_UP why]
  show ?thesis
    unfolding FFix count_given_up_chain_def Let_def finding_job_kind.case wp_bind
    by (rule wp_mono [OF run])
      (auto simp: wp_simps fix_event_def split: option.split sum.split prod.splits)
next
  case FHarvest
  with assms count_harvest_settles show ?thesis by (simp add: count_given_up_chain_def)
next
  case FEngage
  with assms show ?thesis
    by (simp add: count_given_up_chain_def Let_def wp_simps settled_def ends_wait_of
        split: option.split sum.split)
qed

text \<open>Walking a finding's suspensions: the walk ends a wait exactly when it settles on nothing.\<close>

lemma keeps_resume_plan_view:
  assumes "\<And>P f d. h (upd_jobs P f d) = h d"
    "\<And>P f d. h (upd_repos P f d) = h d" "\<And>now k m j f d. h (log_event now k m j f d) = h d"
  shows "keeps h (resume_plan_of ctx_of cfg j mode)"
  unfolding resume_plan_of_def retire_gone_def within_ceiling_def give_up_def Let_def
  by (intro keeps_intros keeps_exec keeps_event)
    (auto simp: assms retire_suspended_job_def retire_job_def set_last_kind_at_def upd_repo_def
      intro!: keeps_intros keeps_exec split: job_kind.split)

lemma keeps_resume_plan_tiers:
  shows keeps_resume_plan_waiting: "keeps waiting (resume_plan_of ctx_of cfg j mode)"
    and keeps_resume_plan_tiered: "keeps (tiered kind fid) (resume_plan_of ctx_of cfg j mode)"
proof -
  have view: "keeps tier_view (resume_plan_of ctx_of cfg j mode)"
    by (rule keeps_resume_plan_view) (simp_all add: tier_view_def frame_simps)
  from view show "keeps waiting (resume_plan_of ctx_of cfg j mode)"
    by (rule keeps_finer) (rule waiting_view)
  from view show "keeps (tiered kind fid) (resume_plan_of ctx_of cfg j mode)"
    by (rule keeps_finer) (rule tiered_view)
qed

lemma finding_pick_one_settles:
  assumes "f_id f = fid" "tiered kind fid (w_db w)" "waiting (w_db w) = n"
  shows "wp (finding_pick_one ctx_of cfg kind f mode j)
    (\<lambda>r. settled kind fid n (r = Inr (Some None))) w"
proof -
  have plan: "wp (resume_plan_of ctx_of cfg j mode)
      (\<lambda>_ w'. waiting (w_db w') = n \<and> tiered kind fid (w_db w')) w"
  proof (rule wp_mono [OF wp_conj])
    show "wp (resume_plan_of ctx_of cfg j mode) (\<lambda>_ w'. waiting (w_db w') = waiting (w_db w)) w"
      using keeps_resume_plan_waiting by (simp add: keeps_wp)
    show "wp (resume_plan_of ctx_of cfg j mode)
        (\<lambda>_ w'. tiered kind fid (w_db w') = tiered kind fid (w_db w)) w"
      using keeps_resume_plan_tiered by (simp add: keeps_wp)
  qed (use assms(2,3) in simp)
  show ?thesis
    unfolding finding_pick_one_def wp_simps using assms(2,3)
    by (auto simp: wp_simps settled_def assms(1) intro!: wp_mono [OF plan] wp_mono [OF count_settles]
        split: sum.split resumability.split if_splits)
qed

lemma finding_pick_settles:
  assumes "f_id f = fid" "tiered kind fid (w_db w)" "waiting (w_db w) = n"
  shows "wp (finding_pick ctx_of cfg kind f mode) (\<lambda>r. settled kind fid n (r = Inr None)) w"
proof -
  have walk: "wp (first_of (finding_pick_one ctx_of cfg kind f mode) js)
      (\<lambda>r. settled kind fid n (r = Inr (Some None))) w"
    if "tiered kind fid (w_db w)" "waiting (w_db w) = n" for js w
    using that
  proof (induction js arbitrary: w)
    case Nil
    then show ?case by (simp add: wp_simps settled_def)
  next
    case (Cons j js)
    show ?case
      unfolding first_of.simps wp_simps
      by (rule wp_mono [OF finding_pick_one_settles [OF assms(1) Cons.prems]])
        (auto simp: settled_def wp_simps Cons.IH split: sum.split option.split)
  qed
  show ?thesis
    unfolding finding_pick_def wp_simps using assms(2,3)
    by (auto simp: settled_def wp_simps intro!: wp_mono [OF walk] split: option.split sum.split)
qed

text \<open>What a selection reads: exactly the findings in each tier.\<close>

lemma findings_with_iff: "f \<in> set (findings_with s d) \<longleftrightarrow> f \<in> set (db_findings d) \<and> f_status f = s"
  by (auto simp: findings_with_def list_findings_def)

definition tiers_of :: "db \<Rightarrow> tiers \<Rightarrow> bool" where
  "tiers_of d t \<longleftrightarrow>
     (\<forall>(kind, items) \<in> set (tier_lists t). set items = {f \<in> set (db_findings d). in_tier kind d f})"

lemma attention_rows_wp:
  "wp (attention_rows fs) (\<lambda>r w'. w_db w' = w_db w \<and> (\<forall>rows. r = Inr rows \<longrightarrow>
     snd ` set rows = {f \<in> set fs. \<exists>p. get_pr_state (w_db w) (f_id f) = Some p \<and> p_needs_attention p \<noteq> None})) w"
proof (induction fs arbitrary: w)
  case Nil
  then show ?case by (simp add: wp_simps)
next
  case (Cons f fs)
  have "wp (attention_rows fs) (\<lambda>r w'. w_db w' = w_db w \<and> (\<forall>rows. r = Inr rows \<longrightarrow>
     snd ` set rows = {f \<in> set fs. \<exists>p. get_pr_state (w_db w) (f_id f) = Some p \<and> p_needs_attention p \<noteq> None}))
     (tick w)"
    using Cons.IH [of "tick w"] by simp
  then show ?case
    by (auto simp: wp_simps elim!: wp_mono split: option.splits sum.split)
qed

lemma read_tiers_wp:
  "wp read_tiers (\<lambda>r w'. w_db w' = w_db w \<and> (\<forall>t. r = Inr t \<longrightarrow> tiers_of (w_db w) t)) w"
proof -
  have attention: "wp (attention_rows fs) (\<lambda>r w'. w_db w' = d \<and> (\<forall>rows. r = Inr rows \<longrightarrow>
     snd ` set rows = {f \<in> set fs. \<exists>p. get_pr_state d (f_id f) = Some p \<and> p_needs_attention p \<noteq> None})) w'"
    if "w_db w' = d" for fs d w'
    using attention_rows_wp [of fs w'] that by simp
  show ?thesis
    unfolding read_tiers_def list_attention_def wp_simps
    by (auto simp: wp_simps tiers_of_def tier_lists_def findings_with_iff list_pending_harvest_iff
        intro!: wp_mono [OF attention] split: option.split sum.split)
qed

lemma tier_pick_Some:
  assumes "tiers_of d t" "tier_pick (retain_repo force_id t) = Some (kind, f)"
  shows "f \<in> set (db_findings d) \<and> in_tier kind d f \<and> (\<forall>rid. force_id = Some rid \<longrightarrow> f_repo_id f = rid)"
proof -
  have "\<exists>items. (kind, items) \<in> set (tier_lists (retain_repo force_id t)) \<and> f \<in> set items"
    using assms(2)
    by (auto simp: tier_pick_def tier_lists_def tier_oldest_def first_el_def opt_or_def
        split: option.splits list.splits if_splits dest: find_Some_set)
  then show ?thesis
    using assms(1)
    by (auto simp: tiers_of_def tier_lists_def retain_repo_def Let_def split: option.splits)
qed

lemma tier_pick_None:
  assumes "tiers_of d t" "tier_pick (retain_repo force_id t) = None"
    and "f \<in> set (db_findings d)" "\<forall>rid. force_id = Some rid \<longrightarrow> f_repo_id f = rid"
  shows "\<not> in_tier kind d f"
proof -
  have "tier_oldest (retain_repo force_id t) = [(FEngage, None), (FHarvest, None), (FRecheck, None), (FFix, None)]"
    using assms(2)
    by (auto simp: tier_pick_def tier_oldest_def opt_or_def split: option.splits)
  then have "\<forall>(kind, items) \<in> set (tier_lists (retain_repo force_id t)). items = []"
    by (auto simp: tier_lists_def tier_oldest_def first_el_def split: list.splits)
  then have "f \<notin> {f \<in> set (db_findings d). in_tier kind d f}"
    using assms(1,4)
    by (cases kind) (auto simp: tiers_of_def tier_lists_def retain_repo_def Let_def filter_empty_conv
        split: option.splits)
  with assms(3) show ?thesis by simp
qed

lemma keeps_prelude_wp: "keeps (\<lambda>d. d) m \<Longrightarrow> wp m (\<lambda>_ w'. w_db w' = w_db w) w"
  by (simp add: keeps_wp)

text \<open>The rule every statement about a round goes by.\<close>

lemma select_round_rule:
  assumes "\<And>e w'. Q (Inl e) w'"
    and "\<And>force_id t w1. tiers_of (w_db w) t \<Longrightarrow> (force_repo = None \<longrightarrow> force_id = None) \<Longrightarrow>
      w_db w1 = w_db w \<Longrightarrow> wp (serve ctx_of cfg mode force_id (retain_repo force_id t)) Q w1"
  shows "wp (select_round ctx_of cfg force_repo mode) Q w"
proof -
  have force: "wp (resolve_force force_repo)
      (\<lambda>r w'. w_db w' = w_db w \<and> (\<forall>i. r = Inr i \<longrightarrow> force_repo = None \<longrightarrow> i = None)) w1"
    if "w_db w1 = w_db w" for w1
    using that unfolding resolve_force_def by (simp add: wp_simps split: option.split sum.split)
  show ?thesis
    unfolding select_round_def wp_and_then
    by (rule wp_mono [OF read_tiers_wp])
      (auto simp: assms intro!: wp_mono [OF force] split: sum.split)
qed

lemma select_round_settles:
  "wp (select_round ctx_of cfg force_repo mode) (\<lambda>r w'. r = Inr None \<longrightarrow> waiting (w_db w') < waiting (w_db w)) w"
proof (rule select_round_rule)
  fix force_id t and w1 :: world
  assume t: "tiers_of (w_db w) t" "w_db w1 = w_db w"
  have any: "wp m (\<lambda>_ _. True) w'" for m :: "'x act" and w'
    by (simp add: wp_def split_beta)
  show "wp (serve ctx_of cfg mode force_id (retain_repo force_id t))
      (\<lambda>r w'. r = Inr None \<longrightarrow> waiting (w_db w') < waiting (w_db w)) w1"
  proof (cases "tier_pick (retain_repo force_id t)")
    case None
    then show ?thesis
      unfolding serve_def by (auto simp: wp_simps split: sum.split option.split intro!: wp_mono [OF any])
  next
    case (Some kf)
    obtain kind f where kf: "kf = (kind, f)" by (cases kf)
    have "tiered kind (f_id f) (w_db w1)" "waiting (w_db w1) = waiting (w_db w)"
      using tier_pick_Some [OF t(1) Some [unfolded kf]] t(2) by (auto simp: tiered_def)
    from finding_pick_settles [OF refl this, of ctx_of cfg mode] show ?thesis
      unfolding serve_def Some kf
      by (auto simp: wp_simps settled_def elim!: wp_mono split: sum.split)
  qed
qed simp

lemma select_upto_enough:
  "waiting (w_db w) < n \<Longrightarrow> wp (select_upto n ctx_of cfg force_repo mode) (\<lambda>r _. r \<noteq> Inr None) w"
proof (induction n arbitrary: w)
  case (Suc n)
  show ?case
    unfolding select_upto.simps wp_simps
    by (rule wp_mono [OF select_round_settles])
      (use Suc in \<open>auto simp: wp_simps split: sum.split option.split\<close>)
qed simp

text \<open>C30. Selecting what runs next terminates: whatever fails on the way, and however many given-up
chains end the work of the finding that was about to run, the selection comes back with a candidate,
with nothing to do, or with an error, in at most one round more than there are findings waiting.\<close>

theorem select_terminates:
  "fst (run_state (select ctx_of cfg force_repo mode) w) \<noteq> Inr None"
proof -
  have "wp (select ctx_of cfg force_repo mode) (\<lambda>r _. r \<noteq> Inr None) w"
    unfolding select_def wp_simps by (rule select_upto_enough) simp
  then show ?thesis by (simp add: wp_def split_beta)
qed

section \<open>What is selected is due\<close>

definition plan_sound :: "resume_plan \<Rightarrow> world \<Rightarrow> bool" where
  "plan_sound plan w \<longleftrightarrow>
     is_dir w (ws_tree (rp_workspace plan)) \<and>
     path_starts_with (rp_session_file plan) (ws_session (rp_workspace plan)) \<and>
     pinned_sha (rp_predecessor_id plan) (w_db w) = Some (rp_pinned_sha plan) \<and>
     rp_anticipated plan = resume_reservation (rp_ctx plan) (rp_typical plan) (rp_chain_spent plan) \<and>
     (let chain = resume_chain_stats (rp_predecessor_id plan) (w_db w)
      in (too_many chain \<or> too_costly (rp_typical plan) chain) \<longrightarrow>
         rp_kind plan = K_fix \<and> job_blocker (rp_predecessor_id plan) (w_db w) \<noteq> None)"

lemma not_continued:
  "wp (retire_gone mode j name ws) (\<lambda>v w'. \<forall>plan. v = Inr (Continue plan) \<longrightarrow> P plan w') w"
  "wp (give_up mode j name z chain) (\<lambda>v w'. \<forall>plan. v = Inr (Continue plan) \<longrightarrow> P plan w') w"
  by (simp_all add: retire_gone_def give_up_def Let_def wp_simps split: option.split job_kind.split)

lemma anticipated_tokens_wp:
  "wp (anticipated_tokens cfg rid kind) (\<lambda>_ w'. w_db w' = w_db w \<and> w_disk w' = w_disk w) w"
  unfolding anticipated_tokens_def Let_def by (simp add: wp_simps split: option.split)

lemma within_ceiling_sound:
  assumes "is_dir w (ws_tree ws)" "path_starts_with session (ws_session ws)"
    "pinned_sha (j_id j) (w_db w) = Some sha"
  shows "wp (within_ceiling ctx_of cfg mode j r origin session ws sha)
    (\<lambda>v w'. \<forall>plan. v = Inr (Continue plan) \<longrightarrow> plan_sound plan w') w"
  unfolding within_ceiling_def Let_def wp_bind
  by (rule wp_mono [OF anticipated_tokens_wp])
    (auto simp: wp_simps assms [unfolded is_dir_def] not_continued plan_sound_def plan_for_def is_dir_def Let_def split: option.split)

lemma resume_plan_sound:
  "wp (resume_plan_of ctx_of cfg j mode) (\<lambda>v w'. \<forall>plan. v = Inr (Continue plan) \<longrightarrow> plan_sound plan w') w"
  unfolding resume_plan_of_def Let_def
  by (simp add: wp_simps not_continued within_ceiling_sound split: option.split)

fun selection_due :: "candidate \<Rightarrow> world \<Rightarrow> bool" where
  "selection_due (Finding_work kind fid _ _ _) w = tiered kind fid (w_db w)"
| "selection_due (Repo_work _ _ _) w = (\<forall>kind fid. \<not> tiered kind fid (w_db w))"
| "selection_due (Resume_work _ _ plan) w = plan_sound plan w"

lemma wp_triv: "wp m (\<lambda>_ _. True) w"
  by (simp add: wp_def split_beta)

lemma finding_pick_due:
  assumes "tiered kind (f_id f) (w_db w)"
  shows "wp (finding_pick ctx_of cfg kind f mode) (\<lambda>r w'. \<forall>c. r = Inr (Some c) \<longrightarrow> selection_due c w') w"
proof -
  have one: "wp (finding_pick_one ctx_of cfg kind f mode j)
      (\<lambda>r w'. \<forall>c. r = Inr (Some (Some c)) \<longrightarrow> selection_due c w') w1" for j w1
    unfolding finding_pick_one_def wp_simps
    by (cases "j_finding_id j \<noteq> Some (f_id f) \<or> j_kind j \<noteq> Finding_kind kind", simp,
        simp only: if_False, rule wp_mono [OF resume_plan_sound])
      (auto simp: wp_simps intro!: wp_mono [OF wp_triv] split: resumability.split sum.split if_splits)
  have walk: "wp (first_of (finding_pick_one ctx_of cfg kind f mode) js)
      (\<lambda>r w'. \<forall>c. r = Inr (Some (Some c)) \<longrightarrow> selection_due c w') w1" for js w1
  proof (induction js arbitrary: w1)
    case (Cons j js)
    show ?case
      unfolding first_of.simps wp_simps
      by (rule wp_mono [OF one]) (auto simp: wp_simps Cons.IH split: sum.split option.split)
  qed (simp add: wp_simps)
  have fresh: "wp (first_of (finding_pick_one ctx_of cfg kind f mode) js)
      (\<lambda>r w'. r = Inr None \<longrightarrow> tiered kind (f_id f) (w_db w')) w1"
    if "tiered kind (f_id f) (w_db w1)" for js w1
    using that
  proof (induction js arbitrary: w1)
    case (Cons j js)
    show ?case
      unfolding first_of.simps wp_simps
      by (rule wp_mono [OF finding_pick_one_settles [OF refl Cons.prems refl]])
        (auto simp: wp_simps settled_def Cons.IH split: sum.split option.split if_splits)
  qed (simp add: wp_simps)
  show ?thesis
    unfolding finding_pick_def wp_simps using assms
    by (auto simp: wp_simps finding_candidate_def intro!: wp_mono [OF wp_conj [OF walk fresh]]
        split: sum.split option.split)
qed

lemma pick_resume_due:
  "wp (pick_resume ctx_of cfg force_id mode)
     (\<lambda>r w'. (\<forall>c. r = Inr (Some c) \<longrightarrow> selection_due c w') \<and>
       (\<forall>kind fid. tiered kind fid (w_db w') = tiered kind fid (w_db w))) w"
proof (rule wp_conj)
  have walk: "wp (first_of (\<lambda>j.
        if (case force_id of Some rid \<Rightarrow> j_repo_id j \<noteq> rid | None \<Rightarrow> False) then ok None
        else and_then (resume_plan_of ctx_of cfg j mode) (\<lambda>v. ok (case v of
               Continue plan \<Rightarrow>
                 Some (Resume_work (if rp_repo plan = [] then None else Some (rp_repo plan)) None plan)
             | _ \<Rightarrow> None))) js) (\<lambda>r w'. \<forall>c. r = Inr (Some c) \<longrightarrow> selection_due c w') w1" for js w1
    by (induction js arbitrary: w1)
      (auto simp: wp_simps intro!: wp_mono [OF resume_plan_sound]
        split: resumability.split sum.split option.split)
  show "wp (pick_resume ctx_of cfg force_id mode) (\<lambda>r w'. \<forall>c. r = Inr (Some c) \<longrightarrow> selection_due c w') w"
    unfolding pick_resume_def wp_simps by (auto simp: walk split: option.split)
  have "keeps tier_view (pick_resume ctx_of cfg force_id mode)"
    unfolding pick_resume_def
    by (intro keeps_intros keeps_first_of keeps_resume_plan_view) (simp_all add: tier_view_def frame_simps)
  then have "wp (pick_resume ctx_of cfg force_id mode) (\<lambda>_ w'. tier_view (w_db w') = tier_view (w_db w)) w"
    by (simp add: keeps_wp)
  then show "wp (pick_resume ctx_of cfg force_id mode)
      (\<lambda>_ w'. \<forall>kind fid. tiered kind fid (w_db w') = tiered kind fid (w_db w)) w"
    by (rule wp_mono) (intro allI tiered_view)
qed

lemma select_round_due:
  "wp (select_round ctx_of cfg None mode) (\<lambda>r w'. \<forall>c. r = Inr (Some (Some c)) \<longrightarrow> selection_due c w') w"
proof (rule select_round_rule)
  fix force_id :: "int option" and t and w1 :: world
  assume t: "tiers_of (w_db w) t" "(None :: string option) = None \<longrightarrow> force_id = None" "w_db w1 = w_db w"
  show "wp (serve ctx_of cfg mode force_id (retain_repo force_id t))
      (\<lambda>r w'. \<forall>c. r = Inr (Some (Some c)) \<longrightarrow> selection_due c w') w1"
  proof (cases "tier_pick (retain_repo force_id t)")
    case None
    then have none: "\<not> tiered kind fid (w_db w1)" for kind fid
      using tier_pick_None [OF t(1) None] t(2,3) by (auto simp: tiered_def)
    have rotation: "wp (pick_rotation cfg force_id)
        (\<lambda>r w'. \<forall>c. r = Inr (Some c) \<longrightarrow> selection_due c w') w2"
      if "\<And>kind fid. \<not> tiered kind fid (w_db w2)" for w2
      using that unfolding pick_rotation_def Let_def
      by (auto simp: wp_simps rotation_one_def repo_candidate_def dest!: find_map_Some split: option.split if_splits)
    show ?thesis
      unfolding serve_def None option.case wp_and_then
      by (rule wp_mono [OF pick_resume_due])
        (auto simp: wp_simps none intro!: wp_mono [OF rotation] split: sum.split option.split)
  next
    case (Some kf)
    obtain kind f where kf: "kf = (kind, f)" by (cases kf)
    have "tiered kind (f_id f) (w_db w1)"
      using tier_pick_Some [OF t(1) Some [unfolded kf]] t(3) by (auto simp: tiered_def)
    from finding_pick_due [OF this] show ?thesis
      unfolding serve_def Some kf option.case prod.case wp_and_then
      by (rule wp_mono) (auto simp: wp_simps split: sum.split)
  qed
qed simp

text \<open>C31. What the scheduler picks is due when it is picked, whatever failed on the way: a finding's work
only while the finding is in the tier of that work; a repository scan only while no finding waits in
any tier; and a suspended attempt only where its tree still stands and holds its transcript, at the
pinned commit, within the give-up ceiling unless it is a fix an operator held and requeued, and
with the reservation its context and its chain call for.\<close>

theorem selected_work_is_due:
  assumes "run_state (pick_next ctx_of cfg None) w = (Inr (Some (Some c)), w')"
  shows "selection_due c w'"
proof -
  have "wp (select_upto n ctx_of cfg None Run) (\<lambda>r w'. \<forall>c. r = Inr (Some (Some c)) \<longrightarrow> selection_due c w') w" for n w
  proof (induction n arbitrary: w)
    case (Suc n)
    show ?case
      unfolding select_upto.simps wp_and_then
      by (rule wp_mono [OF select_round_due]) (auto simp: wp_simps Suc split: sum.split option.split)
  qed (simp add: wp_simps)
  then have "wp (pick_next ctx_of cfg None) (\<lambda>r w'. \<forall>c. r = Inr (Some (Some c)) \<longrightarrow> selection_due c w') w"
    unfolding pick_next_def select_def wp_bind wp_look by blast
  with assms show ?thesis by (auto simp: wp_def)
qed

lemma repo_db_reads:
  "findings_with s repo_db = (if s = New then [sample_finding] else [])"
  "list_pending_harvest repo_db = []" "list_resumable_jobs repo_db = []" "list_repos repo_db = [sample_repo]"
  "waiting repo_db = 0"
  by (simp_all add: repo_db_def sample_db_def findings_with_def list_findings_def sample_finding_def
      new_finding_def finding_insert_default_def list_pending_harvest_def List.map_filter_simps
      get_pr_state_def empty_db_def list_resumable_jobs_def list_repos_def sample_repo_def
      waiting_def waits_def)

lemma first_pick:
  "wp (pick_next ctx_of cfg None) (\<lambda>r _. r = Inr (Some (Some (Repo_work RHunt 1 (Some ''demo''))))) (quiet 5 repo_db)"
  by (simp add: pick_next_def select_def wp_simps repo_db_reads select_round_def read_tiers_def
      list_attention_def resolve_force_def retain_repo_def serve_def tier_pick_def tier_lists_def
      tier_oldest_def first_el_def pick_resume_def pick_rotation_def Let_def rotation_one_def
      path_exists_def repo_candidate_def sample_repo_def)

theorem selected_work_is_due_witness:
  "\<exists>w'. selection_due (Repo_work RHunt 1 (Some ''demo'')) w'"
proof -
  obtain r w' where run: "run_state (pick_next (\<lambda>_. None) sample_config None) (quiet 5 repo_db) = (r, w')"
    by fastforce
  then have "r = Inr (Some (Some (Repo_work RHunt 1 (Some ''demo''))))"
    using first_pick [of "\<lambda>_. None" sample_config] by (simp add: wp_def)
  with run have "selection_due (Repo_work RHunt 1 (Some ''demo'')) w'"
    using selected_work_is_due [of "\<lambda>_. None" sample_config "quiet 5 repo_db"] by blast
  then show ?thesis ..
qed

section \<open>Reservations and rotation\<close>

lemma min_useful_of:
  assumes "0 \<le> ctx" "ctx \<le> i64_max"
  shows "min_useful ctx = max 25000 ctx"
  using assms
  by (simp add: min_useful_def MIN_PROGRESS_TOKENS_def MIN_START_EFFICIENCY_def trunc_i64_def i64_min_def)

text \<open>No attempt is reserved mostly to load its context: a resumed attempt reserves at least as much
for work as for its context, and at least 25,000 tokens of work; a cold one reserves at least 40,000
tokens and never less than its history; and a chain that has spent nothing reserves at least its
typical cost on top of its context.\<close>

theorem reservation_funds_work:
  assumes "0 \<le> ctx" "ctx \<le> i64_max"
  shows "resume_reservation ctx z chain_spent - ctx \<ge> max ctx 25000 \<and>
    resume_reservation ctx z chain_spent \<ge> ctx + (z - chain_spent) \<and>
    cold_reservation history \<ge> max history 40000"
  using assms min_useful_of [OF assms] min_useful_of [of 15000]
  by (auto simp: resume_reservation_def cold_reservation_def START_CONTEXT_FLOOR_TOKENS_def i64_max_def)

theorem reservation_funds_work_witness:
  "resume_reservation 100000 60000 80000 - 100000 \<ge> max 100000 25000"
  using reservation_funds_work [of 100000 60000 80000 0] by (simp add: i64_max_def)

fun kind_last :: "repo_job_kind \<Rightarrow> repo \<Rightarrow> millis" where
  "kind_last RHunt r = unwrap_or (r_last_hunt_at r) 0"
| "kind_last RTestGap r = unwrap_or (r_last_test_gap_at r) 0"
| "kind_last RDepUpdate r = unwrap_or (r_last_dep_update_at r) 0"
| "kind_last RRefactor r = unwrap_or (r_last_refactor_at r) 0"
| "kind_last RModernization r = unwrap_or (r_last_modernization_at r) 0"
| "kind_last RStandards r = unwrap_or (r_last_standards_at r) 0"

definition kind_due :: "config \<Rightarrow> repo \<Rightarrow> millis \<Rightarrow> repo_job_kind \<Rightarrow> bool" where
  "kind_due cfg r now k \<longleftrightarrow>
     kind_last k r = 0 \<or>
     (case k of
        RModernization \<Rightarrow> cf_modernization_interval_days cfg * MS_PER_DAY
      | RStandards \<Rightarrow> cf_standards_interval_days cfg * MS_PER_DAY
      | _ \<Rightarrow> trunc_i64 (cf_scan_interval_days cfg * of_int MS_PER_DAY)) \<le> now - kind_last k r"

lemma job_times_due:
  "set (job_times cfg r now) = {(k, kind_last k r) | k. kind_due cfg r now k}"
proof -
  have "(k, t) \<in> set (job_times cfg r now) \<longleftrightarrow> t = kind_last k r \<and> kind_due cfg r now k" for k t
    by (cases k)
      (auto simp: job_times_def kind_due_def Let_def List.map_filter_simps MS_PER_DAY_def split: if_splits)
  then show ?thesis by auto
qed

text \<open>Rotation is fair: nothing is picked only when no scan of the repository is due; a picked scan is
due, is one that never ran if any such scan exists, and otherwise has waited at least as long as
every other due scan.\<close>

theorem rotation_picks_longest_due:
  "case rotation_kind cfg r now of
     None \<Rightarrow> \<not> (\<exists>k. kind_due cfg r now k)
   | Some k \<Rightarrow> kind_due cfg r now k \<and>
       \<not> (\<exists>k'. kind_due cfg r now k' \<and> kind_last k r \<noteq> 0 \<and>
             (kind_last k' r = 0 \<or> kind_last k' r < kind_last k r))"
proof -
  let ?ts = "job_times cfg r now"
  show ?thesis
  proof (cases "find (\<lambda>(_, last). last = 0) ?ts")
    case (Some kt)
    obtain k t where kt: "kt = (k, t)" by (cases kt)
    have "(k, t) \<in> set ?ts" "t = 0" using find_Some_set [OF Some] kt by auto
    then show ?thesis using Some kt by (auto simp: rotation_kind_def Let_def job_times_due)
  next
    case None
    then have nz: "kind_last k r \<noteq> 0" if "kind_due cfg r now k" for k
      using that by (auto simp: find_None_iff job_times_due)
    show ?thesis
    proof (cases "min_by_key snd ?ts")
      case None
      with \<open>find _ _ = None\<close> show ?thesis
        using job_times_due [of cfg r now] by (auto simp: rotation_kind_def Let_def)
    next
      case (Some kt)
      obtain k t where kt: "kt = (k, t)" by (cases kt)
      from min_by_key_Some [OF Some] have "(k, t) \<in> set ?ts" "\<And>x. x \<in> set ?ts \<Longrightarrow> t \<le> snd x"
        using kt by auto
      then show ?thesis
        using \<open>find _ _ = None\<close> Some kt nz
        by (fastforce simp: rotation_kind_def Let_def job_times_due)
    qed
  qed
qed

section \<open>The resume tier drains\<close>

definition pool :: "db \<Rightarrow> int set" where
  "pool d = j_id ` {j \<in> set (db_jobs d). resumable d j}"

lemma resumable_cong:
  assumes "\<And>rid. live_repo d' rid = live_repo d rid" "\<And>k. has_successor d' k = has_successor d k"
    "db_findings d' = db_findings d"
  shows "resumable d' j = resumable d j"
  by (simp add: resumable_def kind_offered_def assms split: job_kind.split)

lemma pool_log_event [simp]: "pool (log_event now k m j f d) = pool d"
proof -
  have "resumable (log_event now k m j f d) = resumable d"
    by (intro ext resumable_cong) (simp_all add: live_repo_def has_successor_def frame_simps)
  then show ?thesis by (simp add: pool_def frame_simps)
qed

lemma live_log_event [simp]: "live_repo (log_event now k m j f d) = live_repo d"
  by (simp add: fun_eq_iff live_repo_def frame_simps)

lemma live_upd_repos:
  assumes "\<And>r. r_id (h r) = r_id r" "\<And>r. r_deleted_at (h r) = r_deleted_at r"
  shows "live_repo (upd_repos P h d) rid = live_repo d rid"
  unfolding live_repo_def upd_repos_frame set_update_where bex_simps(7)
  by (simp add: assms if_distrib [of r_id] if_distrib [of r_deleted_at])

lemma set_last_kind_pool [simp]:
  "live_repo (set_last_kind_at now rid k d) = live_repo d" "pool (set_last_kind_at now rid k d) = pool d"
proof -
  have keep: "r_id (stamp_kind now k r) = r_id r" "r_deleted_at (stamp_kind now k r) = r_deleted_at r" for r
    by (cases k; simp)+
  have live: "live_repo (set_last_kind_at now rid k d) = live_repo d"
    unfolding set_last_kind_at_def upd_repo_def by (intro ext live_upd_repos keep)
  moreover have "resumable (set_last_kind_at now rid k d) = resumable d"
    by (intro ext resumable_cong, rule fun_cong [OF live])
      (simp_all add: has_successor_def set_last_kind_at_def upd_repo_def frame_simps)
  ultimately show "live_repo (set_last_kind_at now rid k d) = live_repo d"
    "pool (set_last_kind_at now rid k d) = pool d"
    by (simp_all add: pool_def set_last_kind_at_def upd_repo_def frame_simps)
qed

lemma retire_pool [simp]:
  assumes "st \<noteq> JSuspended"
  shows "live_repo (retire_suspended_job jid st killed notes d) = live_repo d"
    and "pool (retire_suspended_job jid st killed notes d) = pool d - {jid}"
proof -
  let ?d = "retire_suspended_job jid st killed notes d"
  let ?f = "\<lambda>j. j\<lparr>j_state := st, j_killed_reason := coalesce killed (j_killed_reason j), j_notes := Some notes\<rparr>"
  show live: "live_repo ?d = live_repo d"
    by (simp add: fun_eq_iff live_repo_def retire_suspended_job_def frame_simps)
  have res: "resumable ?d = resumable d"
    by (intro ext resumable_cong, rule fun_cong [OF live])
      (simp_all add: retire_suspended_job_def retire_job_def frame_simps)
  have rows: "set (db_jobs ?d) = (\<lambda>j. if j_id j = jid then ?f j else j) ` set (db_jobs d)"
    by (simp add: retire_suspended_job_def retire_job_def frame_simps set_update_where)
  have "\<not> resumable d (?f j)" for j using assms by (simp add: resumable_def)
  then show "pool ?d = pool d - {jid}"
    unfolding pool_def rows res by auto
qed

text \<open>One suspension, while no call fails: continued, or out of the pool.\<close>

definition calm :: "world \<Rightarrow> bool" where
  "calm w \<longleftrightarrow> (\<forall>n. w_fault w n = None)"

lemma calm_simps [simp]: "calm (tick w) = calm w" "calm (put_db d w) = calm w"
  by (simp_all add: calm_def)

lemma calmD [simp]: "calm w \<Longrightarrow> w_fault w n = None"
  by (simp add: calm_def)

lemma retire_gone_drains:
  assumes "calm w"
  shows "wp (retire_gone Run j name ws) (\<lambda>v w'. calm w' \<and> live_repo (w_db w') = live_repo (w_db w) \<and>
    pool (w_db w') = pool (w_db w) - {j_id j}) w"
  using assms by (simp add: retire_gone_def Let_def wp_simps)

lemma give_up_drains:
  assumes "calm w"
  shows "wp (give_up Run j name z chain) (\<lambda>v w'. calm w' \<and> live_repo (w_db w') = live_repo (w_db w) \<and>
    pool (w_db w') = pool (w_db w) - {j_id j}) w"
  using assms by (simp add: give_up_def Let_def wp_simps split: job_kind.split)

lemma anticipated_calm:
  "calm w \<Longrightarrow> wp (anticipated_tokens cfg rid kind) (\<lambda>_ w'. calm w' \<and> w_db w' = w_db w) w"
  by (simp add: anticipated_tokens_def Let_def wp_simps)

lemma within_ceiling_drains:
  assumes "calm w"
  shows "wp (within_ceiling ctx_of cfg Run j r origin session ws sha) (\<lambda>v w'.
    (\<exists>plan. v = Inr (Continue plan)) \<or> calm w' \<and> live_repo (w_db w') = live_repo (w_db w) \<and>
    pool (w_db w') = pool (w_db w) - {j_id j}) w"
  unfolding within_ceiling_def Let_def wp_bind
  by (rule wp_mono [OF anticipated_calm [OF assms]])
    (auto simp: wp_simps intro!: wp_mono [OF give_up_drains])

lemma get_live_repo: "live_repo d rid \<Longrightarrow> \<exists>r. get_repo_by_id rid d = Some r"
  by (cases "get_repo_by_id rid d") (auto simp: live_repo_def get_repo_by_id_def find_None_iff)

lemma resume_plan_drains:
  assumes "calm w" "live_repo (w_db w) (j_repo_id j)" "j_session_file j \<noteq> None"
  shows "wp (resume_plan_of ctx_of cfg j Run) (\<lambda>v w'.
    (\<exists>plan. v = Inr (Continue plan)) \<or> calm w' \<and> live_repo (w_db w') = live_repo (w_db w) \<and>
    pool (w_db w') = pool (w_db w) - {j_id j}) w"
proof -
  obtain session r where "j_session_file j = Some session" "get_repo_by_id (j_repo_id j) (w_db w) = Some r"
    using assms(3) get_live_repo [OF assms(2)] by auto
  with assms(1) show ?thesis
    unfolding resume_plan_of_def Let_def
    by (auto simp: wp_simps intro!: wp_mono [OF retire_gone_drains] wp_mono [OF within_ceiling_drains]
        split: option.split)
qed

text \<open>The resume tier leaves nothing behind: while the store answers, a walk that continues no
suspension has retired every one of them, so a hopeless suspension is looked at once and can never
keep the rotation below it from running.\<close>

theorem resume_tier_drains:
  assumes "calm w" "run_state (pick_resume ctx_of cfg None Run) w = (Inr None, w')"
  shows "list_resumable_jobs (w_db w') = []"
proof -
  let ?one = "\<lambda>j. and_then (resume_plan_of ctx_of cfg j Run) (\<lambda>v. ok (case v of
       Continue plan \<Rightarrow> Some (Resume_work (if rp_repo plan = [] then None else Some (rp_repo plan)) None plan)
     | _ \<Rightarrow> None))"
  have walk: "wp (first_of ?one js) (\<lambda>r w'. r = Inr None \<longrightarrow> pool (w_db w') = pool (w_db w1) - j_id ` set js) w1"
    if "calm w1" "\<And>j. j \<in> set js \<Longrightarrow> live_repo (w_db w1) (j_repo_id j) \<and> j_session_file j \<noteq> None" for js w1
    using that
  proof (induction js arbitrary: w1)
    case (Cons j js)
    have "calm w1" "live_repo (w_db w1) (j_repo_id j)" "j_session_file j \<noteq> None"
      using Cons.prems by auto
    note plan = resume_plan_drains [OF this]
    show ?case
      unfolding first_of.simps wp_and_then
      by (rule wp_mono [OF plan])
        (use Cons in \<open>auto simp: wp_simps split: sum.split resumability.split intro!: wp_mono [OF Cons.IH]\<close>)
  qed (simp add: wp_simps)
  let ?js = "list_resumable_jobs (w_db w)"
  have js: "live_repo (w_db w) (j_repo_id j) \<and> j_session_file j \<noteq> None" if "j \<in> set ?js" for j
    using that by (auto simp: list_resumable_jobs_def resumable_def)
  have "wp (pick_resume ctx_of cfg None Run) (\<lambda>r w'. r = Inr None \<longrightarrow> pool (w_db w') = pool (w_db w) - j_id ` set ?js) w"
    unfolding pick_resume_def using assms(1) walk [of "tick w" ?js] js
    by (simp add: wp_simps)
  with assms(2) have "pool (w_db w') = pool (w_db w) - j_id ` set ?js" by (simp add: wp_def)
  also have "\<dots> = {}" by (auto simp: pool_def list_resumable_jobs_def)
  finally show ?thesis
    by (auto simp: pool_def list_resumable_jobs_def filter_empty_conv)
qed

lemma parked_drained:
  "wp (pick_resume ctx_of cfg None Run) (\<lambda>r _. r = Inr None) (quiet 5 parked_db)"
proof -
  have "list_resumable_jobs parked_db = [parked_job]"
    using parked_resumable by (simp add: list_resumable_jobs_def parked_db_def)
  moreover have "get_repo_by_id (j_repo_id parked_job) parked_db = Some sample_repo"
    "pinned_sha (j_id parked_job) parked_db = None" "j_session_file parked_job = Some ''s.jsonl''"
    by (simp_all add: get_repo_by_id_def pinned_sha_def get_job_def parked_db_def parked_job_def job_db_def
        repo_db_def sample_job_def sample_repo_def new_job_def Let_def)
  ultimately show ?thesis
    by (simp add: pick_resume_def wp_simps resume_plan_of_def retire_gone_def Let_def)
qed

theorem resume_tier_drains_witness:
  "\<exists>w'. run_state (pick_resume (\<lambda>_. None) sample_config None Run) (quiet 5 parked_db) = (Inr None, w') \<and>
     list_resumable_jobs (w_db w') = []"
proof -
  obtain r w' where run: "run_state (pick_resume (\<lambda>_. None) sample_config None Run) (quiet 5 parked_db) = (r, w')"
    by fastforce
  then have "r = Inr None" using parked_drained [of "\<lambda>_. None" sample_config] by (simp add: wp_def)
  moreover have "calm (quiet 5 parked_db)" by (simp add: calm_def)
  ultimately show ?thesis
    using run resume_tier_drains [of "quiet 5 parked_db" "\<lambda>_. None" sample_config w'] by blast
qed

end
