(* ===== verification/Workspace.thy ===== *)
theory Workspace
  imports Select
begin

text \<open>
Per-chain workspaces (\<open>workspace.rs\<close>, and \<open>open_workspace\<close> and \<open>close_workspace\<close> of
\<open>scheduler.rs\<close>): making a chain's tree, releasing it once the job table says the chain is
finished, and the sweep that reclaims what is left on disk.

Git is the world's shell: what a command prints and does to the disk is the parameter \<open>w_shell\<close>.
What the removals may touch is proved in \<open>Sweep\<close>.

\<open>tree_in_use\<close>, which reads /proc, and the once-per-lifetime log line are not modelled.
\<close>

section \<open>Git\<close>

definition git :: "string list \<Rightarrow> (int \<times> string) act" where
  "git argv = shell argv"

text \<open>\<open>missing_worktrees\<close> is lazy: each path is looked at after the one before it was unlocked.\<close>

fun unlock_missing :: "string \<Rightarrow> string list \<Rightarrow> unit act" where
  "unlock_missing clone [] = State_Monad.return ()"
| "unlock_missing clone (path # rest) = do {
     there \<leftarrow> look (\<lambda>w. path_exists w path);
     (if there then unlock_missing clone rest
      else do {
        _ \<leftarrow> git [''git'', ''-C'', clone, ''worktree'', ''unlock'', path];
        unlock_missing clone rest })
   }"

definition worktree_paths :: "string \<Rightarrow> string list" where
  "worktree_paths porcelain =
     List.map_filter (strip_prefix ''worktree '') (split_on (CHR 0x00) porcelain)"

definition prune_worktrees :: "string \<Rightarrow> unit act" where
  "prune_worktrees clone = do {
     (rc, out) \<leftarrow> git [''git'', ''-C'', clone, ''worktree'', ''list'', ''--porcelain'', ''-z''];
     _ \<leftarrow> (if rc = 0 then unlock_missing clone (worktree_paths out) else State_Monad.return ());
     _ \<leftarrow> git [''git'', ''-C'', clone, ''worktree'', ''prune''];
     State_Monad.return ()
   }"

definition resolve_rev :: "string \<Rightarrow> string \<Rightarrow> string option act" where
  "resolve_rev clone revision = do {
     (rc, out) \<leftarrow> git [''git'', ''-C'', clone, ''rev-parse'', ''--verify'', ''--quiet'', revision @ ''^{commit}''];
     State_Monad.return (if rc = 0 \<and> trim out \<noteq> [] then Some (trim out) else None)
   }"

section \<open>Making a tree\<close>

datatype tree_spec = Detached string | Branch string string | PrHead string

definition failed :: "string \<Rightarrow> string \<Rightarrow> string" where
  "failed what out = what @ '' failed: '' @ tail out 300"

definition commit :: "workspace \<Rightarrow> string \<Rightarrow> string io" where
  "commit ws revision = do {
     sha \<leftarrow> resolve_rev (ws_clone ws) revision;
     (case sha of Some s \<Rightarrow> ok s | None \<Rightarrow> err (revision @ '' does not resolve to a commit''))
   }"

definition add_tree :: "workspace \<Rightarrow> tree_spec \<Rightarrow> string io" where
  "add_tree ws spec =
     (let c = ws_clone ws; t = ws_tree ws in
      case spec of
        Detached at_rev \<Rightarrow>
          and_then (commit ws at_rev) (\<lambda>sha. do {
            (rc, out) \<leftarrow> git [''git'', ''-C'', c, ''worktree'', ''add'', ''--detach'', t, sha];
            (if rc \<noteq> 0 then err (failed ''worktree add'' out) else ok sha) })
      | Branch name at_rev \<Rightarrow>
          and_then (commit ws at_rev) (\<lambda>sha.
            (let add = git [''git'', ''-C'', c, ''worktree'', ''add'', ''-b'', name, t, sha]
             in do {
               (rc, _) \<leftarrow> add;
               (if rc = 0 then ok sha
                else do {
                  _ \<leftarrow> remove_dir_all t;
                  _ \<leftarrow> prune_worktrees c;
                  _ \<leftarrow> git [''git'', ''-C'', c, ''branch'', ''-D'', name];
                  (rc, out) \<leftarrow> add;
                  (if rc \<noteq> 0 then err (failed ''worktree add'' out) else ok sha) })
             }))
      | PrHead head_ref \<Rightarrow>
          and_then (commit ws (''origin/'' @ head_ref)) (\<lambda>sha. do {
            (rc, out) \<leftarrow> git [''git'', ''-C'', c, ''worktree'', ''add'', ''--detach'', t, sha];
            (if rc \<noteq> 0 then err (failed ''worktree add'' out)
             else do {
               _ \<leftarrow> git [''git'', ''-C'', t, ''checkout'', ''-B'', head_ref, ''origin/'' @ head_ref];
               ok sha }) }))"

definition release_tree :: "workspace \<Rightarrow> unit act" where
  "release_tree ws = do {
     cloned \<leftarrow> look (\<lambda>w. is_dir w (ws_clone ws));
     there \<leftarrow> look (\<lambda>w. path_exists w (ws_tree ws));
     _ \<leftarrow> (if there then do {
             _ \<leftarrow> (if cloned
                   then ignore (do { r \<leftarrow> git [''git'', ''-C'', ws_clone ws, ''worktree'', ''remove'', ''--force'', ws_tree ws];
                                     ok r })
                   else State_Monad.return ());
             still \<leftarrow> look (\<lambda>w. path_exists w (ws_tree ws));
             (if still then ignore (remove_dir_all (ws_tree ws)) else State_Monad.return ())
           } else State_Monad.return ());
     (if cloned then prune_worktrees (ws_clone ws) else State_Monad.return ())
   }"

definition create :: "workspace \<Rightarrow> tree_spec \<Rightarrow> string io" where
  "create ws spec = do {
     there \<leftarrow> look (\<lambda>w. path_exists w (ws_root ws));
     (if there then err (''workspace '' @ ws_root ws @ '' already exists'')
      else do {
        made_dir \<leftarrow> create_dir_all (ws_session ws);
        (case made_dir of
           Inl e \<Rightarrow> do {
             _ \<leftarrow> remove_dir_all (ws_root ws);
             err (''cannot create '' @ ws_session ws @ '': '' @ e) }
         | Inr _ \<Rightarrow> do {
             made \<leftarrow> add_tree ws spec;
             _ \<leftarrow> (if \<not> is_ok made then do {
                     _ \<leftarrow> release_tree ws;
                     _ \<leftarrow> remove_dir_all (ws_root ws);
                     State_Monad.return () }
                   else State_Monad.return ());
             State_Monad.return made }) })
   }"

definition release_if_idle :: "workspace \<Rightarrow> bool io" where
  "release_if_idle ws =
     and_then (query (chain_status (ws_origin_id ws))) (\<lambda>status.
       if 0 < cst_live status then ok False
       else do { _ \<leftarrow> release_tree ws; ok True })"

section \<open>The scan tree\<close>

record scan_tree =
  sc_path :: string
  sc_clone :: string

definition scan_root :: "string \<Rightarrow> string" where
  "scan_root work_root = path_join work_root ''scan''"

definition scan_discard :: "scan_tree \<Rightarrow> unit act" where
  "scan_discard tree = do {
     there \<leftarrow> look (\<lambda>w. path_exists w (sc_path tree));
     _ \<leftarrow> (if there then do {
             _ \<leftarrow> git [''git'', ''-C'', sc_clone tree, ''worktree'', ''remove'', ''--force'', sc_path tree];
             ignore (remove_dir_all (sc_path tree))
           } else State_Monad.return ());
     cloned \<leftarrow> look (\<lambda>w. is_dir w (sc_clone tree));
     (if cloned then prune_worktrees (sc_clone tree) else State_Monad.return ())
   }"

definition scan_create :: "string \<Rightarrow> string \<Rightarrow> int \<Rightarrow> string \<Rightarrow> scan_tree io" where
  "scan_create work_root clone repo_id at_rev =
     (let tree = \<lparr>sc_path = path_join (scan_root work_root) (''repo-'' @ show_int repo_id), sc_clone = clone\<rparr>
      in do {
        _ \<leftarrow> scan_discard tree;
        _ \<leftarrow> ignore (create_dir_all (scan_root work_root));
        (rc, out) \<leftarrow> git [''git'', ''-C'', clone, ''worktree'', ''add'', ''--detach'', sc_path tree, at_rev];
        (if rc \<noteq> 0 then do {
           _ \<leftarrow> scan_discard tree;
           err (''scan worktree add failed: '' @ tail out 300) }
         else ok tree) })"

section \<open>A job's workspace\<close>

fun release_superseded :: "config \<Rightarrow> string \<Rightarrow> int list \<Rightarrow> unit io" where
  "release_superseded cfg clone [] = ok ()"
| "release_superseded cfg clone (old # olds) =
     and_then (query (resume_origin_job old)) (\<lambda>origin.
     and_then (release_if_idle (for_chain (cf_work_root cfg) clone origin)) (\<lambda>_.
       release_superseded cfg clone olds))"

definition open_workspace ::
  "config \<Rightarrow> repo \<Rightarrow> int \<times> int list \<Rightarrow> resume_plan option \<Rightarrow> tree_spec \<Rightarrow> job_kind \<Rightarrow> string \<Rightarrow>
   int option \<Rightarrow> (cycle_summary + workspace \<times> string) io" where
  "open_workspace cfg r created resume spec kind log_prefix finding_id =
     (case resume of
        Some plan \<Rightarrow> ok (Inr (rp_workspace plan, rp_pinned_sha plan))
      | None \<Rightarrow>
          and_then (release_superseded cfg (r_path r) (snd created)) (\<lambda>_.
          (let ws = for_chain (cf_work_root cfg) (r_path r) (fst created)
           in do {
             made \<leftarrow> create ws spec;
             (case made of
                Inr sha \<Rightarrow>
                  and_then (exec (\<lambda>_. set_pinned_sha (fst created) sha)) (\<lambda>_. ok (Inr (ws, sha)))
              | Inl why \<Rightarrow>
                  (let note = TREE_NOT_MADE @ '': '' @ why
                   in and_then (exec (\<lambda>now. fail_unstarted_job now (fst created) note)) (\<lambda>_. do {
                        _ \<leftarrow> event ''error'' (log_prefix @ '': job '' @ show_int (fst created) @ '' '' @ note)
                              (Some (fst created)) finding_id;
                        ok (Inl (no_summary\<lparr>cs_kind := Some kind, cs_repo := Some (r_name r),
                          cs_finding_id := finding_id, cs_job_id := Some (fst created),
                          cs_state := Some JFailed, cs_failure := Some note\<rparr>)) })))
           })))"

definition close_workspace :: "workspace \<Rightarrow> unit act" where
  "close_workspace ws = ignore (release_if_idle ws)"

section \<open>The sweep\<close>

definition SESSION_RETENTION_MS :: int where "SESSION_RETENTION_MS = 30 * 86400000"

record sweep_report =
  sw_trees_released :: nat
  sw_workspaces_removed :: nat
  sw_legacy_trees_removed :: nat
  sw_legacy_trees_kept :: nat
  sw_legacy_sessions_removed :: nat

definition no_report :: sweep_report where
  "no_report = \<lparr>sw_trees_released = 0, sw_workspaces_removed = 0, sw_legacy_trees_removed = 0,
     sw_legacy_trees_kept = 0, sw_legacy_sessions_removed = 0\<rparr>"

definition numbered_dirs :: "string \<Rightarrow> disk \<Rightarrow> (int \<times> string) list" where
  "numbered_dirs dir k =
     List.map_filter (\<lambda>p. map_option (\<lambda>i. (i, p)) (parse_i64 (file_name p))) (child_dirs dir k)"

definition past_retention :: "millis \<Rightarrow> millis option \<Rightarrow> bool" where
  "past_retention now finished = (case finished of Some t \<Rightarrow> SESSION_RETENTION_MS < now - t | None \<Rightarrow> False)"

definition sweep_chain :: "string \<Rightarrow> millis \<Rightarrow> int \<times> string \<Rightarrow> sweep_report \<Rightarrow> sweep_report io" where
  "sweep_chain work_root now entry report =
     (let (origin_id, r) = entry
      in and_then (query (chain_status origin_id)) (\<lambda>status.
           if 0 < cst_live status then ok report
           else
             (let ws = for_chain work_root (unwrap_or (cst_clone status) []) origin_id
              in do {
                mtime \<leftarrow> look (\<lambda>w. k_mtime (w_disk w) r);
                let expired = past_retention now (opt_or (cst_last_finished_at status) mtime);
                had_tree \<leftarrow> look (\<lambda>w. path_exists w (ws_tree ws));
                _ \<leftarrow> release_tree ws;
                _ \<leftarrow> (if expired then ignore (remove_dir_all (ws_root ws)) else State_Monad.return ());
                gone \<leftarrow> look (\<lambda>w. \<not> path_exists w r);
                ok (report\<lparr>sw_trees_released := sw_trees_released report + of_bool had_tree,
                       sw_workspaces_removed := sw_workspaces_removed report + of_bool (expired \<and> gone)\<rparr>)
              })))"

fun sweep_each :: "('e \<Rightarrow> sweep_report \<Rightarrow> sweep_report io) \<Rightarrow> 'e list \<Rightarrow> sweep_report \<Rightarrow> sweep_report io" where
  "sweep_each f [] report = ok report"
| "sweep_each f (e # es) report = and_then (f e report) (sweep_each f es)"

definition sweep_chains :: "string \<Rightarrow> millis \<Rightarrow> sweep_report \<Rightarrow> sweep_report io" where
  "sweep_chains work_root now report = do {
     dirs \<leftarrow> look (\<lambda>w. numbered_dirs (jobs_root work_root) (w_disk w));
     sweep_each (sweep_chain work_root now) dirs report
   }"

text \<open>The layouts before this one: finding-keyed trees and per-run session directories.\<close>

definition live_jobs :: "db \<Rightarrow> job list" where
  "live_jobs d = filter (\<lambda>j. j_state j = JRunning \<or> j_state j = JSuspended) (db_jobs d)"

definition jobs_with_session_under :: "string \<Rightarrow> db \<Rightarrow> (string \<times> job_state \<times> millis option) list" where
  "jobs_with_session_under dir d =
     List.map_filter
       (\<lambda>j. case j_session_file j of
              Some f \<Rightarrow> if take (length dir) f = dir then Some (f, j_state j, j_finished_at j) else None
            | None \<Rightarrow> None)
       (db_jobs d)"

definition legacy_wt_name :: "job_kind \<Rightarrow> int option \<Rightarrow> string option" where
  "legacy_wt_name kind finding_id =
     Option.bind
       (case kind of
          Finding_kind FFix \<Rightarrow> Some (CHR ''f'')
        | Finding_kind FEngage \<Rightarrow> Some (CHR ''e'')
        | Finding_kind FHarvest \<Rightarrow> Some (CHR ''h'')
        | _ \<Rightarrow> None)
       (\<lambda>prefix. map_option (\<lambda>fid. prefix # show_int fid) finding_id)"

definition remove_legacy_tree :: "string \<Rightarrow> unit act" where
  "remove_legacy_tree p = do {
     linked \<leftarrow> look (\<lambda>w. path_exists w (path_join p ''.git''));
     _ \<leftarrow> (if linked then do {
             (rc, out) \<leftarrow> git [''git'', ''-C'', p, ''rev-parse'', ''--path-format=absolute'', ''--git-common-dir''];
             (case (rc = 0, parent_dir (trim out)) of
                (True, Some clone) \<Rightarrow> do {
                  _ \<leftarrow> git [''git'', ''-C'', clone, ''worktree'', ''remove'', ''--force'', p];
                  State_Monad.return () }
              | _ \<Rightarrow> State_Monad.return ())
           } else State_Monad.return ());
     there \<leftarrow> look (\<lambda>w. path_exists w p);
     (if there then ignore (remove_dir_all p) else State_Monad.return ())
   }"

definition in_legacy_use :: "job list \<Rightarrow> string \<Rightarrow> bool" where
  "in_legacy_use live entry \<longleftrightarrow>
     list_ex (\<lambda>j. (case j_session_file j of Some sf \<Rightarrow> path_starts_with sf entry | None \<Rightarrow> False) \<or>
                  legacy_wt_name (j_kind j) (j_finding_id j) = Some (file_name entry)) live"

definition sweep_legacy_tree :: "job list \<Rightarrow> string \<Rightarrow> sweep_report \<Rightarrow> sweep_report io" where
  "sweep_legacy_tree live entry report =
     (if in_legacy_use live entry
      then ok (report\<lparr>sw_legacy_trees_kept := Suc (sw_legacy_trees_kept report)\<rparr>)
      else do {
        _ \<leftarrow> remove_legacy_tree entry;
        gone \<leftarrow> look (\<lambda>w. \<not> path_exists w entry);
        ok (report\<lparr>sw_legacy_trees_removed := sw_legacy_trees_removed report + of_bool gone\<rparr>) })"

definition sweep_legacy_trees :: "string \<Rightarrow> sweep_report \<Rightarrow> sweep_report io" where
  "sweep_legacy_trees work_root report =
     (let wt_root = path_join work_root ''wt''
      in do {
        entries \<leftarrow> look (\<lambda>w. child_dirs wt_root (w_disk w));
        (if entries = [] then do { _ \<leftarrow> remove_empty_dir wt_root; ok report }
         else and_then (query live_jobs) (\<lambda>live.
              and_then (sweep_each (sweep_legacy_tree live) entries report) (\<lambda>report'. do {
                _ \<leftarrow> remove_empty_dir wt_root;
                ok report' }))) })"

definition run_dir_of :: "string \<Rightarrow> string \<Rightarrow> string" where
  "run_dir_of prefix session_file = hd (split_on (CHR ''/'') (drop (length prefix) session_file))"

definition sweep_legacy_session ::
  "millis \<Rightarrow> string \<Rightarrow> (string \<times> job_state \<times> millis option) list \<Rightarrow> string \<Rightarrow> sweep_report \<Rightarrow> sweep_report io" where
  "sweep_legacy_session now prefix refs dir report =
     (let jobs = map snd (filter (\<lambda>r. run_dir_of prefix (fst r) = file_name dir) refs)
      in if list_ex (\<lambda>(s, _). s = JRunning \<or> s = JSuspended) jobs then ok report
         else do {
           mtime \<leftarrow> look (\<lambda>w. k_mtime (w_disk w) dir);
           (if past_retention now (opt_or (max_col (map snd jobs)) mtime) then do {
              _ \<leftarrow> remove_dir_all dir;
              gone \<leftarrow> look (\<lambda>w. \<not> path_exists w dir);
              ok (report\<lparr>sw_legacy_sessions_removed := sw_legacy_sessions_removed report + of_bool gone\<rparr>) }
            else ok report) })"

definition sweep_legacy_sessions :: "string \<Rightarrow> millis \<Rightarrow> sweep_report \<Rightarrow> sweep_report io" where
  "sweep_legacy_sessions work_root now report =
     (let sessions_root = path_join work_root ''sessions''; prefix = sessions_root @ ''/''
      in do {
        dirs \<leftarrow> look (\<lambda>w. child_dirs sessions_root (w_disk w));
        (if dirs = [] then do { _ \<leftarrow> remove_empty_dir sessions_root; ok report }
         else and_then (query (jobs_with_session_under prefix)) (\<lambda>refs.
              and_then (sweep_each (sweep_legacy_session now prefix refs) dirs report) (\<lambda>report'. do {
                _ \<leftarrow> remove_empty_dir sessions_root;
                ok report' }))) })"

fun for_each :: "('e \<Rightarrow> unit act) \<Rightarrow> 'e list \<Rightarrow> unit act" where
  "for_each f [] = State_Monad.return ()"
| "for_each f (e # es) = do { _ \<leftarrow> f e; for_each f es }"

definition prune_clones_and_scans :: "string \<Rightarrow> unit io" where
  "prune_clones_and_scans work_root =
     and_then (query list_repos) (\<lambda>repos. do {
       clones \<leftarrow> look (\<lambda>w. filter (is_dir w) (map r_path repos));
       scans \<leftarrow> look (\<lambda>w. child_dirs (scan_root work_root) (w_disk w));
       _ \<leftarrow> for_each remove_legacy_tree scans;
       _ \<leftarrow> for_each prune_worktrees clones;
       ok () })"

definition sweep :: "string \<Rightarrow> millis \<Rightarrow> sweep_report io" where
  "sweep work_root now =
     and_then (call retire_stranded_suspensions) (\<lambda>_.
     and_then (sweep_chains work_root now no_report) (\<lambda>report.
     and_then (sweep_legacy_trees work_root report) (\<lambda>report.
     and_then (sweep_legacy_sessions work_root now report) (\<lambda>report.
     and_then (prune_clones_and_scans work_root) (\<lambda>_. ok report)))))"

end
