(* ===== verification/Sweep.thy ===== *)
theory Sweep
  imports Workspace Selection
begin

text \<open>
What the sweep of \<open>workspace.rs\<close> may touch: under any schedule of failures a chain with a
running attempt, or a suspension nothing has continued, keeps every path of its workspace.
\<open>touches_outside\<close> is the invariant carried through the pass: what lies under one chain's root is as it was.
\<close>

section \<open>Git on the disk\<close>

definition same_at :: "string \<Rightarrow> disk \<Rightarrow> disk \<Rightarrow> bool" where
  "same_at q k k' \<longleftrightarrow> (q \<in> set (k_dirs k) \<longleftrightarrow> q \<in> set (k_dirs k')) \<and> k_files k q = k_files k' q"

text \<open>Git keeps its own books inside \<open>.git\<close> directories.\<close>

definition in_git_dir :: "string \<Rightarrow> bool" where
  "in_git_dir q \<longleftrightarrow> ''.git'' \<in> set (butlast (components q))"

definition git_confined :: "shell \<Rightarrow> bool" where
  "git_confined sh \<longleftrightarrow>
     (\<forall>n c t k q. \<not> in_git_dir q \<longrightarrow> \<not> path_starts_with q t \<longrightarrow>
        same_at q (snd (sh n None [''git'', ''-C'', c, ''worktree'', ''remove'', ''--force'', t] k)) k) \<and>
     (\<forall>n c p k q. \<not> in_git_dir q \<longrightarrow>
        same_at q (snd (sh n None [''git'', ''-C'', c, ''worktree'', ''list'', ''--porcelain'', ''-z''] k)) k \<and>
        same_at q (snd (sh n None [''git'', ''-C'', c, ''worktree'', ''unlock'', p] k)) k \<and>
        same_at q (snd (sh n None [''git'', ''-C'', c, ''worktree'', ''prune''] k)) k \<and>
        same_at q (snd (sh n None [''git'', ''-C'', c, ''rev-parse'', ''--path-format=absolute'', ''--git-common-dir''] k)) k)"

lemma same_at_refl [simp]: "same_at q k k"
  by (simp add: same_at_def)

lemma same_at_trans: "same_at q k k' \<Longrightarrow> same_at q k' k'' \<Longrightarrow> same_at q k k''"
  by (simp add: same_at_def)

section \<open>Names of chains\<close>

lemma show_int_inject [simp]: "show_int i = show_int j \<longleftrightarrow> i = j"
proof
  have digit: "show_nat n \<noteq> CHR ''-'' # s" for n s
    using show_nat_hd_digit [of n] by (auto simp: is_ascii_digit_def byte_def)
  have inj: "show_nat m = show_nat n \<Longrightarrow> m = n" for m n
    by (metis digits_value_show_nat)
  assume "show_int i = show_int j"
  then show "i = j"
    by (auto simp: show_int_def digit digit [symmetric] split: if_splits dest!: inj)
qed simp

lemma show_int_plain: "plain_name (show_int i)"
proof -
  have c: "c \<in> set (show_nat n) \<Longrightarrow> c \<noteq> CHR ''/'' \<and> c \<noteq> CHR ''.''" for c n
    using show_nat_digits [of n] by (auto simp: list_all_iff is_ascii_digit_def byte_def)
  show ?thesis
    using c [of _ "nat i"] c [of _ "nat (- i)"] by (auto simp: show_int_def plain_name_def)
qed

lemma plain_areas [simp]: "plain_name ''jobs''" "plain_name ''tree''" "plain_name ''wt''"
  "plain_name ''sessions''" "plain_name ''scan''"
  by (simp_all add: plain_name_def)

definition chain_root :: "string \<Rightarrow> int \<Rightarrow> string" where
  "chain_root work_root origin = ws_root (for_chain work_root [] origin)"

lemma for_chain_root [simp]: "ws_root (for_chain work_root c i) = chain_root work_root i"
  by (simp add: chain_root_def for_chain_def Let_def)

lemma components_chain_root:
  "components (chain_root work_root i) = components work_root @ [''jobs'', show_int i]"
  by (simp add: chain_root_def for_chain_def jobs_root_def Let_def components_join show_int_plain)

lemma components_chain_tree:
  "components (ws_tree (for_chain work_root c i)) = components work_root @ [''jobs'', show_int i, ''tree'']"
  by (simp add: for_chain_def jobs_root_def Let_def components_join show_int_plain)

lemma other_chain:
  assumes "path_starts_with q (chain_root work_root i)" "j \<noteq> i"
  shows "\<not> path_starts_with q (chain_root work_root j)"
    and "\<not> path_starts_with q (ws_tree (for_chain work_root c j))"
  using assms
  by (auto simp: path_starts_with_components components_chain_root components_chain_tree)

text \<open>The other parts of the work root: \<open>wt\<close>, \<open>sessions\<close> and \<open>scan\<close>.\<close>

lemma other_area:
  assumes "path_starts_with q (chain_root work_root i)" "plain_name area" "area \<noteq> ''jobs''"
    "p \<in> set (child_dirs (path_join work_root area) k)"
  shows "\<not> path_starts_with q p"
proof -
  have "components p = components (path_join work_root area) @ [last (components p)]"
    using assms(4) unfolding child_dirs_def
    by (metis (mono_tags, lifting) append_butlast_last_id mem_Collect_eq set_filter set_sort)
  then obtain l where "components p = components work_root @ [area, l]"
    using assms(2) by (simp add: components_join)
  then show ?thesis
    using assms(1,3) by (auto simp: path_starts_with_components components_chain_root)
qed

lemma not_area:
  assumes "path_starts_with q (chain_root work_root i)" "plain_name area"
  shows "q \<noteq> path_join work_root area"
  using assms by (auto simp: path_starts_with_components components_chain_root components_join)


section \<open>What the pass leaves alone\<close>

definition untouched ::
  "string \<Rightarrow> int \<Rightarrow> db \<Rightarrow> disk \<Rightarrow> db \<Rightarrow> disk \<Rightarrow> shell \<Rightarrow> bool" where
  "untouched work_root i d0 k0 d k sh \<longleftrightarrow> d = d0 \<and> git_confined sh \<and>
     (\<forall>q. path_starts_with q (chain_root work_root i) \<and> \<not> in_git_dir q \<longrightarrow> same_at q k k0)"

text \<open>A path the chain's workspace lies outside of.\<close>

definition clear_of :: "string \<Rightarrow> int \<Rightarrow> string \<Rightarrow> bool" where
  "clear_of work_root i p \<longleftrightarrow> (\<forall>q. path_starts_with q (chain_root work_root i) \<longrightarrow> \<not> path_starts_with q p)"

lemma untouched_step:
  "untouched wr i d0 k0 d k sh \<Longrightarrow>
   (\<And>q. path_starts_with q (chain_root wr i) \<Longrightarrow> \<not> in_git_dir q \<Longrightarrow> same_at q k' k) \<Longrightarrow>
   untouched wr i d0 k0 d k' sh"
  unfolding untouched_def by (blast intro: same_at_trans)

lemma untouched_confined: "untouched wr i d0 k0 d k sh \<Longrightarrow> git_confined sh"
  by (simp add: untouched_def)

lemma preserves_remove_dir_all:
  "clear_of wr i p \<Longrightarrow> preserves (untouched wr i d0 k0) (remove_dir_all p)"
  unfolding remove_dir_all_def
  by (rule preserves_disk_call, erule untouched_step)
    (auto simp: clear_of_def without_def same_at_def)

lemma preserves_remove_empty_dir:
  "plain_name area \<Longrightarrow> preserves (untouched wr i d0 k0) (remove_empty_dir (path_join wr area))"
  unfolding remove_empty_dir_def
  by (rule preserves_disk_call, erule untouched_step) (auto simp: same_at_def dest: not_area)

lemma preserves_git_remove:
  "clear_of wr i t \<Longrightarrow>
   preserves (untouched wr i d0 k0) (git [''git'', ''-C'', c, ''worktree'', ''remove'', ''--force'', t])"
  unfolding git_def
  by (rule preserves_shell, rule untouched_step, assumption, drule untouched_confined)
    (simp add: clear_of_def git_confined_def)

lemma preserves_git_books [preserves_intros]:
  "preserves (untouched wr i d0 k0) (git [''git'', ''-C'', c, ''worktree'', ''list'', ''--porcelain'', ''-z''])"
  "preserves (untouched wr i d0 k0) (git [''git'', ''-C'', c, ''worktree'', ''unlock'', p])"
  "preserves (untouched wr i d0 k0) (git [''git'', ''-C'', c, ''worktree'', ''prune''])"
  "preserves (untouched wr i d0 k0)
     (git [''git'', ''-C'', c, ''rev-parse'', ''--path-format=absolute'', ''--git-common-dir''])"
  unfolding git_def
  by (rule preserves_shell, rule untouched_step, assumption, drule untouched_confined,
      simp add: git_confined_def)+

lemma preserves_unlock_missing [preserves_intros]:
  "preserves (untouched wr i d0 k0) (unlock_missing c ps)"
  by (induction ps) (auto intro!: preserves_intros)

lemma preserves_prune_worktrees [preserves_intros]:
  "preserves (untouched wr i d0 k0) (prune_worktrees c)"
  unfolding prune_worktrees_def by (auto intro!: preserves_intros)

lemma preserves_release_tree:
  "clear_of wr i (ws_tree ws) \<Longrightarrow> preserves (untouched wr i d0 k0) (release_tree ws)"
  unfolding release_tree_def
  by (auto intro!: preserves_intros preserves_git_remove preserves_remove_dir_all)

lemma preserves_remove_legacy_tree:
  "clear_of wr i p \<Longrightarrow> preserves (untouched wr i d0 k0) (remove_legacy_tree p)"
  unfolding remove_legacy_tree_def
  by (auto intro!: preserves_intros preserves_git_remove preserves_remove_dir_all)

section \<open>The walks\<close>

lemma preserves_sweep_each:
  "(\<And>e r. e \<in> set es \<Longrightarrow> preserves J (f e r)) \<Longrightarrow> preserves J (sweep_each f es report)"
  by (induction es arbitrary: report) (auto intro!: preserves_intros)

lemma preserves_for_each:
  "(\<And>e. e \<in> set es \<Longrightarrow> preserves J (f e)) \<Longrightarrow> preserves J (for_each f es)"
  by (induction es) (auto intro!: preserves_intros)

lemma preserves_look_bind: "(\<And>w. preserves J (k (f w))) \<Longrightarrow> preserves J (look f \<bind> k)"
  unfolding preserves_def wp_bind wp_look by blast

lemma clear_of_other_chain:
  "j \<noteq> i \<Longrightarrow> clear_of wr i (chain_root wr j)"
  "j \<noteq> i \<Longrightarrow> clear_of wr i (ws_tree (for_chain wr c j))"
  by (auto simp: clear_of_def dest: other_chain)

lemma clear_of_area:
  "p \<in> set (child_dirs (path_join wr area) k) \<Longrightarrow> plain_name area \<Longrightarrow> area \<noteq> ''jobs'' \<Longrightarrow> clear_of wr i p"
  by (auto simp: clear_of_def dest: other_area)

lemma preserves_sweep_chain:
  assumes "0 < cst_live (chain_status i d0)"
  shows "preserves (untouched wr i d0 k0) (sweep_chain wr now e report)"
proof (cases e)
  case (Pair j r)
  show ?thesis
    unfolding sweep_chain_def Pair Let_def prod.case
    by (rule preserves_and_then_query)
      (use assms in \<open>auto simp: untouched_def [of _ _ d0] intro!: preserves_intros preserves_release_tree
         preserves_remove_dir_all clear_of_other_chain\<close>)
qed

lemma preserves_sweep_chains:
  "0 < cst_live (chain_status i d0) \<Longrightarrow> preserves (untouched wr i d0 k0) (sweep_chains wr now report)"
  unfolding sweep_chains_def
  by (auto intro!: preserves_look_bind preserves_sweep_each preserves_sweep_chain)

lemma preserves_sweep_legacy_tree:
  "clear_of wr i p \<Longrightarrow> preserves (untouched wr i d0 k0) (sweep_legacy_tree live p report)"
  unfolding sweep_legacy_tree_def
  by (auto intro!: preserves_intros preserves_remove_legacy_tree)

lemma preserves_sweep_legacy_trees [preserves_intros]:
  "preserves (untouched wr i d0 k0) (sweep_legacy_trees wr report)"
  unfolding sweep_legacy_trees_def Let_def
  by (rule preserves_look_bind)
    (auto intro!: preserves_intros preserves_remove_empty_dir preserves_sweep_each
       preserves_sweep_legacy_tree clear_of_area [of _ wr "''wt''"])

lemma preserves_sweep_legacy_session:
  "clear_of wr i p \<Longrightarrow> preserves (untouched wr i d0 k0) (sweep_legacy_session now prefix refs p report)"
  unfolding sweep_legacy_session_def Let_def
  by (auto intro!: preserves_intros preserves_remove_dir_all)

lemma preserves_sweep_legacy_sessions [preserves_intros]:
  "preserves (untouched wr i d0 k0) (sweep_legacy_sessions wr now report)"
  unfolding sweep_legacy_sessions_def Let_def
  by (rule preserves_look_bind)
    (auto intro!: preserves_intros preserves_remove_empty_dir preserves_sweep_each
       preserves_sweep_legacy_session clear_of_area [of _ wr "''sessions''"])

lemma preserves_prune_clones_and_scans [preserves_intros]:
  "preserves (untouched wr i d0 k0) (prune_clones_and_scans wr)"
  unfolding prune_clones_and_scans_def scan_root_def
  by (intro preserves_and_then preserves_query preserves_look_bind preserves_bind preserves_for_each
      preserves_remove_legacy_tree preserves_intros) (auto intro: clear_of_area [of _ wr "''scan''"])

text \<open>The pass after its first step, which alone changes the database.\<close>

definition reclaim :: "string \<Rightarrow> millis \<Rightarrow> sweep_report io" where
  "reclaim work_root now =
     and_then (sweep_chains work_root now no_report) (\<lambda>report.
     and_then (sweep_legacy_trees work_root report) (\<lambda>report.
     and_then (sweep_legacy_sessions work_root now report) (\<lambda>report.
     and_then (prune_clones_and_scans work_root) (\<lambda>_. ok report))))"

lemma sweep_reclaims: "sweep work_root now = and_then (call retire_stranded_suspensions) (\<lambda>_. reclaim work_root now)"
  by (simp add: sweep_def reclaim_def)

lemma preserves_reclaim:
  "0 < cst_live (chain_status i d0) \<Longrightarrow> preserves (untouched wr i d0 k0) (reclaim wr now)"
  unfolding reclaim_def by (intro preserves_intros preserves_sweep_chains)

section \<open>Live chains keep their workspace\<close>

lemma keeps_sweep_each: "(\<And>e r. keeps h (f e r)) \<Longrightarrow> keeps h (sweep_each f es report)"
  by (induction es arbitrary: report) (auto intro!: keeps_intros)

lemma keeps_for_each: "(\<And>e. keeps h (f e)) \<Longrightarrow> keeps h (for_each f es)"
  by (induction es) (auto intro!: keeps_intros)

lemma keeps_disk_steps [keeps_intros]:
  "keeps h (git argv)" "keeps h (remove_dir_all p)" "keeps h (remove_empty_dir p)"
  by (simp_all add: git_def remove_dir_all_def remove_empty_dir_def keeps_intros)

lemma keeps_unlock_missing [keeps_intros]: "keeps h (unlock_missing c ps)"
  by (induction ps) (auto intro!: keeps_intros)

lemma keeps_prune_worktrees [keeps_intros]: "keeps h (prune_worktrees c)"
  unfolding prune_worktrees_def by (auto intro!: keeps_intros)

lemma keeps_release_tree [keeps_intros]: "keeps h (release_tree ws)"
  unfolding release_tree_def by (auto intro!: keeps_intros)

lemma keeps_remove_legacy_tree [keeps_intros]: "keeps h (remove_legacy_tree p)"
  unfolding remove_legacy_tree_def by (auto intro!: keeps_intros split: bool.split)

lemma keeps_reclaim: "keeps h (reclaim wr now)"
  unfolding reclaim_def sweep_chains_def sweep_chain_def sweep_legacy_trees_def sweep_legacy_tree_def
    sweep_legacy_sessions_def sweep_legacy_session_def prune_clones_and_scans_def Let_def
  by (auto intro!: keeps_intros keeps_sweep_each keeps_for_each)

lemma wp_sweep_untouched:
  assumes "git_confined (w_shell w)"
  shows "wp (sweep wr now) (\<lambda>_ w'. 0 < cst_live (chain_status i (w_db w')) \<longrightarrow>
    (\<forall>q. path_starts_with q (chain_root wr i) \<and> \<not> in_git_dir q \<longrightarrow> same_at q (w_disk w') (w_disk w))) w"
proof -
  have reclaim: "wp (reclaim wr now) (\<lambda>_ w'. 0 < cst_live (chain_status i (w_db w')) \<longrightarrow>
      (\<forall>q. path_starts_with q (chain_root wr i) \<and> \<not> in_git_dir q \<longrightarrow> same_at q (w_disk w') (w_disk w))) w1"
    if w1: "w_disk w1 = w_disk w" "w_shell w1 = w_shell w" for w1
  proof (cases "0 < cst_live (chain_status i (w_db w1))")
    case True
    have "untouched wr i (w_db w1) (w_disk w) (w_db w1) (w_disk w1) (w_shell w1)"
      using assms by (simp add: untouched_def w1)
    then have "wp (reclaim wr now)
        (\<lambda>_ w'. untouched wr i (w_db w1) (w_disk w) (w_db w') (w_disk w') (w_shell w')) w1"
      using preserves_reclaim [OF True] by (auto simp: preserves_def)
    then show ?thesis by (rule wp_mono) (auto simp: untouched_def)
  next
    case False
    have "wp (reclaim wr now) (\<lambda>_ w'. w_db w' = w_db w1) w1"
      using keeps_reclaim [of "\<lambda>d. d"] by (simp add: keeps_wp)
    then show ?thesis by (rule wp_mono) (use False in auto)
  qed
  show ?thesis
    unfolding sweep_reclaims wp_and_then wp_call
    by (auto split: option.split intro: reclaim)
qed

text \<open>C5. Whatever store call or disk operation fails, the sweep leaves the workspace of a live chain
  as it found it: when some attempt of the chain runs, or is suspended with nothing continuing it, every path
  under its root is still there afterwards, with its contents. Git is taken at its word: removing a
  worktree touches nothing outside it and git's own \<open>.git\<close> directories.\<close>
theorem sweep_keeps_live_chains:
  assumes "git_confined (w_shell w)" "run_state (sweep work_root now) w = (r, w')"
    "0 < cst_live (chain_status origin (w_db w'))"
    "path_starts_with q (ws_root (for_chain work_root clone origin))" "\<not> in_git_dir q"
  shows "same_at q (w_disk w') (w_disk w)"
  using wp_run [OF wp_sweep_untouched [OF assms(1)] assms(2)] assms(3-5) by auto

section \<open>A live chain beside a finished one\<close>

definition demo_git :: shell where
  "demo_git n cwd argv k = ((0, []), if take 2 (drop 3 argv) = [''worktree'', ''remove''] then without (last argv) k else k)"

lemma demo_git_confined: "git_confined demo_git"
  by (simp add: git_confined_def demo_git_def same_at_def without_def)

definition running_db :: db where
  "running_db = repo_db\<lparr>db_jobs := [sample_job\<lparr>j_id := 1, j_state := JRunning\<rparr>,
     sample_job\<lparr>j_id := 2, j_state := JDone, j_finished_at := Some 1\<rparr>]\<rparr>"

definition two_chains :: world where
  "two_chains = (quiet 5 running_db)\<lparr>w_shell := demo_git, w_disk := \<lparr>k_files = Map.empty,
     k_dirs = [''/w/jobs/1'', ''/w/jobs/1/tree'', ''/w/jobs/2'', ''/w/jobs/2/tree''], k_mtime = Map.empty\<rparr>\<rparr>"

lemma chain_upto_fixed: "chain_step link d ids = ids \<Longrightarrow> chain_upto n link d ids = ids"
  by (induction n) auto

lemma running_db_live: "0 < cst_live (chain_status 1 running_db)"
proof -
  have "chain_upto n (\<lambda>j c. j_resumed_from j = Some (j_id c)) running_db [1] = [1]" for n
    by (rule chain_upto_fixed) (simp add: chain_step_def running_db_def sample_job_def new_job_def get_job_def)
  moreover have "map j_id (filter (\<lambda>j. j_id j = 1) (db_jobs running_db)) = [1]"
    by (simp add: running_db_def)
  ultimately show ?thesis
    by (simp add: chain_status_def Let_def chain_rows_def) (simp add: running_db_def live_attempt_def)
qed

lemma running_db_unstranded: "stranded_rows running_db = []"
proof -
  have "\<not> stranded running_db j f" if "j \<in> set (db_jobs running_db)" for j f
    using that by (auto simp: stranded_def running_db_def)
  then show ?thesis
    by (auto simp: stranded_rows_def map_filter_def filter_empty_conv split: option.splits if_splits)
qed

lemma wp_sweep_db:
  "wp (sweep wr now) (\<lambda>_ w'. w_db w' = w_db w \<or> (\<exists>t. w_db w' = snd (retire_stranded_suspensions t (w_db w)))) w"
proof -
  have "wp (reclaim wr now) (\<lambda>_ w'. w_db w' = w_db w1) w1" for w1
    using keeps_reclaim [of "\<lambda>d. d"] by (simp add: keeps_wp)
  then have "wp (reclaim wr now) (\<lambda>_ w'. w_db w' = d \<or> (\<exists>t. w_db w' = snd (retire_stranded_suspensions t d))) w1"
    if "w_db w1 = d \<or> (\<exists>t. w_db w1 = snd (retire_stranded_suspensions t d))" for w1 :: world and d
    by (rule wp_mono) (use that in auto)
  note after = this
  show ?thesis
  proof (cases "w_fault w (w_calls w)")
    case None
    show ?thesis
      unfolding sweep_reclaims wp_and_then wp_call None option.case sum.case
      by (rule after, rule disjI2, rule exI, rule put_db_simps(1))
  next
    case (Some e)
    show ?thesis
      unfolding sweep_reclaims wp_and_then wp_call Some option.case sum.case by simp
  qed
qed

theorem sweep_keeps_live_chains_witness:
  "\<exists>r w'. run_state (sweep ''/w'' 5000000000) two_chains = (r, w') \<and> ''/w/jobs/1/tree'' \<in> set (k_dirs (w_disk w'))"
proof -
  obtain r w' where run: "run_state (sweep ''/w'' 5000000000) two_chains = (r, w')"
    by fastforce
  have db: "w_db two_chains = running_db" and git: "git_confined (w_shell two_chains)"
    by (simp_all add: two_chains_def demo_git_confined)
  have "w_db w' = running_db"
    using wp_run [OF wp_sweep_db run] by (auto simp: db retire_stranded_suspensions_def running_db_unstranded)
  moreover have "path_starts_with ''/w/jobs/1/tree'' (ws_root (for_chain ''/w'' [] 1))"
    "\<not> in_git_dir ''/w/jobs/1/tree''"
    by code_simp+
  ultimately have "same_at ''/w/jobs/1/tree'' (w_disk w') (w_disk two_chains)"
    by (intro sweep_keeps_live_chains [OF git run]) (simp_all add: running_db_live)
  with run show ?thesis by (auto simp: same_at_def two_chains_def)
qed

end
