(* ===== verification/ForgeUrl.thy ===== *)
theory ForgeUrl
  imports World
begin

text \<open>
Remote and pull request URLs (\<open>forge.rs\<close>): host and path of every form the write path accepts
(\<open>https://\<close>, \<open>http://\<close>, \<open>ssh://\<close> and \<open>git@host:path\<close>), which forge serves a host,
the slug \<open>gh\<close> and \<open>glab\<close> are given, the SSH form pushes go to, and the number in a pull
request's URL.

The locale \<open>forge_urls\<close> states what the rest of the scheduler relies on of a forge's four URL
functions: the SSH form names the same repository and is its own SSH form, and the URL of a pull request
under a repository's web URL reads back as that repository's slug and the number. GitHub and GitLab are its
interpretations.
\<close>

section \<open>Splitting at a character\<close>

lemma starts_with_char [simp]: "starts_with [d] s \<longleftrightarrow> (\<exists>t. s = d # t)"
  by (auto simp: starts_with_iff)

lemma split_once_char: "d \<notin> set a \<Longrightarrow> split_once [d] (a @ d # b) = Some (a, b)"
proof (induction a)
  case (Cons x a)
  then have "find_sub [d] (a @ d # b) = Some (length a)"
    by (auto simp: split_once_def dest: arg_cong [of _ _ length])
  with Cons.prems show ?case by (auto simp: split_once_def)
qed (simp add: split_once_def)

lemma split_once_char_None: "d \<notin> set s \<Longrightarrow> split_once [d] s = None"
  by (induction s) (auto simp: split_once_def)

lemma split_once_char_fst: "split_once [d] s = Some (a, b) \<Longrightarrow> d \<notin> set a"
proof (induction s arbitrary: a b)
  case (Cons x s)
  show ?case
  proof (cases "x = d")
    case False
    with Cons.prems obtain i where "find_sub [d] s = Some i" "a = x # take i s"
      by (auto simp: split_once_def)
    with Cons.IH [of "take i s" "drop (Suc i) s"] False show ?thesis by (auto simp: split_once_def)
  qed (use Cons.prems in \<open>simp add: split_once_def\<close>)
qed (simp add: split_once_def)

lemma split_once_char_in: "d \<in> set s \<Longrightarrow> \<exists>a b. split_once [d] s = Some (a, b)"
  by (metis split_list_first split_once_char)

lemma rfind_sub_absent: "c \<in> set p \<Longrightarrow> c \<notin> set s \<Longrightarrow> rfind_sub p s = None"
proof (induction s)
  case (Cons x s)
  have "\<not> starts_with p (x # s)"
  proof
    assume "starts_with p (x # s)"
    then obtain r where "x # s = p @ r" by (auto simp: starts_with_iff)
    then have "c \<in> set (x # s)" using Cons.prems by simp
    with Cons.prems show False by simp
  qed
  with Cons show ?case by simp
qed auto

lemma rfind_sub_prefix:
  "rfind_sub p b = Some i \<Longrightarrow> rfind_sub p (a @ b) = Some (length a + i)"
  by (induction a) auto

lemma rsplit_once_last:
  assumes "rfind_sub p (tl p @ b) = None" "p \<noteq> []"
  shows "rsplit_once p (a @ p @ b) = Some (a, b)"
proof -
  obtain x q where p: "p = x # q" using assms(2) by (cases p) auto
  then have "rfind_sub p (p @ b) = Some 0"
    using assms(1) starts_with_append [of p b] by simp
  then have "rfind_sub p (a @ p @ b) = Some (length a)"
    using rfind_sub_prefix [of p "p @ b" 0 a] by simp
  then show ?thesis by (simp add: rsplit_once_def)
qed

lemma rsplit_once_char: "d \<notin> set b \<Longrightarrow> rsplit_once [d] (a @ d # b) = Some (a, b)"
  using rsplit_once_last [of "[d]" b a] by (simp add: rfind_sub_absent)

lemma rsplit_once_char_None: "d \<notin> set s \<Longrightarrow> rsplit_once [d] s = None"
  by (simp add: rsplit_once_def rfind_sub_absent)

lemma rsplit_once_char_snd: "rsplit_once [d] s = Some (a, b) \<Longrightarrow> d \<notin> set b"
proof -
  assume s: "rsplit_once [d] s = Some (a, b)"
  then have "d \<in> set s" using rsplit_once_char_None [of d s] by fastforce
  then obtain a' b' where "s = a' @ d # b'" "d \<notin> set b'" by (metis split_list_last)
  with s rsplit_once_char [of d b' a'] show ?thesis by simp
qed

section \<open>Hosts and paths\<close>

definition eq_ignore_ascii_case :: "string \<Rightarrow> string \<Rightarrow> bool" where
  "eq_ignore_ascii_case a b \<longleftrightarrow> to_ascii_lowercase a = to_ascii_lowercase b"

definition strip_scheme :: "string \<Rightarrow> string \<Rightarrow> string option" where
  "strip_scheme url scheme =
     (if length scheme \<le> length url \<and> eq_ignore_ascii_case (take (length scheme) url) scheme
      then strip_prefix ''://'' (drop (length scheme) url) else None)"

definition strip_any_scheme :: "string \<Rightarrow> string option" where
  "strip_any_scheme url =
     opt_or (strip_scheme url ''https'') (opt_or (strip_scheme url ''http'') (strip_scheme url ''ssh''))"

definition is_web_scheme :: "string \<Rightarrow> bool" where
  "is_web_scheme url \<longleftrightarrow> strip_scheme url ''https'' \<noteq> None \<or> strip_scheme url ''http'' \<noteq> None"

definition some_if :: "bool \<Rightarrow> 'a \<Rightarrow> 'a option" where
  "some_if b x = (if b then Some x else None)"

definition scp_split :: "string \<Rightarrow> (string \<times> string) option" where
  "scp_split url =
     (case split_once '':'' url of
        Some (a, p) \<Rightarrow> if CHR ''/'' \<in> set a then None else Some (a, p) | None \<Rightarrow> None)"

definition drop_user :: "string \<Rightarrow> string" where
  "drop_user authority = (case rsplit_once ''@'' authority of Some (_, h) \<Rightarrow> h | None \<Rightarrow> authority)"

definition drop_port :: "string \<Rightarrow> string" where
  "drop_port h = (case split_once '':'' h of Some (x, _) \<Rightarrow> x | None \<Rightarrow> h)"

definition url_host :: "string \<Rightarrow> string option" where
  "url_host url =
     (let after_scheme = strip_any_scheme url
      in case (case after_scheme of
                 Some rest \<Rightarrow> Some (hd (split_on (CHR ''/'') rest))
               | None \<Rightarrow> map_option fst (scp_split url)) of
           None \<Rightarrow> None
         | Some authority \<Rightarrow>
             (let h = (if after_scheme \<noteq> None then drop_port (drop_user authority) else drop_user authority)
              in some_if (h \<noteq> []) h))"

definition url_host_path :: "string \<Rightarrow> (string \<times> string) option" where
  "url_host_path url =
     (case url_host url of
        None \<Rightarrow> None
      | Some host \<Rightarrow>
          (case (case strip_any_scheme url of
                   Some rest \<Rightarrow> map_option snd (split_once ''/'' rest)
                 | None \<Rightarrow> map_option snd (scp_split url)) of
             None \<Rightarrow> None
           | Some path \<Rightarrow> some_if (path \<noteq> []) (host, path)))"

text \<open>\<open>path.trim_end_matches('/').trim_end_matches(".git")\<close>\<close>

definition repo_stem :: "string \<Rightarrow> string" where
  "repo_stem path = trim_end_matches ''.git'' (trim_end_by (\<lambda>c. c = CHR ''/'') path)"

definition gitlab_host_path :: "string \<Rightarrow> (string \<times> string) option" where
  "gitlab_host_path url =
     (case url_host_path url of
        None \<Rightarrow> None
      | Some (host, path) \<Rightarrow> some_if (repo_stem path \<noteq> []) (host, repo_stem path))"

definition is_github_host :: "string \<Rightarrow> bool" where
  "is_github_host host \<longleftrightarrow>
     (let labels = split_on (CHR ''.'') (to_ascii_lowercase host)
      in ''github'' \<in> set labels \<or>
         (2 \<le> length labels \<and> drop (length labels - 2) labels = [''ghe'', ''com'']))"

definition detect_forge :: "string \<Rightarrow> forge_name" where
  "detect_forge url = (if is_github_host (unwrap_or (url_host url) []) then Github else Gitlab)"

section \<open>GitHub\<close>

text \<open>The host goes into the slug except for github.com itself: \<open>gh\<close>'s \<open>[HOST/]OWNER/REPO\<close>.\<close>

definition with_host :: "string \<Rightarrow> string \<Rightarrow> string" where
  "with_host host owner =
     (if eq_ignore_ascii_case host ''github.com'' then owner else to_ascii_lowercase host @ ''/'' @ owner)"

definition github_owner_repo :: "string \<Rightarrow> (string \<times> string) option" where
  "github_owner_repo url =
     (case url_host_path url of
        None \<Rightarrow> None
      | Some (host, path) \<Rightarrow>
          if \<not> is_github_host host then None
          else (case split_once ''/'' (repo_stem path) of
                  None \<Rightarrow> None
                | Some (owner, repo) \<Rightarrow>
                    if owner = [] \<or> repo = [] then None else Some (with_host host owner, repo)))"

definition github_ssh_url :: "string \<Rightarrow> string" where
  "github_ssh_url url =
     (case url_host_path url of
        Some (host, path) \<Rightarrow>
          if is_web_scheme url \<and> is_github_host host \<and> repo_stem path \<noteq> []
          then ''git@'' @ host @ '':'' @ repo_stem path @ ''.git'' else url
      | None \<Rightarrow> url)"

text \<open>\<open>split(&['/', '?', '#'][..]).next()\<close>, then \<open>parse\<close>.\<close>

definition leading_number :: "string \<Rightarrow> int option" where
  "leading_number s = parse_i64 (takeWhile (\<lambda>c. c \<noteq> CHR ''/'' \<and> c \<noteq> CHR ''?'' \<and> c \<noteq> CHR ''#'') s)"

definition github_parse_pr_url :: "string \<Rightarrow> (string \<times> int) option" where
  "github_parse_pr_url url =
     (case url_host_path url of
        None \<Rightarrow> None
      | Some (host, path) \<Rightarrow>
          if strip_scheme url ''https'' = None \<or> \<not> is_github_host host then None
          else (case rsplit_once ''/pull/'' path of
                  None \<Rightarrow> None
                | Some (slug, num_part) \<Rightarrow>
                    map_option (\<lambda>num. (with_host host slug, num)) (leading_number num_part)))"

section \<open>GitLab\<close>

definition gitlab_owner_repo :: "string \<Rightarrow> (string \<times> string) option" where
  "gitlab_owner_repo url =
     (case gitlab_host_path url of
        None \<Rightarrow> None
      | Some (_, path) \<Rightarrow>
          (case rsplit_once ''/'' path of
             None \<Rightarrow> None
           | Some (prefix, l) \<Rightarrow> if prefix = [] \<or> l = [] then None else Some (prefix, l)))"

definition gitlab_ssh_url :: "string \<Rightarrow> string" where
  "gitlab_ssh_url url =
     (case gitlab_host_path url of
        Some (host, path) \<Rightarrow>
          if is_web_scheme url then ''git@'' @ host @ '':'' @ path @ ''.git'' else url
      | None \<Rightarrow> url)"

definition gitlab_parse_pr_url :: "string \<Rightarrow> (string \<times> int) option" where
  "gitlab_parse_pr_url url =
     (case Option.bind (strip_scheme url ''https'') (split_once ''/'') of
        None \<Rightarrow> None
      | Some (_, after_host) \<Rightarrow>
          (case rsplit_once ''/-/merge_requests/'' after_host of
             None \<Rightarrow> None
           | Some (slug, num_part) \<Rightarrow> map_option (\<lambda>num. (slug, num)) (leading_number num_part)))"

section \<open>Whichever forge\<close>

fun ssh_url :: "forge_name \<Rightarrow> string \<Rightarrow> string" where
  "ssh_url Github = github_ssh_url" | "ssh_url Gitlab = gitlab_ssh_url"

fun owner_repo :: "forge_name \<Rightarrow> string \<Rightarrow> (string \<times> string) option" where
  "owner_repo Github = github_owner_repo" | "owner_repo Gitlab = gitlab_owner_repo"

fun parse_pr_url :: "forge_name \<Rightarrow> string \<Rightarrow> (string \<times> int) option" where
  "parse_pr_url Github = github_parse_pr_url" | "parse_pr_url Gitlab = gitlab_parse_pr_url"

section \<open>The contract\<close>

locale forge_urls =
  fixes ssh :: "string \<Rightarrow> string"
    and slug :: "string \<Rightarrow> (string \<times> string) option"
    and pr_of :: "string \<Rightarrow> (string \<times> int) option"
    and marker :: string
  assumes ssh_same: "slug (ssh url) = slug url"
    and ssh_ssh: "ssh (ssh url) = ssh url"
    and pr_of_web: "strip_scheme url ''https'' \<noteq> None \<Longrightarrow> url_host_path url = Some (host, path) \<Longrightarrow>
      repo_stem path = path \<Longrightarrow> slug url = Some (owner, repo) \<Longrightarrow> i64_min \<le> n \<Longrightarrow> n \<le> i64_max \<Longrightarrow>
      pr_of (url @ marker @ show_int n) = Some (owner @ ''/'' @ repo, n)"
begin

text \<open>Two remotes pushed to at one address are one repository.\<close>

lemma same_push_same_slug: "ssh url = ssh url' \<Longrightarrow> slug url = slug url'"
  by (metis ssh_same)

end

subsection \<open>Hosts of web URLs\<close>

lemma web_scheme_strips: "is_web_scheme url \<Longrightarrow> \<exists>rest. strip_any_scheme url = Some rest"
  by (auto simp: is_web_scheme_def strip_any_scheme_def opt_or_def split: option.split)

lemma hd_split_on: "d \<notin> set (hd (split_on d s))"
  by (rule split_on_no_sep [of _ d s]) simp

lemma drop_user: "set (drop_user a) \<subseteq> set a" "CHR ''@'' \<notin> set (drop_user a)"
proof -
  show "set (drop_user a) \<subseteq> set a"
    by (auto simp: drop_user_def dest: rsplit_once_Some split: option.splits)
  have "CHR ''@'' \<in> set a \<Longrightarrow> \<exists>b c. rsplit_once ''@'' a = Some (b, c)"
    by (metis rsplit_once_char split_list_last)
  then show "CHR ''@'' \<notin> set (drop_user a)"
    by (auto simp: drop_user_def dest: rsplit_once_char_snd split: option.splits)
qed

lemma drop_port: "set (drop_port h) \<subseteq> set h" "CHR '':'' \<notin> set (drop_port h)"
  using split_once_char_in [of "CHR '':''" h]
  by (auto simp: drop_port_def dest: split_once_Some split_once_char_fst split: option.splits)

lemma url_host_plain:
  assumes "url_host url = Some host" "strip_any_scheme url = Some rest"
  shows "CHR ''/'' \<notin> set host" "CHR ''@'' \<notin> set host" "CHR '':'' \<notin> set host" "host \<noteq> []"
proof -
  have host: "host = drop_port (drop_user (hd (split_on (CHR ''/'') rest)))" "host \<noteq> []"
    using assms by (simp_all add: url_host_def some_if_def Let_def split: if_splits)
  show "CHR ''/'' \<notin> set host" "CHR ''@'' \<notin> set host" "CHR '':'' \<notin> set host"
    using host(1) drop_user drop_port hd_split_on by blast+
  show "host \<noteq> []" by (rule host(2))
qed

subsection \<open>The SSH form\<close>

lemma git_at_scheme: "strip_scheme (''git@'' @ s) scheme = None" if "scheme \<in> {''https'', ''http'', ''ssh''}"
  using that
  by (auto simp: strip_scheme_def eq_ignore_ascii_case_def to_ascii_lowercase_def to_lower_def
      is_ascii_upper_def byte_def)

lemma git_at_no_scheme: "strip_any_scheme (''git@'' @ s) = None"
  using git_at_scheme [of "''https''" s] git_at_scheme [of "''http''" s] git_at_scheme [of "''ssh''" s]
  by (simp add: strip_any_scheme_def)

lemma git_at_not_web: "\<not> is_web_scheme (''git@'' @ s)"
  using git_at_scheme [of "''https''" s] git_at_scheme [of "''http''" s]
  by (simp add: is_web_scheme_def)

lemma git_at_host_path:
  assumes "CHR ''/'' \<notin> set host" "CHR ''@'' \<notin> set host" "CHR '':'' \<notin> set host" "host \<noteq> []" "path \<noteq> []"
  shows "url_host_path (''git@'' @ host @ '':'' @ path) = Some (host, path)"
    "url_host (''git@'' @ host @ '':'' @ path) = Some host"
proof -
  let ?u = "''git@'' @ host @ '':'' @ path"
  have "split_once '':'' ?u = Some (''git@'' @ host, path)"
    using split_once_char [of "CHR '':''" "''git@'' @ host" path] assms(3) by simp
  then have scp: "scp_split ?u = Some (''git@'' @ host, path)"
    using assms(1) by (simp add: scp_split_def)
  have "drop_user (''git@'' @ host) = host"
    using rsplit_once_char [of "CHR ''@''" host "''git''"] assms(2) by (simp add: drop_user_def)
  then show "url_host ?u = Some host"
    using scp git_at_no_scheme [of "host @ '':'' @ path"] assms(4)
    by (simp add: url_host_def some_if_def del: append.simps)
  then show "url_host_path ?u = Some (host, path)"
    using scp git_at_no_scheme [of "host @ '':'' @ path"] assms(5)
    by (simp add: url_host_path_def some_if_def del: append.simps)
qed

lemma trim_end_matches_stop: "p = [] \<or> \<not> ends_with p s \<Longrightarrow> trim_end_matches p s = s"
  by (subst trim_end_matches.simps) auto

lemma trim_end_matches_idem: "trim_end_matches p (trim_end_matches p s) = trim_end_matches p s"
  by (induction p s rule: trim_end_matches.induct)
    (subst (2 3) trim_end_matches.simps, auto simp: trim_end_matches_stop)

lemma trim_end_matches_snoc: "p \<noteq> [] \<Longrightarrow> trim_end_matches p (s @ p) = trim_end_matches p s"
  by (subst trim_end_matches.simps) (auto simp: ends_with_iff)

lemma repo_stem_git: "repo_stem (repo_stem path @ ''.git'') = repo_stem path"
  using trim_end_matches_snoc [of "''.git''" "repo_stem path"]
  by (simp add: repo_stem_def trim_end_by_def trim_end_matches_idem)

lemma web_host_path:
  assumes "is_web_scheme url" "url_host_path url = Some (host, path)"
  shows "CHR ''/'' \<notin> set host" "CHR ''@'' \<notin> set host" "CHR '':'' \<notin> set host" "host \<noteq> []"
    "url_host url = Some host"
proof -
  show host: "url_host url = Some host"
    using assms(2) by (auto simp: url_host_path_def some_if_def split: option.splits if_splits)
  obtain rest where "strip_any_scheme url = Some rest"
    using web_scheme_strips [OF assms(1)] by blast
  from url_host_plain [OF host this]
  show "CHR ''/'' \<notin> set host" "CHR ''@'' \<notin> set host" "CHR '':'' \<notin> set host" "host \<noteq> []" .
qed

lemma ssh_form_host_path:
  assumes "is_web_scheme url" "url_host_path url = Some (host, path)"
  shows "url_host_path (''git@'' @ host @ '':'' @ repo_stem path @ ''.git'') = Some (host, repo_stem path @ ''.git'')"
    "url_host (''git@'' @ host @ '':'' @ repo_stem path @ ''.git'') = Some host"
  by (rule git_at_host_path; use web_host_path [OF assms] in simp)+

lemma not_web_ssh: "\<not> is_web_scheme url \<Longrightarrow> github_ssh_url url = url \<and> gitlab_ssh_url url = url"
  by (auto simp: github_ssh_url_def gitlab_ssh_url_def split: option.split)

lemma github_ssh_cases:
  obtains "github_ssh_url url = url"
  | host path where "is_web_scheme url" "url_host_path url = Some (host, path)" "is_github_host host"
      "repo_stem path \<noteq> []" "github_ssh_url url = ''git@'' @ host @ '':'' @ repo_stem path @ ''.git''"
proof (cases "is_web_scheme url \<and> (\<exists>host path. url_host_path url = Some (host, path) \<and>
    is_github_host host \<and> repo_stem path \<noteq> [])")
  case True
  with that(2) show ?thesis by (auto simp: github_ssh_url_def)
next
  case False
  then have "github_ssh_url url = url" by (auto simp: github_ssh_url_def split: option.split)
  then show ?thesis by (rule that(1))
qed

lemma gitlab_ssh_cases:
  obtains "gitlab_ssh_url url = url"
  | host path where "is_web_scheme url" "url_host_path url = Some (host, path)"
      "repo_stem path \<noteq> []" "gitlab_ssh_url url = ''git@'' @ host @ '':'' @ repo_stem path @ ''.git''"
proof (cases "is_web_scheme url \<and> (\<exists>host path. url_host_path url = Some (host, path) \<and> repo_stem path \<noteq> [])")
  case True
  with that(2) show ?thesis by (auto simp: gitlab_ssh_url_def gitlab_host_path_def some_if_def)
next
  case False
  then have "gitlab_ssh_url url = url"
    by (auto simp: gitlab_ssh_url_def gitlab_host_path_def some_if_def split: option.split)
  then show ?thesis by (rule that(1))
qed

lemma github_ssh_same: "github_owner_repo (github_ssh_url url) = github_owner_repo url"
proof (cases rule: github_ssh_cases [of url])
  case (2 host path)
  show ?thesis
    unfolding 2(5) by (simp only: github_owner_repo_def ssh_form_host_path [OF 2(1,2)] 2(2) option.case prod.case repo_stem_git)
qed simp

lemma gitlab_ssh_same: "gitlab_owner_repo (gitlab_ssh_url url) = gitlab_owner_repo url"
proof (cases rule: gitlab_ssh_cases [of url])
  case (2 host path)
  show ?thesis
    unfolding 2(4)
    by (simp only: gitlab_owner_repo_def gitlab_host_path_def ssh_form_host_path [OF 2(1,2)] 2(2) option.case prod.case repo_stem_git)
qed simp

lemma git_at_fixed: "github_ssh_url (''git@'' @ s) = ''git@'' @ s" "gitlab_ssh_url (''git@'' @ s) = ''git@'' @ s"
  using not_web_ssh [OF git_at_not_web [of s]] by simp_all

lemma github_ssh_ssh: "github_ssh_url (github_ssh_url url) = github_ssh_url url"
  by (cases rule: github_ssh_cases [of url]) (simp, simp only: git_at_fixed)

lemma gitlab_ssh_ssh: "gitlab_ssh_url (gitlab_ssh_url url) = gitlab_ssh_url url"
  by (cases rule: gitlab_ssh_cases [of url]) (simp, simp only: git_at_fixed)

subsection \<open>Pull request URLs\<close>

lemma strip_scheme_extend: "strip_scheme url sch = Some rest \<Longrightarrow> strip_scheme (url @ x) sch = Some (rest @ x)"
  by (auto simp: strip_scheme_def strip_prefix_Some split: if_splits)

lemma https_any_scheme: "strip_scheme url ''https'' = Some rest \<Longrightarrow> strip_any_scheme url = Some rest"
  by (simp add: strip_any_scheme_def)

lemma split_on_hd: "d \<notin> set a \<Longrightarrow> hd (split_on d (a @ d # b)) = a"
  using split_on_append [of d a b] by (simp add: split_on_word)

lemma web_path_extend:
  assumes "strip_scheme url ''https'' = Some rest" "url_host_path url = Some (host, path)"
  obtains authority where "rest = authority @ ''/'' @ path" "CHR ''/'' \<notin> set authority"
    "url_host_path (url @ x) = Some (host, path @ x)"
proof -
  obtain a where split: "split_once ''/'' rest = Some (a, path)"
    using assms https_any_scheme [OF assms(1)]
    by (auto simp: url_host_path_def some_if_def split: option.splits if_splits)
  then have rest: "rest = a @ ''/'' @ path" and a: "CHR ''/'' \<notin> set a"
    by (auto dest: split_once_Some split_once_char_fst)
  have ext: "strip_any_scheme (url @ x) = Some (rest @ x)"
    by (intro https_any_scheme strip_scheme_extend assms(1))
  have "url_host (url @ x) = url_host url"
    using ext https_any_scheme [OF assms(1)] a split_on_hd [of "CHR ''/''" a]
    by (simp add: url_host_def rest)
  moreover have "split_once ''/'' (rest @ x) = Some (a, path @ x)"
    using split_once_char [OF a, of "path @ x"] by (simp add: rest)
  ultimately have "url_host_path (url @ x) = Some (host, path @ x)"
    using assms(2) ext split https_any_scheme [OF assms(1)]
    by (auto simp: url_host_path_def some_if_def split: option.splits if_splits)
  with that rest a show ?thesis by blast
qed

lemma show_int_no_stop: "c \<in> set (show_int n) \<Longrightarrow> c \<noteq> CHR ''/'' \<and> c \<noteq> CHR ''?'' \<and> c \<noteq> CHR ''#''"
proof -
  have d: "c \<in> set (show_nat m) \<Longrightarrow> c \<noteq> CHR ''/'' \<and> c \<noteq> CHR ''?'' \<and> c \<noteq> CHR ''#''" for m
    using show_nat_digits [of m] by (auto simp: list_all_iff is_ascii_digit_def byte_def)
  show "c \<in> set (show_int n) \<Longrightarrow> c \<noteq> CHR ''/'' \<and> c \<noteq> CHR ''?'' \<and> c \<noteq> CHR ''#''"
    using d [of "nat n"] d [of "nat (- n)"] by (auto simp: show_int_def split: if_splits)
qed

lemma leading_number_show: "i64_min \<le> n \<Longrightarrow> n \<le> i64_max \<Longrightarrow> leading_number (show_int n) = Some n"
proof -
  have "takeWhile (\<lambda>c. c \<noteq> CHR ''/'' \<and> c \<noteq> CHR ''?'' \<and> c \<noteq> CHR ''#'') (show_int n) = show_int n"
    by (rule takeWhile_eq_all_conv [THEN iffD2]) (use show_int_no_stop in blast)
  then show "i64_min \<le> n \<Longrightarrow> n \<le> i64_max \<Longrightarrow> ?thesis"
    unfolding leading_number_def by (simp only: parse_i64_show_int)
qed

lemma rsplit_marker:
  assumes "CHR ''/'' \<notin> set b"
  shows "rsplit_once ''/pull/'' (a @ ''/pull/'' @ b) = Some (a, b)"
    "rsplit_once ''/-/merge_requests/'' (a @ ''/-/merge_requests/'' @ b) = Some (a, b)"
proof -
  have b: "rfind_sub p b = None" if "CHR ''/'' \<in> set p" for p
    by (rule rfind_sub_absent [OF that assms])
  have s: "\<not> starts_with p b" if "CHR ''/'' \<in> set p" for p
    using that assms by (auto simp: starts_with_iff)
  show "rsplit_once ''/pull/'' (a @ ''/pull/'' @ b) = Some (a, b)"
    by (rule rsplit_once_last) (simp_all add: b s)
  show "rsplit_once ''/-/merge_requests/'' (a @ ''/-/merge_requests/'' @ b) = Some (a, b)"
    by (rule rsplit_once_last) (simp_all add: b s)
qed

lemma show_int_no_slash: "CHR ''/'' \<notin> set (show_int n)"
  using show_int_no_stop [of "CHR ''/''" n] by blast

lemma github_pr_of_web:
  assumes "strip_scheme url ''https'' \<noteq> None" "url_host_path url = Some (host, path)" "repo_stem path = path"
    "github_owner_repo url = Some (owner, repo)" "i64_min \<le> n" "n \<le> i64_max"
  shows "github_parse_pr_url (url @ ''/pull/'' @ show_int n) = Some (owner @ ''/'' @ repo, n)"
proof -
  obtain rest where rest: "strip_scheme url ''https'' = Some rest" using assms(1) by blast
  obtain authority where ext: "url_host_path (url @ ''/pull/'' @ show_int n) = Some (host, path @ ''/pull/'' @ show_int n)"
    by (rule web_path_extend [OF rest assms(2), of "''/pull/'' @ show_int n"])
  obtain o' where "is_github_host host" "split_once ''/'' path = Some (o', repo)" "owner = with_host host o'"
    using assms(2-4) by (auto simp: github_owner_repo_def split: option.splits if_splits)
  moreover from this have "path = o' @ ''/'' @ repo" by (auto dest: split_once_Some)
  ultimately show ?thesis
    unfolding github_parse_pr_url_def ext option.case prod.case rsplit_marker(1) [OF show_int_no_slash]
    using strip_scheme_extend [OF rest, of "''/pull/'' @ show_int n"] assms(5,6)
    by (simp add: leading_number_show with_host_def)
qed

lemma gitlab_pr_of_web:
  assumes "strip_scheme url ''https'' \<noteq> None" "url_host_path url = Some (host, path)" "repo_stem path = path"
    "gitlab_owner_repo url = Some (owner, repo)" "i64_min \<le> n" "n \<le> i64_max"
  shows "gitlab_parse_pr_url (url @ ''/-/merge_requests/'' @ show_int n) = Some (owner @ ''/'' @ repo, n)"
proof -
  obtain rest where rest: "strip_scheme url ''https'' = Some rest" using assms(1) by blast
  obtain authority where a: "rest = authority @ ''/'' @ path" "CHR ''/'' \<notin> set authority"
    by (rule web_path_extend [OF rest assms(2), of "[]"])
  have "rsplit_once ''/'' path = Some (owner, repo)"
    using assms(2-4) by (auto simp: gitlab_owner_repo_def gitlab_host_path_def some_if_def split: option.splits if_splits)
  then have path: "path = owner @ ''/'' @ repo" by (auto dest: rsplit_once_Some)
  have "split_once ''/'' (rest @ ''/-/merge_requests/'' @ show_int n) =
      Some (authority, path @ ''/-/merge_requests/'' @ show_int n)"
    using split_once_char [OF a(2), of "path @ ''/-/merge_requests/'' @ show_int n"] by (simp add: a(1))
  then show ?thesis
    using assms(5,6)
    by (simp only: gitlab_parse_pr_url_def strip_scheme_extend [OF rest] Option.bind.bind_lunit option.case prod.case
        rsplit_marker(2) [OF show_int_no_slash] leading_number_show option.map) (simp add: path)
qed

interpretation github: forge_urls github_ssh_url github_owner_repo github_parse_pr_url "''/pull/''"
  by unfold_locales (rule github_ssh_same, rule github_ssh_ssh, rule github_pr_of_web)

interpretation gitlab: forge_urls gitlab_ssh_url gitlab_owner_repo gitlab_parse_pr_url "''/-/merge_requests/''"
  by unfold_locales (rule gitlab_ssh_same, rule gitlab_ssh_ssh, rule gitlab_pr_of_web)

section \<open>What pushes and pull requests rely on\<close>

text \<open>A push goes to the repository the URL names: the SSH form of any remote URL has the same
  \<open>owner/repo\<close>, is recognised as the same forge, and is its own SSH form.\<close>
theorem ssh_url_same_repository:
  "owner_repo forge (ssh_url forge url) = owner_repo forge url \<and>
   detect_forge (ssh_url forge url) = detect_forge url \<and>
   ssh_url forge (ssh_url forge url) = ssh_url forge url"
proof -
  have "detect_forge (github_ssh_url url) = detect_forge url"
    by (cases rule: github_ssh_cases [of url])
      (simp, simp only: detect_forge_def ssh_form_host_path web_host_path(5))
  moreover have "detect_forge (gitlab_ssh_url url) = detect_forge url"
    by (cases rule: gitlab_ssh_cases [of url])
      (simp, simp only: detect_forge_def ssh_form_host_path web_host_path(5))
  ultimately show ?thesis
    by (cases forge) (simp_all add: github.ssh_same github.ssh_ssh gitlab.ssh_same gitlab.ssh_ssh)
qed

fun pr_marker :: "forge_name \<Rightarrow> string" where
  "pr_marker Github = ''/pull/''" | "pr_marker Gitlab = ''/-/merge_requests/''"

text \<open>C33. A pull request's URL reads back: under the web URL of a repository (no trailing slash or
  \<open>.git\<close>), whatever its host, the URL of pull request \<open>n\<close> parses to the repository's own slug and
  \<open>n\<close>, so later operations on it address that repository.\<close>
theorem pr_url_round_trip:
  assumes "strip_scheme url ''https'' \<noteq> None" "url_host_path url = Some (host, path)" "repo_stem path = path"
    and "owner_repo forge url = Some (owner, repo)" "i64_min \<le> n" "n \<le> i64_max"
  shows "parse_pr_url forge (url @ pr_marker forge @ show_int n) = Some (owner @ ''/'' @ repo, n)"
proof (cases forge)
  case Github
  show ?thesis
    using assms(4) unfolding Github owner_repo.simps parse_pr_url.simps pr_marker.simps
    by (intro github.pr_of_web [OF assms(1-3) _ assms(5,6)])
next
  case Gitlab
  show ?thesis
    using assms(4) unfolding Gitlab owner_repo.simps parse_pr_url.simps pr_marker.simps
    by (intro gitlab.pr_of_web [OF assms(1-3) _ assms(5,6)])
qed

theorem pr_url_round_trip_witness:
  "parse_pr_url Github (''https://github.corp.com/o/r'' @ pr_marker Github @ show_int 12) =
     Some (''github.corp.com/o/r'', 12)"
proof -
  have "strip_scheme ''https://github.corp.com/o/r'' ''https'' \<noteq> None"
    "url_host_path ''https://github.corp.com/o/r'' = Some (''github.corp.com'', ''o/r'')"
    "repo_stem ''o/r'' = ''o/r''"
    "owner_repo Github ''https://github.corp.com/o/r'' = Some (''github.corp.com/o'', ''r'')"
    by code_simp+
  then show ?thesis
    using pr_url_round_trip [of "''https://github.corp.com/o/r''" "''github.corp.com''" "''o/r''" Github
        "''github.corp.com/o''" "''r''" 12]
    by (simp add: i64_min_def i64_max_def)
qed

end
