(* ===== verification/Forge.thy ===== *)
theory Forge
  imports ForgeUrl Config Json
begin

text \<open>
Pull requests on GitHub and GitLab (\<open>forge.rs\<close>): the typed answers of \<open>gh\<close> and \<open>glab\<close>, the
screening that lets only maintainers' and listed bots' feedback through, its lookup cache, the normalisation of GitLab's
answers, and the operations of the \<open>Forge\<close> trait, each the command lines it runs.

What a command prints is the world's; how serde_json reads it is the parameter \<open>decoders\<close>.
A command's time limit is part of the command. Errors that quote a value with Rust's \<open>{:?}\<close> quote it without
its escapes here. Instants are the world's clock.
\<close>

section \<open>States of a pull request\<close>

datatype pr_state = PrOpen | PrMerged | PrClosed

fun pr_state_str :: "pr_state \<Rightarrow> string" where
  "pr_state_str PrOpen = ''OPEN''"
| "pr_state_str PrMerged = ''MERGED''"
| "pr_state_str PrClosed = ''CLOSED''"

datatype mergeable = MUnknown | MMergeable | MConflicting

fun mergeable_str :: "mergeable \<Rightarrow> string" where
  "mergeable_str MMergeable = ''MERGEABLE''"
| "mergeable_str MConflicting = ''CONFLICTING''"
| "mergeable_str MUnknown = ''UNKNOWN''"

datatype review_decision = NoDecision | Approved | ChangesRequested

datatype check_conclusion =
  CSuccess | CFailure | CTimedOut | CCancelled | CNeutral | CSkipped | CPending | COther

definition check_conclusion_parse :: "string \<Rightarrow> check_conclusion" where
  "check_conclusion_parse s =
     (let u = to_ascii_uppercase s
      in if u = ''SUCCESS'' then CSuccess
         else if u = ''FAILURE'' then CFailure
         else if u = ''TIMED_OUT'' then CTimedOut
         else if u = ''CANCELLED'' then CCancelled
         else if u = ''NEUTRAL'' then CNeutral
         else if u = ''SKIPPED'' then CSkipped
         else if u = ''PENDING'' \<or> u = [] then CPending
         else COther)"

definition is_failing :: "check_conclusion \<Rightarrow> bool" where
  "is_failing c \<longleftrightarrow> c \<in> {CFailure, CTimedOut, CCancelled}"

definition is_passing :: "check_conclusion \<Rightarrow> bool" where
  "is_passing c \<longleftrightarrow> c \<in> {CSuccess, CNeutral, CSkipped}"

section \<open>Answers\<close>

datatype voice = Maintainer | Bot

record gh_author =
  au_login :: string

record gh_comment =
  gc_id :: string
  gc_author :: "gh_author option"
  gc_body :: string
  gc_created_at :: string
  gc_voice :: voice

record gh_review =
  gr_id :: string
  gr_author :: "gh_author option"
  gr_body :: string
  gr_submitted_at :: string
  gr_state :: string
  gr_voice :: voice

record gh_check_run =
  ck_name :: "string option"
  ck_context :: "string option"
  ck_conclusion :: "string option"
  ck_state :: "string option"

record gl_author =
  ga_id :: "int option"
  ga_username :: string

record gl_note =
  gn_body :: string
  gn_author :: "gl_author option"
  gn_created_at :: string
  gn_updated_at :: string
  gn_system :: bool
  gn_note_type :: "string option"

record gl_pipeline =
  gp_status :: string

record gl_merge_request =
  gm_state :: string
  gm_detailed_merge_status :: "string option"
  gm_merge_status :: "string option"
  gm_source_branch :: string
  gm_sha :: string
  gm_updated_at :: string
  gm_title :: string
  gm_description :: string
  gm_head_pipeline :: "gl_pipeline option"
  gm_pipeline :: "gl_pipeline option"

record gl_file_diff =
  gd_old_path :: string
  gd_new_path :: string
  gd_new_file :: bool
  gd_deleted_file :: bool
  gd_diff :: string
  gd_too_large :: bool
  gd_collapsed :: bool

record pr_view =
  pv_state :: pr_state
  pv_mergeable :: mergeable
  pv_review_decision :: review_decision
  pv_head_ref :: string
  pv_head_sha :: string
  pv_updated_at :: string
  pv_title :: string
  pv_body :: string
  pv_status_check_rollup :: "gh_check_run list"
  pv_comments :: "gh_comment list"
  pv_reviews :: "gh_review list"

definition no_view :: pr_view where
  "no_view = \<lparr>pv_state = PrOpen, pv_mergeable = MUnknown, pv_review_decision = NoDecision, pv_head_ref = [],
     pv_head_sha = [], pv_updated_at = [], pv_title = [], pv_body = [], pv_status_check_rollup = [],
     pv_comments = [], pv_reviews = []\<rparr>"

text \<open>serde_json's derived readers of the records above.\<close>

record decoders =
  de_json :: "string \<Rightarrow> string + json"
  de_checks :: "json \<Rightarrow> string + gh_check_run list"
  de_comments :: "json \<Rightarrow> string + gh_comment list"
  de_reviews :: "json \<Rightarrow> string + gh_review list"
  de_mr :: "string \<Rightarrow> string + gl_merge_request"
  de_notes :: "string \<Rightarrow> string + gl_note list"
  de_access_level :: "string \<Rightarrow> string + int"
  de_file_diffs :: "string \<Rightarrow> string + gl_file_diff list"

definition quoted :: "string \<Rightarrow> string" where
  "quoted s = CHR 0x22 # s @ [CHR 0x22]"

section \<open>Screening\<close>

text \<open>Who an item speaks for; the answers on who can push are kept for the rest of the screen.\<close>

definition voice_of ::
  "review_bots \<Rightarrow> (string \<Rightarrow> string \<Rightarrow> string + bool) \<Rightarrow> (string \<Rightarrow> bool io) \<Rightarrow>
   string \<Rightarrow> gh_author option \<Rightarrow> (string \<Rightarrow> bool option) \<Rightarrow> (voice option \<times> (string \<Rightarrow> bool option)) io" where
  "voice_of bots is_bot can_push item author known =
     (case author of
        None \<Rightarrow> ok (None, known)
      | Some a \<Rightarrow>
          (let login = au_login a;
               ask = (case known login of
                        Some yes \<Rightarrow> ok (some_if yes Maintainer, known)
                      | None \<Rightarrow> and_then (can_push login) (\<lambda>asked.
                                  ok (some_if asked Maintainer, known(login \<mapsto> asked))))
           in if login = [] then ok (None, known)
              else if review_bots_contains bots login then
                (case is_bot item login of
                   Inl e \<Rightarrow> err e
                 | Inr confirmed \<Rightarrow> (if confirmed then ok (Some Bot, known) else ask))
              else ask))"

fun screen_items ::
  "('i \<Rightarrow> (string \<Rightarrow> bool option) \<Rightarrow> (voice option \<times> (string \<Rightarrow> bool option)) io) \<Rightarrow> (voice \<Rightarrow> 'i \<Rightarrow> 'i) \<Rightarrow>
   'i list \<Rightarrow> (string \<Rightarrow> bool option) \<Rightarrow> ('i list \<times> (string \<Rightarrow> bool option)) io" where
  "screen_items speaks tagged [] known = ok ([], known)"
| "screen_items speaks tagged (i # is) known =
     and_then (speaks i known) (\<lambda>(v, known').
     and_then (screen_items speaks tagged is known') (\<lambda>(kept, known'').
       ok (case v of Some v \<Rightarrow> tagged v i # kept | None \<Rightarrow> kept, known'')))"

definition screen_feedback ::
  "pr_view \<Rightarrow> review_bots \<Rightarrow> (string \<Rightarrow> string \<Rightarrow> string + bool) \<Rightarrow> (string \<Rightarrow> bool io) \<Rightarrow> pr_view io" where
  "screen_feedback pr bots is_bot can_push =
     and_then (screen_items (\<lambda>c. voice_of bots is_bot can_push (gc_id c) (gc_author c))
                 (\<lambda>v c. c\<lparr>gc_voice := v\<rparr>) (pv_comments pr) Map.empty) (\<lambda>(comments, known).
     and_then (screen_items (\<lambda>r. voice_of bots is_bot can_push (gr_id r) (gr_author r))
                 (\<lambda>v r. r\<lparr>gr_voice := v\<rparr>) (pv_reviews pr) known) (\<lambda>(reviews, _).
       ok (pr\<lparr>pv_comments := comments, pv_reviews := reviews\<rparr>)))"

section \<open>The lookup cache\<close>

definition LOOKUP_TTL :: int where "LOOKUP_TTL = 15 * 60 * 1000"

type_synonym lookup_cache = "string \<Rightarrow> (bool \<times> millis) option"

definition still_fresh :: "millis \<Rightarrow> bool \<times> millis \<Rightarrow> bool" where
  "still_fresh now entry \<longleftrightarrow> max 0 (now - snd entry) < LOOKUP_TTL"

definition cache_fresh :: "lookup_cache \<Rightarrow> string \<Rightarrow> millis \<Rightarrow> bool option" where
  "cache_fresh cache key now =
     Option.bind (cache key) (\<lambda>entry. some_if (still_fresh now entry) (fst entry))"

definition record_all :: "(string \<times> bool) list \<Rightarrow> millis \<Rightarrow> lookup_cache \<Rightarrow> lookup_cache" where
  "record_all answers now cache =
     fold (\<lambda>(key, answer) c. c(key \<mapsto> (answer, now))) answers
       (\<lambda>key. Option.bind (cache key) (\<lambda>entry. some_if (still_fresh now entry) entry))"

definition record_answer :: "string \<Rightarrow> bool \<Rightarrow> millis \<Rightarrow> lookup_cache \<Rightarrow> lookup_cache" where
  "record_answer key answer = record_all [(key, answer)]"

definition clock :: "world \<Rightarrow> millis" where
  "clock w = w_now w (w_calls w)"

definition remember :: "(string \<times> bool) list \<Rightarrow> unit act" where
  "remember answers = State (\<lambda>w. ((), w\<lparr>w_lookups := record_all answers (clock w) (w_lookups w)\<rparr>))"

definition cached_lookup :: "string \<Rightarrow> bool io \<Rightarrow> bool io" where
  "cached_lookup key look_up = do {
     fresh \<leftarrow> look (\<lambda>w. cache_fresh (w_lookups w) key (clock w));
     (case fresh of
        Some answer \<Rightarrow> ok answer
      | None \<Rightarrow> and_then look_up (\<lambda>answer. do { _ \<leftarrow> remember [(key, answer)]; ok answer }))
   }"

section \<open>GitHub's answers\<close>

definition github_login_is_wellformed :: "string \<Rightarrow> bool" where
  "github_login_is_wellformed login =
     list_all (\<lambda>b. is_ascii_alphanumeric b \<or> b \<in> {CHR ''-'', CHR ''_'', CHR ''['', CHR '']''}) login"

definition hostname_args :: "string \<Rightarrow> string list" where
  "hostname_args host = (if eq_ignore_ascii_case host ''github.com'' then [] else [''--hostname'', host])"

definition github_api_jq :: "string \<Rightarrow> string \<Rightarrow> string \<Rightarrow> (int \<times> string) io" where
  "github_api_jq url api jq =
     (case url_host_path url of
        None \<Rightarrow> err (''cannot parse host from '' @ url)
      | Some (host, _) \<Rightarrow> do {
          r \<leftarrow> shell ([''gh'', ''api'', api, ''--jq'', jq] @ hostname_args host);
          ok r })"

definition AUTHOR_TYPES_QUERY :: string where
  "AUTHOR_TYPES_QUERY = ''query($ids: [ID!]!) { nodes(ids: $ids) { id ... on Comment { author { __typename } } } }''"

definition AUTHOR_TYPES_JQ :: string where
  "AUTHOR_TYPES_JQ = ''.data.nodes[] | select(. != null) | '' @
     quoted ([CHR 0x5C] @ ''(.id)'' @ [CHR 0x5C] @ ''t'' @ [CHR 0x5C] @ ''(.author.__typename // '' @ quoted [] @ '')'')"

definition github_author_types :: "string \<Rightarrow> string list \<Rightarrow> (string \<Rightarrow> string option) io" where
  "github_author_types url ids =
     (case url_host_path url of
        None \<Rightarrow> err (''cannot parse host from '' @ url)
      | Some (host, _) \<Rightarrow> do {
          (rc, out) \<leftarrow> shell ([''gh'', ''api'', ''graphql'', ''-f'', ''query='' @ AUTHOR_TYPES_QUERY] @
                              concat (map (\<lambda>i. [''-f'', ''ids[]='' @ i]) ids) @
                              [''--jq'', AUTHOR_TYPES_JQ] @ hostname_args host);
          (if rc \<noteq> 0 then err (''gh api graphql (author types) failed (rc='' @ show_int rc @ ''): '' @ out)
           else ok (map_of (rev (map (\<lambda>(i, kind). (i, trim kind))
                      (List.map_filter (split_once [CHR 0x09]) (lines out)))))) })"

function chunks :: "nat \<Rightarrow> 'a list \<Rightarrow> 'a list list" where
  "chunks n xs = (if xs = [] \<or> n = 0 then [] else take n xs # chunks n (drop n xs))"
  by pat_completeness auto
termination by (relation "measure (\<lambda>(n, xs). length xs)") auto

declare chunks.simps [simp del]

definition bot_item_key :: "string \<Rightarrow> string \<Rightarrow> string" where
  "bot_item_key host item = ''github-bot-item:'' @ host @ '':'' @ item"

fun ask_author_types :: "string \<Rightarrow> string \<Rightarrow> string list list \<Rightarrow> string list io" where
  "ask_author_types url host [] = ok []"
| "ask_author_types url host (chunk # rest) =
     and_then (github_author_types url chunk) (\<lambda>types. do {
       _ \<leftarrow> remember (map (\<lambda>i. (bot_item_key host i, types i = Some ''Bot'')) chunk);
       and_then (ask_author_types url host rest) (\<lambda>more.
         ok (filter (\<lambda>i. types i = Some ''Bot'') chunk @ more)) })"

definition github_bot_authored :: "string \<Rightarrow> string \<Rightarrow> string list \<Rightarrow> string list io" where
  "github_bot_authored url host ids = do {
     known \<leftarrow> look (\<lambda>w. map (\<lambda>i. (i, cache_fresh (w_lookups w) (bot_item_key host i) (clock w))) ids);
     and_then (ask_author_types url host (chunks 100 (map fst (filter (\<lambda>(_, a). a = None) known)))) (\<lambda>asked.
       ok (map fst (filter (\<lambda>(_, a). a = Some True) known) @ asked))
   }"

definition github_can_push :: "string \<Rightarrow> string \<Rightarrow> bool io" where
  "github_can_push url login =
     (if \<not> github_login_is_wellformed login then ok False
      else case url_host_path url of
        None \<Rightarrow> err (''cannot parse owner/repo from '' @ url)
      | Some (_, path) \<Rightarrow>
          (let api = ''repos/'' @ repo_stem path @ ''/collaborators/'' @ login @ ''/permission''
           in and_then (github_api_jq url api ''.user.permissions.push'') (\<lambda>(rc, out).
                if rc \<noteq> 0 then
                  (if contains_sub ''(HTTP 404)'' out then ok False
                   else err (''gh api '' @ api @ '' failed (rc='' @ show_int rc @ ''): '' @ out))
                else if trim out = ''true'' then ok True
                else if trim out = ''false'' then ok False
                else err (''gh api '' @ api @ '': unexpected push permission '' @ quoted (trim out)))))"

definition github_screen :: "string \<Rightarrow> pr_view \<Rightarrow> review_bots \<Rightarrow> pr_view io" where
  "github_screen url pr bots =
     (let (host, repo) = (case url_host_path url of
                            None \<Rightarrow> ([], url)
                          | Some (h, p) \<Rightarrow> (to_ascii_lowercase h, to_ascii_lowercase h @ ''/'' @ p));
          items = map (\<lambda>c. (gc_id c, gc_author c)) (pv_comments pr) @ map (\<lambda>r. (gr_id r, gr_author r)) (pv_reviews pr);
          ids = map fst (filter (\<lambda>(i, a). i \<noteq> [] \<and>
                  (case a of Some a \<Rightarrow> review_bots_contains bots (au_login a) | None \<Rightarrow> False)) items)
      in and_then (if ids = [] then ok [] else github_bot_authored url host ids) (\<lambda>bot_authored.
           screen_feedback pr bots (\<lambda>i _. Inr (i \<in> set bot_authored))
             (\<lambda>login. cached_lookup (''github-push:'' @ repo @ '':'' @ normalize_login login) (github_can_push url login))))"

definition gh_pr_view :: "decoders \<Rightarrow> string \<Rightarrow> int \<Rightarrow> string \<Rightarrow> pr_view io" where
  "gh_pr_view D slug pr_number wanted = do {
     (rc, out) \<leftarrow> shell [''gh'', ''pr'', ''view'', show_int pr_number, ''-R'', slug, ''--json'', wanted];
     (if rc \<noteq> 0 then err (''gh pr view failed (rc='' @ show_int rc @ ''): '' @ out)
      else case de_json D (trim out) of
        Inl e \<Rightarrow> err e
      | Inr v \<Rightarrow>
          (let text_of = (\<lambda>key. unwrap_or (str_field v key) []);
               state = to_ascii_uppercase (text_of ''state'');
               merge = to_ascii_uppercase (text_of ''mergeable'');
               review = to_ascii_uppercase (text_of ''reviewDecision'')
           in ok \<lparr>pv_state = (if state = ''MERGED'' then PrMerged else if state = ''CLOSED'' then PrClosed else PrOpen),
                  pv_mergeable = (if merge = ''MERGEABLE'' then MMergeable
                                  else if merge = ''CONFLICTING'' then MConflicting else MUnknown),
                  pv_review_decision = (if review = ''APPROVED'' then Approved
                                        else if review = ''CHANGES_REQUESTED'' then ChangesRequested else NoDecision),
                  pv_head_ref = text_of ''headRefName'', pv_head_sha = text_of ''headRefOid'',
                  pv_updated_at = text_of ''updatedAt'', pv_title = text_of ''title'', pv_body = text_of ''body'',
                  pv_status_check_rollup = result_or (de_checks D (unwrap_or (json_get v ''statusCheckRollup'') JNull)) [],
                  pv_comments = result_or (de_comments D (unwrap_or (json_get v ''comments'') JNull)) [],
                  pv_reviews = result_or (de_reviews D (unwrap_or (json_get v ''reviews'') JNull)) []\<rparr>)) }"

section \<open>GitLab's answers\<close>

definition gitlab_api :: "string \<Rightarrow> string \<Rightarrow> string option \<Rightarrow> (string \<times> string) list \<Rightarrow> (int \<times> string) act" where
  "gitlab_api url api_path method params =
     shell ([''glab'', ''api'', api_path] @
            (case method of Some m \<Rightarrow> [''--method'', m] | None \<Rightarrow> []) @
            concat (map (\<lambda>(k, v). [''-f'', k @ ''='' @ v]) params) @
            (case gitlab_host_path url of
               Some (host, _) \<Rightarrow> if host \<noteq> ''gitlab.com'' then [''--hostname'', host] else []
             | None \<Rightarrow> []))"

definition percent_slashes :: "string \<Rightarrow> string" where
  "percent_slashes s = concat (map (\<lambda>c. if c = CHR ''/'' then ''%2F'' else [c]) s)"

definition GITLAB_DEVELOPER :: int where "GITLAB_DEVELOPER = 30"

definition gitlab_can_push :: "decoders \<Rightarrow> string \<Rightarrow> string \<Rightarrow> int \<Rightarrow> bool io" where
  "gitlab_can_push D url project user_id =
     (let api = ''projects/'' @ percent_slashes project @ ''/members/all/'' @ show_int user_id
      in do {
        (rc, out) \<leftarrow> gitlab_api url api None [];
        (if rc \<noteq> 0 then
           (if contains_sub ''(HTTP 404)'' out then ok False
            else err (''glab api '' @ api @ '' failed (rc='' @ show_int rc @ ''): '' @ out))
         else case de_access_level D (trim out) of
           Inl e \<Rightarrow> err (''glab api '' @ api @ '': unparseable member: '' @ e)
         | Inr level \<Rightarrow> ok (GITLAB_DEVELOPER \<le> level)) })"

definition gitlab_norm_state :: "string \<Rightarrow> pr_state" where
  "gitlab_norm_state raw =
     (let s = to_ascii_lowercase raw
      in if s = ''merged'' then PrMerged else if s = ''closed'' then PrClosed else PrOpen)"

definition gitlab_norm_mergeable :: "gl_merge_request \<Rightarrow> mergeable" where
  "gitlab_norm_mergeable mr =
     (let s = to_ascii_lowercase (unwrap_or (opt_or (gm_detailed_merge_status mr) (gm_merge_status mr)) [])
      in if s \<in> {''mergeable'', ''can_be_merged'', ''ci_must_pass'', ''ci_still_running''} then MMergeable
         else if contains_sub ''conflict'' s \<or> s = ''cannot_be_merged'' then MConflicting
         else MUnknown)"

definition check_of :: "string \<Rightarrow> gh_check_run" where
  "check_of conclusion = \<lparr>ck_name = None, ck_context = None, ck_conclusion = Some conclusion, ck_state = None\<rparr>"

definition gitlab_norm_pipeline :: "gl_merge_request \<Rightarrow> gh_check_run list" where
  "gitlab_norm_pipeline mr =
     (case opt_or (gm_head_pipeline mr) (gm_pipeline mr) of
        None \<Rightarrow> []
      | Some pipeline \<Rightarrow>
          (let s = to_ascii_lowercase (gp_status pipeline)
           in [check_of (if s = ''success'' then ''SUCCESS''
                         else if s = ''failed'' then ''FAILURE''
                         else if s = ''canceled'' then ''CANCELLED''
                         else if s = ''skipped'' then ''SKIPPED''
                         else if s = ''running'' then ''IN_PROGRESS''
                         else if s = ''pending'' \<or> s = ''created'' then ''PENDING''
                         else if s = ''manual'' then ''NEUTRAL''
                         else to_ascii_uppercase s)]))"

definition note_time :: "gl_note \<Rightarrow> string" where
  "note_time n = (if gn_created_at n = [] then gn_updated_at n else gn_created_at n)"

definition note_author :: "gl_note \<Rightarrow> gh_author option" where
  "note_author n = map_option (\<lambda>a. \<lparr>au_login = ga_username a\<rparr>) (gn_author n)"

definition gitlab_split_notes :: "gl_note list \<Rightarrow> gh_comment list \<times> gh_review list" where
  "gitlab_split_notes notes =
     (let human = filter (\<lambda>n. \<not> gn_system n) notes;
          diff_note = (\<lambda>n. gn_note_type n = Some ''DiffNote'')
      in (map (\<lambda>n. \<lparr>gc_id = [], gc_author = note_author n, gc_body = gn_body n, gc_created_at = note_time n,
                     gc_voice = Maintainer\<rparr>) (filter (\<lambda>n. \<not> diff_note n) human),
          map (\<lambda>n. \<lparr>gr_id = [], gr_author = note_author n, gr_body = gn_body n, gr_submitted_at = note_time n,
                     gr_state = [], gr_voice = Maintainer\<rparr>) (filter diff_note human)))"

definition gitlab_feedback ::
  "decoders \<Rightarrow> string \<Rightarrow> string \<Rightarrow> gl_note list \<Rightarrow> review_bots \<Rightarrow> (gh_comment list \<times> gh_review list) io" where
  "gitlab_feedback D url project notes bots =
     (let ids = map_of (rev (List.map_filter (\<lambda>a. map_option (\<lambda>i. (ga_username a, i)) (ga_id a))
                  (List.map_filter gn_author notes)));
          (comments, reviews) = gitlab_split_notes notes;
          host = to_ascii_lowercase (case gitlab_host_path url of Some (h, _) \<Rightarrow> h | None \<Rightarrow> [])
      in and_then
           (screen_feedback (no_view\<lparr>pv_comments := comments, pv_reviews := reviews\<rparr>) bots (\<lambda>_ _. Inr True)
              (\<lambda>login. case ids login of
                         None \<Rightarrow> err (''GitLab note by '' @ quoted login @ '' carries no author id'')
                       | Some i \<Rightarrow> cached_lookup (''gitlab-push:'' @ host @ ''/'' @ project @ '':'' @ show_int i)
                                     (gitlab_can_push D url project i)))
           (\<lambda>view. ok (pv_comments view, pv_reviews view)))"

definition gitlab_fetch_mr :: "decoders \<Rightarrow> string \<Rightarrow> string \<Rightarrow> int \<Rightarrow> (gl_merge_request \<times> gl_note list) io" where
  "gitlab_fetch_mr D url slug n =
     (let api_path = ''projects/'' @ percent_slashes slug @ ''/merge_requests/'' @ show_int n
      in do {
        (rc, out) \<leftarrow> gitlab_api url api_path None [];
        (if rc \<noteq> 0 then err (''glab api '' @ api_path @ '' failed (rc='' @ show_int rc @ ''): '' @ out)
         else case de_mr D (trim out) of
           Inl e \<Rightarrow> err e
         | Inr mr \<Rightarrow> do {
             (rc2, out2) \<leftarrow> gitlab_api url (api_path @ ''/notes?sort=desc&per_page=100'') None [];
             ok (mr, rev (if rc2 = 0 then result_or (de_notes D (trim out2)) [] else [])) }) })"

section \<open>The operations of a forge\<close>

definition newline :: string where "newline = [CHR 0x0A]"

definition omitted :: "gl_file_diff \<Rightarrow> string option" where
  "omitted f =
     (if gd_diff f \<noteq> [] then None
      else if gd_too_large f then Some ''file too large''
      else if gd_collapsed f then Some ''collapsed''
      else None)"

definition file_diff_text :: "gl_file_diff \<Rightarrow> string" where
  "file_diff_text f =
     (let old = (if gd_new_file f then ''/dev/null'' else ''a/'' @ gd_old_path f);
          new = (if gd_deleted_file f then ''/dev/null'' else ''b/'' @ gd_new_path f)
      in ''diff --git a/'' @ gd_old_path f @ '' b/'' @ gd_new_path f @ newline @
         ''--- '' @ old @ newline @ ''+++ '' @ new @ newline @
         (case omitted f of
            Some why \<Rightarrow> ''[diff omitted by GitLab: '' @ why @ '']'' @ newline
          | None \<Rightarrow> gd_diff f @ (if ends_with newline (gd_diff f) then [] else newline)))"

definition gitlab_unified_diff :: "gl_file_diff list \<Rightarrow> string" where
  "gitlab_unified_diff files = concat (map file_diff_text files)"

definition github_slug :: "string \<Rightarrow> (string \<Rightarrow> 'a io) \<Rightarrow> 'a io" where
  "github_slug url act =
     (case github_owner_repo url of
        None \<Rightarrow> err (''cannot parse owner/repo from '' @ url)
      | Some (owner, repo) \<Rightarrow> act (owner @ ''/'' @ repo))"

definition gitlab_project :: "string \<Rightarrow> (string \<Rightarrow> string \<Rightarrow> 'a io) \<Rightarrow> 'a io" where
  "gitlab_project url act =
     (case gitlab_host_path url of
        None \<Rightarrow> err (''cannot parse GitLab URL: '' @ url)
      | Some (host, path) \<Rightarrow> act host path)"

text \<open>A command whose failure is an error with its output.\<close>

definition must :: "string \<Rightarrow> (int \<times> string) act \<Rightarrow> string io" where
  "must what cmd = do {
     (rc, out) \<leftarrow> cmd;
     (if rc \<noteq> 0 then err (what @ '' failed (rc='' @ show_int rc @ ''): '' @ out) else ok out) }"

definition last_line :: "string \<Rightarrow> string" where
  "last_line out = (let ls = lines (trim out) in if ls = [] then [] else last ls)"

definition github_create_pr :: "string \<Rightarrow> string \<Rightarrow> string \<Rightarrow> string \<Rightarrow> string \<Rightarrow> string io" where
  "github_create_pr repo_path head base title body =
     and_then (must ''gh pr create'' (shell_in (Some repo_path)
         [''gh'', ''pr'', ''create'', ''--draft'', ''--head'', head, ''--base'', base, ''--title'',
          if title = [] then head else title, ''--body'', body]))
       (\<lambda>out. ok (last_line out))"

definition gitlab_create_pr :: "string \<Rightarrow> string \<Rightarrow> string \<Rightarrow> string \<Rightarrow> string \<Rightarrow> string io" where
  "gitlab_create_pr repo_path head base title body = do {
     (rc, out) \<leftarrow> shell_in (Some repo_path)
       [''glab'', ''mr'', ''create'', ''--source-branch'', head, ''--target-branch'', base, ''--draft'', ''--title'',
        if title = [] then head else title, ''--description'', body, ''--yes''];
     (if rc \<noteq> 0 then
        (let failed = ''glab mr create failed (rc='' @ show_int rc @ ''): ''
         in if contains_sub ''already exists'' (join '' '' (split_whitespace out)) then do {
              (lrc, listed) \<leftarrow> shell_in (Some repo_path)
                [''glab'', ''mr'', ''list'', ''--source-branch'', head, ''--target-branch'', base,
                 ''--output'', ''json'', ''--jq'', ''.[].web_url''];
              (case (lrc = 0, find (contains_sub ''/-/merge_requests/'') (map trim (lines listed))) of
                 (True, Some url) \<Rightarrow> err (failed @ ''merge request already exists: '' @ url @ newline @ out)
               | _ \<Rightarrow> err (failed @ out)) }
            else err (failed @ out))
      else ok (case find (contains_sub ''/-/merge_requests/'') (rev (lines (trim out))) of
                 Some l \<Rightarrow> trim l
               | None \<Rightarrow> last_line out)) }"

fun create_pr :: "forge_name \<Rightarrow> string \<Rightarrow> string \<Rightarrow> string \<Rightarrow> string \<Rightarrow> string \<Rightarrow> string io" where
  "create_pr Github = github_create_pr" | "create_pr Gitlab = gitlab_create_pr"

definition github_view :: "decoders \<Rightarrow> string \<Rightarrow> string \<Rightarrow> int \<Rightarrow> review_bots \<Rightarrow> pr_view io" where
  "github_view D wanted url pr_number bots =
     github_slug url (\<lambda>slug. and_then (gh_pr_view D slug pr_number wanted) (\<lambda>pr. github_screen url pr bots))"

definition gitlab_view :: "decoders \<Rightarrow> bool \<Rightarrow> string \<Rightarrow> int \<Rightarrow> review_bots \<Rightarrow> pr_view io" where
  "gitlab_view D texts url pr_number bots =
     gitlab_project url (\<lambda>_ path.
       and_then (gitlab_fetch_mr D url path pr_number) (\<lambda>(mr, notes).
       and_then (gitlab_feedback D url path notes bots) (\<lambda>(comments, reviews).
         ok \<lparr>pv_state = gitlab_norm_state (gm_state mr), pv_mergeable = gitlab_norm_mergeable mr,
             pv_review_decision = NoDecision, pv_head_ref = gm_source_branch mr, pv_head_sha = gm_sha mr,
             pv_updated_at = gm_updated_at mr, pv_title = (if texts then gm_title mr else []),
             pv_body = (if texts then gm_description mr else []),
             pv_status_check_rollup = gitlab_norm_pipeline mr, pv_comments = comments, pv_reviews = reviews\<rparr>)))"

fun view_pr_sync :: "forge_name \<Rightarrow> decoders \<Rightarrow> string \<Rightarrow> int \<Rightarrow> review_bots \<Rightarrow> pr_view io" where
  "view_pr_sync Github D = github_view D
     ''state,mergedAt,mergeable,reviewDecision,statusCheckRollup,comments,reviews,updatedAt,headRefName,headRefOid''"
| "view_pr_sync Gitlab D = gitlab_view D False"

fun view_pr_engage :: "forge_name \<Rightarrow> decoders \<Rightarrow> string \<Rightarrow> int \<Rightarrow> review_bots \<Rightarrow> pr_view io" where
  "view_pr_engage Github D = github_view D ''title,body,comments,reviews,statusCheckRollup,headRefName,headRefOid''"
| "view_pr_engage Gitlab D = gitlab_view D True"

definition MAX_DIFF_PAGES :: nat where "MAX_DIFF_PAGES = 10"
definition PER_PAGE :: nat where "PER_PAGE = 100"

text \<open>\<open>left\<close> pages may still be asked for; the flag says whether a short page ended the walk.\<close>

fun gitlab_diff_pages :: "decoders \<Rightarrow> string \<Rightarrow> string \<Rightarrow> nat \<Rightarrow> nat \<Rightarrow> gl_file_diff list \<Rightarrow> (gl_file_diff list \<times> bool) io" where
  "gitlab_diff_pages D url api_path page 0 files = ok (files, False)"
| "gitlab_diff_pages D url api_path page (Suc pages) files =
     (let api = api_path @ ''/diffs?per_page='' @ show_nat PER_PAGE @ ''&page='' @ show_nat page
      in and_then (must (''glab api '' @ api) (gitlab_api url api None [])) (\<lambda>out.
           case de_file_diffs D (trim out) of
             Inl e \<Rightarrow> err e
           | Inr batch \<Rightarrow>
               (if length batch < PER_PAGE then ok (files @ batch, True)
                else gitlab_diff_pages D url api_path (Suc page) pages (files @ batch))))"

fun pr_diff :: "forge_name \<Rightarrow> decoders \<Rightarrow> string \<Rightarrow> int \<Rightarrow> string io" where
  "pr_diff Github D url pr_number =
     github_slug url (\<lambda>slug.
       must ''gh pr diff'' (shell [''gh'', ''pr'', ''diff'', show_int pr_number, ''-R'', slug, ''--color'', ''never'']))"
| "pr_diff Gitlab D url pr_number =
     gitlab_project url (\<lambda>_ path.
       and_then (gitlab_diff_pages D url (''projects/'' @ percent_slashes path @ ''/merge_requests/'' @ show_int pr_number)
                   1 MAX_DIFF_PAGES [])
         (\<lambda>(files, complete).
            (let shown = show_nat (PER_PAGE * MAX_DIFF_PAGES)
             in ok (gitlab_unified_diff files @
                    (if complete then []
                     else ''[diff truncated: MR has more than '' @ shown @ '' changed files; only the first '' @
                          shown @ '' are shown]'' @ newline)))))"

fun comment_pr :: "forge_name \<Rightarrow> string \<Rightarrow> int \<Rightarrow> string \<Rightarrow> unit io" where
  "comment_pr Github url pr_number body =
     github_slug url (\<lambda>slug.
       and_then (must ''gh pr comment'' (shell [''gh'', ''pr'', ''comment'', show_int pr_number, ''-R'', slug, ''--body'', body]))
         (\<lambda>_. ok ()))"
| "comment_pr Gitlab url pr_number body =
     gitlab_project url (\<lambda>_ path.
       and_then (must ''glab api POST notes'' (gitlab_api url
           (''projects/'' @ percent_slashes path @ ''/merge_requests/'' @ show_int pr_number @ ''/notes'')
           (Some ''POST'') [(''body'', body)]))
         (\<lambda>_. ok ()))"

definition comment_first :: "forge_name \<Rightarrow> string \<Rightarrow> int \<Rightarrow> string \<Rightarrow> unit io" where
  "comment_first forge url pr_number comment =
     (if comment \<noteq> [] then comment_pr forge url pr_number comment else ok ())"

fun close_pr :: "forge_name \<Rightarrow> string \<Rightarrow> int \<Rightarrow> string \<Rightarrow> unit io" where
  "close_pr Github url pr_number comment =
     and_then (comment_first Github url pr_number comment) (\<lambda>_.
       github_slug url (\<lambda>slug.
         and_then (must ''gh pr close'' (shell [''gh'', ''pr'', ''close'', show_int pr_number, ''-R'', slug]))
           (\<lambda>_. ok ())))"
| "close_pr Gitlab url pr_number comment =
     and_then (comment_first Gitlab url pr_number comment) (\<lambda>_.
       gitlab_project url (\<lambda>host path.
         and_then (must ''glab mr close'' (shell [''glab'', ''mr'', ''close'', show_int pr_number, ''-R'',
             if host \<noteq> ''gitlab.com'' then ''https://'' @ host @ ''/'' @ path else path]))
           (\<lambda>_. ok ())))"

definition push :: "forge_name \<Rightarrow> string \<Rightarrow> string \<Rightarrow> string \<Rightarrow> unit io" where
  "push forge repo_path url branch =
     and_then (must ''git push'' (shell_in (Some repo_path)
         [''git'', ''push'', ''--force'', ssh_url forge url, ''HEAD:'' @ branch]))
       (\<lambda>_. ok ())"

end
