(* ===== verification/Screening.thy ===== *)
theory Screening
  imports Forge
begin

text \<open>
What the forge's screening and its cache promise (\<open>forge.rs\<close>). \<open>speaker\<close> is the rule itself: a
listed login whose item the forge confirms is a bot's speaks as the bot, anyone else only with push access, nobody else at
all. \<open>screen_feedback\<close>, which asks the forge as it goes and remembers the answers, computes exactly that.
\<close>

section \<open>The screening rule\<close>

definition speaker ::
  "review_bots \<Rightarrow> (string \<Rightarrow> string \<Rightarrow> bool) \<Rightarrow> (string \<Rightarrow> bool) \<Rightarrow> string \<Rightarrow> gh_author option \<Rightarrow> voice option" where
  "speaker bots confirmed may item author =
     (case author of
        None \<Rightarrow> None
      | Some a \<Rightarrow>
          if au_login a = [] then None
          else if review_bots_contains bots (au_login a) \<and> confirmed item (au_login a) then Some Bot
          else if may (au_login a) then Some Maintainer
          else None)"

definition answers_as :: "(string \<Rightarrow> bool io) \<Rightarrow> (string \<Rightarrow> bool) \<Rightarrow> bool" where
  "answers_as can_push may \<longleftrightarrow> (\<forall>login w. wp (can_push login) (\<lambda>r _. r \<in> range Inl \<union> {Inr (may login)}) w)"

definition known_as :: "(string \<Rightarrow> bool option) \<Rightarrow> (string \<Rightarrow> bool) \<Rightarrow> bool" where
  "known_as known may \<longleftrightarrow> (\<forall>l b. known l = Some b \<longrightarrow> b = may l)"

lemma wp_voice_of:
  assumes "answers_as can_push may" "known_as known may"
  shows "wp (voice_of bots (\<lambda>i l. Inr (confirmed i l)) can_push item author known)
    (\<lambda>r _. \<forall>v known'. r = Inr (v, known') \<longrightarrow> v = speaker bots confirmed may item author \<and> known_as known' may) w"
proof (cases author)
  case None
  then show ?thesis using assms(2) by (simp add: voice_of_def speaker_def wp_simps)
next
  case (Some a)
  let ?l = "au_login a"
  have ask: "wp (case known ?l of Some yes \<Rightarrow> ok (some_if yes Maintainer, known)
      | None \<Rightarrow> and_then (can_push ?l) (\<lambda>asked. ok (some_if asked Maintainer, known(?l \<mapsto> asked))))
    (\<lambda>r _. \<forall>v known'. r = Inr (v, known') \<longrightarrow> v = some_if (may ?l) Maintainer \<and> known_as known' may) w"
  proof (cases "known ?l")
    case (Some b)
    then show ?thesis using assms(2) by (simp add: wp_simps known_as_def)
  next
    case None
    have "wp (can_push ?l) (\<lambda>r _. r \<in> range Inl \<union> {Inr (may ?l)}) w"
      using assms(1) by (simp add: answers_as_def)
    then show ?thesis
      unfolding None option.case wp_and_then
      by (rule wp_mono) (use assms(2) in \<open>auto simp: wp_simps known_as_def\<close>)
  qed
  show ?thesis
    using ask assms(2) Some
    by (auto simp: voice_of_def speaker_def wp_simps some_if_def Let_def split del: option.split)
qed

definition screened ::
  "('i \<Rightarrow> voice option) \<Rightarrow> (voice \<Rightarrow> 'i \<Rightarrow> 'i) \<Rightarrow> 'i list \<Rightarrow> 'i list" where
  "screened speaks tagged items = List.map_filter (\<lambda>i. map_option (\<lambda>v. tagged v i) (speaks i)) items"

lemma wp_screen_items:
  assumes "\<And>i known w. known_as known may \<Longrightarrow>
      wp (speaks i known) (\<lambda>r _. \<forall>v known'. r = Inr (v, known') \<longrightarrow> v = rule i \<and> known_as known' may) w"
    and "known_as known may"
  shows "wp (screen_items speaks tagged items known)
    (\<lambda>r _. \<forall>kept known'. r = Inr (kept, known') \<longrightarrow> kept = screened rule tagged items \<and> known_as known' may) w"
  using assms(2)
proof (induction items arbitrary: known w)
  case Nil
  then show ?case by (simp add: wp_simps screened_def List.map_filter_simps)
next
  case (Cons i items)
  show ?case
    unfolding screen_items.simps wp_and_then
    by (rule wp_mono [OF assms(1) [OF Cons.prems]])
      (auto simp: wp_simps screened_def List.map_filter_simps split: sum.split option.split
        intro!: wp_mono [OF Cons.IH])
qed

lemma wp_screen_by_author:
  assumes "answers_as can_push may" "known_as known may"
  shows "wp (screen_items (\<lambda>i. voice_of bots (\<lambda>i l. Inr (confirmed i l)) can_push (item i) (author i)) tagged items known)
    (\<lambda>r _. \<forall>kept known'. r = Inr (kept, known') \<longrightarrow>
       kept = screened (\<lambda>i. speaker bots confirmed may (item i) (author i)) tagged items \<and> known_as known' may) w"
  by (rule wp_screen_items [OF wp_voice_of [OF assms(1)] assms(2)])

lemma wp_screen_feedback:
  assumes "answers_as can_push may"
  shows "wp (screen_feedback pr bots (\<lambda>i l. Inr (confirmed i l)) can_push)
    (\<lambda>r _. \<forall>pr'. r = Inr pr' \<longrightarrow> pr' = pr\<lparr>
       pv_comments := screened (\<lambda>c. speaker bots confirmed may (gc_id c) (gc_author c)) (\<lambda>v c. c\<lparr>gc_voice := v\<rparr>) (pv_comments pr),
       pv_reviews := screened (\<lambda>r. speaker bots confirmed may (gr_id r) (gr_author r)) (\<lambda>v r. r\<lparr>gr_voice := v\<rparr>) (pv_reviews pr)\<rparr>) w"
proof -
  have none: "known_as Map.empty may" by (simp add: known_as_def)
  show ?thesis
    unfolding screen_feedback_def wp_and_then
    by (rule wp_mono [OF wp_screen_by_author [OF assms none]])
      (auto simp: wp_simps split: sum.split intro!: wp_mono [OF wp_screen_by_author [OF assms]])
qed

text \<open>C12. Feedback that leaves the forge is exactly what its authors may say: a listed login whose item
  the forge confirms is a bot's is kept as the bot's, any other item only when its author can push, as a
  maintainer's; strangers, deleted accounts and unconfirmed name-sakes are dropped, the order and everything else of the view
  stay, and an answer the forge could not give fails the whole screen.\<close>
theorem screened_feedback_sound:
  assumes "answers_as can_push may"
    and "run_state (screen_feedback pr bots (\<lambda>i l. Inr (confirmed i l)) can_push) w = (Inr pr', w')"
  shows "pr' = pr\<lparr>
      pv_comments := screened (\<lambda>c. speaker bots confirmed may (gc_id c) (gc_author c)) (\<lambda>v c. c\<lparr>gc_voice := v\<rparr>) (pv_comments pr),
      pv_reviews := screened (\<lambda>r. speaker bots confirmed may (gr_id r) (gr_author r)) (\<lambda>v r. r\<lparr>gr_voice := v\<rparr>) (pv_reviews pr)\<rparr>"
  using wp_run [OF wp_screen_feedback [OF assms(1)] assms(2)] by blast

definition demo_comment :: "string \<Rightarrow> gh_comment" where
  "demo_comment login = \<lparr>gc_id = ''c'', gc_author = Some \<lparr>au_login = login\<rparr>, gc_body = ''x'', gc_created_at = [],
     gc_voice = Maintainer\<rparr>"

theorem screened_feedback_sound_witness:
  "\<exists>w'. run_state (screen_feedback (no_view\<lparr>pv_comments := map demo_comment [''bot'', ''lead'', ''stranger'']\<rparr>)
      (review_bots_new [''bot'']) (\<lambda>i l. Inr True) (\<lambda>l. ok (l = ''lead''))) (quiet 5 empty_db) =
    (Inr (no_view\<lparr>pv_comments := [(demo_comment ''bot'')\<lparr>gc_voice := Bot\<rparr>, demo_comment ''lead'']\<rparr>), w')"
proof -
  let ?pr = "no_view\<lparr>pv_comments := map demo_comment [''bot'', ''lead'', ''stranger'']\<rparr>"
  let ?bots = "review_bots_new [''bot'']"
  have as: "answers_as (\<lambda>l. ok (l = ''lead'')) (\<lambda>l. l = ''lead'')"
    by (simp add: answers_as_def wp_simps)
  obtain r w' where run: "run_state (screen_feedback ?pr ?bots (\<lambda>i l. Inr True) (\<lambda>l. ok (l = ''lead'')))
      (quiet 5 empty_db) = (r, w')" by fastforce
  have bot: "review_bots_contains ?bots ''bot''" "\<not> review_bots_contains ?bots ''lead''"
    "\<not> review_bots_contains ?bots ''stranger''" by code_simp+
  have "wp (screen_feedback ?pr ?bots (\<lambda>i l. Inr True) (\<lambda>l. ok (l = ''lead''))) (\<lambda>r _. \<exists>pr'. r = Inr pr') (quiet 5 empty_db)"
    by (simp add: screen_feedback_def voice_of_def wp_simps bot demo_comment_def no_view_def Let_def)
  then obtain pr' where r: "r = Inr pr'" using wp_run [OF _ run] by blast
  have "pr' = no_view\<lparr>pv_comments := [(demo_comment ''bot'')\<lparr>gc_voice := Bot\<rparr>, demo_comment ''lead'']\<rparr>"
    using screened_feedback_sound [OF as run [unfolded r]]
    by (simp add: screened_def speaker_def List.map_filter_simps bot demo_comment_def no_view_def)
  with run r show ?thesis by blast
qed

section \<open>The cache\<close>

lemma record_all_get:
  "record_all answers t cache key =
     (case map_of (rev answers) key of
        Some a \<Rightarrow> Some (a, t)
      | None \<Rightarrow> Option.bind (cache key) (\<lambda>entry. some_if (still_fresh t entry) entry))"
  unfolding record_all_def
  by (induction answers arbitrary: key rule: rev_induct) (auto simp: map_add_def split: option.splits)

text \<open>An answer is believed for exactly fifteen minutes: after a batch was recorded at \<open>t\<close>, a
  later lookup of one of its keys sees the batch's last answer until, and not at, \<open>t\<close> plus the limit; a lookup of any other key
  sees what it would have seen without the batch, so dropping expired entries is invisible.\<close>
theorem lookup_cache_expiry:
  assumes "t \<le> now"
  shows "cache_fresh (record_all answers t cache) key now =
    (case map_of (rev answers) key of
       Some a \<Rightarrow> if now < t + LOOKUP_TTL then Some a else None
     | None \<Rightarrow> cache_fresh cache key now)"
  using assms
  by (cases "cache key")
    (auto simp: cache_fresh_def record_all_get some_if_def still_fresh_def LOOKUP_TTL_def split: option.split)

theorem lookup_cache_expiry_witness:
  "cache_fresh (record_all [(''k'', True)] 0 Map.empty) ''k'' 899999 = Some True \<and>
   cache_fresh (record_all [(''k'', True)] 0 Map.empty) ''k'' 900000 = None"
  using lookup_cache_expiry [of 0 899999 "[(''k'', True)]" Map.empty "''k''"]
    lookup_cache_expiry [of 0 900000 "[(''k'', True)]" Map.empty "''k''"]
  by (simp add: LOOKUP_TTL_def)

section \<open>Closing\<close>

text \<open>A pull request is closed only after the reason was posted: when the comment fails, closing
  fails with its error and runs nothing more.\<close>
theorem close_only_after_comment:
  assumes "run_state (comment_first forge url n comment) w = (Inl e, w1)"
  shows "run_state (close_pr forge url n comment) w = (Inl e, w1)"
  using assms by (cases forge) (simp_all add: and_then_def err_def)

theorem close_only_after_comment_witness:
  "run_state (close_pr Gitlab ''nonsense'' 3 ''withdrawn'') (quiet 5 empty_db) =
     (Inl ''cannot parse GitLab URL: nonsense'', quiet 5 empty_db)"
proof (rule close_only_after_comment)
  have "gitlab_host_path ''nonsense'' = None" by code_simp
  then show "run_state (comment_first Gitlab ''nonsense'' 3 ''withdrawn'') (quiet 5 empty_db) =
      (Inl ''cannot parse GitLab URL: nonsense'', quiet 5 empty_db)"
    by (simp add: comment_first_def gitlab_project_def err_def)
qed

end
