(* ===== verification/Suppress.thy ===== *)
theory Suppress
  imports World StoreJobs StorePrs Json
begin

text \<open>
The suppression list a scan is shown (\<open>suppression.rs\<close>): the anchor a worker's rejection gets, whether
the files it watches changed since, the list itself, reopening a finding whose verdict lapsed, and moving the anchors a
scan reconfirmed. The records \<open>suppression\<close> and \<open>changed\<close> are those of \<open>playbooks.rs\<close>.

\<open>git diff\<close> is the world's shell; serde's readers are parameters.
\<close>

definition HOLDS_WHILE_MAX_CHARS :: nat where "HOLDS_WHILE_MAX_CHARS = 300"
definition MAX_ANCHOR_FILES :: nat where "MAX_ANCHOR_FILES = 12"
definition REASON_HEAD_MAX_CHARS :: nat where "REASON_HEAD_MAX_CHARS = 200"

section \<open>Anchors\<close>

text \<open>\<open>:42\<close>, \<open>:42-50\<close>, \<open>:42:7\<close>: a location, not part of the path.\<close>

function strip_location :: "string \<Rightarrow> string" where
  "strip_location path =
     (case rsplit_once '':'' path of
        None \<Rightarrow> path
      | Some (head, l) \<Rightarrow>
          if l = [] \<or> \<not> list_all (\<lambda>c. is_ascii_digit c \<or> c = CHR ''-'') l then path else strip_location head)"
  by pat_completeness auto
termination
  by (relation "measure length") (auto dest!: rsplit_once_Some)

declare strip_location.simps [simp del]

definition repo_path :: "string \<Rightarrow> string option" where
  "repo_path raw =
     (let located = strip_location (trim (trim_by (\<lambda>c. c = CHR 0x60) (trim raw)));
          path = unwrap_or (strip_prefix ''./'' located) located;
          outside = path = [] \<or> starts_with ''/'' path \<or> list_ex is_space path \<or>
                    ''..'' \<in> set (split_on (CHR ''/'') path)
      in if outside then None else Some path)"

definition watch :: "string list \<Rightarrow> string \<Rightarrow> string list" where
  "watch files raw =
     (if length files = MAX_ANCHOR_FILES then files
      else case repo_path raw of
             Some path \<Rightarrow> if path \<in> set files then files else files @ [path]
           | None \<Rightarrow> files)"

definition condition :: "string option \<Rightarrow> string option" where
  "condition holds_while =
     Option.bind holds_while (\<lambda>h. if trim h = [] then None else Some (take_chars HOLDS_WHILE_MAX_CHARS (trim h)))"

definition verdict_anchor_of ::
  "finding_status \<Rightarrow> string \<Rightarrow> finding \<Rightarrow> string option \<Rightarrow> string list \<Rightarrow> verdict_anchor option" where
  "verdict_anchor_of status sha f holds_while depends_on =
     (if status \<noteq> Rejected then None
      else Some \<lparr>va_sha = sha,
                 va_files = foldl watch [] ((case f_file f of Some p \<Rightarrow> [p] | None \<Rightarrow> []) @ depends_on),
                 va_holds_while = condition holds_while\<rparr>)"

text \<open>\<open>depends_on\<close> as a worker writes it: an array of paths, one comma-separated string, or null.\<close>

definition comma_list :: "string \<Rightarrow> string list" where
  "comma_list s = filter (\<lambda>p. p \<noteq> []) (map trim (split_on (CHR '','') s))"

fun de_paths :: "json \<Rightarrow> (string list) option" where
  "de_paths JNull = Some []"
| "de_paths (JArray vs) = (if list_all (\<lambda>v. as_str v \<noteq> None) vs then Some (List.map_filter as_str vs) else None)"
| "de_paths (JString s) = Some (comma_list s)"
| "de_paths _ = None"

section \<open>What changed\<close>

datatype changed = Changed_files string "string list" | Unknown_since string

definition changed_since :: "string \<Rightarrow> verdict_anchor \<Rightarrow> string \<Rightarrow> changed option act" where
  "changed_since clone anchor at_sha =
     (if va_files anchor = [] then State_Monad.return None
      else do {
        (rc, out) \<leftarrow> shell ([''git'', ''-C'', clone, ''-c'', ''core.quotepath=off'', ''diff'', ''--name-only'',
                           ''--no-renames'', va_sha anchor, at_sha, ''--''] @ va_files anchor);
        State_Monad.return
          (let since = take_chars 12 (va_sha anchor);
               files = filter (\<lambda>l. l \<noteq> []) (map trim (lines out))
           in if rc \<noteq> 0 then Some (Unknown_since since)
              else if files = [] then None else Some (Changed_files since files)) })"

section \<open>The list\<close>

record suppression =
  su_fingerprint :: string
  su_reason :: string
  su_changed :: "changed option"

definition suppressed :: "int \<Rightarrow> finding_type \<Rightarrow> (finding \<times> verdict_anchor option) list io" where
  "suppressed repo_id kind =
     and_then (query (suppression_anchors repo_id kind)) (\<lambda>anchors.
     and_then (query (suppressions repo_id kind)) (\<lambda>fs.
       ok (map (\<lambda>f. (f, map_of anchors (f_id f))) fs)))"

definition listed_reason :: "finding \<Rightarrow> verdict_anchor option \<Rightarrow> string" where
  "listed_reason f anchor =
     (let reason = unwrap_or (f_verdict_reason f) ''(no reason recorded)'';
          first_line = (case lines reason of l # _ \<Rightarrow> l | [] \<Rightarrow> [])
      in case Option.bind anchor va_holds_while of
           Some c \<Rightarrow> finding_status_str (f_status f) @ '': '' @ take_chars REASON_HEAD_MAX_CHARS first_line @
                     ''; holds while '' @ c
         | None \<Rightarrow> finding_status_str (f_status f) @ '': '' @ reason)"

fun suppression_list ::
  "string \<Rightarrow> (finding \<times> verdict_anchor option) list \<Rightarrow> string \<Rightarrow> suppression list act" where
  "suppression_list clone [] at_sha = State_Monad.return []"
| "suppression_list clone ((f, anchor) # entries) at_sha = do {
     changed \<leftarrow> (case anchor of Some a \<Rightarrow> changed_since clone a at_sha | None \<Rightarrow> State_Monad.return None);
     rest \<leftarrow> suppression_list clone entries at_sha;
     State_Monad.return (\<lparr>su_fingerprint = f_fingerprint f, su_reason = listed_reason f anchor,
       su_changed = changed\<rparr> # rest) }"

section \<open>Lapsed verdicts\<close>

text \<open>\<open>let Some(x) = .. else { return Ok(false) }\<close>\<close>

definition or_false :: "'a option io \<Rightarrow> ('a \<Rightarrow> bool io) \<Rightarrow> bool io" where
  "or_false m k = and_then m (\<lambda>x. case x of Some a \<Rightarrow> k a | None \<Rightarrow> ok False)"

definition reopen_if_changed :: "int \<Rightarrow> int \<Rightarrow> int option \<Rightarrow> finding_insert \<Rightarrow> bool io" where
  "reopen_if_changed repo_id fid jid row =
     or_false (ok jid) (\<lambda>jid.
     or_false (query (\<lambda>d. get_finding d fid)) (\<lambda>f.
       if \<not> is_suppressed (f_status f) then ok False
       else
         or_false (query (finding_anchor fid)) (\<lambda>anchor.
         or_false (query (pinned_sha jid)) (\<lambda>at_sha.
         or_false (query (get_repo_by_id repo_id)) (\<lambda>r. do {
           changed \<leftarrow> changed_since (r_path r) anchor at_sha;
           (if changed = None then ok False else call (\<lambda>now. reopen_suppressed now fid row)) })))))"

section \<open>Reconfirmed verdicts\<close>

record reconfirmed =
  rf_fingerprint :: string
  rf_holds_while :: "string option"

text \<open>\<open>Path::with_extension\<close> of a path whose last component has a name.\<close>

definition reconfirmed_path :: "string \<Rightarrow> string" where
  "reconfirmed_path out_path =
     (let dir = rev (dropWhile (\<lambda>c. c \<noteq> CHR ''/'') (rev out_path));
          name = drop (length dir) out_path;
          stem = (case rsplit_once ''.'' name of Some (a, _) \<Rightarrow> if a = [] then name else a | None \<Rightarrow> name)
      in dir @ stem @ ''.reconfirmed.json'')"

text \<open>A read that fails leaves the map as it is; among two findings of one fingerprint the later wins.\<close>

fun anchored_by_fingerprint :: "int \<Rightarrow> finding_type list \<Rightarrow> (string \<times> int) list \<Rightarrow> (string \<times> int) list act" where
  "anchored_by_fingerprint repo_id [] m = State_Monad.return m"
| "anchored_by_fingerprint repo_id (k # ks) m = do {
     anchored \<leftarrow> query (suppression_anchors repo_id k);
     fs \<leftarrow> query (suppressions repo_id k);
     anchored_by_fingerprint repo_id ks
       (foldl (\<lambda>m f. if f_id f \<in> set (map fst (result_or anchored []))
                     then btree_insert (f_fingerprint f) (f_id f) m else m) m (result_or fs [])) }"

fun move_anchors :: "(string \<times> int) list \<Rightarrow> string \<Rightarrow> reconfirmed list \<Rightarrow> unit act" where
  "move_anchors m at_sha [] = State_Monad.return ()"
| "move_anchors m at_sha (e # es) = do {
     _ \<leftarrow> (case map_of m (rf_fingerprint e) of
             None \<Rightarrow> State_Monad.return ()
           | Some fid \<Rightarrow> do {
               moved \<leftarrow> exec (\<lambda>now. reconfirm_anchor now fid at_sha (condition (rf_holds_while e)));
               (if is_ok moved
                then ignore (event ''verdict'' (''finding '' @ show_int fid @ '' ['' @ rf_fingerprint e @
                       ''] verdict re-checked and still holds at '' @ take_chars 12 at_sha) None (Some fid))
                else State_Monad.return ()) });
     move_anchors m at_sha es }"

definition apply_reconfirmations ::
  "(string \<Rightarrow> string + reconfirmed list) \<Rightarrow> repo \<Rightarrow> finding_type list \<Rightarrow> string \<Rightarrow> string \<Rightarrow> unit act" where
  "apply_reconfirmations parse r kinds out_path at_sha =
     (let path = reconfirmed_path out_path
      in do {
        there \<leftarrow> look (\<lambda>w. k_files (w_disk w) path \<noteq> None);
        (if \<not> there then State_Monad.return ()
         else do {
           raw \<leftarrow> read_file path;
           (case (case raw of Inl e \<Rightarrow> Inl e | Inr t \<Rightarrow> parse t) of
              Inl e \<Rightarrow> ignore (event ''error'' (r_name r @ '': reconfirmation file '' @ path @
                         '' unusable, nothing reconfirmed: '' @ e) None None)
            | Inr entries \<Rightarrow> do {
                m \<leftarrow> anchored_by_fingerprint (r_id r) kinds [];
                move_anchors m at_sha entries }) }) })"

end
