(* ===== verification/Ingest.thy ===== *)
theory Ingest
  imports Suppress Attempts
begin

text \<open>
Filing a worker's findings (\<open>ingest.rs\<close>): which types a file may hold, the validation of an entry, the row it
becomes, and the walk that files new findings, counts duplicates, refreshes dependency updates and reopens lapsed
verdicts.

Parsing and printing JSON and floats is the parameter \<open>json_text\<close>; a float's text may be no number, or one
that is not finite. Messages quote a value of the entry without Rust's escapes.
\<close>

section \<open>Entries\<close>

datatype f64 = Finite rat | Non_finite

record json_text =
  jt_parse :: "string \<Rightarrow> string + json"
  jt_print :: "json \<Rightarrow> string"
  jt_float :: "string \<Rightarrow> f64 option"

datatype entry_types = Fixed finding_type | Mainly finding_type "finding_type list" | Declared

fun type_required_fields :: "finding_type \<Rightarrow> string list" where
  "type_required_fields TDepUpdate =
     [''ecosystem'', ''package'', ''current_version'', ''latest_version'', ''update_type'']"
| "type_required_fields TTestGap = [''missing_tests'', ''test_file'']"
| "type_required_fields TRefactor = [''smell_type'', ''suggested_refactor'']"
| "type_required_fields TModernization = [''modernization_class'', ''current_approach'', ''proposed_approach'']"
| "type_required_fields TStandards = [''standard_section'', ''current_approach'', ''proposed_approach'']"
| "type_required_fields TBug = []"

definition LIST_REQUIRED_FIELDS :: "string list" where
  "LIST_REQUIRED_FIELDS = [''missing_tests'']"

datatype on_suppressed = Keep | Reopen_if_lapsed

definition declared_type :: "json \<Rightarrow> string option" where
  "declared_type f = map_option (\<lambda>v. unwrap_or (as_str v) []) (json_get f ''type'')"

definition parse_type :: "string \<Rightarrow> finding_type option" where
  "parse_type s = (case finding_type_of_text s of Inr t \<Rightarrow> Some t | Inl _ \<Rightarrow> None)"

fun resolve_type :: "entry_types \<Rightarrow> string option \<Rightarrow> string + finding_type" where
  "resolve_type (Fixed ft) declared = Inr ft"
| "resolve_type (Mainly ft others) declared =
     (if declared = None \<or> declared = Some (finding_type_str ft) then Inr ft
      else case Option.bind declared parse_type of
             Some t \<Rightarrow> if t \<in> set others then Inr t else Inl (unwrap_or declared [])
           | None \<Rightarrow> Inl (unwrap_or declared []))"
| "resolve_type Declared declared =
     (case parse_type (unwrap_or declared []) of Some t \<Rightarrow> Inr t | None \<Rightarrow> Inl (unwrap_or declared []))"

definition in_quotes :: "string \<Rightarrow> string" where
  "in_quotes s = CHR 0x22 # s @ [CHR 0x22]"

fun finding_type_debug :: "finding_type \<Rightarrow> string" where
  "finding_type_debug TBug = ''Bug''"
| "finding_type_debug TDepUpdate = ''DepUpdate''"
| "finding_type_debug TTestGap = ''TestGap''"
| "finding_type_debug TRefactor = ''Refactor''"
| "finding_type_debug TModernization = ''Modernization''"
| "finding_type_debug TStandards = ''Standards''"

definition field_problem :: "finding_type \<Rightarrow> json \<Rightarrow> string \<Rightarrow> string option" where
  "field_problem ft obj field =
     (let msg = ''required field '' @ in_quotes field @ '' for type '' @ finding_type_debug ft @ '' must be a non-empty ''
      in if field \<in> set LIST_REQUIRED_FIELDS then
           (case Option.bind (json_get obj field) as_array of
              Some (_ # _) \<Rightarrow> None
            | _ \<Rightarrow> Some (msg @ ''list''))
         else
           (case str_field obj field of
              Some (_ # _) \<Rightarrow> None
            | _ \<Rightarrow> Some (msg @ ''string'')))"

definition confidence_of :: "json_text \<Rightarrow> json \<Rightarrow> f64 option" where
  "confidence_of J v =
     (case as_f64 v of Some q \<Rightarrow> Some (Finite q) | None \<Rightarrow> Option.bind (as_str v) (jt_float J))"

definition severity_problem :: "string \<Rightarrow> string option" where
  "severity_problem sev =
     (if severity_parse sev = None then Some (''unknown severity '' @ in_quotes sev) else None)"

definition type_problem :: "finding_type \<Rightarrow> json \<Rightarrow> string option" where
  "type_problem ft obj =
     (if ft = TBug then
        (let bc = unwrap_or (str_field obj ''bug_class'') []
         in case bug_class_of_text bc of
              Inl _ \<Rightarrow> Some (''unknown bug_class '' @ in_quotes bc)
            | Inr _ \<Rightarrow> severity_problem (unwrap_or (str_field obj ''severity'') []))
      else
        opt_or (severity_problem (unwrap_or (str_field obj ''severity'') ''medium''))
          (case List.map_filter (field_problem ft obj) (type_required_fields ft) of
             [] \<Rightarrow> None | p # _ \<Rightarrow> Some p))"

definition confidence_problem :: "json_text \<Rightarrow> json \<Rightarrow> string option" where
  "confidence_problem J obj =
     (case json_get obj ''confidence'' of
        None \<Rightarrow> None
      | Some c \<Rightarrow>
          (case confidence_of J c of
             None \<Rightarrow> Some ''non-numeric confidence''
           | Some Non_finite \<Rightarrow> Some ''non-finite confidence''
           | Some (Finite _) \<Rightarrow> None))"

definition entry_problem :: "json_text \<Rightarrow> finding_type \<Rightarrow> json \<Rightarrow> string option" where
  "entry_problem J ft obj =
     (if unwrap_or (str_field obj ''fingerprint'') [] = [] then Some ''missing fingerprint''
      else opt_or (type_problem ft obj) (confidence_problem J obj))"

definition clamped :: "f64 option \<Rightarrow> rat" where
  "clamped c = (case c of Some (Finite q) \<Rightarrow> max 0 (min 1 q) | _ \<Rightarrow> 0)"

definition insert_of :: "json_text \<Rightarrow> finding_type \<Rightarrow> json \<Rightarrow> finding_insert" where
  "insert_of J ft obj =
     (let s = str_field obj
      in \<lparr>fi_fingerprint = unwrap_or (s ''fingerprint'') [], fi_file = unwrap_or (s ''file'') [],
          fi_symbol = s ''symbol'', fi_line = Option.bind (json_get obj ''line'') as_i64,
          fi_severity = unwrap_or (severity_parse (unwrap_or (s ''severity'') ''medium'')) Medium,
          fi_confidence = clamped (Option.bind (json_get obj ''confidence'') (confidence_of J)),
          fi_summary = unwrap_or (s ''summary'') [], fi_detail = s ''detail'',
          fi_bug_class = (if ft = TBug
             then Option.bind (s ''bug_class'') (\<lambda>t. case bug_class_of_text t of Inr c \<Rightarrow> Some c | Inl _ \<Rightarrow> None)
             else None),
          fi_evidence_plan = s ''evidence_plan'', fi_introduced_by = s ''introduced_by'',
          fi_ecosystem = s ''ecosystem'', fi_package = s ''package'', fi_current_version = s ''current_version'',
          fi_latest_version = s ''latest_version'', fi_update_type = s ''update_type'',
          fi_security_advisory = s ''security_advisory'',
          fi_missing_tests = (case json_get obj ''missing_tests'' of
             None \<Rightarrow> None | Some v \<Rightarrow> if as_array v \<noteq> None then Some (jt_print J v) else as_str v),
          fi_test_file = s ''test_file'', fi_smell_type = s ''smell_type'',
          fi_suggested_refactor = s ''suggested_refactor'', fi_modernization_class = s ''modernization_class'',
          fi_current_approach = s ''current_approach'', fi_proposed_approach = s ''proposed_approach'',
          fi_standard_section = s ''standard_section''\<rparr>)"

section \<open>Filing\<close>

definition no_result :: ingest_result where
  "no_result = \<lparr>ir_inserted = 0, ir_duplicates = 0, ir_refreshed = 0, ir_reopened = 0, ir_invalid = 0\<rparr>"

definition count_invalid :: "ingest_result \<Rightarrow> ingest_result" where
  "count_invalid r = r\<lparr>ir_invalid := ir_invalid r + 1\<rparr>"

definition count_duplicate :: "ingest_result \<Rightarrow> ingest_result" where
  "count_duplicate r = r\<lparr>ir_duplicates := ir_duplicates r + 1\<rparr>"

definition error_event :: "string \<Rightarrow> int option \<Rightarrow> int option \<Rightarrow> unit act" where
  "error_event message jid fid = ignore (event ''error'' message jid fid)"

definition refresh_duplicate ::
  "int \<Rightarrow> finding_type \<Rightarrow> finding_insert \<Rightarrow> int option \<Rightarrow> ingest_result \<Rightarrow> ingest_result act" where
  "refresh_duplicate fid ft row jid r =
     (if ft \<noteq> TDepUpdate then State_Monad.return r
      else do {
        refreshed \<leftarrow> call (\<lambda>now. refresh_dep_update now fid row);
        (case refreshed of
           Inr True \<Rightarrow> State_Monad.return (r\<lparr>ir_refreshed := ir_refreshed r + 1\<rparr>)
         | Inr False \<Rightarrow> State_Monad.return r
         | Inl e \<Rightarrow> do {
             _ \<leftarrow> error_event (''ingest: refreshing #'' @ show_int fid @ '' failed: '' @ e) jid (Some fid);
             State_Monad.return (count_invalid r) }) })"

definition file_duplicate ::
  "int \<Rightarrow> int \<Rightarrow> finding_type \<Rightarrow> finding_insert \<Rightarrow> int option \<Rightarrow> on_suppressed \<Rightarrow> ingest_result \<Rightarrow> ingest_result act" where
  "file_duplicate repo_id fid ft row jid mode r =
     (if mode = Keep then refresh_duplicate fid ft row jid r
      else do {
        reopened \<leftarrow> reopen_if_changed repo_id fid jid row;
        (case reopened of
           Inr True \<Rightarrow> do {
             _ \<leftarrow> ignore (event ''verdict'' (''finding '' @ show_int fid @ '' ['' @ fi_fingerprint row @
                    ''] reopened: filed again after the code its verdict rests on changed'') jid (Some fid));
             State_Monad.return (r\<lparr>ir_reopened := ir_reopened r + 1\<rparr>) }
         | Inr False \<Rightarrow> refresh_duplicate fid ft row jid r
         | Inl e \<Rightarrow> do {
             _ \<leftarrow> error_event (''ingest: reopening #'' @ show_int fid @ '' failed: '' @ e) jid (Some fid);
             refresh_duplicate fid ft row jid r }) })"

definition file_entry ::
  "json_text \<Rightarrow> int \<Rightarrow> entry_types \<Rightarrow> int option \<Rightarrow> int option \<Rightarrow> on_suppressed \<Rightarrow>
   nat \<Rightarrow> json \<Rightarrow> ingest_result \<Rightarrow> ingest_result act" where
  "file_entry J repo_id types jid source mode i f r =
     (let shown = take_chars 2000 (jt_print J f);
          this = ''ingest: entry '' @ show_nat i
      in case resolve_type types (declared_type f) of
           Inl raw \<Rightarrow> do {
             _ \<leftarrow> error_event (this @ '' has unknown/missing/unexpected type '' @ in_quotes raw @ '': '' @ shown) jid source;
             State_Monad.return (count_invalid r) }
         | Inr ft \<Rightarrow>
             if \<not> is_object f then State_Monad.return (count_invalid r)
             else (case entry_problem J ft f of
               Some problem \<Rightarrow> do {
                 _ \<leftarrow> error_event (this @ '' invalid ('' @ problem @ ''): '' @ shown) jid source;
                 State_Monad.return (count_invalid r) }
             | None \<Rightarrow>
                 (let row = insert_of J ft f
                  in do {
                    filed \<leftarrow> call (\<lambda>now. upsert_finding now repo_id row ft jid);
                    (case filed of
                       Inl e \<Rightarrow> do {
                         _ \<leftarrow> error_event (''ingest: upsert failed for entry '' @ show_nat i @ '': '' @ e) jid source;
                         State_Monad.return (count_invalid r) }
                     | Inr (fid, True) \<Rightarrow> do {
                         _ \<leftarrow> ignore (event (if ft = TBug then ''hunt'' else finding_type_str ft)
                                (''new '' @ finding_type_str ft @ '': '' @ fi_fingerprint row) jid (Some fid));
                         State_Monad.return (r\<lparr>ir_inserted := ir_inserted r + 1\<rparr>) }
                     | Inr (fid, False) \<Rightarrow> file_duplicate repo_id fid ft row jid mode (count_duplicate r)) })))"

fun file_entries ::
  "(nat \<Rightarrow> json \<Rightarrow> ingest_result \<Rightarrow> ingest_result act) \<Rightarrow> nat \<Rightarrow> json list \<Rightarrow> ingest_result \<Rightarrow> ingest_result act" where
  "file_entries one i [] r = State_Monad.return r"
| "file_entries one i (f # fs) r = do { r' \<leftarrow> one i f r; file_entries one (Suc i) fs r' }"

definition ingest ::
  "json_text \<Rightarrow> int \<Rightarrow> string \<Rightarrow> entry_types \<Rightarrow> int option \<Rightarrow> int option \<Rightarrow> on_suppressed \<Rightarrow> ingest_result act" where
  "ingest J repo_id path types jid source mode = do {
     raw \<leftarrow> read_file path;
     (case (case raw of Inl e \<Rightarrow> Inl e | Inr t \<Rightarrow> jt_parse J t) of
        Inl e \<Rightarrow> do {
          _ \<leftarrow> error_event (''ingest: unreadable findings file '' @ path @ '': '' @ e) jid source;
          State_Monad.return (no_result\<lparr>ir_invalid := 1\<rparr>) }
      | Inr v \<Rightarrow>
          (case as_array v of
             None \<Rightarrow> do {
               _ \<leftarrow> error_event (''ingest: findings root is not a list in '' @ path) jid source;
               State_Monad.return (no_result\<lparr>ir_invalid := 1\<rparr>) }
           | Some fs \<Rightarrow> file_entries (file_entry J repo_id types jid source mode) 0 fs no_result)) }"

definition ingest_findings ::
  "json_text \<Rightarrow> int \<Rightarrow> string \<Rightarrow> entry_types \<Rightarrow> int option \<Rightarrow> int option \<Rightarrow> ingest_result act" where
  "ingest_findings J repo_id path types jid source = ingest J repo_id path types jid source Keep"

definition ingest_scan_findings :: "json_text \<Rightarrow> int \<Rightarrow> string \<Rightarrow> entry_types \<Rightarrow> int \<Rightarrow> ingest_result act" where
  "ingest_scan_findings J repo_id path types jid = ingest J repo_id path types (Some jid) None Reopen_if_lapsed"

section \<open>Every entry is accounted for\<close>

definition accounted :: "nat \<Rightarrow> ingest_result \<Rightarrow> bool" where
  "accounted n r \<longleftrightarrow>
     int n \<le> ir_inserted r + ir_duplicates r + ir_invalid r \<and> ir_inserted r + ir_duplicates r \<le> int n \<and>
     ir_refreshed r + ir_reopened r \<le> ir_duplicates r"

text \<open>One duplicate whose handling is still open.\<close>

definition open_duplicate :: "nat \<Rightarrow> ingest_result \<Rightarrow> bool" where
  "open_duplicate n r \<longleftrightarrow> accounted n r \<and> ir_refreshed r + ir_reopened r < ir_duplicates r"

lemma accounted_steps:
  "accounted n r \<Longrightarrow> accounted (Suc n) (count_invalid r)"
  "accounted n r \<Longrightarrow> accounted (Suc n) (r\<lparr>ir_inserted := ir_inserted r + 1\<rparr>)"
  "accounted n r \<Longrightarrow> open_duplicate (Suc n) (count_duplicate r)"
  "open_duplicate n r \<Longrightarrow> accounted n r"
  "open_duplicate n r \<Longrightarrow> accounted n (r\<lparr>ir_refreshed := ir_refreshed r + 1\<rparr>)"
  "open_duplicate n r \<Longrightarrow> accounted n (r\<lparr>ir_reopened := ir_reopened r + 1\<rparr>)"
  "open_duplicate n r \<Longrightarrow> accounted n (count_invalid r)"
  by (simp_all add: accounted_def open_duplicate_def count_invalid_def count_duplicate_def)

lemma wp_refresh_duplicate:
  "open_duplicate n r \<Longrightarrow> wp (refresh_duplicate fid ft row jid r) (\<lambda>r' _. accounted n r') w"
  unfolding refresh_duplicate_def error_event_def
  by (auto simp: wp_simps accounted_steps split: option.split bool.split sum.split)

lemma wp_file_duplicate:
  assumes "open_duplicate n r"
  shows "wp (file_duplicate repo_id fid ft row jid mode r) (\<lambda>r' _. accounted n r') w"
  unfolding file_duplicate_def wp_if
  by (auto intro!: wp_bind_any wp_refresh_duplicate simp: accounted_steps wp_return assms split: sum.split bool.split)

lemma wp_file_entry:
  assumes "accounted n r"
  shows "wp (file_entry J repo_id types jid source mode i f r) (\<lambda>r' _. accounted (Suc n) r') w"
  unfolding file_entry_def Let_def
  by (auto intro!: wp_bind_any wp_file_duplicate simp: accounted_steps wp_return assms
      split: sum.split option.split bool.split)

lemma wp_file_entries:
  "accounted n r \<Longrightarrow>
   wp (file_entries (file_entry J repo_id types jid source mode) i fs r) (\<lambda>r' _. accounted (n + length fs) r') w"
proof (induction fs arbitrary: n i r w)
  case (Cons f fs)
  show ?case
    unfolding file_entries.simps wp_bind
    by (rule wp_mono [OF wp_file_entry [OF Cons.prems]])
      (use Cons.IH [of "Suc n"] in simp)
qed (simp add: wp_return)

lemma accounted_none: "accounted 0 no_result"
  by (simp add: accounted_def no_result_def)

text \<open>No entry of a findings file is lost in the count: whatever store call fails, an entry the
  walk came to is new, a duplicate or invalid, at most one of the first two, and only duplicates are refreshed or reopened.\<close>
theorem ingest_accounts_for_every_entry:
  assumes "k_files (w_disk w) path = Some t" "jt_parse J t = Inr (JArray fs)" "w_fault w (w_calls w) = None"
    and "run_state (ingest J repo_id path types jid source mode) w = (r, w')"
  shows "int (length fs) \<le> ir_inserted r + ir_duplicates r + ir_invalid r \<and>
    ir_inserted r + ir_duplicates r \<le> int (length fs) \<and> ir_refreshed r + ir_reopened r \<le> ir_duplicates r"
proof -
  have "wp (ingest J repo_id path types jid source mode) (\<lambda>r _. accounted (length fs) r) w"
    using assms(1-3) wp_file_entries [OF accounted_none, of J repo_id types jid source mode 0 fs]
    by (simp add: ingest_def read_file_def wp_simps)
  from wp_run [OF this assms(4)] show ?thesis by (simp add: accounted_def)
qed

definition demo_json :: json_text where
  "demo_json = \<lparr>jt_parse = (\<lambda>_. Inr (JArray [JObject [(''fingerprint'', JString ''fp''), (''bug_class'', JString ''logic''),
       (''severity'', JString ''High'')], JNull])), jt_print = (\<lambda>_. []), jt_float = (\<lambda>_. None)\<rparr>"

theorem ingest_accounts_for_every_entry_witness:
  "\<exists>r w'. run_state (ingest demo_json 1 ''/f.json'' (Fixed TBug) None None Keep)
      ((quiet 5 empty_db)\<lparr>w_disk := \<lparr>k_files = [''/f.json'' \<mapsto> []], k_dirs = [], k_mtime = Map.empty\<rparr>\<rparr>) = (r, w') \<and>
    ir_inserted r + ir_duplicates r \<le> 2 \<and> 2 \<le> ir_inserted r + ir_duplicates r + ir_invalid r"
proof -
  let ?w = "(quiet 5 empty_db)\<lparr>w_disk := \<lparr>k_files = [''/f.json'' \<mapsto> []], k_dirs = [], k_mtime = Map.empty\<rparr>\<rparr>"
  obtain r w' where run: "run_state (ingest demo_json 1 ''/f.json'' (Fixed TBug) None None Keep) ?w = (r, w')"
    by fastforce
  have "k_files (w_disk ?w) ''/f.json'' = Some []" "w_fault ?w (w_calls ?w) = None" by simp_all
  moreover have "jt_parse demo_json [] = Inr (JArray [JObject [(''fingerprint'', JString ''fp''),
      (''bug_class'', JString ''logic''), (''severity'', JString ''High'')], JNull])" by (simp add: demo_json_def)
  ultimately show ?thesis using ingest_accounts_for_every_entry [OF _ _ _ run] run by fastforce
qed

section \<open>Verdicts without an anchor stand\<close>

definition standing :: "finding \<Rightarrow> db \<Rightarrow> disk \<Rightarrow> shell \<Rightarrow> bool" where
  "standing f d k sh \<longleftrightarrow> f \<in> set (db_findings d) \<and> is_suppressed (f_status f) \<and> finding_anchor (f_id f) d = None"

lemma standing_upsert: "standing f d k s \<Longrightarrow> standing f (snd (upsert_finding now repo_id row ft jid d)) k s"
  by (auto simp: standing_def upsert_finding_def finding_anchor_def Let_def split: option.split)

lemma standing_refresh: "standing f d k s \<Longrightarrow> standing f (snd (refresh_dep_update now fid row d)) k s"
  unfolding standing_def refresh_dep_update_def Let_def snd_conv
  by (auto simp: finding_anchor_def upd_findings_def intro!: update_where_untouched)

lemma standing_event: "standing f d k s \<Longrightarrow> standing f (log_event now kind message jid fid d) k s"
  by (simp add: standing_def log_event_def insert_event_def finding_anchor_def Let_def)

lemma preserves_standing_event [preserves_intros]: "preserves (standing f) (event kind message jid fid)"
  by (intro preserves_event standing_event)

lemma standing_reopen:
  assumes "standing f d k s" "fid \<noteq> f_id f"
  shows "standing f (snd (reopen_suppressed now fid row d)) k s"
proof -
  have "find (\<lambda>a. a_finding_id a = f_id f) (filter (\<lambda>a. a_finding_id a \<noteq> fid) xs) = None"
    if "find (\<lambda>a. a_finding_id a = f_id f) xs = None" for xs
    using that by (auto simp: find_None_iff)
  then show ?thesis
    using assms unfolding standing_def reopen_suppressed_def Let_def snd_conv
    by (auto simp: finding_anchor_def upd_findings_def write_anchor_def intro!: update_where_untouched)
qed

lemma preserves_or_false:
  "preserves J m \<Longrightarrow> (\<And>a. preserves J (k a)) \<Longrightarrow> preserves J (or_false m k)"
  unfolding or_false_def by (intro preserves_intros)

lemma preserves_changed_since:
  "(\<And>d k k' s. J d k s \<Longrightarrow> J d k' s) \<Longrightarrow> preserves J (changed_since clone anchor at_sha)"
  unfolding changed_since_def by (auto intro!: preserves_intros preserves_shell)

lemma standing_disk: "standing f d k s \<Longrightarrow> standing f d k' s"
  by (simp add: standing_def)

lemma preserves_standing_reopen: "preserves (standing f) (reopen_if_changed repo_id fid jid row)"
proof (cases "fid = f_id f")
  case True
  have "preserves (standing f) (or_false (query (finding_anchor fid)) k)" for k
    unfolding or_false_def True
    by (rule preserves_and_then_query) (auto simp: standing_def intro: preserves_intros)
  note stops = this
  show ?thesis
    unfolding reopen_if_changed_def
    by (rule preserves_or_false, rule preserves_pure, rule preserves_or_false, rule preserves_query,
        rule preserves_if, rule preserves_pure, rule stops)
next
  case False
  then show ?thesis
    unfolding reopen_if_changed_def
    by (intro preserves_or_false preserves_intros preserves_changed_since preserves_call standing_reopen)
      (auto intro: standing_disk)
qed

lemma preserves_standing_refresh: "preserves (standing f) (refresh_duplicate fid ft row jid r)"
  unfolding refresh_duplicate_def error_event_def
  by (auto intro!: preserves_intros preserves_call standing_refresh split: sum.split bool.split)

lemma preserves_standing_duplicate: "preserves (standing f) (file_duplicate repo_id fid ft row jid mode r)"
  unfolding file_duplicate_def error_event_def
  by (auto intro!: preserves_intros preserves_standing_refresh preserves_standing_reopen split: sum.split bool.split)

lemma preserves_standing_entry: "preserves (standing f) (file_entry J repo_id types jid source mode i e r)"
  unfolding file_entry_def error_event_def Let_def
  by (auto intro!: preserves_intros preserves_standing_duplicate preserves_call standing_upsert
      split: sum.split bool.split option.split)

lemma preserves_file_entries:
  "(\<And>i e r. preserves J (one i e r)) \<Longrightarrow> preserves J (file_entries one i es r)"
  by (induction es arbitrary: i r) (auto intro!: preserves_intros)

lemma preserves_read_file [preserves_intros]: "preserves J (read_file p)"
  unfolding read_file_def by (rule preserves_disk_call) (auto split: option.split)

lemma preserves_standing_ingest: "preserves (standing f) (ingest J repo_id path types jid source mode)"
  unfolding ingest_def error_event_def
  by (auto intro!: preserves_intros preserves_file_entries preserves_standing_entry split: sum.split option.split)

text \<open>C34. A verdict nobody anchored to code stands: whatever a worker files and whatever fails, filing a
  findings file leaves every rejected or unwanted finding without an anchor exactly as it was, so an operator's verdict is never
  reopened by a scan.\<close>
theorem ingest_keeps_unanchored_verdicts:
  assumes "f \<in> set (db_findings (w_db w))" "is_suppressed (f_status f)" "finding_anchor (f_id f) (w_db w) = None"
    and "run_state (ingest J repo_id path types jid source mode) w = (r, w')"
  shows "f \<in> set (db_findings (w_db w')) \<and> finding_anchor (f_id f) (w_db w') = None"
  using preservesD [OF preserves_standing_ingest _ assms(4), of f] assms(1-3) by (simp add: standing_def)

theorem ingest_keeps_unanchored_verdicts_witness:
  "\<exists>r w'. run_state (ingest demo_json 1 ''/f.json'' (Fixed TBug) (Some 1) None Reopen_if_lapsed)
      (quiet 5 (empty_db\<lparr>db_findings := [sample_finding\<lparr>f_status := Rejected\<rparr>]\<rparr>)) = (r, w') \<and>
    sample_finding\<lparr>f_status := Rejected\<rparr> \<in> set (db_findings (w_db w'))"
proof -
  let ?f = "sample_finding\<lparr>f_status := Rejected\<rparr>"
  let ?w = "quiet 5 (empty_db\<lparr>db_findings := [?f]\<rparr>)"
  obtain r w' where run: "run_state (ingest demo_json 1 ''/f.json'' (Fixed TBug) (Some 1) None Reopen_if_lapsed) ?w = (r, w')"
    by fastforce
  have "?f \<in> set (db_findings (w_db ?w))" "is_suppressed (f_status ?f)" "finding_anchor (f_id ?f) (w_db ?w) = None"
    by (simp_all add: finding_anchor_def empty_db_def)
  from ingest_keeps_unanchored_verdicts [OF this run] run show ?thesis by blast
qed

end
