(* ===== verification/Playbooks.thy ===== *)
theory Playbooks
  imports Forge Suppress
begin

text \<open>
The worker's prompts (\<open>playbooks.rs\<close>): the renderer that fills a template's \<open>{{SLOT}}\<close>s, the blocks
that go into them, and one builder per job kind with the template it reads and the slots it fills.

A finding as JSON and its pretty text are the parameter \<open>finding_text\<close>. What the builders promise is proved in
\<open>Prompts\<close>.
\<close>

section \<open>Rendering\<close>

text \<open>One pass over the template: a value is emitted as it is and never read again.\<close>

function render :: "string \<Rightarrow> (string \<Rightarrow> string option) \<Rightarrow> string + string" where
  "render rest slots =
     (case split_once ''{{'' rest of
        None \<Rightarrow> Inr rest
      | Some (before, after) \<Rightarrow>
          (case split_once ''}}'' after of
             None \<Rightarrow> Inl (''unterminated placeholder in playbook: '' @ take_chars 60 (''{{'' @ after))
           | Some (key, rest') \<Rightarrow>
               (case slots key of
                  None \<Rightarrow> Inl (''unfilled placeholder in playbook: {{'' @ key @ ''}}'')
                | Some v \<Rightarrow> (case render rest' slots of Inl e \<Rightarrow> Inl e | Inr out \<Rightarrow> Inr (before @ v @ out)))))"
  by pat_completeness auto
termination
  by (relation "measure (\<lambda>(rest, slots). length rest)") (auto dest!: split_once_Some)

declare render.simps [simp del]

section \<open>Blocks\<close>

definition SUPPRESSION_RULE_HEAD :: string where
  \<open>SUPPRESSION_RULE_HEAD = join newline
     [''Each entry was decided against the code as it was then.'',
      ''- An entry marked CHANGED was judged at a commit whose code it depends on'',
      ''  has changed since. Re-check its claim against the current code.'',
      ''  - If the claim is true now, file it again with the SAME fingerprint: that'',
      ''    reopens the finding. Say in its detail what changed since the verdict.'',
      ''  - If the verdict still holds, record that in '']\<close>

definition SUPPRESSION_RULE_TAIL :: string where
  \<open>SUPPRESSION_RULE_TAIL = join newline
     ['', a JSON array of'',
      ''    {"fingerprint": "...", "holds_while": "the condition as it stands now"}'',
      ''    entries. It moves the verdict forward to this commit, so the next scan'',
      ''    does not re-check it.'',
      ''- Any other entry: do not re-file it or a variant of it.'']\<close>

definition changed_mark :: "changed option \<Rightarrow> string" where
  "changed_mark c =
     (case c of
        None \<Rightarrow> []
      | Some (Changed_files since files) \<Rightarrow> '' [CHANGED since '' @ since @ '': '' @ join '', '' files @ '']''
      | Some (Unknown_since since) \<Rightarrow>
          '' [CHANGED: the verdict's commit '' @ since @ '' is not in this history]'')"

definition suppressions_block :: "suppression list \<Rightarrow> string \<Rightarrow> string" where
  "suppressions_block entries reconfirmed_at =
     (if entries = [] then ''(none yet)''
      else join newline ((SUPPRESSION_RULE_HEAD @ reconfirmed_at @ SUPPRESSION_RULE_TAIL) # [] #
             map (\<lambda>s. ''- '' @ su_fingerprint s @ '' -- '' @ su_reason s @ changed_mark (su_changed s)) entries))"

definition known_block :: "finding list \<Rightarrow> string" where
  "known_block known =
     (if known = [] then ''(none yet)''
      else join newline (map (\<lambda>f. ''- '' @ f_fingerprint f @ '' ['' @ finding_status_str (f_status f) @ ''] -- '' @
             f_summary f) known))"

definition FINDING_PROMPT_KEYS :: "string list" where
  "FINDING_PROMPT_KEYS =
     [''type'', ''fingerprint'', ''file'', ''symbol'', ''line'', ''bug_class'', ''severity'', ''confidence'',
      ''summary'', ''detail'', ''evidence_plan'', ''introduced_by'', ''ecosystem'', ''package'', ''current_version'',
      ''latest_version'', ''update_type'', ''security_advisory'', ''missing_tests'', ''test_file'', ''smell_type'',
      ''suggested_refactor'', ''modernization_class'', ''current_approach'', ''proposed_approach'', ''standard_section'']"

record finding_text =
  ft_value :: "finding \<Rightarrow> json"
  ft_pretty :: "json \<Rightarrow> string"

definition finding_subset :: "finding_text \<Rightarrow> finding \<Rightarrow> json" where
  "finding_subset T f =
     JObject (fold (\<lambda>key m. case json_get (ft_value T f) key of
                 None \<Rightarrow> m | Some JNull \<Rightarrow> m | Some v \<Rightarrow> btree_insert key v m) FINDING_PROMPT_KEYS [])"

definition finding_json :: "finding_text \<Rightarrow> finding \<Rightarrow> string" where
  "finding_json T f = ft_pretty T (finding_subset T f)"

definition playbook_dir :: "string \<Rightarrow> string" where
  "playbook_dir dir = path_join dir ''playbooks''"

definition with_context :: "string \<Rightarrow> 'a io \<Rightarrow> 'a io" where
  "with_context what m = do { r \<leftarrow> m; case r of Inl _ \<Rightarrow> err what | Inr x \<Rightarrow> ok x }"

definition read_template :: "string \<Rightarrow> string \<Rightarrow> string io" where
  "read_template dir name =
     (let path = path_join (playbook_dir dir) name
      in with_context (''failed to read playbook template '' @ path) (read_file path))"

definition notes_or_default :: "string \<Rightarrow> string \<Rightarrow> string" where
  "notes_or_default notes def = (if notes = [] then def else notes)"

definition login_of :: "gh_author option \<Rightarrow> string" where
  "login_of a = (case a of Some a \<Rightarrow> au_login a | None \<Rightarrow> ''?'')"

definition review_body :: "gh_review \<Rightarrow> string" where
  "review_body r =
     (let raw = trim (gr_body r)
      in if gr_state r \<noteq> [] \<and> gr_state r \<noteq> ''COMMENTED'' then trim (''[review: '' @ gr_state r @ ''] '' @ raw) else raw)"

definition feedback_items :: "pr_view \<Rightarrow> voice \<Rightarrow> (string \<times> string \<times> string) list" where
  "feedback_items pr v =
     map (\<lambda>c. (gc_created_at c, login_of (gc_author c), trim (gc_body c)))
       (filter (\<lambda>c. gc_voice c = v) (pv_comments pr)) @
     map (\<lambda>r. (gr_submitted_at r, login_of (gr_author r), review_body r))
       (filter (\<lambda>r. review_body r \<noteq> []) (filter (\<lambda>r. gr_voice r = v) (pv_reviews pr)))"

definition sort_items :: "(string \<times> string \<times> string) list \<Rightarrow> (string \<times> string \<times> string) list" where
  "sort_items items = sort_key fst (sort_key (\<lambda>(_, who, _). who) (sort_key (\<lambda>(_, _, body). body) items))"

text \<open>The oldest blocks go until the rest fits, but never the last one.\<close>

fun shed :: "nat \<Rightarrow> string list \<Rightarrow> nat \<Rightarrow> string list \<times> nat" where
  "shed cap (b # c # bs) dropped =
     (if cap < sum_list (map (\<lambda>b. length b + 2) (b # c # bs)) then shed cap (c # bs) (Suc dropped)
      else (b # c # bs, dropped))"
| "shed cap bs dropped = (bs, dropped)"

definition feedback_blocks :: "pr_view \<Rightarrow> voice \<Rightarrow> nat \<Rightarrow> string" where
  "feedback_blocks pr v cap =
     (let (kept, dropped) = shed cap (map (\<lambda>(ts, who, body). ''### '' @ who @ '' at '' @ ts @ newline @ body)
             (sort_items (feedback_items pr v))) 0;
          blocks = (if 0 < dropped then [''('' @ show_nat dropped @ '' older item(s) elided)''] else []) @ kept
      in if blocks = [] then (case v of Maintainer \<Rightarrow> ''(no comments or reviews)'' | Bot \<Rightarrow> ''(no bot reviews)'')
         else join (newline @ newline) blocks)"

definition checks_lines :: "pr_view \<Rightarrow> string" where
  "checks_lines pr =
     (if pv_status_check_rollup pr = [] then ''(no checks reported)''
      else join newline (map (\<lambda>c. ''- '' @ unwrap_or (opt_or (ck_name c) (ck_context c)) ''?'' @ '': '' @
             unwrap_or (opt_or (ck_conclusion c) (ck_state c)) ''PENDING'') (take 30 (pv_status_check_rollup pr))))"

section \<open>The texts\<close>

definition DECLINE_CLASSIFICATION :: string where
  \<open>DECLINE_CLASSIFICATION = join newline
     [''The FIRST line of the decline file must be `Classification: <word>`, with'',
      ''exactly one of these words, lowercase. The explanation and its evidence'',
      ''follow from the second line on.'',
      ''- `superseded`: the finding was valid, and its fix or change has landed'',
      ''  since by another way (a commit, a PR, a larger change). Name the commit.'',
      ''- `duplicate`: another finding or PR already covers the same change. Name it.'',
      ''- `obsolete`: the code the finding is about no longer exists, or its'',
      ''  premise no longer applies, for reasons unrelated to this finding.'',
      ''- `wrong`: the finding's premise is false: there is no bug, the gap does'',
      ''  not exist, or the change is not an improvement. Only when evidence from'',
      ''  the current code SHOWS it, never because proof was hard to get.'',
      ''- `unwanted`: the problem is real, but the project has decided against'',
      ''  this kind of change. Cite where it decided (its docs, CI configuration,'',
      ''  repository notes, a maintainer's words), not your own preference.'',
      ''`wrong` and `unwanted` suppress: every later scan of this repository is'',
      ''told not to report the finding again. The others do not. When in doubt'',
      ''between a word that suppresses and one that does not, pick the one that'',
      ''does not: a wrongly suppressed finding is never reported again. A decline'',
      ''file whose first line is not a valid classification sends the finding'',
      ''back to the operator's triage.'',
      '''',
      ''For `wrong`, follow the classification line directly with two more lines,'',
      ''then the explanation:'',
      '''',
      ''    Holds while: <the condition>'',
      ''    Depends on: <path>, <path>'']\<close>

definition VERDICT_CONDITION :: string where
  \<open>VERDICT_CONDITION = join newline
     [''A verdict that the finding is wrong (`wrong`, `invalid`) is a claim about'',
      ''the code as it is now, and every later scan of this repository is told to'',
      ''trust it until that code changes. So state what it rests on:'',
      ''- holds while: ONE sentence naming the condition in the current code'',
      ''  that makes the verdict true, specific enough that a later reader can'',
      ''  check it, e.g. "get_data_in_window drops the first time bin'',
      ''  (src/plot_area.rs:141)". Not a restatement of the verdict.'',
      ''- depends on: the repository paths that condition lives in. When any of'',
      ''  them changes, later scans are told to re-check the verdict instead of'',
      ''  trusting it. Name the file the condition is in, even when it is not'',
      ''  the finding's own file: that is the change that would make the finding'',
      ''  true again.'']\<close>

definition decline_instructions :: string where
  "decline_instructions = DECLINE_CLASSIFICATION @ newline @ newline @ VERDICT_CONDITION"

definition NO_NOTES :: string where "NO_NOTES = ''(No notes yet)''"

definition NO_NOTES_HUNT :: string where
  "NO_NOTES_HUNT = ''(No notes yet '' @ [CHR 0xE2, CHR 0x80, CHR 0x94] @
     '' consider adding conventions/architecture/gotchas as you discover them)''"

section \<open>The builders\<close>

definition fill :: "string \<Rightarrow> string \<Rightarrow> (string \<times> string) list \<Rightarrow> string io" where
  "fill dir name slots =
     and_then (read_template dir name) (\<lambda>template. State_Monad.return (render template (map_of slots)))"

definition scan_slots :: "repo \<Rightarrow> string \<Rightarrow> string \<Rightarrow> suppression list \<Rightarrow> string \<Rightarrow> (string \<times> string) list" where
  "scan_slots r tree scope_note entries out_path =
     [(''REPO_PATH'', tree), (''REPO_NAME'', r_name r), (''SCOPE_NOTE'', scope_note),
      (''SUPPRESSIONS'', suppressions_block entries (reconfirmed_path out_path)), (''OUT_PATH'', out_path)]"

definition build_hunt_prompt ::
  "string \<Rightarrow> repo \<Rightarrow> string \<Rightarrow> string \<Rightarrow> string \<Rightarrow> suppression list \<Rightarrow> finding list \<Rightarrow> string \<Rightarrow> int \<Rightarrow> string \<Rightarrow> string io" where
  "build_hunt_prompt dir r tree diff_range scope_note entries known out_path max_findings notes =
     fill dir ''hunt.md''
       (scan_slots r tree scope_note entries out_path @
        [(''DIFF_RANGE'', diff_range), (''KNOWN_FINDINGS'', known_block known), (''MAX_FINDINGS'', show_int max_findings),
         (''REPO_NOTES'', notes_or_default notes NO_NOTES_HUNT)])"

definition fix_slots :: "finding_text \<Rightarrow> finding \<Rightarrow> string \<Rightarrow> string \<Rightarrow> repo \<Rightarrow> string \<Rightarrow> (string \<times> string) list" where
  "fix_slots T f tree branch r notes =
     [(''WORKTREE'', tree), (''BRANCH'', branch), (''FINDING_JSON'', finding_json T f), (''REPO_NAME'', r_name r),
      (''REPO_NOTES'', notes_or_default notes NO_NOTES), (''DECLINE_CLASSIFICATION'', decline_instructions)]"

definition build_fix_prompt ::
  "finding_text \<Rightarrow> string \<Rightarrow> finding \<Rightarrow> string \<Rightarrow> string \<Rightarrow> repo \<Rightarrow> string \<Rightarrow> string io" where
  "build_fix_prompt T dir f tree branch r notes = fill dir ''fix.md'' (fix_slots T f tree branch r notes)"

definition build_apply_improvement_prompt ::
  "finding_text \<Rightarrow> string \<Rightarrow> finding \<Rightarrow> string \<Rightarrow> string \<Rightarrow> repo \<Rightarrow> string \<Rightarrow> string io" where
  "build_apply_improvement_prompt T dir f tree branch r notes =
     fill dir ''apply_improvement.md'' (fix_slots T f tree branch r notes)"

definition build_apply_modernization_prompt ::
  "finding_text \<Rightarrow> string \<Rightarrow> finding \<Rightarrow> string \<Rightarrow> string \<Rightarrow> repo \<Rightarrow> string \<Rightarrow> string io" where
  "build_apply_modernization_prompt T dir f tree branch r notes =
     fill dir ''apply_modernization.md'' (fix_slots T f tree branch r notes)"

definition pr_slots :: "pr_view \<Rightarrow> (string \<times> string) list" where
  "pr_slots pr =
     [(''PR_TITLE'', pv_title pr), (''PR_BODY'', if pv_body pr = [] then ''(no description)'' else pv_body pr),
      (''FEEDBACK'', feedback_blocks pr Maintainer 8000), (''BOT_FEEDBACK'', feedback_blocks pr Bot 6000)]"

definition build_engage_prompt ::
  "string \<Rightarrow> finding \<Rightarrow> string \<Rightarrow> string \<Rightarrow> repo \<Rightarrow> pr_view \<Rightarrow> pr \<Rightarrow> string \<Rightarrow> string io" where
  "build_engage_prompt dir f tree branch r view ps notes =
     fill dir ''engage.md''
       ([(''WORKTREE'', tree), (''BRANCH'', branch), (''REPO_NAME'', r_name r), (''DEFAULT_BRANCH'', r_default_branch r)] @
        pr_slots view @
        [(''CHECKS'', checks_lines view), (''ATTENTION'', unwrap_or (p_needs_attention ps) ''(none recorded)''),
         (''PR_NUMBER'', case p_number ps of Some n \<Rightarrow> show_int n | None \<Rightarrow> ''?''),
         (''REPO_NOTES'', notes_or_default notes NO_NOTES)])"

definition build_harvest_prompt ::
  "finding_text \<Rightarrow> string \<Rightarrow> finding \<Rightarrow> string \<Rightarrow> string \<Rightarrow> repo \<Rightarrow> pr_view \<Rightarrow> int \<Rightarrow> string \<Rightarrow> string io" where
  "build_harvest_prompt T dir f tree branch r view pr_number notes =
     fill dir ''harvest.md''
       ([(''WORKTREE'', tree), (''REPO_NAME'', r_name r), (''DEFAULT_BRANCH'', r_default_branch r),
         (''FINDING_JSON'', finding_json T f), (''PR_NUMBER'', show_int pr_number)] @ pr_slots view @
        [(''REPO_NOTES'', notes_or_default notes NO_NOTES)])"

datatype closed_tree = Default_branch | Pr_head

definition PR_DIFF_CAP_CHARS :: nat where "PR_DIFF_CAP_CHARS = 40000"

definition capped_diff :: "string \<Rightarrow> string" where
  "capped_diff diff =
     (let kept = take_chars PR_DIFF_CAP_CHARS diff; rest = drop (length kept) diff
      in if trim diff = [] then ''(empty diff)''
         else if rest = [] then diff
         else kept @ newline @ ''[diff truncated here: '' @ show_nat (char_count rest) @ '' more characters not shown]'')"

text \<open>The longest run of backticks.\<close>

fun backtick_run :: "nat \<Rightarrow> string \<Rightarrow> nat" where
  "backtick_run n [] = n"
| "backtick_run n (c # cs) = (if c = CHR 0x60 then backtick_run (Suc n) cs else max n (backtick_run 0 cs))"

definition fenced_diff :: "string \<Rightarrow> string" where
  "fenced_diff diff =
     (let body = capped_diff diff;
          fence = replicate (max (backtick_run 0 body) 2 + 1) (CHR 0x60)
      in fence @ ''diff'' @ newline @ body @ (if ends_with newline body then [] else newline) @ fence)"

definition tree_state :: "closed_tree \<Rightarrow> string \<Rightarrow> string" where
  "tree_state tree db =
     (case tree of
        Default_branch \<Rightarrow> ''checked out at '' @ db @
          '''s HEAD, which does NOT contain this PR's changes; the PR's diff is below''
      | Pr_head \<Rightarrow> ''checked out at the PR's head branch; '' @ db @ '' is origin/'' @ db @ ''; the PR's diff is below'')"

definition build_harvest_closed_prompt ::
  "finding_text \<Rightarrow> string \<Rightarrow> finding \<Rightarrow> string \<Rightarrow> repo \<Rightarrow> pr_view \<Rightarrow> int \<Rightarrow> string \<Rightarrow> closed_tree \<Rightarrow> string \<Rightarrow> string io" where
  "build_harvest_closed_prompt T dir f tree r view pr_number diff held_tree notes =
     fill dir ''harvest-closed.md''
       ([(''WORKTREE'', tree), (''WORKTREE_STATE'', tree_state held_tree (r_default_branch r)), (''REPO_NAME'', r_name r),
         (''DEFAULT_BRANCH'', r_default_branch r), (''FINDING_JSON'', finding_json T f),
         (''PR_NUMBER'', show_int pr_number)] @ pr_slots view @
        [(''PR_DIFF'', fenced_diff diff), (''REPO_NOTES'', notes_or_default notes NO_NOTES),
         (''VERDICT_CONDITION'', VERDICT_CONDITION)])"

definition build_recheck_prompt ::
  "finding_text \<Rightarrow> string \<Rightarrow> finding \<Rightarrow> repo \<Rightarrow> string \<Rightarrow> string \<Rightarrow> string \<Rightarrow> string io" where
  "build_recheck_prompt T dir f r tree out_path notes =
     fill dir ''recheck.md''
       [(''REPO_PATH'', tree), (''REPO_NAME'', r_name r), (''FINDING_JSON'', finding_json T f), (''OUT_PATH'', out_path),
        (''REPO_NOTES'', notes_or_default notes NO_NOTES), (''VERDICT_CONDITION'', VERDICT_CONDITION)]"

type_synonym scan_prompt =
  "string \<Rightarrow> repo \<Rightarrow> string \<Rightarrow> string \<Rightarrow> suppression list \<Rightarrow> finding list \<Rightarrow> string \<Rightarrow> int \<Rightarrow> string \<Rightarrow> string io"

definition build_analysis_prompt :: "string \<Rightarrow> string \<Rightarrow> string \<Rightarrow> scan_prompt" where
  "build_analysis_prompt name known_slot max_slot dir r tree scope_note entries known out_path max_items notes =
     fill dir name
       (scan_slots r tree scope_note entries out_path @
        [(known_slot, known_block known), (max_slot, show_int max_items),
         (''REPO_NOTES'', notes_or_default notes NO_NOTES)])"

definition build_test_gap_prompt :: scan_prompt where
  "build_test_gap_prompt = build_analysis_prompt ''test_gap.md'' ''KNOWN_GAPS'' ''MAX_GAPS''"

definition build_dep_update_prompt :: scan_prompt where
  "build_dep_update_prompt = build_analysis_prompt ''dep_update.md'' ''KNOWN_UPDATES'' ''MAX_UPDATES''"

definition build_refactor_prompt :: scan_prompt where
  "build_refactor_prompt = build_analysis_prompt ''refactor.md'' ''KNOWN_REFACTORS'' ''MAX_REFACTORS''"

definition build_modernization_prompt :: scan_prompt where
  "build_modernization_prompt = build_analysis_prompt ''modernization.md'' ''KNOWN_MODERNIZATIONS'' ''MAX_MODERNIZATIONS''"

definition build_standards_prompt :: scan_prompt where
  "build_standards_prompt dir r tree scope_note entries known out_path max_findings notes =
     and_then (read_template dir ''standards.md'') (\<lambda>template.
       (let path = path_join (unwrap_or (parent_dir dir) dir) ''CODING_STANDARDS.md''
        in and_then (with_context (''CODING_STANDARDS.md not found at '' @ path) (read_file path)) (\<lambda>standards.
             if standards = [] then err (''CODING_STANDARDS.md is empty at '' @ path)
             else State_Monad.return (render template (map_of
               (scan_slots r tree scope_note entries out_path @
                [(''KNOWN_FINDINGS'', known_block known), (''STANDARDS'', standards),
                 (''MAX_FINDINGS'', show_int max_findings), (''REPO_NOTES'', notes_or_default notes NO_NOTES)]))))))"

end
