(* ===== verification/Prompts.thy ===== *)
theory Prompts
  imports Playbooks
begin

text \<open>
What the prompt builders promise (\<open>playbooks.rs\<close>): a template renders to its text with each slot's value in
place of the slot, whatever the values hold, and a diff cannot end the fence around it.
\<close>

section \<open>Rendering is substitution\<close>

lemma split_once_doubled:
  "find_sub [d, d] (l @ [d]) = None \<Longrightarrow> split_once [d, d] (l @ d # d # r) = Some (l, r)"
proof (induction l)
  case Nil
  then show ?case by (simp add: split_once_def)
next
  case (Cons c l)
  have no: "\<not> starts_with [d, d] (c # l @ [d])" and rest: "find_sub [d, d] (l @ [d]) = None"
    using Cons.prems by (auto split: if_splits)
  then have "\<not> starts_with [d, d] (c # l @ d # d # r)" by (cases l) auto
  moreover have "find_sub [d, d] (l @ d # d # r) = Some (length l)"
    using Cons.IH [OF rest] by (auto simp: split_once_def dest: arg_cong [of _ _ length])
  ultimately show ?case by (simp add: split_once_def)
qed

lemma split_once_absent: "find_sub p s = None \<Longrightarrow> split_once p s = None"
  by (simp add: split_once_def)

text \<open>A template as its literals and slots.\<close>

fun template_text :: "(string \<times> string) list \<Rightarrow> string \<Rightarrow> string" where
  "template_text [] l = l"
| "template_text ((lit, key) # ps) l = lit @ ''{{'' @ key @ ''}}'' @ template_text ps l"

fun template_value :: "(string \<Rightarrow> string option) \<Rightarrow> (string \<times> string) list \<Rightarrow> string \<Rightarrow> string" where
  "template_value slots [] l = l"
| "template_value slots ((lit, key) # ps) l = lit @ unwrap_or (slots key) [] @ template_value slots ps l"

definition plain_pieces :: "(string \<times> string) list \<Rightarrow> string \<Rightarrow> bool" where
  "plain_pieces ps l \<longleftrightarrow> find_sub ''{{'' l = None \<and>
     list_all (\<lambda>(lit, key). find_sub ''{{'' (lit @ ''{'') = None \<and> find_sub ''}}'' (key @ ''}'') = None) ps"

text \<open>A prompt is its template with each slot replaced by its value and nothing else: whatever braces
  the values hold (a pull request's text, a note, a finding), none of them is read as a slot or expanded again.\<close>
theorem render_substitutes_once:
  assumes "plain_pieces ps l" "list_all (\<lambda>(_, key). slots key \<noteq> None) ps"
  shows "render (template_text ps l) slots = Inr (template_value slots ps l)"
  using assms
proof (induction ps)
  case Nil
  then show ?case
    by (subst render.simps) (simp add: plain_pieces_def split_once_absent)
next
  case (Cons p ps)
  obtain lit key where p: "p = (lit, key)" by (cases p)
  obtain v where v: "slots key = Some v" using Cons.prems(2) by (auto simp: p)
  have "split_once ''{{'' (template_text (p # ps) l) = Some (lit, key @ ''}}'' @ template_text ps l)"
    "split_once ''}}'' (key @ ''}}'' @ template_text ps l) = Some (key, template_text ps l)"
    using Cons.prems(1) by (auto simp: p plain_pieces_def intro: split_once_doubled)
  moreover have "render (template_text ps l) slots = Inr (template_value slots ps l)"
    using Cons by (simp add: plain_pieces_def)
  ultimately show ?case by (subst render.simps) (simp add: p v)
qed

theorem render_substitutes_once_witness:
  "render ''{{PR_BODY}} {{SECRET}}'' [''PR_BODY'' \<mapsto> ''{{SECRET}}'', ''SECRET'' \<mapsto> ''swordfish''] =
     Inr ''{{SECRET}} swordfish''"
proof -
  let ?ps = "[([], ''PR_BODY''), ('' '', ''SECRET'')]"
  let ?slots = "[''PR_BODY'' \<mapsto> ''{{SECRET}}'', ''SECRET'' \<mapsto> ''swordfish'']"
  have "plain_pieces ?ps []" "list_all (\<lambda>(_, key). ?slots key \<noteq> None) ?ps"
    by (simp_all add: plain_pieces_def)
  from render_substitutes_once [OF this]
  have "render (template_text ?ps []) ?slots = Inr (template_value ?slots ?ps [])" .
  moreover have "template_text ?ps [] = ''{{PR_BODY}} {{SECRET}}''"
    "template_value ?slots ?ps [] = ''{{SECRET}} swordfish''" by simp_all
  ultimately show ?thesis by (simp only:)
qed

section \<open>The fence\<close>

lemma backtick_run_ge: "n \<le> backtick_run n s"
  by (induction n s rule: backtick_run.induct) auto

lemma backtick_run_replicate: "n + m \<le> backtick_run n (replicate m (CHR 0x60) @ s)"
proof (induction m arbitrary: n)
  case 0
  show ?case by (simp add: backtick_run_ge)
next
  case (Suc m)
  show ?case using Suc.IH [of "Suc n"] by simp
qed

lemma backtick_run_mono: "n \<le> m \<Longrightarrow> backtick_run n s \<le> backtick_run m s"
  by (induction s arbitrary: n m) auto

lemma backtick_run_suffix: "backtick_run 0 s \<le> backtick_run n (a @ s)"
proof (induction a arbitrary: n)
  case Nil
  show ?case by (simp add: backtick_run_mono)
qed (simp add: le_max_iff_disj)

text \<open>A diff cannot break out of its block: the fence around it is longer than every run of backticks
  it holds, so no line of the diff closes it.\<close>
theorem fence_outlasts_diff:
  assumes "capped_diff diff = a @ replicate n (CHR 0x60) @ b"
  shows "\<exists>m nl. n < m \<and> fenced_diff diff =
    replicate m (CHR 0x60) @ ''diff'' @ newline @ capped_diff diff @ nl @ replicate m (CHR 0x60)"
proof -
  have "n \<le> backtick_run 0 (capped_diff diff)"
    using backtick_run_replicate [of 0 n b] backtick_run_suffix [of "replicate n (CHR 0x60) @ b" 0 a]
    by (simp add: assms)
  then show ?thesis
    by (intro exI [of _ "max (backtick_run 0 (capped_diff diff)) 2 + 1"] exI conjI)
      (simp, simp add: fenced_diff_def Let_def)
qed

lemma take_chars_ascii: "list_all (\<lambda>c. \<not> is_cont_byte c) s \<Longrightarrow> length s \<le> n \<Longrightarrow> take_chars n s = s"
proof (induction s arbitrary: n)
  case (Cons c s)
  then obtain m where n: "n = Suc m" by (cases n) auto
  have "takeWhile is_cont_byte s = []" "dropWhile is_cont_byte s = s"
    using Cons.prems(1) by (cases s; simp)+
  with Cons n show ?case by simp
next
  case Nil
  show ?case by (cases n) simp_all
qed

theorem fence_outlasts_diff_witness:
  "\<exists>m nl. 4 < m \<and> fenced_diff (replicate 4 (CHR 0x60)) =
    replicate m (CHR 0x60) @ ''diff'' @ newline @ replicate 4 (CHR 0x60) @ nl @ replicate m (CHR 0x60)"
proof -
  have c: "capped_diff (replicate 4 (CHR 0x60)) = replicate 4 (CHR 0x60)"
  proof -
    have "take_chars PR_DIFF_CAP_CHARS (replicate 4 (CHR 0x60)) = replicate 4 (CHR 0x60)"
      by (rule take_chars_ascii) (simp_all add: PR_DIFF_CAP_CHARS_def is_cont_byte_def byte_def list_all_iff)
    moreover have "trim (replicate 4 (CHR 0x60)) \<noteq> []" by code_simp
    ultimately show ?thesis by (simp add: capped_diff_def Let_def)
  qed
  show ?thesis
    using fence_outlasts_diff [of "replicate 4 (CHR 0x60)" "[]" 4 "[]"] unfolding c by simp
qed

end
