(* ===== verification/Utf8.thy ===== *)
theory Utf8
  imports Prelude
begin

text \<open>
\<open>String::from_utf8_lossy\<close>: bytes that are no UTF-8 are replaced by U+FFFD, one for each maximal
prefix of a sequence. What a worker writes or prints is read this way.
\<close>

definition REPLACEMENT :: string where
  "REPLACEMENT = [CHR 0xEF, CHR 0xBF, CHR 0xBD]"

text \<open>The bytes a lead byte announces, none for a byte that leads nothing, and what may follow it.\<close>

definition utf8_width :: "char \<Rightarrow> nat" where
  "utf8_width c =
     (let b = byte c
      in if b < 128 then 1
         else if 194 \<le> b \<and> b < 224 then 2
         else if 224 \<le> b \<and> b < 240 then 3
         else if 240 \<le> b \<and> b < 245 then 4
         else 0)"

definition second_ok :: "char \<Rightarrow> char \<Rightarrow> bool" where
  "second_ok c d =
     (let b = byte c; e = byte d
      in if b = 224 then 160 \<le> e \<and> e < 192
         else if b = 237 then 128 \<le> e \<and> e < 160
         else if b = 240 then 144 \<le> e \<and> e < 192
         else if b = 244 then 128 \<le> e \<and> e < 144
         else is_cont_byte d)"

text \<open>The bytes of the first sequence, and whether it is a character.\<close>

fun utf8_first :: "string \<Rightarrow> nat \<times> bool" where
  "utf8_first [] = (0, True)"
| "utf8_first (c # cs) =
     (let w = utf8_width c;
          has = (\<lambda>i. i < length cs \<and> is_cont_byte (cs ! i))
      in if w = 0 then (1, False)
         else if w = 1 then (1, True)
         else if cs = [] \<or> \<not> second_ok c (hd cs) then (1, False)
         else if w = 2 then (2, True)
         else if \<not> has 1 then (2, False)
         else if w = 3 then (3, True)
         else if \<not> has 2 then (3, False)
         else (4, True))"

lemma utf8_first_pos: "s \<noteq> [] \<Longrightarrow> 0 < fst (utf8_first s)"
  by (cases s) (auto simp: Let_def)

lemma utf8_first_le: "fst (utf8_first s) \<le> length s"
proof (cases s)
  case (Cons c cs)
  then show ?thesis by (cases cs; cases "tl cs"; cases "tl (tl cs)") (auto simp: Let_def Suc_le_eq)
qed simp

lemma utf8_first_shortens: "s \<noteq> [] \<Longrightarrow> length (drop (fst (utf8_first s)) s) < length s"
  using utf8_first_pos [of s] by (simp del: utf8_first.simps)

function utf8_lossy :: "string \<Rightarrow> string" where
  "utf8_lossy s =
     (if s = [] then []
      else (let (n, valid) = utf8_first s
            in (if valid then take n s else REPLACEMENT) @ utf8_lossy (drop n s)))"
  by pat_completeness auto
termination
proof (relation "measure length", simp, goal_cases)
  case (1 s x n valid)
  then show ?case using utf8_first_shortens [of s] by (simp del: utf8_first.simps) (metis fst_conv)
qed

declare utf8_lossy.simps [simp del]

function is_utf8 :: "string \<Rightarrow> bool" where
  "is_utf8 s = (if s = [] then True else snd (utf8_first s) \<and> is_utf8 (drop (fst (utf8_first s)) s))"
  by pat_completeness auto
termination
  by (relation "measure length") (simp, use utf8_first_shortens in \<open>simp del: utf8_first.simps length_drop\<close>)

declare is_utf8.simps [simp del]

lemma utf8_lossy_Nil [simp]: "utf8_lossy [] = []"
  by (subst utf8_lossy.simps) simp

lemma utf8_lossy_id: "is_utf8 s \<Longrightarrow> utf8_lossy s = s"
proof (induction s rule: utf8_lossy.induct)
  case (1 s)
  then show ?case
    by (subst utf8_lossy.simps) (auto simp: is_utf8.simps [of s] split: prod.split)
qed

lemma is_utf8_step:
  "snd (utf8_first a) \<Longrightarrow> fst (utf8_first a) = length a \<Longrightarrow> utf8_first (a @ b) = utf8_first a \<Longrightarrow> is_utf8 b \<Longrightarrow>
   is_utf8 (a @ b)"
  by (subst is_utf8.simps) auto

lemma utf8_first_extend:
  assumes "s \<noteq> []" "snd (utf8_first s)"
  shows "utf8_first (take (fst (utf8_first s)) s @ b) = utf8_first s"
proof (cases s)
  case (Cons c cs)
  show ?thesis
  proof (cases cs)
    case Nil
    then show ?thesis using assms Cons by (auto simp: Let_def split: if_splits)
  next
    case c2: (Cons d ds)
    show ?thesis using assms Cons c2
      by (auto simp: Let_def nth_append take_Suc_conv_app_nth numeral_eq_Suc split: if_splits)
  qed
qed (use assms in simp)

lemma utf8_lossy_utf8: "is_utf8 (utf8_lossy s)"
proof (induction s rule: utf8_lossy.induct)
  case (1 s)
  show ?case
  proof (cases "s = []")
    case True
    then show ?thesis by (simp add: is_utf8.simps)
  next
    case False
    define n v where "n = fst (utf8_first s)" and "v = snd (utf8_first s)"
    then have nv: "utf8_first s = (n, v)" by simp
    have rest: "is_utf8 (utf8_lossy (drop n s))" using 1 [OF False nv [symmetric] refl] .
    have eq: "utf8_lossy s = (if v then take n s else REPLACEMENT) @ utf8_lossy (drop n s)"
      using False by (subst utf8_lossy.simps) (simp add: nv)
    show ?thesis
    proof (cases v)
      case True
      have f: "utf8_first (take n s @ utf8_lossy (drop n s)) = (n, v)"
        using utf8_first_extend [OF False] True by (simp only: nv fst_conv snd_conv)
      have "n \<le> length s" using utf8_first_le [of s] by (simp add: nv)
      then show ?thesis unfolding eq using True rest
        by (subst is_utf8.simps) (simp add: f del: utf8_first.simps)
    next
      case False
      have f: "utf8_first (REPLACEMENT @ x) = (3, True)" for x
        by (simp add: REPLACEMENT_def Let_def utf8_width_def second_ok_def is_cont_byte_def byte_def)
      show ?thesis unfolding eq using False rest
        by (subst is_utf8.simps) (simp add: f del: utf8_first.simps, simp add: REPLACEMENT_def)
    qed
  qed
qed

lemma is_utf8_ascii: "list_all (\<lambda>c. byte c < 128) s \<Longrightarrow> is_utf8 s"
  by (induction s) (auto simp: is_utf8.simps Let_def utf8_width_def)

end
