(* ===== verification/Harness.thy ===== *)
theory Harness
  imports Attempts Config Json Utf8
begin

text \<open>
The worker runner (\<open>harness.rs\<close> of the omp backend): metering a session ledger, the cap and wall-clock
watchdog, the environment and command line a worker gets, and the result a run is reported as.

The worker process is a parameter: what the directory listing, the disk, the clocks and \<open>try_wait\<close> show
at the i-th poll, and what is left once its process group is gone. The loop has no bound of its own in the
code; here it is given fuel, and \<open>Watchdog\<close> shows that the fuel \<open>polls\<close> grants always ends it, because a poll
sleeps at least \<open>poll_s\<close>. Spawning, signals and the pipe threads are the operating system's.
\<close>

section \<open>The worker and its surroundings\<close>

record omp_process =
  op_exited :: "nat \<Rightarrow> bool"
  op_disk :: "nat \<Rightarrow> disk \<Rightarrow> disk"
  op_grace_clock :: "nat \<Rightarrow> rat"
  op_wall_clock :: "nat \<Rightarrow> rat"
  op_left :: "nat \<Rightarrow> disk \<Rightarrow> disk"
  op_exit_code :: "nat \<Rightarrow> int option"
  op_stdout :: "nat \<Rightarrow> string list"
  op_stderr :: "nat \<Rightarrow> string list"
  op_duration :: "nat \<Rightarrow> rat"

type_synonym env_vars = "(string \<times> string) list"

record omp =
  om_json :: "string \<Rightarrow> string + json"
  om_ls :: "disk \<Rightarrow> string \<Rightarrow> (string list) option"
  om_vars :: env_vars
  om_spawn :: "nat \<Rightarrow> string list \<Rightarrow> env_vars \<Rightarrow> string \<Rightarrow> (string \<times> rat) + omp_process"

section \<open>Metering\<close>

text \<open>The usage record of an assistant message; a line that is no UTF-8 or no JSON is skipped.\<close>

definition assistant_usage :: "(string \<Rightarrow> string + json) \<Rightarrow> string \<Rightarrow> json option" where
  "assistant_usage parse l =
     (case parse l of
        Inl _ \<Rightarrow> None
      | Inr v \<Rightarrow>
          (case json_get v ''message'' of
             None \<Rightarrow> None
           | Some msg \<Rightarrow>
               if is_object msg \<and> str_field msg ''role'' = Some ''assistant''
               then (case json_get msg ''usage'' of
                       Some u \<Rightarrow> if is_object u then Some u else None
                     | None \<Rightarrow> None)
               else None))"

definition usages :: "(string \<Rightarrow> string + json) \<Rightarrow> string \<Rightarrow> json list" where
  "usages parse text = List.map_filter (assistant_usage parse) (filter is_utf8 (lines text))"

definition usage_field :: "json \<Rightarrow> string \<Rightarrow> int" where
  "usage_field u name = unwrap_or (Option.bind (json_get u name) as_i64) 0"

definition new_tokens :: "json \<Rightarrow> int" where
  "new_tokens u = usage_field u ''input'' + usage_field u ''output'' + usage_field u ''cacheWrite''"

definition ledger_usage :: "(string \<Rightarrow> string + json) \<Rightarrow> string option \<Rightarrow> int \<times> int" where
  "ledger_usage parse file =
     (case file of
        None \<Rightarrow> (0, 0)
      | Some text \<Rightarrow> (let us = usages parse text in (sum_list (map new_tokens us), int (length us))))"

definition context_tokens :: "json \<Rightarrow> int" where
  "context_tokens u = usage_field u ''input'' + usage_field u ''cacheRead'' + usage_field u ''cacheWrite''"

definition ctx_at_suspension :: "(string \<Rightarrow> string + json) \<Rightarrow> string option \<Rightarrow> int option" where
  "ctx_at_suspension parse file =
     (case file of
        None \<Rightarrow> None
      | Some text \<Rightarrow>
          (let seen = filter (\<lambda>n. 0 < n) (map context_tokens (usages parse text))
           in if seen = [] then None else Some (List.last seen)))"

definition is_jsonl :: "string \<Rightarrow> bool" where
  "is_jsonl p =
     (case rsplit_once ''.'' (file_name p) of
        Some (stem, ext) \<Rightarrow> stem \<noteq> [] \<and> ext = ''jsonl''
      | None \<Rightarrow> False)"

definition ledger_dir_usage :: "omp \<Rightarrow> string \<Rightarrow> disk \<Rightarrow> (string \<times> int \<times> int) option" where
  "ledger_dir_usage M run_dir k =
     (case om_ls M k run_dir of
        None \<Rightarrow> None
      | Some entries \<Rightarrow>
          (let files = sort_key components (filter is_jsonl entries);
               read = map (\<lambda>f. ledger_usage (om_json M) (k_files k f)) files
           in if files = [] then None
              else Some (hd files, sum_list (map fst read), sum_list (map snd read))))"

section \<open>Output\<close>

definition TAIL_BYTES :: nat where "TAIL_BYTES = 2000"

text \<open>A pipe is read in chunks of at most 8192 bytes, and only the end is kept.\<close>

definition keep_tail :: "string \<Rightarrow> string \<Rightarrow> string" where
  "keep_tail chunk kept = drop (length (kept @ chunk) - TAIL_BYTES) (kept @ chunk)"

definition drain_tail :: "string list \<Rightarrow> string" where
  "drain_tail chunks = fold keep_tail chunks []"

definition tail_str :: "string \<Rightarrow> string" where
  "tail_str s = tail s TAIL_BYTES"

text \<open>With its line feed, as \<open>read_until\<close> leaves it; a file that cannot be read has none.\<close>

definition first_line :: "string option \<Rightarrow> string" where
  "first_line file =
     (case file of
        None \<Rightarrow> []
      | Some text \<Rightarrow> takeWhile (\<lambda>c. c \<noteq> CHR 0x0A) text @ take 1 (dropWhile (\<lambda>c. c \<noteq> CHR 0x0A) text))"

section \<open>Starting a worker\<close>

definition cannot_resume :: "string \<Rightarrow> string \<Rightarrow> string" where
  "cannot_resume session_file why = ''cannot resume '' @ session_file @ '': '' @ why"

definition no_run :: "int option \<Rightarrow> string option \<Rightarrow> string \<Rightarrow> run_result" where
  "no_run code killed out =
     \<lparr>rr_exit_code = code, rr_killed_reason = killed, rr_tokens_new = 0, rr_calls = 0, rr_session_file = None,
      rr_duration_s = 0, rr_stdout_tail = out, rr_usage_delta = None\<rparr>"

definition resume_unavailable :: "string \<Rightarrow> string \<Rightarrow> run_result" where
  "resume_unavailable session_file why =
     no_run None (Some ''resume-unavailable'') (cannot_resume session_file why)"

definition resume_refused :: "string \<Rightarrow> string \<Rightarrow> world \<Rightarrow> string option" where
  "resume_refused run_dir session_file w =
     (if \<not> is_dir w run_dir then Some ''session directory is gone''
      else if unwrap_or (k_files (w_disk w) session_file) [] = [] then Some ''session file is missing or empty''
      else None)"

definition worker_argv ::
  "config \<Rightarrow> string \<Rightarrow> string \<Rightarrow> string option \<Rightarrow> string option \<Rightarrow> string list" where
  "worker_argv cfg prompt run_dir model resume =
     [cf_omp_bin cfg, ''-p'', prompt, ''--session-dir='' @ run_dir] @
     (case resume of Some sf \<Rightarrow> [''--resume='' @ sf] | None \<Rightarrow> []) @
     (case model of Some m \<Rightarrow> [''--model='' @ m] | None \<Rightarrow> []) @
     (case cf_model_smol cfg of Some m \<Rightarrow> [''--smol='' @ m] | None \<Rightarrow> [])"

definition ENV_ALLOWLIST :: "string list" where
  "ENV_ALLOWLIST = [''PATH'', ''HOME'', ''USER'', ''LOGNAME'', ''LANG'', ''LC_ALL'', ''TERM'', ''TMPDIR'', ''TEMP'',
     ''TMP'', ''SSH_AUTH_SOCK'']"

definition ENV_PREFIXES :: "string list" where
  "ENV_PREFIXES = [''OMP_'', ''XDG_'']"

definition env_allowed :: "string \<Rightarrow> bool" where
  "env_allowed name \<longleftrightarrow> name \<in> set ENV_ALLOWLIST \<or> list_ex (\<lambda>p. starts_with p name) ENV_PREFIXES"

definition build_cache :: "workspace \<Rightarrow> string" where
  "build_cache ws = path_join (ws_clone ws) ''target''"

definition worker_env :: "env_vars \<Rightarrow> workspace \<Rightarrow> env_vars" where
  "worker_env vars ws =
     filter (\<lambda>(name, _). env_allowed name) vars @
     [(''CARGO_TARGET_DIR'', unwrap_or (map_of vars ''CARGO_TARGET_DIR'') (build_cache ws))]"

section \<open>Watching a worker\<close>

record metering =
  mt_session :: "string option"
  mt_tokens :: int
  mt_calls :: int

definition unmetered_start :: metering where
  "unmetered_start = \<lparr>mt_session = None, mt_tokens = 0, mt_calls = 0\<rparr>"

definition meter :: "omp \<Rightarrow> string \<Rightarrow> int \<times> int \<Rightarrow> disk \<Rightarrow> metering \<Rightarrow> metering" where
  "meter M run_dir base k m =
     (case ledger_dir_usage M run_dir k of
        None \<Rightarrow> m
      | Some (path, t, c) \<Rightarrow>
          \<lparr>mt_session = Some path, mt_tokens = max 0 (t - fst base), mt_calls = max 0 (c - snd base)\<rparr>)"

definition unmetered :: "bool \<Rightarrow> metering \<Rightarrow> bool" where
  "unmetered resumed m = (if resumed then mt_calls m = 0 else mt_session m = None)"

definition cap_reached :: "int option \<Rightarrow> metering \<Rightarrow> bool" where
  "cap_reached cap m = (case cap of Some c \<Rightarrow> c \<le> mt_tokens m | None \<Rightarrow> False)"

text \<open>One poll: keep watching, or the reason the worker is killed for (none if it left).\<close>

definition poll_once ::
  "config \<Rightarrow> int option \<Rightarrow> int \<Rightarrow> bool \<Rightarrow> omp_process \<Rightarrow> nat \<Rightarrow> metering \<Rightarrow> string option option" where
  "poll_once cfg cap max_wall_s resumed P i m =
     (if op_exited P i then Some None
      else if cap_reached cap m then Some (Some ''cap'')
      else if unmetered resumed m \<and> int (cf_session_grace_s cfg) \<le> \<lfloor>op_grace_clock P i\<rfloor>
      then Some (Some ''unmetered'')
      else if max_wall_s \<le> \<lfloor>op_wall_clock P i\<rfloor> then Some (Some ''wallclock'')
      else None)"

fun watch_worker ::
  "nat \<Rightarrow> omp \<Rightarrow> config \<Rightarrow> string \<Rightarrow> int \<times> int \<Rightarrow> int option \<Rightarrow> int \<Rightarrow> bool \<Rightarrow> omp_process \<Rightarrow> disk \<Rightarrow> nat \<Rightarrow> metering \<Rightarrow>
   (nat \<times> metering \<times> string option) option" where
  "watch_worker 0 M cfg run_dir base cap max_wall_s resumed P k i m = None"
| "watch_worker (Suc n) M cfg run_dir base cap max_wall_s resumed P k i m =
     (let m' = meter M run_dir base (op_disk P i k) m
      in case poll_once cfg cap max_wall_s resumed P i m' of
           Some killed \<Rightarrow> Some (i, m', killed)
         | None \<Rightarrow> watch_worker n M cfg run_dir base cap max_wall_s resumed P k (Suc i) m')"

text \<open>Polls that fit into the wall-clock limit, and the one that finds it over.\<close>

definition polls :: "config \<Rightarrow> int \<Rightarrow> nat" where
  "polls cfg max_wall_s = Suc (nat \<lceil>of_int max_wall_s / cf_poll_s cfg\<rceil>)"

text \<open>Seconds to one decimal: \<open>(x * 10.0).round() / 10.0\<close> of a time that is not negative.\<close>

definition tenths :: "rat \<Rightarrow> rat" where
  "tenths x = of_int \<lfloor>x * 10 + 1 / 2\<rfloor> / 10"

definition worker_result ::
  "omp \<Rightarrow> string \<Rightarrow> int \<times> int \<Rightarrow> (string \<times> string) option \<Rightarrow> omp_process \<Rightarrow> disk \<Rightarrow>
   nat \<times> metering \<times> string option \<Rightarrow> run_result" where
  "worker_result M run_dir base resume P k watched =
     (let (i, m, killed) = watched;
          lost = (case resume of Some (sf, head) \<Rightarrow> first_line (k_files k sf) \<noteq> head | None \<Rightarrow> False);
          m' = meter M run_dir (if lost then (0, 0) else base) k m;
          killed' = (if unmetered (resume \<noteq> None) m' \<and> killed = None then Some ''unmetered'' else killed);
          text = utf8_lossy (drain_tail (op_stdout P i) @ drain_tail (op_stderr P i))
      in \<lparr>rr_exit_code = op_exit_code P i, rr_killed_reason = killed', rr_tokens_new = mt_tokens m',
          rr_calls = mt_calls m', rr_session_file = mt_session m', rr_duration_s = tenths (op_duration P i),
          rr_stdout_tail = (if lost then ''[resume-lost] '' else []) @ tail_str text, rr_usage_delta = None\<rparr>)"

text \<open>No result is a watchdog out of fuel.\<close>

definition watched_run ::
  "omp \<Rightarrow> config \<Rightarrow> string \<Rightarrow> int \<times> int \<Rightarrow> int option \<Rightarrow> int \<Rightarrow> (string \<times> string) option \<Rightarrow> omp_process \<Rightarrow>
   run_result option act" where
  "watched_run M cfg run_dir base cap max_wall_s resume P = State (\<lambda>w.
     (case watch_worker (polls cfg max_wall_s) M cfg run_dir base cap max_wall_s (resume \<noteq> None) P (w_disk w) 0
             unmetered_start of
        None \<Rightarrow> (None, w)
      | Some watched \<Rightarrow>
          (let k = op_left P (fst watched) (w_disk w)
           in (Some (worker_result M run_dir base resume P k watched),
               w\<lparr>w_calls := Suc (w_calls w), w_disk := k\<rparr>))))"

definition spawned_run ::
  "omp \<Rightarrow> config \<Rightarrow> workspace \<Rightarrow> string list \<Rightarrow> int \<times> int \<Rightarrow> int option \<Rightarrow> int \<Rightarrow> (string \<times> string) option \<Rightarrow>
   run_result option act" where
  "spawned_run M cfg ws argv base cap max_wall_s resumed = do {
     n \<leftarrow> look w_calls;
     (case om_spawn M n argv (worker_env (om_vars M) ws) (ws_tree ws) of
        Inl (e, elapsed) \<Rightarrow>
          State_Monad.return (Some ((no_run (Some 127) None (''spawn error: '' @ e))\<lparr>rr_duration_s := tenths elapsed\<rparr>))
      | Inr P \<Rightarrow> watched_run M cfg (ws_session ws) base cap max_wall_s resumed P)
   }"

definition run_worker ::
  "omp \<Rightarrow> config \<Rightarrow> workspace \<Rightarrow> string \<Rightarrow> int option \<Rightarrow> int \<Rightarrow> string option \<Rightarrow> string option \<Rightarrow>
   run_result option act" where
  "run_worker M cfg ws prompt cap max_wall_s model resume =
     (let run_dir = ws_session ws
      in do {
        refused \<leftarrow> look (\<lambda>w. Option.bind resume (\<lambda>sf. map_option (Pair sf) (resume_refused run_dir sf w)));
        (case refused of
           Some (sf, why) \<Rightarrow> State_Monad.return (Some (resume_unavailable sf why))
         | None \<Rightarrow> do {
             resumed \<leftarrow> look (\<lambda>w. map_option (\<lambda>sf. (sf, first_line (k_files (w_disk w) sf))) resume);
             base \<leftarrow> look (\<lambda>w. if resume = None then (0, 0)
                               else unwrap_or (map_option snd (ledger_dir_usage M run_dir (w_disk w))) (0, 0));
             made \<leftarrow> create_dir_all run_dir;
             (case made of
                Inl e \<Rightarrow> State_Monad.return (Some (no_run (Some 127) (Some ''unmetered'')
                           (''session dir '' @ run_dir @ '' unusable: '' @ e)))
              | Inr _ \<Rightarrow> spawned_run M cfg ws (worker_argv cfg prompt run_dir model resume) base cap max_wall_s resumed)
           })
      })"

end
