(* ===== verification/Watchdog.thy ===== *)
theory Watchdog
  imports Harness
begin

text \<open>
What the worker runner guarantees: it comes back, whatever the worker does; what a run may be recorded as;
a resumed run pays for its own records only; and the output kept is the end of what was printed.
\<close>

section \<open>Coming back\<close>

lemma watch_worker_ends:
  assumes "j < n" "max_wall_s \<le> \<lfloor>op_wall_clock P (i + j)\<rfloor>"
  shows "watch_worker n M cfg run_dir base cap max_wall_s resumed P k i m \<noteq> None"
  using assms
proof (induction n arbitrary: i j m)
  case (Suc n)
  show ?case
  proof (cases "poll_once cfg cap max_wall_s resumed P i (meter M run_dir base (op_disk P i k) m)")
    case None
    then have "j \<noteq> 0" using Suc.prems(2) by (cases j) (auto simp: poll_once_def split: if_splits)
    then obtain j' where "j = Suc j'" by (cases j) auto
    then show ?thesis using Suc.IH [of j' "Suc i"] Suc.prems None by (simp add: Let_def)
  qed (simp add: Let_def)
qed simp

definition sleeps :: "config \<Rightarrow> omp \<Rightarrow> bool" where
  "sleeps cfg M \<longleftrightarrow>
     (\<forall>n argv env cwd P i. om_spawn M n argv env cwd = Inr P \<longrightarrow> of_nat i * cf_poll_s cfg \<le> op_wall_clock P i)"

lemma polls_enough:
  assumes "0 < cf_poll_s cfg" "\<And>i. of_nat i * cf_poll_s cfg \<le> op_wall_clock P i"
  shows "watch_worker (polls cfg max_wall_s) M cfg run_dir base cap max_wall_s resumed P k 0 m \<noteq> None"
proof (rule watch_worker_ends)
  let ?j = "nat \<lceil>of_int max_wall_s / cf_poll_s cfg\<rceil>"
  show "?j < polls cfg max_wall_s" by (simp add: polls_def)
  have "of_int max_wall_s / cf_poll_s cfg \<le> of_nat ?j" by (simp add: of_nat_ceiling)
  then have "of_int max_wall_s \<le> of_nat ?j * cf_poll_s cfg" using assms(1) by (simp add: pos_divide_le_eq)
  also have "\<dots> \<le> op_wall_clock P ?j" using assms(2) by simp
  finally show "max_wall_s \<le> \<lfloor>op_wall_clock P (0 + ?j)\<rfloor>" by (simp add: le_floor_iff)
qed

section \<open>Running a worker\<close>

text \<open>What a result is: a refusal, or what the watchdog ended with.\<close>

definition base_usage :: "omp \<Rightarrow> string \<Rightarrow> string option \<Rightarrow> disk \<Rightarrow> int \<times> int" where
  "base_usage M run_dir resume k =
     (if resume = None then (0, 0) else unwrap_or (map_option snd (ledger_dir_usage M run_dir k)) (0, 0))"

definition resume_head :: "string option \<Rightarrow> disk \<Rightarrow> (string \<times> string) option" where
  "resume_head resume k = map_option (\<lambda>sf. (sf, first_line (k_files k sf))) resume"

abbreviation watched ::
  "omp \<Rightarrow> config \<Rightarrow> workspace \<Rightarrow> int option \<Rightarrow> int \<Rightarrow> string option \<Rightarrow> omp_process \<Rightarrow> disk \<Rightarrow> disk \<Rightarrow>
   (nat \<times> metering \<times> string option) option" where
  "watched M cfg ws cap max_wall_s resume P k k0 \<equiv>
     watch_worker (polls cfg max_wall_s) M cfg (ws_session ws) (base_usage M (ws_session ws) resume k) cap max_wall_s
       (resume \<noteq> None) P k0 0 unmetered_start"

lemma create_dir_all_files: "wp (create_dir_all p) (\<lambda>_ w'. k_files (w_disk w') = k_files (w_disk w)) w"
  by (simp add: create_dir_all_def wp_disk_call split: option.split)

lemma wp_run_worker:
  fixes Q :: "run_result option \<Rightarrow> bool"
  assumes refused: "\<And>sf why. resume = Some sf \<Longrightarrow> resume_refused (ws_session ws) sf w = Some why \<Longrightarrow>
      Q (Some (resume_unavailable sf why))"
    and unusable: "\<And>out. Q (Some (no_run (Some 127) (Some ''unmetered'') out))"
    and unspawned: "\<And>out d. Q (Some ((no_run (Some 127) None out)\<lparr>rr_duration_s := d\<rparr>))"
    and ran: "\<And>P k0 n. om_spawn M n (worker_argv cfg prompt (ws_session ws) model resume) (worker_env (om_vars M) ws)
        (ws_tree ws) = Inr P \<Longrightarrow> k_files k0 = k_files (w_disk w) \<Longrightarrow>
      (\<And>sf. resume = Some sf \<Longrightarrow> resume_refused (ws_session ws) sf w = None) \<Longrightarrow>
      Q (map_option (\<lambda>(i, m, killed). worker_result M (ws_session ws) (base_usage M (ws_session ws) resume (w_disk w))
           (resume_head resume (w_disk w)) P (op_left P i k0) (i, m, killed))
         (watched M cfg ws cap max_wall_s resume P (w_disk w) k0))"
  shows "wp (run_worker M cfg ws prompt cap max_wall_s model resume) (\<lambda>r _. Q r) w"
proof -
  have run: "wp (watched_run M cfg (ws_session ws) (base_usage M (ws_session ws) resume (w_disk w)) cap max_wall_s
      (resume_head resume (w_disk w)) P) (\<lambda>r _. Q r) w'"
    if "om_spawn M n (worker_argv cfg prompt (ws_session ws) model resume) (worker_env (om_vars M) ws) (ws_tree ws) = Inr P"
      "k_files (w_disk w') = k_files (w_disk w)" "\<And>sf. resume = Some sf \<Longrightarrow> resume_refused (ws_session ws) sf w = None"
    for n P w'
  proof -
    have n: "(resume_head resume (w_disk w) \<noteq> None) = (resume \<noteq> None)" by (simp add: resume_head_def)
    show ?thesis using ran [OF that]
      unfolding watched_run_def wp_def n
      by (cases "watched M cfg ws cap max_wall_s resume P (w_disk w) (w_disk w')") (auto simp: Let_def)
  qed
  have start: "wp (spawned_run M cfg ws (worker_argv cfg prompt (ws_session ws) model resume)
      (base_usage M (ws_session ws) resume (w_disk w)) cap max_wall_s (resume_head resume (w_disk w))) (\<lambda>r _. Q r) w'"
    if "k_files (w_disk w') = k_files (w_disk w)" "\<And>sf. resume = Some sf \<Longrightarrow> resume_refused (ws_session ws) sf w = None" for w'
    unfolding spawned_run_def wp_simps
    by (cases "om_spawn M (w_calls w') (worker_argv cfg prompt (ws_session ws) model resume)
          (worker_env (om_vars M) ws) (ws_tree ws)")
      (auto simp del: append.simps simp: unspawned wp_return intro!: run that)
  have made: "wp (case r of
       Inl e \<Rightarrow> State_Monad.return (Some (no_run (Some 127) (Some ''unmetered'')
                (''session dir '' @ ws_session ws @ '' unusable: '' @ e)))
     | Inr u \<Rightarrow> spawned_run M cfg ws (worker_argv cfg prompt (ws_session ws) model resume)
         (base_usage M (ws_session ws) resume (w_disk w)) cap max_wall_s (resume_head resume (w_disk w))) (\<lambda>r _. Q r) w'"
    if "k_files (w_disk w') = k_files (w_disk w)" "\<And>sf. resume = Some sf \<Longrightarrow> resume_refused (ws_session ws) sf w = None"
    for r :: "string + unit" and w'
    by (cases r) (simp_all del: append.simps add: unusable wp_return start [OF that])
  show ?thesis
  proof (cases "Option.bind resume (\<lambda>sf. map_option (Pair sf) (resume_refused (ws_session ws) sf w))")
    case (Some p)
    then show ?thesis
      by (cases p) (auto simp: run_worker_def wp_bind wp_look wp_return Let_def bind_eq_Some_conv refused)
  next
    case None
    then have "resume = Some sf \<Longrightarrow> resume_refused (ws_session ws) sf w = None" for sf by (cases resume) auto
    then have made_next: "wp (create_dir_all (ws_session ws)) (\<lambda>r w'. wp (case r of
         Inl e \<Rightarrow> State_Monad.return (Some (no_run (Some 127) (Some ''unmetered'')
                  (''session dir '' @ ws_session ws @ '' unusable: '' @ e)))
       | Inr u \<Rightarrow> spawned_run M cfg ws (worker_argv cfg prompt (ws_session ws) model resume)
           (base_usage M (ws_session ws) resume (w_disk w)) cap max_wall_s (resume_head resume (w_disk w))) (\<lambda>r _. Q r) w') w"
      by (intro wp_mono [OF create_dir_all_files] made)
    show ?thesis
      unfolding run_worker_def Let_def wp_bind wp_look None option.case base_usage_def [symmetric] resume_head_def [symmetric]
      by (rule made_next)
  qed
qed

lemma watch_worker_killed:
  "watch_worker n M cfg run_dir base cap max_wall_s resumed P k i m = Some (j, m', killed) \<Longrightarrow>
   (\<exists>m0. m' = meter M run_dir base (op_disk P j k) m0) \<and> poll_once cfg cap max_wall_s resumed P j m' = Some killed"
proof (induction n arbitrary: i m)
  case (Suc n)
  then show ?case by (auto simp: Let_def split: option.splits)
qed simp

lemma drain_tail_end: "drain_tail chunks = drop (length (concat chunks) - TAIL_BYTES) (concat chunks)"
proof (induction chunks rule: rev_induct)
  case Nil
  then show ?case by (simp add: drain_tail_def)
next
  case (snoc c cs)
  have "drain_tail (cs @ [c]) = keep_tail c (drain_tail cs)" by (simp add: drain_tail_def)
  also have "\<dots> = drop (length (concat cs @ c) - TAIL_BYTES) (concat cs @ c)"
    unfolding snoc keep_tail_def by (cases "length (concat cs) \<le> TAIL_BYTES") (auto simp: add.commute)
  finally show ?case by simp
qed

text \<open>C35. The worker runner always comes back with a result. Whatever the worker does to its session, its
disk and its exit, the watchdog ends the run within the polls that fit into the wall-clock limit, because a
poll sleeps at least \<open>poll_s\<close>; no cap is needed for that.\<close>

theorem run_worker_returns:
  assumes "0 < cf_poll_s cfg" "sleeps cfg M"
  shows "\<exists>rr w'. run_state (run_worker M cfg ws prompt cap max_wall_s model resume) w = (Some rr, w')"
proof -
  have "wp (run_worker M cfg ws prompt cap max_wall_s model resume) (\<lambda>r _. r \<noteq> None) w"
    using assms polls_enough by (intro wp_run_worker) (auto simp: sleeps_def)
  then show ?thesis by (auto simp: wp_def split: prod.splits)
qed

section \<open>What a run may be recorded as\<close>

definition metering_ok :: "metering \<Rightarrow> bool" where
  "metering_ok m \<longleftrightarrow> 0 \<le> mt_tokens m \<and> 0 \<le> mt_calls m \<and> (mt_session m = None \<longrightarrow> mt_calls m = 0)"

lemma meter_ok: "metering_ok m \<Longrightarrow> metering_ok (meter M run_dir base k m)"
  by (auto simp: meter_def metering_ok_def split: option.split prod.split)

lemma watch_worker_ok:
  "metering_ok m \<Longrightarrow> watch_worker n M cfg run_dir base cap max_wall_s resumed P k i m = Some (j, m', killed) \<Longrightarrow>
   metering_ok m' \<and> poll_once cfg cap max_wall_s resumed P j m' = Some killed"
proof (induction n arbitrary: i m)
  case (Suc n)
  then show ?case by (auto simp: Let_def split: option.splits intro: meter_ok)
qed simp

lemma worker_result_state:
  fixes M :: omp and run_dir :: string and base :: "int \<times> int" and k :: disk
  assumes "metering_ok m" "poll_once cfg cap max_wall_s (resume \<noteq> None) P i m = Some killed"
  defines "rr \<equiv> worker_result M run_dir base resume P k (i, m, killed)"
  shows "job_state rr = JDone \<Longrightarrow> rr_killed_reason rr = None \<and> rr_session_file rr \<noteq> None \<and>
      (resume \<noteq> None \<longrightarrow> 0 < rr_calls rr)"
    and "rr_killed_reason rr = Some ''cap'' \<Longrightarrow> cap \<noteq> None"
    and "0 \<le> rr_tokens_new rr"
proof -
  define m' where "m' = meter M run_dir (if case resume of Some (sf, head) \<Rightarrow> first_line (k_files k sf) \<noteq> head
      | None \<Rightarrow> False then (0, 0) else base) k m"
  have ok: "metering_ok m'" unfolding m'_def by (rule meter_ok) fact
  have rr: "rr_killed_reason rr = (if unmetered (resume \<noteq> None) m' \<and> killed = None then Some ''unmetered'' else killed)"
    "rr_session_file rr = mt_session m'" "rr_calls rr = mt_calls m'" "rr_tokens_new rr = mt_tokens m'"
    unfolding rr_def worker_result_def m'_def by (simp_all add: Let_def)
  show "rr_killed_reason rr = None \<and> rr_session_file rr \<noteq> None \<and> (resume \<noteq> None \<longrightarrow> 0 < rr_calls rr)"
    if "job_state rr = JDone"
  proof -
    have "rr_killed_reason rr = None" using that by (auto simp: job_state_def split: option.splits if_splits)
    then show ?thesis using ok by (auto simp: rr unmetered_def metering_ok_def split: if_splits)
  qed
  show "cap \<noteq> None" if "rr_killed_reason rr = Some ''cap''"
    using that assms(2) by (auto simp: rr poll_once_def cap_reached_def split: if_splits option.splits)
  show "0 \<le> rr_tokens_new rr" using ok by (simp add: rr metering_ok_def)
qed

lemma unmetered_start_ok: "metering_ok unmetered_start"
  by (simp add: metering_ok_def unmetered_start_def)

lemma not_started:
  "job_state (resume_unavailable sf why) = JFailed"
  "job_state (no_run (Some 127) (Some ''unmetered'') out) = JKilled"
  "job_state ((no_run (Some 127) None out)\<lparr>rr_duration_s := d\<rparr>) = JFailed"
  by (simp_all add: resume_unavailable_def no_run_def job_state_def)

lemma done_exit: "job_state rr = JDone \<Longrightarrow> rr_exit_code rr = Some 0"
  by (simp add: job_state_def split: option.splits if_splits)

lemma suspended_session: "job_state rr = JSuspended \<Longrightarrow> rr_session_file rr \<noteq> None"
  by (simp add: job_state_def split: option.splits if_splits)

text \<open>C10. A run is recorded as done only if its worker left by itself and its spend was metered: a session
ledger exists and, on a resume, this attempt recorded at least one call. A run without a token bound is never
killed for one, a suspended run has a session to resume, and no run is billed a negative amount.\<close>

theorem recorded_done_was_metered:
  assumes "run_state (run_worker M cfg ws prompt cap max_wall_s model resume) w = (Some rr, w')"
  shows "(job_state rr = JDone \<longrightarrow> rr_exit_code rr = Some 0 \<and> rr_killed_reason rr = None \<and> rr_session_file rr \<noteq> None \<and>
            (resume \<noteq> None \<longrightarrow> 0 < rr_calls rr)) \<and>
         (job_state rr = JSuspended \<longrightarrow> rr_session_file rr \<noteq> None) \<and>
         (rr_killed_reason rr = Some ''cap'' \<longrightarrow> cap \<noteq> None) \<and> 0 \<le> rr_tokens_new rr"
proof -
  let ?Q = "\<lambda>rr. (job_state rr = JDone \<longrightarrow> rr_killed_reason rr = None \<and> rr_session_file rr \<noteq> None \<and>
      (resume \<noteq> None \<longrightarrow> 0 < rr_calls rr)) \<and> (rr_killed_reason rr = Some ''cap'' \<longrightarrow> cap \<noteq> None) \<and> 0 \<le> rr_tokens_new rr"
  have "wp (run_worker M cfg ws prompt cap max_wall_s model resume) (\<lambda>r _. \<forall>rr. r = Some rr \<longrightarrow> ?Q rr) w"
  proof (rule wp_run_worker, goal_cases)
    case (4 P k0 n)
    have n: "(resume_head resume (w_disk w) \<noteq> None) = (resume \<noteq> None)" by (simp add: resume_head_def)
    show ?case
    proof (cases "watched M cfg ws cap max_wall_s resume P (w_disk w) k0")
      case (Some x)
      obtain i m killed where x: "x = (i, m, killed)" by (cases x)
      note ended = watch_worker_ok [OF unmetered_start_ok Some [unfolded x]]
      note result = worker_result_state [OF ended [THEN conjunct1] ended [THEN conjunct2, folded n], unfolded n]
      show ?thesis unfolding Some x option.map prod.case option.inject using result by simp
    qed simp
  qed (simp_all add: not_started, simp_all add: resume_unavailable_def no_run_def)
  then have "?Q rr" using wp_run [OF _ assms] by blast
  then show ?thesis using done_exit suspended_session by blast
qed

section \<open>What a resumed run pays for\<close>

lemma lines_append:
  assumes "ends_with [CHR 0x0A] a"
  shows "lines (a @ b) = lines a @ lines b"
proof -
  obtain a' where a: "a = a' @ [CHR 0x0A]" using assms by (auto simp: ends_with_iff)
  have "split_on (CHR 0x0A) (a @ b) = split_on (CHR 0x0A) a' @ split_on (CHR 0x0A) b"
    "split_on (CHR 0x0A) a = split_on (CHR 0x0A) a' @ [[]]"
    using split_on_append [of "CHR 0x0A" a' b] split_on_append [of "CHR 0x0A" a' "[]"] by (simp_all add: a)
  then show ?thesis by (simp add: lines_def Let_def butlast_append)
qed

lemma usages_append: "ends_with [CHR 0x0A] a \<Longrightarrow> usages parse (a @ b) = usages parse a @ usages parse b"
  by (simp add: usages_def lines_append List.map_filter_def)

lemma first_line_append:
  assumes "ends_with [CHR 0x0A] a"
  shows "first_line (Some (a @ b)) = first_line (Some a)"
proof -
  obtain a' where "a = a' @ [CHR 0x0A]" using assms by (auto simp: ends_with_iff)
  then have "CHR 0x0A \<in> set a" by simp
  then show ?thesis
    unfolding first_line_def option.case by (induction a) auto
qed

text \<open>The usage of a directory that holds one ledger.\<close>

lemma one_ledger:
  assumes "om_ls M k run_dir = Some [sf]" "is_jsonl sf" "k_files k sf = Some text"
  shows "ledger_dir_usage M run_dir k =
    Some (sf, sum_list (map new_tokens (usages (om_json M) text)), int (length (usages (om_json M) text)))"
  using assms by (simp add: ledger_dir_usage_def ledger_usage_def Let_def)

text \<open>C36. A resumed run pays for exactly the records it added. When the worker appended to the transcript it
was told to continue, the records that were there before are not billed again; when it replaced the
transcript by a fresh session, all of the new one is billed and the output says that the resume was lost.\<close>

theorem resume_bills_only_new:
  assumes listing: "\<And>k. om_ls M k (ws_session ws) = Some [sf]" "is_jsonl sf"
    and before: "k_files (w_disk w) sf = Some old" "ends_with [CHR 0x0A] old"
    and after: "\<And>n argv env P i k. om_spawn M n argv env (ws_tree ws) = Inr P \<Longrightarrow> k_files (op_left P i k) sf = Some text"
    and wrote: "text = old @ new \<or> text = new \<and> first_line (Some new) \<noteq> first_line (Some old)"
    and run: "run_state (run_worker M cfg ws prompt cap max_wall_s model (Some sf)) w = (Some rr, w')"
    and started: "rr_session_file rr \<noteq> None"
  shows "rr_tokens_new rr = max 0 (sum_list (map new_tokens (usages (om_json M) new))) \<and>
    rr_calls rr = int (length (usages (om_json M) new)) \<and>
    (text \<noteq> old @ new \<longrightarrow> starts_with ''[resume-lost] '' (rr_stdout_tail rr))"
proof -
  let ?Q = "\<lambda>rr. rr_session_file rr \<noteq> None \<longrightarrow>
    rr_tokens_new rr = max 0 (sum_list (map new_tokens (usages (om_json M) new))) \<and>
    rr_calls rr = int (length (usages (om_json M) new)) \<and>
    (text \<noteq> old @ new \<longrightarrow> starts_with ''[resume-lost] '' (rr_stdout_tail rr))"
  have "wp (run_worker M cfg ws prompt cap max_wall_s model (Some sf)) (\<lambda>r _. \<forall>rr. r = Some rr \<longrightarrow> ?Q rr) w"
  proof (rule wp_run_worker, goal_cases)
    case (4 P k0 n)
    have base: "base_usage M (ws_session ws) (Some sf) (w_disk w) =
        (sum_list (map new_tokens (usages (om_json M) old)), int (length (usages (om_json M) old)))"
      by (simp add: base_usage_def one_ledger [OF listing before(1)] unwrap_or_def)
    have head: "resume_head (Some sf) (w_disk w) = Some (sf, first_line (Some old))"
      by (simp add: resume_head_def before(1))
    note left = after [OF 4(1)]
    have "?Q (worker_result M (ws_session ws) (base_usage M (ws_session ws) (Some sf) (w_disk w))
        (resume_head (Some sf) (w_disk w)) P (op_left P i k0) (i, m, killed))" for i m killed
      using wrote unfolding worker_result_def Let_def prod.case base head option.case left meter_def
        one_ledger [OF listing left]
      by (auto simp: first_line_append [OF before(2)] usages_append [OF before(2)] starts_with_iff)
    then show ?case by (auto split: option.split)
  qed (simp_all add: resume_unavailable_def no_run_def)
  then show ?thesis using wp_run [OF _ run] started by blast
qed

section \<open>Example runs\<close>

text \<open>A worker that leaves at once, its session file holding the given text.\<close>

definition call_record :: json where
  "call_record = JObject [(''message'', JObject [(''role'', JString ''assistant''),
     (''usage'', JObject [(''input'', JInt 7), (''output'', JInt 2)])])]"

definition demo_process :: "string \<Rightarrow> omp_process" where
  "demo_process text =
     (let wrote = (\<lambda>_ k. k\<lparr>k_files := (k_files k)(''/s/a.jsonl'' \<mapsto> text)\<rparr>)
      in \<lparr>op_exited = (\<lambda>_. True), op_disk = wrote, op_grace_clock = rat_of_nat, op_wall_clock = rat_of_nat, op_left = wrote,
          op_exit_code = (\<lambda>_. Some 0), op_stdout = (\<lambda>_. []), op_stderr = (\<lambda>_. []), op_duration = (\<lambda>_. 3)\<rparr>)"

definition demo_omp :: "string \<Rightarrow> omp" where
  "demo_omp text = \<lparr>om_json = (\<lambda>_. Inr call_record), om_ls = (\<lambda>_ _. Some [''/s/a.jsonl'']), om_vars = [],
     om_spawn = (\<lambda>_ _ _ _. Inr (demo_process text))\<rparr>"

definition demo_workspace :: workspace where
  "demo_workspace = \<lparr>ws_origin_id = 1, ws_root = ''/j'', ws_tree = ''/j/tree'', ws_session = ''/s'', ws_clone = ''/c''\<rparr>"

definition old_session :: world where
  "old_session = (quiet 5 empty_db)\<lparr>w_disk := \<lparr>k_files = [''/s/a.jsonl'' \<mapsto> [CHR ''x'', CHR 0x0A]], k_dirs = [''/s''],
     k_mtime = Map.empty\<rparr>\<rparr>"

definition both_calls :: string where
  "both_calls = [CHR ''x'', CHR 0x0A, CHR ''y'', CHR 0x0A]"

theorem run_worker_returns_witness:
  "\<exists>rr w'. run_state (run_worker (demo_omp both_calls) (sample_config\<lparr>cf_poll_s := 1\<rparr>) demo_workspace ''go'' None 60 None None)
     old_session = (Some rr, w')"
  by (rule run_worker_returns)
    (auto simp: sleeps_def demo_omp_def demo_process_def Let_def)

lemma demo_ledger: "is_jsonl ''/s/a.jsonl''"
  by code_simp

lemma demo_usages:
  "usages (om_json (demo_omp t)) [CHR ''y'', CHR 0x0A] = [JObject [(''input'', JInt 7), (''output'', JInt 2)]]"
  "usages (om_json (demo_omp t)) both_calls =
     [JObject [(''input'', JInt 7), (''output'', JInt 2)], JObject [(''input'', JInt 7), (''output'', JInt 2)]]"
  by (simp_all add: usages_def both_calls_def lines_def Let_def strip_cr_def is_utf8_ascii byte_def
      assistant_usage_def demo_omp_def call_record_def str_field_def List.map_filter_simps)

lemma demo_tokens: "new_tokens (JObject [(''input'', JInt 7), (''output'', JInt 2)]) = 9"
  by (simp add: new_tokens_def usage_field_def in_i64_def i64_min_def i64_max_def unwrap_or_def)

lemma demo_process_simps:
  "op_exited (demo_process t) i" "op_exit_code (demo_process t) i = Some 0"
  "op_left (demo_process t) i k = k\<lparr>k_files := (k_files k)(''/s/a.jsonl'' \<mapsto> t)\<rparr>"
  "op_disk (demo_process t) i k = k\<lparr>k_files := (k_files k)(''/s/a.jsonl'' \<mapsto> t)\<rparr>"
  by (simp_all add: demo_process_def Let_def)

lemma demo_dir:
  "k_files k ''/s/a.jsonl'' = Some text \<Longrightarrow> ledger_dir_usage (demo_omp t) run_dir k =
     Some (''/s/a.jsonl'', sum_list (map new_tokens (usages (om_json (demo_omp t)) text)),
           int (length (usages (om_json (demo_omp t)) text)))"
  by (rule one_ledger) (simp_all add: demo_omp_def demo_ledger)

lemma demo_watched:
  "watch_worker (Suc n) M cfg run_dir base None max_wall_s resumed (demo_process text) k 0 unmetered_start =
     Some (0, meter M run_dir base (k\<lparr>k_files := (k_files k)(''/s/a.jsonl'' \<mapsto> text)\<rparr>) unmetered_start, None)"
  by (simp add: Let_def poll_once_def demo_process_simps)

lemma demo_watched_run:
  "wp (watched_run (demo_omp text) cfg run_dir base None max_wall_s resume (demo_process text)) Q w =
     (let k = (w_disk w)\<lparr>k_files := (k_files (w_disk w))(''/s/a.jsonl'' \<mapsto> text)\<rparr>
      in Q (Some (worker_result (demo_omp text) run_dir base resume (demo_process text) k
              (0, meter (demo_omp text) run_dir base k unmetered_start, None)))
           (w\<lparr>w_calls := Suc (w_calls w), w_disk := k\<rparr>))"
  unfolding watched_run_def wp_def polls_def demo_watched Let_def by (simp add: demo_process_simps)

lemma demo_spawn: "om_spawn (demo_omp t) n argv env cwd = Inr (demo_process t)"
  by (simp add: demo_omp_def)

lemmas demo_runs = run_worker_def spawned_run_def wp_simps create_dir_all_def old_session_def resume_refused_def is_dir_def
  demo_spawn demo_watched_run Let_def demo_workspace_def worker_result_def meter_def demo_dir unmetered_def unwrap_or_def
  first_line_def

lemma demo_cold_run:
  "wp (run_worker (demo_omp both_calls) cfg demo_workspace ''go'' None 60 None None)
     (\<lambda>r _. \<exists>rr. r = Some rr \<and> job_state rr = JDone \<and> rr_tokens_new rr = 18) old_session"
  by (simp add: demo_runs demo_usages demo_tokens job_state_def demo_process_simps)

lemma demo_resumed_run:
  "wp (run_worker (demo_omp both_calls) cfg demo_workspace ''go'' None 60 None (Some ''/s/a.jsonl''))
     (\<lambda>r _. \<exists>rr. r = Some rr \<and> rr_session_file rr \<noteq> None) old_session"
  by (simp add: demo_runs demo_usages demo_tokens job_state_def demo_process_simps both_calls_def)

theorem recorded_done_was_metered_witness:
  "\<exists>rr w'. run_state (run_worker (demo_omp both_calls) sample_config demo_workspace ''go'' None 60 None None) old_session =
      (Some rr, w') \<and> rr_session_file rr \<noteq> None"
proof -
  obtain r w' where run: "run_state (run_worker (demo_omp both_calls) sample_config demo_workspace ''go'' None 60 None None)
      old_session = (r, w')" by fastforce
  with demo_cold_run [of sample_config] obtain rr where "r = Some rr" "job_state rr = JDone"
    by (auto simp: wp_def)
  then show ?thesis using run recorded_done_was_metered [OF run [unfolded \<open>r = Some rr\<close>]] by blast
qed

theorem resume_bills_only_new_witness:
  "\<exists>rr w'. run_state (run_worker (demo_omp both_calls) sample_config demo_workspace ''go'' None 60 None
      (Some ''/s/a.jsonl'')) old_session = (Some rr, w') \<and> rr_tokens_new rr = 9 \<and> rr_calls rr = 1"
proof -
  obtain r w' where run: "run_state (run_worker (demo_omp both_calls) sample_config demo_workspace ''go'' None 60 None
      (Some ''/s/a.jsonl'')) old_session = (r, w')" by fastforce
  with demo_resumed_run [of sample_config] obtain rr where rr: "r = Some rr" "rr_session_file rr \<noteq> None"
    by (auto simp: wp_def)
  have "rr_tokens_new rr = max 0 (sum_list (map new_tokens (usages (om_json (demo_omp both_calls)) [CHR ''y'', CHR 0x0A]))) \<and>
      rr_calls rr = int (length (usages (om_json (demo_omp both_calls)) [CHR ''y'', CHR 0x0A])) \<and>
      (both_calls \<noteq> [CHR ''x'', CHR 0x0A] @ [CHR ''y'', CHR 0x0A] \<longrightarrow> starts_with ''[resume-lost] '' (rr_stdout_tail rr))"
    by (rule resume_bills_only_new [OF _ demo_ledger _ _ _ _ run [unfolded rr(1)] rr(2)])
      (auto simp: demo_omp_def demo_process_simps old_session_def both_calls_def ends_with_iff)
  then show ?thesis using run rr(1) by (auto simp: demo_usages demo_tokens)
qed

end
