(* ===== verification/Backend.thy ===== *)
theory Backend
  imports Watchdog Budget StoreLedger
begin

text \<open>
The backend the scheduler sees (\<open>backend.rs\<close>, and the trait's implementation in \<open>facade.rs\<close>): deciding
whether a job may spend, keeping the usage mirror fresh, and running a worker, with the null backend and the
overdrive switch around another backend.

The usage mirror is omp's own database: what it holds at the n-th effect is a parameter, as the calendar's
month lengths are (see \<open>Quota\<close>). The ledger's answers to one decision are read as one store call. The
status page is in \<open>Status\<close>.
\<close>

record backend =
  bk_decide :: "int \<Rightarrow> outlook io"
  bk_keep_fresh :: "bool io"
  bk_run :: "workspace \<Rightarrow> string \<Rightarrow> int option \<Rightarrow> int \<Rightarrow> job_class \<Rightarrow> string option \<Rightarrow> run_result io"

text \<open>What the scheduler relies on besides: a backend leaves a view of the database alone.\<close>

locale quiet_backend =
  fixes B :: backend and h :: "db \<Rightarrow> 'v"
  assumes decide_keeps: "keeps h (bk_decide B n)"
    and run_keeps: "keeps h (bk_run B ws prompt cap max_wall_s class resume)"

section \<open>The null backend and the overdrive switch\<close>

definition null_backend :: backend where
  "null_backend = \<lparr>bk_decide = (\<lambda>n. ok (null_decide n)), bk_keep_fresh = ok False,
     bk_run = (\<lambda>_ _ _ _ _ _. err ''NullBackend cannot run workers'')\<rparr>"

definition overdrive_backend :: "bool \<Rightarrow> backend \<Rightarrow> backend" where
  "overdrive_backend enabled inner =
     inner\<lparr>bk_decide := (\<lambda>n. and_then (bk_decide inner n) (\<lambda>out. ok (overdrive_decide enabled out)))\<rparr>"

interpretation null: quiet_backend null_backend h for h :: "db \<Rightarrow> 'v"
  by unfold_locales (simp_all add: null_backend_def keeps_intros)

context quiet_backend
begin

lemma overdrive_quiet: "quiet_backend (overdrive_backend enabled B) h"
  by unfold_locales (auto simp: overdrive_backend_def intro!: keeps_intros decide_keeps run_keeps)

end

section \<open>The omp backend\<close>

record 'raw mirror =
  mi_rows :: "nat \<Rightarrow> ('raw list) option"
  mi_decode :: "'raw \<Rightarrow> usage_row option"
  mi_month_length :: "millis \<Rightarrow> millis option"
  mi_month_start :: "millis \<Rightarrow> millis"

definition mirror_windows :: "'raw mirror \<Rightarrow> llm_provider \<Rightarrow> world \<Rightarrow> windows" where
  "mirror_windows U p w = read_windows (mi_decode U) p (w_now w (w_calls w)) (mi_rows U (w_calls w))"

definition omp_decide :: "'raw mirror \<Rightarrow> config \<Rightarrow> int \<Rightarrow> outlook io" where
  "omp_decide U cfg anticipated =
     (let p = cf_llm_provider cfg
      in do {
        now \<leftarrow> look (\<lambda>w. w_now w (w_calls w));
        wins \<leftarrow> look (mirror_windows U p);
        (case find (\<lambda>w. is_missing w wins now) (q_windows (provider_quota p)) of
           Some missing \<Rightarrow>
             (let denied = Denied (UnknownWindow (qw_limit_id missing)) None
              in ok \<lparr>normal = denied, prioritized = denied\<rparr>)
         | None \<Rightarrow>
             and_then (call (\<lambda>t d. (store_ledger (mi_month_start U) t d, d))) (\<lambda>L.
               ok (decide_with_windows (mi_month_length U) L p wins anticipated now))) })"

fun observe_windows :: "'raw mirror \<Rightarrow> llm_provider \<Rightarrow> millis \<Rightarrow> windows \<Rightarrow> unit io" where
  "observe_windows U p now [] = ok ()"
| "observe_windows U p now (w # ws) =
     and_then (exec (\<lambda>_. observe_one (mi_month_length U) (provider_quota p) now w)) (\<lambda>_.
       observe_windows U p now ws)"

definition omp_keep_fresh :: "'raw mirror \<Rightarrow> config \<Rightarrow> bool io" where
  "omp_keep_fresh U cfg =
     (let p = cf_llm_provider cfg
      in do {
        wins \<leftarrow> look (mirror_windows U p);
        now \<leftarrow> look (\<lambda>w. w_now w (w_calls w));
        and_then (observe_windows U p now wins) (\<lambda>_.
          if is_fresh p (cf_stale_after_s cfg) wins then ok False
          else do {
            _ \<leftarrow> shell [cf_omp_bin cfg, ''usage'', ''invalidate'', ''--provider'', provider_name p];
            (rc, _) \<leftarrow> shell [cf_omp_bin cfg, ''usage'', ''--provider'', provider_name p];
            ok (rc = 0) }) })"

text \<open>The watchdog always ends (\<open>run_worker_returns\<close>): its last case is never taken.\<close>

definition omp_run ::
  "omp \<Rightarrow> 'raw mirror \<Rightarrow> config \<Rightarrow> workspace \<Rightarrow> string \<Rightarrow> int option \<Rightarrow> int \<Rightarrow> job_class \<Rightarrow> string option \<Rightarrow> run_result io" where
  "omp_run M U cfg ws prompt cap max_wall_s class resume =
     (let p = cf_llm_provider cfg
      in do {
        pre \<leftarrow> look (\<lambda>w. usage_snapshot p (mirror_windows U p w));
        rr \<leftarrow> run_worker M cfg ws prompt cap max_wall_s (model_for cfg (job_class_str class)) resume;
        post \<leftarrow> look (\<lambda>w. usage_snapshot p (mirror_windows U p w));
        (case rr of
           Some r \<Rightarrow> ok (r\<lparr>rr_usage_delta := usage_delta pre post\<rparr>)
         | None \<Rightarrow> err []) })"

definition omp_backend :: "omp \<Rightarrow> 'raw mirror \<Rightarrow> config \<Rightarrow> backend" where
  "omp_backend M U cfg = \<lparr>bk_decide = omp_decide U cfg, bk_keep_fresh = omp_keep_fresh U cfg, bk_run = omp_run M U cfg\<rparr>"

lemma keeps_watched_run [keeps_intros]: "keeps h (watched_run M cfg run_dir base cap max_wall_s resume P)"
  by (auto simp: keeps_def watched_run_def Let_def split: option.split)

lemma keeps_create_dir_all [keeps_intros]: "keeps h (create_dir_all p)"
  unfolding create_dir_all_def by (rule keeps_disk_call)

lemma keeps_run_worker [keeps_intros]: "keeps h (run_worker M cfg ws prompt cap max_wall_s model resume)"
  unfolding run_worker_def spawned_run_def Let_def by (intro keeps_intros)

interpretation omp: quiet_backend "omp_backend M U cfg" h for M and U :: "'raw mirror" and cfg and h :: "db \<Rightarrow> 'v"
  by unfold_locales
    (auto simp: omp_backend_def omp_decide_def omp_run_def Let_def intro!: keeps_intros keeps_call split: option.split)

interpretation overdriven: quiet_backend "overdrive_backend enabled (omp_backend M U cfg)" h
  for enabled M and U :: "'raw mirror" and cfg and h :: "db \<Rightarrow> 'v"
  by (rule omp.overdrive_quiet)

end
