(* ===== verification/Executor.thy ===== *)
theory Executor
  imports Workspace Backend Suppress Forge
begin

text \<open>
What every executor of \<open>scheduler.rs\<close> starts with: bringing the clone up to date (\<open>sync_repo\<close>) and
asking the backend for the budget (\<open>budget_gate\<close>). What the executors are given besides the store is the record
\<open>env\<close>: the backend, the text of a verdict's reason, and the readers and writers of JSON.
\<close>

record env =
  ev_backend :: backend
  ev_reason :: "reason \<Rightarrow> string"

definition RESUME_PROMPT :: string where
  "RESUME_PROMPT = ''Continue the work you were doing in this session. You were interrupted; '' @
     ''pick up where you left off.''"

section \<open>The clone\<close>

definition sync_failed :: "string \<Rightarrow> string \<Rightarrow> int option \<Rightarrow> unit io" where
  "sync_failed log_prefix msg finding_id = do {
     _ \<leftarrow> event ''error'' (log_prefix @ '': '' @ msg) None finding_id;
     err msg
   }"

definition same_clone :: "string \<Rightarrow> string \<Rightarrow> string \<Rightarrow> int option \<Rightarrow> unit io" where
  "same_clone repo_url rpath log_prefix finding_id = do {
     (rc, out) \<leftarrow> git [''git'', ''-C'', rpath, ''config'', ''--get'', ''remote.origin.url''];
     let origin = trim out;
     (if rc \<noteq> 0 \<or> origin \<noteq> repo_url
      then sync_failed log_prefix (rpath @ '' exists but its origin is '' @ (if rc = 0 then origin else ''unreadable'') @
             '' -- expected '' @ repo_url @ ''; refusing to work in a clone of a different repository'') finding_id
      else ok ())
   }"

definition make_clone :: "string \<Rightarrow> string \<Rightarrow> string \<Rightarrow> int option \<Rightarrow> unit io" where
  "make_clone repo_url rpath log_prefix finding_id = do {
     _ \<leftarrow> (case parent_dir rpath of Some dir \<Rightarrow> ignore (create_dir_all dir) | None \<Rightarrow> State_Monad.return ());
     (rc, out) \<leftarrow> git [''git'', ''clone'', ''--'', repo_url, rpath];
     (if rc \<noteq> 0 then sync_failed log_prefix (''clone failed: '' @ tail out 300) finding_id else ok ())
   }"

definition sync_repo :: "string \<Rightarrow> string \<Rightarrow> string \<Rightarrow> int option \<Rightarrow> unit io" where
  "sync_repo repo_url rpath log_prefix finding_id = do {
     there \<leftarrow> look (\<lambda>w. path_exists w rpath);
     and_then (if there then same_clone repo_url rpath log_prefix finding_id
               else make_clone repo_url rpath log_prefix finding_id) (\<lambda>_. do {
       (rc, out) \<leftarrow> git [''git'', ''-C'', rpath, ''fetch'', ''origin''];
       (if rc \<noteq> 0 then sync_failed log_prefix (''git fetch origin failed: '' @ tail out 300) finding_id else ok ()) })
   }"

section \<open>The budget\<close>

definition reserved_for :: "config \<Rightarrow> int \<Rightarrow> job_kind \<Rightarrow> resume_plan option \<Rightarrow> int act" where
  "reserved_for cfg repo_id kind resume =
     (case resume of
        Some plan \<Rightarrow> State_Monad.return (rp_anticipated plan)
      | None \<Rightarrow> do {
          history \<leftarrow> anticipated_tokens cfg repo_id kind;
          State_Monad.return (cold_reservation (result_or history 0)) })"

text \<open>Denied, or the cap and the reservation the job is granted.\<close>

definition budget_gate ::
  "env \<Rightarrow> config \<Rightarrow> int \<Rightarrow> job_kind \<Rightarrow> bool \<Rightarrow> string \<Rightarrow> int option \<Rightarrow> resume_plan option \<Rightarrow>
   (cycle_summary + int option \<times> int) io" where
  "budget_gate E cfg repo_id kind use_override log_prefix finding_id resume = do {
     anticipated \<leftarrow> reserved_for cfg repo_id kind resume;
     and_then (bk_decide (ev_backend E) anticipated) (\<lambda>outlook.
       case if use_override then prioritized outlook else normal outlook of
         Denied reason retry \<Rightarrow> do {
           _ \<leftarrow> event ''deny'' (log_prefix @ '': '' @ ev_reason E reason) None finding_id;
           ok (Inl (no_summary\<lparr>cs_kind := Some kind, cs_denied := Some (ev_reason E reason),
                  cs_retry_at := map_option trunc_i64 retry\<rparr>)) }
       | Granted cap _ \<Rightarrow> ok (Inr (cap, anticipated)))
   }"

section \<open>Reports\<close>

text \<open>A worker's report file, whatever bytes it holds.\<close>

definition read_report :: "string \<Rightarrow> string io" where
  "read_report p = and_then (read_file p) (\<lambda>text. ok (utf8_lossy text))"

end
