(* ===== verification/Calendar.thy ===== *)
theory Calendar
  imports Prelude
begin

text \<open>
Dates: the civil calendar in both directions (\<open>civil_from_days\<close> of \<open>store.rs\<close>, \<open>civil_to_days\<close> of
\<open>scheduler.rs\<close>, both Hinnant's), the UTC stamps of repository notes and the forge timestamps
\<open>iso_ms\<close> reads. 64-bit arithmetic is written out where a text can make it wrap; 32-bit sums likewise.
\<close>

section \<open>Days and dates\<close>

definition civil_from_days :: "int \<Rightarrow> int \<times> int \<times> int" where
  "civil_from_days days =
     (let z = days + 719468;
          era = (if 0 \<le> z then z div 146097 else - ((146096 - z) div 146097));
          doe = z - era * 146097;
          yoe = (doe - doe div 1460 + doe div 36524 - doe div 146096) div 365;
          doy = doe - (365 * yoe + yoe div 4 - yoe div 100);
          mp = (5 * doy + 2) div 153;
          d = doy - (153 * mp + 2) div 5 + 1;
          m = (if mp < 10 then mp + 3 else mp - 9)
      in (yoe + era * 400 + (if m \<le> 2 then 1 else 0), m, d))"

definition wrap_u32 :: "int \<Rightarrow> int" where
  "wrap_u32 x = x mod 2 ^ 32"

definition wrap_i64 :: "int \<Rightarrow> int" where
  "wrap_i64 x = (x + 2 ^ 63) mod 2 ^ 64 - 2 ^ 63"

definition civil_to_days :: "int \<Rightarrow> int \<Rightarrow> int \<Rightarrow> int" where
  "civil_to_days year m d =
     (let y = (if m \<le> 2 then year - 1 else year);
          era = y div 400;
          yoe = y mod 400;
          doy = wrap_u32 (wrap_u32 (153 * (if 2 < m then m - 3 else m + 9) + 2) div 5 + d - 1);
          doe = wrap_u32 (yoe * 365 + yoe div 4 - yoe div 100 + doy)
      in era * 146097 + doe - 719468)"

text \<open>\<open>{n:04}\<close> and \<open>{n:02}\<close>\<close>

definition padded :: "nat \<Rightarrow> int \<Rightarrow> string" where
  "padded width n = (let s = show_int n in replicate (width - length s) (CHR ''0'') @ s)"

definition utc_date_time :: "int \<Rightarrow> string \<times> string" where
  "utc_date_time secs =
     (let (y, m, d) = civil_from_days (secs div 86400);
          tod = secs mod 86400
      in (padded 4 y @ ''-'' @ padded 2 m @ ''-'' @ padded 2 d,
          padded 2 (tod div 3600) @ '':'' @ padded 2 ((tod mod 3600) div 60)))"

section \<open>Forge timestamps\<close>

definition parse_tz_offset :: "string \<Rightarrow> int" where
  "parse_tz_offset tz =
     (let parts = split_on (CHR '':'') tz;
          n = (\<lambda>i. if i < length parts then unwrap_or (parse_i64 (parts ! i)) 0 else 0)
      in n 0 * 3600 + n 1 * 60)"

text \<open>\<open>rfind\<close> of a character, and the split there.\<close>

definition rsplit_at :: "char \<Rightarrow> nat \<Rightarrow> string \<Rightarrow> (string \<times> string) option" where
  "rsplit_at c least ts =
     (case rsplit_once [c] ts of Some (a, b) \<Rightarrow> if least \<le> length a then Some (a, b) else None | None \<Rightarrow> None)"

definition split_zone :: "string \<Rightarrow> string \<times> int" where
  "split_zone ts =
     (case rsplit_at (CHR ''Z'') 0 ts of
        Some (a, _) \<Rightarrow> (a, 0)
      | None \<Rightarrow>
          (case rsplit_at (CHR ''+'') 11 ts of
             Some (a, tz) \<Rightarrow> (a, parse_tz_offset tz)
           | None \<Rightarrow>
               (case rsplit_at (CHR ''-'') 11 ts of
                  Some (a, tz) \<Rightarrow> (a, - parse_tz_offset tz)
                | None \<Rightarrow> (ts, 0))))"

definition frac_ms :: "string option \<Rightarrow> int" where
  "frac_ms part =
     (case part of
        None \<Rightarrow> 0
      | Some f \<Rightarrow>
          (let digits = min (length f) 3;
               at_boundary = digits = length f \<or> \<not> is_cont_byte (f ! digits);
               n = unwrap_or (parse_i64 (if at_boundary then take digits f else [])) 0
           in n * 10 ^ (3 - digits)))"

definition iso_ms :: "string \<Rightarrow> int" where
  "iso_ms ts =
     (if ts = [] then 0
      else
        (let (date_time, tz_secs) = split_zone ts
         in case split_once ''T'' date_time of
              None \<Rightarrow> 0
            | Some (date, time_full) \<Rightarrow>
                (let (hms_text, frac_text) =
                       (case split_once ''.'' time_full of Some (a, b) \<Rightarrow> (a, Some b) | None \<Rightarrow> (time_full, None))
                 in case (split_on (CHR ''-'') date, split_on (CHR '':'') hms_text) of
                      ([y, mo, d], [h, mi, s]) \<Rightarrow>
                        (case (parse_i64 y, parse_u32 mo, parse_u32 d, parse_i64 h, parse_i64 mi, parse_i64 s) of
                           (Some y, Some mo, Some d, Some h, Some mi, Some s) \<Rightarrow>
                             wrap_i64 ((civil_to_days y mo d * 86400 + h * 3600 + mi * 60 + s - tz_secs) * 1000 +
                                       frac_ms frac_text)
                         | _ \<Rightarrow> 0)
                    | _ \<Rightarrow> 0)))"

section \<open>The civil calendar round trip\<close>

definition yoe_of :: "int \<Rightarrow> int" where
  "yoe_of doe = (doe - doe div 1460 + doe div 36524 - doe div 146096) div 365"

lemma day_of_era_split:
  fixes doe :: int
  assumes "0 \<le> doe" "doe < 146096"
  obtains c t u where "doe = 36524 * c + 1461 * t + u" "0 \<le> c" "c \<le> 3" "0 \<le> t" "t \<le> 24" "0 \<le> u" "u \<le> 1460"
    "1461 * t + u < 36524"
proof
  let ?s = "doe mod 36524"
  show "doe = 36524 * (doe div 36524) + 1461 * (?s div 1461) + ?s mod 1461" by simp
  show "0 \<le> doe div 36524" "doe div 36524 \<le> 3" "0 \<le> ?s div 1461" "?s div 1461 \<le> 24" "0 \<le> ?s mod 1461" "?s mod 1461 \<le> 1460"
    using assms by (simp_all add: zdiv_mono1 [of _ _ 1461, where a = "doe mod 36524" and a' = 36523, simplified] pos_imp_zdiv_nonneg_iff)
  show "1461 * (?s div 1461) + ?s mod 1461 < 36524" by simp
qed

lemma year_of_era:
  assumes "0 \<le> doe" "doe < 146097"
  shows "0 \<le> yoe_of doe \<and> yoe_of doe \<le> 399 \<and>
    0 \<le> doe - (365 * yoe_of doe + yoe_of doe div 4 - yoe_of doe div 100) \<and>
    doe - (365 * yoe_of doe + yoe_of doe div 4 - yoe_of doe div 100) \<le> 365"
proof (cases "doe = 146096")
  case True
  then show ?thesis by (simp add: yoe_of_def)
next
  case False
  then obtain c t u where d: "doe = 36524 * c + 1461 * t + u"
    and b: "0 \<le> c" "c \<le> 3" "0 \<le> t" "t \<le> 24" "0 \<le> u" "u \<le> 1460"
    and s: "1461 * t + u < 36524"
    using day_of_era_split [of doe] assms by auto
  define w where "w = (24 * c + t + u) div 1460"
  define k where "k = (u - w) div 365"
  have w: "0 \<le> w" "w \<le> 1" "u = 1460 \<Longrightarrow> w = 1" "w = 1 \<Longrightarrow> 1 \<le> u" using b by (auto simp: w_def)
  have "doe = (25 * c + t) * 1460 + (24 * c + t + u)" using d by simp
  then have a: "doe div 1460 = 25 * c + t + w" unfolding w_def by simp
  have "36524 * c \<le> doe" "doe < 36524 * (c + 1)" using d b s by auto
  then have cc: "doe div 36524 = c" by (simp add: div_pos_geq)
  have e: "doe div 146096 = 0" using assms False by simp
  have "doe - doe div 1460 + doe div 36524 - doe div 146096 = (100 * c + 4 * t) * 365 + (u - w)"
    unfolding a cc e using d by simp
  then have y: "yoe_of doe = 100 * c + 4 * t + k" unfolding yoe_of_def k_def by simp
  have r: "0 \<le> u - w" "u - w \<le> 1459" using w b by linarith+
  have q: "u - w = 365 * k + (u - w) mod 365" "0 \<le> (u - w) mod 365" "(u - w) mod 365 < 365" unfolding k_def by simp_all
  then have k: "0 \<le> k" "k \<le> 3" "365 * k \<le> u - w" "u - w \<le> 365 * k + 364" using r by linarith+
  have "yoe_of doe div 4 = 25 * c + t" unfolding y using k b by (simp add: div_pos_geq)
  moreover have "4 * t + k < 100" using s k b w by linarith
  then have "yoe_of doe div 100 = c" unfolding y using k b by (simp add: add.assoc)
  ultimately have "doe - (365 * yoe_of doe + yoe_of doe div 4 - yoe_of doe div 100) = u - 365 * k" using y d by simp
  moreover have "yoe_of doe \<le> 399" "0 \<le> yoe_of doe" using y k b \<open>4 * t + k < 100\<close> by linarith+
  ultimately show ?thesis using k w by linarith
qed

lemma month_of_year:
  fixes doy :: int
  assumes "0 \<le> doy" "doy \<le> 365"
  defines "mp \<equiv> (5 * doy + 2) div 153"
  shows "0 \<le> mp" "mp \<le> 11" "1 \<le> doy - (153 * mp + 2) div 5 + 1" "doy - (153 * mp + 2) div 5 + 1 \<le> 31"
proof -
  have "5 * doy + 2 = 153 * mp + (5 * doy + 2) mod 153" "0 \<le> (5 * doy + 2) mod 153" "(5 * doy + 2) mod 153 < 153"
    unfolding mp_def by simp_all
  then have b: "153 * mp \<le> 5 * doy + 2" "5 * doy + 2 < 153 * mp + 153" by linarith+
  then show "0 \<le> mp" "mp \<le> 11" using assms by linarith+
  have "153 * mp + 2 = 5 * ((153 * mp + 2) div 5) + (153 * mp + 2) mod 5" "0 \<le> (153 * mp + 2) mod 5" "(153 * mp + 2) mod 5 < 5"
    by simp_all
  then show "1 \<le> doy - (153 * mp + 2) div 5 + 1" "doy - (153 * mp + 2) div 5 + 1 \<le> 31" using b by linarith+
qed

lemma wrap_u32_id: "0 \<le> x \<Longrightarrow> x < 4294967296 \<Longrightarrow> wrap_u32 x = x"
  by (simp add: wrap_u32_def)

lemma floor_era:
  fixes z :: int
  shows "(if 0 \<le> z then z div 146097 else - ((146096 - z) div 146097)) = z div 146097"
proof (cases "0 \<le> z")
  case False
  define q where "q = z div 146097"
  have "z = 146097 * q + z mod 146097" "0 \<le> z mod 146097" "z mod 146097 < 146097" unfolding q_def by simp_all
  then have "146096 - z = 146097 * (- q) + (146096 - z mod 146097)" "0 \<le> 146096 - z mod 146097"
    "146096 - z mod 146097 < 146097" by linarith+
  then have "(146096 - z) div 146097 = - q" by (simp only: div_mult_self2)
  then show ?thesis using False by (simp add: q_def)
qed simp

lemma civil_from_days_parts:
  fixes n :: int
  defines "era \<equiv> (n + 719468) div 146097"
  defines "doe \<equiv> (n + 719468) mod 146097"
  defines "doy \<equiv> doe - (365 * yoe_of doe + yoe_of doe div 4 - yoe_of doe div 100)"
  defines "mp \<equiv> (5 * doy + 2) div 153"
  defines "m \<equiv> (if mp < 10 then mp + 3 else mp - 9)"
  shows "civil_from_days n =
    (yoe_of doe + era * 400 + (if m \<le> 2 then 1 else 0), m, doy - (153 * mp + 2) div 5 + 1)"
proof -
  have "n + 719468 - (n + 719468) div 146097 * 146097 = doe" unfolding doe_def by (simp add: minus_div_mult_eq_mod)
  then show ?thesis
    unfolding civil_from_days_def Let_def floor_era m_def mp_def doy_def yoe_of_def era_def by (simp only:)
qed

lemma civil_to_days_march:
  assumes "0 \<le> yoe" "yoe \<le> 399" "0 \<le> mp" "mp \<le> 11" "1 \<le> d" "d \<le> 31"
  defines "m \<equiv> (if mp < 10 then mp + 3 else mp - 9)"
  shows "civil_to_days (yoe + era * 400 + (if m \<le> 2 then 1 else 0)) m d =
    era * 146097 + (yoe * 365 + yoe div 4 - yoe div 100 + ((153 * mp + 2) div 5 + d - 1)) - 719468"
proof -
  have "(if m \<le> 2 then yoe + era * 400 + (if m \<le> 2 then 1 else 0) - 1
         else yoe + era * 400 + (if m \<le> 2 then 1 else 0)) = yoe + era * 400" by simp
  moreover have "(if 2 < m then m - 3 else m + 9) = mp" using assms(3,4) unfolding m_def by auto
  moreover have "(yoe + era * 400) div 400 = era" "(yoe + era * 400) mod 400 = yoe" using assms(1,2) by auto
  moreover have q: "0 \<le> (153 * mp + 2) div 5" "(153 * mp + 2) div 5 \<le> 337" using assms(3,4) by auto
  moreover have "wrap_u32 (153 * mp + 2) = 153 * mp + 2" using assms(3,4) by (simp add: wrap_u32_id)
  moreover have "wrap_u32 ((153 * mp + 2) div 5 + d - 1) = (153 * mp + 2) div 5 + d - 1"
    using q assms(5,6) by (simp add: wrap_u32_id)
  moreover have "0 \<le> yoe div 4" "yoe div 4 \<le> 99" "0 \<le> yoe div 100" "yoe div 100 \<le> 3" using assms(1,2) by auto
  then have "wrap_u32 (yoe * 365 + yoe div 4 - yoe div 100 + ((153 * mp + 2) div 5 + d - 1)) =
      yoe * 365 + yoe div 4 - yoe div 100 + ((153 * mp + 2) div 5 + d - 1)"
    using q assms(1,2,5,6) by (intro wrap_u32_id) linarith+
  ultimately show ?thesis unfolding civil_to_days_def Let_def by simp
qed

text \<open>Converting a day number to a civil date and back gives the day number, for every day before
or after the epoch: the stamps the store writes and the timestamps the scheduler reads count the same
calendar, leap years and centuries included, and the month and day are in range.\<close>

theorem civil_round_trip:
  "(case civil_from_days n of (y, m, d) \<Rightarrow>
      civil_to_days y m d = n \<and> 1 \<le> m \<and> m \<le> 12 \<and> 1 \<le> d \<and> d \<le> 31)"
proof -
  define doe where "doe = (n + 719468) mod 146097"
  define doy where "doy = doe - (365 * yoe_of doe + yoe_of doe div 4 - yoe_of doe div 100)"
  define mp where "mp = (5 * doy + 2) div 153"
  have "0 \<le> doe" "doe < 146097" by (simp_all add: doe_def)
  note y = year_of_era [OF this, folded doy_def]
  note m = month_of_year [of doy, folded mp_def]
  have "n + 719468 = (n + 719468) div 146097 * 146097 + doe" unfolding doe_def by simp
  then show ?thesis
    unfolding civil_from_days_parts Let_def prod.case doe_def [symmetric] doy_def [symmetric] mp_def [symmetric]
    using y m by (subst civil_to_days_march) (auto simp: doy_def)
qed

end
