(* ===== verification/Notes.thy ===== *)
theory Notes
  imports World Calendar
begin

text \<open>
Repository notes (\<open>store.rs\<close>): a Markdown file per repository, appended to with a UTC stamp and shown to
workers from its end.
\<close>

definition MAX_NOTES_CHARS :: nat where "MAX_NOTES_CHARS = 4000"

definition NOTES_TRUNCATION_PREFIX :: string where
  "NOTES_TRUNCATION_PREFIX = ''...(older notes truncated)...'' @ [CHR 0x0A]"

definition notes_path :: "string \<Rightarrow> int \<Rightarrow> string" where
  "notes_path work_root repo_id =
     path_join (path_join work_root ''notes'') (''repo-'' @ show_int repo_id @ ''.md'')"

definition truncated_notes :: "string \<Rightarrow> string" where
  "truncated_notes text =
     (let total = char_count text
      in if total \<le> MAX_NOTES_CHARS then text
         else NOTES_TRUNCATION_PREFIX @ drop (length (take_chars (total - MAX_NOTES_CHARS) text)) text)"

definition repo_notes :: "string \<Rightarrow> int \<Rightarrow> string act" where
  "repo_notes work_root repo_id = do {
     r \<leftarrow> read_file (notes_path work_root repo_id);
     State_Monad.return (case r of Inl _ \<Rightarrow> [] | Inr text \<Rightarrow> truncated_notes text)
   }"

definition note_entry :: "bool \<Rightarrow> string \<Rightarrow> string option \<Rightarrow> string \<Rightarrow> string \<times> string \<Rightarrow> string" where
  "note_entry first repo_name category note stamp =
     (let nl = [CHR 0x0A]; (date, hhmm) = stamp
      in (if first then ''# Notes: '' @ repo_name @ nl @ nl @ ''Last updated: '' @ date @ nl @ nl else []) @
         (case category of Some c \<Rightarrow> ''## '' @ c @ nl | None \<Rightarrow> []) @
         ''- ['' @ date @ '' '' @ hhmm @ ''] '' @ note @ nl @ nl)"

definition append_file :: "string \<Rightarrow> string \<Rightarrow> unit io" where
  "append_file p text = disk_call (\<lambda>k.
     (Inr (), k\<lparr>k_files := (k_files k)(p \<mapsto> unwrap_or (k_files k p) [] @ text)\<rparr>))"

definition append_repo_note ::
  "string \<Rightarrow> int \<Rightarrow> string \<Rightarrow> string \<Rightarrow> string option \<Rightarrow> string io" where
  "append_repo_note work_root repo_id repo_name note category =
     (let path = notes_path work_root repo_id
      in and_then (case parent_dir path of Some dir \<Rightarrow> create_dir_all dir | None \<Rightarrow> ok ()) (\<lambda>_. do {
           stamp \<leftarrow> look (\<lambda>w. utc_date_time (w_now w (w_calls w) div 1000));
           there \<leftarrow> look (\<lambda>w. path_exists w path);
           and_then (append_file path (note_entry (\<not> there) repo_name category note stamp)) (\<lambda>_. do {
             notes \<leftarrow> repo_notes work_root repo_id;
             ok notes }) }))"

section \<open>What is shown\<close>

lemma char_count_drop_cont: "char_count (dropWhile is_cont_byte s) = char_count s"
  by (induction s) (auto simp: char_count_def)

lemma char_count_takes: "(s \<noteq> [] \<Longrightarrow> \<not> is_cont_byte (hd s)) \<Longrightarrow> char_count (take_chars n s) = min n (char_count s)"
proof (induction n s rule: take_chars.induct)
  case (3 n c cs)
  have "dropWhile is_cont_byte cs \<noteq> [] \<Longrightarrow> \<not> is_cont_byte (hd (dropWhile is_cont_byte cs))"
    using hd_dropWhile by blast
  with 3 show ?case by (auto simp: char_count_def filter_takeWhile_neg char_count_drop_cont [unfolded char_count_def])
qed (simp_all add: char_count_def)

text \<open>Notes are shown from their end: a text of at most 4,000 characters whole, a longer one as the
truncation line and exactly its last 4,000 characters, cut between characters.\<close>

theorem notes_show_their_end:
  assumes "text \<noteq> [] \<Longrightarrow> \<not> is_cont_byte (hd text)"
  shows "\<exists>older kept. text = older @ kept \<and> char_count kept = min MAX_NOTES_CHARS (char_count text) \<and>
    truncated_notes text = (if older = [] then [] else NOTES_TRUNCATION_PREFIX) @ kept"
proof (cases "char_count text \<le> MAX_NOTES_CHARS")
  case True
  then show ?thesis by (intro exI [of _ "[]"] exI [of _ "text"]) (simp add: truncated_notes_def)
next
  case False
  let ?n = "char_count text - MAX_NOTES_CHARS"
  obtain kept where cut: "text = take_chars ?n text @ kept" using take_chars_prefix by blast
  have n: "char_count (take_chars ?n text) = ?n" using char_count_takes [OF assms] by simp
  have "char_count text = char_count (take_chars ?n text) + char_count kept"
    by (subst cut) (simp add: char_count_def)
  then have "char_count kept = MAX_NOTES_CHARS" using n False by simp
  moreover have "drop (length (take_chars ?n text)) text = kept" by (subst (2) cut) simp
  moreover have "take_chars ?n text \<noteq> []" using n False by (auto simp: char_count_def)
  ultimately show ?thesis using cut False
    by (intro exI [of _ "take_chars ?n text"] exI [of _ kept]) (simp add: truncated_notes_def)
qed

theorem notes_show_their_end_witness:
  "\<exists>older kept. ''- note'' = older @ kept \<and> char_count kept = min MAX_NOTES_CHARS (char_count ''- note'') \<and>
     truncated_notes ''- note'' = (if older = [] then [] else NOTES_TRUNCATION_PREFIX) @ kept"
  by (rule notes_show_their_end) (simp add: is_cont_byte_def byte_def)

end
