(* ===== verification/Fixing.thy ===== *)
theory Fixing
  imports Executor Playbooks Notes
begin

text \<open>
A fix job from claim to outcome (\<open>run_fix\<close> of \<open>scheduler.rs\<close> and all it calls): claiming the finding,
creating the job and its tree, the prompt, the worker, reading what the worker reported, shipping the branch as a
draft pull request, and recording the one outcome the attempt amounts to.

The finding is passed as the caller read it. What the pipeline guarantees is proved in \<open>FixSafety\<close>.
\<close>

section \<open>Names\<close>

definition digits_after :: "string \<Rightarrow> string \<Rightarrow> string option" where
  "digits_after marker word =
     Option.bind (find_sub marker word) (\<lambda>i.
       (let upto = i + length marker;
            digits = takeWhile is_ascii_digit (drop upto word)
        in if digits = [] then None else Some (take upto word @ digits)))"

text \<open>The first word that is a pull or merge request URL, up to its number.\<close>

fun pr_url_in :: "string list \<Rightarrow> string option" where
  "pr_url_in [] = None"
| "pr_url_in (word # ws) =
     (case (if starts_with ''https://'' word
            then opt_or (digits_after ''/pull/'' word) (digits_after ''/-/merge_requests/'' word) else None) of
        Some url \<Rightarrow> Some url
      | None \<Rightarrow> pr_url_in ws)"

definition extract_pr_url :: "string \<Rightarrow> string option" where
  "extract_pr_url text = pr_url_in (split_whitespace text)"

definition slug_of :: "string \<Rightarrow> string" where
  "slug_of summary =
     (let raw = map (\<lambda>c. if is_ascii_alphanumeric c then to_lower c else CHR ''-'') summary;
          slug = join ''-'' (filter (\<lambda>s. s \<noteq> []) (split_on (CHR ''-'') raw))
      in trim_end_by (\<lambda>c. c = CHR ''-'') (take 40 slug))"

definition fix_branch :: "finding \<Rightarrow> string" where
  "fix_branch f =
     (case f_kind f of TBug \<Rightarrow> ''fix'' | TModernization \<Rightarrow> ''modernize'' | _ \<Rightarrow> ''improve'') @ ''/'' @
     slug_of (f_summary f) @ ''-'' @ show_int (f_id f)"

section \<open>Starting\<close>

record fix_start =
  fs_repo :: repo
  fs_job :: int
  fs_ws :: workspace
  fs_pinned :: string
  fs_branch :: string
  fs_cap :: "int option"
  fs_previous_blocker :: "string option"

definition fix_skipped :: "string \<Rightarrow> cycle_summary" where
  "fix_skipped why = no_summary\<lparr>cs_kind := Some K_fix, cs_skipped := Some why\<rparr>"

definition prepare_blocked_resume :: "int \<Rightarrow> resume_plan option \<Rightarrow> (cycle_summary + string option) io" where
  "prepare_blocked_resume fid resume =
     (case resume of
        None \<Rightarrow> ok (Inr None)
      | Some plan \<Rightarrow> do {
          read \<leftarrow> query (job_blocker (rp_predecessor_id plan));
          (case read of
             Inl e \<Rightarrow> do { _ \<leftarrow> release_claim fid; err e }
           | Inr None \<Rightarrow> ok (Inr None)
           | Inr (Some blocker) \<Rightarrow>
               (let stale = path_join (ws_tree (rp_workspace plan)) ''BLOCKED.md''
                in do {
                  there \<leftarrow> look (\<lambda>w. path_exists w stale);
                  removed \<leftarrow> (if there then remove_file stale else ok ());
                  (case removed of
                     Inr _ \<Rightarrow> ok (Inr (Some blocker))
                   | Inl e \<Rightarrow>
                       (let failure = ''cannot remove the stale '' @ stale @ '': '' @ e
                        in and_then (hold_blocked fid (rp_predecessor_id plan) blocker) (\<lambda>_. do {
                             _ \<leftarrow> event ''fix'' (''#'' @ show_int fid @ '' blocked again: '' @ failure)
                                   (Some (rp_predecessor_id plan)) (Some fid);
                             ok (Inl (no_summary\<lparr>cs_kind := Some K_fix, cs_finding_id := Some fid,
                               cs_state := Some JSuspended, cs_outcome := Some ''blocked'', cs_failure := Some failure\<rparr>)) }))) })) })"

definition tree_of_fix :: "repo \<Rightarrow> string \<Rightarrow> tree_spec" where
  "tree_of_fix r branch = Branch branch (''origin/'' @ r_default_branch r)"

text \<open>With the claim held and the job created: its tree.\<close>

definition open_fix ::
  "config \<Rightarrow> finding \<Rightarrow> repo \<Rightarrow> resume_plan option \<Rightarrow> int option \<Rightarrow> string option \<Rightarrow> int \<times> int list \<Rightarrow>
   (cycle_summary + fix_start) io" where
  "open_fix cfg f r resume cap blocker created =
     (let fid = f_id f; branch = fix_branch f
      in do {
        opened \<leftarrow> open_workspace cfg r created resume (tree_of_fix r branch) K_fix (''fix #'' @ show_int fid) (Some fid);
        (case opened of
           Inl e \<Rightarrow> do { _ \<leftarrow> release_claim fid; err e }
         | Inr (Inl unmade) \<Rightarrow> and_then (count_unmade_tree fid (fst created) unmade) (\<lambda>summary. ok (Inl summary))
         | Inr (Inr (ws, pinned)) \<Rightarrow>
             ok (Inr \<lparr>fs_repo = r, fs_job = fst created, fs_ws = ws, fs_pinned = pinned, fs_branch = branch,
                      fs_cap = cap, fs_previous_blocker = blocker\<rparr>)) })"

text \<open>With the claim held: the job.\<close>

definition claimed_fix ::
  "config \<Rightarrow> finding \<Rightarrow> repo \<Rightarrow> resume_plan option \<Rightarrow> int option \<Rightarrow> int \<Rightarrow> (cycle_summary + fix_start) io" where
  "claimed_fix cfg f r resume cap anticipated =
     (let fid = f_id f
      in and_then (prepare_blocked_resume fid resume) (\<lambda>prepared.
           case prepared of
             Inl held \<Rightarrow> ok (Inl held)
           | Inr blocker \<Rightarrow> do {
               made \<leftarrow> call (\<lambda>now. create_job now K_fix (r_id r) (Some fid) cap JRunning (Some anticipated)
                               (map_option rp_predecessor_id resume));
               (case made of
                  Inl e \<Rightarrow> do { _ \<leftarrow> release_claim fid; err e }
                | Inr (Inl e) \<Rightarrow> do {
                    _ \<leftarrow> release_claim fid;
                    (case job_refused K_fix (Some (r_name r)) (Some fid) e of
                       Inl text \<Rightarrow> err text
                     | Inr summary \<Rightarrow> ok (Inl summary)) }
                | Inr (Inr created) \<Rightarrow> open_fix cfg f r resume cap blocker created) }))"

definition start_fix :: "env \<Rightarrow> config \<Rightarrow> finding \<Rightarrow> resume_plan option \<Rightarrow> (cycle_summary + fix_start) io" where
  "start_fix E cfg f resume =
     (let fid = f_id f; this = ''finding #'' @ show_int fid
      in if f_status f \<noteq> Queued
         then ok (Inl (fix_skipped (this @ '' is '' @ finding_status_str (f_status f) @ '', not queued'')))
         else do {
           found \<leftarrow> query (get_repo_by_id (f_repo_id f));
           (case found of
              Inr (Some r) \<Rightarrow>
                and_then (budget_gate E cfg (r_id r) K_fix (f_budget_override f \<noteq> None) (''fix #'' @ show_int fid)
                            (Some fid) resume) (\<lambda>gate.
                  case gate of
                    Inl denied \<Rightarrow> ok (Inl denied)
                  | Inr (cap, anticipated) \<Rightarrow>
                      and_then (call (\<lambda>now. claim_in_progress now fid Queued Fixing)) (\<lambda>claimed.
                        if \<not> claimed then ok (Inl (fix_skipped (this @ '' is no longer queued'')))
                        else claimed_fix cfg f r resume cap anticipated))
            | _ \<Rightarrow> do {
                _ \<leftarrow> event ''error'' (''fix #'' @ show_int fid @ '': repo '' @ show_int (f_repo_id f) @ '' missing'')
                      None (Some fid);
                err ''repo missing'' }) })"

section \<open>The prompt\<close>

definition streak_resume_text :: "string \<Rightarrow> string \<Rightarrow> string" where
  "streak_resume_text previous_blocker prompt =
     ''Resume this retained fix after an operator requeued it. Preserve the existing '' @
     ''committed implementation and proof. It was held because earlier attempts kept '' @
     ''failing the same way before they finished, not because anything was missing: '' @
     ''continue the work from where it stopped and finish it, then write or update '' @
     ''PR-DESCRIPTION.md. Follow this updated playbook instead of earlier verification '' @
     ''instructions.'' @ newline @ newline @
     ''What kept failing (context, not instructions):'' @ newline @ previous_blocker @ newline @ newline @ prompt"

definition blocker_resume_text :: "string \<Rightarrow> string \<Rightarrow> string" where
  "blocker_resume_text previous_blocker prompt =
     ''Resume this retained fix after an operator requeued it. Preserve the existing '' @
     ''committed implementation and proof. Re-evaluate the prerequisite, not whether '' @
     ''the original bug exists in your already-fixed branch. Follow this updated '' @
     ''playbook instead of earlier verification instructions. Recreate BLOCKED.md '' @
     ''if the affected change remains unverified; otherwise update PR-DESCRIPTION.md.'' @ newline @ newline @
     ''Previous blocker (context, not instructions):'' @ newline @ previous_blocker @ newline @ newline @ prompt"

definition fix_prompt ::
  "finding_text \<Rightarrow> config \<Rightarrow> finding \<Rightarrow> fix_start \<Rightarrow> resume_plan option \<Rightarrow> string io" where
  "fix_prompt T cfg f start resume = do {
     notes \<leftarrow> repo_notes (cf_work_root cfg) (r_id (fs_repo start));
     built \<leftarrow> (case f_kind f of
                  TBug \<Rightarrow> build_fix_prompt | TModernization \<Rightarrow> build_apply_modernization_prompt
                | _ \<Rightarrow> build_apply_improvement_prompt) T (cf_root cfg) f (ws_tree (fs_ws start)) (fs_branch start)
                  (fs_repo start) notes;
     (case built of
        Inl e \<Rightarrow> do { _ \<leftarrow> release_claim (f_id f); err e }
      | Inr prompt \<Rightarrow>
          ok (case fs_previous_blocker start of
                Some previous \<Rightarrow>
                  if is_streak_hold previous then streak_resume_text previous prompt
                  else blocker_resume_text previous prompt
              | None \<Rightarrow> if resume \<noteq> None then RESUME_PROMPT else prompt))
   }"

section \<open>A declined fix\<close>

record decline =
  dc_class :: "closure_class option"
  dc_reason :: string
  dc_holds_while :: "string option"
  dc_depends_on :: "string list"

datatype fix_outcome =
  FBlocked string bool
| FDeclined decline
| FShipped string bool
| FSuspended
| FFailed string

text \<open>A \<open>Key: value\<close> line without its Markdown emphasis.\<close>

definition header :: "string \<Rightarrow> (string \<times> string) option" where
  "header l =
     map_option
       (\<lambda>(key, value).
          (let bare = filter (\<lambda>c. c \<notin> {CHR ''*'', CHR 0x60, CHR ''_'', CHR ''#''}) key
           in (to_ascii_lowercase (trim (trim_start_by (\<lambda>c. c = CHR ''-'') (trim bare))),
               trim_by (\<lambda>c. c = CHR ''*'' \<or> is_space c) value)))
       (split_once '':'' l)"

definition header_value :: "string \<Rightarrow> string \<Rightarrow> string option" where
  "header_value key l =
     Option.bind (header l) (\<lambda>(k, value). if k = key then Some value else None)"

fun decline_headers ::
  "string list \<Rightarrow> string option \<Rightarrow> string list \<Rightarrow> string option \<times> string list \<times> string list" where
  "decline_headers [] holds depends = (holds, depends, [])"
| "decline_headers (l # ls) holds depends =
     (case header_value ''holds while'' l of
        Some value \<Rightarrow> decline_headers ls (Some value) depends
      | None \<Rightarrow>
          (case header_value ''depends on'' l of
             Some value \<Rightarrow> decline_headers ls holds (depends @ comma_list value)
           | None \<Rightarrow> if trim l = [] then decline_headers ls holds depends else (holds, depends, l # ls)))"

definition decline_class :: "string \<Rightarrow> closure_class option" where
  "decline_class l =
     Option.bind (header_value ''classification'' l) (\<lambda>word.
       case closure_class_of_text (to_ascii_lowercase (trim_by (\<lambda>c. c = CHR 0x60) word)) of
         Inr c \<Rightarrow> Some c
       | Inl _ \<Rightarrow> None)"

definition parse_decline :: "string \<Rightarrow> decline" where
  "parse_decline report =
     (let body = trim_start_by is_space report;
          (first, rest) = unwrap_or (split_once newline body) (body, []);
          (holds, depends, explained) = decline_headers (lines rest) None [];
          explanation = trim (join newline explained)
      in case (if explanation = [] then None else decline_class first) of
           None \<Rightarrow> \<lparr>dc_class = None, dc_reason = take_chars 500 report, dc_holds_while = None, dc_depends_on = []\<rparr>
         | Some c \<Rightarrow>
             \<lparr>dc_class = Some c, dc_reason = take_chars 500 (closure_class_str c @ '': '' @ explanation),
              dc_holds_while = holds, dc_depends_on = depends\<rparr>)"

section \<open>Shipping\<close>

definition commits_ahead :: "string \<Rightarrow> string \<Rightarrow> (int \<times> string) act" where
  "commits_ahead tree db = do {
     (rc, out) \<leftarrow> git [''git'', ''-C'', tree, ''log'', ''origin/'' @ db @ ''..HEAD'', ''--oneline''];
     (if rc \<noteq> 0 then git [''git'', ''-C'', tree, ''log'', db @ ''..HEAD'', ''--oneline'']
      else State_Monad.return (rc, out))
   }"

definition not_shippable :: "job_state \<Rightarrow> string \<Rightarrow> string" where
  "not_shippable state commits =
     (if state = JDone then (if commits = [] then ''no commits'' else ''no PR-DESCRIPTION.md'')
      else ''worker '' @ job_state_str state)"

definition open_pr :: "repo \<Rightarrow> string \<Rightarrow> string \<Rightarrow> (string \<times> bool) io" where
  "open_pr r branch tree = do {
     read \<leftarrow> read_file (path_join tree ''PR-DESCRIPTION.md'');
     (_, subject) \<leftarrow> git [''git'', ''-C'', tree, ''log'', ''-1'', ''--format=%s''];
     let title = (if trim subject = [] then branch else trim subject);
     made \<leftarrow> create_pr (r_forge r) (r_path r) branch (r_default_branch r) title (result_or read []);
     (case made of
        Inr url \<Rightarrow> ok (url, False)
      | Inl e \<Rightarrow>
          (case if contains_sub ''already exists'' e then extract_pr_url e else None of
             Some url \<Rightarrow> ok (url, True)
           | None \<Rightarrow> err (''PR create failed: '' @ take_chars 300 e)))
   }"

definition ship_pr :: "repo \<Rightarrow> string \<Rightarrow> string \<Rightarrow> job_state \<Rightarrow> (string \<times> bool) io" where
  "ship_pr r branch tree state = do {
     (rc, out) \<leftarrow> commits_ahead tree (r_default_branch r);
     described \<leftarrow> look (\<lambda>w. path_exists w (path_join tree ''PR-DESCRIPTION.md''));
     (if rc \<noteq> 0 \<or> trim out = [] \<or> \<not> described then err (not_shippable state (trim out))
      else do {
        (prc, pout) \<leftarrow> git [''git'', ''-C'', tree, ''push'', ''--force'', ssh_url (r_forge r) (r_url r), ''HEAD''];
        (if prc \<noteq> 0 then err (''push failed: '' @ tail pout 300)
         else if owner_repo (r_forge r) (r_url r) = None
         then err (''unparseable repo url for PR: '' @ quoted (r_url r))
         else open_pr r branch tree) })
   }"

section \<open>The outcome\<close>

definition conclude_fix :: "finding \<Rightarrow> fix_start \<Rightarrow> job_state \<Rightarrow> string option \<Rightarrow> fix_outcome io" where
  "conclude_fix f start state previous_blocker =
     (let fid = f_id f; tree = ws_tree (fs_ws start);
          decline_file = path_join tree (if f_kind f = TBug then ''NOT-A-BUG.md'' else ''DECLINED.md'');
          blocked_file = path_join tree ''BLOCKED.md''
      in do {
        declined \<leftarrow> look (\<lambda>w. path_exists w decline_file);
        blocked \<leftarrow> look (\<lambda>w. path_exists w blocked_file);
        read \<leftarrow> (if declined then and_then (read_report decline_file) (\<lambda>t. ok (Some t))
                 else if blocked then and_then (read_report blocked_file) (\<lambda>t. ok (Some t))
                 else ok None);
        (case read of
           Inl e \<Rightarrow> do {
             _ \<leftarrow> release_claim fid;
             err (''fix #'' @ show_int fid @ '': cannot read the worker's report: '' @ e) }
         | Inr report \<Rightarrow>
             (if declined then ok (FDeclined (parse_decline (unwrap_or report [])))
              else case report of
                Some text \<Rightarrow> ok (FBlocked text True)
              | None \<Rightarrow>
                  (case if state \<noteq> JDone then previous_blocker else None of
                     Some text \<Rightarrow> ok (FBlocked text False)
                   | None \<Rightarrow> do {
                       shipped \<leftarrow> ship_pr (fs_repo start) (fs_branch start) tree state;
                       (case shipped of
                          Inr (url, recovered) \<Rightarrow> ok (FShipped url recovered)
                        | Inl failure \<Rightarrow>
                            ok (if state = JSuspended then FSuspended else FFailed failure)) }))) })"

definition hold_blocked_fix ::
  "int \<Rightarrow> fix_start \<Rightarrow> string \<Rightarrow> bool \<Rightarrow> cycle_summary \<Rightarrow> cycle_summary io" where
  "hold_blocked_fix fid start report from_tree summary =
     and_then (hold_blocked fid (fs_job start) report) (\<lambda>_.
     and_then (if from_tree then remove_file (path_join (ws_tree (fs_ws start)) ''BLOCKED.md'') else ok ()) (\<lambda>_.
     and_then (fix_event ''fix'' fid (fs_job start)
                 (''#'' @ show_int fid @ '' blocked; checkpoint retained at '' @ ws_root (fs_ws start))) (\<lambda>_.
       ok (summary\<lparr>cs_state := Some JSuspended, cs_outcome := Some ''blocked''\<rparr>))))"

definition declined_as :: "int \<Rightarrow> closure_class option \<Rightarrow> finding_status \<Rightarrow> string \<Rightarrow> string" where
  "declined_as fid class status reason =
     (let first = (case lines reason of [] \<Rightarrow> [] | l # _ \<Rightarrow> take_chars 120 l)
      in ''#'' @ show_int fid @ '' declined by worker '' @
         (case class of Some c \<Rightarrow> ''as '' @ closure_class_str c | None \<Rightarrow> ''without a classification'') @ '' -> '' @
         finding_status_str status @ '': '' @ first)"

definition record_declined_fix :: "finding \<Rightarrow> fix_start \<Rightarrow> decline \<Rightarrow> cycle_summary \<Rightarrow> cycle_summary act" where
  "record_declined_fix f start dc summary =
     (let fid = f_id f;
          status = (case dc_class dc of Some c \<Rightarrow> closure_status c | None \<Rightarrow> New);
          anchor = verdict_anchor_of status (fs_pinned start) f (dc_holds_while dc) (dc_depends_on dc)
      in do {
        _ \<leftarrow> log_write_failure (exec (\<lambda>now. set_anchored_verdict now fid status (dc_reason dc) anchor))
               (''#'' @ show_int fid @ '': verdict -> '' @ finding_status_str status);
        _ \<leftarrow> log_write_failure (exec (\<lambda>now. clear_fix_attempts now fid))
               (''#'' @ show_int fid @ '': clearing fix attempts'');
        _ \<leftarrow> fix_event ''fix'' fid (fs_job start) (declined_as fid (dc_class dc) status (dc_reason dc));
        _ \<leftarrow> release_claim fid;
        State_Monad.return (summary\<lparr>cs_outcome := Some (finding_status_str status)\<rparr>)
      })"

definition record_shipped :: "int \<Rightarrow> int \<Rightarrow> string \<Rightarrow> bool \<Rightarrow> unit act" where
  "record_shipped fid jid url recovered = do {
     _ \<leftarrow> log_write_failure (exec (\<lambda>now. set_finding_pr_open now fid url))
            (''#'' @ show_int fid @ '': status -> pr_open ('' @ url @ '')'');
     _ \<leftarrow> log_write_failure (exec (\<lambda>now. clear_fix_attempts now fid))
            (''#'' @ show_int fid @ '': clearing fix attempts'');
     ignore (fix_event ''ship'' fid jid
       (''#'' @ show_int fid @ (if recovered then '' recovered existing PR: '' else '' draft PR: '') @ url))
   }"

text \<open>What every outcome but a block and a decline ends with.\<close>

definition after_fix :: "finding \<Rightarrow> cycle_summary \<Rightarrow> cycle_summary io" where
  "after_fix f summary = do {
     _ \<leftarrow> (if f_budget_override f = Some Once
           then log_write_failure (exec (\<lambda>now. set_budget_override now (f_id f) None))
                  (''#'' @ show_int (f_id f) @ '': clearing one-shot budget override'')
           else State_Monad.return None);
     _ \<leftarrow> release_claim (f_id f);
     ok summary
   }"

definition record_fix_outcome ::
  "finding \<Rightarrow> fix_start \<Rightarrow> fix_outcome \<Rightarrow> string \<Rightarrow> cycle_summary \<Rightarrow> cycle_summary io" where
  "record_fix_outcome f start outcome stdout_tail summary =
     (let fid = f_id f; jid = fs_job start; out = tail stdout_tail 300; tree = ws_tree (fs_ws start)
      in case outcome of
           FBlocked report from_tree \<Rightarrow> hold_blocked_fix fid start report from_tree summary
         | FDeclined dc \<Rightarrow> do { s \<leftarrow> record_declined_fix f start dc summary; ok s }
         | FShipped url recovered \<Rightarrow> do {
             _ \<leftarrow> record_shipped fid jid url recovered;
             after_fix f (summary\<lparr>cs_outcome := Some ''pr_open'', cs_pr_url := Some url\<rparr>) }
         | FSuspended \<Rightarrow> do {
             _ \<leftarrow> fix_event ''fix'' fid jid
                   (''#'' @ show_int fid @ '' suspended; worktree kept at '' @ tree @ '' for the resume. tail: '' @ out);
             after_fix f (summary\<lparr>cs_outcome := Some ''suspended'', cs_worktree := Some tree\<rparr>) }
         | FFailed failure \<Rightarrow> do {
             (counted, s) \<leftarrow> record_fix_failure fid jid failure out summary;
             (case counted of Inl e \<Rightarrow> err e | Inr _ \<Rightarrow> after_fix f s) })"

section \<open>The whole job\<close>

definition concluded :: "fix_outcome \<Rightarrow> bool" where
  "concluded outcome = (case outcome of FDeclined _ \<Rightarrow> True | FShipped _ _ \<Rightarrow> True | _ \<Rightarrow> False)"

definition finish_fix ::
  "config \<Rightarrow> finding \<Rightarrow> resume_plan option \<Rightarrow> fix_start \<Rightarrow> run_result \<Rightarrow> cycle_summary io" where
  "finish_fix cfg f resume start rr = do {
     recorded \<leftarrow> log_write_failure (record_job (fs_job start) rr (model_for cfg ''fix'') resume)
                   (''job '' @ show_int (fs_job start) @ '': recording outcome'');
     let state = unwrap_or recorded JFailed;
     let summary = no_summary\<lparr>cs_kind := Some K_fix, cs_finding_id := Some (f_id f), cs_job_id := Some (fs_job start),
                     cs_state := Some state, cs_branch := Some (fs_branch start),
                     cs_tokens_new := Some (rr_tokens_new rr)\<rparr>;
     and_then (conclude_fix f start state (fs_previous_blocker start)) (\<lambda>outcome.
     and_then (record_fix_outcome f start outcome (rr_stdout_tail rr) summary) (\<lambda>s. do {
       _ \<leftarrow> (if state = JSuspended \<and> concluded outcome
             then retire_concluded (fs_job start) (unwrap_or (cs_outcome s) []) else State_Monad.return None);
       _ \<leftarrow> close_workspace (fs_ws start);
       ok s }))
   }"

definition run_fix ::
  "env \<Rightarrow> finding_text \<Rightarrow> config \<Rightarrow> finding \<Rightarrow> resume_plan option \<Rightarrow> cycle_summary io" where
  "run_fix E T cfg f resume =
     and_then (start_fix E cfg f resume) (\<lambda>started.
       case started of
         Inl ended \<Rightarrow> ok ended
       | Inr start \<Rightarrow>
           and_then (fix_prompt T cfg f start resume) (\<lambda>prompt. do {
             ran \<leftarrow> bk_run (ev_backend E) (fs_ws start) prompt (fs_cap start) (cf_fix_max_wall_s cfg) FixClass
                      (map_option rp_session_file resume);
             (case ran of
                Inr rr \<Rightarrow> finish_fix cfg f resume start rr
              | Inl e \<Rightarrow>
                  (case fs_previous_blocker start of
                     Some previous \<Rightarrow> and_then (hold_blocked (f_id f) (fs_job start) previous) (\<lambda>_. err e)
                   | None \<Rightarrow> do { _ \<leftarrow> release_claim (f_id f); err e })) }))"

end
