(* ===== verification/FixSafety.thy ===== *)
theory FixSafety
  imports Fixing Sweep
begin

text \<open>
What a fix job guarantees whatever fails on the way: the finding it claimed is never left \<open>fixing\<close> in
silence. Also that a failure-streak hold is recognised by its own report, and what a decline is read as.

\<open>released fid\<close> is the state the pipeline must end in; \<open>frees\<close> is an action that reaches it from
anywhere, \<open>calm_for\<close> one that stays in it.
\<close>

named_theorems grows_intros "actions that keep what the error log holds"

section \<open>The error log only grows\<close>

definition grows :: "'a act \<Rightarrow> bool" where
  "grows m \<longleftrightarrow> (\<forall>w. set (w_log w) \<subseteq> set (w_log (snd (run_state m w))))"

lemma grows_wp: "grows m \<longleftrightarrow> (\<forall>w. wp m (\<lambda>_ w'. set (w_log w) \<subseteq> set (w_log w')) w)"
  by (simp add: grows_def wp_def split_beta)

lemma grows_pure [grows_intros]:
  "grows (State_Monad.return a)" "grows (ok b)" "grows (err e)" "grows (look f)" "grows (query q)" "grows (exec g)"
  "grows (call h)" "grows (call_r i)" "grows (disk_call j)" "grows (shell_in cwd argv)" "grows (event k t x y)"
  by (simp_all add: grows_wp wp_simps split: option.split)

lemma grows_bind [grows_intros]: "grows m \<Longrightarrow> (\<And>a. grows (k a)) \<Longrightarrow> grows (m \<bind> k)"
  unfolding grows_wp wp_bind by (blast intro: wp_mono)

lemma grows_and_then [grows_intros]: "grows m \<Longrightarrow> (\<And>a. grows (k a)) \<Longrightarrow> grows (and_then m k)"
  unfolding and_then_def by (intro grows_intros) (auto intro: grows_intros split: sum.split)

lemma grows_ignore [grows_intros]: "grows m \<Longrightarrow> grows (ignore m)"
  unfolding ignore_def by (intro grows_intros)

lemma grows_log_write_failure [grows_intros]: "grows m \<Longrightarrow> grows (log_write_failure m what)"
  unfolding grows_wp wp_log_write_failure
  by (intro allI, erule allE, erule wp_mono) (auto split: sum.split)

lemma grows_if [grows_intros]: "(c \<Longrightarrow> grows m) \<Longrightarrow> (\<not> c \<Longrightarrow> grows n) \<Longrightarrow> grows (if c then m else n)"
  by simp

lemma grows_unlock_missing [grows_intros]: "grows (unlock_missing c ps)"
  by (induction ps) (auto simp: git_def intro!: grows_intros)

lemma grows_close_workspace [grows_intros]: "grows (close_workspace ws)"
  unfolding close_workspace_def release_if_idle_def release_tree_def prune_worktrees_def git_def remove_dir_all_def Let_def
  by (auto intro!: grows_intros split: prod.split option.split)

section \<open>Released\<close>

definition unclaimed :: "int \<Rightarrow> db \<Rightarrow> bool" where
  "unclaimed fid d \<longleftrightarrow> (\<forall>f \<in> set (db_findings d). f_id f = fid \<longrightarrow> f_status f \<noteq> Fixing)"

definition release_logged :: "int \<Rightarrow> world \<Rightarrow> bool" where
  "release_logged fid w \<longleftrightarrow> ''store write failed: '' @ release_claim_failed fid \<in> set (w_log w)"

definition released :: "int \<Rightarrow> world \<Rightarrow> bool" where
  "released fid w \<longleftrightarrow> unclaimed fid (w_db w) \<or> release_logged fid w"

definition frees :: "int \<Rightarrow> 'a act \<Rightarrow> bool" where
  "frees fid m \<longleftrightarrow> (\<forall>w. wp m (\<lambda>_. released fid) w)"

definition calm_for :: "int \<Rightarrow> 'a act \<Rightarrow> bool" where
  "calm_for fid m \<longleftrightarrow> (\<forall>w. released fid w \<longrightarrow> wp m (\<lambda>_. released fid) w)"

lemma calm_for_keeps: "keeps db_findings m \<Longrightarrow> grows m \<Longrightarrow> calm_for fid m"
  unfolding calm_for_def keeps_wp grows_wp
proof (intro allI impI)
  fix w
  assume k: "\<forall>w. wp m (\<lambda>_ w'. db_findings (w_db w') = db_findings (w_db w)) w"
    and g: "\<forall>w. wp m (\<lambda>_ w'. set (w_log w) \<subseteq> set (w_log w')) w" and r: "released fid w"
  show "wp m (\<lambda>_. released fid) w"
    by (rule wp_mono [OF wp_conj [OF k [rule_format, of w] g [rule_format, of w]]])
      (use r in \<open>unfold released_def unclaimed_def release_logged_def, auto simp del: append.simps\<close>)
qed

lemma frees_bind_left: "frees fid m \<Longrightarrow> (\<And>a. calm_for fid (k a)) \<Longrightarrow> frees fid (m \<bind> k)"
  unfolding frees_def calm_for_def wp_bind by (blast intro: wp_mono)

lemma frees_bind_right: "(\<And>a. frees fid (k a)) \<Longrightarrow> frees fid (m \<bind> k)"
  unfolding frees_def by (blast intro: wp_bind_any)

lemma released_now: "unclaimed fid (w_db w) \<Longrightarrow> released fid w"
  by (simp add: released_def)

lemma unclaimed_finalize: "unclaimed fid (finalize_in_progress now fid Fixing Queued d)"
proof -
  have "db_findings (finalize_in_progress now fid Fixing Queued d) =
      map (\<lambda>f. if f_id f = fid \<and> f_status f = Fixing then f\<lparr>f_status := Queued, f_updated_at := now\<rparr> else f) (db_findings d)"
    by (simp add: finalize_in_progress_def claim_in_progress_def Let_def upd_findings_def update_where_def)
  then show ?thesis unfolding unclaimed_def by (simp only: set_map ball_simps) simp
qed

lemma released_put_log: "released fid (put_log (''store write failed: '' @ release_claim_failed fid) w)"
  unfolding released_def release_logged_def put_log_simps by simp

lemma frees_release: "frees fid (release_claim fid)"
  unfolding frees_def
proof
  fix w
  show "wp (release_claim fid) (\<lambda>_. released fid) w"
    unfolding release_claim_def wp_log_write_failure wp_exec
    by (cases "w_fault w (w_calls w)")
      (simp_all only: option.case sum.case released_put_log, simp add: released_def unclaimed_finalize)
qed

section \<open>The steps that hold the claim\<close>

text \<open>An action after which the fix either still owns its finding, said by its result, or has released it.\<close>

definition frees_unless :: "('a \<Rightarrow> bool) \<Rightarrow> int \<Rightarrow> 'a act \<Rightarrow> bool" where
  "frees_unless P fid m \<longleftrightarrow> (\<forall>w. wp m (\<lambda>a w'. P a \<or> released fid w') w)"

lemma frees_unless_weaken: "frees fid m \<Longrightarrow> frees_unless P fid m"
  unfolding frees_def frees_unless_def by (blast intro: wp_mono)

lemma frees_unless_never: "frees_unless (\<lambda>_. False) fid m \<longleftrightarrow> frees fid m"
  by (simp add: frees_def frees_unless_def)

lemma frees_unless_bind: "(\<And>a. frees_unless P fid (k a)) \<Longrightarrow> frees_unless P fid (m \<bind> k)"
  unfolding frees_unless_def by (blast intro: wp_bind_any)

lemma frees_unless_release: "(\<And>a. calm_for fid (k a)) \<Longrightarrow> frees_unless P fid (release_claim fid \<bind> k)"
  by (intro frees_unless_weaken frees_bind_left frees_release)

lemma frees_unless_return: "P a \<Longrightarrow> frees_unless P fid (State_Monad.return a)"
  by (simp add: frees_unless_def wp_simps)

lemma frees_unless_ok: "P (Inr b) \<Longrightarrow> frees_unless P fid (ok b)"
  by (simp add: frees_unless_def wp_simps)

lemma frees_unless_and_then:
  assumes "frees_unless is_ok fid m" "\<And>a. frees_unless P fid (k a)"
  shows "frees_unless P fid (and_then m k)"
  unfolding frees_unless_def wp_and_then
  by (intro allI wp_mono [OF assms(1) [unfolded frees_unless_def, rule_format]])
    (use assms(2) in \<open>auto simp: frees_unless_def split: sum.split\<close>)

lemma unclaimed_block:
  assumes "fst (block_fix_job now fid jid report d) = Inr u"
  shows "unclaimed fid (snd (block_fix_job now fid jid report d))"
proof -
  have "unclaimed fid (upd_findings (\<lambda>f. f_id f = fid) (blocked_finding now) d')" for d'
  proof -
    have "db_findings (upd_findings (\<lambda>f. f_id f = fid) (blocked_finding now) d') =
        map (\<lambda>f. if f_id f = fid then blocked_finding now f else f) (db_findings d')"
      by (simp add: upd_findings_def update_where_def)
    then show ?thesis unfolding unclaimed_def by (simp only: set_map ball_simps) (simp add: blocked_finding_def)
  qed
  then show ?thesis using assms by (auto simp: block_fix_job_def Let_def split: if_splits)
qed

lemma frees_hold_blocked: "frees fid (hold_blocked fid jid report)"
  unfolding frees_def hold_blocked_def wp_bind wp_call_r
proof (intro allI)
  fix w :: world
  let ?r = "block_fix_job (w_now w (w_calls w)) fid jid report (w_db w)"
  have bad: "wp (release_claim fid \<bind> (\<lambda>_. err e :: unit io)) (\<lambda>_. released fid) w'" for e and w' :: world
    using frees_release [of fid] by (simp add: wp_bind wp_err frees_def)
  have good: "unclaimed fid (w_db w') \<Longrightarrow> wp (ok ()) (\<lambda>_. released fid) w'" for w' :: world
    by (simp add: wp_ok released_def)
  show "case w_fault w (w_calls w) of
      None \<Rightarrow> wp (case (case fst ?r of Inl e \<Rightarrow> Inl (write_error_text e) | Inr x \<Rightarrow> Inr x) of
          Inl e \<Rightarrow> release_claim fid \<bind> (\<lambda>_. err e) | Inr _ \<Rightarrow> ok ()) (\<lambda>_. released fid) (put_db (snd ?r) w)
    | Some e \<Rightarrow> wp (case Inl e of Inl e \<Rightarrow> release_claim fid \<bind> (\<lambda>_. err e) | Inr _ \<Rightarrow> ok ()) (\<lambda>_. released fid) (tick w)"
    using unclaimed_block [of _ fid jid report "w_db w"]
    by (auto intro!: bad good split: option.split sum.splits)
qed

section \<open>The pipeline\<close>

lemma keeps_fix_event: "keeps db_findings (fix_event kind fid jid message)"
  unfolding fix_event_def by (intro keeps_event) (simp add: log_event_def insert_event_def)

lemma calm_event: "calm_for fid (event kind message x y)"
  by (intro calm_for_keeps keeps_event grows_intros) (simp add: log_event_def insert_event_def)

lemma calm_fix_event: "calm_for fid (fix_event kind fid' jid message)"
  by (intro calm_for_keeps keeps_fix_event) (simp add: fix_event_def grows_intros)

lemma calm_pure: "calm_for fid (State_Monad.return a)" "calm_for fid (ok b)" "calm_for fid (err e)" "calm_for fid (look f)"
  by (simp_all add: calm_for_def wp_simps)

lemma calm_bind: "calm_for fid m \<Longrightarrow> (\<And>a. calm_for fid (k a)) \<Longrightarrow> calm_for fid (m \<bind> k)"
  unfolding calm_for_def wp_bind by (blast intro: wp_mono)

lemma calm_and_then: "calm_for fid m \<Longrightarrow> (\<And>a. calm_for fid (k a)) \<Longrightarrow> calm_for fid (and_then m k)"
  unfolding and_then_def by (intro calm_bind) (auto intro: calm_pure split: sum.split)

lemma frees_and_then_left: "frees fid m \<Longrightarrow> (\<And>a. calm_for fid (k a)) \<Longrightarrow> frees fid (and_then m k)"
  unfolding and_then_def by (intro frees_bind_left) (auto intro: calm_pure split: sum.split)

lemma record_fix_failure_frees: "frees_unless (\<lambda>r. is_ok (fst r)) fid (record_fix_failure fid jid failure detail summary)"
proof -
  have held: "frees_unless (\<lambda>r. is_ok (fst r)) fid
      (hold_blocked fid jid report \<bind> (\<lambda>held. case held of
         Inl e \<Rightarrow> State_Monad.return (Inl e, s)
       | Inr _ \<Rightarrow> fix_event ''fix'' fid jid msg \<bind> (\<lambda>_. State_Monad.return (Inr (), s'))))" for report msg s s'
    by (intro frees_unless_weaken frees_bind_left frees_hold_blocked)
      (auto intro!: calm_bind calm_pure calm_fix_event split: sum.split)
  show ?thesis
    unfolding record_fix_failure_def Let_def
    by (intro frees_unless_bind) (auto intro!: frees_unless_bind held simp: frees_unless_return simp del: append.simps split: sum.split)
qed

lemma frees_after_fix: "frees (f_id f) (after_fix f summary)"
  unfolding after_fix_def by (intro frees_bind_right frees_bind_left frees_release calm_pure)

lemma frees_count_unmade_tree: "frees fid (count_unmade_tree fid jid summary)"
  unfolding count_unmade_tree_def Let_def case_prod_beta
  by (intro frees_bind_right frees_bind_left frees_release) (auto intro: calm_pure split: sum.split)

lemma calm_remove_file: "calm_for fid (remove_file p)"
  unfolding remove_file_def by (intro calm_for_keeps keeps_intros grows_intros)

lemma frees_record_outcome: "frees (f_id f) (record_fix_outcome f start outcome out summary)"
proof (cases outcome)
  case (FBlocked report from_tree)
  then show ?thesis
    unfolding record_fix_outcome_def hold_blocked_fix_def Let_def
    by (auto intro!: frees_and_then_left frees_hold_blocked calm_and_then calm_pure calm_remove_file calm_fix_event
        simp del: append.simps)
next
  case (FDeclined dc)
  then show ?thesis
    unfolding record_fix_outcome_def record_declined_fix_def Let_def
    by (simp del: append.simps) (intro frees_bind_left frees_bind_right frees_release calm_pure)
next
  case (FFailed failure)
  have "frees_unless (\<lambda>_. False) (f_id f) (record_fix_failure (f_id f) jid failure detail summary \<bind> (\<lambda>r.
      case fst r of Inl e \<Rightarrow> err e | Inr _ \<Rightarrow> after_fix f (snd r)))" for jid detail
    unfolding frees_unless_def wp_bind
    by (intro allI wp_mono [OF record_fix_failure_frees [unfolded frees_unless_def, rule_format]])
      (use frees_after_fix [of f] in \<open>auto simp: frees_def wp_err split: sum.split\<close>)
  then show ?thesis
    unfolding FFailed record_fix_outcome_def Let_def fix_outcome.case case_prod_beta frees_unless_never .
qed (auto simp: record_fix_outcome_def Let_def simp del: append.simps intro!: frees_bind_right frees_after_fix)

lemma conclude_frees: "frees_unless is_ok (f_id f) (conclude_fix f start state previous)"
  unfolding conclude_fix_def Let_def
  by (intro frees_unless_bind)
    (auto intro!: frees_unless_bind frees_unless_release calm_pure simp: frees_unless_ok simp del: append.simps
      split: sum.split option.split prod.split)

lemma prompt_frees: "frees_unless is_ok (f_id f) (fix_prompt T cfg f start resume)"
  unfolding fix_prompt_def
  by (intro frees_unless_bind)
    (auto intro!: frees_unless_release calm_pure simp: frees_unless_ok simp del: append.simps split: sum.split)

lemma calm_close_workspace: "calm_for fid (close_workspace ws)"
  by (rule calm_for_keeps [OF _ grows_close_workspace])
    (auto simp: close_workspace_def release_if_idle_def intro!: keeps_intros)

lemma calm_retire_concluded: "calm_for fid (retire_concluded jid outcome)"
  unfolding retire_concluded_def Let_def
  by (intro calm_for_keeps keeps_intros grows_intros keeps_exec)
    (simp add: retire_suspended_job_def retire_job_def upd_jobs_def)

lemma finish_frees: "frees (f_id f) (finish_fix cfg f resume start rr)"
proof -
  have ended: "frees (f_id f)
      (and_then (record_fix_outcome f start outcome out summary) (\<lambda>s. do {
         _ \<leftarrow> (if state = JSuspended \<and> concluded outcome
               then retire_concluded (fs_job start) (unwrap_or (cs_outcome s) []) else State_Monad.return None);
         _ \<leftarrow> close_workspace (fs_ws start);
         ok s }))" for outcome out summary state
    by (intro frees_and_then_left frees_record_outcome)
      (auto intro!: calm_bind calm_pure calm_close_workspace calm_retire_concluded)
  show ?thesis
    unfolding finish_fix_def Let_def
    by (intro frees_bind_right)
      (rule frees_unless_never [THEN iffD1, OF frees_unless_and_then [OF conclude_frees]],
       rule frees_unless_weaken, rule ended)
qed

text \<open>What \<open>start_fix\<close> leaves: a fix that owns its finding, or a released one.\<close>

abbreviation started :: "string + (cycle_summary + fix_start) \<Rightarrow> bool" where
  "started r \<equiv> (\<exists>s. r = Inr (Inr s))"

lemma prepare_frees: "frees_unless (\<lambda>r. \<exists>b. r = Inr (Inr b)) fid (prepare_blocked_resume fid resume)"
proof (cases resume)
  case None
  then show ?thesis by (simp add: prepare_blocked_resume_def frees_unless_ok)
next
  case (Some plan)
  have held: "frees_unless P fid (and_then (hold_blocked fid jid blocker) (\<lambda>_. event kind msg x y \<bind> (\<lambda>_. ok c)))"
    for P :: "string + (cycle_summary + string option) \<Rightarrow> bool" and jid blocker kind msg x y c
    by (intro frees_unless_weaken frees_and_then_left frees_hold_blocked)
      (auto intro!: calm_bind calm_pure calm_event)
  show ?thesis
    unfolding prepare_blocked_resume_def Some option.case Let_def
    by (intro frees_unless_bind)
      (auto intro!: frees_unless_bind frees_unless_release calm_pure held simp: frees_unless_ok simp del: append.simps
        split: sum.split option.split)
qed

lemma open_frees: "frees_unless started (f_id f) (open_fix cfg f r resume cap blocker created)"
proof -
  have unmade: "frees_unless started (f_id f) (and_then (count_unmade_tree (f_id f) jid unmade) (\<lambda>summary. ok (Inl summary)))"
    for jid unmade
    by (intro frees_unless_weaken frees_and_then_left frees_count_unmade_tree calm_pure)
  show ?thesis
    unfolding open_fix_def Let_def
    by (intro frees_unless_bind)
      (auto intro!: frees_unless_release calm_pure unmade simp: frees_unless_ok simp del: append.simps split: sum.split)
qed

lemma claimed_frees: "frees_unless started (f_id f) (claimed_fix cfg f r resume cap anticipated)"
proof -
  have refused: "calm_for fid (case job_refused kind name who e of Inl text \<Rightarrow> err text | Inr summary \<Rightarrow> ok (Inl summary))"
    for fid kind name who e
    by (auto intro: calm_pure split: sum.split)
  have job: "frees_unless started (f_id f) (made \<bind> (\<lambda>made. case made of
        Inl e \<Rightarrow> release_claim (f_id f) \<bind> (\<lambda>_. err e)
      | Inr (Inl e) \<Rightarrow> release_claim (f_id f) \<bind> (\<lambda>_.
          case job_refused K_fix (Some (r_name r)) (Some (f_id f)) e of Inl text \<Rightarrow> err text | Inr summary \<Rightarrow> ok (Inl summary))
      | Inr (Inr created) \<Rightarrow> open_fix cfg f r resume cap blocker created))" for made blocker
    by (intro frees_unless_bind)
      (auto intro!: frees_unless_release calm_pure refused open_frees split: sum.split)
  show ?thesis
    unfolding claimed_fix_def Let_def frees_unless_def wp_and_then
    by (intro allI wp_mono [OF prepare_frees [unfolded frees_unless_def, rule_format]])
      (use job in \<open>auto simp: frees_unless_def wp_ok split: sum.split\<close>)
qed

section \<open>The whole job\<close>

locale fix_env = quiet_backend "ev_backend E" db_findings for E :: env
begin

lemma gate_keeps: "keeps db_findings (budget_gate E cfg rid kind use_override prefix fid resume)"
proof -
  have "keeps db_findings (event kind message x y)" for kind message x y
    by (intro keeps_event) (simp add: log_event_def insert_event_def)
  then show ?thesis
    unfolding budget_gate_def reserved_for_def anticipated_tokens_def Let_def
    by (auto intro!: keeps_intros decide_keeps split: option.split verdict.split)
qed

lemma claim_frees:
  assumes "unclaimed (f_id f) (w_db w)"
  shows "wp (and_then (call (\<lambda>now. claim_in_progress now (f_id f) Queued Fixing)) (\<lambda>claimed.
      if \<not> claimed then ok (Inl skipped) else claimed_fix cfg f r resume cap anticipated))
    (\<lambda>r w'. started r \<or> released (f_id f) w') w"
proof -
  let ?c = "claim_in_progress (w_now w (w_calls w)) (f_id f) Queued Fixing (w_db w)"
  have same: "unclaimed (f_id f) (snd ?c)" if "\<not> fst ?c"
  proof -
    have "\<forall>g \<in> set (db_findings (w_db w)). \<not> (f_id g = f_id f \<and> f_status g = Queued)"
      using that by (simp add: claim_in_progress_def Let_def rows_affected_def filter_empty_conv)
    then have "db_findings (snd ?c) = db_findings (w_db w)"
      by (auto simp: claim_in_progress_def Let_def upd_findings_def update_where_def intro!: map_idI)
    then show ?thesis using assms by (simp add: unclaimed_def)
  qed
  show ?thesis
    unfolding wp_and_then wp_call
    using assms same claimed_frees [of f cfg r resume cap anticipated]
    by (auto simp: wp_if wp_ok released_def frees_unless_def split: option.split)
qed

lemma start_frees:
  assumes "unclaimed (f_id f) (w_db w)"
  shows "wp (start_fix E cfg f resume) (\<lambda>r w'. started r \<or> released (f_id f) w') w"
proof -
  have still: "wp m (\<lambda>_ w'. unclaimed (f_id f) (w_db w')) w'"
    if "unclaimed (f_id f) (w_db w')" "keeps db_findings m" for m :: "'b act" and w'
    using that unfolding keeps_wp by (auto intro: wp_mono simp: unclaimed_def)
  have gated: "wp (and_then (budget_gate E cfg rid kind use_override prefix who resume) (\<lambda>gate. case gate of
        Inl denied \<Rightarrow> ok (Inl denied)
      | Inr (cap, anticipated) \<Rightarrow>
          and_then (call (\<lambda>now. claim_in_progress now (f_id f) Queued Fixing)) (\<lambda>claimed.
            if \<not> claimed then ok (Inl skipped) else claimed_fix cfg f r resume cap anticipated)))
      (\<lambda>r w'. started r \<or> released (f_id f) w') w'"
    if "unclaimed (f_id f) (w_db w')" for w' rid kind use_override prefix who skipped r
    unfolding wp_and_then [of "budget_gate E cfg rid kind use_override prefix who resume"]
    by (rule wp_mono [OF still [OF that gate_keeps]])
      (auto simp: wp_ok intro: released_now claim_frees split: sum.split)
  show ?thesis
  proof (cases "f_status f = Queued")
    case True
    have missing: "wp (event kind message x y \<bind> (\<lambda>_. err e)) (\<lambda>r w'. started r \<or> released (f_id f) w') w'"
      if "unclaimed (f_id f) (w_db w')" for kind message x y e and w'
      using calm_bind [OF calm_event calm_pure(3), of "f_id f" kind message x y "\<lambda>_. e"] that
      unfolding calm_for_def by (auto simp: released_def intro: wp_mono)
    show ?thesis
      unfolding start_fix_def Let_def wp_bind [of "query (get_repo_by_id (f_repo_id f))"] wp_if
      using True
      by (auto intro!: wp_mono [OF still [OF assms keeps_query]] gated missing
          simp del: append.simps split: sum.split option.split)
  next
    case False
    then show ?thesis using assms by (simp add: start_fix_def Let_def wp_ok released_def del: append.simps)
  qed
qed

lemma run_frees:
  assumes "unclaimed (f_id f) (w_db w)"
  shows "wp (run_fix E T cfg f resume) (\<lambda>_. released (f_id f)) w"
proof -
  have ran: "frees (f_id f) (run \<bind> (\<lambda>ran. case ran of
        Inr rr \<Rightarrow> finish_fix cfg f resume s rr
      | Inl e \<Rightarrow> (case fs_previous_blocker s of
          Some previous \<Rightarrow> and_then (hold_blocked (f_id f) (fs_job s) previous) (\<lambda>_. err e)
        | None \<Rightarrow> release_claim (f_id f) \<bind> (\<lambda>_. err e))))" for run :: "run_result io" and s
    by (intro frees_bind_right)
      (auto intro!: finish_frees frees_and_then_left frees_hold_blocked frees_bind_left frees_release calm_pure
        split: sum.split option.split)
  have fixed: "frees (f_id f) (and_then (fix_prompt T cfg f s resume) (\<lambda>prompt. run prompt \<bind> (\<lambda>ran. case ran of
        Inr rr \<Rightarrow> finish_fix cfg f resume s rr
      | Inl e \<Rightarrow> (case fs_previous_blocker s of
          Some previous \<Rightarrow> and_then (hold_blocked (f_id f) (fs_job s) previous) (\<lambda>_. err e)
        | None \<Rightarrow> release_claim (f_id f) \<bind> (\<lambda>_. err e)))))" for run :: "string \<Rightarrow> run_result io" and s
    by (rule frees_unless_never [THEN iffD1, OF frees_unless_and_then [OF prompt_frees]], rule frees_unless_weaken, rule ran)
  show ?thesis
    unfolding run_fix_def wp_and_then [of "start_fix E cfg f resume"]
    by (rule wp_mono [OF start_frees [OF assms]])
      (use fixed in \<open>auto simp: frees_def wp_ok split: sum.split\<close>)
qed

end

interpretation daemon: fix_env "E\<lparr>ev_backend := overdrive_backend enabled (omp_backend M U cfg)\<rparr>"
  for E enabled M and U :: "'raw mirror" and cfg
  by (simp add: fix_env_def overdriven.quiet_backend_axioms)

text \<open>C1. A fix job never strands its finding. Whatever store call, disk operation, command or worker fails at
whatever point, a finding that was not \<open>fixing\<close> when the job was picked is not \<open>fixing\<close> when it returns, with an
error or with a summary; or the write that should have put it back failed, and the error log says so.\<close>

theorem fix_never_stranded:
  assumes "unclaimed (f_id f) (w_db w)"
    and "run_state (run_fix (E\<lparr>ev_backend := overdrive_backend enabled (omp_backend M U cfg)\<rparr>) T cfg f resume) w = (r, w')"
  shows "unclaimed (f_id f) (w_db w') \<or>
    ''store write failed: '' @ release_claim_failed (f_id f) \<in> set (w_log w')"
  using wp_run [OF daemon.run_frees [OF assms(1)] assms(2)] unfolding released_def release_logged_def .

definition demo_env :: env where
  "demo_env = \<lparr>ev_backend = null_backend, ev_reason = (\<lambda>_. ''denied'')\<rparr>"

definition no_mirror :: "unit mirror" where
  "no_mirror = \<lparr>mi_rows = (\<lambda>_. None), mi_decode = (\<lambda>_. None), mi_month_length = (\<lambda>_. None), mi_month_start = (\<lambda>t. t)\<rparr>"

definition demo_text :: finding_text where
  "demo_text = \<lparr>ft_value = (\<lambda>_. JObject []), ft_pretty = (\<lambda>_. [])\<rparr>"

definition queued_finding :: finding where
  "queued_finding = sample_finding\<lparr>f_status := Queued\<rparr>"

definition queued_db :: db where
  "queued_db = repo_db\<lparr>db_findings := [queued_finding]\<rparr>"

theorem fix_never_stranded_witness:
  "\<exists>r w'. run_state (run_fix (demo_env\<lparr>ev_backend := overdrive_backend False (omp_backend (demo_omp both_calls) no_mirror
        sample_config)\<rparr>) demo_text sample_config queued_finding None) (quiet 5 queued_db) = (r, w') \<and>
     (unclaimed (f_id queued_finding) (w_db w') \<or>
      ''store write failed: '' @ release_claim_failed (f_id queued_finding) \<in> set (w_log w'))"
proof -
  obtain r w' where run: "run_state (run_fix (demo_env\<lparr>ev_backend := overdrive_backend False (omp_backend (demo_omp both_calls)
      no_mirror sample_config)\<rparr>) demo_text sample_config queued_finding None) (quiet 5 queued_db) = (r, w')"
    by fastforce
  moreover have "unclaimed (f_id queued_finding) (w_db (quiet 5 queued_db))"
    by (simp add: unclaimed_def queued_db_def queued_finding_def)
  ultimately show ?thesis using fix_never_stranded by blast
qed

section \<open>Reports\<close>

lemma takeWhile_digits_stop:
  "list_all is_ascii_digit ds \<Longrightarrow> dropWhile is_ascii_digit (ds @ STREAK_HOLD_FAILURE @ rest) = STREAK_HOLD_FAILURE @ rest"
  by (induction ds) (simp_all add: STREAK_HOLD_FAILURE_def is_ascii_digit_def byte_def)

text \<open>A failure-streak hold is recognised by its report and by nothing else: every report the daemon writes for
a streak is one, and a report is one exactly if it starts with the hold line, its count a number.\<close>

theorem streak_hold_recognised:
  "is_streak_hold (streak_hold_report (int n) failure detail) \<and>
   (is_streak_hold report \<longleftrightarrow>
     (\<exists>ds rest. ds \<noteq> [] \<and> list_all is_ascii_digit ds \<and> report = ''stuck: '' @ ds @ STREAK_HOLD_FAILURE @ rest))"
proof -
  have iff: "is_streak_hold report \<longleftrightarrow>
     (\<exists>ds rest. ds \<noteq> [] \<and> list_all is_ascii_digit ds \<and> report = ''stuck: '' @ ds @ STREAK_HOLD_FAILURE @ rest)" for report
  proof
    assume held: "is_streak_hold report"
    then obtain c r where r: "strip_prefix ''stuck: '' report = Some (c # r)" "is_ascii_digit c"
        "starts_with STREAK_HOLD_FAILURE (dropWhile is_ascii_digit r)"
      by (auto simp: is_streak_hold_def split: option.splits list.splits)
    moreover obtain rest where "dropWhile is_ascii_digit r = STREAK_HOLD_FAILURE @ rest"
      using r(3) by (auto simp: starts_with_iff)
    ultimately have "report = ''stuck: '' @ (c # takeWhile is_ascii_digit r) @ STREAK_HOLD_FAILURE @ rest"
      using takeWhile_dropWhile_id [of is_ascii_digit r] by (auto simp: strip_prefix_Some simp del: takeWhile_dropWhile_id)
    moreover have "list_all is_ascii_digit (c # takeWhile is_ascii_digit r)"
      using r(2) by (auto simp: list_all_iff dest: set_takeWhileD)
    ultimately show "\<exists>ds rest. ds \<noteq> [] \<and> list_all is_ascii_digit ds \<and> report = ''stuck: '' @ ds @ STREAK_HOLD_FAILURE @ rest"
      by blast
  next
    assume "\<exists>ds rest. ds \<noteq> [] \<and> list_all is_ascii_digit ds \<and> report = ''stuck: '' @ ds @ STREAK_HOLD_FAILURE @ rest"
    then obtain c ds rest where "is_ascii_digit c" "list_all is_ascii_digit ds"
        "report = ''stuck: '' @ (c # ds) @ STREAK_HOLD_FAILURE @ rest"
      by (metis list.exhaust list.pred_inject(2))
    then show "is_streak_hold report"
      by (simp add: is_streak_hold_def strip_prefix_def takeWhile_digits_stop starts_with_iff)
  qed
  have "is_streak_hold (streak_hold_report (int n) failure detail)"
    unfolding iff streak_hold_report_def
    by (rule exI [of _ "show_nat n"], rule exI [of _ "failure @ [CHR 0x0A, CHR 0x0A] @ detail"])
      (simp add: show_int_def show_nat_digits)
  then show ?thesis using iff by blast
qed

section \<open>Declines\<close>

definition header_text :: "string \<Rightarrow> bool" where
  "header_text v \<longleftrightarrow> v \<noteq> [] \<and> CHR 0x0A \<notin> set v \<and> trim_by (\<lambda>c. c = CHR ''*'' \<or> is_space c) v = v"

lemma trim_skips_space: "trim_by (\<lambda>c. c = CHR ''*'' \<or> is_space c) (CHR '' '' # v) = trim_by (\<lambda>c. c = CHR ''*'' \<or> is_space c) v"
  by (simp add: trim_by_def trim_start_by_def is_space_def byte_def)

lemma header_line:
  assumes "CHR '':'' \<notin> set key" "header_text v"
  shows "header (key @ '': '' @ v) = Some (to_ascii_lowercase (trim (trim_start_by (\<lambda>c. c = CHR ''-'')
      (trim (filter (\<lambda>c. c \<notin> {CHR ''*'', CHR 0x60, CHR ''_'', CHR ''#''}) key)))), v)"
proof -
  have "split_once '':'' (key @ '': '' @ v) = Some (key, CHR '' '' # v)"
    using split_once_char [OF assms(1), of "CHR '' '' # v"] by simp
  then show ?thesis using assms(2) by (simp add: header_def Let_def trim_skips_space header_text_def)
qed

lemma header_keys:
  "header_text v \<Longrightarrow> header (''Classification: '' @ v) = Some (''classification'', v)"
  "header_text v \<Longrightarrow> header (''Holds while: '' @ v) = Some (''holds while'', v)"
  "header_text v \<Longrightarrow> header (''Depends on: '' @ v) = Some (''depends on'', v)"
proof -
  have k: "to_ascii_lowercase (trim (trim_start_by (\<lambda>c. c = CHR ''-'')
      (trim (filter (\<lambda>c. c \<notin> {CHR ''*'', CHR 0x60, CHR ''_'', CHR ''#''}) ''Classification'')))) = ''classification''"
    "to_ascii_lowercase (trim (trim_start_by (\<lambda>c. c = CHR ''-'')
      (trim (filter (\<lambda>c. c \<notin> {CHR ''*'', CHR 0x60, CHR ''_'', CHR ''#''}) ''Holds while'')))) = ''holds while''"
    "to_ascii_lowercase (trim (trim_start_by (\<lambda>c. c = CHR ''-'')
      (trim (filter (\<lambda>c. c \<notin> {CHR ''*'', CHR 0x60, CHR ''_'', CHR ''#''}) ''Depends on'')))) = ''depends on''"
    by code_simp+
  show "header_text v \<Longrightarrow> header (''Classification: '' @ v) = Some (''classification'', v)"
    "header_text v \<Longrightarrow> header (''Holds while: '' @ v) = Some (''holds while'', v)"
    "header_text v \<Longrightarrow> header (''Depends on: '' @ v) = Some (''depends on'', v)"
    using header_line [of "''Classification''" v, unfolded k] header_line [of "''Holds while''" v, unfolded k]
      header_line [of "''Depends on''" v, unfolded k] by simp_all
qed

lemma class_header_text: "header_text (closure_class_str c)"
  unfolding header_text_def by (cases c) (simp_all, code_simp+)

lemma class_words: "decline_class (''Classification: '' @ closure_class_str c) = Some c"
proof -
  have w: "to_ascii_lowercase (trim_by (\<lambda>c. c = CHR 0x60) (closure_class_str c)) = closure_class_str c" for c
    by (cases c) (simp_all, code_simp+)
  show ?thesis
    by (simp only: decline_class_def header_value_def header_keys(1) [OF class_header_text] Option.bind.simps prod.case simp_thms if_True w
        closure_class.parse_text sum.case)
qed

lemma lines_cons:
  assumes "CHR 0x0A \<notin> set l" "l = [] \<or> last l \<noteq> CHR 0x0D"
  shows "lines (l @ CHR 0x0A # s) = l # lines s"
proof -
  have "split_on (CHR 0x0A) (l @ CHR 0x0A # s) = l # split_on (CHR 0x0A) s"
    using split_on_append [of "CHR 0x0A" l s] split_on_word [OF assms(1)] by simp
  moreover have "strip_cr l = l" using assms(2) by (auto simp: strip_cr_def)
  ultimately show ?thesis by (simp add: lines_def Let_def)
qed

lemma lines_single: "CHR 0x0A \<notin> set l \<Longrightarrow> l \<noteq> [] \<Longrightarrow> lines l = [l]"
  by (simp add: lines_def split_on_word)

lemma trim_by_ends:
  assumes "trim_by P v = v" "v \<noteq> []"
  shows "\<not> P (last v)"
proof -
  have "v = rev (dropWhile P (rev (dropWhile P v)))" using assms(1) by (simp add: trim_by_def trim_end_by_def trim_start_by_def)
  then have "rev v = dropWhile P (rev (dropWhile P v))" by (metis rev_rev_ident)
  then show ?thesis using assms(2) hd_dropWhile [of P "rev (dropWhile P v)"] by (metis hd_rev rev_is_Nil_conv)
qed

lemma header_text_last: "header_text v \<Longrightarrow> last v \<noteq> CHR 0x0D"
  using trim_by_ends [of "\<lambda>c. c = CHR ''*'' \<or> is_space c" v] by (auto simp: header_text_def is_space_def byte_def)

definition decline_report :: "closure_class \<Rightarrow> string \<Rightarrow> string \<Rightarrow> string \<Rightarrow> string" where
  "decline_report c holds path explanation =
     (''Classification: '' @ closure_class_str c) @ CHR 0x0A # (''Holds while: '' @ holds) @ CHR 0x0A #
     (''Depends on: '' @ path) @ CHR 0x0A # [] @ CHR 0x0A # explanation"

text \<open>A decline report written the way the playbooks ask is read back whole: its classification, the condition
under which the verdict holds, the path it depends on, and the explanation as the reason, cut at 500 characters.\<close>

theorem decline_report_read_back:
  assumes "header_text holds" "header_text path" "CHR '','' \<notin> set path" "trim path = path"
    and "trim explanation = explanation" "explanation \<noteq> []" "CHR '':'' \<notin> set explanation" "CHR 0x0A \<notin> set explanation"
  shows "parse_decline (decline_report c holds path explanation) =
    \<lparr>dc_class = Some c, dc_reason = take_chars 500 (closure_class_str c @ '': '' @ explanation),
     dc_holds_while = Some holds, dc_depends_on = [path]\<rparr>"
proof -
  let ?rest = "(''Holds while: '' @ holds) @ CHR 0x0A # (''Depends on: '' @ path) @ CHR 0x0A # [] @ CHR 0x0A # explanation"
  have body: "trim_start_by is_space (decline_report c holds path explanation) = decline_report c holds path explanation"
    by (simp add: decline_report_def trim_start_by_def is_space_def byte_def)
  have first: "split_once newline (decline_report c holds path explanation) = Some (''Classification: '' @ closure_class_str c, ?rest)"
    unfolding decline_report_def newline_def by (rule split_once_char) (cases c; simp)
  have rest: "lines ?rest = [''Holds while: '' @ holds, ''Depends on: '' @ path, [], explanation]"
  proof -
    have "CHR 0x0A \<notin> set (''Holds while: '' @ holds)" "CHR 0x0A \<notin> set (''Depends on: '' @ path)"
      "last (''Holds while: '' @ holds) \<noteq> CHR 0x0D" "last (''Depends on: '' @ path) \<noteq> CHR 0x0D"
      using assms(1,2) header_text_last [of holds] header_text_last [of path] by (auto simp: header_text_def)
    then show ?thesis
      using lines_cons [of "[]" explanation] lines_single [OF assms(8,6)]
      by (simp only: lines_cons simp_thms list.set empty_iff)
  qed
  have headers: "decline_headers (lines ?rest) None [] = (Some holds, [path], [explanation])"
  proof -
    have "comma_list path = [path]" using assms(2,3,4) by (simp add: comma_list_def split_on_word header_text_def)
    moreover have "header [] = None" by (simp add: header_def split_once_def)
    moreover have "header explanation = None" using assms(7) by (simp add: header_def split_once_char_None)
    moreover have "trim [] = []" by (simp add: trim_def trim_by_def trim_start_by_def trim_end_by_def)
    ultimately show ?thesis
      unfolding rest
      by (simp only: decline_headers.simps header_value_def header_keys [OF assms(1)] header_keys [OF assms(2)])
        (simp add: assms(5,6))
  qed
  show ?thesis
    unfolding parse_decline_def Let_def body first unwrap_or_def
    by (simp only: option.case prod.case headers join.simps assms(5,6) if_False class_words)
qed

theorem decline_report_read_back_witness:
  "parse_decline (decline_report CWrong ''it holds'' ''a.rs'' ''no bug'') =
    \<lparr>dc_class = Some CWrong, dc_reason = take_chars 500 (closure_class_str CWrong @ '': '' @ ''no bug''),
     dc_holds_while = Some ''it holds'', dc_depends_on = [''a.rs'']\<rparr>"
  by (rule decline_report_read_back) (code_simp+)

end
