(* ===== verification/PrSync.thy ===== *)
theory PrSync
  imports Forge StorePrs Calendar Attempts
begin

text \<open>
Pull requests followed on the forge (\<open>sync_prs\<close> of \<open>scheduler.rs\<close>): for every finding with an open pull
request, its state is read, a merge or closure recorded, and for an open one whether it needs attention is
decided from comments, review, mergeability and checks.

\<open>serde_json\<close> stays the parameter \<open>decoders\<close>. What the walk guarantees is proved in \<open>PrAttention\<close>.
\<close>

section \<open>What a view says\<close>

definition latest_activity_ms :: "pr_view \<Rightarrow> millis" where
  "latest_activity_ms pr =
     (case map (\<lambda>c. iso_ms (gc_created_at c)) (pv_comments pr) @ map (\<lambda>r. iso_ms (gr_submitted_at r)) (pv_reviews pr) of
        [] \<Rightarrow> 0
      | t # ts \<Rightarrow> fold max ts t)"

definition check_name :: "gh_check_run \<Rightarrow> string" where
  "check_name c = unwrap_or (opt_or (ck_name c) (ck_context c)) ''?''"

definition check_outcome :: "gh_check_run \<Rightarrow> check_conclusion" where
  "check_outcome c = check_conclusion_parse (unwrap_or (opt_or (ck_conclusion c) (ck_state c)) [])"

definition failing_checks :: "gh_check_run list \<Rightarrow> string list" where
  "failing_checks rollup = sort (remdups (map check_name (filter (\<lambda>c. is_failing (check_outcome c)) rollup)))"

definition checks_summary :: "gh_check_run list \<Rightarrow> string option \<times> bool \<times> string list" where
  "checks_summary rollup =
     (if rollup = [] then (None, False, [])
      else
        (let failing = failing_checks rollup;
             fails = length (filter (\<lambda>c. is_failing (check_outcome c)) rollup);
             passes = length (filter (\<lambda>c. is_passing (check_outcome c)) rollup);
             pending = length rollup - fails - passes
         in (Some (join '' / '' ([show_nat passes @ '' pass''] @
                     (if failing \<noteq> [] then [show_nat fails @ '' fail''] else []) @
                     (if 0 < pending then [show_nat pending @ '' pending''] else []))),
             failing \<noteq> [], failing)))"

definition attention_fingerprint :: "pr_view \<Rightarrow> string list \<Rightarrow> string option" where
  "attention_fingerprint pr failing =
     (let parts = (if pv_review_decision pr = ChangesRequested then [''review:CHANGES_REQUESTED''] else []) @
                  (if pv_mergeable pr = MConflicting then [''mergeable:CONFLICTING''] else []) @
                  (if failing \<noteq> [] then [''checks:'' @ join '','' failing] else [])
      in if parts = [] then None else Some (join ''|'' parts))"

section \<open>Attention\<close>

text \<open>The activity up to which the daemon has engaged: on the first sync, everything there is.\<close>

definition engaged_until :: "pr option \<Rightarrow> pr_view \<Rightarrow> millis" where
  "engaged_until prev pr =
     unwrap_or (Option.bind prev p_last_engaged_activity_at) (max (iso_ms (pv_updated_at pr)) (latest_activity_ms pr))"

definition already_addressed :: "pr option \<Rightarrow> pr_view \<Rightarrow> string option \<Rightarrow> bool" where
  "already_addressed prev pr fp \<longleftrightarrow>
     fp \<noteq> None \<and> fp = Option.bind prev p_addressed_fingerprint \<and>
     Option.bind prev p_addressed_head_sha = Some (pv_head_sha pr)"

definition attention_reasons :: "pr option \<Rightarrow> pr_view \<Rightarrow> string list" where
  "attention_reasons prev pr =
     (let (_, failing, names) = checks_summary (pv_status_check_rollup pr);
          fp = attention_fingerprint pr names
      in (if engaged_until prev pr < latest_activity_ms pr then [''new_comments''] else []) @
         (if already_addressed prev pr fp then []
          else (if pv_review_decision pr = ChangesRequested then [''changes_requested''] else []) @
               (if pv_mergeable pr = MConflicting then [''conflict''] else []) @
               (if failing then [''checks_failing''] else [])))"

definition attention_of :: "pr option \<Rightarrow> pr_view \<Rightarrow> string option" where
  "attention_of prev pr =
     (let reasons = attention_reasons prev pr in if reasons = [] then None else Some (join '','' reasons))"

definition sync_data :: "pr option \<Rightarrow> pr_view \<Rightarrow> int \<Rightarrow> millis \<Rightarrow> millis \<Rightarrow> sync_pr_data" where
  "sync_data prev pr pr_number since synced =
     (let (checks, _, names) = checks_summary (pv_status_check_rollup pr);
          fp = attention_fingerprint pr names;
          attention = attention_of prev pr;
          addressed_fp = Option.bind prev p_addressed_fingerprint;
          addressed_sha = Option.bind prev p_addressed_head_sha
      in \<lparr>sp_pr_number = pr_number, sp_state = pr_state_str (pv_state pr), sp_mergeable = mergeable_str (pv_mergeable pr),
          sp_checks = checks, sp_head_ref = pv_head_ref pr, sp_head_sha = pv_head_sha pr,
          sp_last_activity_at = latest_activity_ms pr, sp_last_engaged_activity_at = engaged_until prev pr,
          sp_needs_attention = attention, sp_attention_fingerprint = fp, sp_synced_at = synced,
          sp_attention_since =
            (if attention \<noteq> Option.bind prev p_needs_attention
             then Some (if attention \<noteq> None then Some since else None) else None),
          sp_clear_addressed = (addressed_fp \<noteq> None \<and> (fp \<noteq> addressed_fp \<or> Some (pv_head_sha pr) \<noteq> addressed_sha))\<rparr>)"

section \<open>The walk\<close>

definition sync_error :: "int \<Rightarrow> string \<Rightarrow> sync_result \<Rightarrow> sync_result act" where
  "sync_error fid what s = do {
     _ \<leftarrow> event ''error'' (''sync #'' @ show_int fid @ '': '' @ what) None (Some fid);
     State_Monad.return (s\<lparr>sr_errors := sr_errors s + 1\<rparr>)
   }"

definition sync_urlless :: "int \<Rightarrow> unit act" where
  "sync_urlless fid = do {
     _ \<leftarrow> log_write_failure (exec (\<lambda>now. set_finding_status now fid Queued))
            (''#'' @ show_int fid @ '': status -> queued'');
     ignore (event ''fix'' (''#'' @ show_int fid @ '' requeued: pr_open with no pr_url (prior fix failed before PR creation)'')
       None (Some fid))
   }"

definition sync_merged :: "int \<Rightarrow> string \<Rightarrow> int \<Rightarrow> sync_result \<Rightarrow> sync_result act" where
  "sync_merged fid url pr_number s = do {
     _ \<leftarrow> log_write_failure (exec (\<lambda>now. set_finding_status now fid Merged))
            (''#'' @ show_int fid @ '': status -> merged'');
     _ \<leftarrow> log_write_failure (exec (\<lambda>now. mark_pr_merged fid pr_number now))
            (''#'' @ show_int fid @ '': recording PR #'' @ show_int pr_number @ '' merged'');
     _ \<leftarrow> event ''ship'' (''#'' @ show_int fid @ '' PR merged: '' @ url) None (Some fid);
     State_Monad.return (s\<lparr>sr_merged := sr_merged s + 1\<rparr>)
   }"

definition sync_closed :: "int \<Rightarrow> string \<Rightarrow> int \<Rightarrow> sync_result \<Rightarrow> sync_result act" where
  "sync_closed fid url pr_number s = do {
     recorded \<leftarrow> exec (\<lambda>now. mark_pr_closed fid pr_number now);
     (case recorded of
        Inl e \<Rightarrow> sync_error fid (''PR closed but not recorded: '' @ e @ '' (the next sync retries)'') s
      | Inr _ \<Rightarrow> do {
          _ \<leftarrow> log_write_failure
                (exec (\<lambda>now. set_finding_verdict now fid Closed ''PR closed without merge; awaiting harvest''))
                (''#'' @ show_int fid @ '': verdict -> closed'');
          _ \<leftarrow> event ''verdict'' (''#'' @ show_int fid @ '' PR closed without merge: '' @ url) None (Some fid);
          State_Monad.return (s\<lparr>sr_closed := sr_closed s + 1\<rparr>) })
   }"

definition sync_open :: "int \<Rightarrow> int \<Rightarrow> pr_view \<Rightarrow> sync_result \<Rightarrow> sync_result act" where
  "sync_open fid pr_number pr s = do {
     read \<leftarrow> query (\<lambda>d. get_pr_state d fid);
     let prev = result_or read None;
     let attention = attention_of prev pr;
     since \<leftarrow> look (\<lambda>w. w_now w (w_calls w));
     synced \<leftarrow> look (\<lambda>w. w_now w (w_calls w));
     _ \<leftarrow> log_write_failure (exec (\<lambda>_. sync_pr_open fid (sync_data prev pr pr_number since synced)))
            (''#'' @ show_int fid @ '': recording synced PR state'');
     _ \<leftarrow> (if attention \<noteq> None \<and> attention \<noteq> Option.bind prev p_needs_attention
           then ignore (event ''engage'' (''#'' @ show_int fid @ '' PR #'' @ show_int pr_number @ '' needs attention: '' @
                          unwrap_or attention []) None (Some fid))
           else State_Monad.return ());
     State_Monad.return (s\<lparr>sr_synced := sr_synced s + 1, sr_attention := sr_attention s + of_bool (attention \<noteq> None)\<rparr>)
   }"

definition sync_one :: "decoders \<Rightarrow> config \<Rightarrow> finding \<Rightarrow> sync_result \<Rightarrow> sync_result act" where
  "sync_one D cfg f s =
     (let fid = f_id f; url = unwrap_or (f_pr_url f) []
      in if url = [] then do { _ \<leftarrow> sync_urlless fid; State_Monad.return s }
         else do {
           found \<leftarrow> query (get_repo_by_id (f_repo_id f));
           (case found of
              Inr (Some r) \<Rightarrow>
                (case parse_pr_url (r_forge r) url of
                   None \<Rightarrow> sync_error fid (''unparseable pr_url '' @ quoted url) s
                 | Some (_, pr_number) \<Rightarrow> do {
                     view \<leftarrow> view_pr_sync (r_forge r) D (r_url r) pr_number (cf_review_bots cfg);
                     (case view of
                        Inl e \<Rightarrow> sync_error fid (''PR view failed: '' @ e) s
                      | Inr pr \<Rightarrow>
                          (case pv_state pr of
                             PrMerged \<Rightarrow> sync_merged fid url pr_number s
                           | PrClosed \<Rightarrow> sync_closed fid url pr_number s
                           | pr_state.PrOpen \<Rightarrow> sync_open fid pr_number pr s)) })
            | _ \<Rightarrow> sync_error fid (''repo '' @ show_int (f_repo_id f) @ '' missing'') s) })"

fun sync_each :: "decoders \<Rightarrow> config \<Rightarrow> finding list \<Rightarrow> sync_result \<Rightarrow> sync_result act" where
  "sync_each D cfg [] s = State_Monad.return s"
| "sync_each D cfg (f # fs) s = do { s' \<leftarrow> sync_one D cfg f s; sync_each D cfg fs s' }"

definition sync_prs :: "decoders \<Rightarrow> config \<Rightarrow> sync_result act" where
  "sync_prs D cfg = do {
     read \<leftarrow> query (findings_with finding_status.PrOpen);
     sync_each D cfg (result_or read []) \<lparr>sr_synced = 0, sr_merged = 0, sr_closed = 0, sr_attention = 0, sr_errors = 0\<rparr>
   }"

end
