(* ===== verification/ForgeFrame.thy ===== *)
theory ForgeFrame
  imports Forge
begin

text \<open>
The forge's operations run commands and fill the lookup cache; none of them touches the database. Stated once
for every view of it, as rules for \<open>keeps\<close>.
\<close>

lemma keeps_remember [keeps_intros]: "keeps h (remember answers)"
  by (simp add: keeps_def remember_def)

lemma keeps_cached_lookup [keeps_intros]: "keeps h look_up \<Longrightarrow> keeps h (cached_lookup key look_up)"
  unfolding cached_lookup_def by (auto intro!: keeps_intros split: option.split)

lemma keeps_voice_of [keeps_intros]:
  "(\<And>l. keeps h (can_push l)) \<Longrightarrow> keeps h (voice_of bots is_bot can_push item author known)"
  unfolding voice_of_def Let_def by (auto intro!: keeps_intros split: option.split sum.split)

lemma keeps_screen_items [keeps_intros]:
  "(\<And>i known. keeps h (speaks i known)) \<Longrightarrow> keeps h (screen_items speaks tagged items known)"
  by (induction items arbitrary: known) (auto intro!: keeps_intros split: option.split)

lemma keeps_screen_feedback [keeps_intros]:
  "(\<And>l. keeps h (can_push l)) \<Longrightarrow> keeps h (screen_feedback pr bots is_bot can_push)"
  unfolding screen_feedback_def Let_def by (auto intro!: keeps_intros)

lemma keeps_ask_author_types [keeps_intros]: "keeps h (ask_author_types url host cs)"
  by (induction cs) (auto simp: github_author_types_def intro!: keeps_intros split: option.split)

lemma keeps_github_screen [keeps_intros]: "keeps h (github_screen url pr bots)"
  unfolding github_screen_def Let_def github_bot_authored_def github_can_push_def github_api_jq_def
  by (auto intro!: keeps_intros split: option.split prod.split)

lemma keeps_github_view [keeps_intros]: "keeps h (github_view D wanted url n bots)"
  unfolding github_view_def github_slug_def gh_pr_view_def Let_def
  by (auto intro!: keeps_intros split: option.split prod.split sum.split)

lemma keeps_gitlab_api [keeps_intros]: "keeps h (gitlab_api url path verb params)"
  unfolding gitlab_api_def by (rule keeps_shell)

lemma keeps_gitlab_view [keeps_intros]: "keeps h (gitlab_view D texts url n bots)"
  unfolding gitlab_view_def gitlab_project_def gitlab_fetch_mr_def gitlab_feedback_def gitlab_can_push_def Let_def
  by (auto intro!: keeps_intros split: option.split prod.split sum.split)

lemma keeps_must [keeps_intros]: "keeps h cmd \<Longrightarrow> keeps h (must what cmd)"
  unfolding must_def by (auto intro!: keeps_intros)

lemma keeps_diff_pages [keeps_intros]: "keeps h (gitlab_diff_pages D url path page pages files)"
  by (induction pages arbitrary: page files) (auto simp: Let_def intro!: keeps_intros split: sum.split)

lemma keeps_pr_diff [keeps_intros]: "keeps h (pr_diff fg D url n)"
  by (cases fg) (auto simp: github_slug_def gitlab_project_def Let_def intro!: keeps_intros split: option.split prod.split)

lemma keeps_comment_pr [keeps_intros]: "keeps h (comment_pr fg url n body)"
  by (cases fg) (auto simp: github_slug_def gitlab_project_def intro!: keeps_intros split: option.split prod.split)

lemma keeps_close_pr [keeps_intros]: "keeps h (close_pr fg url n body)"
  by (cases fg) (auto simp: comment_first_def github_slug_def gitlab_project_def intro!: keeps_intros split: option.split prod.split)

lemma keeps_push [keeps_intros]: "keeps h (push fg repo_path url branch)"
  unfolding push_def by (auto intro!: keeps_intros)

lemma keeps_view_pr [keeps_intros]:
  "keeps h (view_pr_sync fg D url n bots)" "keeps h (view_pr_engage fg D url n bots)"
  by (cases fg; simp add: keeps_intros)+

end
