(* ===== verification/PrAttention.thy ===== *)
theory PrAttention
  imports PrSync ForgeFrame
begin

text \<open>
What the walk over open pull requests guarantees: a finding it closes stays within reach of the harvest
whatever fails, and attention is asked for exactly when something happened that no engage cycle answered.
\<close>

section \<open>Attention\<close>

lemma failing_checks_set: "set (failing_checks rollup) = check_name ` {c \<in> set rollup. is_failing (check_outcome c)}"
  by (simp add: failing_checks_def)

lemma failing_checks_sorted: "sorted (failing_checks rollup)" and failing_checks_distinct: "distinct (failing_checks rollup)"
  by (simp_all add: failing_checks_def)

lemma checks_summary_failing:
  "fst (snd (checks_summary rollup)) = (snd (snd (checks_summary rollup)) \<noteq> [])"
  "snd (snd (checks_summary rollup)) = failing_checks rollup"
  by (simp_all add: checks_summary_def Let_def failing_checks_def)

definition static_reason :: "pr_view \<Rightarrow> bool" where
  "static_reason pr \<longleftrightarrow> pv_review_decision pr = ChangesRequested \<or> pv_mergeable pr = MConflicting \<or>
     (\<exists>c \<in> set (pv_status_check_rollup pr). is_failing (check_outcome c))"

definition view_fingerprint :: "pr_view \<Rightarrow> string option" where
  "view_fingerprint pr = attention_fingerprint pr (failing_checks (pv_status_check_rollup pr))"

lemma failing_checks_Nil: "failing_checks rollup = [] \<longleftrightarrow> \<not> (\<exists>c \<in> set rollup. is_failing (check_outcome c))"
  using failing_checks_set [of rollup] by (auto simp flip: set_empty)

lemma fingerprint_iff: "view_fingerprint pr = None \<longleftrightarrow> \<not> static_reason pr"
  by (auto simp: view_fingerprint_def attention_fingerprint_def static_reason_def failing_checks_Nil Let_def)

lemma attention_iff:
  "attention_of prev pr = None \<longleftrightarrow> latest_activity_ms pr \<le> engaged_until prev pr \<and>
     (view_fingerprint pr = None \<or> already_addressed prev pr (view_fingerprint pr))"
  unfolding attention_of_def attention_reasons_def Let_def case_prod_beta checks_summary_failing fingerprint_iff
  by (auto simp: static_reason_def failing_checks_Nil view_fingerprint_def)

lemma sync_row:
  "\<exists>q. get_pr_state (sync_pr_open fid s d) fid = Some q \<and> p_last_activity_at q = Some (sp_last_activity_at s) \<and>
     p_attention_fingerprint q = sp_attention_fingerprint s \<and> p_head_sha q = Some (sp_head_sha s)"
proof -
  have row: "p_finding_id (synced_row s q) = p_finding_id q" for q by (simp add: synced_row_def)
  have "\<exists>q. get_pr_state (upsert_pr fid (synced_row s) (\<lambda>p. synced_row s (carry_harvest (sp_pr_number s) p)) d) fid
      = Some (synced_row s q)"
    by (subst get_upsert_pr) (auto simp: row empty_pr_def split: option.split)
  then obtain q where q: "get_pr_state (upsert_pr fid (synced_row s)
      (\<lambda>p. synced_row s (carry_harvest (sp_pr_number s) p)) d) fid = Some (synced_row s q)" by blast
  show ?thesis
    unfolding sync_pr_open_def Let_def
    by (cases "sp_attention_since s"; cases "sp_clear_addressed s")
      (simp_all add: q prs.get_upd_key, simp_all add: synced_row_def)
qed

lemma aside_row:
  assumes "get_pr_state d fid = Some q"
  shows "\<exists>p. get_pr_state (set_attention_aside now fid d) fid = Some p \<and>
    p_last_engaged_activity_at p = coalesce (p_last_activity_at q) (Some now) \<and>
    p_addressed_fingerprint p = p_attention_fingerprint q \<and> p_addressed_head_sha p = p_head_sha q"
  using assms by (simp add: set_attention_aside_def prs.get_upd_key)

lemma synced_then_aside:
  "\<exists>p. get_pr_state (set_attention_aside now fid (sync_pr_open fid (sync_data prev pr n since synced) d)) fid = Some p \<and>
    p_last_engaged_activity_at p = Some (latest_activity_ms pr) \<and>
    p_addressed_fingerprint p = view_fingerprint pr \<and> p_addressed_head_sha p = Some (pv_head_sha pr)"
proof -
  let ?s = "sync_data prev pr n since synced"
  have s: "sp_last_activity_at ?s = latest_activity_ms pr" "sp_attention_fingerprint ?s = view_fingerprint pr"
    "sp_head_sha ?s = pv_head_sha pr"
    by (simp_all add: sync_data_def Let_def case_prod_beta checks_summary_failing view_fingerprint_def)
  obtain q where "get_pr_state (sync_pr_open fid ?s d) fid = Some q" "p_last_activity_at q = Some (latest_activity_ms pr)"
    "p_attention_fingerprint q = view_fingerprint pr" "p_head_sha q = Some (pv_head_sha pr)"
    using sync_row [of fid ?s d] s by auto
  then show ?thesis using aside_row by (fastforce simp: coalesce_def)
qed

text \<open>C19. Attention is asked for exactly when something changed since it was last set aside: after a sync of
  one view and an engage cycle that set its attention aside, a later view is flagged exactly if it has a
  newer comment or review, or a static reason (changes requested, a conflict, a failing check) that is not the
  very one set aside on the same head commit.\<close>

theorem attention_exactly_on_change:
  assumes "get_pr_state (set_attention_aside now fid (sync_pr_open fid (sync_data prev pr n since synced) d)) fid = Some p"
  shows "attention_of (Some p) pr' \<noteq> None \<longleftrightarrow>
    latest_activity_ms pr < latest_activity_ms pr' \<or>
    (static_reason pr' \<and> \<not> (view_fingerprint pr' = view_fingerprint pr \<and> pv_head_sha pr' = pv_head_sha pr))"
proof -
  have p: "p_last_engaged_activity_at p = Some (latest_activity_ms pr)"
    "p_addressed_fingerprint p = view_fingerprint pr" "p_addressed_head_sha p = Some (pv_head_sha pr)"
    using synced_then_aside [of now fid prev pr n since synced d] assms by auto
  have "engaged_until (Some p) pr' = latest_activity_ms pr"
    by (simp add: engaged_until_def p)
  then show ?thesis
    using p fingerprint_iff [of pr'] by (cases "view_fingerprint pr'") (auto simp: attention_iff already_addressed_def)
qed

text \<open>The same view again is never flagged; the same failure on a new commit is.\<close>

definition failing_view :: pr_view where
  "failing_view = no_view\<lparr>pv_head_sha := ''abc'',
     pv_status_check_rollup := [\<lparr>ck_name = Some ''test'', ck_context = None, ck_conclusion = Some ''FAILURE'', ck_state = None\<rparr>]\<rparr>"

theorem attention_exactly_on_change_witness:
  "\<exists>p. get_pr_state (set_attention_aside 9 1 (sync_pr_open 1 (sync_data None failing_view 7 2 3) empty_db)) 1 = Some p \<and>
     attention_of (Some p) failing_view = None \<and>
     attention_of (Some p) (failing_view\<lparr>pv_head_sha := ''def''\<rparr>) \<noteq> None"
proof -
  obtain p where p: "get_pr_state (set_attention_aside 9 1 (sync_pr_open 1 (sync_data None failing_view 7 2 3) empty_db)) 1 = Some p"
    using synced_then_aside by blast
  have "static_reason (failing_view\<lparr>pv_head_sha := ''def''\<rparr>)"
    by (simp add: static_reason_def failing_view_def check_outcome_def) code_simp
  with attention_exactly_on_change [OF p, of failing_view] attention_exactly_on_change [OF p, of "failing_view\<lparr>pv_head_sha := ''def''\<rparr>"] p
  show ?thesis by (auto simp: failing_view_def latest_activity_ms_def)
qed

section \<open>Closed findings stay within reach of the harvest\<close>

definition closed_watched :: "db \<Rightarrow> bool" where
  "closed_watched d \<longleftrightarrow> (\<forall>f \<in> set (db_findings d). f_status f = Closed \<longrightarrow>
     (\<exists>p. get_pr_state d (f_id f) = Some p \<and> p_state p = Some ''CLOSED''))"

definition none_closed :: "int set \<Rightarrow> db \<Rightarrow> bool" where
  "none_closed S d \<longleftrightarrow> (\<forall>f \<in> set (db_findings d). f_id f \<in> S \<longrightarrow> f_status f \<noteq> Closed)"

definition watched :: "int set \<Rightarrow> db \<Rightarrow> bool" where
  "watched S d \<longleftrightarrow> closed_watched d \<and> none_closed S d"

lemma get_upsert_pr_other:
  assumes "\<And>p. p_finding_id (g p) = p_finding_id p" "p_finding_id (r (empty_pr fid)) = fid" "k \<noteq> fid"
  shows "get_pr_state (upsert_pr fid r g d) k = get_pr_state d k"
  using find_upsert_other [of p_finding_id g "r (empty_pr fid)" k fid "db_prs d"] assms
  by (simp add: get_pr_state_def upsert_pr_def)

lemma watched_prs:
  assumes "watched S d" "fid \<in> S" "db_findings d' = db_findings d" "\<And>k. k \<noteq> fid \<Longrightarrow> get_pr_state d' k = get_pr_state d k"
  shows "watched S d'"
  using assms unfolding watched_def closed_watched_def none_closed_def by metis

lemma watched_event: "watched S d \<Longrightarrow> watched S (log_event now kind message x y d)"
  by (simp add: watched_def closed_watched_def none_closed_def get_pr_state_def frame_simps)

lemma watched_status:
  assumes "watched S d" "s \<noteq> Closed"
  shows "watched S (set_finding_status now fid s d)"
proof -
  have f: "db_findings (set_finding_status now fid s d) =
      map (\<lambda>f. if f_id f = fid then f\<lparr>f_status := s, f_updated_at := now\<rparr> else f) (db_findings d)"
    by (simp add: set_finding_status_def upd_findings_def update_where_def)
  have p: "get_pr_state (set_finding_status now fid s d) = get_pr_state d"
    by (simp add: fun_eq_iff set_finding_status_def upd_findings_def get_pr_state_def)
  show ?thesis
    using assms unfolding watched_def closed_watched_def none_closed_def
    by (simp only: f p set_map ball_simps) auto
qed

lemma watched_merged: "watched S d \<Longrightarrow> fid \<in> S \<Longrightarrow> watched S (mark_pr_merged fid n stamp d)"
  by (erule (1) watched_prs)
    (simp_all add: mark_pr_merged_def get_upsert_pr_other with_state_def empty_pr_def, simp_all add: upsert_pr_def)

lemma watched_marked: "watched S d \<Longrightarrow> fid \<in> S \<Longrightarrow> watched S (mark_pr_closed fid n stamp d)"
  by (erule (1) watched_prs)
    (simp_all add: mark_pr_closed_def get_upsert_pr_other with_state_def empty_pr_def, simp_all add: upsert_pr_def)

lemma watched_open: "watched S d \<Longrightarrow> fid \<in> S \<Longrightarrow> watched S (sync_pr_open fid s d)"
  by (erule (1) watched_prs)
    (simp_all add: sync_pr_open_def Let_def prs.get_upd_other get_upsert_pr_other synced_row_def empty_pr_def
      split: option.split, simp_all add: upsert_pr_def upd_prs_def)

lemma closed_recorded: "\<exists>p. get_pr_state (mark_pr_closed fid n stamp d) fid = Some p \<and> p_state p = Some ''CLOSED''"
  unfolding mark_pr_closed_def
  by (subst get_upsert_pr) (simp_all add: with_state_def empty_pr_def split: option.split)

lemma watched_closed:
  assumes "watched S d" "get_pr_state d fid = Some p" "p_state p = Some ''CLOSED''"
  shows "watched (S - {fid}) (set_finding_verdict now fid Closed reason d)"
proof -
  let ?d' = "set_finding_verdict now fid Closed reason d"
  have f: "db_findings ?d' = map (\<lambda>f. if f_id f = fid
      then f\<lparr>f_status := Closed, f_verdict_reason := Some reason, f_updated_at := now\<rparr> else f) (db_findings d)"
    by (simp add: set_finding_verdict_def set_anchored_verdict_def write_anchor_def upd_findings_def update_where_def)
  have p: "get_pr_state ?d' = get_pr_state d"
    by (simp add: fun_eq_iff set_finding_verdict_def set_anchored_verdict_def write_anchor_def upd_findings_def get_pr_state_def)
  show ?thesis
    using assms unfolding watched_def closed_watched_def none_closed_def
    by (simp only: f p set_map ball_simps) auto
qed

section \<open>The walk\<close>

abbreviation guards :: "int set \<Rightarrow> 'a act \<Rightarrow> bool" where
  "guards S \<equiv> preserves (\<lambda>d _ _. watched S d)"

lemma guards_keeps: "keeps (\<lambda>d. d) m \<Longrightarrow> guards S m"
  unfolding preserves_def keeps_wp by (intro allI impI) (erule allE, erule wp_mono, simp)

lemma guards_event [preserves_intros]: "guards S (event kind message x y)"
  by (intro preserves_event watched_event)

lemma guards_sync_error [preserves_intros]: "guards S (sync_error fid what s)"
  unfolding sync_error_def by (intro preserves_intros)

lemma guards_urlless: "guards S (sync_urlless fid)"
  unfolding sync_urlless_def by (intro preserves_intros preserves_exec watched_status) simp_all

lemma guards_merged: "fid \<in> S \<Longrightarrow> guards S (sync_merged fid url n s)"
  unfolding sync_merged_def by (intro preserves_intros preserves_exec watched_status watched_merged) simp_all

lemma guards_open: "fid \<in> S \<Longrightarrow> guards S (sync_open fid n pr s)"
  unfolding sync_open_def Let_def by (intro preserves_intros preserves_exec watched_open)

lemma watched_mono: "watched S d \<Longrightarrow> T \<subseteq> S \<Longrightarrow> watched T d"
  by (auto simp: watched_def none_closed_def)

lemma closed_step:
  assumes "watched S (w_db w)" "fid \<in> S"
  shows "wp (sync_closed fid url n s) (\<lambda>_ w'. watched (S - {fid}) (w_db w')) w"
proof -
  let ?P = "\<lambda>_ w'. watched (S - {fid}) (w_db w')"
  have tail: "wp (log_write_failure
        (exec (\<lambda>now. set_finding_verdict now fid Closed ''PR closed without merge; awaiting harvest'')) m \<bind> (\<lambda>_.
      event k t x y \<bind> (\<lambda>_. State_Monad.return r))) ?P w'"
    if "watched S (w_db w')" "get_pr_state (w_db w') fid = Some p" "p_state p = Some ''CLOSED''" for w' p m k t x y and r :: sync_result
    using that watched_mono [of S _ "S - {fid}"]
    by (auto simp: wp_simps watched_event watched_closed split: option.split)
  have err: "wp (sync_error fid what s) ?P w'" if "watched S (w_db w')" for what w'
    using guards_sync_error [of "S - {fid}" fid what s] watched_mono [OF that, of "S - {fid}"] by (auto simp: preserves_def)
  obtain p where p: "get_pr_state (mark_pr_closed fid n (w_now w (w_calls w)) (w_db w)) fid = Some p" "p_state p = Some ''CLOSED''"
    using closed_recorded by blast
  show ?thesis
    unfolding sync_closed_def
    by (subst wp_bind, subst wp_exec)
      (use assms p in \<open>auto simp del: append.simps simp: watched_marked intro!: err tail split: option.split\<close>)
qed

lemma sync_step:
  assumes "watched S (w_db w)" "f_id f \<in> S"
  shows "wp (sync_one D cfg f s) (\<lambda>_ w'. watched (S - {f_id f}) (w_db w')) w"
proof -
  have weaker: "wp m (\<lambda>_ w'. watched (S - {f_id f}) (w_db w')) w'" if "guards S m" "watched S (w_db w')" for m :: "sync_result act" and w'
  proof -
    have "wp m (\<lambda>_ w'. watched S (w_db w')) w'" using that by (simp add: preserves_def)
    then show ?thesis by (rule wp_mono) (auto intro: watched_mono)
  qed
  have view: "wp (view_pr_sync fg D url n bots \<bind> k) Q w'" if "watched S (w_db w')" "\<And>a w'. watched S (w_db w') \<Longrightarrow> wp (k a) Q w'"
    for fg url n bots k w' and Q :: "sync_result \<Rightarrow> world \<Rightarrow> bool"
  proof -
    have "guards S (view_pr_sync fg D url n bots)" by (intro guards_keeps keeps_intros)
    with that(1) have "wp (view_pr_sync fg D url n bots) (\<lambda>_ w'. watched S (w_db w')) w'" by (simp add: preserves_def)
    then show ?thesis unfolding wp_bind by (rule wp_mono) (rule that(2))
  qed
  have found: "wp (query q \<bind> k) Q w'" if "watched S (w_db w')" "\<And>a w'. watched S (w_db w') \<Longrightarrow> wp (k a) Q w'"
    for q :: "db \<Rightarrow> repo option" and k w' and Q :: "sync_result \<Rightarrow> world \<Rightarrow> bool"
    using that by (auto simp: wp_simps split: option.split)
  have stay: "watched S (w_db w') \<Longrightarrow> wp (sync_error fid what s) (\<lambda>_ w'. watched (S - {f_id f}) (w_db w')) w'" for fid what w'
    by (rule weaker [OF guards_sync_error])
  show ?thesis
  proof (cases "unwrap_or (f_pr_url f) [] = []")
    case True
    have "guards S (sync_urlless (f_id f) \<bind> (\<lambda>_. State_Monad.return s))"
      by (intro preserves_intros guards_urlless)
    with True show ?thesis
      using weaker assms(1) by (simp add: sync_one_def)
  next
    case False
    then show ?thesis
      by (simp only: sync_one_def Let_def if_False)
        (auto intro!: found view assms(1) stay weaker [OF guards_merged] weaker [OF guards_open] closed_step assms(2)
          simp del: append.simps split: sum.split option.split pr_state.split prod.split)
  qed
qed

lemma sync_walk:
  "watched (f_id ` set fs) (w_db w) \<Longrightarrow> distinct (map f_id fs) \<Longrightarrow>
   wp (sync_each D cfg fs s) (\<lambda>_ w'. closed_watched (w_db w')) w"
proof (induction fs arbitrary: s w)
  case Nil
  then show ?case by (simp add: wp_simps watched_def)
next
  case (Cons f fs)
  have "f_id ` set (f # fs) - {f_id f} = f_id ` set fs" using Cons.prems(2) by auto
  with sync_step [OF Cons.prems(1), of f D cfg s]
  have "wp (sync_one D cfg f s) (\<lambda>_ w'. watched (f_id ` set fs) (w_db w')) w" by simp
  then show ?case
    unfolding sync_each.simps wp_bind by (rule wp_mono) (use Cons in simp)
qed

lemma findings_with_set: "set (findings_with s d) = {f \<in> set (db_findings d). f_status f = s}"
  by (auto simp: findings_with_def list_findings_def)

lemma findings_with_distinct: "distinct (map f_id (db_findings d)) \<Longrightarrow> distinct (map f_id (findings_with s d))"
  unfolding findings_with_def list_findings_def distinct_map distinct_rev set_rev distinct_sort set_sort
  by (auto elim: inj_on_subset)

lemma watched_snapshot:
  assumes "closed_watched d" "distinct (map f_id (db_findings d))"
  shows "watched (f_id ` set (findings_with finding_status.PrOpen d)) d"
proof -
  have "f_status f \<noteq> Closed" if "f \<in> set (db_findings d)" "g \<in> set (db_findings d)" "f_status g = finding_status.PrOpen" "f_id f = f_id g" for f g
  proof -
    have "f = g" using assms(2) that by (auto simp: distinct_map dest: inj_onD)
    with that(3) show ?thesis by simp
  qed
  with assms(1) show ?thesis by (auto simp: watched_def none_closed_def findings_with_set)
qed

text \<open>C3. A closed pull request is never lost to the harvest: whatever store call, forge command or clock fails during
  a sync, every finding that reads closed afterwards has its pull request recorded as closed, so it is on
  the harvest queue unless it was harvested already.\<close>

theorem closed_findings_reach_harvest:
  assumes "closed_watched (w_db w)" "distinct (map f_id (db_findings (w_db w)))"
    and "run_state (sync_prs D cfg) w = (s, w')"
    and "f \<in> set (db_findings (w_db w'))" "f_status f = Closed"
  shows "f \<in> set (list_pending_harvest (w_db w')) \<or>
    (\<exists>p. get_pr_state (w_db w') (f_id f) = Some p \<and> p_harvested_at p \<noteq> None)"
proof -
  let ?fs = "findings_with finding_status.PrOpen (w_db w)"
  have "wp (sync_each D cfg (result_or r []) s0) (\<lambda>_ w'. closed_watched (w_db w')) w1"
    if "w_db w1 = w_db w" "r = Inr ?fs \<or> r = Inl e" for r s0 w1 e
    using that assms(1,2) by (intro sync_walk) (auto simp: watched_snapshot findings_with_distinct, simp add: watched_def none_closed_def)
  then have "wp (sync_prs D cfg) (\<lambda>_ w'. closed_watched (w_db w')) w"
    unfolding sync_prs_def by (subst wp_bind, subst wp_query) (auto split: option.split simp del: sync_each.simps result_or.simps)
  then have "closed_watched (w_db w')" using assms(3) by (rule wp_run)
  with assms(4,5) show ?thesis
    by (auto simp: closed_watched_def list_pending_harvest_iff pending_harvest_def)
qed

text \<open>A sync that closes its one finding.\<close>

definition closing_decoders :: decoders where
  "closing_decoders = \<lparr>de_json = (\<lambda>_. Inr (JObject [(''state'', JString ''CLOSED'')])), de_checks = (\<lambda>_. Inr []),
     de_comments = (\<lambda>_. Inr []), de_reviews = (\<lambda>_. Inr []), de_mr = Inl, de_notes = Inl, de_access_level = Inl, de_file_diffs = Inl\<rparr>"

definition pr_url_7 :: string where "pr_url_7 = ''https://github.com/o/r/pull/7''"

definition open_pr_finding :: finding where
  "open_pr_finding = sample_finding\<lparr>f_status := finding_status.PrOpen, f_pr_url := Some pr_url_7\<rparr>"

definition closing_repo :: repo where
  "closing_repo = sample_repo\<lparr>r_url := ''https://github.com/o/r''\<rparr>"

definition closing_world :: world where
  "closing_world = (quiet 5 (empty_db\<lparr>db_repos := [closing_repo], db_findings := [open_pr_finding]\<rparr>))\<lparr>w_shell := (\<lambda>_ _ _ k. ((0, []), k))\<rparr>"

lemma sync_url_parsed: "parse_pr_url Github pr_url_7 = Some (''o/r'', 7)"
  by code_simp

lemma sync_repo_parsed: "github_owner_repo ''https://github.com/o/r'' = Some (''o'', ''r'')" "url_host_path ''https://github.com/o/r'' = Some (''github.com'', ''o/r'')"
  by code_simp+

lemma upper_closed: "to_ascii_uppercase ''CLOSED'' = ''CLOSED''" "to_ascii_uppercase [] = []"
  by code_simp+

lemma closing_view: "wp (view_pr_sync Github closing_decoders ''https://github.com/o/r'' n bots) (\<lambda>r w'. (\<exists>pr. r = Inr pr \<and> pv_state pr = PrClosed) \<and> w_db w' = w_db w \<and> w_fault w' = w_fault w \<and> w_now w' = w_now w) w"
  if "w_shell w = (\<lambda>_ _ _ k. ((0, []), k))" for w
  using that
  by (simp add: github_view_def github_slug_def sync_repo_parsed wp_simps gh_pr_view_def closing_decoders_def str_field_def
    upper_closed Let_def github_screen_def screen_feedback_def)

lemma closing_verdict: "wp (sync_closed fid url n s) (\<lambda>_ w'. db_findings (w_db w') = db_findings (set_finding_verdict 5 fid Closed ''PR closed without merge; awaiting harvest'' (w_db w))) w"
  if "w_fault w = (\<lambda>_. None)" "w_now w = (\<lambda>_. 5)" for w
proof -
  have "db_findings (set_finding_verdict t i st r (mark_pr_closed a b c x)) = db_findings (set_finding_verdict t i st r x)" for t i st r a b c x
    by (simp add: set_finding_verdict_def set_anchored_verdict_def write_anchor_def upd_findings_def mark_pr_closed_def upsert_pr_def)
  then show ?thesis using that by (simp add: sync_closed_def wp_simps frame_simps del: append.simps)
qed

lemma closing_rows: "findings_with finding_status.PrOpen (w_db closing_world) = [open_pr_finding]"
  "f_id open_pr_finding = 1" "f_repo_id open_pr_finding = 1" "f_pr_url open_pr_finding = Some pr_url_7"
  "get_repo_by_id 1 (w_db closing_world) = Some closing_repo"
  "r_forge closing_repo = Github" "r_url closing_repo = ''https://github.com/o/r''"
  by (simp_all add: findings_with_def list_findings_def closing_world_def open_pr_finding_def sample_finding_def new_finding_def
   get_repo_by_id_def closing_repo_def sample_repo_def empty_db_def finding_insert_default_def)

lemma closing_start: "closed_watched (w_db closing_world)" "distinct (map f_id (db_findings (w_db closing_world)))"
  by (simp_all add: closed_watched_def closing_world_def empty_db_def open_pr_finding_def)

abbreviation closed_finding :: finding where
  "closed_finding \<equiv> open_pr_finding\<lparr>f_status := Closed,
     f_verdict_reason := Some ''PR closed without merge; awaiting harvest'', f_updated_at := 5\<rparr>"

lemma closing_run: "wp (sync_prs closing_decoders sample_config) (\<lambda>_ w'. closed_finding \<in> set (db_findings (w_db w'))) closing_world"
proof -
  let ?Q = "\<lambda>_ w'. closed_finding \<in> set (db_findings (w_db w'))"
  have url: "pr_url_7 \<noteq> []" by (simp add: pr_url_7_def)
  have still: "w_fault closing_world = (\<lambda>_. None)" "w_now closing_world = (\<lambda>_. 5)" "w_shell closing_world = (\<lambda>_ _ _ k. ((0, []), k))"
    by (simp_all add: closing_world_def quiet_def)
  have closed: "closed_finding \<in> set (db_findings (set_finding_verdict 5 1 Closed ''PR closed without merge; awaiting harvest'' (w_db closing_world)))"
    by (simp add: set_finding_verdict_def set_anchored_verdict_def write_anchor_def upd_findings_def closing_world_def
        empty_db_def closing_rows(2) update_where_def)
  have one: "wp (sync_one closing_decoders sample_config open_pr_finding s) ?Q w"
    if w: "w_db w = w_db closing_world" "w_fault w = (\<lambda>_. None)" "w_now w = (\<lambda>_. 5)" "w_shell w = (\<lambda>_ _ _ k. ((0, []), k))" for s w
  proof -
    have "wp (view_pr_sync Github closing_decoders ''https://github.com/o/r'' 7 (cf_review_bots sample_config))
        (\<lambda>view. wp (case view of Inl e \<Rightarrow> sync_error 1 (''PR view failed: '' @ e) s
          | Inr pr \<Rightarrow> (case pv_state pr of PrMerged \<Rightarrow> sync_merged 1 pr_url_7 7 s
              | PrClosed \<Rightarrow> sync_closed 1 pr_url_7 7 s | pr_state.PrOpen \<Rightarrow> sync_open 1 7 pr s)) ?Q) (tick w)"
      by (rule wp_mono [OF closing_view]) (use w closed in \<open>auto intro!: wp_mono [OF closing_verdict] simp del: append.simps\<close>)
    then show ?thesis
      using w by (simp add: sync_one_def closing_rows url sync_url_parsed wp_bind wp_query Let_def del: append.simps parse_pr_url.simps view_pr_sync.simps)
  qed
  show ?thesis
    unfolding sync_prs_def wp_bind wp_query
    using one [of "tick closing_world"] by (simp add: still closing_rows wp_bind wp_return)
qed

theorem closed_findings_reach_harvest_witness:
  "\<exists>s w'. run_state (sync_prs closing_decoders sample_config) closing_world = (s, w') \<and>
     (closed_finding \<in> set (list_pending_harvest (w_db w')) \<or>
      (\<exists>p. get_pr_state (w_db w') 1 = Some p \<and> p_harvested_at p \<noteq> None))"
proof -
  obtain s w' where r: "run_state (sync_prs closing_decoders sample_config) closing_world = (s, w')" by fastforce
  have "closed_finding \<in> set (db_findings (w_db w'))" using closing_run r by (rule wp_run)
  from closed_findings_reach_harvest [OF closing_start r this] r show ?thesis by (simp add: closing_rows(2))
qed
end
