(* ===== verification/Pipeline.thy ===== *)
theory Pipeline
  imports Executor Playbooks Notes Ingest
begin

text \<open>
What the executors other than a fix share: creating the job, recording a finished run, the pull request a
finding is about, follow-ups, and the readers of JSON they are given (\<open>scheduler.rs\<close>).
\<close>

section \<open>Readers\<close>

text \<open>\<open>CLOSE-REASON.json\<close>, and the verdict file of a recheck with its verdict as written.\<close>

record close_reason_file =
  cr_classification :: string
  cr_reason :: string
  cr_evidence :: "string option"
  cr_holds_while :: "string option"
  cr_depends_on :: "string list"

record recheck_file =
  rv_verdict :: "string option"
  rv_reason :: "string option"
  rv_summary :: "string option"
  rv_detail :: "string option"
  rv_confidence :: "rat option"
  rv_severity :: "string option"
  rv_holds_while :: "string option"
  rv_depends_on :: "string list"

text \<open>serde's derived readers, the debug form of a text, and the context a transcript holds.\<close>

record readers =
  rd_finding :: finding_text
  rd_json :: json_text
  rd_forge :: decoders
  rd_reconfirmed :: "string \<Rightarrow> string + reconfirmed list"
  rd_closure :: "string \<Rightarrow> string + close_reason_file"
  rd_verdict :: "string \<Rightarrow> recheck_file option"
  rd_debug :: "string \<Rightarrow> string"
  rd_context :: "string \<Rightarrow> int option"

section \<open>Steps\<close>

text \<open>A step that may end the cycle with a summary.\<close>

definition unless_ended ::
  "(cycle_summary + 'a) io \<Rightarrow> ('a \<Rightarrow> (cycle_summary + 'b) io) \<Rightarrow> (cycle_summary + 'b) io" where
  "unless_ended m k = and_then m (\<lambda>r. case r of Inl ended \<Rightarrow> ok (Inl ended) | Inr x \<Rightarrow> k x)"

definition ended_or :: "(cycle_summary + 'a) io \<Rightarrow> ('a \<Rightarrow> cycle_summary io) \<Rightarrow> cycle_summary io" where
  "ended_or m k = and_then m (\<lambda>r. case r of Inl ended \<Rightarrow> ok ended | Inr x \<Rightarrow> k x)"

text \<open>An error the event log shows under another text than the caller.\<close>

definition refuse :: "string \<Rightarrow> int \<Rightarrow> string \<Rightarrow> 'a io" where
  "refuse shown fid why = do { _ \<leftarrow> event ''error'' shown None (Some fid); err why }"

definition begin_job ::
  "job_kind \<Rightarrow> repo \<Rightarrow> int option \<Rightarrow> int option \<Rightarrow> int \<Rightarrow> resume_plan option \<Rightarrow> (cycle_summary + int \<times> int list) io" where
  "begin_job kind r fid cap anticipated resume =
     and_then (call (\<lambda>now. create_job now kind (r_id r) fid cap JRunning (Some anticipated) (map_option rp_predecessor_id resume)))
       (\<lambda>made. case made of
          Inr created \<Rightarrow> ok (Inr created)
        | Inl e \<Rightarrow> (case job_refused kind (Some (r_name r)) fid e of Inl text \<Rightarrow> err text | Inr ended \<Rightarrow> ok (Inl ended)))"

definition recorded_state :: "config \<Rightarrow> string \<Rightarrow> int \<Rightarrow> run_result \<Rightarrow> resume_plan option \<Rightarrow> job_state act" where
  "recorded_state cfg model jid rr resume = do {
     recorded \<leftarrow> log_write_failure (record_job jid rr (model_for cfg model) resume)
                   (''job '' @ show_int jid @ '': recording outcome'');
     State_Monad.return (unwrap_or recorded JFailed)
   }"

definition spend_override :: "finding \<Rightarrow> unit option act" where
  "spend_override f =
     (if f_budget_override f = Some Once
      then log_write_failure (exec (\<lambda>now. set_budget_override now (f_id f) None))
             (''#'' @ show_int (f_id f) @ '': clearing one-shot budget override'')
      else State_Monad.return None)"

section \<open>The pull request of a finding\<close>

definition repo_of :: "string \<Rightarrow> finding \<Rightarrow> repo io" where
  "repo_of label f = do {
     found \<leftarrow> query (get_repo_by_id (f_repo_id f));
     (case found of
        Inr (Some r) \<Rightarrow> ok r
      | _ \<Rightarrow> refuse (label @ '' #'' @ show_int (f_id f) @ '': repo '' @ show_int (f_repo_id f) @ '' missing'')
               (f_id f) ''repo missing'') }"

definition pr_row_of :: "string \<Rightarrow> string \<Rightarrow> finding \<Rightarrow> pr io" where
  "pr_row_of label missing f = do {
     found \<leftarrow> query (\<lambda>d. get_pr_state d (f_id f));
     (case found of
        Inr (Some ps) \<Rightarrow> ok ps
      | _ \<Rightarrow> refuse (label @ '' #'' @ show_int (f_id f) @ '': no pr_state/'' @ missing @ '' -- sync first'')
               (f_id f) ''no pr_state'') }"

text \<open>The number the row holds, or the one the finding's URL ends in.\<close>

definition pr_number_of :: "string \<Rightarrow> finding \<Rightarrow> repo \<Rightarrow> pr \<Rightarrow> int io" where
  "pr_number_of label f r ps =
     (case p_number ps of
        Some n \<Rightarrow> ok n
      | None \<Rightarrow>
          (case Option.bind (f_pr_url f) (parse_pr_url (r_forge r)) of
             Some (_, n) \<Rightarrow> do {
               _ \<leftarrow> log_write_failure (exec (\<lambda>_. set_pr_number (f_id f) n))
                      (''#'' @ show_int (f_id f) @ '': self-healed pr_number -> '' @ show_int n);
               ok n }
           | None \<Rightarrow> refuse (label @ '' #'' @ show_int (f_id f) @ '': no pr_number and no parseable pr_url'')
                       (f_id f) ''no pr_number''))"

definition fetch_branch :: "string \<Rightarrow> finding \<Rightarrow> repo \<Rightarrow> string \<Rightarrow> unit io" where
  "fetch_branch label f r branch = do {
     (rc, out) \<leftarrow> git [''git'', ''-C'', r_path r, ''fetch'', ''origin'', branch];
     (if rc \<noteq> 0
      then refuse (label @ '' #'' @ show_int (f_id f) @ '': fetch '' @ branch @ '' failed: '' @ tail out 300)
             (f_id f) (''fetch failed: '' @ tail out 300)
      else ok ()) }"

section \<open>Follow-ups\<close>

definition followups_path :: "string \<Rightarrow> string" where
  "followups_path tree = path_join tree ''FOLLOW-UPS.json''"

definition ingest_followups ::
  "json_text \<Rightarrow> int \<Rightarrow> string \<Rightarrow> int \<Rightarrow> int \<Rightarrow> string \<Rightarrow> ingest_result option act" where
  "ingest_followups J repo_id tree fid jid kind = do {
     there \<leftarrow> look (\<lambda>w. path_exists w (followups_path tree));
     (if \<not> there then State_Monad.return None
      else do {
        counts \<leftarrow> ingest_findings J repo_id (followups_path tree) Declared (Some jid) (Some fid);
        _ \<leftarrow> (if 0 < ir_inserted counts \<or> 0 < ir_invalid counts \<or> 0 < ir_duplicates counts
              then ignore (event kind (''#'' @ show_int fid @ '': +'' @ show_int (ir_inserted counts) @
                     '' follow-up(s) filed from deferred/superseded work ('' @ show_int (ir_duplicates counts) @
                     '' dup / '' @ show_int (ir_invalid counts) @ '' invalid)'') (Some jid) (Some fid))
              else State_Monad.return ());
        State_Monad.return (Some counts) })
   }"

section \<open>Output of a scan\<close>

definition out_file :: "config \<Rightarrow> string \<Rightarrow> string" where
  "out_file cfg name = path_join (path_join (cf_work_root cfg) ''out'') name"

definition make_parent :: "string \<Rightarrow> unit act" where
  "make_parent p = ignore (create_dir_all (unwrap_or (parent_dir p) ''.''))"

end
