(* ===== verification/Harvesting.thy ===== *)
theory Harvesting
  imports Pipeline
begin

text \<open>
A harvest (\<open>run_harvest\<close> of \<open>scheduler.rs\<close>): reviewing a merged or closed pull request for follow-up work, and for a
closed one why it closed, which decides the finding's status.
\<close>

section \<open>Why a pull request closed\<close>

record close_failure =
  cx_key :: string
  cx_detail :: string

record close_verdict =
  cv_class :: closure_class
  cv_reason :: string
  cv_holds_while :: "string option"
  cv_depends_on :: "string list"

definition invalid_reason :: "string \<Rightarrow> close_failure" where
  "invalid_reason detail = \<lparr>cx_key = ''invalid CLOSE-REASON.json'', cx_detail = detail\<rparr>"

definition close_verdict_of :: "close_reason_file \<Rightarrow> close_failure + close_verdict" where
  "close_verdict_of file =
     (case closure_class_of_text (to_ascii_lowercase (trim (cr_classification file))) of
        Inl (UnknownName what word) \<Rightarrow> Inl (invalid_reason (''CLOSE-REASON.json: unknown '' @ what @ '' '' @ quoted word))
      | Inr c \<Rightarrow>
          (let reason = trim (cr_reason file);
               evidence = trim (unwrap_or (cr_evidence file) [])
           in if reason = [] then Inl (invalid_reason ''CLOSE-REASON.json: empty reason'')
              else Inr \<lparr>cv_class = c,
                cv_reason = take_chars 500 (closure_class_str c @ '': '' @ reason @
                  (if evidence = [] then [] else '' (evidence: '' @ evidence @ '')'')),
                cv_holds_while = cr_holds_while file, cv_depends_on = cr_depends_on file\<rparr>))"

definition read_close_reason :: "readers \<Rightarrow> string \<Rightarrow> (close_failure + close_verdict) act" where
  "read_close_reason R tree = do {
     read \<leftarrow> read_file (path_join tree ''CLOSE-REASON.json'');
     State_Monad.return (case read of
       Inl _ \<Rightarrow> Inl \<lparr>cx_key = ''no CLOSE-REASON.json'', cx_detail = ''worker left no CLOSE-REASON.json''\<rparr>
     | Inr text \<Rightarrow>
         (case rd_closure R text of
            Inl e \<Rightarrow> Inl (invalid_reason (''CLOSE-REASON.json unreadable: '' @ e))
          | Inr file \<Rightarrow> close_verdict_of file)) }"

section \<open>Starting\<close>

record harvest_target =
  hs_repo :: repo
  hs_pr :: pr
  hs_number :: int
  hs_view :: pr_view
  hs_diff :: string
  hs_cap :: "int option"

record harvest_start = harvest_target +
  hs_job :: int
  hs_ws :: workspace
  hs_pinned :: string

definition handing_off :: "resume_plan option \<Rightarrow> bool" where
  "handing_off resume = (case resume of Some plan \<Rightarrow> rp_handoff plan | None \<Rightarrow> False)"

definition fresh_harvest :: "resume_plan option \<Rightarrow> bool" where
  "fresh_harvest resume = (case resume of Some plan \<Rightarrow> rp_handoff plan | None \<Rightarrow> True)"

definition closed_pr :: "pr \<Rightarrow> bool" where
  "closed_pr ps \<longleftrightarrow> p_state ps = Some ''CLOSED''"

definition prefetched :: "int \<Rightarrow> bool \<Rightarrow> string \<Rightarrow> 'a io \<Rightarrow> 'a io" where
  "prefetched fid handoff what m = do {
     r \<leftarrow> m;
     (case r of
        Inr x \<Rightarrow> ok x
      | Inl e \<Rightarrow> do {
          _ \<leftarrow> harvest_prefetch_failed fid handoff (''pr '' @ what @ '' failed'') what e;
          err (''PR/MR '' @ what @ '' failed'') }) }"

definition open_harvest ::
  "config \<Rightarrow> finding \<Rightarrow> resume_plan option \<Rightarrow> harvest_target \<Rightarrow> int \<Rightarrow> (cycle_summary + harvest_start) io" where
  "open_harvest cfg f resume target anticipated =
     (let r = hs_repo target; fid = f_id f
      in unless_ended (begin_job K_harvest r (Some fid) (hs_cap target) anticipated resume) (\<lambda>created.
         unless_ended (open_workspace cfg r created resume (Detached (''origin/'' @ r_default_branch r)) K_harvest
                         (''harvest #'' @ show_int fid) (Some fid)) (\<lambda>(ws, pinned).
           ok (Inr (harvest_target.extend target (harvest_start.fields (fst created) ws pinned))))))"

definition start_harvest ::
  "env \<Rightarrow> readers \<Rightarrow> config \<Rightarrow> finding \<Rightarrow> resume_plan option \<Rightarrow> (cycle_summary + harvest_start) io" where
  "start_harvest E R cfg f resume =
     (let fid = f_id f; handoff = handing_off resume
      in and_then (repo_of ''harvest'' f) (\<lambda>r.
         and_then (pr_row_of ''harvest'' ''pr_number'' f) (\<lambda>ps.
         and_then (pr_number_of ''harvest'' f r ps) (\<lambda>n.
         and_then (if fresh_harvest resume then fetch_branch ''harvest'' f r (r_default_branch r) else ok ()) (\<lambda>_.
         unless_ended (budget_gate E cfg (r_id r) K_harvest (f_budget_override f \<noteq> None) (''harvest #'' @ show_int fid)
                         (Some fid) resume) (\<lambda>(cap, anticipated).
         and_then (prefetched fid handoff ''view'' (view_pr_engage (r_forge r) (rd_forge R) (r_url r) n (cf_review_bots cfg))) (\<lambda>pr.
         and_then (if closed_pr ps \<and> fresh_harvest resume
                   then prefetched fid handoff ''diff'' (pr_diff (r_forge r) (rd_forge R) (r_url r) n) else ok []) (\<lambda>diff.
           open_harvest cfg f resume
             \<lparr>hs_repo = r, hs_pr = ps, hs_number = n, hs_view = pr, hs_diff = diff, hs_cap = cap\<rparr> anticipated))))))))"

definition harvest_prompt ::
  "readers \<Rightarrow> config \<Rightarrow> finding \<Rightarrow> harvest_start \<Rightarrow> resume_plan option \<Rightarrow> string io" where
  "harvest_prompt R cfg f start resume = do {
     notes \<leftarrow> repo_notes (cf_work_root cfg) (r_id (hs_repo start));
     (let r = hs_repo start; tree = ws_tree (hs_ws start)
      in if resume \<noteq> None \<and> \<not> handing_off resume then ok RESUME_PROMPT
         else if closed_pr (hs_pr start)
         then build_harvest_closed_prompt (rd_finding R) (cf_root cfg) f tree r (hs_view start) (hs_number start) (hs_diff start)
                (if resume \<noteq> None then Pr_head else Default_branch) notes
         else build_harvest_prompt (rd_finding R) (cf_root cfg) f tree (r_default_branch r) r (hs_view start) (hs_number start) notes)
   }"

section \<open>What it amounts to\<close>

definition harvest_failure :: "job_state \<Rightarrow> (close_failure + close_verdict) option \<Rightarrow> close_failure option" where
  "harvest_failure state closure =
     (case state of
        JSuspended \<Rightarrow> None
      | JDone \<Rightarrow> (case closure of Some (Inl why) \<Rightarrow> Some why | _ \<Rightarrow> None)
      | _ \<Rightarrow> Some \<lparr>cx_key = ''worker '' @ job_state_str state, cx_detail = ''worker '' @ job_state_str state\<rparr>)"

definition counted_failure :: "int \<Rightarrow> int \<Rightarrow> bool \<Rightarrow> close_failure option \<Rightarrow> bool option act" where
  "counted_failure fid jid handoff failure =
     (case failure of
        Some why \<Rightarrow>
          if handoff then State_Monad.return None
          else do {
            gave_up \<leftarrow> record_harvest_failure fid (Some jid) (cx_key why) (cx_detail why);
            State_Monad.return (Some gave_up) }
      | None \<Rightarrow> State_Monad.return None)"

definition redone :: "job_state \<Rightarrow> close_failure option \<Rightarrow> bool option \<Rightarrow> bool" where
  "redone state failure gave_up \<longleftrightarrow> state = JSuspended \<or> (failure \<noteq> None \<and> gave_up \<noteq> Some True)"

definition harvest_followups ::
  "readers \<Rightarrow> finding \<Rightarrow> harvest_start \<Rightarrow> job_state \<Rightarrow> bool \<Rightarrow> ingest_result option act" where
  "harvest_followups R f start state again =
     (let fid = f_id f; tree = ws_tree (hs_ws start)
      in if \<not> again then ingest_followups (rd_json R) (r_id (hs_repo start)) tree fid (hs_job start) ''harvest''
         else do {
           there \<leftarrow> look (\<lambda>w. path_exists w (followups_path tree));
           _ \<leftarrow> (if there
                 then ignore (event ''harvest'' (''#'' @ show_int fid @ '': FOLLOW-UPS.json not filed: '' @
                        (if state = JSuspended then ''kept for the resume'' else ''the attempt will be redone''))
                        (Some (hs_job start)) (Some fid))
                 else State_Monad.return ());
           State_Monad.return None })"

text \<open>The commit a verdict is about: the tip of the default branch.\<close>

definition judged_at :: "harvest_start \<Rightarrow> resume_plan option \<Rightarrow> string act" where
  "judged_at start resume =
     (if resume = None then State_Monad.return (hs_pinned start)
      else do {
        tip \<leftarrow> resolve_rev (r_path (hs_repo start)) (''origin/'' @ r_default_branch (hs_repo start));
        State_Monad.return (unwrap_or tip (hs_pinned start)) })"

definition harvested :: "finding \<Rightarrow> harvest_start \<Rightarrow> string \<Rightarrow> cycle_summary \<Rightarrow> cycle_summary act" where
  "harvested f start reviewed summary = do {
     _ \<leftarrow> log_write_failure (exec (\<lambda>_. clear_harvest_attempts (f_id f)))
            (''#'' @ show_int (f_id f) @ '': clearing harvest attempts'');
     _ \<leftarrow> event ''harvest'' (''#'' @ show_int (f_id f) @ '' PR #'' @ show_int (hs_number start) @ '' '' @ reviewed)
            (Some (hs_job start)) (Some (f_id f));
     _ \<leftarrow> spend_override f;
     State_Monad.return (summary\<lparr>cs_outcome := Some ''harvested''\<rparr>) }"

definition record_closure ::
  "finding \<Rightarrow> harvest_start \<Rightarrow> resume_plan option \<Rightarrow> close_verdict \<Rightarrow> cycle_summary \<Rightarrow> cycle_summary act" where
  "record_closure f start resume verdict summary =
     (let fid = f_id f; status = closure_status (cv_class verdict)
      in do {
        at_sha \<leftarrow> judged_at start resume;
        (let anchor = verdict_anchor_of status at_sha f (cv_holds_while verdict) (cv_depends_on verdict)
         in do {
           recorded \<leftarrow> call (\<lambda>now. record_closed_harvest now fid status (cv_reason verdict) anchor now);
           (case recorded of
              Inl e \<Rightarrow> do {
                _ \<leftarrow> event ''error'' (''harvest #'' @ show_int fid @ '': could not record the classification ('' @ e @
                       ''), will retry'') (Some (hs_job start)) (Some fid);
                _ \<leftarrow> spend_override f;
                State_Monad.return (summary\<lparr>cs_outcome := Some ''retry'',
                  cs_failure := Some (''recording the classification failed: '' @ e)\<rparr>) }
            | Inr True \<Rightarrow>
                harvested f start (''closed as '' @ closure_class_str (cv_class verdict) @ '', finding now '' @
                    finding_status_str status @ ''; reviewed for follow-ups'')
                  (summary\<lparr>cs_verdict := Some (finding_status_str status), cs_reason := Some (cv_reason verdict)\<rparr>)
            | Inr False \<Rightarrow> do {
                kept \<leftarrow> query (\<lambda>d. get_finding d fid);
                harvested f start (''kept the human's verdict '' @
                    (case result_or kept None of Some g \<Rightarrow> finding_status_str (f_status g) | None \<Rightarrow> ''unknown'') @
                    ''; closure classified as '' @ closure_class_str (cv_class verdict) @ ''; reviewed for follow-ups'')
                  summary }) }) })"

definition record_review ::
  "finding \<Rightarrow> harvest_start \<Rightarrow> resume_plan option \<Rightarrow> (close_failure + close_verdict) option \<Rightarrow> cycle_summary \<Rightarrow> cycle_summary act" where
  "record_review f start resume closure summary =
     (case closure of
        Some (Inr verdict) \<Rightarrow> record_closure f start resume verdict summary
      | _ \<Rightarrow> do {
          _ \<leftarrow> log_write_failure (exec (\<lambda>now. mark_pr_harvested (f_id f) now))
                 (''#'' @ show_int (f_id f) @ '': marking PR harvested'');
          harvested f start ''reviewed for follow-ups'' summary })"

definition suspended_harvest :: "finding \<Rightarrow> harvest_start \<Rightarrow> cycle_summary \<Rightarrow> cycle_summary act" where
  "suspended_harvest f start summary =
     (let tree = ws_tree (hs_ws start)
      in do {
        _ \<leftarrow> event ''harvest'' (''#'' @ show_int (f_id f) @ '' suspended; worktree kept at '' @ tree @ '' for the resume'')
               (Some (hs_job start)) (Some (f_id f));
        _ \<leftarrow> spend_override f;
        State_Monad.return (summary\<lparr>cs_outcome := Some ''suspended'', cs_worktree := Some tree\<rparr>) })"

definition record_harvest ::
  "finding \<Rightarrow> harvest_start \<Rightarrow> resume_plan option \<Rightarrow> job_state \<Rightarrow> (close_failure + close_verdict) option \<Rightarrow>
   close_failure option \<Rightarrow> bool option \<Rightarrow> cycle_summary \<Rightarrow> cycle_summary act" where
  "record_harvest f start resume state closure failure gave_up summary =
     (let fid = f_id f
      in if state = JSuspended then suspended_harvest f start summary
         else case (failure, gave_up) of
           (Some why, _) \<Rightarrow>
             if handing_off resume then do {
               _ \<leftarrow> event ''harvest'' (''#'' @ show_int fid @ '' continuing the withdrawal into its harvest failed ('' @
                      cx_detail why @ ''); it will be harvested cold'') (Some (hs_job start)) (Some fid);
               State_Monad.return (summary\<lparr>cs_outcome := Some ''handoff-failed'', cs_failure := Some (cx_detail why)\<rparr>) }
             else (case gave_up of
               Some given_up \<Rightarrow> do {
                 _ \<leftarrow> spend_override f;
                 State_Monad.return (summary\<lparr>cs_outcome := Some (if given_up then ''stuck'' else ''retry''),
                   cs_failure := Some (cx_detail why)\<rparr>) }
             | None \<Rightarrow> record_review f start resume closure summary)
         | (None, _) \<Rightarrow> record_review f start resume closure summary)"

definition finish_harvest ::
  "readers \<Rightarrow> config \<Rightarrow> finding \<Rightarrow> resume_plan option \<Rightarrow> harvest_start \<Rightarrow> run_result \<Rightarrow> cycle_summary io" where
  "finish_harvest R cfg f resume start rr =
     (let fid = f_id f; jid = hs_job start; tree = ws_tree (hs_ws start)
      in do {
        state \<leftarrow> recorded_state cfg ''fix'' jid rr resume;
        closure \<leftarrow> (if closed_pr (hs_pr start) then do { c \<leftarrow> read_close_reason R tree; State_Monad.return (Some c) }
                    else State_Monad.return None);
        let failure = harvest_failure state closure;
        gave_up \<leftarrow> counted_failure fid jid (handing_off resume) failure;
        followups \<leftarrow> harvest_followups R f start state (redone state failure gave_up);
        _ \<leftarrow> close_workspace (hs_ws start);
        summary \<leftarrow> record_harvest f start resume state closure failure gave_up
          (no_summary\<lparr>cs_kind := Some K_harvest, cs_finding_id := Some fid, cs_job_id := Some jid, cs_state := Some state,
             cs_pr_number := Some (hs_number start), cs_ingest := followups\<rparr>);
        ok summary })"

definition run_harvest ::
  "env \<Rightarrow> readers \<Rightarrow> config \<Rightarrow> finding \<Rightarrow> resume_plan option \<Rightarrow> cycle_summary io" where
  "run_harvest E R cfg f resume =
     ended_or (start_harvest E R cfg f resume) (\<lambda>start.
           and_then (harvest_prompt R cfg f start resume) (\<lambda>prompt.
           and_then (bk_run (ev_backend E) (hs_ws start) prompt (hs_cap start) (cf_fix_max_wall_s cfg) FixClass
                       (map_option rp_session_file resume)) (\<lambda>rr.
             finish_harvest R cfg f resume start rr)))"

end
