(* ===== verification/Engaging.thy ===== *)
theory Engaging
  imports Harvesting
begin

text \<open>
An engage (\<open>run_engage\<close> of \<open>scheduler.rs\<close>): answering what happened on an open pull request by commits, a reply or
a withdrawal, and carrying a withdrawal straight on into the harvest of the pull request it closed.
\<close>

section \<open>Starting\<close>

record engage_start =
  es_repo :: repo
  es_pr :: pr
  es_head_ref :: string
  es_number :: int
  es_view :: pr_view
  es_job :: int
  es_ws :: workspace
  es_pinned :: string
  es_cap :: "int option"

definition engage_head_ref :: "finding \<Rightarrow> pr \<Rightarrow> string io" where
  "engage_head_ref f ps =
     (case p_head_ref ps of
        Some h \<Rightarrow> if h \<noteq> [] then ok h
                 else refuse (''engage #'' @ show_int (f_id f) @ '': no head_ref'') (f_id f) ''no pr_state''
      | None \<Rightarrow> refuse (''engage #'' @ show_int (f_id f) @ '': no head_ref'') (f_id f) ''no pr_state'')"

definition engage_target :: "finding \<Rightarrow> resume_plan option \<Rightarrow> (repo \<times> pr \<times> string \<times> int) io" where
  "engage_target f resume =
     and_then (repo_of ''engage'' f) (\<lambda>r.
     and_then (pr_row_of ''engage'' ''head_ref'' f) (\<lambda>ps.
     and_then (engage_head_ref f ps) (\<lambda>head_ref.
     and_then (pr_number_of ''engage'' f r ps) (\<lambda>n.
     and_then (if head_ref = r_default_branch r
               then refuse (''engage #'' @ show_int (f_id f) @ '': refusing -- head_ref equals default branch '' @ quoted head_ref)
                      (f_id f) ''head_ref equals default branch''
               else ok ()) (\<lambda>_.
     and_then (if resume = None then fetch_branch ''engage'' f r head_ref else ok ()) (\<lambda>_.
       ok (r, ps, head_ref, n)))))))"

definition engage_view :: "readers \<Rightarrow> config \<Rightarrow> finding \<Rightarrow> repo \<Rightarrow> int \<Rightarrow> pr_view io" where
  "engage_view R cfg f r n = do {
     read \<leftarrow> view_pr_engage (r_forge r) (rd_forge R) (r_url r) n (cf_review_bots cfg);
     (case read of
        Inr pr \<Rightarrow> ok pr
      | Inl e \<Rightarrow> refuse (''engage #'' @ show_int (f_id f) @ '': PR/MR view failed: '' @ e) (f_id f) ''PR/MR view failed'') }"

definition start_engage ::
  "env \<Rightarrow> readers \<Rightarrow> config \<Rightarrow> finding \<Rightarrow> resume_plan option \<Rightarrow> (cycle_summary + engage_start) io" where
  "start_engage E R cfg f resume =
     (let fid = f_id f; label = ''engage #'' @ show_int fid
      in and_then (engage_target f resume) (\<lambda>(r, ps, head_ref, n).
         unless_ended (budget_gate E cfg (r_id r) K_engage (f_budget_override f \<noteq> None) label (Some fid) resume)
           (\<lambda>(cap, anticipated).
         and_then (engage_view R cfg f r n) (\<lambda>pr.
         unless_ended (begin_job K_engage r (Some fid) cap anticipated resume) (\<lambda>created.
         unless_ended (open_workspace cfg r created resume (PrHead head_ref) K_engage label (Some fid)) (\<lambda>(ws, pinned).
           ok (Inr \<lparr>es_repo = r, es_pr = ps, es_head_ref = head_ref, es_number = n, es_view = pr, es_job = fst created,
                    es_ws = ws, es_pinned = pinned, es_cap = cap\<rparr>)))))))"

section \<open>A withdrawal\<close>

text \<open>The row's activity, or the clock.\<close>

definition seen_activity :: "pr \<Rightarrow> millis \<Rightarrow> millis" where
  "seen_activity ps now = unwrap_or (p_last_activity_at ps) now"

definition withdrawal_aborted :: "int \<Rightarrow> engage_start \<Rightarrow> cycle_summary \<Rightarrow> (bool \<times> cycle_summary) act" where
  "withdrawal_aborted fid start summary =
     (let ps = es_pr start
      in do {
        now \<leftarrow> look (\<lambda>w. w_now w (w_calls w));
        _ \<leftarrow> log_write_failure (exec (\<lambda>_. mark_pr_engaged fid (seen_activity ps now) now (p_attention_fingerprint ps) (p_head_sha ps)))
               (''#'' @ show_int fid @ '': marking PR engaged'');
        _ \<leftarrow> event ''error'' (''#'' @ show_int fid @ '' withdrawal aborted: PR #'' @ show_int (es_number start) @
               '' could not be closed (retries when the PR next changes)'') (Some (es_job start)) (Some fid);
        State_Monad.return (False, summary\<lparr>cs_outcome := Some ''withdraw-failed''\<rparr>) })"

definition record_withdrawal :: "int \<Rightarrow> engage_start \<Rightarrow> string \<Rightarrow> bool act" where
  "record_withdrawal fid start reason =
     (let n = es_number start; error = (\<lambda>m. ignore (event ''error'' m (Some (es_job start)) (Some fid)))
      in do {
        marked \<leftarrow> exec (\<lambda>now. mark_pr_closed fid n now);
        (case marked of
           Inl e \<Rightarrow> do {
             _ \<leftarrow> error (''#'' @ show_int fid @ '' PR #'' @ show_int n @ '' withdrawn but not recorded closed: '' @ e @
                    '' (the next PR sync records it)'');
             State_Monad.return False }
         | Inr _ \<Rightarrow> do {
             set_closed \<leftarrow> exec (\<lambda>now. set_finding_verdict now fid Closed (take_chars 500 reason));
             (case set_closed of
                Inl e \<Rightarrow> do {
                  _ \<leftarrow> error (''#'' @ show_int fid @ '' PR #'' @ show_int n @ '' withdrawn but the finding was not set closed: '' @
                         e @ '' (the next PR sync sets it)'');
                  State_Monad.return False }
              | Inr _ \<Rightarrow> State_Monad.return True) }) })"

text \<open>The flag: closed on the forge and recorded, so the harvest may follow at once.\<close>

definition withdraw_pr :: "int \<Rightarrow> engage_start \<Rightarrow> string \<Rightarrow> cycle_summary \<Rightarrow> (bool \<times> cycle_summary) act" where
  "withdraw_pr fid start reason summary =
     (let r = es_repo start; reachable = owner_repo (r_forge r) (r_url r) \<noteq> None
      in do {
        closed \<leftarrow> (if reachable then close_pr (r_forge r) (r_url r) (es_number start) reason else ok ());
        (case closed of
           Inl _ \<Rightarrow> withdrawal_aborted fid start summary
         | Inr _ \<Rightarrow> do {
             recorded \<leftarrow> record_withdrawal fid start reason;
             _ \<leftarrow> event ''verdict'' (''#'' @ show_int fid @ '' withdrawn by engage worker: '' @
                    (case lines reason of l # _ \<Rightarrow> take_chars 120 l | [] \<Rightarrow> [])) (Some (es_job start)) (Some fid);
             State_Monad.return (recorded \<and> reachable, summary\<lparr>cs_outcome := Some ''withdrawn''\<rparr>) }) })"

section \<open>Commits and a reply\<close>

definition push_leased :: "engage_start \<Rightarrow> bool io" where
  "push_leased start =
     (let tree = ws_tree (es_ws start); head_ref = es_head_ref start; r = es_repo start
      in do {
        (rc, commits) \<leftarrow> git [''git'', ''-C'', tree, ''log'', ''origin/'' @ head_ref @ ''..HEAD'', ''--oneline''];
        (if rc = 0 \<and> trim commits \<noteq> []
         then do {
           (prc, pout) \<leftarrow> git [''git'', ''-C'', tree, ''push'',
              ''--force-with-lease='' @ head_ref @ '':'' @ es_pinned start, ssh_url (r_forge r) (r_url r), ''HEAD:'' @ head_ref];
           (if prc \<noteq> 0 then err (''push failed: '' @ tail pout 300) else ok True) }
         else ok False) })"

definition post_reply :: "engage_start \<Rightarrow> bool io" where
  "post_reply start =
     (let reply = path_join (ws_tree (es_ws start)) ''PR-REPLY.md''; r = es_repo start
      in do {
        there \<leftarrow> look (\<lambda>w. path_exists w reply);
        (if \<not> there then ok False
         else do {
           read \<leftarrow> read_file reply;
           posted \<leftarrow> comment_pr (r_forge r) (r_url r) (es_number start) (result_or read []);
           (case posted of
              Inl e \<Rightarrow> err (''PR comment failed: '' @ tail e 300)
            | Inr _ \<Rightarrow> ok True) }) })"

definition push_and_reply :: "engage_start \<Rightarrow> job_state \<Rightarrow> (bool \<times> bool) io" where
  "push_and_reply start state =
     (if state \<noteq> JDone then err (''worker '' @ job_state_str state)
      else and_then (push_leased start) (\<lambda>pushed.
           and_then (post_reply start) (\<lambda>replied. ok (pushed, replied))))"

definition record_incomplete :: "finding \<Rightarrow> engage_start \<Rightarrow> job_state \<Rightarrow> string \<Rightarrow> string \<Rightarrow> cycle_summary \<Rightarrow> cycle_summary act" where
  "record_incomplete f start state fail stdout_tail summary =
     (let fid = f_id f; jid = es_job start
      in do {
        _ \<leftarrow> (if state = JDone
              then log_write_failure (exec (\<lambda>_. fail_job jid fail)) (''job '' @ show_int jid @ '': failing ('' @ fail @ '')'')
              else State_Monad.return None);
        _ \<leftarrow> event ''engage'' (''#'' @ show_int fid @ '' incomplete ('' @ fail @ '')'' @
               (if state = JSuspended then ''; worktree kept at '' @ ws_tree (es_ws start) @ '' for the resume'' else []) @
               ''. tail: '' @ tail stdout_tail 300) (Some jid) (Some fid);
        State_Monad.return (summary\<lparr>cs_outcome := Some ''retry'', cs_failure := Some fail\<rparr>) })"

definition record_published :: "finding \<Rightarrow> engage_start \<Rightarrow> bool \<Rightarrow> bool \<Rightarrow> cycle_summary \<Rightarrow> cycle_summary act" where
  "record_published f start pushed replied summary =
     (let fid = f_id f; ps = es_pr start;
          did = (if pushed then [''pushed''] else []) @ (if replied then [''replied''] else [])
      in do {
        now \<leftarrow> look (\<lambda>w. w_now w (w_calls w));
        _ \<leftarrow> log_write_failure (exec (\<lambda>_. mark_pr_engaged fid (if replied then now + 3000 else seen_activity ps now) now
                 (if pushed then None else p_attention_fingerprint ps) (if pushed then None else p_head_sha ps)))
               (''#'' @ show_int fid @ '': marking PR engaged'');
        _ \<leftarrow> event ''engage'' (''#'' @ show_int fid @ '' PR #'' @ show_int (es_number start) @ '' engaged ('' @
               (if did = [] then ''no-op'' else join '', '' did) @ '')'') (Some (es_job start)) (Some fid);
        State_Monad.return (summary\<lparr>cs_outcome := Some ''engaged''\<rparr>) })"

definition record_engage ::
  "finding \<Rightarrow> engage_start \<Rightarrow> job_state \<Rightarrow> string + bool \<times> bool \<Rightarrow> string \<Rightarrow> cycle_summary \<Rightarrow> cycle_summary act" where
  "record_engage f start state published stdout_tail summary = do {
     s \<leftarrow> (case published of
             Inl fail \<Rightarrow> record_incomplete f start state fail stdout_tail summary
           | Inr (pushed, replied) \<Rightarrow> record_published f start pushed replied summary);
     _ \<leftarrow> spend_override f;
     State_Monad.return s
   }"

section \<open>On into the harvest\<close>

definition handoff_plan :: "readers \<Rightarrow> repo \<Rightarrow> int \<Rightarrow> int \<Rightarrow> workspace \<Rightarrow> string \<Rightarrow> string \<Rightarrow> int \<Rightarrow> resume_plan" where
  "handoff_plan R r fid engage_job ws pinned session z =
     (let ctx = unwrap_or (rd_context R session) z
      in \<lparr>rp_kind = K_harvest, rp_repo_id = r_id r, rp_repo = r_name r, rp_finding_id = Some fid,
          rp_predecessor_id = engage_job, rp_origin_job_id = ws_origin_id ws, rp_session_file = session, rp_workspace = ws,
          rp_pinned_sha = pinned, rp_anticipated = resume_reservation ctx z 0, rp_ctx = ctx, rp_typical = z,
          rp_chain_spent = 0, rp_handoff = True\<rparr>)"

definition handoff_note :: "int \<Rightarrow> int \<Rightarrow> resume_plan \<Rightarrow> string" where
  "handoff_note fid engage_job plan =
     ''#'' @ show_int fid @ '' continuing engage job '' @ show_int engage_job @ '' into the closed PR's harvest: reserving '' @
     show_int (rp_anticipated plan) @ '' tok (ctx '' @ show_int (rp_ctx plan) @ '' + max('' @ show_int (rp_typical plan) @ '' - '' @
     show_int (rp_chain_spent plan) @ '', '' @ show_int (min_useful (rp_ctx plan)) @ ''))''"

definition hand_off ::
  "env \<Rightarrow> readers \<Rightarrow> config \<Rightarrow> finding \<Rightarrow> int \<Rightarrow> workspace \<Rightarrow> resume_plan \<Rightarrow> unit act" where
  "hand_off E R cfg f engage_job ws plan =
     (let fid = f_id f
      in do {
        _ \<leftarrow> remove_file (path_join (ws_tree ws) ''FOLLOW-UPS.json'');
        _ \<leftarrow> remove_file (path_join (ws_tree ws) ''CLOSE-REASON.json'');
        _ \<leftarrow> event ''harvest'' (handoff_note fid engage_job plan) (Some engage_job) (Some fid);
        ran \<leftarrow> run_harvest E R cfg f (Some plan);
        (case ran of
           Inl e \<Rightarrow> ignore (event ''error'' (''harvest #'' @ show_int fid @ '': continuing the withdrawal failed: '' @ e @
                      ''; it will be harvested cold'') (Some engage_job) (Some fid))
         | Inr _ \<Rightarrow> State_Monad.return ()) })"

definition continue_into_harvest ::
  "env \<Rightarrow> readers \<Rightarrow> config \<Rightarrow> repo \<Rightarrow> int \<Rightarrow> int \<Rightarrow> workspace \<Rightarrow> string \<Rightarrow> string option \<Rightarrow> unit act" where
  "continue_into_harvest E R cfg r fid engage_job ws pinned session =
     (case session of
        None \<Rightarrow> ignore (event ''harvest'' (''#'' @ show_int fid @ '' engage job '' @ show_int engage_job @
                  '' left no transcript to continue; it will be harvested cold'') (Some engage_job) (Some fid))
      | Some session_file \<Rightarrow> do {
          history \<leftarrow> anticipated_tokens cfg (r_id r) K_harvest;
          found \<leftarrow> query (\<lambda>d. get_finding d fid);
          (case found of
             Inr (Some f) \<Rightarrow>
               hand_off E R cfg f engage_job ws (handoff_plan R r fid engage_job ws pinned session_file (result_or history 0))
           | _ \<Rightarrow> State_Monad.return ()) })"

section \<open>The whole job\<close>

definition engage_prompt :: "config \<Rightarrow> finding \<Rightarrow> engage_start \<Rightarrow> resume_plan option \<Rightarrow> string io" where
  "engage_prompt cfg f start resume = do {
     notes \<leftarrow> repo_notes (cf_work_root cfg) (r_id (es_repo start));
     (case resume of
        Some _ \<Rightarrow> ok RESUME_PROMPT
      | None \<Rightarrow> build_engage_prompt (cf_root cfg) f (ws_tree (es_ws start)) (es_head_ref start) (es_repo start)
                  (es_view start) (es_pr start) notes) }"

text \<open>What the worker left: a withdrawal, or work to publish. The flag as for \<open>withdraw_pr\<close>.\<close>

definition conclude_engage ::
  "finding \<Rightarrow> engage_start \<Rightarrow> job_state \<Rightarrow> string \<Rightarrow> cycle_summary \<Rightarrow> (bool \<times> cycle_summary) act" where
  "conclude_engage f start state stdout_tail summary =
     (let withdraw = path_join (ws_tree (es_ws start)) ''WITHDRAW.md''
      in do {
        there \<leftarrow> look (\<lambda>w. path_exists w withdraw);
        (if there then do {
           read \<leftarrow> read_file withdraw;
           _ \<leftarrow> spend_override f;
           withdraw_pr (f_id f) start (result_or read []) summary }
         else do {
           published \<leftarrow> push_and_reply start state;
           s \<leftarrow> record_engage f start state published stdout_tail summary;
           State_Monad.return (False, s) }) })"

definition finish_engage ::
  "env \<Rightarrow> readers \<Rightarrow> config \<Rightarrow> finding \<Rightarrow> resume_plan option \<Rightarrow> engage_start \<Rightarrow> run_result \<Rightarrow> cycle_summary io" where
  "finish_engage E R cfg f resume start rr = do {
     state \<leftarrow> recorded_state cfg ''fix'' (es_job start) rr resume;
     (closed_on_forge, summary) \<leftarrow> conclude_engage f start state (rr_stdout_tail rr)
        (no_summary\<lparr>cs_kind := Some K_engage, cs_finding_id := Some (f_id f), cs_job_id := Some (es_job start),
           cs_state := Some state, cs_pr_number := Some (es_number start), cs_tokens_new := Some (rr_tokens_new rr)\<rparr>);
     _ \<leftarrow> (case if state = JSuspended then cs_outcome summary else None of
             Some outcome \<Rightarrow>
               if outcome \<in> {''withdrawn'', ''withdraw-failed''} then retire_concluded (es_job start) outcome
               else State_Monad.return None
           | None \<Rightarrow> State_Monad.return None);
     _ \<leftarrow> (if closed_on_forge
           then continue_into_harvest E R cfg (es_repo start) (f_id f) (es_job start) (es_ws start) (es_pinned start)
                  (rr_session_file rr)
           else State_Monad.return ());
     _ \<leftarrow> close_workspace (es_ws start);
     ok summary
   }"

definition run_engage ::
  "env \<Rightarrow> readers \<Rightarrow> config \<Rightarrow> finding \<Rightarrow> resume_plan option \<Rightarrow> cycle_summary io" where
  "run_engage E R cfg f resume =
     ended_or (start_engage E R cfg f resume) (\<lambda>start.
           and_then (engage_prompt cfg f start resume) (\<lambda>prompt.
           and_then (bk_run (ev_backend E) (es_ws start) prompt (es_cap start) (cf_fix_max_wall_s cfg) FixClass
                       (map_option rp_session_file resume)) (\<lambda>rr.
             finish_engage E R cfg f resume start rr)))"

end
