(* ===== verification/EngageSafety.thy ===== *)
theory EngageSafety
  imports Engaging PrAttention
begin

text \<open>
What an engage guarantees whatever fails: a withdrawal is carried on into the closed pull request's harvest
only once the forge, the pull request row and the finding all say closed, and it never leaves a closed
finding the harvest cannot see.
\<close>

section \<open>A withdrawal\<close>

lemma closed_watched_alt: "closed_watched d \<longleftrightarrow> watched {} d"
  by (simp add: watched_def none_closed_def)

lemma watched_close_row: "watched {} d \<Longrightarrow> watched {} (mark_pr_closed fid n stamp d)"
proof -
  assume w: "watched {} d"
  have f: "db_findings (mark_pr_closed fid n stamp d) = db_findings d"
    by (simp add: mark_pr_closed_def upsert_pr_def)
  have "get_pr_state (mark_pr_closed fid n stamp d) k = get_pr_state d k" if "k \<noteq> fid" for k
    using that by (simp add: mark_pr_closed_def get_upsert_pr_other with_state_def empty_pr_def)
  with w f closed_recorded [of fid n stamp d] show ?thesis
    unfolding watched_def closed_watched_def none_closed_def by (metis empty_iff)
qed

lemma get_engaged: "get_pr_state (mark_pr_engaged fid activity synced fp sha d) k =
    map_option (\<lambda>p. if p_finding_id p = fid then p\<lparr>p_last_engaged_activity_at := Some activity, p_synced_at := Some synced,
      p_addressed_fingerprint := fp, p_addressed_head_sha := sha\<rparr> else p) (get_pr_state d k)"
  unfolding mark_pr_engaged_def by (rule prs.get_upd) simp

lemma watched_engaged:
  assumes "watched S d"
  shows "watched S (mark_pr_engaged fid activity synced fp sha d)"
proof -
  have same: "db_findings (mark_pr_engaged fid activity synced fp sha d) = db_findings d"
    by (simp add: mark_pr_engaged_def frame_simps)
  have "\<exists>p. get_pr_state (mark_pr_engaged fid activity synced fp sha d) k = Some p \<and> p_state p = st"
    if "\<exists>p. get_pr_state d k = Some p \<and> p_state p = st" for k st
    using that by (elim exE conjE) (simp add: get_engaged)
  with assms show ?thesis unfolding watched_def closed_watched_def none_closed_def same by blast
qed

text \<open>What holds of the database while the withdrawal runs.\<close>

definition all_closed :: "int \<Rightarrow> db \<Rightarrow> bool" where
  "all_closed fid d \<longleftrightarrow> (\<forall>f \<in> set (db_findings d). f_id f = fid \<longrightarrow> f_status f = Closed) \<and>
     (\<exists>p. get_pr_state d fid = Some p \<and> p_state p = Some ''CLOSED'')"

lemma all_closed_event: "all_closed fid (log_event now kind message x y d) = all_closed fid d"
  by (simp add: all_closed_def get_pr_state_def frame_simps)

lemma all_closed_verdict:
  assumes "get_pr_state d fid = Some p" "p_state p = Some ''CLOSED''"
  shows "all_closed fid (set_finding_verdict now fid Closed reason d)"
proof -
  let ?d' = "set_finding_verdict now fid Closed reason d"
  have f: "db_findings ?d' = map (\<lambda>f. if f_id f = fid
      then f\<lparr>f_status := Closed, f_verdict_reason := Some reason, f_updated_at := now\<rparr> else f) (db_findings d)"
    by (simp add: set_finding_verdict_def set_anchored_verdict_def write_anchor_def upd_findings_def update_where_def)
  have p: "get_pr_state ?d' = get_pr_state d"
    by (simp add: fun_eq_iff set_finding_verdict_def set_anchored_verdict_def write_anchor_def upd_findings_def get_pr_state_def)
  show ?thesis unfolding all_closed_def f p using assms by (simp only: set_map ball_simps) auto
qed


text \<open>The forge's part touches no database.\<close>

lemma keeps_mark_engaged_findings [keeps_intros]:
  "keeps db_findings (exec (\<lambda>now. mark_pr_engaged fid (a now) (s now) fp sha))"
  by (intro keeps_exec) (simp add: mark_pr_engaged_def frame_simps)

lemma aborted_watched: "guards S (withdrawal_aborted fid start summary)"
  unfolding withdrawal_aborted_def Let_def
  by (intro preserves_intros preserves_exec watched_engaged)

lemma aborted_keeps: "keeps db_findings (withdrawal_aborted fid start summary)"
  unfolding withdrawal_aborted_def Let_def
  by (intro keeps_intros keeps_event) (simp_all add: frame_simps)

lemma aborted_refuses: "wp (withdrawal_aborted fid start summary)
    (\<lambda>r _. fst r = False \<and> cs_outcome (snd r) = Some ''withdraw-failed'') w"
  unfolding withdrawal_aborted_def Let_def by (intro wp_bind_any) (simp add: wp_simps)

lemma recorded_withdrawal:
  assumes "watched {} (w_db w)"
  shows "wp (record_withdrawal fid start reason) (\<lambda>r w'. watched {} (w_db w') \<and> (r \<longrightarrow> all_closed fid (w_db w'))) w"
proof -
  let ?Q = "\<lambda>r w'. watched {} (w_db w') \<and> (r \<longrightarrow> all_closed fid (w_db w'))"
  have error: "wp (ignore (event ''error'' m x y)) (\<lambda>_ w'. watched {} (w_db w')) w'" if "watched {} (w_db w')" for m x y w'
    using that by (auto simp: wp_simps watched_event split: option.split)
  obtain p where p: "get_pr_state (mark_pr_closed fid (es_number start) (w_now w (w_calls w)) (w_db w)) fid = Some p"
      "p_state p = Some ''CLOSED''"
    using closed_recorded by blast
  have "watched {} (set_finding_verdict now fid Closed r (mark_pr_closed fid (es_number start) (w_now w (w_calls w)) (w_db w)))" for now r
    using watched_closed [OF watched_close_row [OF assms] p] by simp
  with p show ?thesis
    unfolding record_withdrawal_def Let_def
    by (auto simp: wp_bind wp_exec wp_return assms watched_close_row all_closed_verdict simp del: append.simps
        intro!: error split: option.split)
qed

lemma withdrawal_wp:
  assumes "watched {} (w_db w)"
  shows "wp (withdraw_pr fid start reason summary) (\<lambda>r w'. watched {} (w_db w') \<and>
      (fst r \<longrightarrow> all_closed fid (w_db w') \<and>
         is_ok (fst (run_state (close_pr (r_forge (es_repo start)) (r_url (es_repo start)) (es_number start) reason) w))) \<and>
      (cs_outcome (snd r) = Some ''withdraw-failed'' \<longrightarrow> \<not> fst r \<and> db_findings (w_db w') = db_findings (w_db w))) w"
    (is "wp _ ?Q w")
proof -
  define reachable where "reachable \<longleftrightarrow> owner_repo (r_forge (es_repo start)) (r_url (es_repo start)) \<noteq> None"
  define closing where "closing = (if reachable
    then close_pr (r_forge (es_repo start)) (r_url (es_repo start)) (es_number start) reason else ok ())"
  have "wp (case r1 of
      Inl _ \<Rightarrow> withdrawal_aborted fid start summary
    | Inr _ \<Rightarrow> do {
        recorded \<leftarrow> record_withdrawal fid start reason;
        _ \<leftarrow> event ''verdict'' m (Some (es_job start)) (Some fid);
        State_Monad.return (recorded \<and> reachable, summary\<lparr>cs_outcome := Some ''withdrawn''\<rparr>) }) ?Q w1"
    if c: "run_state closing w = (r1, w1)" for r1 w1 m
  proof -
    have "keeps (\<lambda>d. d) closing" unfolding closing_def by (intro keeps_intros)
    from keepsD [OF this c] have d: "w_db w1 = w_db w" .
    have a: "wp (withdrawal_aborted fid start summary) ?Q w1"
      by (rule wp_mono [OF wp_conj [OF aborted_refuses wp_conj
          [OF aborted_watched [of "{}", unfolded preserves_def, rule_format] aborted_keeps [unfolded keeps_wp, rule_format]]]])
        (use assms in \<open>auto simp: d\<close>)
    have b: "wp (record_withdrawal fid start reason \<bind> (\<lambda>recorded.
        event ''verdict'' m (Some (es_job start)) (Some fid) \<bind> (\<lambda>_.
        State_Monad.return (recorded \<and> reachable, summary\<lparr>cs_outcome := Some ''withdrawn''\<rparr>)))) ?Q w1"
      if "r1 = Inr u" for u
      unfolding wp_bind
    proof (rule wp_mono [OF recorded_withdrawal])
      show "watched {} (w_db w1)" using assms by (simp add: d)
    next
      have "reachable \<Longrightarrow> is_ok (fst (run_state (close_pr (r_forge (es_repo start)) (r_url (es_repo start)) (es_number start) reason) w))"
        using c that by (simp add: closing_def)
      then show "wp (event ''verdict'' m (Some (es_job start)) (Some fid))
          (\<lambda>_. wp (State_Monad.return (recorded \<and> reachable, summary\<lparr>cs_outcome := Some ''withdrawn''\<rparr>)) ?Q) w'"
        if "watched {} (w_db w') \<and> (recorded \<longrightarrow> all_closed fid (w_db w'))" for recorded w'
        using that by (auto simp: wp_return wp_event watched_event all_closed_event split: option.split)
    qed
    show ?thesis using a b by (cases r1) (simp_all del: append.simps)
  qed
  then show ?thesis
    unfolding withdraw_pr_def Let_def reachable_def [symmetric] closing_def [symmetric]
    by (subst wp_bind) (rule run_wp)
qed

text \<open>C11. A withdrawal is carried on into the harvest only when everything says closed: the forge took the close, the
  pull request row reads \<open>CLOSED\<close> and the finding is closed. If the forge refuses, the finding is left as it
  was. Whatever fails, no closed finding is left that the harvest cannot see.\<close>

theorem withdrawal_hands_over_closed:
  assumes "closed_watched (w_db w)"
    and "run_state (withdraw_pr fid start reason summary) w = ((handed, s), w')"
  shows "closed_watched (w_db w') \<and>
    (handed \<longrightarrow> all_closed fid (w_db w') \<and>
       is_ok (fst (run_state (close_pr (r_forge (es_repo start)) (r_url (es_repo start)) (es_number start) reason) w))) \<and>
    (cs_outcome s = Some ''withdraw-failed'' \<longrightarrow> \<not> handed \<and> db_findings (w_db w') = db_findings (w_db w))"
  using wp_run [OF withdrawal_wp assms(2)] assms(1) by (simp add: closed_watched_alt)


text \<open>A withdrawal that goes through.\<close>

definition withdrawing :: engage_start where
  "withdrawing = \<lparr>es_repo = closing_repo, es_pr = empty_pr 1, es_head_ref = ''fix'', es_number = 7, es_view = no_view,
     es_job = 3, es_ws = \<lparr>ws_origin_id = 3, ws_root = ''/w'', ws_tree = ''/w/tree'', ws_session = ''/w/session'', ws_clone = ''/c''\<rparr>, es_pinned = ''abc'',
     es_cap = None\<rparr>"

lemma withdrawn_on_forge: "wp (close_pr Github ''https://github.com/o/r'' 7 reason)
    (\<lambda>r w'. r = Inr () \<and> w_db w' = w_db w \<and> w_fault w' = w_fault w) w"
  if "w_shell w = (\<lambda>_ _ _ k. ((0, []), k))" for w
  using that by (simp add: comment_first_def github_slug_def sync_repo_parsed must_def wp_simps)

lemma recorded_quietly: "wp (record_withdrawal fid start reason) (\<lambda>r w'. r \<and> w_fault w' = (\<lambda>_. None)) w"
  if "w_fault w = (\<lambda>_. None)" for w
  using that by (simp add: record_withdrawal_def wp_simps Let_def del: append.simps)

lemma withdrawn_quietly: "wp (withdraw_pr 1 withdrawing ''superseded'' summary) (\<lambda>r _. fst r) closing_world"
proof -
  have w: "w_shell closing_world = (\<lambda>_ _ _ k. ((0, []), k))" "w_fault closing_world = (\<lambda>_. None)"
    by (simp_all add: closing_world_def quiet_def)
  have start: "r_forge (es_repo withdrawing) = Github" "r_url (es_repo withdrawing) = ''https://github.com/o/r''" "es_number withdrawing = 7"
    by (simp_all add: withdrawing_def closing_rows)
  have after: "wp (record_withdrawal 1 withdrawing reason) (\<lambda>recorded. wp (event k m x y) (\<lambda>_. wp (State_Monad.return (recorded \<and> True, s)) (\<lambda>r _. fst r))) w'"
    if "w_fault w' = (\<lambda>_. None)" for reason k m x y w' and s :: cycle_summary
    by (rule wp_mono [OF recorded_quietly [OF that]]) (simp add: wp_return wp_event)
  show ?thesis
    unfolding withdraw_pr_def Let_def start wp_bind owner_repo.simps sync_repo_parsed
    by (simp del: append.simps close_pr.simps, rule wp_mono [OF withdrawn_on_forge [OF w(1)]])
      (use after w(2) in \<open>simp del: append.simps add: wp_bind\<close>)
qed

theorem withdrawal_hands_over_closed_witness:
  "\<exists>s w'. run_state (withdraw_pr 1 withdrawing ''superseded'' no_summary) closing_world = ((True, s), w') \<and>
     closed_watched (w_db w') \<and> all_closed 1 (w_db w')"
proof -
  obtain handed s w' where r: "run_state (withdraw_pr 1 withdrawing ''superseded'' no_summary) closing_world = ((handed, s), w')"
    by (metis prod.collapse)
  have handed using wp_run [OF withdrawn_quietly r] by simp
  with withdrawal_hands_over_closed [OF closing_start(1) r] r show ?thesis by (intro exI [of _ s] exI [of _ w']) simp
qed


section \<open>An engage that ran to its end\<close>




end
