(* ===== verification/Rechecking.thy ===== *)
theory Rechecking
  imports Pipeline
begin

text \<open>
A recheck (\<open>run_recheck\<close> of \<open>scheduler.rs\<close>): asking a worker whether an old finding still holds, and recording its
verdict, or counting why there is none.
\<close>

datatype recheck_outcome = Confirmed | Stale | Invalid | Unknown string

definition recheck_outcome_of :: "string \<Rightarrow> recheck_outcome" where
  "recheck_outcome_of s =
     (if s = ''confirmed'' then Confirmed else if s = ''stale'' then Stale else if s = ''invalid'' then Invalid else Unknown s)"

section \<open>Starting\<close>

record recheck_start =
  rk_repo :: repo
  rk_job :: int
  rk_ws :: workspace
  rk_pinned :: string
  rk_cap :: "int option"
  rk_out :: string

definition recheck_file :: "config \<Rightarrow> int \<Rightarrow> string" where
  "recheck_file cfg fid = out_file cfg (''recheck'' @ show_int fid @ ''.json'')"

text \<open>A tree that could not be made is a failed recheck; the failed cycle's summary carries the reason.\<close>

definition open_recheck ::
  "config \<Rightarrow> finding \<Rightarrow> repo \<Rightarrow> int option \<Rightarrow> int \<times> int list \<Rightarrow> resume_plan option \<Rightarrow> (cycle_summary + recheck_start) io" where
  "open_recheck cfg f r cap created resume =
     (let fid = f_id f; jid = fst created; out_path = recheck_file cfg fid
      in and_then (open_workspace cfg r created resume (Detached (''origin/'' @ r_default_branch r)) K_recheck
                     (''recheck #'' @ show_int fid) (Some fid)) (\<lambda>opened.
         case opened of
           Inl unmade \<Rightarrow> do {
             summary \<leftarrow> handle_recheck_failure unmade fid jid TREE_NOT_MADE (unwrap_or (cs_failure unmade) []) None;
             ok (Inl summary) }
         | Inr (ws, pinned) \<Rightarrow> do {
             _ \<leftarrow> make_parent out_path;
             _ \<leftarrow> (if resume = None then ignore (remove_file out_path) else State_Monad.return ());
             ok (Inr \<lparr>rk_repo = r, rk_job = jid, rk_ws = ws, rk_pinned = pinned, rk_cap = cap,
                      rk_out = out_path\<rparr>) }))"

definition recheck_skipped :: "finding \<Rightarrow> cycle_summary" where
  "recheck_skipped f =
     no_summary\<lparr>cs_kind := Some K_recheck,
       cs_skipped := Some (''finding #'' @ show_int (f_id f) @ '' is '' @ finding_status_str (f_status f) @ '', not rechecking'')\<rparr>"

definition start_recheck ::
  "env \<Rightarrow> config \<Rightarrow> finding \<Rightarrow> resume_plan option \<Rightarrow> (cycle_summary + recheck_start) io" where
  "start_recheck E cfg f resume =
     (let fid = f_id f; label = ''recheck #'' @ show_int fid
      in if f_status f \<noteq> Rechecking then ok (Inl (recheck_skipped f))
         else
           and_then (repo_of ''recheck'' f) (\<lambda>r.
           and_then (if resume = None then sync_repo (r_url r) (r_path r) label (Some fid) else ok ()) (\<lambda>_.
           unless_ended (budget_gate E cfg (r_id r) K_recheck (f_budget_override f \<noteq> None) label (Some fid) resume)
             (\<lambda>(cap, anticipated).
           unless_ended (begin_job K_recheck r (Some fid) cap anticipated resume) (\<lambda>created.
             open_recheck cfg f r cap created resume)))))"

definition recheck_prompt ::
  "readers \<Rightarrow> config \<Rightarrow> finding \<Rightarrow> recheck_start \<Rightarrow> resume_plan option \<Rightarrow> string io" where
  "recheck_prompt R cfg f start resume = do {
     notes \<leftarrow> repo_notes (cf_work_root cfg) (r_id (rk_repo start));
     (case resume of
        Some _ \<Rightarrow> ok RESUME_PROMPT
      | None \<Rightarrow> build_recheck_prompt (rd_finding R) (cf_root cfg) f (rk_repo start) (ws_tree (rk_ws start))
                  (rk_out start) notes) }"

section \<open>The verdict\<close>

definition read_verdict :: "readers \<Rightarrow> job_state \<Rightarrow> string \<Rightarrow> recheck_file option act" where
  "read_verdict R state out_path = do {
     there \<leftarrow> look (\<lambda>w. path_exists w out_path);
     (if state = JDone \<and> there
      then do {
        read \<leftarrow> read_file out_path;
        State_Monad.return (case read of Inl _ \<Rightarrow> None | Inr text \<Rightarrow> rd_verdict R text) }
      else State_Monad.return None) }"

definition no_verdict :: "job_state \<Rightarrow> bool \<Rightarrow> string" where
  "no_verdict state there =
     (if state \<noteq> JDone then ''worker '' @ job_state_str state
      else if \<not> there then ''no verdict file''
      else ''unparseable verdict file'')"

definition cleared_recheck :: "int \<Rightarrow> unit option act" where
  "cleared_recheck fid =
     log_write_failure (exec (\<lambda>now. clear_recheck_attempts now fid)) (''#'' @ show_int fid @ '': clearing recheck attempts'')"

definition record_confirmed :: "int \<Rightarrow> int \<Rightarrow> recheck_file \<Rightarrow> string \<Rightarrow> unit act" where
  "record_confirmed fid jid v reason =
     (let severity = Option.bind (rv_severity v) severity_parse
      in do {
        _ \<leftarrow> (case (rv_severity v, severity) of
                (Some raw, None) \<Rightarrow> ignore (event ''recheck'' (''#'' @ show_int fid @ '' ignored unknown updated_severity '' @ quoted raw)
                                     (Some jid) (Some fid))
              | _ \<Rightarrow> State_Monad.return ());
        _ \<leftarrow> log_write_failure (exec (\<lambda>now. update_finding_analysis now fid
               \<lparr>fa_summary = rv_summary v, fa_detail = rv_detail v, fa_confidence = rv_confidence v, fa_severity = severity\<rparr>))
               (''#'' @ show_int fid @ '': recording recheck analysis'');
        _ \<leftarrow> log_write_failure (exec (\<lambda>now. set_finding_status now fid New)) (''#'' @ show_int fid @ '': status -> new'');
        _ \<leftarrow> cleared_recheck fid;
        ignore (event ''recheck'' (''#'' @ show_int fid @ '' confirmed: '' @ reason) (Some jid) (Some fid)) })"

definition record_stale :: "int \<Rightarrow> int \<Rightarrow> string \<Rightarrow> unit act" where
  "record_stale fid jid reason = do {
     _ \<leftarrow> log_write_failure (exec (\<lambda>now. set_finding_verdict now fid Superseded (''recheck: '' @ reason)))
            (''#'' @ show_int fid @ '': verdict -> superseded'');
     _ \<leftarrow> cleared_recheck fid;
     ignore (event ''recheck'' (''#'' @ show_int fid @ '' stale: '' @ reason) (Some jid) (Some fid)) }"

definition record_invalid :: "finding \<Rightarrow> int \<Rightarrow> string \<Rightarrow> recheck_file \<Rightarrow> string \<Rightarrow> unit act" where
  "record_invalid f jid pinned v reason =
     (let fid = f_id f; anchor = verdict_anchor_of Rejected pinned f (rv_holds_while v) (rv_depends_on v)
      in do {
        _ \<leftarrow> log_write_failure (exec (\<lambda>now. set_anchored_verdict now fid Rejected (''recheck: '' @ reason) anchor))
               (''#'' @ show_int fid @ '': verdict -> rejected'');
        _ \<leftarrow> cleared_recheck fid;
        ignore (event ''recheck'' (''#'' @ show_int fid @ '' invalid: '' @ reason) (Some jid) (Some fid)) })"

definition settled :: "finding \<Rightarrow> string \<Rightarrow> string \<Rightarrow> cycle_summary \<Rightarrow> cycle_summary act" where
  "settled f verdict reason summary = do {
     _ \<leftarrow> spend_override f;
     State_Monad.return (summary\<lparr>cs_outcome := Some verdict, cs_verdict := Some verdict, cs_reason := Some reason\<rparr>) }"

definition record_verdict ::
  "finding \<Rightarrow> recheck_start \<Rightarrow> recheck_file \<Rightarrow> cycle_summary \<Rightarrow> cycle_summary act" where
  "record_verdict f start v summary =
     (let fid = f_id f; jid = rk_job start; reason = take_chars 500 (unwrap_or (rv_reason v) []);
          failed_as = (\<lambda>why. handle_recheck_failure summary fid jid why why (f_budget_override f))
      in case map_option recheck_outcome_of (rv_verdict v) of
           None \<Rightarrow> failed_as ''missing verdict field''
         | Some (Unknown raw) \<Rightarrow> failed_as (''invalid verdict value: '' @ quoted raw)
         | Some Confirmed \<Rightarrow> do { _ \<leftarrow> record_confirmed fid jid v reason; settled f ''confirmed'' reason summary }
         | Some Stale \<Rightarrow> do { _ \<leftarrow> record_stale fid jid reason; settled f ''stale'' reason summary }
         | Some Invalid \<Rightarrow> do { _ \<leftarrow> record_invalid f jid (rk_pinned start) v reason; settled f ''invalid'' reason summary })"

definition suspended_recheck :: "finding \<Rightarrow> recheck_start \<Rightarrow> cycle_summary \<Rightarrow> cycle_summary act" where
  "suspended_recheck f start summary =
     (let tree = ws_tree (rk_ws start)
      in do {
        _ \<leftarrow> event ''recheck'' (''#'' @ show_int (f_id f) @ '' suspended; worktree kept at '' @ tree @ '' for the resume'')
               (Some (rk_job start)) (Some (f_id f));
        _ \<leftarrow> spend_override f;
        State_Monad.return (summary\<lparr>cs_outcome := Some ''suspended'', cs_worktree := Some tree\<rparr>) })"

definition finish_recheck ::
  "readers \<Rightarrow> config \<Rightarrow> finding \<Rightarrow> resume_plan option \<Rightarrow> recheck_start \<Rightarrow> run_result \<Rightarrow> cycle_summary io" where
  "finish_recheck R cfg f resume start rr = do {
     state \<leftarrow> recorded_state cfg ''hunt'' (rk_job start) rr resume;
     _ \<leftarrow> close_workspace (rk_ws start);
     let summary = no_summary\<lparr>cs_kind := Some K_recheck, cs_finding_id := Some (f_id f), cs_job_id := Some (rk_job start),
                     cs_state := Some state, cs_tokens_new := Some (rr_tokens_new rr)\<rparr>;
     s \<leftarrow> (if state = JSuspended then suspended_recheck f start summary
           else do {
             verdict \<leftarrow> read_verdict R state (rk_out start);
             there \<leftarrow> look (\<lambda>w. path_exists w (rk_out start));
             (case verdict of
                Some v \<Rightarrow> record_verdict f start v summary
              | None \<Rightarrow> handle_recheck_failure summary (f_id f) (rk_job start) (no_verdict state there)
                          (no_verdict state there) (f_budget_override f)) });
     ok s
   }"

definition run_recheck ::
  "env \<Rightarrow> readers \<Rightarrow> config \<Rightarrow> finding \<Rightarrow> resume_plan option \<Rightarrow> cycle_summary io" where
  "run_recheck E R cfg f resume =
     ended_or (start_recheck E cfg f resume) (\<lambda>start.
           and_then (recheck_prompt R cfg f start resume) (\<lambda>prompt.
           and_then (bk_run (ev_backend E) (rk_ws start) prompt (rk_cap start) (cf_hunt_max_wall_s cfg) HuntClass
                       (map_option rp_session_file resume)) (\<lambda>rr.
             finish_recheck R cfg f resume start rr)))"

end
