(* ===== verification/Commands.thy ===== *)
theory Commands
  imports Prelude Utf8
begin

text \<open>
Running a command under a time limit (\<open>util.rs\<close>): the wait loop of \<open>run_cmd_in\<close>, and \<open>kill_tree\<close>, which
every way out of it goes through before the output is read.

A spawned child is a parameter: what \<open>try_wait\<close>, the clocks and the probe of its process group show at each
poll, and the bytes its pipes give up to their end once the group was left, which depend on how it was left: nothing
can be read from a child whose group has not been reaped. Spawning, signals and the reader threads are the operating system's. The
two loops have no bound of their own in the code; here they are given fuel, and it is shown to be enough.
\<close>

section \<open>A child and its process group\<close>

text \<open>How a group was left: the first \<open>SIGTERM\<close> found nobody, its members left by themselves, or they were killed.\<close>

datatype reaped = Already_gone | Left_by_itself nat | Killed nat

record child =
  ch_wait :: "nat \<Rightarrow> string + int option option"
  ch_clock :: "nat \<Rightarrow> rat"
  ch_signalled :: "nat \<Rightarrow> bool"
  ch_alive :: "nat \<Rightarrow> nat \<Rightarrow> bool"
  ch_grace :: "nat \<Rightarrow> nat \<Rightarrow> rat"
  ch_pipes :: "nat \<Rightarrow> reaped \<Rightarrow> string \<times> string"

text \<open>Probes after a kill: one each 100 ms, for ten seconds.\<close>

definition KILL_GRACE_S :: rat where "KILL_GRACE_S = 10"
definition KILL_PROBES :: nat where "KILL_PROBES = 101"

fun probe_group :: "nat \<Rightarrow> child \<Rightarrow> nat \<Rightarrow> nat \<Rightarrow> reaped option" where
  "probe_group 0 c i j = None"
| "probe_group (Suc n) c i j =
     (if \<not> ch_alive c i j then Some (Left_by_itself j)
      else if KILL_GRACE_S \<le> ch_grace c i j then Some (Killed j)
      else probe_group n c i (Suc j))"

definition kill_tree :: "child \<Rightarrow> nat \<Rightarrow> reaped option" where
  "kill_tree c i = (if \<not> ch_signalled c i then Some Already_gone else probe_group KILL_PROBES c i 0)"

definition join_pipes :: "string \<times> string \<Rightarrow> string" where
  "join_pipes pipes = utf8_lossy (fst pipes @ snd pipes)"

section \<open>Waiting\<close>

datatype ended = Exited "int option" | Timed_out | Wait_failed string

text \<open>The poll at which the wait is over, and why; the code sleeps between two polls.\<close>

fun await :: "nat \<Rightarrow> child \<Rightarrow> rat \<Rightarrow> nat \<Rightarrow> (nat \<times> ended) option" where
  "await 0 c limit i = None"
| "await (Suc n) c limit i =
     (case ch_wait c i of
        Inl e \<Rightarrow> Some (i, Wait_failed e)
      | Inr (Some code) \<Rightarrow> Some (i, Exited code)
      | Inr None \<Rightarrow> if limit \<le> ch_clock c i then Some (i, Timed_out) else await n c limit (Suc i))"

text \<open>Polls that fit into the limit, and the one that finds it over.\<close>

definition wait_polls :: "rat \<Rightarrow> nat \<Rightarrow> nat" where
  "wait_polls poll_s timeout_s = Suc (nat \<lceil>of_nat timeout_s / poll_s\<rceil>)"

definition COMMAND_POLL_S :: rat where "COMMAND_POLL_S = 1 / 20"

definition spawned_cmd :: "child \<Rightarrow> nat \<Rightarrow> (int \<times> string) option" where
  "spawned_cmd c timeout_s =
     Option.bind (await (wait_polls COMMAND_POLL_S timeout_s) c (of_nat timeout_s) 0) (\<lambda>(i, how).
     Option.bind (kill_tree c i) (\<lambda>r.
       (let out = join_pipes (ch_pipes c i r)
        in Some (case how of
             Exited code \<Rightarrow> (unwrap_or code (-1), out)
           | Timed_out \<Rightarrow> (124, ''timeout after '' @ show_nat timeout_s @ [CHR ''s'', CHR 0x0A] @ out)
           | Wait_failed e \<Rightarrow> (127, e @ [CHR 0x0A] @ out)))))"

definition run_cmd_in ::
  "(string list \<Rightarrow> string option \<Rightarrow> string + child) \<Rightarrow> string list \<Rightarrow> string option \<Rightarrow> nat \<Rightarrow> (int \<times> string) option" where
  "run_cmd_in spawn argv cwd timeout_s =
     (if argv = [] then Some (127, ''empty argv'')
      else case spawn argv cwd of
        Inl e \<Rightarrow> Some (127, e)
      | Inr c \<Rightarrow> spawned_cmd c timeout_s)"

definition run_cmd ::
  "(string list \<Rightarrow> string option \<Rightarrow> string + child) \<Rightarrow> string list \<Rightarrow> nat \<Rightarrow> (int \<times> string) option" where
  "run_cmd spawn argv timeout_s = run_cmd_in spawn argv None timeout_s"

section \<open>It comes back\<close>

text \<open>What the code's sleeps guarantee: the i-th poll comes no earlier than i sleeps after the spawn.\<close>

definition paced :: "rat \<Rightarrow> child \<Rightarrow> bool" where
  "paced poll_s c \<longleftrightarrow> (\<forall>i. of_nat i * poll_s \<le> ch_clock c i) \<and> (\<forall>i j. of_nat j / 10 \<le> ch_grace c i j)"

lemma await_ends:
  "j < n \<Longrightarrow> limit \<le> ch_clock c (i + j) \<Longrightarrow> await n c limit i \<noteq> None"
proof (induction n arbitrary: i j)
  case (Suc n)
  show ?case
  proof (cases "ch_wait c i")
    case (Inr r)
    then show ?thesis using Suc.prems Suc.IH [of "j - 1" "Suc i"] by (cases j; cases r) auto
  qed simp
qed simp

lemma wait_polls_enough:
  assumes "paced poll_s c" "0 < poll_s"
  shows "await (wait_polls poll_s timeout_s) c (of_nat timeout_s) 0 \<noteq> None"
proof (rule await_ends)
  let ?j = "nat \<lceil>of_nat timeout_s / poll_s\<rceil>"
  show "?j < wait_polls poll_s timeout_s" by (simp add: wait_polls_def)
  have "of_nat timeout_s / poll_s \<le> of_nat ?j" by (simp add: of_nat_ceiling)
  then have "of_nat timeout_s \<le> of_nat ?j * poll_s" by (simp only: pos_divide_le_eq [OF assms(2)])
  also have "\<dots> \<le> ch_clock c ?j" using assms(1) by (simp add: paced_def)
  finally show "of_nat timeout_s \<le> ch_clock c (0 + ?j)" by simp
qed

lemma probe_group_ends:
  "j < n \<Longrightarrow> KILL_GRACE_S \<le> ch_grace c i (k + j) \<Longrightarrow> probe_group n c i k \<noteq> None"
proof (induction n arbitrary: j k)
  case (Suc n)
  then show ?case using Suc.IH [of "j - 1" "Suc k"] by (cases j) auto
qed simp

lemma kill_tree_ends:
  assumes "paced poll_s c"
  shows "kill_tree c i \<noteq> None"
proof -
  have "of_nat 100 / 10 \<le> ch_grace c i 100" using assms unfolding paced_def by blast
  then have "KILL_GRACE_S \<le> ch_grace c i (0 + 100)" by (simp add: KILL_GRACE_S_def)
  then show ?thesis using probe_group_ends [of 100 KILL_PROBES c i 0] by (simp add: kill_tree_def KILL_PROBES_def)
qed

text \<open>Nobody of the group is left holding the pipes: the \<open>SIGTERM\<close> found no one, a probe found no one, or the
  grace was over and whoever was left was killed.\<close>

fun group_over :: "child \<Rightarrow> nat \<Rightarrow> reaped \<Rightarrow> bool" where
  "group_over c i Already_gone \<longleftrightarrow> \<not> ch_signalled c i"
| "group_over c i (Left_by_itself j) \<longleftrightarrow> ch_signalled c i \<and> \<not> ch_alive c i j"
| "group_over c i (Killed j) \<longleftrightarrow> ch_signalled c i \<and> ch_alive c i j \<and> KILL_GRACE_S \<le> ch_grace c i j"

lemma probe_group_over:
  "probe_group n c i k = Some r \<Longrightarrow> ch_signalled c i \<Longrightarrow> group_over c i r"
  by (induction n arbitrary: k) (auto split: if_splits)

lemma kill_tree_over: "kill_tree c i = Some r \<Longrightarrow> group_over c i r"
  by (auto simp: kill_tree_def probe_group_over split: if_splits)

lemma await_Some:
  "await n c limit i = Some (k, how) \<Longrightarrow> i \<le> k \<and>
     (case how of Exited code \<Rightarrow> ch_wait c k = Inr (Some code)
      | Timed_out \<Rightarrow> ch_wait c k = Inr None \<and> limit \<le> ch_clock c k
      | Wait_failed e \<Rightarrow> ch_wait c k = Inl e) \<and>
     (\<forall>m. i \<le> m \<longrightarrow> m < k \<longrightarrow> ch_wait c m = Inr None \<and> ch_clock c m < limit)"
proof (induction n arbitrary: i)
  case (Suc n)
  show ?case
  proof (cases "ch_wait c i = Inr None \<and> ch_clock c i < limit")
    case True
    with Suc.prems have rest: "await n c limit (Suc i) = Some (k, how)" by (simp split: if_splits)
    show ?thesis
    proof (intro conjI allI impI)
      show "i \<le> k" using Suc.IH [OF rest] by simp
      show "case how of Exited code \<Rightarrow> ch_wait c k = Inr (Some code)
          | Timed_out \<Rightarrow> ch_wait c k = Inr None \<and> limit \<le> ch_clock c k | Wait_failed e \<Rightarrow> ch_wait c k = Inl e"
        using Suc.IH [OF rest] by simp
      fix m
      assume "i \<le> m" "m < k"
      then show "ch_wait c m = Inr None" "ch_clock c m < limit"
        using True Suc.IH [OF rest] by (cases "m = i"; simp)+
    qed
  next
    case False
    with Suc.prems show ?thesis by (auto split: sum.splits option.splits if_splits)
  qed
qed simp

text \<open>What a command comes back with when its wait is over at poll \<open>i\<close>: the exit code and the output, 124 and the
  timeout, or 127 and the error of the wait.\<close>

definition command_result :: "child \<Rightarrow> nat \<Rightarrow> nat \<Rightarrow> string \<Rightarrow> int \<times> string \<Rightarrow> bool" where
  "command_result c timeout_s i out result \<longleftrightarrow>
     (case ch_wait c i of
        Inr (Some code) \<Rightarrow> result = (case code of Some n \<Rightarrow> n | None \<Rightarrow> -1, out)
      | Inr None \<Rightarrow> of_nat timeout_s \<le> ch_clock c i \<and>
          result = (124, ''timeout after '' @ show_nat timeout_s @ [CHR ''s'', CHR 0x0A] @ out)
      | Inl e \<Rightarrow> result = (127, e @ [CHR 0x0A] @ out))"

text \<open>C37. A command never outlives its limit: whatever the child and its descendants do, \<open>run_cmd\<close> comes back. It waits
  only while the child runs and the limit has not passed; the poll that ends the wait gives the result, the exit code,
  124 exactly if the child still ran when the limit had passed, or 127; and the output in it was read only once the
  whole process group had left or had been killed, on every one of the three ways out.\<close>

theorem command_comes_back:
  assumes "paced COMMAND_POLL_S c"
  shows "\<exists>i r result. spawned_cmd c timeout_s = Some result \<and> group_over c i r \<and>
    command_result c timeout_s i (join_pipes (ch_pipes c i r)) result \<and>
    (\<forall>m < i. ch_wait c m = Inr None \<and> ch_clock c m < of_nat timeout_s)"
proof -
  obtain i how where w: "await (wait_polls COMMAND_POLL_S timeout_s) c (of_nat timeout_s) 0 = Some (i, how)"
    using wait_polls_enough [OF assms, of timeout_s] by (auto simp: COMMAND_POLL_S_def)
  obtain r where r: "kill_tree c i = Some r" using kill_tree_ends [OF assms] by blast
  from w r have "spawned_cmd c timeout_s = Some (case how of
      Exited code \<Rightarrow> (unwrap_or code (-1), join_pipes (ch_pipes c i r))
    | Timed_out \<Rightarrow> (124, ''timeout after '' @ show_nat timeout_s @ [CHR ''s'', CHR 0x0A] @ join_pipes (ch_pipes c i r))
    | Wait_failed e \<Rightarrow> (127, e @ [CHR 0x0A] @ join_pipes (ch_pipes c i r)))" (is "_ = Some ?result")
    by (simp add: spawned_cmd_def Let_def)
  moreover have "command_result c timeout_s i (join_pipes (ch_pipes c i r)) ?result"
    using await_Some [OF w] by (auto simp: command_result_def split: ended.split option.split)
  moreover have "\<forall>m < i. ch_wait c m = Inr None \<and> ch_clock c m < of_nat timeout_s"
    using await_Some [OF w] by simp
  ultimately show ?thesis using kill_tree_over [OF r] by blast
qed

text \<open>A shell that left at once, with a grandchild that ignores \<open>SIGTERM\<close> still holding its pipes until it is killed.\<close>

definition lingering :: child where
  "lingering = \<lparr>ch_wait = (\<lambda>_. Inr (Some (Some 0))), ch_clock = (\<lambda>i. of_nat i), ch_signalled = (\<lambda>_. True),
     ch_alive = (\<lambda>_ _. True), ch_grace = (\<lambda>_ j. of_nat j), ch_pipes = (\<lambda>_ _. (''done'', []))\<rparr>"

theorem command_comes_back_witness:
  "kill_tree lingering 0 = Some (Killed 10) \<and> spawned_cmd lingering 1 = Some (0, utf8_lossy ''done'')"
proof -
  have "paced COMMAND_POLL_S lingering" by (auto simp: paced_def lingering_def COMMAND_POLL_S_def)
  from command_comes_back [OF this, of 1] have "spawned_cmd lingering 1 = Some (0, utf8_lossy ''done'')"
    by (auto simp: command_result_def lingering_def join_pipes_def)
  moreover have "kill_tree lingering 0 = Some (Killed 10)" by code_simp
  ultimately show ?thesis by simp
qed

end
