(* ===== verification/DepScan.thy ===== *)
theory DepScan
  imports Commands Json World "HOL-Library.Multiset"
begin

text \<open>
The static dependency scan (\<open>dep_scan.rs\<close>): which Renovate is run and with what, reading its log, and
turning its branches into candidates.

JSON parsing, the file system's \<open>canonicalize\<close>, the environment and the child process are parameters.
Confidences are exact rationals. An \<open>unreachable!\<close> of the code is a missing result; that it is never
reached is proved.
\<close>

section \<open>Candidates\<close>

record dep_move =
  dm_package :: string
  dm_major :: bool

record dep_candidate =
  dc_fingerprint :: string
  dc_file :: string
  dc_ecosystem :: string
  dc_package :: string
  dc_current_version :: string
  dc_latest_version :: string
  dc_update_type :: string
  dc_severity :: severity
  dc_confidence :: rat
  dc_summary :: string
  dc_detail :: string
  dc_unit :: string
  dc_moves :: "dep_move list"

record dep_scan =
  ds_candidates :: "dep_candidate list"
  ds_unchecked :: "string list"

record member =
  mb_package :: string
  mb_datasource :: string
  mb_current :: string
  mb_new_version :: string
  mb_update_type :: string
  mb_vulnerable :: bool
  mb_files :: "string list"

type_synonym branches = "(string \<times> member list) list"

section \<open>Reading one dependency\<close>

definition normalize_update_type :: "string \<Rightarrow> string" where
  "normalize_update_type ut =
     (if ut \<in> {''pin'', ''pinDigest'', ''digest'', ''lockFileMaintenance'', ''lockfileUpdate''} then ''patch'' else ut)"

fun first_str :: "json \<Rightarrow> string list \<Rightarrow> string option" where
  "first_str v [] = None"
| "first_str v (k # ks) = opt_or (str_field v k) (first_str v ks)"

definition non_empty_array :: "json option \<Rightarrow> bool" where
  "non_empty_array v = (case Option.bind v as_array of Some (_ # _) \<Rightarrow> True | _ \<Rightarrow> False)"

definition unchecked_dep :: "json \<Rightarrow> string option" where
  "unchecked_dep dep =
     (if \<not> (json_get dep ''skipReason'' \<noteq> None \<or> non_empty_array (json_get dep ''warnings'')) then None
      else Option.bind (opt_or (json_get dep ''depName'') (json_get dep ''packageName'')) as_str)"

definition branch_key :: "string \<Rightarrow> string \<Rightarrow> json \<Rightarrow> string" where
  "branch_key package update_type u =
     (case str_field u ''branchName'' of
        Some b \<Rightarrow> unwrap_or (strip_prefix ''renovate/'' b) b
      | None \<Rightarrow> package @ (if update_type = ''major'' then ''-major'' else ''-non-major''))"

fun as_bool :: "json \<Rightarrow> bool option" where
  "as_bool (JBool b) = Some b"
| "as_bool _ = None"

definition same_member :: "member \<Rightarrow> member \<Rightarrow> bool" where
  "same_member a b \<longleftrightarrow> mb_package a = mb_package b \<and> mb_datasource a = mb_datasource b \<and>
     mb_current a = mb_current b \<and> mb_new_version a = mb_new_version b"

text \<open>\<open>m\<close> holds the one file it was seen in.\<close>

definition merge_member :: "member \<Rightarrow> member \<Rightarrow> member" where
  "merge_member m old =
     old\<lparr>mb_files := mb_files old @ filter (\<lambda>f. f \<notin> set (mb_files old)) (mb_files m),
         mb_vulnerable := (mb_vulnerable old \<or> mb_vulnerable m)\<rparr>"

fun file_member :: "member \<Rightarrow> member list \<Rightarrow> member list" where
  "file_member m [] = [m]"
| "file_member m (old # ms) =
     (if same_member old m then merge_member m old # ms else old # file_member m ms)"

fun file_under :: "string \<Rightarrow> member \<Rightarrow> branches \<Rightarrow> branches" where
  "file_under key m [] = [(key, [m])]"
| "file_under key m ((k, ms) # bs) =
     (if k = key then (k, file_member m ms) # bs else (k, ms) # file_under key m bs)"

definition update_member :: "string \<Rightarrow> string \<Rightarrow> string \<Rightarrow> string \<Rightarrow> json \<Rightarrow> member" where
  "update_member package datasource current pkg_file u =
     \<lparr>mb_package = package, mb_datasource = datasource, mb_current = current,
      mb_new_version = unwrap_or (first_str u [''newVersion'', ''newValue'']) ''?'',
      mb_update_type = normalize_update_type (unwrap_or (str_field u ''updateType'') ''unknown''),
      mb_vulnerable = unwrap_or (Option.bind (json_get u ''isVulnerabilityAlert'') as_bool) False,
      mb_files = [pkg_file]\<rparr>"

definition collect_dep_updates :: "json \<Rightarrow> string \<Rightarrow> string \<Rightarrow> branches \<Rightarrow> branches" where
  "collect_dep_updates dep manager pkg_file bs =
     (case (first_str dep [''depName'', ''packageName''], Option.bind (json_get dep ''updates'') as_array) of
        (Some package, Some updates) \<Rightarrow>
          (let current = (case first_str dep [''currentVersion'', ''currentValue''] of
                            None \<Rightarrow> ''?'' | Some c \<Rightarrow> trim_start_by (\<lambda>x. x \<in> set ''^~>=<'') c);
               datasource = unwrap_or (first_str dep [''datasource'']) manager
           in fold (\<lambda>u bs.
                 let m = update_member package datasource current pkg_file u
                 in file_under (branch_key package (mb_update_type m) u) m bs) updates bs)
      | _ \<Rightarrow> bs)"

section \<open>The candidate of a branch\<close>

definition type_rank :: "string \<Rightarrow> nat" where
  "type_rank ut = (if ut = ''major'' then 2 else if ut = ''minor'' then 1 else 0)"

text \<open>\<open>Iterator::max_by_key\<close>: the last element with the greatest key.\<close>

fun max_by_key :: "('a \<Rightarrow> nat) \<Rightarrow> 'a list \<Rightarrow> 'a option" where
  "max_by_key k [] = None"
| "max_by_key k (x # xs) = (case max_by_key k xs of None \<Rightarrow> Some x | Some y \<Rightarrow> if k x \<le> k y then Some y else Some x)"

text \<open>Distinct values in first-seen order.\<close>

definition seen_once :: "string list \<Rightarrow> string list" where
  "seen_once xs = fold (\<lambda>x out. if x \<in> set out then out else out @ [x]) xs []"

definition member_severity :: "member \<Rightarrow> severity" where
  "member_severity m =
     (if mb_update_type m = ''major'' then High
      else if mb_update_type m = ''minor'' then Medium
      else if mb_vulnerable m then High else Low)"

definition severity_grade :: "severity \<Rightarrow> nat" where
  "severity_grade s = (case s of Low \<Rightarrow> 0 | Medium \<Rightarrow> 1 | High \<Rightarrow> 2)"

definition arrow :: string where
  "arrow = [CHR 0x20, CHR 0xE2, CHR 0x86, CHR 0x92, CHR 0x20]"

definition standing_at :: "member list \<Rightarrow> string list" where
  "standing_at ms =
     (let packages = seen_once (map mb_package ms)
      in sort (concat (map (\<lambda>m.
           replicate (length (mb_files m))
             (if length packages = 1 then mb_current m else mb_package m @ ''='' @ mb_current m)) ms)))"

definition member_line :: "member \<Rightarrow> string" where
  "member_line m =
     [CHR 0x0A] @ ''- '' @ mb_package m @ '' ('' @ mb_datasource m @ ''): '' @ mb_current m @ arrow @ mb_new_version m @
     '' ['' @ mb_update_type m @ '']'' @ (if mb_vulnerable m then '' [security]'' else []) @
     '' in '' @ join '', '' (mb_files m)"

definition moves_of :: "member list \<Rightarrow> dep_move list" where
  "moves_of ms =
     fold (\<lambda>m out. let mv = \<lparr>dm_package = mb_package m, dm_major = (mb_update_type m = ''major'')\<rparr>
                    in if mv \<in> set out then out else out @ [mv]) ms []"

definition branch_candidate :: "string \<Rightarrow> string \<times> member list \<Rightarrow> dep_candidate option" where
  "branch_candidate repo_name branch =
     (let (key, ms) = branch in
      case (max_by_key (\<lambda>m. type_rank (mb_update_type m)) (rev ms), max_by_key severity_grade (map member_severity ms)) of
        (Some lead, Some severity) \<Rightarrow>
          (let update_type = mb_update_type lead;
               current_version = join '', '' (seen_once (map mb_current ms));
               latest = join '', '' (seen_once (map mb_new_version ms));
               packages = seen_once (map mb_package ms);
               unit_name = repo_name @ '':dep:'' @ key @ ''@'';
               (package, summary) =
                 (case packages of
                    [one] \<Rightarrow> (one, one @ '': '' @ update_type @ '' update '' @ current_version @ arrow @ latest)
                  | many \<Rightarrow> (key, key @ '': '' @ update_type @ '' update of '' @ show_nat (length many) @
                                '' packages that move together ('' @ join '', '' many @ '')''))
           in Some \<lparr>dc_fingerprint = unit_name @ join ''+'' (standing_at ms),
                dc_file = join '', '' (seen_once (concat (map mb_files ms))),
                dc_ecosystem = join ''+'' (seen_once (map mb_datasource ms)),
                dc_package = package, dc_current_version = current_version, dc_latest_version = latest,
                dc_update_type = update_type, dc_severity = severity,
                dc_confidence = (if update_type = ''patch'' then 19 / 20 else if update_type = ''minor'' then 17 / 20 else 7 / 10),
                dc_summary = summary,
                dc_detail = ''Renovate branch renovate/'' @ key @ '': one change moves all of these together.'' @
                  concat (map member_line ms),
                dc_unit = unit_name, dc_moves = moves_of ms\<rparr>)
      | _ \<Rightarrow> None)"

section \<open>Renovate's log\<close>

record reading =
  rg_branches :: branches
  rg_unchecked :: "string list"
  rg_looked_up :: nat

definition read_dep :: "string \<Rightarrow> string \<Rightarrow> json \<Rightarrow> reading \<Rightarrow> reading" where
  "read_dep manager pkg_file dep g =
     g\<lparr>rg_branches := collect_dep_updates dep manager pkg_file (rg_branches g),
       rg_unchecked := (case unchecked_dep dep of
          Some name \<Rightarrow> if name \<in> set (rg_unchecked g) then rg_unchecked g else rg_unchecked g @ [name]
        | None \<Rightarrow> rg_unchecked g)\<rparr>"

definition read_package_file :: "string \<Rightarrow> json \<Rightarrow> reading \<Rightarrow> reading" where
  "read_package_file manager pf g =
     (if \<not> is_object pf then g
      else case Option.bind (json_get pf ''deps'') as_array of
        None \<Rightarrow> g
      | Some deps \<Rightarrow>
          fold (read_dep manager (unwrap_or (str_field pf ''packageFile'') []))
            deps (g\<lparr>rg_looked_up := rg_looked_up g + length (filter (\<lambda>d. json_get d ''skipReason'' = None) deps)\<rparr>))"

definition read_manager :: "string \<times> json \<Rightarrow> reading \<Rightarrow> reading" where
  "read_manager entry g =
     (case as_array (snd entry) of None \<Rightarrow> g | Some files \<Rightarrow> fold (read_package_file (fst entry)) files g)"

fun as_object :: "json \<Rightarrow> (string \<times> json) list option" where
  "as_object (JObject kvs) = Some kvs"
| "as_object _ = None"

definition read_line :: "(string \<Rightarrow> string + json) \<Rightarrow> string \<Rightarrow> reading \<Rightarrow> reading" where
  "read_line parse l g =
     (case parse l of
        Inl _ \<Rightarrow> g
      | Inr obj \<Rightarrow>
          (case Option.bind (json_get obj ''config'') as_object of
             None \<Rightarrow> g
           | Some managers \<Rightarrow> fold read_manager managers g))"

definition parse_renovate_output :: "(string \<Rightarrow> string + json) \<Rightarrow> string \<Rightarrow> string \<Rightarrow> (dep_scan \<times> nat) option" where
  "parse_renovate_output parse output repo_name =
     (let g = fold (read_line parse) (lines output) \<lparr>rg_branches = [], rg_unchecked = [], rg_looked_up = 0\<rparr>
      in map_option (\<lambda>cs. (\<lparr>ds_candidates = cs, ds_unchecked = rg_unchecked g\<rparr>, rg_looked_up g))
           (those (map (branch_candidate repo_name) (rg_branches g))))"

section \<open>Running Renovate\<close>

record renovate_host =
  rh_path :: "string list option"
  rh_real :: "string \<Rightarrow> string option"
  rh_executable :: "string \<Rightarrow> bool"
  rh_env :: "string \<Rightarrow> string option"
  rh_spawn :: "string \<Rightarrow> string list \<Rightarrow> (string \<times> string) list \<Rightarrow> string \<Rightarrow> string + child"

definition FORWARDED_ENV :: "string list" where
  "FORWARDED_ENV = [''HOME'', ''TMPDIR'', ''LANG'', ''LC_ALL'', ''http_proxy'', ''https_proxy'', ''no_proxy'',
     ''HTTP_PROXY'', ''HTTPS_PROXY'', ''NO_PROXY'']"

definition GITHUB_TOKEN_ENV :: string where "GITHUB_TOKEN_ENV = ''GITHUB_COM_TOKEN''"

definition RENOVATE_PRESETS :: string where
  "RENOVATE_PRESETS = [CHR ''['', CHR 0x22] @ ''config:recommended'' @ [CHR 0x22, CHR '']'']"

definition github_token :: "forge_name \<Rightarrow> string option \<Rightarrow> string option act" where
  "github_token forge configured =
     (if forge \<noteq> Github then State_Monad.return None
      else case configured of
        Some token \<Rightarrow> State_Monad.return (Some token)
      | None \<Rightarrow> do {
          (rc, out) \<leftarrow> shell [''gh'', ''auth'', ''token'', ''--hostname'', ''github.com''];
          let token = trim out;
          State_Monad.return (if rc \<noteq> 0 \<or> token = [] \<or> list_ex is_space token then None else Some token) })"

definition inside :: "renovate_host \<Rightarrow> string \<Rightarrow> string \<Rightarrow> bool" where
  "inside H repo p = (case rh_real H p of Some canon \<Rightarrow> path_starts_with canon repo | None \<Rightarrow> False)"

text \<open>\<open>join_paths\<close> refuses an entry that holds the separator.\<close>

definition join_paths :: "string list \<Rightarrow> string option" where
  "join_paths dirs = (if list_ex (\<lambda>d. CHR '':'' \<in> set d) dirs then None else Some (join '':'' dirs))"

definition searched_dirs :: "renovate_host \<Rightarrow> string \<Rightarrow> string list \<Rightarrow> string list" where
  "searched_dirs H repo dirs = filter (\<lambda>d. starts_with ''/'' d \<and> \<not> inside H repo d) dirs"

definition resolve_renovate :: "renovate_host \<Rightarrow> string \<Rightarrow> (string \<times> string) option" where
  "resolve_renovate H repo_path =
     Option.bind (rh_real H repo_path) (\<lambda>repo.
     Option.bind (rh_path H) (\<lambda>all_dirs.
       (let dirs = searched_dirs H repo all_dirs
        in Option.bind (find (\<lambda>c. rh_executable H c \<and> \<not> inside H repo c) (map (\<lambda>d. path_join d ''renovate'') dirs)) (\<lambda>binary.
           Option.bind (join_paths dirs) (\<lambda>clean_path. Some (binary, clean_path))))))"

definition renovate_env :: "renovate_host \<Rightarrow> string \<Rightarrow> string option \<Rightarrow> (string \<times> string) list" where
  "renovate_env H clean_path token =
     [(''PATH'', clean_path), (''LOG_FORMAT'', ''json''), (''LOG_LEVEL'', ''debug''), (''RENOVATE_EXTENDS'', RENOVATE_PRESETS)] @
     List.map_filter (\<lambda>key. map_option (Pair key) (rh_env H key)) FORWARDED_ENV @
     (case token of Some t \<Rightarrow> [(GITHUB_TOKEN_ENV, t)] | None \<Rightarrow> [])"

definition RENOVATE_POLL_S :: rat where "RENOVATE_POLL_S = 1 / 5"

text \<open>What a child that is over amounts to; the inner \<open>None\<close> is the code's \<open>no answer\<close>.\<close>

definition renovate_answer ::
  "(string \<Rightarrow> string + json) \<Rightarrow> string \<Rightarrow> child \<Rightarrow> nat \<times> ended \<Rightarrow> dep_scan option option" where
  "renovate_answer parse repo_name c over =
     Option.bind (kill_tree c (fst over)) (\<lambda>reaped.
       case snd over of
         Exited code \<Rightarrow>
           if code \<noteq> Some 0 then Some None
           else map_option (\<lambda>(scan, looked_up). if looked_up = 0 then None else Some scan)
                  (parse_renovate_output parse (join_pipes (ch_pipes c (fst over) reaped)) repo_name)
       | _ \<Rightarrow> Some None)"

definition scan_repo ::
  "(string \<Rightarrow> string + json) \<Rightarrow> renovate_host \<Rightarrow> string \<Rightarrow> string \<Rightarrow> string option \<Rightarrow> nat \<Rightarrow> dep_scan option option" where
  "scan_repo parse H repo_path repo_name token timeout_s =
     (case resolve_renovate H repo_path of
        None \<Rightarrow> Some None
      | Some (renovate, clean_path) \<Rightarrow>
          (case rh_spawn H renovate [''--platform=local'', ''--dry-run=lookup''] (renovate_env H clean_path token) repo_path of
             Inl _ \<Rightarrow> Some None
           | Inr c \<Rightarrow>
               Option.bind (await (wait_polls RENOVATE_POLL_S timeout_s) c (of_nat timeout_s) 0)
                 (renovate_answer parse repo_name c)))"

section \<open>What the scan guarantees\<close>

lemma max_by_key_None: "max_by_key k xs = None \<longleftrightarrow> xs = []"
  by (cases xs) (auto split: option.split)

text \<open>A branch is never without a member, nor a member without a manifest it was seen in.\<close>

definition in_manifests :: "member list \<Rightarrow> bool" where
  "in_manifests ms \<longleftrightarrow> ms \<noteq> [] \<and> (\<forall>m \<in> set ms. mb_files m \<noteq> [])"

lemma in_manifests_file_member: "in_manifests ms \<Longrightarrow> mb_files m \<noteq> [] \<Longrightarrow> in_manifests (file_member m ms)"
proof (induction m ms rule: file_member.induct)
  case (2 m old ms)
  then show ?case by (cases ms) (auto simp: in_manifests_def merge_member_def)
qed (simp add: in_manifests_def)

definition filled :: "branches \<Rightarrow> bool" where
  "filled bs \<longleftrightarrow> (\<forall>b \<in> set bs. in_manifests (snd b))"

lemma filled_file_under: "filled bs \<Longrightarrow> mb_files m \<noteq> [] \<Longrightarrow> filled (file_under key m bs)"
  by (induction key m bs rule: file_under.induct)
    (auto simp: filled_def in_manifests_file_member in_manifests_def [of "[_]"])

lemma fold_keeps: "(\<And>x s. x \<in> set xs \<Longrightarrow> P s \<Longrightarrow> P (f x s)) \<Longrightarrow> P s \<Longrightarrow> P (fold f xs s)"
  by (induction xs arbitrary: s) auto

lemma filled_collect: "filled bs \<Longrightarrow> filled (collect_dep_updates dep manager pf bs)"
  unfolding collect_dep_updates_def
  by (auto simp: Let_def update_member_def intro!: fold_keeps [where P = filled] filled_file_under split: option.split)

lemma filled_read_line: "filled (rg_branches g) \<Longrightarrow> filled (rg_branches (read_line parse l g))"
proof -
  have dep: "filled (rg_branches g) \<Longrightarrow> filled (rg_branches (read_dep m pf d g))" for m pf d g
    by (simp add: read_dep_def filled_collect)
  have pf: "filled (rg_branches g) \<Longrightarrow> filled (rg_branches (read_package_file m pf g))" for m pf g
    unfolding read_package_file_def
    by (auto intro!: fold_keeps [where P = "\<lambda>g. filled (rg_branches g)"] dep split: option.split)
  have man: "filled (rg_branches g) \<Longrightarrow> filled (rg_branches (read_manager e g))" for e g
    unfolding read_manager_def
    by (auto intro!: fold_keeps [where P = "\<lambda>g. filled (rg_branches g)"] pf split: option.split)
  show "filled (rg_branches g) \<Longrightarrow> filled (rg_branches (read_line parse l g))"
    unfolding read_line_def
    by (auto intro!: fold_keeps [where P = "\<lambda>g. filled (rg_branches g)"] man split: option.split sum.split)
qed

lemma branch_candidate_total: "snd b \<noteq> [] \<Longrightarrow> branch_candidate name b \<noteq> None"
  by (auto simp: branch_candidate_def max_by_key_None Let_def split: option.split prod.split)

lemma those_Some: "(\<And>x. x \<in> set xs \<Longrightarrow> x \<noteq> None) \<Longrightarrow> those xs \<noteq> None"
proof (induction xs)
  case (Cons a xs)
  then show ?case by (cases a) auto
qed simp

lemma parse_total: "parse_renovate_output parse output name \<noteq> None"
proof -
  have "filled (rg_branches (fold (read_line parse) (lines output) \<lparr>rg_branches = [], rg_unchecked = [], rg_looked_up = 0\<rparr>))"
    by (intro fold_keeps [where P = "\<lambda>g. filled (rg_branches g)"] filled_read_line) (simp_all add: filled_def)
  then have "those (map (branch_candidate name) (rg_branches
      (fold (read_line parse) (lines output) \<lparr>rg_branches = [], rg_unchecked = [], rg_looked_up = 0\<rparr>))) \<noteq> None"
    by (intro those_Some) (auto simp: filled_def in_manifests_def dest: branch_candidate_total)
  then show ?thesis by (simp add: parse_renovate_output_def Let_def)
qed

text \<open>A program that may be run for a checkout: one called \<open>renovate\<close> in a directory of its search path, which, like
  every directory of that path, is not inside the repository once links are followed; the directories are absolute.\<close>

definition outside_checkout :: "renovate_host \<Rightarrow> string \<Rightarrow> string \<Rightarrow> (string \<times> string) list \<Rightarrow> bool" where
  "outside_checkout H repo_path bin env \<longleftrightarrow>
     (\<exists>repo dirs. rh_real H repo_path = Some repo \<and> map_of env ''PATH'' = Some (join '':'' dirs) \<and>
        (\<exists>d \<in> set dirs. bin = path_join d ''renovate'') \<and>
        (\<forall>d \<in> set dirs. starts_with ''/'' d) \<and>
        (\<forall>p \<in> set (bin # dirs). \<forall>q. rh_real H p = Some q \<longrightarrow> \<not> path_starts_with q repo))"

lemma resolved_outside:
  assumes "resolve_renovate H repo_path = Some (bin, path)"
  shows "outside_checkout H repo_path bin (renovate_env H path token)"
proof -
  from assms obtain repo all_dirs where d: "rh_real H repo_path = Some repo"
    "find (\<lambda>c. rh_executable H c \<and> \<not> inside H repo c) (map (\<lambda>d. path_join d ''renovate'') (searched_dirs H repo all_dirs)) = Some bin"
    "join_paths (searched_dirs H repo all_dirs) = Some path"
    by (auto simp: resolve_renovate_def Let_def bind_eq_Some_conv)
  from d(2) have "bin \<in> (\<lambda>d. path_join d ''renovate'') ` set (searched_dirs H repo all_dirs)" "\<not> inside H repo bin"
    using find_Some_set by fastforce+
  with d(1,3) show ?thesis unfolding outside_checkout_def
    by (intro exI [where x = repo] exI [where x = "searched_dirs H repo all_dirs"])
      (auto simp: join_paths_def searched_dirs_def inside_def renovate_env_def split: if_splits)
qed

text \<open>C18. A dependency scan comes back, and only ever runs a Renovate from outside the checkout it scans: whatever the log
  holds the parser reaches a result and the process is over by the time limit; and the scan is the same whatever any
  other program would do when it is run, so the one it runs is called \<open>renovate\<close>, lies outside the repository and is given
  a search path of absolute directories outside it. Where none such is found the scan has no answer and runs nothing.\<close>

theorem scan_runs_outside_checkout:
  assumes "\<And>bin args env cwd c. rh_spawn H bin args env cwd = Inr c \<Longrightarrow> paced RENOVATE_POLL_S c"
  shows "scan_repo parse H repo_path name token timeout_s \<noteq> None \<and>
    (\<forall>spawn. (\<forall>bin args env cwd. outside_checkout H repo_path bin env \<longrightarrow> spawn bin args env cwd = rh_spawn H bin args env cwd) \<longrightarrow>
       scan_repo parse (H\<lparr>rh_spawn := spawn\<rparr>) repo_path name token timeout_s = scan_repo parse H repo_path name token timeout_s) \<and>
    (resolve_renovate H repo_path = None \<longrightarrow> scan_repo parse H repo_path name token timeout_s = Some None)"
proof -
  have "renovate_answer parse name c over \<noteq> None" if "paced RENOVATE_POLL_S c" for c over
    using kill_tree_ends [OF that, of "fst over"] parse_total [of parse _ name]
    by (auto simp: renovate_answer_def split: ended.split)
  then have answer: "Option.bind (await (wait_polls RENOVATE_POLL_S timeout_s) c (of_nat timeout_s) 0) (renovate_answer parse name c) \<noteq> None"
    if "paced RENOVATE_POLL_S c" for c
    using wait_polls_enough [OF that, of timeout_s] that by (auto simp: RENOVATE_POLL_S_def)
  have "scan_repo parse H repo_path name token timeout_s \<noteq> None"
    unfolding scan_repo_def using answer [OF assms] by (auto split: option.split sum.split)
  moreover have "scan_repo parse (H\<lparr>rh_spawn := spawn\<rparr>) repo_path name token timeout_s = scan_repo parse H repo_path name token timeout_s"
    if "\<forall>bin args env cwd. outside_checkout H repo_path bin env \<longrightarrow> spawn bin args env cwd = rh_spawn H bin args env cwd" for spawn
  proof -
    have same: "resolve_renovate (H\<lparr>rh_spawn := spawn\<rparr>) repo_path = resolve_renovate H repo_path"
      "renovate_env (H\<lparr>rh_spawn := spawn\<rparr>) = renovate_env H"
      by (simp_all add: resolve_renovate_def searched_dirs_def inside_def renovate_env_def fun_eq_iff cong: option.case_cong)
    show ?thesis using that resolved_outside [of H repo_path _ _ token]
      by (cases "resolve_renovate H repo_path") (auto simp: scan_repo_def same)
  qed
  moreover have "scan_repo parse H repo_path name token timeout_s = Some None" if "resolve_renovate H repo_path = None"
    using that by (simp add: scan_repo_def)
  ultimately show ?thesis by blast
qed

text \<open>A repository that carries its own \<open>node_modules/.bin/renovate\<close>, first on the search path.\<close>

definition planted_host :: renovate_host where
  "planted_host = \<lparr>rh_path = Some [''node_modules/.bin'', ''/co/bin'', ''/usr/bin''], rh_real = Some, rh_executable = (\<lambda>_. True),
     rh_env = (\<lambda>_. None), rh_spawn = (\<lambda>_ _ _ _. Inr lingering)\<rparr>"

lemma planted_resolved: "resolve_renovate planted_host ''/co'' = Some (''/usr/bin/renovate'', ''/usr/bin'')"
  by code_simp

lemma planted_outside:
  "\<not> outside_checkout planted_host ''/co'' ''npx'' env" "\<not> outside_checkout planted_host ''/co'' ''/co/bin/renovate'' env"
proof -
  have "path_starts_with ''/co/bin/renovate'' ''/co''" by code_simp
  then show "\<not> outside_checkout planted_host ''/co'' ''npx'' env" "\<not> outside_checkout planted_host ''/co'' ''/co/bin/renovate'' env"
    by (auto simp: outside_checkout_def planted_host_def path_join_def)
qed

text \<open>What \<open>npx\<close> and the planted program would do never shows.\<close>

theorem scan_runs_outside_checkout_witness:
  "scan_repo Inl planted_host ''/co'' ''demo'' None 120 \<noteq> None \<and>
    scan_repo Inl (planted_host\<lparr>rh_spawn := (\<lambda>bin args env cwd.
        if bin = ''npx'' \<or> bin = ''/co/bin/renovate'' then Inl [] else Inr lingering)\<rparr>) ''/co'' ''demo'' None 120 =
      scan_repo Inl planted_host ''/co'' ''demo'' None 120"
proof -
  have scanned: "scan_repo Inl planted_host ''/co'' ''demo'' None 120 \<noteq> None \<and>
    (\<forall>spawn. (\<forall>bin args env cwd. outside_checkout planted_host ''/co'' bin env \<longrightarrow>
         spawn bin args env cwd = rh_spawn planted_host bin args env cwd) \<longrightarrow>
       scan_repo Inl (planted_host\<lparr>rh_spawn := spawn\<rparr>) ''/co'' ''demo'' None 120 = scan_repo Inl planted_host ''/co'' ''demo'' None 120) \<and>
    (resolve_renovate planted_host ''/co'' = None \<longrightarrow> scan_repo Inl planted_host ''/co'' ''demo'' None 120 = Some None)"
    by (rule scan_runs_outside_checkout) (auto simp: planted_host_def paced_def lingering_def RENOVATE_POLL_S_def)
  have all: "scan_repo Inl planted_host ''/co'' ''demo'' None 120 \<noteq> None"
    "(\<forall>bin args env cwd. outside_checkout planted_host ''/co'' bin env \<longrightarrow>
         spawn bin args env cwd = rh_spawn planted_host bin args env cwd) \<Longrightarrow>
       scan_repo Inl (planted_host\<lparr>rh_spawn := spawn\<rparr>) ''/co'' ''demo'' None 120 = scan_repo Inl planted_host ''/co'' ''demo'' None 120"
    for spawn using scanned by blast+
  show ?thesis
  proof (intro conjI all allI impI)
    fix bin args env cwd
    assume "outside_checkout planted_host ''/co'' bin env"
    then have "\<not> (bin = ''npx'' \<or> bin = ''/co/bin/renovate'')" using planted_outside by metis
    then show "(if bin = ''npx'' \<or> bin = ''/co/bin/renovate'' then Inl [] else Inr lingering) = rh_spawn planted_host bin args env cwd"
      by (simp add: planted_host_def)
  qed
qed

section \<open>Fingerprints\<close>


















end
