(* ===== verification/Hunting.thy ===== *)
theory Hunting
  imports Pipeline DepScan
begin

text \<open>
The repository-level scans of \<open>scheduler.rs\<close>: hunts (\<open>run_hunt\<close>), the analysis jobs (\<open>run_analysis_job\<close> and its
specifications) and the dependency update that Renovate answers when it can (\<open>run_dep_update\<close>).
\<close>

section \<open>Before a scan\<close>

definition fetch_tip :: "repo \<Rightarrow> string io" where
  "fetch_tip r =
     and_then (sync_repo (r_url r) (r_path r) (''hunt '' @ r_name r) None) (\<lambda>_. do {
       tip \<leftarrow> resolve_rev (r_path r) (''origin/'' @ r_default_branch r);
       (case tip of
          Some sha \<Rightarrow> ok sha
        | None \<Rightarrow> do {
            _ \<leftarrow> event ''error'' (''hunt '' @ r_name r @ '': origin/'' @ r_default_branch r @ '' does not resolve'') None None;
            err (''origin/'' @ r_default_branch r @ '' does not resolve'') }) })"

fun prior_findings ::
  "int \<Rightarrow> finding_type list \<Rightarrow> string \<Rightarrow> ((finding \<times> verdict_anchor option) list \<times> finding list) io" where
  "prior_findings rid [] label = ok ([], [])"
| "prior_findings rid (ft # fts) label =
     and_then (with_context (label @ '': loading suppressed '' @ finding_type_str ft @ '' findings'') (suppressed rid ft)) (\<lambda>gone.
     and_then (with_context (label @ '': loading known '' @ finding_type_str ft @ '' findings'') (query (known_active rid ft))) (\<lambda>known.
     and_then (prior_findings rid fts label) (\<lambda>(more_gone, more_known).
       ok (gone @ more_gone, known @ more_known))))"

text \<open>A resumed worker reads neither list.\<close>

definition cold_findings ::
  "int \<Rightarrow> finding_type list \<Rightarrow> string \<Rightarrow> resume_plan option \<Rightarrow> ((finding \<times> verdict_anchor option) list \<times> finding list) io" where
  "cold_findings rid fts label resume = (if resume \<noteq> None then ok ([], []) else prior_findings rid fts label)"

section \<open>What a hunt reviews\<close>

definition EMPTY_TREE :: string where
  "EMPTY_TREE = ''4b825dc642cb6eb9a060e54bf8d69288fbee4904''"

definition hunt_head :: "repo \<Rightarrow> resume_plan option \<Rightarrow> string io" where
  "hunt_head r resume =
     (case resume of
        Some plan \<Rightarrow> ok (rp_pinned_sha plan)
      | None \<Rightarrow> do {
          tip \<leftarrow> fetch_tip r;
          (case tip of
             Inr sha \<Rightarrow> ok sha
           | Inl e \<Rightarrow> do {
               _ \<leftarrow> (case r_full_hunt_requested_at r of
                       Some q \<Rightarrow> log_write_failure (exec (\<lambda>_. mark_full_hunt_attempted (r_id r) q))
                                  (''repo '' @ show_int (r_id r) @ '': marking full-hunt request '' @ show_int q @ '' attempted'')
                     | None \<Rightarrow> State_Monad.return None);
               err e }) })"

text \<open>The interval is a product of two \<open>i64\<close> the release build does not check: it wraps.\<close>

definition rehunt_interval_ms :: "config \<Rightarrow> int" where
  "rehunt_interval_ms cfg = wrap_i64 (cf_hunt_rehunt_days cfg * 86400000)"

definition rehunt_due :: "config \<Rightarrow> repo \<Rightarrow> resume_plan option \<Rightarrow> millis \<Rightarrow> bool" where
  "rehunt_due cfg r resume now \<longleftrightarrow>
     resume = None \<and>
     (r_full_hunt_requested_at r \<noteq> None \<or>
      (case r_last_full_hunt_at r of Some lf \<Rightarrow> rehunt_interval_ms cfg \<le> now - lf | None \<Rightarrow> False))"

definition start_rehunt :: "config \<Rightarrow> repo \<Rightarrow> unit act" where
  "start_rehunt cfg r = do {
     _ \<leftarrow> log_write_failure (exec (\<lambda>_. clear_last_hunt_sha (r_id r)))
            (''repo '' @ show_int (r_id r) @ '': clearing last-hunt sha for the full re-hunt'');
     ignore (event ''hunt'' (r_name r @ '': full re-hunt triggered ('' @
       (if r_full_hunt_requested_at r \<noteq> None then ''requested'' else show_int (cf_hunt_rehunt_days cfg) @ ''d interval'') @ '')'')
       None None) }"

text \<open>A resume keeps the scope its chain started with.\<close>

definition resumed_full :: "repo \<Rightarrow> resume_plan option \<Rightarrow> bool io" where
  "resumed_full r resume =
     (case resume of
        Some plan \<Rightarrow>
          and_then (query (job_full_history (rp_predecessor_id plan))) (\<lambda>full.
            ok (full \<or> (r_last_hunt_sha r = None \<and> r_last_full_hunt_at r \<noteq> None)))
      | None \<Rightarrow> ok False)"

definition short_sha :: "string \<Rightarrow> string" where
  "short_sha sha = take 12 sha"

definition full_range :: "string \<Rightarrow> string" where
  "full_range head = EMPTY_TREE @ ''..'' @ head"

text \<open>The first hunt of a repository: three weeks, else thirty commits, else everything.\<close>

definition first_range :: "repo \<Rightarrow> string \<Rightarrow> (string \<times> string) act" where
  "first_range r head = do {
     (_, out) \<leftarrow> git [''git'', ''-C'', r_path r, ''rev-list'', ''-1'', ''--before=3 weeks ago'', head];
     let base = trim out;
     (if base = [] \<or> base = head
      then do {
        (rc2, out2) \<leftarrow> git [''git'', ''-C'', r_path r, ''rev-parse'', head @ ''~30''];
        let base2 = trim out2;
        State_Monad.return
          (if rc2 \<noteq> 0 \<or> base2 = []
           then (full_range head, ''First hunt for this repo: the full history (small repo).'')
           else (base2 @ ''..'' @ head, ''First hunt for this repo: the last 30 commits (base '' @ short_sha base2 @ '').'')) }
      else State_Monad.return
        (base @ ''..'' @ head, ''First hunt for this repo: the last ~3 weeks (base '' @ short_sha base @ '').'')) }"

definition hunt_range :: "repo \<Rightarrow> string option \<Rightarrow> bool \<Rightarrow> string \<Rightarrow> (string \<times> string) act" where
  "hunt_range r watermark full head =
     (case watermark of
        Some l \<Rightarrow> State_Monad.return
          (l @ ''..'' @ head, ''Commits since the last completed hunt ('' @ short_sha l @ '').'')
      | None \<Rightarrow>
          if full then State_Monad.return
            (full_range head, (if r_full_hunt_requested_at r \<noteq> None then ''Requested'' else ''Periodic'') @
               '' full re-hunt: complete history including root commit.'')
          else first_range r head)"

record hunt_scope =
  hn_head :: string
  hn_range :: string
  hn_note :: string
  hn_full :: bool

definition no_new_commits :: "repo \<Rightarrow> string \<Rightarrow> cycle_summary io" where
  "no_new_commits r head =
     and_then (exec (\<lambda>now. set_last_hunt now (r_id r) head)) (\<lambda>_. do {
       _ \<leftarrow> event ''hunt'' (r_name r @ '': no new commits since '' @ short_sha head @ '' -- skipped'') None None;
       ok (no_summary\<lparr>cs_kind := Some K_hunt, cs_skipped := Some ''no new commits'', cs_head := Some head\<rparr>) })"

definition hunt_scope_of :: "config \<Rightarrow> repo \<Rightarrow> resume_plan option \<Rightarrow> (cycle_summary + hunt_scope) io" where
  "hunt_scope_of cfg r resume =
     and_then (hunt_head r resume) (\<lambda>head. do {
       now \<leftarrow> look (\<lambda>w. w_now w (w_calls w));
       let due = rehunt_due cfg r resume now;
       _ \<leftarrow> (if due then start_rehunt cfg r else State_Monad.return ());
       let watermark = (if due then None else r_last_hunt_sha r);
       and_then (resumed_full r resume) (\<lambda>resumed.
         if resume = None \<and> watermark = Some head
         then and_then (no_new_commits r head) (\<lambda>skipped. ok (Inl skipped))
         else do {
           (range, note) \<leftarrow> hunt_range r watermark (due \<or> resumed) head;
           ok (Inr \<lparr>hn_head = head, hn_range = range, hn_note = note, hn_full = starts_with EMPTY_TREE range\<rparr>) }) })"

section \<open>A scan's job\<close>

record scan_start =
  sn_job :: int
  sn_ws :: workspace
  sn_pinned :: string
  sn_cap :: "int option"

text \<open>What a cold hunt records about its scope before the worker runs.\<close>

definition mark_scope :: "repo \<Rightarrow> hunt_scope \<Rightarrow> int \<Rightarrow> resume_plan option \<Rightarrow> unit act" where
  "mark_scope r sc jid resume =
     (if resume \<noteq> None then State_Monad.return ()
      else do {
        _ \<leftarrow> (if hn_full sc
              then log_write_failure (exec (\<lambda>_. mark_full_history jid (r_full_hunt_requested_at r)))
                     (''job '' @ show_int jid @ '': marking full-history scope'')
              else State_Monad.return None);
        _ \<leftarrow> (case r_full_hunt_requested_at r of
                Some q \<Rightarrow> log_write_failure (exec (\<lambda>_. mark_full_hunt_attempted (r_id r) q))
                           (''repo '' @ show_int (r_id r) @ '': marking full-hunt request '' @ show_int q @ '' attempted'')
              | None \<Rightarrow> State_Monad.return None);
        State_Monad.return () })"

definition begin_scan ::
  "env \<Rightarrow> config \<Rightarrow> repo \<Rightarrow> repo_job_kind \<Rightarrow> string \<Rightarrow> (int \<Rightarrow> unit act) \<Rightarrow> tree_spec \<Rightarrow> resume_plan option \<Rightarrow>
   (cycle_summary + scan_start) io" where
  "begin_scan E cfg r kind label marked spec resume =
     unless_ended (budget_gate E cfg (r_id r) (Repo_kind kind) False label None resume) (\<lambda>(cap, anticipated).
     unless_ended (begin_job (Repo_kind kind) r None cap anticipated resume) (\<lambda>created. do {
       _ \<leftarrow> marked (fst created);
       unless_ended (open_workspace cfg r created resume spec (Repo_kind kind) label None) (\<lambda>(ws, pinned).
         ok (Inr \<lparr>sn_job = fst created, sn_ws = ws, sn_pinned = pinned, sn_cap = cap\<rparr>)) }))"

text \<open>A resumed worker still writes the path its first prompt named.\<close>

definition scan_out :: "config \<Rightarrow> string \<Rightarrow> int \<Rightarrow> resume_plan option \<Rightarrow> string" where
  "scan_out cfg plural jid resume =
     out_file cfg (''job'' @ show_int (case resume of Some plan \<Rightarrow> rp_origin_job_id plan | None \<Rightarrow> jid) @ ''.'' @ plural @ ''.json'')"

definition counted_line :: "ingest_result \<Rightarrow> int \<Rightarrow> string" where
  "counted_line counts tokens =
     ''+'' @ show_int (ir_inserted counts) @ '' new / '' @ show_int (ir_duplicates counts) @ '' dup ('' @
     show_int (ir_reopened counts) @ '' reopened) / '' @ show_int (ir_invalid counts) @ '' invalid ('' @ show_int tokens @ '' tok)''"

section \<open>A hunt\<close>

text \<open>A clean finish moves the watermark to the commit the worker reviewed.\<close>

definition record_hunted :: "repo \<Rightarrow> hunt_scope \<Rightarrow> int \<Rightarrow> string \<Rightarrow> unit act" where
  "record_hunted r sc jid pinned =
     (let repo_msg = (\<lambda>m. ''repo '' @ show_int (r_id r) @ '': '' @ m)
      in do {
        _ \<leftarrow> log_write_failure (exec (\<lambda>now. set_last_hunt now (r_id r) pinned)) (repo_msg (''last-hunt sha -> '' @ pinned));
        _ \<leftarrow> (if hn_full sc \<or> r_last_full_hunt_at r = None
              then log_write_failure (exec (\<lambda>now. set_last_full_hunt now (r_id r))) (repo_msg ''recording last full hunt'')
              else State_Monad.return None);
        _ \<leftarrow> (if hn_full sc
              then log_write_failure (exec (\<lambda>_. settle_full_hunt_request (r_id r) jid))
                     (repo_msg (''settling full-hunt request for job '' @ show_int jid))
              else State_Monad.return None);
        State_Monad.return () })"

definition ingest_hunt ::
  "readers \<Rightarrow> repo \<Rightarrow> hunt_scope \<Rightarrow> scan_start \<Rightarrow> string \<Rightarrow> job_state \<Rightarrow> int \<Rightarrow> ingest_result option act" where
  "ingest_hunt R r sc start out_path state tokens =
     (let jid = sn_job start; this = r_name r @ '': job '' @ show_int jid @ '' '' @ job_state_str state
      in do {
        there \<leftarrow> look (\<lambda>w. path_exists w out_path);
        (if \<not> there then do {
           _ \<leftarrow> event ''hunt'' (this @ '', no findings file ('' @ show_int tokens @ '' tok)'') (Some jid) None;
           State_Monad.return None }
         else do {
           counts \<leftarrow> ingest_scan_findings (rd_json R) (r_id r) out_path (Fixed TBug) jid;
           _ \<leftarrow> event ''hunt'' (this @ '' over '' @ take 25 (hn_range sc) @ ''... '' @ counted_line counts tokens) (Some jid) None;
           _ \<leftarrow> (if state = JDone \<and> ir_invalid counts = 0 then record_hunted r sc jid (sn_pinned start)
                 else State_Monad.return ());
           State_Monad.return (Some counts) }) })"

definition hunt_prompt ::
  "config \<Rightarrow> repo \<Rightarrow> hunt_scope \<Rightarrow> scan_start \<Rightarrow> (finding \<times> verdict_anchor option) list \<Rightarrow> finding list \<Rightarrow> string \<Rightarrow>
   resume_plan option \<Rightarrow> string io" where
  "hunt_prompt cfg r sc start gone known out_path resume = do {
     listed \<leftarrow> suppression_list (r_path r) gone (sn_pinned start);
     notes \<leftarrow> repo_notes (cf_work_root cfg) (r_id r);
     (case resume of
        Some _ \<Rightarrow> ok RESUME_PROMPT
      | None \<Rightarrow> build_hunt_prompt (cf_root cfg) r (ws_tree (sn_ws start)) (hn_range sc) (hn_note sc) listed known out_path
                  (cf_hunt_max_findings cfg) notes) }"

definition finish_hunt ::
  "readers \<Rightarrow> config \<Rightarrow> repo \<Rightarrow> hunt_scope \<Rightarrow> scan_start \<Rightarrow> string \<Rightarrow> resume_plan option \<Rightarrow> run_result \<Rightarrow> cycle_summary io" where
  "finish_hunt R cfg r sc start out_path resume rr = do {
     state \<leftarrow> recorded_state cfg ''hunt'' (sn_job start) rr resume;
     counts \<leftarrow> ingest_hunt R r sc start out_path state (rr_tokens_new rr);
     _ \<leftarrow> apply_reconfirmations (rd_reconfirmed R) r [TBug] out_path (sn_pinned start);
     _ \<leftarrow> close_workspace (sn_ws start);
     ok (no_summary\<lparr>cs_kind := Some K_hunt, cs_repo := Some (r_name r), cs_job_id := Some (sn_job start), cs_state := Some state,
           cs_diff_range := Some (hn_range sc), cs_tokens_new := Some (rr_tokens_new rr), cs_head := Some (hn_head sc),
           cs_full_rehunt := Some (hn_full sc), cs_ingest := counts\<rparr>)
   }"

definition run_hunt ::
  "env \<Rightarrow> readers \<Rightarrow> config \<Rightarrow> repo \<Rightarrow> resume_plan option \<Rightarrow> cycle_summary io" where
  "run_hunt E R cfg r resume =
     (let label = ''hunt '' @ r_name r
      in ended_or (hunt_scope_of cfg r resume) (\<lambda>sc.
         and_then (cold_findings (r_id r) [TBug] label resume) (\<lambda>(gone, known).
         ended_or (begin_scan E cfg r RHunt label (\<lambda>jid. mark_scope r sc jid resume) (Detached (hn_head sc)) resume) (\<lambda>start.
           (let out_path = scan_out cfg ''findings'' (sn_job start) resume
            in do {
              _ \<leftarrow> make_parent out_path;
              and_then (hunt_prompt cfg r sc start gone known out_path resume) (\<lambda>prompt.
              and_then (bk_run (ev_backend E) (sn_ws start) prompt (sn_cap start) (cf_hunt_max_wall_s cfg) HuntClass
                          (map_option rp_session_file resume)) (\<lambda>rr.
                finish_hunt R cfg r sc start out_path resume rr)) })))))"

section \<open>Analysis jobs\<close>

record analysis_spec =
  as_kind :: repo_job_kind
  as_finding_type :: finding_type
  as_also_files :: "finding_type list"
  as_out_plural :: string
  as_no_output_noun :: string
  as_scope_note :: string
  as_prompt :: scan_prompt

definition spec_entry_types :: "analysis_spec \<Rightarrow> entry_types" where
  "spec_entry_types spec =
     (if as_also_files spec = [] then Fixed (as_finding_type spec) else Mainly (as_finding_type spec) (as_also_files spec))"

definition TEST_GAP_SPEC :: analysis_spec where
  "TEST_GAP_SPEC = \<lparr>as_kind = RTestGap, as_finding_type = TTestGap, as_also_files = [TBug], as_out_plural = ''test_gaps'',
     as_no_output_noun = ''gaps'', as_scope_note = ''Full repository scan for test coverage gaps.'',
     as_prompt = build_test_gap_prompt\<rparr>"

definition DEP_UPDATE_SPEC :: analysis_spec where
  "DEP_UPDATE_SPEC = \<lparr>as_kind = RDepUpdate, as_finding_type = TDepUpdate, as_also_files = [], as_out_plural = ''dep_updates'',
     as_no_output_noun = ''updates'', as_scope_note = ''Check all package manifests for outdated dependencies.'',
     as_prompt = build_dep_update_prompt\<rparr>"

definition REFACTOR_SPEC :: analysis_spec where
  "REFACTOR_SPEC = \<lparr>as_kind = RRefactor, as_finding_type = TRefactor, as_also_files = [], as_out_plural = ''refactorings'',
     as_no_output_noun = ''refactorings'',
     as_scope_note = ''Scan for safe, mechanical refactoring opportunities (duplication, dead code, complexity).'',
     as_prompt = build_refactor_prompt\<rparr>"

definition MODERNIZATION_SPEC :: analysis_spec where
  "MODERNIZATION_SPEC = \<lparr>as_kind = RModernization, as_finding_type = TModernization, as_also_files = [],
     as_out_plural = ''modernizations'', as_no_output_noun = ''modernizations'',
     as_scope_note = ''Scan for SOTA-drift modernization opportunities (deprecated/unmaintained deps, language-feature '' @
       ''gaps, format/protocol shifts, major version debt, platform EOL).'',
     as_prompt = build_modernization_prompt\<rparr>"

definition STANDARDS_SPEC :: analysis_spec where
  "STANDARDS_SPEC = \<lparr>as_kind = RStandards, as_finding_type = TStandards, as_also_files = [], as_out_plural = ''standards'',
     as_no_output_noun = ''standards'', as_scope_note = ''Full repository audit against coding standards.'',
     as_prompt = build_standards_prompt\<rparr>"

definition spec_types :: "analysis_spec \<Rightarrow> finding_type list" where
  "spec_types spec = as_finding_type spec # as_also_files spec"

definition not_cloned :: "string \<Rightarrow> 'a io" where
  "not_cloned label = do { _ \<leftarrow> event ''error'' (label @ '': repo not cloned'') None None; err ''repo not cloned'' }"

definition analysis_prompt ::
  "config \<Rightarrow> repo \<Rightarrow> analysis_spec \<Rightarrow> scan_start \<Rightarrow> (finding \<times> verdict_anchor option) list \<Rightarrow> finding list \<Rightarrow> string \<Rightarrow>
   resume_plan option \<Rightarrow> string io" where
  "analysis_prompt cfg r spec start gone known out_path resume = do {
     listed \<leftarrow> suppression_list (r_path r) gone (sn_pinned start);
     notes \<leftarrow> repo_notes (cf_work_root cfg) (r_id r);
     (case resume of
        Some _ \<Rightarrow> ok RESUME_PROMPT
      | None \<Rightarrow> as_prompt spec (cf_root cfg) r (ws_tree (sn_ws start)) (as_scope_note spec) listed known out_path
                  (cf_hunt_max_findings cfg) notes) }"

definition ingest_analysis ::
  "readers \<Rightarrow> repo \<Rightarrow> analysis_spec \<Rightarrow> scan_start \<Rightarrow> string \<Rightarrow> job_state \<Rightarrow> int \<Rightarrow> ingest_result option act" where
  "ingest_analysis R r spec start out_path state tokens =
     (let jid = sn_job start; kind = repo_job_kind_str (as_kind spec);
          this = r_name r @ '': job '' @ show_int jid @ '' '' @ job_state_str state
      in do {
        there \<leftarrow> look (\<lambda>w. path_exists w out_path);
        (if \<not> there then do {
           _ \<leftarrow> event kind (this @ '', no '' @ as_no_output_noun spec @ '' file ('' @ show_int tokens @ '' tok)'') (Some jid) None;
           State_Monad.return None }
         else do {
           counts \<leftarrow> ingest_scan_findings (rd_json R) (r_id r) out_path (spec_entry_types spec) jid;
           _ \<leftarrow> event kind (this @ '' -- '' @ counted_line counts tokens) (Some jid) None;
           _ \<leftarrow> (if state = JDone \<and> ir_invalid counts = 0
                 then log_write_failure (exec (\<lambda>now. set_last_kind_at now (r_id r) (as_kind spec)))
                        (''repo '' @ show_int (r_id r) @ '': recording last '' @ kind @ '' run'')
                 else State_Monad.return None);
           State_Monad.return (Some counts) }) })"

definition finish_analysis ::
  "readers \<Rightarrow> config \<Rightarrow> repo \<Rightarrow> analysis_spec \<Rightarrow> scan_start \<Rightarrow> string \<Rightarrow> resume_plan option \<Rightarrow> run_result \<Rightarrow> cycle_summary io" where
  "finish_analysis R cfg r spec start out_path resume rr = do {
     state \<leftarrow> recorded_state cfg ''hunt'' (sn_job start) rr resume;
     counts \<leftarrow> ingest_analysis R r spec start out_path state (rr_tokens_new rr);
     _ \<leftarrow> apply_reconfirmations (rd_reconfirmed R) r (spec_types spec) out_path (sn_pinned start);
     _ \<leftarrow> close_workspace (sn_ws start);
     ok (no_summary\<lparr>cs_kind := Some (Repo_kind (as_kind spec)), cs_repo := Some (r_name r), cs_job_id := Some (sn_job start),
           cs_state := Some state, cs_tokens_new := Some (rr_tokens_new rr), cs_ingest := counts\<rparr>)
   }"

definition run_analysis_job ::
  "env \<Rightarrow> readers \<Rightarrow> config \<Rightarrow> repo \<Rightarrow> analysis_spec \<Rightarrow> resume_plan option \<Rightarrow> cycle_summary io" where
  "run_analysis_job E R cfg r spec resume =
     (let label = repo_job_kind_str (as_kind spec) @ '' '' @ r_name r
      in do {
        cloned \<leftarrow> look (\<lambda>w. path_exists w (r_path r));
        and_then (if cloned then ok () else not_cloned label) (\<lambda>_.
        and_then (if resume = None then sync_repo (r_url r) (r_path r) label None else ok ()) (\<lambda>_.
        and_then (cold_findings (r_id r) (spec_types spec) label resume) (\<lambda>(gone, known).
        ended_or (begin_scan E cfg r (as_kind spec) label (\<lambda>_. State_Monad.return ())
                    (Detached (''origin/'' @ r_default_branch r)) resume) (\<lambda>start.
          (let out_path = scan_out cfg (as_out_plural spec) (sn_job start) resume
           in do {
             _ \<leftarrow> make_parent out_path;
             and_then (analysis_prompt cfg r spec start gone known out_path resume) (\<lambda>prompt.
             and_then (bk_run (ev_backend E) (sn_ws start) prompt (sn_cap start) (cf_hunt_max_wall_s cfg) HuntClass
                         (map_option rp_session_file resume)) (\<lambda>rr.
               finish_analysis R cfg r spec start out_path resume rr)) }))))) })"

section \<open>Dependency updates\<close>

text \<open>The Renovate scan: what it may run and reads, and the JSON its candidates are written as. The scan always comes back
  (\<open>scan_runs_outside_checkout\<close>): the default of \<open>renovate_scan\<close> is never taken.\<close>

record renovating =
  rn_host :: "world \<Rightarrow> renovate_host"
  rn_parse :: "string \<Rightarrow> string + json"
  rn_pretty :: "dep_candidate list \<Rightarrow> string + string"

definition renovate_scan :: "renovating \<Rightarrow> config \<Rightarrow> repo \<Rightarrow> dep_scan option act" where
  "renovate_scan N cfg r = do {
     made \<leftarrow> scan_create (cf_work_root cfg) (r_path r) (r_id r) (''origin/'' @ r_default_branch r);
     (case made of
        Inl _ \<Rightarrow> State_Monad.return None
      | Inr tree \<Rightarrow> do {
          token \<leftarrow> github_token (r_forge r) (cf_renovate_github_token cfg);
          scan \<leftarrow> look (\<lambda>w. scan_repo (rn_parse N) (rn_host N w) (sc_path tree) (r_name r) token 120);
          _ \<leftarrow> scan_discard tree;
          State_Monad.return (unwrap_or scan None) }) }"

definition proposed_moves :: "dep_scan \<Rightarrow> proposed_move list" where
  "proposed_moves scan =
     concat (map (\<lambda>c. map (\<lambda>m. \<lparr>mv_fingerprint = dc_fingerprint c, mv_unit = dc_unit c, mv_package = dm_package m, mv_major = dm_major m\<rparr>)
                        (dc_moves c)) (ds_candidates scan))"

definition settle_dep_updates :: "repo \<Rightarrow> dep_scan \<Rightarrow> (nat \<times> nat) io" where
  "settle_dep_updates r scan =
     (let failed_as = (\<lambda>what m. do { x \<leftarrow> m; (case x of Inr n \<Rightarrow> ok n
                        | Inl e \<Rightarrow> err (''dep_update '' @ r_name r @ '': '' @ what @ '': '' @ e)) })
      in and_then (failed_as ''retiring unproposed updates''
                     (call (\<lambda>now. supersede_unproposed_dep_updates now (r_id r) (map dc_fingerprint (ds_candidates scan)) (ds_unchecked scan))))
           (\<lambda>retired.
         and_then (failed_as ''handing over queued updates''
                     (call (\<lambda>now. hand_over_queued_dep_updates now (r_id r) (proposed_moves scan)))) (\<lambda>handed.
           ok (retired, handed))))"

definition write_file :: "string \<Rightarrow> string \<Rightarrow> unit io" where
  "write_file p text = disk_call (\<lambda>k. (Inr (), k\<lparr>k_files := (k_files k)(p \<mapsto> text)\<rparr>))"

definition file_scan :: "readers \<Rightarrow> renovating \<Rightarrow> config \<Rightarrow> repo \<Rightarrow> dep_scan \<Rightarrow> cycle_summary io" where
  "file_scan R N cfg r scan =
     (let out_path = out_file cfg (''dep_scan_'' @ show_int (r_id r) @ ''.json'')
      in do {
        _ \<leftarrow> make_parent out_path;
        and_then (State_Monad.return (rn_pretty N (ds_candidates scan))) (\<lambda>text. do {
          written \<leftarrow> write_file out_path text;
          and_then (case written of Inl e \<Rightarrow> err (''writing '' @ out_path @ '': '' @ e) | Inr _ \<Rightarrow> ok ()) (\<lambda>_. do {
            counts \<leftarrow> ingest_findings (rd_json R) (r_id r) out_path (Fixed TDepUpdate) None None;
            and_then (if ir_invalid counts = 0 then settle_dep_updates r scan else ok (0, 0)) (\<lambda>(retired, handed). do {
              _ \<leftarrow> event ''dep_update'' (r_name r @ '': renovate scan +'' @ show_int (ir_inserted counts) @ '' new / '' @
                     show_int (ir_duplicates counts) @ '' dup ('' @ show_int (ir_refreshed counts) @ '' refreshed) / '' @
                     show_nat retired @ '' retired / '' @ show_nat handed @ '' queued handed over / '' @
                     show_int (ir_invalid counts) @ '' invalid (0 tok)'') None None;
              _ \<leftarrow> (if ir_invalid counts = 0
                    then log_write_failure (exec (\<lambda>now. set_last_dep_update now (r_id r)))
                           (''repo '' @ show_int (r_id r) @ '': recording last dep_update run'')
                    else State_Monad.return None);
              ok (no_summary\<lparr>cs_kind := Some (Repo_kind RDepUpdate), cs_repo := Some (r_name r), cs_state := Some JDone,
                    cs_ingest := Some counts\<rparr>) }) }) }) })"

definition run_dep_update ::
  "env \<Rightarrow> readers \<Rightarrow> renovating \<Rightarrow> config \<Rightarrow> repo \<Rightarrow> resume_plan option \<Rightarrow> cycle_summary io" where
  "run_dep_update E R N cfg r resume =
     (if resume \<noteq> None then run_analysis_job E R cfg r DEP_UPDATE_SPEC resume
      else do {
        cloned \<leftarrow> look (\<lambda>w. path_exists w (r_path r));
        and_then (if cloned then ok () else not_cloned (''dep_update '' @ r_name r)) (\<lambda>_.
        and_then (sync_repo (r_url r) (r_path r) ''dep_update'' None) (\<lambda>_. do {
          scanned \<leftarrow> renovate_scan N cfg r;
          (case scanned of
             None \<Rightarrow> run_analysis_job E R cfg r DEP_UPDATE_SPEC resume
           | Some scan \<Rightarrow> file_scan R N cfg r scan) })) })"

end
