(* ===== verification/Cycle.thy ===== *)
theory Cycle
  imports Fixing Engaging Rechecking Hunting PrSync Select
begin

text \<open>
One scheduler cycle (\<open>run_cycle\<close> of \<open>scheduler.rs\<close>): the sync of open pull requests, the disk gate, the pick, its
executor, and what the attempt costs a rotation scan.

Free disk space is read by \<open>statvfs\<close>, a parameter. The executors' parameters are those of their theories.
\<close>

record executors =
  ex_env :: env
  ex_readers :: readers
  ex_renovating :: renovating
  ex_free_disk :: "world \<Rightarrow> nat option"

section \<open>Dispatch\<close>

definition run_repo_job ::
  "executors \<Rightarrow> config \<Rightarrow> repo_job_kind \<Rightarrow> int \<Rightarrow> resume_plan option \<Rightarrow> cycle_summary io" where
  "run_repo_job X cfg kind repo_id resume =
     and_then (query (get_repo_by_id repo_id)) (\<lambda>found.
       case found of
         None \<Rightarrow> err (''repo '' @ show_int repo_id @ '' not found'')
       | Some r \<Rightarrow>
           (let E = ex_env X; R = ex_readers X
            in case kind of
                 RHunt \<Rightarrow> run_hunt E R cfg r resume
               | RTestGap \<Rightarrow> run_analysis_job E R cfg r TEST_GAP_SPEC resume
               | RDepUpdate \<Rightarrow> run_dep_update E R (ex_renovating X) cfg r resume
               | RRefactor \<Rightarrow> run_analysis_job E R cfg r REFACTOR_SPEC resume
               | RModernization \<Rightarrow> run_analysis_job E R cfg r MODERNIZATION_SPEC resume
               | RStandards \<Rightarrow> run_analysis_job E R cfg r STANDARDS_SPEC resume))"

definition run_finding_job ::
  "executors \<Rightarrow> config \<Rightarrow> finding_job_kind \<Rightarrow> int \<Rightarrow> resume_plan option \<Rightarrow> cycle_summary io" where
  "run_finding_job X cfg kind fid resume =
     and_then (query (\<lambda>d. get_finding d fid)) (\<lambda>found.
       case found of
         None \<Rightarrow> err (''finding '' @ show_int fid @ '' not found'')
       | Some f \<Rightarrow>
           (let E = ex_env X; R = ex_readers X
            in case kind of
                 FEngage \<Rightarrow> run_engage E R cfg f resume
               | FHarvest \<Rightarrow> run_harvest E R cfg f resume
               | FRecheck \<Rightarrow> run_recheck E R cfg f resume
               | FFix \<Rightarrow> run_fix E (rd_finding R) cfg f resume))"

definition resume_note :: "resume_plan \<Rightarrow> string" where
  "resume_note plan =
     ''resume '' @ job_kind_str (rp_kind plan) @ '' '' @ rp_repo plan @ '': job '' @ show_int (rp_predecessor_id plan) @
     '' -> reserving '' @ show_int (rp_anticipated plan) @ '' tok (ctx '' @ show_int (rp_ctx plan) @ '' + max('' @
     show_int (rp_typical plan) @ '' - '' @ show_int (rp_chain_spent plan) @ '', '' @ show_int (min_useful (rp_ctx plan)) @ ''))''"

definition dispatch :: "executors \<Rightarrow> config \<Rightarrow> candidate \<Rightarrow> cycle_summary io" where
  "dispatch X cfg c =
     (case c of
        Finding_work kind fid _ _ _ \<Rightarrow> run_finding_job X cfg kind fid None
      | Repo_work kind rid _ \<Rightarrow> run_repo_job X cfg kind rid None
      | Resume_work _ _ plan \<Rightarrow> do {
          _ \<leftarrow> event ''resume'' (resume_note plan) (Some (rp_predecessor_id plan)) (rp_finding_id plan);
          (case rp_kind plan of
             Repo_kind kind \<Rightarrow> run_repo_job X cfg kind (rp_repo_id plan) (Some plan)
           | Finding_kind kind \<Rightarrow>
               (case rp_finding_id plan of
                  None \<Rightarrow> err (''resume of a '' @ finding_job_kind_str kind @ '' job with no finding'')
                | Some fid \<Rightarrow> run_finding_job X cfg kind fid (Some plan))) })"

section \<open>Disk space\<close>

definition DISK_RETRY_MS :: int where "DISK_RETRY_MS = 5 * 60000"

definition mib :: "nat \<Rightarrow> string" where
  "mib bytes = show_nat (bytes div 2 ^ 20)"

definition disk_denial :: "config \<Rightarrow> nat \<Rightarrow> string option" where
  "disk_denial cfg free =
     (if free < cf_min_free_disk_bytes cfg
      then Some (''disk: '' @ mib free @ '' MiB free under '' @ cf_work_root cfg @ '' < '' @
             mib (cf_min_free_disk_bytes cfg) @ '' MiB'')
      else None)"

definition disk_gate :: "executors \<Rightarrow> config \<Rightarrow> string option act" where
  "disk_gate X cfg = look (\<lambda>w. Option.bind (ex_free_disk X w) (disk_denial cfg))"

section \<open>A turn of the rotation\<close>

text \<open>An attempt that ran to an end, however it ended.\<close>

definition attempt_ended :: "cycle_summary \<Rightarrow> bool" where
  "attempt_ended s \<longleftrightarrow> cs_state s \<in> {Some JDone, Some JKilled, Some JFailed}"

definition rotation_of :: "candidate \<Rightarrow> (int \<times> repo_job_kind) option" where
  "rotation_of c = (case cand_job_kind c of Repo_kind kind \<Rightarrow> Some (cand_repo_id c, kind) | Finding_kind _ \<Rightarrow> None)"

definition take_turn :: "(int \<times> repo_job_kind) option \<Rightarrow> unit option act" where
  "take_turn turn =
     (case turn of
        Some (rid, kind) \<Rightarrow>
          log_write_failure (exec (\<lambda>now. set_last_kind_at now rid kind))
            (''repo '' @ show_int rid @ '': recording last '' @ repo_job_kind_str kind @ '' run'')
      | None \<Rightarrow> State_Monad.return None)"

section \<open>The cycle's log line\<close>

definition part :: "string \<Rightarrow> string option \<Rightarrow> string list" where
  "part label value = (case value of Some v \<Rightarrow> [label @ ''='' @ v] | None \<Rightarrow> [])"

definition sync_line :: "sync_result \<Rightarrow> string" where
  "sync_line s =
     ''prsync '' @ show_int (sr_synced s) @ ''s/'' @ show_int (sr_merged s) @ ''m/'' @ show_int (sr_closed s) @ ''c/'' @
     show_int (sr_attention s) @ ''a/'' @ show_int (sr_errors s) @ ''e''"

definition cycle_line :: "cycle_summary \<Rightarrow> string" where
  "cycle_line s =
     (let line = join '', ''
            (part ''kind'' (map_option job_kind_str (cs_kind s)) @ part ''repo'' (cs_repo s) @
             part ''finding'' (map_option show_int (cs_finding_id s)) @ part ''job'' (map_option show_int (cs_job_id s)) @
             part ''state'' (map_option job_state_str (cs_state s)) @ part ''outcome'' (cs_outcome s) @
             part ''skipped'' (cs_skipped s) @ part ''denied'' (cs_denied s) @ part ''error'' (cs_error s))
      in case cs_sync s of
           Some y \<Rightarrow> if line = [] then sync_line y else line @ ''; '' @ sync_line y
         | None \<Rightarrow> line)"

section \<open>The cycle\<close>

definition with_sync :: "sync_result option \<Rightarrow> cycle_summary \<Rightarrow> cycle_summary" where
  "with_sync sync s = (if sync \<noteq> None then s\<lparr>cs_sync := sync\<rparr> else s)"

definition work_on :: "executors \<Rightarrow> config \<Rightarrow> sync_result option \<Rightarrow> candidate \<Rightarrow> cycle_summary io" where
  "work_on X cfg sync c = do {
     dispatched \<leftarrow> dispatch X cfg c;
     (case dispatched of
        Inl e \<Rightarrow> do { _ \<leftarrow> take_turn (rotation_of c); err e }
      | Inr s \<Rightarrow> do {
          _ \<leftarrow> (if attempt_ended s then take_turn (rotation_of c) else State_Monad.return None);
          (let result = with_sync sync s
           in do { _ \<leftarrow> event ''cycle'' (cycle_line result) None None; ok result }) }) }"

definition sync_open_prs :: "executors \<Rightarrow> config \<Rightarrow> sync_result option io" where
  "sync_open_prs X cfg =
     and_then (query (findings_with finding_status.PrOpen)) (\<lambda>open_prs.
       if open_prs = [] then ok None
       else do { s \<leftarrow> sync_prs (rd_forge (ex_readers X)) cfg; ok (Some s) })"

text \<open>The pick always ends (\<open>select_terminates\<close>): its missing round is never taken.\<close>

definition run_cycle_inner :: "executors \<Rightarrow> config \<Rightarrow> string option \<Rightarrow> cycle_summary io" where
  "run_cycle_inner X cfg force_repo =
     and_then (sync_open_prs X cfg) (\<lambda>sync. do {
       full \<leftarrow> disk_gate X cfg;
       (case full of
          Some reason \<Rightarrow> do {
            _ \<leftarrow> event ''deny'' reason None None;
            now \<leftarrow> look (\<lambda>w. w_now w (w_calls w));
            ok (no_summary\<lparr>cs_denied := Some reason, cs_retry_at := Some (now + DISK_RETRY_MS), cs_sync := sync\<rparr>) }
        | None \<Rightarrow>
            and_then (pick_next (rd_context (ex_readers X)) cfg force_repo) (\<lambda>picked.
              case Option.bind picked id of
                Some c \<Rightarrow> work_on X cfg sync c
              | None \<Rightarrow> do {
                  _ \<leftarrow> event ''cycle'' ''idle: nothing to do'' None None;
                  ok (no_summary\<lparr>cs_idle := Some ''no queued findings, no enabled repos'', cs_sync := sync\<rparr>) })) })"

definition run_cycle :: "executors \<Rightarrow> config \<Rightarrow> string option \<Rightarrow> cycle_summary act" where
  "run_cycle X cfg force_repo = do {
     result \<leftarrow> run_cycle_inner X cfg force_repo;
     (case result of
        Inr s \<Rightarrow> State_Monad.return s
      | Inl e \<Rightarrow> do {
          _ \<leftarrow> event ''error'' (''cycle crashed: '' @ rd_debug (ex_readers X) e) None None;
          State_Monad.return (no_summary\<lparr>cs_error := Some e\<rparr>) })
   }"

end
