(* ===== verification/CycleSafety.thy ===== *)
theory CycleSafety
  imports Cycle Selection PrAttention
begin

text \<open>
What one cycle guarantees about its turn of the rotation and about a full disk.
\<close>

section \<open>The turn of the rotation\<close>

lemma kind_last_stamped: "kind_last kind (stamp_kind now kind r) = now"
  by (cases kind) simp_all

lemma stamped_rows:
  "row \<in> set (db_repos (set_last_kind_at now rid kind d)) \<Longrightarrow> r_id row = rid \<Longrightarrow> kind_last kind row = now"
  by (auto simp: set_last_kind_at_def upd_repo_def upd_repos_def set_update_where kind_last_stamped)

text \<open>How long a scan rests after its turn.\<close>

definition rest_ms :: "config \<Rightarrow> repo_job_kind \<Rightarrow> int" where
  "rest_ms cfg kind =
     (case kind of
        RModernization \<Rightarrow> cf_modernization_interval_days cfg * MS_PER_DAY
      | RStandards \<Rightarrow> cf_standards_interval_days cfg * MS_PER_DAY
      | _ \<Rightarrow> trunc_i64 (cf_scan_interval_days cfg * of_int MS_PER_DAY))"

lemma kind_due_rest: "kind_due cfg row now kind \<longleftrightarrow> kind_last kind row = 0 \<or> rest_ms cfg kind \<le> now - kind_last kind row"
  by (simp add: kind_due_def rest_ms_def)

definition took_a_turn :: "string + cycle_summary \<Rightarrow> bool" where
  "took_a_turn r = (case r of Inl _ \<Rightarrow> True | Inr s \<Rightarrow> attempt_ended s)"

lemma turn_recorded:
  assumes "w_fault w (w_calls w) = None"
  shows "wp (take_turn (Some (rid, kind))) (\<lambda>_ w'. \<forall>row \<in> set (db_repos (w_db w')).
    r_id row = rid \<longrightarrow> kind_last kind row = w_now w (w_calls w)) w"
  using assms by (auto simp: take_turn_def wp_simps stamped_rows simp del: append.simps)

lemma keeps_cycle_event: "keeps db_repos (event kind message x y)"
  by (intro keeps_event) (simp add: frame_simps)

lemma turn_then_event:
  assumes "w_fault w (w_calls w) = None"
  shows "wp (take_turn (Some (rid, kind)) \<bind> (\<lambda>_. event k m x y \<bind> (\<lambda>_. ok s))) (\<lambda>_ w'. \<forall>row \<in> set (db_repos (w_db w')).
    r_id row = rid \<longrightarrow> kind_last kind row = w_now w (w_calls w)) w"
proof -
  have after: "wp (event k m x y) (\<lambda>_ w''. db_repos (w_db w'') = db_repos (w_db w')) w'" for w'
    using keeps_cycle_event unfolding keeps_wp by blast
  show ?thesis
    unfolding wp_bind wp_ok
    by (rule wp_mono [OF turn_recorded [OF assms]], rule wp_mono [OF after]) simp
qed

text \<open>C14. The cycle records the turn of a rotation scan whose attempt ended, however it ended (done, killed, failed or crashed): the
  repository's row carries the time at which the dispatch returned, so the rotation does not find the scan due again until its interval has
  passed. After an attempt that did not end (suspended, denied, skipped) the cycle itself records nothing: every repository's row is as
  the dispatch left it, so the only turn such an attempt can have taken is one its executor recorded on its own, as a hunt that found no
  new commits does.\<close>

theorem ended_attempt_takes_its_turn:
  assumes "run_state (dispatch X cfg c) w = (r, w1)" "rotation_of c = Some (rid, kind)"
    and "w_fault w1 (w_calls w1) = None" "run_state (work_on X cfg sync c) w = (r', w')"
    and "row \<in> set (db_repos (w_db w'))" "r_id row = rid"
  shows "(took_a_turn r \<longrightarrow> kind_last kind row = w_now w1 (w_calls w1) \<and>
       (\<forall>now. kind_due cfg row now kind \<longrightarrow> kind_last kind row = 0 \<or> w_now w1 (w_calls w1) + rest_ms cfg kind \<le> now)) \<and>
    (\<not> took_a_turn r \<longrightarrow> db_repos (w_db w') = db_repos (w_db w1))"
proof -
  let ?stamped = "\<lambda>w'. \<forall>row \<in> set (db_repos (w_db w')). r_id row = rid \<longrightarrow> kind_last kind row = w_now w1 (w_calls w1)"
  let ?P = "\<lambda>_ w'. (took_a_turn r \<longrightarrow> ?stamped w') \<and> (\<not> took_a_turn r \<longrightarrow> db_repos (w_db w') = db_repos (w_db w1))"
  have "wp (case r of
        Inl e \<Rightarrow> take_turn (rotation_of c) \<bind> (\<lambda>_. err e)
      | Inr s \<Rightarrow> (if attempt_ended s then take_turn (rotation_of c) else State_Monad.return None) \<bind> (\<lambda>_.
          let result = with_sync sync s in event ''cycle'' (cycle_line result) None None \<bind> (\<lambda>_. ok result))) ?P w1"
  proof (cases r)
    case (Inl e)
    have "wp (take_turn (Some (rid, kind)) \<bind> (\<lambda>_. err e)) (\<lambda>_. ?stamped) w1"
      unfolding wp_bind wp_err by (rule turn_recorded [OF assms(3)])
    then show ?thesis by (simp add: Inl took_a_turn_def assms(2))
  next
    case (Inr s)
    then show ?thesis
      using turn_then_event [OF assms(3)] keeps_cycle_event
      by (simp add: took_a_turn_def assms(2) Let_def wp_bind wp_return wp_ok keeps_wp)
  qed
  then have "?P r' w'"
    using assms(1,4) by (simp add: wp_def work_on_def)
  with assms(5,6) show ?thesis by (auto simp: kind_due_rest)
qed

text \<open>The clone of the one repository is gone: its test-gap scan fails, and has had its turn.\<close>

lemma uncloned_dispatch:
  "wp (dispatch X cfg (Repo_work RTestGap 1 None)) (\<lambda>r w'. took_a_turn r \<and> w_fault w' = (\<lambda>_. None) \<and> w_now w' = (\<lambda>_. 5)) (quiet 5 repo_db)"
proof -
  have "get_repo_by_id 1 repo_db = Some sample_repo" by (simp add: repo_db_def sample_repo_def get_repo_by_id_def)
  then show ?thesis
    by (simp add: dispatch_def run_repo_job_def run_analysis_job_def wp_simps path_exists_def not_cloned_def took_a_turn_def Let_def quiet_def
        del: append.simps)
qed

theorem ended_attempt_takes_its_turn_witness:
  "\<forall>X cfg sync. \<exists>r' w'. run_state (work_on X cfg sync (Repo_work RTestGap 1 None)) (quiet 5 repo_db) = (r', w') \<and>
     (\<forall>row \<in> set (db_repos (w_db w')). r_id row = 1 \<longrightarrow> kind_last RTestGap row = 5)"
proof (intro allI)
  fix X cfg sync
  obtain r w1 where d: "run_state (dispatch X cfg (Repo_work RTestGap 1 None)) (quiet 5 repo_db) = (r, w1)" by fastforce
  obtain r' w' where e: "run_state (work_on X cfg sync (Repo_work RTestGap 1 None)) (quiet 5 repo_db) = (r', w')" by fastforce
  have "took_a_turn r" "w_fault w1 (w_calls w1) = None" "w_now w1 (w_calls w1) = 5"
    using wp_run [OF uncloned_dispatch d] by simp_all
  then have "kind_last RTestGap row = 5" if "row \<in> set (db_repos (w_db w'))" "r_id row = 1" for row
    using ended_attempt_takes_its_turn [OF d _ _ e that] by (simp add: rotation_of_def)
  with e show "\<exists>r' w'. run_state (work_on X cfg sync (Repo_work RTestGap 1 None)) (quiet 5 repo_db) = (r', w') \<and>
     (\<forall>row \<in> set (db_repos (w_db w')). r_id row = 1 \<longrightarrow> kind_last RTestGap row = 5)" by blast
qed

section \<open>A full disk\<close>

lemma jobs_upd_findings: "db_jobs (set_finding_status now fid s d) = db_jobs d" "db_jobs (set_finding_verdict now fid s r d) = db_jobs d"
  by (simp_all add: set_finding_status_def set_finding_verdict_def set_anchored_verdict_def write_anchor_def frame_simps)

lemma keeps_jobs_event: "keeps db_jobs (event kind message x y)"
  by (intro keeps_event) (simp add: frame_simps)

lemma jobs_upsert: "db_jobs (upsert_pr fid r g d) = db_jobs d"
  by (simp add: upsert_pr_def)

lemma jobs_synced: "db_jobs (sync_pr_open fid s d) = db_jobs d" "db_jobs (mark_pr_merged fid n t d) = db_jobs d"
    "db_jobs (mark_pr_closed fid n t d) = db_jobs d"
  by (simp_all add: sync_pr_open_def mark_pr_merged_def mark_pr_closed_def Let_def jobs_upsert frame_simps split: option.split)

lemma keeps_jobs_sync_one: "keeps db_jobs (sync_one D cfg f s)"
  unfolding sync_one_def sync_urlless_def sync_error_def sync_merged_def sync_closed_def sync_open_def Let_def
  by (auto intro!: keeps_intros keeps_jobs_event keeps_exec simp: jobs_upd_findings jobs_synced split: sum.split pr_state.split option.split prod.split)

lemma keeps_jobs_sync: "keeps db_jobs (sync_prs D cfg)"
proof -
  have "keeps db_jobs (sync_each D cfg fs s)" for fs s
    by (induction fs arbitrary: s) (auto intro!: keeps_intros keeps_jobs_sync_one)
  then show ?thesis unfolding sync_prs_def by (auto intro!: keeps_intros)
qed

text \<open>C17. A disk that is short of space starts nothing: the cycle syncs the pull requests and is denied (or reports the
  error that kept it from syncing), and no job row is created, resumed or touched, forced or not.\<close>

theorem full_disk_starts_nothing:
  assumes "\<And>w. ex_free_disk X w = Some free" "free < cf_min_free_disk_bytes cfg"
    and "run_state (run_cycle X cfg force) w = (s, w')"
  shows "db_jobs (w_db w') = db_jobs (w_db w) \<and> cs_state s = None \<and> (cs_denied s \<noteq> None \<or> cs_error s \<noteq> None)"
proof -
  obtain reason where gate: "disk_gate X cfg = look (\<lambda>_. Some reason)"
    by (simp add: disk_gate_def assms(1) disk_denial_def assms(2))
  have denied: "run_cycle_inner X cfg force = and_then (sync_open_prs X cfg) (\<lambda>sync. do {
      _ \<leftarrow> event ''deny'' reason None None;
      now \<leftarrow> look (\<lambda>w. w_now w (w_calls w));
      ok (no_summary\<lparr>cs_denied := Some reason, cs_retry_at := Some (now + DISK_RETRY_MS), cs_sync := sync\<rparr>) })"
    by (simp add: run_cycle_inner_def gate look_def State_Monad.bind_def)
  have "keeps db_jobs (run_cycle X cfg force)"
    unfolding run_cycle_def denied sync_open_prs_def
    by (auto intro!: keeps_intros keeps_jobs_sync keeps_jobs_event split: sum.split)
  moreover have "wp (run_cycle_inner X cfg force) (\<lambda>r _. \<forall>s. r = Inr s \<longrightarrow> cs_state s = None \<and> cs_denied s \<noteq> None) w"
    unfolding denied wp_and_then
    by (rule run_wp) (auto simp: wp_simps no_summary_def split: sum.split option.split)
  then have "wp (run_cycle X cfg force) (\<lambda>s _. cs_state s = None \<and> (cs_denied s \<noteq> None \<or> cs_error s \<noteq> None)) w"
    unfolding run_cycle_def wp_bind
    by (rule wp_mono) (auto simp: wp_simps no_summary_def split: sum.split option.split)
  ultimately show ?thesis using assms(3) by (simp add: wp_def keepsD)
qed

theorem full_disk_starts_nothing_witness:
  "\<forall>X. \<exists>s w'. run_state (run_cycle (X\<lparr>ex_free_disk := (\<lambda>_. Some 0)\<rparr>) (sample_config\<lparr>cf_min_free_disk_bytes := 1\<rparr>)
       (Some ''demo'')) (quiet 5 job_db) = (s, w') \<and> db_jobs (w_db w') = db_jobs job_db \<and> cs_state s = None"
proof
  fix X :: executors
  let ?X = "X\<lparr>ex_free_disk := (\<lambda>_. Some 0)\<rparr>" and ?cfg = "sample_config\<lparr>cf_min_free_disk_bytes := 1\<rparr>"
  obtain s w' where r: "run_state (run_cycle ?X ?cfg (Some ''demo'')) (quiet 5 job_db) = (s, w')" by fastforce
  with full_disk_starts_nothing [of ?X 0 ?cfg "Some ''demo''", OF _ _ r]
  show "\<exists>s w'. run_state (run_cycle ?X ?cfg (Some ''demo'')) (quiet 5 job_db) = (s, w') \<and>
     db_jobs (w_db w') = db_jobs job_db \<and> cs_state s = None" by simp
qed

end
