(* ===== verification/Asking.thy ===== *)
theory Asking
  imports World
begin

text \<open>
Which commands an action runs. \<open>asks P m\<close> says that every command \<open>m\<close> runs satisfies \<open>P\<close>: replacing what the
other commands would print and do to the disk changes nothing in any run of \<open>m\<close>, whatever fails. The rules, in
\<open>asks_intros\<close>, follow the structure of an action like those of \<open>keeps\<close>.
\<close>

named_theorems asks_intros "actions that run only the commands a predicate allows"

definition set_shell :: "shell \<Rightarrow> world \<Rightarrow> world" where
  "set_shell sh w = w\<lparr>w_shell := sh\<rparr>"

lemma set_shell_simps [simp]:
  "w_db (set_shell sh w) = w_db w" "w_disk (set_shell sh w) = w_disk w" "w_log (set_shell sh w) = w_log w"
  "w_shell (set_shell sh w) = sh" "w_lookups (set_shell sh w) = w_lookups w" "w_fault (set_shell sh w) = w_fault w"
  "w_now (set_shell sh w) = w_now w" "w_calls (set_shell sh w) = w_calls w" "path_exists (set_shell sh w) = path_exists w"
  by (simp_all add: set_shell_def path_exists_def fun_eq_iff)

definition agree :: "(string list \<Rightarrow> bool) \<Rightarrow> shell \<Rightarrow> shell \<Rightarrow> bool" where
  "agree P sh sh' \<longleftrightarrow> (\<forall>n cwd argv k. P argv \<longrightarrow> sh n cwd argv k = sh' n cwd argv k)"

definition asks :: "(string list \<Rightarrow> bool) \<Rightarrow> 'a act \<Rightarrow> bool" where
  "asks P m \<longleftrightarrow> (\<forall>w sh. agree P sh (w_shell w) \<longrightarrow>
     run_state m (set_shell sh w) = (fst (run_state m w), set_shell sh (snd (run_state m w))) \<and>
     w_shell (snd (run_state m w)) = w_shell w)"

lemma asksI:
  assumes "\<And>(w :: world) sh. agree P sh (w_shell w) \<Longrightarrow>
    run_state m (set_shell sh w) = (fst (run_state m w), set_shell sh (snd (run_state m w)))"
    and "\<And>w :: world. w_shell (snd (run_state m w)) = w_shell w"
  shows "asks P m"
  using assms by (simp add: asks_def)

lemma asks_mono: "asks P m \<Longrightarrow> (\<And>argv. P argv \<Longrightarrow> Q argv) \<Longrightarrow> asks Q m"
  unfolding asks_def agree_def by blast

lemma asks_return [asks_intros]: "asks P (State_Monad.return a)"
  by (rule asksI) simp_all

lemma asks_ok [asks_intros]: "asks P (ok a)" and asks_err [asks_intros]: "asks P (err e)"
  by (simp_all add: ok_def err_def asks_return)

lemma asksD:
  assumes "asks P m" "run_state m w = (x, w')"
  shows "w_shell w' = w_shell w" "agree P sh (w_shell w) \<Longrightarrow> run_state m (set_shell sh w) = (x, set_shell sh w')"
proof -
  have "agree P (w_shell w) (w_shell w)" by (simp add: agree_def)
  with assms show "w_shell w' = w_shell w" unfolding asks_def by (metis snd_conv)
  show "agree P sh (w_shell w) \<Longrightarrow> run_state m (set_shell sh w) = (x, set_shell sh w')"
    using assms unfolding asks_def by (metis fst_conv snd_conv)
qed

lemma asks_bind [asks_intros]:
  assumes "asks P m" "\<And>a. asks P (k a)"
  shows "asks P (m \<bind> k)"
proof (rule asksI)
  fix w :: world and sh
  assume a: "agree P sh (w_shell w)"
  obtain x w1 y w2 where m: "run_state m w = (x, w1)" and k: "run_state (k x) w1 = (y, w2)" by fastforce
  have "agree P sh (w_shell w1)" using a by (simp add: asksD(1) [OF assms(1) m])
  with asksD(2) [OF assms(1) m a] asksD(2) [OF assms(2) k] m k
  show "run_state (m \<bind> k) (set_shell sh w) = (fst (run_state (m \<bind> k) w), set_shell sh (snd (run_state (m \<bind> k) w)))" by simp
next
  fix w :: world
  obtain x w1 y w2 where m: "run_state m w = (x, w1)" and k: "run_state (k x) w1 = (y, w2)" by fastforce
  then show "w_shell (snd (run_state (m \<bind> k) w)) = w_shell w"
    using asksD(1) [OF assms(1) m] asksD(1) [OF assms(2) k] by simp
qed

lemma asks_and_then [asks_intros]: "asks P m \<Longrightarrow> (\<And>a. asks P (k a)) \<Longrightarrow> asks P (and_then m k)"
  unfolding and_then_def by (intro asks_bind) (auto intro: asks_err split: sum.split)

lemma asks_look [asks_intros]: "(\<And>w sh. f (set_shell sh w) = f w) \<Longrightarrow> asks P (look f)"
  by (rule asksI) (simp_all add: look_def)

lemma asks_call [asks_intros]: "asks P (call f)"
proof -
  have "run_state (call f) w = (case w_fault w (w_calls w) of Some e \<Rightarrow> (Inl e, tick w)
      | None \<Rightarrow> (Inr (fst (f (w_now w (w_calls w)) (w_db w))), put_db (snd (f (w_now w (w_calls w)) (w_db w))) w))" for w
    by (simp add: call_def tick_def put_db_def Let_def split_beta split: option.split)
  moreover have "tick (set_shell sh w) = set_shell sh (tick w)" "put_db d (set_shell sh w) = set_shell sh (put_db d w)" for sh w d
    by (simp_all add: tick_def put_db_def set_shell_def)
  ultimately show ?thesis by (intro asksI) (simp_all split: option.split)
qed

lemma asks_query [asks_intros]: "asks P (query f)" and asks_exec [asks_intros]: "asks P (exec g)"
  by (simp_all add: query_def exec_def asks_call)

lemma asks_event [asks_intros]: "asks P (event k m x y)"
  by (simp add: event_def asks_exec)

lemma asks_disk_call [asks_intros]: "asks P (disk_call f)"
  by (rule asksI) (simp_all add: disk_call_def set_shell_def Let_def split_beta split: option.split)

lemma asks_shell [asks_intros]: "P argv \<Longrightarrow> asks P (shell_in cwd argv)"
  by (rule asksI) (auto simp: shell_in_def agree_def set_shell_def Let_def split_beta)

lemma asks_log_write_failure [asks_intros]: "asks P m \<Longrightarrow> asks P (log_write_failure m what)"
  unfolding log_write_failure_def
  by (intro asks_bind) (auto intro!: asksI simp: set_shell_def split: sum.split)

lemma asks_ignore [asks_intros]: "asks P m \<Longrightarrow> asks P (ignore m)"
  unfolding ignore_def by (intro asks_intros)

lemma asks_if [asks_intros]: "(c \<Longrightarrow> asks P m) \<Longrightarrow> (\<not> c \<Longrightarrow> asks P n) \<Longrightarrow> asks P (if c then m else n)"
  by simp

lemma asks_case_option [asks_intros]:
  "(x = None \<Longrightarrow> asks P m) \<Longrightarrow> (\<And>a. x = Some a \<Longrightarrow> asks P (k a)) \<Longrightarrow> asks P (case x of None \<Rightarrow> m | Some a \<Rightarrow> k a)"
  by (cases x) auto

lemma asks_case_sum [asks_intros]:
  "(\<And>e. x = Inl e \<Longrightarrow> asks P (m e)) \<Longrightarrow> (\<And>a. x = Inr a \<Longrightarrow> asks P (k a)) \<Longrightarrow> asks P (case x of Inl e \<Rightarrow> m e | Inr a \<Rightarrow> k a)"
  by (cases x) auto

lemma asks_case_prod [asks_intros]: "(\<And>a b. x = (a, b) \<Longrightarrow> asks P (k a b)) \<Longrightarrow> asks P (case x of (a, b) \<Rightarrow> k a b)"
  by (cases x) auto

lemma asks_case_bool [asks_intros]:
  "(b \<Longrightarrow> asks P m) \<Longrightarrow> (\<not> b \<Longrightarrow> asks P n) \<Longrightarrow> asks P (case b of True \<Rightarrow> m | False \<Rightarrow> n)"
  by (cases b) auto

lemma asks_disk [asks_intros]:
  "asks P (read_file p)" "asks P (remove_file p)" "asks P (create_dir_all p)" "asks P (remove_dir_all p)" "asks P (remove_empty_dir p)"
  by (simp_all add: read_file_def remove_file_def create_dir_all_def remove_dir_all_def remove_empty_dir_def asks_disk_call)

end
