(* ===== verification/ForgeWrites.thy ===== *)
theory ForgeWrites
  imports Asking Cycle
begin

text \<open>
Who may change something on the forge. A push, and any command of gh or glab that creates, comments on or closes a
pull request, is a write. \<open>may_write\<close> says which of them each kind of job may run, and the last theorem that an
attempt runs no other.
\<close>

section \<open>Writes\<close>

definition writes_forge :: "string list \<Rightarrow> bool" where
  "writes_forge argv \<longleftrightarrow> (case argv of
     [] \<Rightarrow> False
   | prog # args \<Rightarrow>
       prog = ''git'' \<and> (take 1 args = [''push''] \<or> take 1 args = [''-C''] \<and> take 1 (drop 2 args) = [''push'']) \<or>
       prog = ''gh'' \<and> take 1 args = [''pr''] \<and> take 1 (drop 1 args) \<notin> {[''view''], [''diff'']} \<or>
       prog = ''glab'' \<and> (take 1 args = [''mr''] \<and> take 1 (drop 1 args) \<noteq> [''list''] \<or> take 1 args = [''api''] \<and> take 1 (drop 2 args) = [''--method'']))"

abbreviation reads_only :: "'a act \<Rightarrow> bool" where
  "reads_only \<equiv> asks (\<lambda>argv. \<not> writes_forge argv)"

lemma not_a_write:
  "\<not> writes_forge (''git'' # ''-C'' # c # ''worktree'' # args)" "\<not> writes_forge (''git'' # ''-C'' # c # ''rev-parse'' # args)"
  "\<not> writes_forge (''git'' # ''-C'' # c # ''fetch'' # args)" "\<not> writes_forge (''git'' # ''-C'' # c # ''config'' # args)"
  "\<not> writes_forge (''git'' # ''-C'' # c # ''branch'' # args)" "\<not> writes_forge (''git'' # ''-C'' # c # ''checkout'' # args)"
  "\<not> writes_forge (''git'' # ''-C'' # c # ''rev-list'' # args)" "\<not> writes_forge (''git'' # ''-C'' # c # ''log'' # args)"
  "\<not> writes_forge (''git'' # ''-C'' # c # ''-c'' # args)" "\<not> writes_forge (''git'' # ''clone'' # args)"
  "\<not> writes_forge (''gh'' # ''api'' # args)" "\<not> writes_forge (''gh'' # ''auth'' # args)"
  "\<not> writes_forge (''gh'' # ''pr'' # ''view'' # args)" "\<not> writes_forge (''gh'' # ''pr'' # ''diff'' # args)"
  by (simp_all add: writes_forge_def)

section \<open>Reading the forge\<close>

text \<open>A call of the GitLab API without a method is a read, whatever its parameters.\<close>

lemma reads_gitlab_api [asks_intros]: "reads_only (gitlab_api url path None params)"
  unfolding gitlab_api_def
  by (rule asks_shell) (cases params; auto simp: writes_forge_def split: option.split)

lemma reads_remember [asks_intros]: "asks P (remember answers)"
  unfolding remember_def clock_def by (rule asksI) (simp_all add: set_shell_def)

lemma asks_clocked_look [asks_intros]:
  "asks P (look (\<lambda>w. cache_fresh (w_lookups w) key (clock w)))"
  "asks P (look (\<lambda>w. map (\<lambda>i. (i, cache_fresh (w_lookups w) (g i) (clock w))) ids))"
  by (auto intro!: asks_look simp: clock_def)

lemma reads_cached_lookup [asks_intros]: "asks P look_up \<Longrightarrow> asks P (cached_lookup key look_up)"
  unfolding cached_lookup_def by (intro asks_intros)

lemma reads_voice_of [asks_intros]:
  "(\<And>l. asks P (can_push l)) \<Longrightarrow> asks P (voice_of bots is_bot can_push item author known)"
  unfolding voice_of_def Let_def by (auto intro!: asks_intros split: option.split sum.split)

lemma reads_screen_items [asks_intros]:
  "(\<And>i known. asks P (speaks i known)) \<Longrightarrow> asks P (screen_items speaks tagged items known)"
  by (induction items arbitrary: known) (auto intro!: asks_intros split: option.split)

lemma reads_screen_feedback [asks_intros]:
  "(\<And>l. asks P (can_push l)) \<Longrightarrow> asks P (screen_feedback pr bots is_bot can_push)"
  unfolding screen_feedback_def Let_def by (auto intro!: asks_intros)

lemma reads_author_types [asks_intros]: "reads_only (github_author_types url ids)"
  unfolding github_author_types_def by (auto intro!: asks_intros simp: not_a_write)

lemma reads_ask_author_types [asks_intros]: "reads_only (ask_author_types url host cs)"
  by (induction cs) (auto intro!: asks_intros)

lemma reads_bot_authored [asks_intros]: "reads_only (github_bot_authored url host ids)"
  unfolding github_bot_authored_def Let_def
  by (intro asks_intros asks_look) (simp_all add: clock_def)

lemma reads_github_screen [asks_intros]: "reads_only (github_screen url pr bots)"
  unfolding github_screen_def Let_def github_can_push_def github_api_jq_def
  by (auto intro!: asks_intros simp: not_a_write split: prod.split)

lemma reads_github_view [asks_intros]: "reads_only (github_view D wanted url n bots)"
  unfolding github_view_def github_slug_def gh_pr_view_def Let_def
  by (auto intro!: asks_intros simp: not_a_write split: prod.split)

lemma reads_gitlab_view [asks_intros]: "reads_only (gitlab_view D texts url n bots)"
  unfolding gitlab_view_def gitlab_project_def gitlab_fetch_mr_def gitlab_feedback_def gitlab_can_push_def Let_def
  by (auto intro!: asks_intros split: prod.split)

lemma reads_must [asks_intros]: "asks P cmd \<Longrightarrow> asks P (must what cmd)"
  unfolding must_def by (auto intro!: asks_intros)

lemma reads_diff_pages [asks_intros]: "reads_only (gitlab_diff_pages D url path page pages files)"
  by (induction pages arbitrary: page files) (auto simp: Let_def intro!: asks_intros)

lemma reads_view_pr [asks_intros]: "reads_only (view_pr_engage fg D url n bots)"
  by (cases fg; simp add: asks_intros)

lemma reads_pr_diff [asks_intros]: "reads_only (pr_diff fg D url n)"
  by (cases fg) (auto simp: github_slug_def gitlab_project_def Let_def not_a_write intro!: asks_intros split: prod.split)


section \<open>Clones, trees and workspaces\<close>

lemma reads_git [asks_intros]: "P argv \<Longrightarrow> asks P (git argv)"
  unfolding git_def by (rule asks_shell)

lemma is_dir_shell [simp]: "is_dir (set_shell sh w) p = is_dir w p"
  by (simp add: is_dir_def)

lemma asks_with_context [asks_intros]: "asks P m \<Longrightarrow> asks P (with_context what m)"
  unfolding with_context_def by (auto intro!: asks_intros split: sum.split)

lemma reads_unlock_missing [asks_intros]: "reads_only (unlock_missing clone paths)"
  by (induction paths) (auto intro!: asks_intros simp: not_a_write)

lemma reads_prune_worktrees [asks_intros]: "reads_only (prune_worktrees clone)"
  unfolding prune_worktrees_def by (auto intro!: asks_intros simp: not_a_write split: prod.split)

lemma reads_release_tree [asks_intros]: "reads_only (release_tree ws)"
  unfolding release_tree_def by (auto intro!: asks_intros simp: not_a_write)

lemma reads_commit [asks_intros]: "reads_only (commit ws revision)"
  unfolding commit_def resolve_rev_def by (auto intro!: asks_intros simp: not_a_write)

lemma reads_add_tree [asks_intros]: "reads_only (add_tree ws spec)"
  unfolding add_tree_def Let_def by (auto intro!: asks_intros simp: not_a_write split: tree_spec.split)

lemma reads_create [asks_intros]: "reads_only (create ws spec)"
  unfolding create_def by (auto intro!: asks_intros)

lemma reads_release_if_idle [asks_intros]: "reads_only (release_if_idle ws)"
  unfolding release_if_idle_def by (auto intro!: asks_intros)

lemma reads_release_superseded [asks_intros]: "reads_only (release_superseded cfg clone olds)"
  by (induction olds) (auto intro!: asks_intros)

lemma reads_open_workspace [asks_intros]: "reads_only (open_workspace cfg r created resume spec kind log_prefix fid)"
  unfolding open_workspace_def Let_def by (auto intro!: asks_intros)

lemma reads_close_workspace [asks_intros]: "reads_only (close_workspace ws)"
  unfolding close_workspace_def by (intro asks_intros)

lemma reads_scan_discard [asks_intros]: "reads_only (scan_discard tree)"
  unfolding scan_discard_def by (auto intro!: asks_intros simp: not_a_write)

lemma reads_scan_create [asks_intros]: "reads_only (scan_create work_root clone repo_id at_rev)"
  unfolding scan_create_def Let_def by (auto intro!: asks_intros simp: not_a_write)

lemma reads_sync_repo [asks_intros]: "reads_only (sync_repo url rpath log_prefix fid)"
  unfolding sync_repo_def same_clone_def make_clone_def sync_failed_def Let_def
  by (auto intro!: asks_intros simp: not_a_write split: option.split)

section \<open>The steps of a job\<close>

lemma reads_budget_gate [asks_intros]:
  "(\<And>n. reads_only (bk_decide (ev_backend E) n)) \<Longrightarrow>
   reads_only (budget_gate E cfg rid kind use log_prefix fid resume)"
  unfolding budget_gate_def reserved_for_def anticipated_tokens_def
  by (auto intro!: asks_intros split: verdict.split option.split)

lemma asks_call_r [asks_intros]: "asks P (call_r f)"
proof -
  have "call_r f = call f \<bind> (\<lambda>r. State_Monad.return
      (case r of Inl e \<Rightarrow> Inl e | Inr (Inl e) \<Rightarrow> Inl (write_error_text e) | Inr (Inr x) \<Rightarrow> Inr x))"
    unfolding call_r_def by (rule state.expand) (auto simp: fun_eq_iff split: prod.split sum.split)
  then show ?thesis by (simp add: asks_intros)
qed

lemma reads_begin_job [asks_intros]: "reads_only (begin_job kind r fid cap anticipated resume)"
  unfolding begin_job_def by (auto intro!: asks_intros split: sum.split)

lemma reads_recorded_state [asks_intros]: "reads_only (recorded_state cfg model jid rr resume)"
  unfolding recorded_state_def record_job_def Let_def by (auto intro!: asks_intros)

lemma reads_spend_override [asks_intros]: "reads_only (spend_override f)"
  unfolding spend_override_def by (auto intro!: asks_intros)

lemma reads_rows [asks_intros]:
  "reads_only (repo_of label f)" "reads_only (pr_row_of label missing f)" "reads_only (pr_number_of label f r ps)"
  "reads_only (fetch_branch label f r branch)" "reads_only (refuse shown fid why)"
  unfolding repo_of_def pr_row_of_def pr_number_of_def fetch_branch_def refuse_def
  by (auto intro!: asks_intros simp: not_a_write split: sum.split option.split)


lemma reads_steps [asks_intros]:
  "reads_only m \<Longrightarrow> (\<And>a. reads_only (k a)) \<Longrightarrow> reads_only (unless_ended m k)"
  "reads_only m \<Longrightarrow> (\<And>a. reads_only (k' a)) \<Longrightarrow> reads_only (ended_or m k')"
  unfolding unless_ended_def ended_or_def by (auto intro!: asks_intros)

lemma reads_make_parent [asks_intros]: "reads_only (make_parent p)"
  unfolding make_parent_def by (intro asks_intros)

lemma reads_or_false [asks_intros]: "asks P m \<Longrightarrow> (\<And>a. asks P (k a)) \<Longrightarrow> asks P (or_false m k)"
  unfolding or_false_def by (auto intro!: asks_intros)

lemma reads_changed_since [asks_intros]: "reads_only (changed_since p anchor sha)"
  unfolding changed_since_def Let_def by (auto intro!: asks_intros simp: writes_forge_def split: prod.split)

lemma reads_suppression_list [asks_intros]: "reads_only (suppression_list p rows sha)"
  by (induction p rows sha rule: suppression_list.induct) (auto intro!: asks_intros)

section \<open>Findings\<close>

lemma reads_file_entry [asks_intros]: "reads_only (file_entry J repo_id types jid source mode i f r)"
  unfolding file_entry_def file_duplicate_def refresh_duplicate_def reopen_if_changed_def error_event_def Let_def
  by (auto intro!: asks_intros split: sum.split bool.split option.split prod.split)

lemma reads_file_entries [asks_intros]: "(\<And>i f r. reads_only (one i f r)) \<Longrightarrow> reads_only (file_entries one i fs r)"
  by (induction fs arbitrary: i r) (auto intro!: asks_intros)

lemma reads_ingest [asks_intros]:
  "reads_only (ingest_findings J repo_id path types jid source)"
  "reads_only (ingest_scan_findings J repo_id path types j)"
  unfolding ingest_findings_def ingest_scan_findings_def ingest_def error_event_def
  by (auto intro!: asks_intros)

lemma reads_anchored_by_fingerprint [asks_intros]: "reads_only (anchored_by_fingerprint repo_id kinds m)"
  by (induction repo_id kinds m rule: anchored_by_fingerprint.induct) (auto intro!: asks_intros)

lemma reads_move_anchors [asks_intros]: "reads_only (move_anchors m sha es)"
  by (induction m sha es rule: move_anchors.induct) (auto intro!: asks_intros)

lemma reads_reconfirmations [asks_intros]: "reads_only (apply_reconfirmations parse r kinds out_path sha)"
  unfolding apply_reconfirmations_def Let_def by (auto intro!: asks_intros)

lemma reads_followups [asks_intros]: "reads_only (ingest_followups J rid tree fid jid kind)"
  unfolding ingest_followups_def by (auto intro!: asks_intros)


section \<open>Prompts\<close>

lemma reads_fill [asks_intros]: "asks P (fill dir name values)"
  unfolding fill_def read_template_def Let_def by (auto intro!: asks_intros)

lemma reads_repo_notes [asks_intros]: "asks P (repo_notes work_root rid)"
  unfolding repo_notes_def by (auto intro!: asks_intros)

lemma reads_recheck_prompt [asks_intros]: "asks P (build_recheck_prompt T dir f r tree out_path notes)"
  unfolding build_recheck_prompt_def Let_def by (auto intro!: asks_intros)

lemma reads_harvest_prompts [asks_intros]:
  "asks P (build_harvest_prompt T dir f tree branch r pr n notes)"
  "asks P (build_harvest_closed_prompt T dir f tree r pr n diff tree_at notes)"
  unfolding build_harvest_prompt_def build_harvest_closed_prompt_def Let_def by (auto intro!: asks_intros)

lemma reads_hunt_prompt [asks_intros]:
  "asks P (build_hunt_prompt dir r tree revs note listed known out_path most notes)"
  unfolding build_hunt_prompt_def Let_def by (auto intro!: asks_intros)

lemma reads_analysis_prompts [asks_intros]:
  "asks P (build_analysis_prompt template x y dir r tree note listed known out_path most notes)"
  unfolding build_analysis_prompt_def Let_def by (auto intro!: asks_intros)

lemma reads_scan_prompts [asks_intros]:
  "asks P (build_standards_prompt dir r tree note listed known out_path most notes)"
  "asks P (as_prompt TEST_GAP_SPEC dir r tree note listed known out_path most notes)"
  "asks P (as_prompt DEP_UPDATE_SPEC dir r tree note listed known out_path most notes)"
  "asks P (as_prompt REFACTOR_SPEC dir r tree note listed known out_path most notes)"
  "asks P (as_prompt MODERNIZATION_SPEC dir r tree note listed known out_path most notes)"
  "asks P (as_prompt STANDARDS_SPEC dir r tree note listed known out_path most notes)"
  unfolding TEST_GAP_SPEC_def DEP_UPDATE_SPEC_def REFACTOR_SPEC_def MODERNIZATION_SPEC_def STANDARDS_SPEC_def
    build_test_gap_prompt_def build_dep_update_prompt_def build_refactor_prompt_def build_modernization_prompt_def
    build_standards_prompt_def read_template_def
  by (auto simp: Let_def intro!: asks_intros)

section \<open>What a backend runs\<close>

text \<open>A backend that never writes to the forge itself; what its worker does in its own process is not the daemon's.\<close>

locale reading_backend =
  fixes B :: backend
  assumes decide_reads: "reads_only (bk_decide B n)"
    and run_reads: "reads_only (bk_run B ws prompt cap max_wall_s class resume)"

interpretation null_reads: reading_backend null_backend
  by unfold_locales (simp_all add: null_backend_def asks_intros)

lemma asks_watched_run [asks_intros]: "asks P (watched_run M cfg run_dir base cap max_wall_s resume Q)"
  by (rule asksI) (auto simp: watched_run_def set_shell_def Let_def split: option.split)

lemma resume_refused_shell [simp]: "resume_refused run_dir sf (set_shell sh w) = resume_refused run_dir sf w"
  by (simp add: resume_refused_def)

lemma reads_run_worker [asks_intros]: "asks P (run_worker M cfg ws prompt cap max_wall_s model resume)"
  unfolding run_worker_def spawned_run_def Let_def
  by (auto intro!: asks_intros split: option.split)

lemma mirror_windows_shell [simp]: "mirror_windows U p (set_shell sh w) = mirror_windows U p w"
  by (simp add: mirror_windows_def)

context reading_backend
begin

lemma overdrive_reads: "reading_backend (overdrive_backend enabled B)"
  by unfold_locales (auto simp: overdrive_backend_def intro!: asks_intros decide_reads run_reads)

end

interpretation omp_reads: reading_backend "omp_backend M U cfg" for M and U :: "'raw mirror" and cfg
  by unfold_locales (auto simp: omp_backend_def omp_decide_def omp_run_def Let_def intro!: asks_intros)


section \<open>Harvests, rechecks and scans\<close>

lemma reads_judged_at [asks_intros]: "reads_only (judged_at start resume)"
  unfolding judged_at_def resolve_rev_def by (auto intro!: asks_intros simp: not_a_write)

lemma reads_harvest_failure [asks_intros]: "reads_only (record_harvest_failure fid jid key detail)"
  unfolding record_harvest_failure_def Let_def by (auto intro!: asks_intros split: sum.split option.split)

lemma reads_record_harvest [asks_intros]: "reads_only (record_harvest f start resume state closure failure gave_up summary)"
  unfolding record_harvest_def record_review_def record_closure_def suspended_harvest_def harvested_def Let_def
  by (auto intro!: asks_intros split: option.split sum.split bool.split simp del: append.simps)

lemma reads_finish_harvest [asks_intros]: "reads_only (finish_harvest R cfg f resume start rr)"
  unfolding finish_harvest_def counted_failure_def harvest_followups_def read_close_reason_def Let_def
  by (auto intro!: asks_intros split: option.split simp del: append.simps)


lemma reads_prefetched [asks_intros]: "reads_only m \<Longrightarrow> reads_only (prefetched fid handoff what m)"
  unfolding prefetched_def harvest_prefetch_failed_def
  by (auto intro!: asks_intros split: sum.split simp del: append.simps)

lemma reads_open_harvest [asks_intros]: "reads_only (open_harvest cfg f resume target anticipated)"
  unfolding open_harvest_def Let_def by (auto intro!: asks_intros split: prod.split simp del: append.simps)

lemma reads_recheck_failure [asks_intros]: "reads_only (handle_recheck_failure summary fid jid key detail override)"
  unfolding handle_recheck_failure_def Let_def
  by (auto intro!: asks_intros split: sum.split option.split simp del: append.simps)

lemma reads_open_recheck [asks_intros]: "reads_only (open_recheck cfg f r cap created resume)"
  unfolding open_recheck_def Let_def
  by (auto intro!: asks_intros split: sum.split prod.split simp del: append.simps)

lemma reads_record_verdict [asks_intros]: "reads_only (record_verdict f start v summary)"
  unfolding record_verdict_def record_confirmed_def record_stale_def record_invalid_def cleared_recheck_def
    Rechecking.settled_def Let_def
  by (auto intro!: asks_intros split: option.split recheck_outcome.split simp del: append.simps)

lemma reads_finish_recheck [asks_intros]: "reads_only (finish_recheck R cfg f resume start rr)"
  unfolding finish_recheck_def suspended_recheck_def read_verdict_def Let_def
  by (auto intro!: asks_intros split: option.split simp del: append.simps)

lemma reads_fetch_tip [asks_intros]: "reads_only (fetch_tip r)"
  unfolding fetch_tip_def resolve_rev_def
  by (auto intro!: asks_intros simp: not_a_write split: option.split simp del: append.simps)

lemma reads_prior_findings [asks_intros]: "reads_only (prior_findings rid fts label)"
  by (induction fts) (auto intro!: asks_intros simp: suppressed_def simp del: append.simps)

lemma reads_cold_findings [asks_intros]: "reads_only (cold_findings rid fts label resume)"
  unfolding cold_findings_def by (auto intro!: asks_intros)

lemma reads_hunt_scope [asks_intros]: "reads_only (hunt_scope_of cfg r resume)"
  unfolding hunt_scope_of_def hunt_head_def start_rehunt_def resumed_full_def hunt_range_def first_range_def
    no_new_commits_def Let_def
  by (auto intro!: asks_intros simp: not_a_write split: option.split prod.split simp del: append.simps)

lemma reads_mark_scope [asks_intros]: "reads_only (mark_scope r sc jid resume)"
  unfolding mark_scope_def by (auto intro!: asks_intros split: option.split simp del: append.simps)

lemma reads_finish_scans [asks_intros]:
  "reads_only (finish_hunt R cfg r sc start out_path resume rr)"
  "reads_only (finish_analysis R cfg r spec start out_path resume rr)"
  unfolding finish_hunt_def ingest_hunt_def record_hunted_def finish_analysis_def ingest_analysis_def Let_def
  by (auto intro!: asks_intros simp del: append.simps)

lemma reads_file_scan [asks_intros]: "reads_only (file_scan R N cfg r scan)"
  unfolding file_scan_def settle_dep_updates_def write_file_def Let_def
  by (auto intro!: asks_intros split: sum.split simp del: append.simps)


context reading_backend
begin

lemma reads_begin_scan:
  assumes "ev_backend E = B" "\<And>jid. reads_only (marked jid)"
  shows "reads_only (begin_scan E cfg r kind label marked spec resume)"
  unfolding begin_scan_def by (auto intro!: asks_intros assms decide_reads simp: assms split: prod.split)

lemma reads_run_harvest:
  assumes "ev_backend E = B"
  shows "reads_only (run_harvest E R cfg f resume)"
  unfolding run_harvest_def start_harvest_def harvest_prompt_def Let_def
  by (auto intro!: asks_intros decide_reads run_reads simp: assms simp del: append.simps split: prod.split)

lemma reads_run_recheck:
  assumes "ev_backend E = B"
  shows "reads_only (run_recheck E R cfg f resume)"
  unfolding run_recheck_def start_recheck_def recheck_prompt_def Let_def
  by (auto intro!: asks_intros decide_reads run_reads simp: assms simp del: append.simps split: prod.split option.split)

lemma reads_run_hunt:
  assumes "ev_backend E = B"
  shows "reads_only (run_hunt E R cfg r resume)"
  unfolding run_hunt_def hunt_prompt_def Let_def
  by (auto intro!: asks_intros reads_begin_scan run_reads assms simp: assms simp del: append.simps split: prod.split option.split)

lemma reads_run_analysis:
  assumes "ev_backend E = B"
    "\<And>dir tree note listed known out_path most notes. reads_only (as_prompt spec dir r tree note listed known out_path most notes)"
  shows "reads_only (run_analysis_job E R cfg r spec resume)"
  unfolding run_analysis_job_def analysis_prompt_def not_cloned_def Let_def
  by (auto intro!: asks_intros reads_begin_scan run_reads assms simp: assms simp del: append.simps split: prod.split option.split)

lemma reads_run_dep_update:
  assumes "ev_backend E = B" "\<And>w sh. rn_host N (set_shell sh w) = rn_host N w"
  shows "reads_only (run_dep_update E R N cfg r resume)"
  unfolding run_dep_update_def renovate_scan_def github_token_def not_cloned_def Let_def
  by (auto intro!: asks_intros reads_run_analysis run_reads assms simp: assms not_a_write simp del: append.simps split: prod.split option.split)

end


section \<open>Fixes and engages\<close>

definition pushes :: "string list \<Rightarrow> bool" where
  "pushes argv \<longleftrightarrow> argv \<noteq> [] \<and> hd argv = ''git'' \<and> (take 1 (tl argv) = [''push''] \<or> take 1 (drop 3 argv) = [''push''])"

text \<open>Its only flag is the lease; what follows are a remote and one ref.\<close>

definition leased :: "string list \<Rightarrow> bool" where
  "leased argv \<longleftrightarrow> (case drop 4 argv of [flag, _, ref] \<Rightarrow> starts_with ''--force-with-lease='' flag \<and> starts_with ''HEAD:'' ref
     | _ \<Rightarrow> False)"

definition opens_pr :: "string list \<Rightarrow> bool" where
  "opens_pr argv \<longleftrightarrow> take 3 argv \<in> {[''gh'', ''pr'', ''create''], [''glab'', ''mr'', ''create'']}"

text \<open>A fix pushes its branch and opens a pull request; an engage pushes under a lease, comments and closes.\<close>

definition may_write :: "job_kind \<Rightarrow> string list \<Rightarrow> bool" where
  "may_write kind argv \<longleftrightarrow> \<not> writes_forge argv \<or>
     (case kind of
        Finding_kind FFix \<Rightarrow> pushes argv \<or> opens_pr argv
      | Finding_kind FEngage \<Rightarrow> (pushes argv \<longrightarrow> leased argv) \<and> \<not> opens_pr argv
      | _ \<Rightarrow> False)"

abbreviation kept_to :: "job_kind \<Rightarrow> 'a act \<Rightarrow> bool" where
  "kept_to kind \<equiv> asks (may_write kind)"

lemma reads_kept: "reads_only m \<Longrightarrow> kept_to kind m"
  by (erule asks_mono) (simp add: may_write_def)

lemma may_push_leased: "may_write K_engage [''git'', ''-C'', tree, ''push'', ''--force-with-lease='' @ lease, url, ''HEAD:'' @ branch]"
  by (simp add: may_write_def leased_def opens_pr_def)

lemma may_speak:
  "may_write K_engage (''gh'' # ''pr'' # ''comment'' # args)" "may_write K_engage (''gh'' # ''pr'' # ''close'' # args)"
  "may_write K_engage (''glab'' # ''api'' # args)" "may_write K_engage (''glab'' # ''mr'' # ''close'' # args)"
  by (simp_all add: may_write_def pushes_def opens_pr_def)

lemma may_log: "may_write kind (''git'' # ''-C'' # tree # ''log'' # args)"
  by (simp add: may_write_def not_a_write)

lemma engage_gitlab: "kept_to K_engage (gitlab_api url path m params)"
  unfolding gitlab_api_def by (rule asks_shell) (simp add: may_speak)

lemma engage_comments: "kept_to K_engage (comment_pr fg url n body)"
  by (cases fg; auto simp: github_slug_def gitlab_project_def may_speak simp del: append.simps intro!: asks_intros engage_gitlab split: prod.split)

lemma engage_closes: "kept_to K_engage (close_pr fg url n body)"
  by (cases fg; auto simp: comment_first_def github_slug_def gitlab_project_def may_speak
      intro!: asks_intros engage_gitlab split: prod.split simp del: append.simps)


lemma reads_release_claim [asks_intros]: "asks P (release_claim fid)"
  unfolding release_claim_def by (intro asks_intros)

lemma asks_hold_blocked [asks_intros]: "asks P (hold_blocked fid jid report)"
  unfolding hold_blocked_def by (auto intro!: asks_intros split: sum.split)

lemma asks_fix_event [asks_intros]: "asks P (fix_event kind fid jid message)"
  unfolding fix_event_def by (intro asks_intros)

lemma asks_fix_failure [asks_intros]: "asks P (record_fix_failure fid jid failure detail summary)"
  unfolding record_fix_failure_def Let_def
  by (auto intro!: asks_intros split: sum.split simp del: append.simps)

lemma asks_retire_concluded [asks_intros]: "asks P (retire_concluded jid outcome)"
  unfolding retire_concluded_def by (intro asks_intros)

lemma asks_record_job [asks_intros]: "asks P (record_job jid rr model resume)"
  unfolding record_job_def Let_def by (auto intro!: asks_intros split: option.split simp del: append.simps)

section \<open>A fix\<close>

lemma may_push: "may_write K_fix (''git'' # ''-C'' # tree # ''push'' # args)"
  by (simp add: may_write_def pushes_def)

lemma may_open:
  "may_write K_fix (''gh'' # ''pr'' # ''create'' # args)" "may_write K_fix (''glab'' # ''mr'' # ''create'' # args)"
  "may_write K_fix (''glab'' # ''mr'' # ''list'' # args)"
  by (simp_all add: may_write_def opens_pr_def writes_forge_def)

lemma fix_opens: "kept_to K_fix (create_pr fg rpath head base title body)"
  by (cases fg; auto simp: github_create_pr_def gitlab_create_pr_def must_def may_open Let_def
      intro!: asks_intros split: prod.split option.split bool.split simp del: append.simps)

lemma fix_ships: "kept_to K_fix (ship_pr r branch tree state)"
  unfolding ship_pr_def open_pr_def commits_ahead_def Let_def
  by (auto intro!: asks_intros fix_opens simp: may_push may_log split: prod.split option.split sum.split simp del: append.simps)

lemma fix_concludes: "kept_to K_fix (conclude_fix f start state previous)"
  unfolding conclude_fix_def read_report_def Let_def
  by (auto intro!: asks_intros fix_ships split: option.split sum.split simp del: append.simps)

lemma fix_records: "kept_to K_fix (record_fix_outcome f start outcome stdout_tail summary)"
  unfolding record_fix_outcome_def hold_blocked_fix_def record_declined_fix_def record_shipped_def after_fix_def Let_def
  by (auto intro!: asks_intros split: fix_outcome.split sum.split prod.split simp del: append.simps)

lemma fix_finishes: "kept_to K_fix (finish_fix cfg f resume start rr)"
  unfolding finish_fix_def Let_def
  by (auto intro!: asks_intros fix_concludes fix_records reads_kept [OF reads_close_workspace] simp del: append.simps)

lemma fix_claims: "kept_to K_fix (claimed_fix cfg f r resume cap anticipated)"
  unfolding claimed_fix_def prepare_blocked_resume_def open_fix_def count_unmade_tree_def Let_def
  by (auto intro!: asks_intros reads_kept [OF reads_open_workspace] split: option.split sum.split prod.split simp del: append.simps)


section \<open>An engage\<close>

lemma engage_pushes: "kept_to K_engage (push_leased start)"
  unfolding push_leased_def Let_def
  by (auto intro!: asks_intros may_push_leased simp: may_log simp del: append.simps)


lemma engage_replies: "kept_to K_engage (post_reply start)"
  unfolding post_reply_def Let_def
  by (auto intro!: asks_intros engage_comments split: sum.split simp del: append.simps)

lemma engage_records: "kept_to K_engage (record_engage f start state published stdout_tail summary)"
  unfolding record_engage_def record_incomplete_def record_published_def Let_def
  by (auto intro!: asks_intros reads_kept [OF reads_spend_override] split: sum.split prod.split simp del: append.simps)

lemma engage_withdraws: "kept_to K_engage (withdraw_pr fid start reason summary)"
  unfolding withdraw_pr_def withdrawal_aborted_def record_withdrawal_def Let_def
  by (auto intro!: asks_intros engage_closes split: sum.split simp del: append.simps)

lemma engage_concludes: "kept_to K_engage (conclude_engage f start state stdout_tail summary)"
  unfolding conclude_engage_def push_and_reply_def Let_def
  by (auto intro!: asks_intros engage_withdraws engage_pushes engage_replies engage_records
      reads_kept [OF reads_spend_override] simp del: append.simps)

lemma reads_start_engage:
  assumes "\<And>n. reads_only (bk_decide (ev_backend E) n)"
  shows "reads_only (start_engage E R cfg f resume)"
  unfolding start_engage_def engage_target_def engage_head_ref_def engage_view_def Let_def
  by (auto intro!: asks_intros assms split: prod.split option.split sum.split simp del: append.simps)

lemma reads_engage_prompt: "asks P (engage_prompt cfg f start resume)"
  unfolding engage_prompt_def build_engage_prompt_def
  by (auto intro!: asks_intros split: option.split simp del: append.simps)

lemma asks_fix_prompt: "asks P (fix_prompt T cfg f start resume)"
  unfolding fix_prompt_def build_fix_prompt_def build_apply_improvement_prompt_def build_apply_modernization_prompt_def
  by (auto intro!: asks_intros split: option.split sum.split finding_type.split simp del: append.simps)

lemma kept_ended_or:
  "kept_to kind m \<Longrightarrow> (\<And>a. kept_to kind (k a)) \<Longrightarrow> kept_to kind (ended_or m k)"
  unfolding ended_or_def by (auto intro!: asks_intros)

section \<open>Who writes\<close>

context reading_backend
begin

lemma engage_continues:
  assumes "ev_backend E = B"
  shows "reads_only (continue_into_harvest E R cfg r fid jid ws pinned session)"
  unfolding continue_into_harvest_def hand_off_def anticipated_tokens_def Let_def
  by (auto intro!: asks_intros reads_run_harvest simp: assms split: option.split sum.split simp del: append.simps)

lemma kept_run_engage:
  assumes "ev_backend E = B"
  shows "kept_to K_engage (run_engage E R cfg f resume)"
  unfolding run_engage_def finish_engage_def
  by (auto intro!: asks_intros kept_ended_or engage_concludes reads_kept [OF reads_start_engage] reads_engage_prompt
      reads_kept [OF run_reads] reads_kept [OF decide_reads] decide_reads reads_kept [OF reads_recorded_state]
      reads_kept [OF reads_close_workspace] reads_kept [OF engage_continues]
      simp: assms split: prod.split option.split simp del: append.simps)

lemma kept_run_fix:
  assumes "ev_backend E = B"
  shows "kept_to K_fix (run_fix E T cfg f resume)"
  unfolding run_fix_def start_fix_def Let_def
  by (auto intro!: asks_intros asks_fix_prompt fix_claims fix_finishes reads_kept [OF run_reads] reads_kept [OF reads_budget_gate]
      decide_reads simp: assms split: prod.split option.split sum.split simp del: append.simps)

lemma kept_finding_job:
  assumes "ev_backend (ex_env X) = B"
  shows "kept_to (Finding_kind kind) (run_finding_job X cfg kind fid resume)"
  unfolding run_finding_job_def Let_def
  by (auto intro!: asks_intros kept_run_engage kept_run_fix reads_kept [OF reads_run_harvest] reads_kept [OF reads_run_recheck]
      simp: assms split: finding_job_kind.split)

lemma reads_repo_job:
  assumes "ev_backend (ex_env X) = B" "\<And>w sh. rn_host (ex_renovating X) (set_shell sh w) = rn_host (ex_renovating X) w"
  shows "reads_only (run_repo_job X cfg kind rid resume)"
  unfolding run_repo_job_def Let_def
  by (auto intro!: asks_intros reads_run_hunt reads_run_analysis reads_run_dep_update simp: assms
      split: repo_job_kind.split)

lemma kept_dispatch:
  assumes "ev_backend (ex_env X) = B" "\<And>w sh. rn_host (ex_renovating X) (set_shell sh w) = rn_host (ex_renovating X) w"
  shows "kept_to (cand_job_kind c) (dispatch X cfg c)"
  unfolding dispatch_def
  by (cases c) (auto intro!: asks_intros kept_finding_job reads_kept [OF reads_repo_job] simp: assms
      split: job_kind.split option.split simp del: append.simps)

end


interpretation overdriven_reads: reading_backend "overdrive_backend enabled (omp_backend M U cfg)"
  for enabled M and U :: "'raw mirror" and cfg
  by (rule omp_reads.overdrive_reads)

text \<open>C9. What an attempt may change on the forge is decided by its kind: a fix pushes its branch and opens a pull request, an
  engage pushes only under its lease, comments and closes, and a harvest, a recheck or a scan changes nothing.
  Whatever the other commands would answer or do to the disk, the attempt runs, and ends, as if they did not exist.\<close>

theorem forge_writes_by_kind:
  assumes "ev_backend (ex_env X) = overdrive_backend enabled (omp_backend M U cfg')"
    and "\<And>w sh. rn_host (ex_renovating X) (set_shell sh w) = rn_host (ex_renovating X) w"
    and "\<And>n cwd argv k. may_write (cand_job_kind c) argv \<Longrightarrow> sh n cwd argv k = w_shell w n cwd argv k"
  shows "run_state (dispatch X cfg c) (set_shell sh w) =
    (fst (run_state (dispatch X cfg c) w), set_shell sh (snd (run_state (dispatch X cfg c) w)))"
  using overdriven_reads.kept_dispatch [OF assms(1,2)] assms(3) by (auto simp: asks_def agree_def)

text \<open>A hunt, with a forge that destroys the disk on every write.\<close>

lemma forge_writes_by_kind_witness:
  "\<forall>X enabled M (U :: nat mirror) cfg' H cfg w.
     let X' = X\<lparr>ex_env := (ex_env X)\<lparr>ev_backend := overdrive_backend enabled (omp_backend M U cfg')\<rparr>,
                 ex_renovating := (ex_renovating X)\<lparr>rn_host := \<lambda>_. H\<rparr>\<rparr>;
         sh = (\<lambda>n cwd argv k. if writes_forge argv then ((1, []), k\<lparr>k_files := Map.empty\<rparr>) else w_shell w n cwd argv k);
         m = dispatch X' cfg (Repo_work RHunt 1 None)
     in run_state m (set_shell sh w) = (fst (run_state m w), set_shell sh (snd (run_state m w)))"
proof (intro allI, unfold Let_def)
  fix X :: executors and enabled M and U :: "nat mirror" and cfg' H cfg and w :: world
  let ?X = "X\<lparr>ex_env := (ex_env X)\<lparr>ev_backend := overdrive_backend enabled (omp_backend M U cfg')\<rparr>,
              ex_renovating := (ex_renovating X)\<lparr>rn_host := \<lambda>_. H\<rparr>\<rparr>"
  let ?sh = "\<lambda>n cwd argv k. if writes_forge argv then ((1, []), k\<lparr>k_files := Map.empty\<rparr>) else w_shell w n cwd argv k"
  let ?m = "dispatch ?X cfg (Repo_work RHunt 1 None)"
  show "run_state ?m (set_shell ?sh w) = (fst (run_state ?m w), set_shell ?sh (snd (run_state ?m w)))"
    by (rule forge_writes_by_kind [where enabled = enabled and M = M and U = U and cfg' = cfg'])
      (simp_all add: may_write_def split: job_kind.split)
qed

end
