(* ===== verification/Frames.thy ===== *)
theory Frames
  imports Pipeline ForgeFrame Sweep
begin

text \<open>
What the shared steps of the executors leave alone. Ingest, reopening, reconfirming and the workspace touch findings,
their anchors and the event log, never a repository, a pull request or a job; an event touches nothing but the log.
\<close>

lemma wp_keeps: "keeps h m \<Longrightarrow> (\<And>a w'. h (w_db w') = h (w_db w) \<Longrightarrow> Q a w') \<Longrightarrow> wp m Q w"
  unfolding keeps_wp by (blast intro: wp_mono)

definition rows_of :: "db \<Rightarrow> repo list \<times> pr list \<times> job list" where
  "rows_of d = (db_repos d, db_prs d, db_jobs d)"

lemma keeps_rows_parts:
  assumes "keeps rows_of m"
  shows "keeps db_repos m" "keeps db_prs m" "keeps db_jobs m"
  using assms by (auto simp: rows_of_def intro: keeps_finer)

lemma rows_of_cong:
  "db_repos d' = db_repos d \<Longrightarrow> db_prs d' = db_prs d \<Longrightarrow> db_jobs d' = db_jobs d \<Longrightarrow> rows_of d' = rows_of d"
  by (simp add: rows_of_def)

lemma keeps_rows_event [keeps_intros]: "keeps rows_of (event kind message x y)"
  by (intro keeps_event) (simp add: rows_of_def frame_simps)

lemma keeps_rows_error_event [keeps_intros]: "keeps rows_of (error_event message x y)"
  unfolding error_event_def by (intro keeps_intros)

lemma keeps_or_false: "keeps h m \<Longrightarrow> (\<And>a. keeps h (k a)) \<Longrightarrow> keeps h (or_false m k)"
  unfolding or_false_def by (auto intro!: keeps_intros split: sum.split option.split)

lemma rows_upsert: "rows_of (snd (upsert_finding now rid row ft jid d)) = rows_of d"
  by (auto simp: upsert_finding_def rows_of_def Let_def frame_simps split: option.split)

lemma rows_refresh: "rows_of (snd (refresh_dep_update now fid row d)) = rows_of d"
  by (auto simp: refresh_dep_update_def rows_of_def Let_def frame_simps split: option.split)

lemma rows_reopen: "rows_of (snd (reopen_suppressed now fid row d)) = rows_of d"
  by (auto simp: reopen_suppressed_def rows_of_def Let_def frame_simps split: option.split)

lemma rows_reconfirm: "rows_of (reconfirm_anchor now fid sha c d) = rows_of d"
  by (auto simp: reconfirm_anchor_def rows_of_def Let_def frame_simps split: option.split)

lemma keeps_changed_since: "keeps h (changed_since p anchor sha)"
  unfolding changed_since_def git_def Let_def by (auto intro!: keeps_intros split: option.split prod.split sum.split)

lemma keeps_reopen: "keeps rows_of (reopen_if_changed repo_id fid jid row)"
  unfolding reopen_if_changed_def
  by (auto intro!: keeps_intros keeps_or_false keeps_changed_since keeps_call simp: rows_reopen)

lemma keeps_refresh_duplicate: "keeps rows_of (refresh_duplicate fid ft row jid r)"
  unfolding refresh_duplicate_def
  by (auto intro!: keeps_intros keeps_call simp: rows_refresh split: sum.split bool.split)

lemma keeps_file_entry: "keeps rows_of (file_entry J repo_id types jid source mode i f r)"
  unfolding file_entry_def file_duplicate_def Let_def
  by (auto intro!: keeps_intros keeps_refresh_duplicate keeps_reopen keeps_call simp: rows_upsert
      split: sum.split bool.split option.split prod.split)

lemma keeps_file_entries: "(\<And>i f r. keeps h (one i f r)) \<Longrightarrow> keeps h (file_entries one i fs r)"
  by (induction fs arbitrary: i r) (auto intro!: keeps_intros)

lemma keeps_ingest [keeps_intros]:
  "keeps rows_of (ingest_findings J repo_id path types jid source)"
  "keeps rows_of (ingest_scan_findings J repo_id path types j)"
  unfolding ingest_findings_def ingest_scan_findings_def ingest_def read_file_def
  by (auto intro!: keeps_intros keeps_file_entries keeps_file_entry split: sum.split option.split)

lemma keeps_anchored_by_fingerprint: "keeps h (anchored_by_fingerprint repo_id kinds m)"
  by (induction repo_id kinds m rule: anchored_by_fingerprint.induct) (auto intro!: keeps_intros)

lemma keeps_move_anchors: "keeps rows_of (move_anchors m sha es)"
  by (induction m sha es rule: move_anchors.induct)
    (auto intro!: keeps_intros keeps_exec simp: rows_reconfirm split: option.split)

lemma keeps_reconfirmations [keeps_intros]: "keeps rows_of (apply_reconfirmations parse r kinds out_path sha)"
  unfolding apply_reconfirmations_def read_file_def Let_def
  by (auto intro!: keeps_intros keeps_anchored_by_fingerprint keeps_move_anchors split: sum.split)

lemma keeps_followups [keeps_intros]: "keeps rows_of (ingest_followups J rid tree fid jid kind)"
  unfolding ingest_followups_def by (auto intro!: keeps_intros)

lemma keeps_close_workspace [keeps_intros]: "keeps h (close_workspace ws)"
  unfolding close_workspace_def release_if_idle_def
  by (auto intro!: keeps_intros keeps_release_tree split: option.split)

text \<open>Recording an outcome writes jobs and the event log only.\<close>

definition rows_but_jobs :: "db \<Rightarrow> repo list \<times> pr list \<times> finding list" where
  "rows_but_jobs d = (db_repos d, db_prs d, db_findings d)"

lemma keeps_recorded_state: "keeps rows_but_jobs (recorded_state cfg model jid rr resume)"
  unfolding recorded_state_def record_job_def Let_def
  by (auto intro!: keeps_intros keeps_exec keeps_event split: option.split
      simp: rows_but_jobs_def complete_job_def retire_suspended_job_def retire_job_def upd_jobs_def frame_simps)

lemma keeps_rows_but_jobs:
  assumes "keeps rows_but_jobs m"
  shows "keeps db_repos m" "keeps db_prs m" "keeps db_findings m"
  using assms by (auto simp: rows_but_jobs_def intro: keeps_finer)

end
