(* ===== verification/ScanSafety.thy ===== *)
theory ScanSafety
  imports Hunting Frames
begin

text \<open>
What a hunt records about the history it reviewed: its repository's watermark is cleared when a full re-hunt starts, and otherwise only
ever ends on the commit the worker was given, when it finished cleanly; a request for a full re-hunt is settled only by a hunt of everything.
\<close>

section \<open>The watermark\<close>

text \<open>How the rows of the repositories may differ: only that of \<open>rid\<close> does, its watermark becomes one of \<open>X\<close>, and a request for a
  full re-hunt is settled only where \<open>full\<close> allows it.\<close>

definition advanced :: "bool \<Rightarrow> string option set \<Rightarrow> int \<Rightarrow> repo \<Rightarrow> repo \<Rightarrow> bool" where
  "advanced full X rid r r' \<longleftrightarrow> r_id r' = r_id r \<and> (r_id r \<noteq> rid \<longrightarrow> r' = r) \<and>
     r_last_hunt_sha r' \<in> insert (r_last_hunt_sha r) X \<and>
     (r_full_hunt_requested_at r' = r_full_hunt_requested_at r \<or> full)"

definition advances :: "bool \<Rightarrow> string option set \<Rightarrow> int \<Rightarrow> db \<Rightarrow> db \<Rightarrow> bool" where
  "advances full X rid d d' \<longleftrightarrow> list_all2 (advanced full X rid) (db_repos d) (db_repos d')"

lemma advances_refl: "db_repos d' = db_repos d \<Longrightarrow> advances full X rid d d'"
  by (simp add: advances_def list_all2_same advanced_def)

lemma advances_trans: "advances full X rid d d1 \<Longrightarrow> advances full X rid d1 d2 \<Longrightarrow> advances full X rid d d2"
  unfolding advances_def by (erule (1) list_all2_trans [rotated 1], auto simp: advanced_def)

lemma advances_mono: "advances full X rid d d' \<Longrightarrow> (full \<Longrightarrow> full') \<Longrightarrow> X \<subseteq> Y \<Longrightarrow> advances full' Y rid d d'"
  unfolding advances_def by (erule list_all2_mono) (auto simp: advanced_def)

lemma advances_upd:
  assumes "\<And>r. P r \<Longrightarrow> r_id r = rid \<and> advanced full X rid r (g r)"
  shows "advances full X rid d (upd_repos P g d)"
proof -
  have "advanced full X rid r (if P r then g r else r)" for r
    using assms [of r] by (simp add: advanced_def)
  then show ?thesis
    by (simp add: advances_def upd_repos_def update_where_def list_all2_map2 list_all2_same)
qed

lemma advances_steps:
  "Some sha \<in> X \<Longrightarrow> advances full X rid d (set_last_hunt now rid sha d)"
  "None \<in> X \<Longrightarrow> advances full X rid d (clear_last_hunt_sha rid d)"
  "advances full X rid d (mark_full_hunt_attempted rid q d)"
  "advances full X rid d (set_last_full_hunt now rid d)"
  "full \<Longrightarrow> advances full X rid d (settle_full_hunt_request rid jid d)"
  unfolding set_last_hunt_def set_last_full_hunt_def settle_full_hunt_request_def clear_last_hunt_sha_def
    mark_full_hunt_attempted_def upd_repo_def
  by (auto intro!: advances_upd simp: advanced_def)

abbreviation hunts :: "bool \<Rightarrow> string option set \<Rightarrow> int \<Rightarrow> db \<Rightarrow> 'a act \<Rightarrow> bool" where
  "hunts full X rid d m \<equiv> preserves (\<lambda>d' _ _. advances full X rid d d') m"

lemma hunts_keeps: "keeps db_repos m \<Longrightarrow> hunts full X rid d m"
  unfolding preserves_def keeps_wp
  by (intro allI impI) (erule allE, erule wp_mono, auto intro: advances_trans advances_refl)

lemma hunts_exec: "(\<And>now d. advances full X rid d (g now d)) \<Longrightarrow> hunts full X rid d (exec g)"
  by (intro preserves_exec) (auto intro: advances_trans)

lemma wp_hunts: "hunts full X rid d m \<Longrightarrow> advances full X rid d (w_db w) \<Longrightarrow> wp m (\<lambda>_ w'. advances full X rid d (w_db w')) w"
  by (simp add: preserves_def)

section \<open>What leaves the repositories alone\<close>

lemma keeps_repos_event [keeps_intros]: "keeps db_repos (event k m x y)"
  using keeps_rows_parts(1) [OF keeps_rows_event] .

lemma keeps_repos_steps:
  "keeps db_repos (ingest_scan_findings J rid p t j)"
  "keeps db_repos (apply_reconfirmations parse r kinds out_path sha)" "keeps db_repos (recorded_state cfg model jid rr resume)"
  "keeps db_repos (close_workspace ws)"
  using keeps_rows_but_jobs(1) [OF keeps_recorded_state] by (auto intro: keeps_rows_parts keeps_intros)

lemma keeps_repos_fetch_tip: "keeps db_repos (fetch_tip r)"
  unfolding fetch_tip_def resolve_rev_def sync_repo_def same_clone_def make_clone_def sync_failed_def Let_def
  by (auto intro!: keeps_intros split: option.split prod.split sum.split simp del: append.simps)

lemma keeps_repos_prior: "keeps db_repos (prior_findings rid fts label)"
  by (induction fts) (auto intro!: keeps_intros simp: suppressed_def with_context_def split: sum.split simp del: append.simps)

lemma keeps_repos_cold: "keeps db_repos (cold_findings rid fts label resume)"
  unfolding cold_findings_def by (auto intro!: keeps_intros keeps_repos_prior)

lemma supersede_repos: "db_repos (fold (supersede_one now kind fid jid) olds d) = db_repos d"
  by (induction olds arbitrary: d) (simp_all add: supersede_one_def Let_def frame_simps retire_job_def)

lemma keeps_repos_begin_job: "keeps db_repos (begin_job kind r fid cap anticipated resume)"
  unfolding begin_job_def
  by (auto intro!: keeps_intros keeps_call simp: create_job_def Let_def supersede_repos split: sum.split)

lemma keeps_repos_open_workspace: "keeps db_repos (open_workspace cfg r created resume spec kind label fid)"
proof -
  have release: "keeps db_repos (release_superseded cfg clone olds)" for clone olds
    by (induction olds) (auto intro!: keeps_intros simp: release_if_idle_def)
  show ?thesis
    unfolding open_workspace_def create_def add_tree_def commit_def resolve_rev_def with_context_def Let_def
    by (auto intro!: keeps_intros keeps_exec release simp: set_pinned_sha_def fail_unstarted_job_def frame_simps
        split: option.split sum.split tree_spec.split prod.split simp del: append.simps)
qed

lemma keeps_repos_prompt: "keeps db_repos (hunt_prompt cfg r sc start gone known out_path resume)"
proof -
  have listed: "keeps db_repos (suppression_list p rows sha)" for p rows sha
    by (induction p rows sha rule: suppression_list.induct) (auto intro!: keeps_intros keeps_changed_since keeps_or_false)
  show ?thesis
    unfolding hunt_prompt_def with_context_def repo_notes_def build_hunt_prompt_def fill_def read_template_def read_file_def Let_def
    by (auto intro!: keeps_intros listed split: option.split sum.split simp del: append.simps)
qed

section \<open>The steps of a hunt\<close>

lemma hunts_head: "hunts full X (r_id r) d (hunt_head r resume)"
  unfolding hunt_head_def
  by (auto intro!: preserves_intros hunts_exec advances_steps hunts_keeps [OF keeps_repos_fetch_tip] split: option.split sum.split)

lemma hunts_start: "None \<in> X \<Longrightarrow> hunts full X (r_id r) d (start_rehunt cfg r)"
  unfolding start_rehunt_def
  by (auto intro!: preserves_intros hunts_exec advances_steps hunts_keeps [OF keeps_repos_event] simp del: append.simps)

lemma hunts_mark: "hunts full X (r_id r) d (mark_scope r sc jid resume)"
  unfolding mark_scope_def
  by (auto intro!: preserves_intros hunts_exec advances_steps advances_refl simp: mark_full_history_def frame_simps
      split: option.split simp del: append.simps)

lemma hunts_begin_scan:
  assumes "quiet_backend (ev_backend E) db_repos"
  shows "hunts full X (r_id r) d (begin_scan E cfg r kind label (\<lambda>jid. mark_scope r sc jid resume) spec resume)"
proof -
  have gate: "keeps db_repos (budget_gate E cfg rid k use label fid resume)" for rid k use fid
    unfolding budget_gate_def reserved_for_def anticipated_tokens_def Let_def
    by (auto intro!: keeps_intros quiet_backend.decide_keeps [OF assms] split: verdict.split option.split)
  show ?thesis
    unfolding begin_scan_def unless_ended_def
    by (auto intro!: preserves_intros hunts_mark hunts_keeps [OF gate] hunts_keeps [OF keeps_repos_begin_job] hunts_keeps [OF keeps_repos_open_workspace]
        split: sum.split prod.split)
qed

lemma hunts_recorded: "hunts (hn_full sc) {Some pinned} (r_id r) d (record_hunted r sc jid pinned)"
  unfolding record_hunted_def Let_def
  by (auto intro!: preserves_intros hunts_exec advances_steps)

lemma hunts_ingest: "hunts (hn_full sc) {Some (sn_pinned start)} (r_id r) d (ingest_hunt R r sc start out_path state tokens)"
  unfolding ingest_hunt_def Let_def
  by (intro preserves_intros hunts_recorded) (auto intro!: hunts_keeps keeps_intros keeps_repos_steps)

lemma hunts_finish: "hunts (hn_full sc) {Some (sn_pinned start)} (r_id r) d (finish_hunt R cfg r sc start out_path resume rr)"
  unfolding finish_hunt_def by (intro preserves_intros hunts_ingest) (auto intro!: hunts_keeps keeps_repos_steps)

lemma ingest_hunt_clean:
  "wp (ingest_hunt R r sc start out_path state tokens)
     (\<lambda>counts w'. db_repos (w_db w') = db_repos (w_db w) \<or> state = JDone \<and> (\<exists>c. counts = Some c \<and> ir_invalid c = 0)) w"
proof -
  let ?same = "\<lambda>w'. db_repos (w_db w') = db_repos (w_db w)"
  let ?Q = "\<lambda>counts w'. ?same w' \<or> state = JDone \<and> (\<exists>c. counts = Some c \<and> ir_invalid c = 0)"
  have noted: "wp (event k m x y \<bind> g) Q w'" if "?same w'" "\<And>a w'. ?same w' \<Longrightarrow> wp (g a) Q w'"
    for k m x y g w' and Q :: "ingest_result option \<Rightarrow> world \<Rightarrow> bool"
    unfolding wp_bind by (rule wp_keeps [OF keeps_repos_event]) (use that in simp)
  have marked: "wp ((if state = JDone \<and> ir_invalid c = 0 then m else State_Monad.return ()) \<bind> (\<lambda>_. State_Monad.return (Some c))) ?Q w'"
    if "?same w'" for c m w'
    using that by (cases "state = JDone \<and> ir_invalid c = 0") (auto simp: wp_simps intro: run_wp)
  show ?thesis
    unfolding ingest_hunt_def Let_def
    by (subst wp_bind, subst wp_look)
      (auto simp: wp_return simp del: append.simps intro!: noted marked simp: wp_bind [of "ingest_scan_findings _ _ _ _ _"]
        intro!: wp_keeps [OF keeps_repos_steps(1)])
qed

text \<open>A hunt whose worker finished and whose every entry was valid.\<close>

definition hunted_cleanly :: "string + cycle_summary \<Rightarrow> bool" where
  "hunted_cleanly res \<longleftrightarrow>
     (\<exists>s c. res = Inr s \<and> cs_state s = Some JDone \<and> cs_ingest s = Some c \<and> ir_invalid c = 0)"

definition hunted_all :: "string + cycle_summary \<Rightarrow> bool" where
  "hunted_all res \<longleftrightarrow> hunted_cleanly res \<and> (\<exists>s. res = Inr s \<and> cs_full_rehunt s = Some True)"

lemma finish_hunt_marks:
  "wp (finish_hunt R cfg r sc start out_path resume rr) (\<lambda>res w'.
     advances (hunted_all res) {x. x = Some (sn_pinned start) \<and> hunted_cleanly res} (r_id r) (w_db w) (w_db w') \<and>
     (\<exists>s. res = Inr s \<and> cs_job_id s = Some (sn_job start) \<and> cs_head s = Some (hn_head sc))) w"
proof -
  have clean: "wp (finish_hunt R cfg r sc start out_path resume rr) (\<lambda>res w'. \<exists>s. res = Inr s \<and> cs_full_rehunt s = Some (hn_full sc) \<and>
      cs_job_id s = Some (sn_job start) \<and> cs_head s = Some (hn_head sc) \<and>
      (db_repos (w_db w') = db_repos (w_db w) \<or> hunted_cleanly res)) w"
    unfolding finish_hunt_def wp_bind wp_ok
    by (rule wp_keeps [OF keeps_repos_steps(3)], rule wp_mono [OF ingest_hunt_clean],
        rule wp_keeps [OF keeps_repos_steps(2)], rule wp_keeps [OF keeps_repos_steps(4)]) (auto simp: no_summary_def hunted_cleanly_def)
  have "wp (finish_hunt R cfg r sc start out_path resume rr)
      (\<lambda>_ w'. advances (hn_full sc) {Some (sn_pinned start)} (r_id r) (w_db w) (w_db w')) w"
    by (rule wp_hunts [OF hunts_finish advances_refl]) simp
  from wp_conj [OF clean this] show ?thesis
    by (rule wp_mono) (elim exE conjE disjE, simp add: advances_refl, auto simp: hunted_all_def elim!: advances_mono)
qed


section \<open>The whole hunt\<close>

text \<open>What the hunt learns first: the commit it is about, and whether a full re-hunt is due at the clock's next reading.\<close>

definition hunt_tip :: "repo \<Rightarrow> resume_plan option \<Rightarrow> world \<Rightarrow> string option" where
  "hunt_tip r resume w = (case fst (run_state (hunt_head r resume) w) of Inr head \<Rightarrow> Some head | Inl _ \<Rightarrow> None)"

definition rehunts :: "config \<Rightarrow> repo \<Rightarrow> resume_plan option \<Rightarrow> world \<Rightarrow> bool" where
  "rehunts cfg r resume w \<longleftrightarrow> resume = None \<and> hunt_tip r resume w \<noteq> None \<and>
     (r_full_hunt_requested_at r \<noteq> None \<or>
      (let w1 = snd (run_state (hunt_head r resume) w)
       in \<exists>lf. r_last_full_hunt_at r = Some lf \<and> lf + rehunt_interval_ms cfg \<le> w_now w1 (w_calls w1)))"

definition cleared :: "config \<Rightarrow> repo \<Rightarrow> resume_plan option \<Rightarrow> world \<Rightarrow> string option set" where
  "cleared cfg r resume w = (if rehunts cfg r resume w then {None} else {})"

text \<open>A hunt with nothing to review: the commit is the one the watermark already names.\<close>

definition nothing_new :: "config \<Rightarrow> repo \<Rightarrow> resume_plan option \<Rightarrow> world \<Rightarrow> cycle_summary \<Rightarrow> bool" where
  "nothing_new cfg r resume w s \<longleftrightarrow> resume = None \<and> \<not> rehunts cfg r resume w \<and>
     r_last_hunt_sha r \<noteq> None \<and> hunt_tip r resume w = r_last_hunt_sha r \<and>
     cs_skipped s = Some ''no new commits'' \<and> cs_state s = None"

definition scoped :: "config \<Rightarrow> repo \<Rightarrow> resume_plan option \<Rightarrow> world \<Rightarrow> string + (cycle_summary + hunt_scope) \<Rightarrow> world \<Rightarrow> bool" where
  "scoped cfg r resume w res w' \<longleftrightarrow>
     (case res of
        Inr (Inl s) \<Rightarrow> nothing_new cfg r resume w s \<and> advances False {r_last_hunt_sha r} (r_id r) (w_db w) (w_db w')
      | Inr (Inr sc) \<Rightarrow> hunt_tip r resume w = Some (hn_head sc) \<and> advances False (cleared cfg r resume w) (r_id r) (w_db w) (w_db w')
      | Inl _ \<Rightarrow> advances False (cleared cfg r resume w) (r_id r) (w_db w) (w_db w'))"

lemma hunts_scope_rest:
  "hunts full X (r_id r) d (resumed_full r resume)" "hunts full X (r_id r) d (hunt_range r watermark f head)"
  unfolding resumed_full_def hunt_range_def first_range_def Let_def
  by (auto intro!: preserves_intros hunts_keeps keeps_intros split: option.split prod.split simp del: append.simps)

lemma wp_no_new_commits:
  assumes "advances False {} (r_id r) d (w_db w)"
  shows "wp (no_new_commits r head) (\<lambda>res w'. case res of
      Inl e \<Rightarrow> advances False {} (r_id r) d (w_db w')
    | Inr s \<Rightarrow> cs_skipped s = Some ''no new commits'' \<and> cs_state s = None \<and> advances False {Some head} (r_id r) d (w_db w')) w"
proof -
  let ?post = "\<lambda>_ w'. advances False {Some head} (r_id r) d (w_db w')"
  have told: "wp (event k m x y) ?post w1" if "advances False {Some head} (r_id r) d (w_db w1)" for k m x y w1
    by (rule wp_hunts [OF hunts_keeps [OF keeps_repos_event] that])
  have "advances False {Some head} (r_id r) d (set_last_hunt now (r_id r) head (w_db w))" for now
    by (rule advances_trans [OF advances_mono [OF assms]]) (auto intro: advances_steps)
  then show ?thesis
    using assms unfolding no_new_commits_def wp_and_then wp_exec
    by (auto simp: wp_bind wp_ok no_summary_def simp del: append.simps split: option.split intro!: wp_mono [OF told])
qed

lemma wp_self: "wp m (\<lambda>r w'. run_state m w = (r, w')) w"
  by (simp add: wp_def)

lemma wp_scope: "wp (hunt_scope_of cfg r resume) (scoped cfg r resume w) w"
proof -
  let ?post = "scoped cfg r resume w" and ?C = "cleared cfg r resume w"
  let ?ok = "\<lambda>X w'. advances False X (r_id r) (w_db w) (w_db w')"
  obtain h w1 where tip: "run_state (hunt_head r resume) w = (h, w1)" by fastforce
  have "advances False {} (r_id r) (w_db w) (w_db w)" by (rule advances_refl) simp
  from wp_run [OF wp_hunts [OF hunts_head this] tip] have w1: "?ok {} w1" .
  have later: "wp (hunt_range r l f head \<bind> (\<lambda>(range, note). ok (Inr \<lparr>hn_head = head, hn_range = range, hn_note = note, hn_full = g range\<rparr>)))
      ?post w2" if "?ok ?C w2" "h = Inr head" for l f head g w2
    unfolding wp_bind by (rule wp_mono [OF wp_hunts [OF hunts_scope_rest(2) that(1)]]) (auto simp: wp_ok scoped_def hunt_tip_def tip that(2) split: prod.split)
  have tipped: "wp (hunt_head r resume) (\<lambda>h' w'. h' = h \<and> w' = w1) w" by (simp add: wp_def tip)
  have due: "rehunts cfg r resume w \<longleftrightarrow> (\<exists>head. h = Inr head) \<and> rehunt_due cfg r resume (w_now w1 (w_calls w1))"
    by (auto simp: rehunts_def hunt_tip_def tip rehunt_due_def le_diff_eq add.commute split: sum.split option.split)
  show ?thesis
    unfolding hunt_scope_of_def wp_and_then [of "hunt_head r resume"]
  proof (rule wp_mono [OF tipped], elim conjE, hypsubst)
    show "(case h of Inl e \<Rightarrow> ?post (Inl e) | Inr head \<Rightarrow> wp (do {
       now \<leftarrow> look (\<lambda>w. w_now w (w_calls w));
       let due = rehunt_due cfg r resume now;
       _ \<leftarrow> (if due then start_rehunt cfg r else State_Monad.return ());
       let watermark = (if due then None else r_last_hunt_sha r);
       and_then (resumed_full r resume) (\<lambda>resumed.
         if resume = None \<and> watermark = Some head
         then and_then (no_new_commits r head) (\<lambda>skipped. ok (Inl skipped))
         else do {
           (range, note) \<leftarrow> hunt_range r watermark (due \<or> resumed) head;
           ok (Inr \<lparr>hn_head = head, hn_range = range, hn_note = note, hn_full = starts_with EMPTY_TREE range\<rparr>) }) }) ?post) w1"
    proof (cases h)
      case (Inl e)
      with w1 show ?thesis by (auto simp: scoped_def elim!: advances_mono)
    next
      case (Inr head)
      let ?due = "rehunt_due cfg r resume (w_now w1 (w_calls w1))"
      have C: "?C = (if ?due then {None} else {})" by (simp add: cleared_def due Inr)
      have started: "wp (if ?due then start_rehunt cfg r else State_Monad.return ()) (\<lambda>_ w2. ?ok ?C w2) w1"
      proof (cases ?due)
        case True
        with C advances_mono [OF w1] have "None \<in> ?C" "?ok ?C w1" by auto
        from wp_hunts [OF hunts_start [OF this(1)] this(2)] True show ?thesis by simp
      next
        case False
        with C w1 show ?thesis by (simp add: wp_return)
      qed
      have judged: "wp (if resume = None \<and> l = Some head
            then and_then (no_new_commits r head) (\<lambda>skipped. ok (Inl skipped))
            else do {
              (range, note) \<leftarrow> hunt_range r l f head;
              ok (Inr \<lparr>hn_head = head, hn_range = range, hn_note = note, hn_full = starts_with EMPTY_TREE range\<rparr>) }) ?post w3"
        if "?ok ?C w3" "l = (if ?due then None else r_last_hunt_sha r)" for l f w3
      proof (cases "resume = None \<and> l = Some head")
        case True
        with that C have stays: "?ok {} w3" "\<not> ?due" "r_last_hunt_sha r = Some head" "resume = None" by (auto split: if_splits)
        have "hunt_tip r resume w = Some head" "\<not> rehunts cfg r resume w" using stays(2) due by (simp_all add: hunt_tip_def tip Inr)
        with stays(3,4) have "nothing_new cfg r resume w s" if "cs_skipped s = Some ''no new commits''" "cs_state s = None" for s
          unfolding nothing_new_def using that by simp
        then show ?thesis
          unfolding if_P [OF True] wp_and_then
          by (intro wp_mono [OF wp_no_new_commits [OF stays(1)]])
            (auto simp: wp_ok scoped_def stays(3) elim: advances_mono split: sum.splits)
      next
        case False
        then show ?thesis unfolding if_not_P [OF False] by (intro later that(1) Inr)
      qed
      have rest: "wp (and_then (resumed_full r resume) (k :: bool \<Rightarrow> (cycle_summary + hunt_scope) io)) ?post w2"
        if "?ok ?C w2" "\<And>x w3. ?ok ?C w3 \<Longrightarrow> wp (k x) ?post w3" for k w2
        unfolding wp_and_then
        by (rule wp_mono [OF wp_hunts [OF hunts_scope_rest(1) that(1)]]) (auto simp: scoped_def intro: that(2) split: sum.split)
      show ?thesis
        unfolding Inr sum.case wp_bind wp_look Let_def
        by (rule wp_mono [OF started], rule rest, assumption, rule judged, assumption, rule refl)
    qed
  qed
qed


text \<open>The commit the worker of a hunt that ended as \<open>s\<close> was given to review: the one the tree of the hunt's job was pinned to, made
  for the commit the hunt learnt first.\<close>

definition given_to_worker :: "env \<Rightarrow> config \<Rightarrow> repo \<Rightarrow> resume_plan option \<Rightarrow> world \<Rightarrow> cycle_summary \<Rightarrow> string \<Rightarrow> bool" where
  "given_to_worker E cfg r resume w s sha \<longleftrightarrow>
     (\<exists>sc start prompt rr w1 w2 w3 w4.
        run_state (begin_scan E cfg r RHunt (''hunt '' @ r_name r) (\<lambda>jid. mark_scope r sc jid resume) (Detached (hn_head sc)) resume) w1 =
          (Inr (Inr start), w2) \<and>
        hunt_tip r resume w = Some (hn_head sc) \<and> cs_head s = Some (hn_head sc) \<and> cs_job_id s = Some (sn_job start) \<and>
        run_state (bk_run (ev_backend E) (sn_ws start) prompt (sn_cap start) (cf_hunt_max_wall_s cfg) HuntClass
          (map_option rp_session_file resume)) w3 = (Inr rr, w4) \<and>
        sha = sn_pinned start)"

text \<open>Where a hunt may leave its repository's watermark.\<close>

definition watermarks :: "env \<Rightarrow> config \<Rightarrow> repo \<Rightarrow> resume_plan option \<Rightarrow> world \<Rightarrow> string + cycle_summary \<Rightarrow> string option set" where
  "watermarks E cfg r resume w res =
     cleared cfg r resume w \<union>
     {sha. sha = r_last_hunt_sha r \<and> (\<exists>s. res = Inr s \<and> nothing_new cfg r resume w s)} \<union>
     {Some sha | sha s. res = Inr s \<and> hunted_cleanly res \<and> given_to_worker E cfg r resume w s sha}"

definition hunted :: "env \<Rightarrow> config \<Rightarrow> repo \<Rightarrow> resume_plan option \<Rightarrow> world \<Rightarrow> string + cycle_summary \<Rightarrow> world \<Rightarrow> bool" where
  "hunted E cfg r resume w res w' \<longleftrightarrow>
     advances (hunted_all res) (watermarks E cfg r resume w res) (r_id r) (w_db w) (w_db w')"

lemma hunted_cleared:
  "advances False (cleared cfg r resume w) (r_id r) (w_db w) (w_db w') \<Longrightarrow> hunted E cfg r resume w res w'"
  unfolding hunted_def by (erule advances_mono) (auto simp: watermarks_def)

lemma wp_reviewed:
  assumes "quiet_backend (ev_backend E) db_repos" "advances False (cleared cfg r resume w) (r_id r) (w_db w) (w_db w1)"
    and "run_state (begin_scan E cfg r RHunt (''hunt '' @ r_name r) (\<lambda>jid. mark_scope r sc jid resume) (Detached (hn_head sc)) resume) u =
      (Inr (Inr start), u')" "hunt_tip r resume w = Some (hn_head sc)"
  shows "wp (and_then (bk_run (ev_backend E) (sn_ws start) prompt (sn_cap start) (cf_hunt_max_wall_s cfg) HuntClass
      (map_option rp_session_file resume)) (\<lambda>rr. finish_hunt R cfg r sc start out_path resume rr)) (hunted E cfg r resume w) w1"
proof -
  let ?run = "bk_run (ev_backend E) (sn_ws start) prompt (sn_cap start) (cf_hunt_max_wall_s cfg) HuntClass (map_option rp_session_file resume)"
  let ?C = "cleared cfg r resume w"
  have ran: "wp ?run (\<lambda>rr w2. run_state ?run w1 = (rr, w2) \<and> advances False ?C (r_id r) (w_db w) (w_db w2)) w1"
    by (rule wp_conj [OF wp_self wp_hunts [OF hunts_keeps [OF quiet_backend.run_keeps [OF assms(1)]] assms(2)]])
  have "wp (finish_hunt R cfg r sc start out_path resume rr) (hunted E cfg r resume w) w2"
    if "run_state ?run w1 = (Inr rr, w2)" "advances False ?C (r_id r) (w_db w) (w_db w2)" for rr w2
  proof (rule wp_mono [OF finish_hunt_marks])
    fix res and w3 :: world
    assume "advances (hunted_all res) {x. x = Some (sn_pinned start) \<and> hunted_cleanly res} (r_id r) (w_db w2) (w_db w3) \<and>
      (\<exists>s. res = Inr s \<and> cs_job_id s = Some (sn_job start) \<and> cs_head s = Some (hn_head sc))"
    then obtain s where a: "advances (hunted_all res) {x. x = Some (sn_pinned start) \<and> hunted_cleanly res} (r_id r) (w_db w2) (w_db w3)"
      "res = Inr s" "cs_job_id s = Some (sn_job start)" "cs_head s = Some (hn_head sc)" by blast
    have "given_to_worker E cfg r resume w s (sn_pinned start)"
      unfolding given_to_worker_def using assms(3,4) that(1) a(3,4) by blast
    then have in_marks: "{x. x = Some (sn_pinned start) \<and> hunted_cleanly res} \<subseteq> watermarks E cfg r resume w res"
      "?C \<subseteq> watermarks E cfg r resume w res" using a(2) by (auto simp: watermarks_def)
    show "hunted E cfg r resume w res w3"
      unfolding hunted_def
      by (rule advances_trans [OF advances_mono [OF that(2) _ in_marks(2)] advances_mono [OF a(1) _ in_marks(1)]]) simp_all
  qed
  then show ?thesis
    unfolding wp_and_then by (intro wp_mono [OF ran]) (auto intro: hunted_cleared split: sum.split)
qed

lemma wp_run_hunt:
  assumes "quiet_backend (ev_backend E) db_repos"
  shows "wp (run_hunt E R cfg r resume) (hunted E cfg r resume w) w"
proof -
  let ?C = "cleared cfg r resume w" and ?Q = "hunted E cfg r resume w" and ?label = "''hunt '' @ r_name r"
  let ?ok = "\<lambda>w'. advances False ?C (r_id r) (w_db w) (w_db w')"
  have quietly: "wp (and_then m k) ?Q w1" if "keeps db_repos m" "?ok w1" "\<And>x w2. ?ok w2 \<Longrightarrow> wp (k x) ?Q w2" for m k w1
    unfolding wp_and_then
    by (rule wp_mono [OF wp_hunts [OF hunts_keeps [OF that(1)] that(2)]]) (auto intro: that(3) hunted_cleared split: sum.split)
  have reviewed: "wp (let out_path = scan_out cfg ''findings'' (sn_job start) resume
          in make_parent out_path \<bind> (\<lambda>_.
             and_then (hunt_prompt cfg r sc start gone known out_path resume) (\<lambda>prompt.
             and_then (bk_run (ev_backend E) (sn_ws start) prompt (sn_cap start) (cf_hunt_max_wall_s cfg) HuntClass
                 (map_option rp_session_file resume)) (\<lambda>rr. finish_hunt R cfg r sc start out_path resume rr)))) ?Q w1"
    if "?ok w1" "run_state (begin_scan E cfg r RHunt ?label (\<lambda>jid. mark_scope r sc jid resume) (Detached (hn_head sc)) resume) u =
      (Inr (Inr start), w1)" "hunt_tip r resume w = Some (hn_head sc)" for sc start gone known u w1
  proof -
    have "keeps db_repos (make_parent p)" for p unfolding make_parent_def by (intro keeps_intros)
    from wp_hunts [OF hunts_keeps [OF this] that(1)] show ?thesis
      unfolding Let_def wp_bind by (rule wp_mono) (intro quietly keeps_repos_prompt wp_reviewed [OF assms _ that(2,3)])
  qed
  have begun: "wp (ended_or (begin_scan E cfg r RHunt ?label (\<lambda>jid. mark_scope r sc jid resume) (Detached (hn_head sc)) resume) k) ?Q w1"
    if "?ok w1" "\<And>start w2. ?ok w2 \<Longrightarrow>
        run_state (begin_scan E cfg r RHunt ?label (\<lambda>jid. mark_scope r sc jid resume) (Detached (hn_head sc)) resume) w1 = (Inr (Inr start), w2) \<Longrightarrow>
        wp (k start) ?Q w2" for sc k w1
    unfolding ended_or_def wp_and_then
    by (rule wp_mono [OF wp_conj [OF wp_self wp_hunts [OF hunts_begin_scan [OF assms] that(1)]]])
      (auto simp: wp_ok intro: that(2) hunted_cleared split: sum.split)
  have hunting: "wp (and_then (cold_findings (r_id r) [TBug] ?label resume) (\<lambda>(gone, known).
      ended_or (begin_scan E cfg r RHunt ?label (\<lambda>jid. mark_scope r sc jid resume) (Detached (hn_head sc)) resume)
        (k gone known))) ?Q w1"
    if "?ok w1" "\<And>gone known start u w2. ?ok w2 \<Longrightarrow>
        run_state (begin_scan E cfg r RHunt ?label (\<lambda>jid. mark_scope r sc jid resume) (Detached (hn_head sc)) resume) u = (Inr (Inr start), w2) \<Longrightarrow>
        wp (k gone known start) ?Q w2" for sc k w1
    by (rule quietly [OF keeps_repos_cold that(1)], simp only: split_beta, rule begun, assumption, rule that(2))
  have skipped: "?Q (Inr s) w1" if "nothing_new cfg r resume w s" "advances False {r_last_hunt_sha r} (r_id r) (w_db w) (w_db w1)" for s w1
    unfolding hunted_def by (rule advances_mono [OF that(2)]) (use that(1) in \<open>auto simp: watermarks_def\<close>)
  show ?thesis
    unfolding run_hunt_def Let_def [of "''hunt '' @ r_name r"] ended_or_def [of "hunt_scope_of cfg r resume"] wp_and_then [of "hunt_scope_of cfg r resume"]
  proof (rule wp_mono [OF wp_scope])
    fix res and w1 :: world
    assume a: "scoped cfg r resume w res w1"
    show "(case res of Inl e \<Rightarrow> ?Q (Inl e)
      | Inr x \<Rightarrow> wp (case x of Inl ended \<Rightarrow> ok ended
          | Inr sc \<Rightarrow> and_then (cold_findings (r_id r) [TBug] ?label resume) (\<lambda>(gone, known).
              ended_or (begin_scan E cfg r RHunt ?label (\<lambda>jid. mark_scope r sc jid resume) (Detached (hn_head sc)) resume) (\<lambda>start.
                let out_path = scan_out cfg ''findings'' (sn_job start) resume
                in make_parent out_path \<bind> (\<lambda>_.
                   and_then (hunt_prompt cfg r sc start gone known out_path resume) (\<lambda>prompt.
                   and_then (bk_run (ev_backend E) (sn_ws start) prompt (sn_cap start) (cf_hunt_max_wall_s cfg) HuntClass
                       (map_option rp_session_file resume)) (\<lambda>rr. finish_hunt R cfg r sc start out_path resume rr)))))) ?Q) w1"
    proof (cases res)
      case (Inl e)
      with a show ?thesis by (simp add: scoped_def hunted_cleared)
    next
      case (Inr x)
      show ?thesis
      proof (cases x)
        case (Inl s)
        with a Inr show ?thesis by (simp add: scoped_def wp_ok skipped)
      next
        case (Inr sc)
        from a \<open>res = Inr x\<close> Inr have go: "?ok w1" "hunt_tip r resume w = Some (hn_head sc)" by (simp_all add: scoped_def)
        show ?thesis unfolding \<open>res = Inr x\<close> Inr sum.case by (rule hunting [OF go(1)]) (rule reviewed [OF _ _ go(2)])
      qed
    qed
  qed
qed

text \<open>C7. A hunt never skips a commit nobody reviewed. Whatever fails on the way, a hunt touches no repository's row but its own, and
  leaves that repository's watermark as it was or in one of three places: cleared, when a full re-hunt was due and began; on the commit the
  clone's branch is at, when the watermark named that commit already and the hunt was skipped; or on a commit its worker was given to
  review, and then only if that worker finished and every entry it wrote was valid. A request for a full re-hunt is settled only by such a
  clean hunt of the whole history.\<close>

theorem watermark_only_reviewed:
  assumes "run_state (run_hunt E R cfg r resume) w = (res, w')" "quiet_backend (ev_backend E) db_repos"
  shows "advances (hunted_all res)
    ((if rehunts cfg r resume w then {None} else {}) \<union>
     {sha. sha = r_last_hunt_sha r \<and> (\<exists>s. res = Inr s \<and> nothing_new cfg r resume w s)} \<union>
     {Some sha | sha s. res = Inr s \<and> hunted_cleanly res \<and> given_to_worker E cfg r resume w s sha})
    (r_id r) (w_db w) (w_db w')"
  using wp_run [OF wp_run_hunt [OF assms(2)] assms(1)] by (simp add: hunted_def watermarks_def cleared_def)

section \<open>A hunt that reviewed everything\<close>

text \<open>Every command prints a commit, every file is an empty list, and the worker ends at once.\<close>

definition demo_world :: world where
  "demo_world = (quiet 5 repo_db)\<lparr>w_disk := \<lparr>k_files = (\<lambda>_. Some ''[]''), k_dirs = [], k_mtime = Map.empty\<rparr>,
     w_shell := (\<lambda>_ _ _ k. ((0, ''abc''), k))\<rparr>"

definition clean_run :: run_result where
  "clean_run = \<lparr>rr_exit_code = Some 0, rr_killed_reason = None, rr_tokens_new = 9, rr_calls = 1, rr_session_file = None,
     rr_duration_s = 1, rr_stdout_tail = [], rr_usage_delta = None\<rparr>"

definition willing_backend :: backend where
  "willing_backend = null_backend\<lparr>bk_decide := (\<lambda>n. ok \<lparr>normal = Granted None NoWindowData, prioritized = Granted None NoWindowData\<rparr>),
     bk_run := (\<lambda>_ _ _ _ _ _. ok clean_run)\<rparr>"

lemma willing_quiet: "quiet_backend willing_backend h"
  by unfold_locales (simp_all add: willing_backend_def keeps_intros)

definition demo_plan :: resume_plan where
  "demo_plan = \<lparr>rp_kind = K_hunt, rp_repo_id = 1, rp_repo = ''demo'', rp_finding_id = None, rp_predecessor_id = 1, rp_origin_job_id = 1,
     rp_session_file = ''/w/session/s'',
     rp_workspace = \<lparr>ws_origin_id = 1, ws_root = ''/w'', ws_tree = ''/w/tree'', ws_session = ''/w/session'', ws_clone = ''/c''\<rparr>,
     rp_pinned_sha = ''abc'', rp_anticipated = 10, rp_ctx = 0, rp_typical = 0, rp_chain_spent = 0, rp_handoff = False\<rparr>"

definition empty_findings :: json_text where
  "empty_findings = \<lparr>jt_parse = (\<lambda>_. Inr (JArray [])), jt_print = (\<lambda>_. []), jt_float = (\<lambda>_. None)\<rparr>"

definition steady :: "world \<Rightarrow> bool" where
  "steady w \<longleftrightarrow> w_fault w = (\<lambda>_. None) \<and> k_files (w_disk w) = (\<lambda>_. Some ''[]'') \<and> db_repos (w_db w) = [sample_repo] \<and>
     w_shell w = (\<lambda>_ _ _ k. ((0, ''abc''), k))"

lemma demo_scope: "steady w \<Longrightarrow> wp (hunt_scope_of cfg sample_repo (Some demo_plan)) (\<lambda>res w'. \<exists>sc. res = Inr (Inr sc) \<and> steady w') w"
  by (simp add: steady_def hunt_scope_of_def hunt_head_def resumed_full_def hunt_range_def first_range_def rehunt_due_def git_def
      demo_plan_def sample_repo_def wp_simps Let_def)

lemma demo_begin:
  assumes "steady w" "ev_backend E = willing_backend"
  shows "wp (begin_scan E cfg sample_repo RHunt label (\<lambda>jid. mark_scope sample_repo sc jid (Some demo_plan)) spec (Some demo_plan))
    (\<lambda>res w'. \<exists>start. res = Inr (Inr start) \<and> sn_pinned start = ''abc'' \<and> steady w') w"
  using assms
  by (simp add: steady_def begin_scan_def unless_ended_def budget_gate_def reserved_for_def willing_backend_def begin_job_def create_job_def
      live_repo_def mark_scope_def open_workspace_def wp_simps Let_def sample_repo_def demo_plan_def)

lemma demo_prompt:
  assumes "steady w"
  shows "wp (hunt_prompt cfg sample_repo sc start [] known out_path (Some demo_plan)) (\<lambda>res w'. (\<exists>p. res = Inr p) \<and> steady w') w"
  using assms by (simp add: steady_def hunt_prompt_def repo_notes_def read_file_def wp_simps)

lemma demo_parent: "steady w \<Longrightarrow> wp (make_parent p) (\<lambda>_. steady) w"
  by (auto simp: steady_def make_parent_def create_dir_all_def wp_simps)

lemma demo_finish:
  assumes "jt_parse (rd_json R) = (\<lambda>_. Inr (JArray []))" "steady w" "sn_pinned start = ''abc''"
  shows "wp (finish_hunt R cfg sample_repo sc start out_path (Some demo_plan) clean_run)
    (\<lambda>r w'. map r_last_hunt_sha (db_repos (w_db w')) = [Some ''abc'']) w"
proof -
  have state: "wp (recorded_state cfg ''hunt'' jid clean_run (Some demo_plan)) (\<lambda>st w'. st = JDone \<and> steady w') w" for jid
    using assms(2) by (simp add: steady_def recorded_state_def record_job_def wp_simps clean_run_def job_state_def
        retire_suspended_job_def retire_job_def complete_job_def frame_simps del: append.simps)
  have counted: "wp (ingest_hunt R sample_repo sc start out_path JDone n)
      (\<lambda>_ w'. map r_last_hunt_sha (db_repos (w_db w')) = [Some ''abc'']) w" if "steady w" for w n
    using that assms(1,3)
    by (simp add: steady_def ingest_hunt_def wp_simps path_exists_def ingest_scan_findings_def ingest_def read_file_def
        no_result_def record_hunted_def sample_repo_def Let_def frame_simps set_last_hunt_def settle_full_hunt_request_def
        set_last_full_hunt_def upd_repo_def upd_repos_def update_where_def del: append.simps)
  show ?thesis
    unfolding finish_hunt_def wp_bind wp_ok
    by (rule wp_mono [OF state], clarify, rule wp_mono [OF counted], assumption)
      (rule wp_keeps [OF keeps_repos_steps(2)], rule wp_keeps [OF keeps_repos_steps(4)], simp)
qed

lemma demo_hunt:
  assumes "ev_backend E = willing_backend" "jt_parse (rd_json R) = (\<lambda>_. Inr (JArray []))" "steady w"
  shows "wp (run_hunt E R cfg sample_repo (Some demo_plan)) (\<lambda>_ w'. map r_last_hunt_sha (db_repos (w_db w')) = [Some ''abc'']) w"
proof -
  have cold: "cold_findings rid fts label (Some demo_plan) = ok ([], [])" for rid fts label by (simp add: cold_findings_def)
  have ran: "bk_run (ev_backend E) ws p c m cl x = ok clean_run" for ws p c m cl x by (simp add: assms(1) willing_backend_def)
  show ?thesis
    unfolding run_hunt_def cold ran Let_def ended_or_def wp_and_then wp_bind wp_ok
    by (rule wp_mono [OF demo_scope [OF assms(3)]], elim exE conjE, simp only: sum.case prod.case wp_bind wp_and_then wp_ok,
        rule wp_mono [OF demo_begin [OF _ assms(1)]], assumption, elim exE conjE, simp only: sum.case wp_bind wp_and_then wp_ok,
        rule wp_mono [OF demo_parent], assumption, rule wp_mono [OF demo_prompt], assumption, elim exE conjE,
        simp only: sum.case, rule demo_finish [OF assms(2)])
qed

theorem watermark_only_reviewed_witness:
  "\<forall>E R cfg. \<exists>res w'.
     run_state (run_hunt (E\<lparr>ev_backend := willing_backend\<rparr>) (R\<lparr>rd_json := empty_findings\<rparr>) cfg sample_repo (Some demo_plan)) demo_world = (res, w') \<and>
     map r_last_hunt_sha (db_repos (w_db w')) = [Some ''abc''] \<and> hunted_cleanly res \<and>
     (\<exists>s. res = Inr s \<and> given_to_worker (E\<lparr>ev_backend := willing_backend\<rparr>) cfg sample_repo (Some demo_plan) demo_world s ''abc'')"
proof (intro allI)
  fix E :: env and R :: readers and cfg
  let ?E = "E\<lparr>ev_backend := willing_backend\<rparr>" and ?R = "R\<lparr>rd_json := empty_findings\<rparr>"
  obtain res w' where run: "run_state (run_hunt ?E ?R cfg sample_repo (Some demo_plan)) demo_world = (res, w')" by fastforce
  have "steady demo_world" by (simp add: steady_def demo_world_def repo_db_def quiet_def)
  from wp_run [OF demo_hunt [OF _ _ this] run] have now: "map r_last_hunt_sha (db_repos (w_db w')) = [Some ''abc'']"
    by (simp add: empty_findings_def)
  have before: "db_repos (w_db demo_world) = [sample_repo]" "r_last_hunt_sha sample_repo = None" "r_id sample_repo = 1"
    by (simp_all add: demo_world_def repo_db_def sample_repo_def)
  have "quiet_backend (ev_backend ?E) db_repos" by (simp add: willing_quiet)
  from watermark_only_reviewed [OF run this] now before
  have "hunted_cleanly res \<and> (\<exists>s. res = Inr s \<and> given_to_worker ?E cfg sample_repo (Some demo_plan) demo_world s ''abc'')"
    by (auto simp: advances_def advanced_def nothing_new_def list_all2_Cons1 split: if_splits)
  with run now show "\<exists>res w'. run_state (run_hunt ?E ?R cfg sample_repo (Some demo_plan)) demo_world = (res, w') \<and>
     map r_last_hunt_sha (db_repos (w_db w')) = [Some ''abc''] \<and> hunted_cleanly res \<and>
     (\<exists>s. res = Inr s \<and> given_to_worker ?E cfg sample_repo (Some demo_plan) demo_world s ''abc'')" by (intro exI [of _ res] exI [of _ w']) (elim conjE, intro conjI, assumption+)
qed

end
