(* ===== verification/RecheckSafety.thy ===== *)
theory RecheckSafety
  imports Rechecking Frames
begin

text \<open>
What a recheck does to its finding: it touches no other finding, and it moves its own one only to what the verdict
file says, word by word, or back to the inbox once it gives up; nothing else of the store changes but the event log.
\<close>

section \<open>Who moves\<close>

text \<open>The columns a recheck may write, blanked; and the tables it may not write: it has its own anchor and the event log.\<close>

definition but_verdict :: "finding \<Rightarrow> finding" where
  "but_verdict f =
     f\<lparr>f_status := New, f_verdict_reason := None, f_summary := [], f_detail := None, f_confidence := 0, f_severity := Low,
       f_budget_override := None, f_recheck_attempts := 0, f_last_recheck_failure := None, f_updated_at := 0\<rparr>"

definition other_tables :: "int \<Rightarrow> db \<Rightarrow> db" where
  "other_tables fid d = d\<lparr>db_findings := [], db_anchors := filter (\<lambda>a. a_finding_id a \<noteq> fid) (db_anchors d), db_events := []\<rparr>"

definition moved :: "int \<Rightarrow> finding_status set \<Rightarrow> finding \<Rightarrow> finding \<Rightarrow> bool" where
  "moved fid S f f' \<longleftrightarrow>
     f' = f \<or> f_id f = fid \<and> but_verdict f' = but_verdict f \<and> (f_status f' = f_status f \<or> f_status f' \<in> S)"

definition moves :: "int \<Rightarrow> finding_status set \<Rightarrow> db \<Rightarrow> db \<Rightarrow> bool" where
  "moves fid S d d' \<longleftrightarrow> list_all2 (moved fid S) (db_findings d) (db_findings d') \<and> other_tables fid d' = other_tables fid d"

lemma but_verdict_id: "but_verdict f' = but_verdict f \<Longrightarrow> f_id f' = f_id f"
  by (drule arg_cong [where f = f_id]) (simp add: but_verdict_def)

lemma moves_refl: "db_findings d' = db_findings d \<Longrightarrow> other_tables fid d' = other_tables fid d \<Longrightarrow> moves fid S d d'"
  by (simp add: moves_def list_all2_same moved_def)

lemma moved_trans: "moved fid S f g \<Longrightarrow> moved fid S g h \<Longrightarrow> moved fid S f h"
  unfolding moved_def by (elim disjE conjE) (auto dest: but_verdict_id)

lemma moves_trans: "moves fid S d d1 \<Longrightarrow> moves fid S d1 d2 \<Longrightarrow> moves fid S d d2"
  unfolding moves_def by (auto intro: list_all2_trans [of "moved fid S" "moved fid S" "moved fid S"] moved_trans)

lemma moves_upd:
  assumes "\<And>f. but_verdict (g f) = but_verdict f" "\<And>f. f_status (g f) = f_status f \<or> f_status (g f) \<in> S"
  shows "moves fid S d (upd_findings (\<lambda>f. f_id f = fid) g d)"
proof -
  have "moved fid S f (if f_id f = fid then g f else f)" for f
    using assms [of f] by (simp add: moved_def)
  then show ?thesis
    by (simp add: moves_def other_tables_def upd_findings_def update_where_def list_all2_map2 list_all2_same)
qed

lemma other_update: "filter (\<lambda>a. a_finding_id a \<noteq> k) (update_where (\<lambda>a. a_finding_id a = k) (\<lambda>a. a\<lparr>a_anchor := va, a_created_at := now\<rparr>) as) =
    filter (\<lambda>a. a_finding_id a \<noteq> k) as"
  by (induction as) (auto simp: update_where_def)

lemma other_anchor: "other_tables k (write_anchor now k anchor d) = other_tables k d"
  by (simp add: other_tables_def write_anchor_def other_update split: option.split)

lemma other_event: "other_tables k (log_event now kind m x y d) = other_tables k d"
  by (simp add: other_tables_def log_event_def insert_event_def Let_def)

lemma moves_anchor: "moves fid S d (write_anchor now fid anchor d') \<longleftrightarrow> moves fid S d d'"
  by (simp add: moves_def other_anchor) (simp add: write_anchor_def split: option.split)

lemma moves_steps:
  "moves fid S d (update_finding_analysis now fid an d)" "moves fid S d (clear_recheck_attempts now fid d)"
  "moves fid S d (set_budget_override now fid mode d)" "moves fid S d (snd (record_recheck_attempt now fid fp d))"
  "s \<in> S \<Longrightarrow> moves fid S d (set_finding_status now fid s d)"
  "s \<in> S \<Longrightarrow> moves fid S d (set_anchored_verdict now fid s reason anchor d)"
  "s \<in> S \<Longrightarrow> moves fid S d (set_finding_verdict now fid s reason d)"
  by (auto simp: update_finding_analysis_def clear_recheck_attempts_def set_budget_override_def record_recheck_attempt_def
      set_finding_status_def set_anchored_verdict_def set_finding_verdict_def moves_anchor but_verdict_def Let_def
      split: prod.split intro!: moves_upd)

abbreviation rechecks :: "int \<Rightarrow> finding_status set \<Rightarrow> db \<Rightarrow> 'a act \<Rightarrow> bool" where
  "rechecks fid S d m \<equiv> preserves (\<lambda>d' _ _. moves fid S d d') m"

lemma rechecks_event [preserves_intros]: "rechecks fid S d (event k m x y)"
  unfolding event_def
  by (intro preserves_exec) (erule moves_trans, intro moves_refl, simp_all add: other_event, simp add: frame_simps)

lemma rechecks_exec: "(\<And>now d. moves fid S d (g now d)) \<Longrightarrow> rechecks fid S d (exec g)"
  by (intro preserves_exec) (auto intro: moves_trans)

lemma rechecks_spend [preserves_intros]: "rechecks (f_id f) S d (spend_override f)"
  unfolding spend_override_def by (intro preserves_intros rechecks_exec moves_steps)

lemma rechecks_cleared [preserves_intros]: "rechecks fid S d (cleared_recheck fid)"
  unfolding cleared_recheck_def by (intro preserves_intros rechecks_exec moves_steps)

lemma rechecks_failure:
  assumes "New \<in> S"
  shows "rechecks fid S d (handle_recheck_failure summary fid jid failure detail mode)"
proof -
  have "rechecks fid S d (call (\<lambda>now. record_recheck_attempt now fid failure))"
    by (intro preserves_call) (auto intro: moves_trans moves_steps)
  then show ?thesis
    unfolding handle_recheck_failure_def Let_def
    by (intro preserves_intros rechecks_exec moves_steps assms)
qed

text \<open>Where the verdict file sends a finding; no usable verdict sends it to the inbox, once the recheck gives up.\<close>

definition verdict_status :: "recheck_file \<Rightarrow> finding_status option" where
  "verdict_status v =
     (if rv_verdict v = Some ''confirmed'' then Some New
      else if rv_verdict v = Some ''stale'' then Some Superseded
      else if rv_verdict v = Some ''invalid'' then Some Rejected
      else None)"

lemma verdict_status_by_outcome:
  "verdict_status v =
     (case map_option recheck_outcome_of (rv_verdict v) of
        Some Confirmed \<Rightarrow> Some New | Some Stale \<Rightarrow> Some Superseded | Some Invalid \<Rightarrow> Some Rejected | _ \<Rightarrow> None)"
  by (cases "rv_verdict v") (simp_all add: verdict_status_def recheck_outcome_of_def)

lemma rechecks_verdict:
  "rechecks (f_id f) {unwrap_or (verdict_status v) New} d (record_verdict f start v summary)"
  unfolding record_verdict_def record_confirmed_def record_stale_def record_invalid_def Rechecking.settled_def verdict_status_by_outcome Let_def
  by (auto intro!: preserves_intros rechecks_exec moves_steps rechecks_failure split: option.split recheck_outcome.split)


section \<open>Where the verdict lands\<close>

definition stands_at :: "int \<Rightarrow> finding_status \<Rightarrow> db \<Rightarrow> bool" where
  "stands_at fid s d \<longleftrightarrow> (\<forall>f \<in> set (db_findings d). f_id f = fid \<longrightarrow> f_status f = s)"

lemma stands_upd:
  assumes "\<And>f. f_id (g f) = f_id f" "\<And>f. f_status (g f) = s \<or> f_status (g f) = f_status f \<and> stands_at fid s d"
  shows "stands_at fid s (upd_findings (\<lambda>f. f_id f = fid) g d)"
proof -
  have f: "db_findings (upd_findings (\<lambda>f. f_id f = fid) g d) = map (\<lambda>f. if f_id f = fid then g f else f) (db_findings d)"
    by (simp add: upd_findings_def update_where_def)
  show ?thesis unfolding stands_at_def f using assms unfolding stands_at_def by (simp only: set_map ball_simps) auto
qed

lemma stands_anchor: "stands_at fid s (write_anchor now k anchor d) = stands_at fid s d"
  by (simp add: stands_at_def write_anchor_def split: option.split)

lemma stands_steps:
  "stands_at fid s d \<Longrightarrow> stands_at fid s (clear_recheck_attempts now fid d)"
  "stands_at fid s d \<Longrightarrow> stands_at fid s (set_budget_override now fid mode d)"
  "stands_at fid s (log_event now k m x y d) = stands_at fid s d"
  "stands_at fid s (set_finding_status now fid s d)"
  "stands_at fid s (set_anchored_verdict now fid s reason anchor d)"
  "stands_at fid s (set_finding_verdict now fid s reason d)"
  unfolding clear_recheck_attempts_def set_budget_override_def set_finding_status_def set_anchored_verdict_def
    set_finding_verdict_def stands_anchor
  by (auto intro!: stands_upd simp: stands_at_def [of fid s "log_event now k m x y d"] frame_simps)
    (simp_all add: stands_at_def)

abbreviation landed :: "int \<Rightarrow> finding_status \<Rightarrow> 'a \<Rightarrow> world \<Rightarrow> bool" where
  "landed fid st \<equiv> \<lambda>_ w. w_fault w = (\<lambda>_. None) \<and> stands_at fid st (w_db w)"

lemma cleared_lands: "w_fault w = (\<lambda>_. None) \<Longrightarrow> stands_at fid st (w_db w) \<Longrightarrow> wp (cleared_recheck fid) (landed fid st) w"
  by (simp add: cleared_recheck_def wp_simps stands_steps del: append.simps)

lemma settled_lands: "landed (f_id f) st a w \<Longrightarrow> wp (Rechecking.settled f verdict reason summary) (landed (f_id f) st) w"
  by (simp add: Rechecking.settled_def spend_override_def wp_simps stands_steps del: append.simps)

lemma outcome_lands:
  assumes "w_fault w = (\<lambda>_. None)"
  shows "wp (record_confirmed fid jid v reason) (landed fid New) w" "wp (record_stale fid jid reason) (landed fid Superseded) w"
    "wp (record_invalid g jid pinned v reason) (landed (f_id g) Rejected) w"
proof -
  have tail: "wp (cleared_recheck fid \<bind> (\<lambda>_. ignore (event k m x y))) (landed fid st) w'"
    if "w_fault w' = (\<lambda>_. None)" "stands_at fid st (w_db w')" for w' st k m x y fid
    unfolding wp_bind by (rule wp_mono [OF cleared_lands [OF that]]) (simp add: wp_simps stands_steps)
  show "wp (record_confirmed fid jid v reason) (landed fid New) w"
    unfolding record_confirmed_def Let_def
    by (subst wp_bind, rule wp_mono [where P = "\<lambda>_ w. w_fault w = (\<lambda>_. None)"])
      (simp add: wp_simps assms del: append.simps split: option.split,
       simp add: wp_bind wp_log_write_failure wp_exec stands_steps tail [unfolded wp_bind] del: append.simps)
  show "wp (record_stale fid jid reason) (landed fid Superseded) w"
    "wp (record_invalid g jid pinned v reason) (landed (f_id g) Rejected) w"
    using assms
    by (simp_all add: record_stale_def record_invalid_def Let_def wp_bind wp_log_write_failure wp_exec stands_steps
        tail [unfolded wp_bind] del: append.simps)
qed

lemma lands:
  assumes "w_fault w = (\<lambda>_. None)" "verdict_status v = Some st"
  shows "wp (record_verdict f start v summary) (\<lambda>_ w'. stands_at (f_id f) st (w_db w')) w"
proof -
  have "wp (record_verdict f start v summary) (landed (f_id f) st) w"
    using assms(2) unfolding record_verdict_def verdict_status_by_outcome Let_def
    by (auto simp: wp_bind simp del: append.simps split: option.splits recheck_outcome.splits
        intro!: wp_mono [OF outcome_lands(1) [OF assms(1)]] wp_mono [OF outcome_lands(2) [OF assms(1)]]
          wp_mono [OF outcome_lands(3) [OF assms(1)]] settled_lands)
  then show ?thesis by (rule wp_mono) simp
qed

lemma undecided:
  assumes "verdict_status v = None"
  shows "wp (record_verdict f start v summary)
    (\<lambda>s _. cs_verdict s = cs_verdict summary \<and> cs_outcome s \<in> {Some ''requeued'', Some ''stuck''}) w"
proof -
  let ?good = "\<lambda>s _. cs_verdict s = cs_verdict summary \<and> cs_outcome s \<in> {Some ''requeued'', Some ''stuck''}"
  have "wp (handle_recheck_failure summary fid jid failure detail mode) ?good w" for fid jid failure detail mode
    unfolding handle_recheck_failure_def Let_def
    by (rule wp_bind_any, subst wp_bind, rule wp_mono [where P = ?good])
      (auto simp: wp_simps simp del: append.simps split: sum.split option.split)
  then show ?thesis
    using assms by (auto simp: record_verdict_def verdict_status_by_outcome Let_def simp del: append.simps split: option.splits recheck_outcome.splits)
qed

text \<open>C6. Recording what a recheck's verdict file says: \<open>confirmed\<close> sends the finding back to the inbox, \<open>stale\<close>
  supersedes it, \<open>invalid\<close> rejects it; a missing or unknown word is a failed attempt that reports no verdict and can at
  most send the finding back to the inbox. Whatever store call fails, the finding's status changes to nothing but that one,
  its row changes only in the columns of the verdict and of the attempt, no other finding, no other finding's anchor and no
  other table but the event log changes; and if no call fails, the finding ends where the word sends it.\<close>

theorem recheck_verdict_decides:
  assumes "run_state (record_verdict f start v summary) w = (s, w')"
  shows "moves (f_id f) {unwrap_or (verdict_status v) New} (w_db w) (w_db w') \<and>
    (verdict_status v = None \<longrightarrow> cs_verdict s = cs_verdict summary \<and> cs_outcome s \<in> {Some ''requeued'', Some ''stuck''}) \<and>
    (\<forall>st. verdict_status v = Some st \<longrightarrow> w_fault w = (\<lambda>_. None) \<longrightarrow> stands_at (f_id f) st (w_db w'))"
  using assms preservesD [OF rechecks_verdict _ assms, of "w_db w"] wp_run [OF undecided assms] wp_run [OF lands assms]
  by (auto simp: moves_refl)

definition stale_verdict :: recheck_file where
  "stale_verdict = \<lparr>rv_verdict = Some ''stale'', rv_reason = Some ''rewritten'', rv_summary = None, rv_detail = None,
     rv_confidence = None, rv_severity = None, rv_holds_while = None, rv_depends_on = []\<rparr>"

definition rechecked :: finding where
  "rechecked = sample_finding\<lparr>f_id := 1, f_status := Rechecking\<rparr>"

theorem recheck_verdict_decides_witness:
  "\<forall>start. \<exists>s w'. run_state (record_verdict rechecked start stale_verdict no_summary)
       (quiet 5 (empty_db\<lparr>db_findings := [rechecked]\<rparr>)) = (s, w') \<and>
     stands_at 1 Superseded (w_db w') \<and> moves 1 {Superseded} (empty_db\<lparr>db_findings := [rechecked]\<rparr>) (w_db w')"
proof
  fix start
  let ?w = "quiet 5 (empty_db\<lparr>db_findings := [rechecked]\<rparr>)"
  obtain s w' where run: "run_state (record_verdict rechecked start stale_verdict no_summary) ?w = (s, w')" by fastforce
  have v: "verdict_status stale_verdict = Some Superseded" "f_id rechecked = 1" "w_fault ?w = (\<lambda>_. None)"
    by (simp_all add: verdict_status_def stale_verdict_def rechecked_def quiet_def)
  from recheck_verdict_decides [OF run] show "\<exists>s w'. run_state (record_verdict rechecked start stale_verdict no_summary) ?w = (s, w') \<and>
     stands_at 1 Superseded (w_db w') \<and> moves 1 {Superseded} (empty_db\<lparr>db_findings := [rechecked]\<rparr>) (w_db w')"
    using run v by (intro exI [of _ s] exI [of _ w']) simp
qed

end
