(* ===== verification/HarvestSafety.thy ===== *)
theory HarvestSafety
  imports Harvesting Frames
begin

text \<open>
What a harvest leaves behind: an attempt that will be continued or done again files no follow-up, changes no
finding's status and gives no pull request up, and only an attempt of the harvest's own counts in its streak.
\<close>

definition statuses :: "db \<Rightarrow> (int \<times> finding_status) list" where
  "statuses d = map (\<lambda>f. (f_id f, f_status f)) (db_findings d)"

definition stamps :: "db \<Rightarrow> (int \<times> millis option) list" where
  "stamps d = map (\<lambda>p. (p_finding_id p, p_harvested_at p)) (db_prs d)"


definition untouched :: "db \<Rightarrow> db \<Rightarrow> bool" where
  "untouched d d' \<longleftrightarrow> statuses d' = statuses d \<and> db_prs d' = db_prs d"

definition uncounted :: "db \<Rightarrow> db \<Rightarrow> bool" where
  "uncounted d d' \<longleftrightarrow> statuses d' = statuses d \<and> stamps d' = stamps d"


definition leaves :: "db \<Rightarrow> (int \<times> finding_status) list \<times> pr list" where
  "leaves d = (statuses d, db_prs d)"





lemma keeps_close_reason [keeps_intros]: "keeps h (read_close_reason R tree)"
  unfolding read_close_reason_def read_file_def by (intro keeps_intros)

lemma statuses_prs: "db_findings d' = db_findings d \<Longrightarrow> statuses d' = statuses d"
  by (simp add: statuses_def)






lemma keeps_leaves_pair: "keeps leaves m \<Longrightarrow> uncounted d (w_db w) \<Longrightarrow>
    wp m (\<lambda>_ w'. uncounted d (w_db w') \<and> (untouched d (w_db w) \<longrightarrow> untouched d (w_db w'))) w"
  by (rule wp_keeps) (auto simp: leaves_def uncounted_def untouched_def stamps_def)













end
