(* ===== verification/Http.thy ===== *)
theory Http
  imports Config Json World
begin

text \<open>
Requests and answers of \<open>server.rs\<close>, and the gates every request passes: the \<open>Host\<close> check, the content type of a POST, and
the shape of its body. An answer carries the values the code serialises; their JSON is serde's.

axum's routing, its header and query types and serde's parser are used by their documented meaning; the parser is the
parameter \<open>parse\<close>.
\<close>

section \<open>Requests and answers\<close>

datatype rq_method = GET | POST

text \<open>Header names in lower case, in the order received; the query as decoded.\<close>

record request =
  rq_method :: rq_method
  rq_path :: string
  rq_query :: "(string \<times> string) list"
  rq_headers :: "(string \<times> string) list"
  rq_body :: string

datatype api_error =
  BadRequest string
| NotFoundError string
| ConflictError string
| UnsupportedMediaType
| Forbidden
| Unauthorized string
| DbError string
| Internal string

type_synonym 'a api = "(api_error + 'a) act"

definition answer :: "'a \<Rightarrow> 'a api" where
  "answer x = State_Monad.return (Inr x)"

definition refused :: "api_error \<Rightarrow> 'a api" where
  "refused e = State_Monad.return (Inl e)"

definition api_then :: "'a api \<Rightarrow> ('a \<Rightarrow> 'b api) \<Rightarrow> 'b api" where
  "api_then m k = do { r \<leftarrow> m; case r of Inl e \<Rightarrow> refused e | Inr x \<Rightarrow> k x }"

text \<open>\<open>?\<close> on a store call, and on a plain result.\<close>

definition stored :: "'a io \<Rightarrow> 'a api" where
  "stored m = do { r \<leftarrow> m; case r of Inl e \<Rightarrow> refused (DbError e) | Inr x \<Rightarrow> answer x }"

definition given :: "api_error + 'a \<Rightarrow> 'a api" where
  "given r = State_Monad.return r"

text \<open>A store call that a constraint can fail.\<close>

definition row_call :: "(millis \<Rightarrow> db \<Rightarrow> (string + 'a) \<times> db) \<Rightarrow> 'a io" where
  "row_call f = and_then (call f) (\<lambda>r. case r of Inl e \<Rightarrow> err e | Inr x \<Rightarrow> ok x)"

text \<open>Status code and message of \<open>IntoResponse\<close>; the cause of a failure inside is logged, not answered.\<close>

fun error_status :: "api_error \<Rightarrow> nat" where
  "error_status (BadRequest _) = 400"
| "error_status (NotFoundError _) = 404"
| "error_status (ConflictError _) = 409"
| "error_status UnsupportedMediaType = 415"
| "error_status Forbidden = 403"
| "error_status (Unauthorized _) = 401"
| "error_status (DbError _) = 500"
| "error_status (Internal _) = 500"

fun error_message :: "api_error \<Rightarrow> string" where
  "error_message (BadRequest m) = m"
| "error_message (NotFoundError m) = m"
| "error_message (ConflictError m) = m"
| "error_message UnsupportedMediaType = ''Content-Type must be application/json''"
| "error_message Forbidden = ''forbidden: non-local origin''"
| "error_message (Unauthorized m) = m"
| "error_message (DbError _) = ''internal error''"
| "error_message (Internal _) = ''internal error''"

fun store_error :: "write_error \<Rightarrow> api_error" where
  "store_error (Refused m) = BadRequest m"
| "store_error e = DbError (write_error_text e)"

section \<open>Headers\<close>

text \<open>\<open>HeaderValue::to_str\<close>: visible ASCII and tabs only. \<open>get\<close> is the first value of a name.\<close>

definition to_str :: "string \<Rightarrow> string option" where
  "to_str v = (if list_all (\<lambda>c. 32 \<le> byte c \<and> byte c \<le> 126 \<or> byte c = 9) v then Some v else None)"

definition header_str :: "request \<Rightarrow> string \<Rightarrow> string" where
  "header_str rq name = unwrap_or (Option.bind (map_of (rq_headers rq) name) to_str) []"

text \<open>The name part of a \<open>Host\<close> header.\<close>

definition host_name :: "string \<Rightarrow> string" where
  "host_name host =
     (case strip_prefix ''['' host of
        Some rest \<Rightarrow> (case split_once '']'' rest of Some (name, _) \<Rightarrow> name | None \<Rightarrow> host)
      | None \<Rightarrow>
          (case rsplit_once '':'' host of
             Some (name, port) \<Rightarrow>
               if CHR '':'' \<notin> set name \<and> port \<noteq> [] \<and> list_all is_ascii_digit port then name else host
           | None \<Rightarrow> host))"

definition require_allowed_host :: "request \<Rightarrow> host_allow_list \<Rightarrow> api_error + unit" where
  "require_allowed_host rq allowed =
     (let host = header_str rq ''host''
      in if host = [] \<or> allows allowed (host_name host) then Inr () else Inl Forbidden)"

definition post_gate :: "request \<Rightarrow> api_error + unit" where
  "post_gate rq =
     (if starts_with ''application/json'' (header_str rq ''content-type'') then Inr () else Inl UnsupportedMediaType)"

section \<open>Queries and bodies\<close>

text \<open>A blank value is an absent one.\<close>

definition param :: "request \<Rightarrow> string \<Rightarrow> string option" where
  "param rq key = (case map_of (rq_query rq) key of Some v \<Rightarrow> if v = [] then None else Some v | None \<Rightarrow> None)"

definition parse_object :: "(string \<Rightarrow> string + json) \<Rightarrow> string \<Rightarrow> api_error + json" where
  "parse_object parse body =
     (if body = [] then Inl (BadRequest ''empty body'')
      else case parse body of
        Inl _ \<Rightarrow> Inl (BadRequest ''invalid JSON body'')
      | Inr value \<Rightarrow> if is_object value then Inr value else Inl (BadRequest ''body must be a JSON object''))"

definition require_int :: "json \<Rightarrow> string \<Rightarrow> string \<Rightarrow> api_error + int" where
  "require_int body key msg =
     (case Option.bind (json_get body key) as_i64 of Some i \<Rightarrow> Inr i | None \<Rightarrow> Inl (BadRequest msg))"

fun python_truthy :: "json \<Rightarrow> bool" where
  "python_truthy JNull = False"
| "python_truthy (JBool b) = b"
| "python_truthy (JInt i) = (i \<noteq> 0)"
| "python_truthy (JFloat q) = (q \<noteq> 0)"
| "python_truthy (JString s) = (s \<noteq> [])"
| "python_truthy (JArray a) = (a \<noteq> [])"
| "python_truthy (JObject kvs) = (kvs \<noteq> [])"

fun as_bool :: "json \<Rightarrow> bool option" where
  "as_bool (JBool b) = Some b"
| "as_bool _ = None"

text \<open>The gates of a POST with a body.\<close>

definition post_body :: "(string \<Rightarrow> string + json) \<Rightarrow> request \<Rightarrow> api_error + json" where
  "post_body parse rq = (case post_gate rq of Inl e \<Rightarrow> Inl e | Inr _ \<Rightarrow> parse_object parse (rq_body rq))"

section \<open>Rules\<close>

lemma wp_answer [wp_simps]: "wp (answer x) Q = Q (Inr x)"
  by (simp add: answer_def wp_return)

lemma wp_refused [wp_simps]: "wp (refused e) Q = Q (Inl e)"
  by (simp add: refused_def wp_return)

lemma wp_given [wp_simps]: "wp (given r) Q = Q r"
  by (simp add: given_def wp_return)

lemma wp_api_then [wp_simps]:
  "wp (api_then m k) Q = wp m (\<lambda>r. case r of Inl e \<Rightarrow> Q (Inl e) | Inr x \<Rightarrow> wp (k x) Q)"
  by (simp add: api_then_def wp_bind wp_case_sum wp_refused cong: sum.case_cong)

lemma wp_stored [wp_simps]:
  "wp (stored m) Q = wp m (\<lambda>r. Q (case r of Inl e \<Rightarrow> Inl (DbError e) | Inr x \<Rightarrow> Inr x))"
  by (simp add: stored_def wp_bind wp_case_sum wp_refused wp_answer sum.case_distrib [of "\<lambda>r. Q r"] cong: sum.case_cong)

lemma wp_row_call [wp_simps]:
  "wp (row_call f) Q = (\<lambda>w. case w_fault w (w_calls w) of
       Some e \<Rightarrow> Q (Inl e) (tick w)
     | None \<Rightarrow> Q (fst (f (w_now w (w_calls w)) (w_db w))) (put_db (snd (f (w_now w (w_calls w)) (w_db w))) w))"
  by (simp add: fun_eq_iff row_call_def wp_simps split: option.split) (simp add: wp_simps split: sum.split)

lemma keeps_row_call: "(\<And>now d. h (snd (f now d)) = h d) \<Longrightarrow> keeps h (row_call f)"
  unfolding row_call_def by (intro keeps_intros keeps_call) auto

lemma keeps_api [keeps_intros]:
  "keeps h (answer x)" "keeps h (refused e)" "keeps h (given r)"
  by (simp_all add: answer_def refused_def given_def keeps_return)

lemma keeps_api_then [keeps_intros]:
  "keeps h m \<Longrightarrow> (\<And>a. keeps h (k a)) \<Longrightarrow> keeps h (api_then m k)"
  unfolding api_then_def by (intro keeps_intros) (auto intro: keeps_intros split: sum.split)

lemma keeps_stored [keeps_intros]: "keeps h m \<Longrightarrow> keeps h (stored m)"
  unfolding stored_def by (intro keeps_intros)

end
