(* ===== verification/Accounts.thy ===== *)
theory Accounts
  imports Http Tables
begin

text \<open>
Local accounts (\<open>auth.rs\<close>) and their rows (\<open>store.rs\<close>): users, sessions, the session cookie, and the guard of the API.

argon2, SHA-256, the system's randomness and Rust's debug format of a text are the parameters of \<open>crypto\<close>; the n-th
effect of a run draws its own salt and token.
\<close>

record crypto =
  cy_hash :: "nat \<Rightarrow> string \<Rightarrow> string + string"
  cy_verify :: "string \<Rightarrow> string \<Rightarrow> bool"
  cy_digest :: "string \<Rightarrow> string"
  cy_random :: "nat \<Rightarrow> string + string"
  cy_debug :: "string \<Rightarrow> string"

record current_user =
  us_id :: int
  us_name :: string

section \<open>Rows\<close>

text \<open>User names compare without case (\<open>COLLATE NOCASE\<close>).\<close>

definition named :: "string \<Rightarrow> user \<Rightarrow> bool" where
  "named username u \<longleftrightarrow> to_ascii_lowercase (u_username u) = to_ascii_lowercase username"

definition find_user :: "string \<Rightarrow> db \<Rightarrow> user option" where
  "find_user username d = find (named username) (db_users d)"

definition create_user :: "crypto \<Rightarrow> millis \<Rightarrow> string \<Rightarrow> string \<Rightarrow> db \<Rightarrow> (write_error + int) \<times> db" where
  "create_user C now username password_hash d =
     (case find_user username d of
        Some _ \<Rightarrow> (Inl (Refused (''user '' @ cy_debug C username @ '' already exists'')), d)
      | None \<Rightarrow>
          (let uid = next_id (map u_id (db_users d))
           in (Inr uid, d\<lparr>db_users := db_users d @
                 [\<lparr>u_id = uid, u_username = username, u_password_hash = password_hash, u_created_at = now,
                   u_disabled_at = None\<rparr>]\<rparr>)))"

text \<open>One transaction: the account's row, and its sessions dropped.\<close>

definition change_account :: "(user \<Rightarrow> user) \<Rightarrow> string \<Rightarrow> db \<Rightarrow> bool \<times> db" where
  "change_account f username d =
     (case find_user username d of
        None \<Rightarrow> (False, d)
      | Some u \<Rightarrow> (True, d\<lparr>db_users := update_where (named username) f (db_users d),
                       db_sessions := filter (\<lambda>s. se_user_id s \<noteq> u_id u) (db_sessions d)\<rparr>))"

definition set_password :: "string \<Rightarrow> string \<Rightarrow> db \<Rightarrow> bool \<times> db" where
  "set_password username password_hash d = change_account (\<lambda>u. u\<lparr>u_password_hash := password_hash\<rparr>) username d"

definition disable_user_row :: "millis \<Rightarrow> string \<Rightarrow> db \<Rightarrow> bool \<times> db" where
  "disable_user_row now username d =
     change_account (\<lambda>u. u\<lparr>u_disabled_at := coalesce (u_disabled_at u) (Some now)\<rparr>) username d"

definition login_candidate :: "string \<Rightarrow> db \<Rightarrow> (current_user \<times> string) option" where
  "login_candidate username d =
     map_option (\<lambda>u. (\<lparr>us_id = u_id u, us_name = u_username u\<rparr>, u_password_hash u))
       (find (\<lambda>u. named username u \<and> u_disabled_at u = None) (db_users d))"

text \<open>The keys the table checks: the hash is its primary key, the user must exist.\<close>

definition create_session :: "millis \<Rightarrow> int \<Rightarrow> string \<Rightarrow> millis \<Rightarrow> db \<Rightarrow> (string + unit) \<times> db" where
  "create_session now uid token_hash expires_at d =
     (let live = filter (\<lambda>s. now < se_expires_at s) (db_sessions d)
      in if token_hash \<in> se_token_hash ` set live then (Inl ''UNIQUE constraint failed: sessions.token_hash'', d)
         else if uid \<notin> u_id ` set (db_users d) then (Inl ''FOREIGN KEY constraint failed'', d)
         else (Inr (), d\<lparr>db_sessions := live @
                 [\<lparr>se_token_hash = token_hash, se_user_id = uid, se_created_at = now, se_expires_at = expires_at\<rparr>]\<rparr>))"

definition session_user :: "string \<Rightarrow> millis \<Rightarrow> db \<Rightarrow> current_user option" where
  "session_user token_hash now d =
     Option.bind (find (\<lambda>s. se_token_hash s = token_hash \<and> now < se_expires_at s) (db_sessions d)) (\<lambda>s.
       map_option (\<lambda>u. \<lparr>us_id = u_id u, us_name = u_username u\<rparr>)
         (find (\<lambda>u. u_id u = se_user_id s \<and> u_disabled_at u = None) (db_users d)))"

definition delete_session :: "string \<Rightarrow> db \<Rightarrow> db" where
  "delete_session token_hash d = d\<lparr>db_sessions := filter (\<lambda>s. se_token_hash s \<noteq> token_hash) (db_sessions d)\<rparr>"

section \<open>Names, passwords, tokens\<close>

definition validate_username :: "crypto \<Rightarrow> string \<Rightarrow> string + unit" where
  "validate_username C name =
     (if name = [] \<or> 64 < length name then Inl ''a username must be 1 to 64 characters''
      else if \<not> list_all (\<lambda>b. is_ascii_alphanumeric b \<or> b \<in> {CHR ''.'', CHR ''_'', CHR ''-''}) name
      then Inl (''username '' @ cy_debug C name @ '' may only contain ASCII letters, digits, '.', '_' and '-'' @ [CHR 0x27])
      else Inr ())"

definition MIN_PASSWORD_CHARS :: nat where "MIN_PASSWORD_CHARS = 12"

definition validate_password :: "string \<Rightarrow> string + unit" where
  "validate_password password =
     (if char_count password < MIN_PASSWORD_CHARS
      then Inl (''a password must be at least '' @ show_nat MIN_PASSWORD_CHARS @ '' characters'') else Inr ())"

definition hex_digit :: "nat \<Rightarrow> char" where
  "hex_digit n = (if n < 10 then char_of (48 + n) else char_of (87 + n))"

definition hex :: "string \<Rightarrow> string" where
  "hex bytes = concat (map (\<lambda>b. [hex_digit (byte b div 16), hex_digit (byte b mod 16)]) bytes)"

definition new_session_token :: "crypto \<Rightarrow> string io" where
  "new_session_token C = do {
     n \<leftarrow> look w_calls;
     (case cy_random C n of
        Inl e \<Rightarrow> err (''no randomness for a session: '' @ e)
      | Inr bytes \<Rightarrow> ok (hex bytes)) }"

section \<open>The cookie\<close>

definition SESSION_COOKIE :: string where "SESSION_COOKIE = ''hunter_session''"

definition SESSION_TTL_MS :: int where "SESSION_TTL_MS = 30 * 24 * 60 * 60 * 1000"

definition cookie_pairs :: "request \<Rightarrow> string list" where
  "cookie_pairs rq =
     concat (map (split_on (CHR '';''))
       (List.map_filter (\<lambda>(name, v). if name = ''cookie'' then to_str v else None) (rq_headers rq)))"

definition session_pair :: "string \<Rightarrow> string option" where
  "session_pair p =
     (case split_once ''='' (trim p) of
        Some (name, value) \<Rightarrow> if name = SESSION_COOKIE \<and> value \<noteq> [] then Some value else None
      | None \<Rightarrow> None)"

definition session_token :: "request \<Rightarrow> string option" where
  "session_token rq = (case List.map_filter session_pair (cookie_pairs rq) of [] \<Rightarrow> None | t # _ \<Rightarrow> Some t)"

text \<open>\<open>HeaderValue::from_str\<close>: no control characters but tabs.\<close>

definition session_cookie :: "string \<Rightarrow> string + string" where
  "session_cookie token =
     (let v = SESSION_COOKIE @ ''='' @ token @ ''; Path=/; HttpOnly; SameSite=Strict; Max-Age='' @ show_int (SESSION_TTL_MS div 1000)
      in if list_all (\<lambda>c. 32 \<le> byte c \<and> byte c \<noteq> 127 \<or> byte c = 9) v then Inr v
         else Inl ''session cookie: failed to parse header value'')"

definition cleared_session_cookie :: string where
  "cleared_session_cookie = ''hunter_session=; Path=/; HttpOnly; SameSite=Strict; Max-Age=0''"

section \<open>Administration\<close>

definition checked :: "string + unit \<Rightarrow> unit io" where
  "checked r = (case r of Inl e \<Rightarrow> err e | Inr _ \<Rightarrow> ok ())"

definition hash_off_runtime :: "crypto \<Rightarrow> string \<Rightarrow> string io" where
  "hash_off_runtime C password = do {
     n \<leftarrow> look w_calls;
     (case cy_hash C n password of Inl e \<Rightarrow> err (''hashing password: '' @ e) | Inr h \<Rightarrow> ok h) }"

definition add_user :: "crypto \<Rightarrow> string \<Rightarrow> string \<Rightarrow> int io" where
  "add_user C username password =
     and_then (checked (validate_username C username)) (\<lambda>_.
     and_then (checked (validate_password password)) (\<lambda>_.
     and_then (hash_off_runtime C password) (\<lambda>h.
       call_r (\<lambda>now. create_user C now username h))))"

definition no_user :: "crypto \<Rightarrow> string \<Rightarrow> bool \<Rightarrow> unit io" where
  "no_user C username found = (if found then ok () else err (''no user '' @ cy_debug C username))"

definition change_password :: "crypto \<Rightarrow> string \<Rightarrow> string \<Rightarrow> unit io" where
  "change_password C username password =
     and_then (checked (validate_password password)) (\<lambda>_.
     and_then (hash_off_runtime C password) (\<lambda>h.
     and_then (call (\<lambda>_. set_password username h)) (no_user C username)))"

definition disable_user :: "crypto \<Rightarrow> string \<Rightarrow> unit io" where
  "disable_user C username = and_then (call (\<lambda>now. disable_user_row now username)) (no_user C username)"

section \<open>Login, logout and the guard\<close>

definition LOGIN_REQUIRED :: string where "LOGIN_REQUIRED = ''login required''"
definition BAD_LOGIN :: string where "BAD_LOGIN = ''invalid username or password''"

definition DECOY_HASH :: string where
  "DECOY_HASH = ''$argon2id$v=19$m=19456,t=2,p=1$8ctNPuHuM+GaQyKfs/iUDw$j+UIhOp01a87bkTUl0syGOfnWfbPi9y2Pgc8qx/LjT4''"

definition string_field :: "json \<Rightarrow> string \<Rightarrow> api_error + string" where
  "string_field body key =
     (case str_field body key of Some s \<Rightarrow> Inr s | None \<Rightarrow> Inl (BadRequest (key @ '' must be a string'')))"

text \<open>An error of the password check or of the token is no store error.\<close>

definition internal :: "'a io \<Rightarrow> 'a api" where
  "internal m = do { r \<leftarrow> m; case r of Inl e \<Rightarrow> refused (Internal e) | Inr x \<Rightarrow> answer x }"

text \<open>The user's name, and the cookie.\<close>

definition login_as :: "crypto \<Rightarrow> current_user \<Rightarrow> (string \<times> string) api" where
  "login_as C user =
     api_then (internal (new_session_token C)) (\<lambda>token. do {
       now \<leftarrow> look (\<lambda>w. w_now w (w_calls w));
       api_then (stored (row_call (\<lambda>t. create_session t (us_id user) (cy_digest C token) (now + SESSION_TTL_MS)))) (\<lambda>_.
       api_then (internal (State_Monad.return (session_cookie token))) (\<lambda>cookie.
         answer (us_name user, cookie))) })"

definition login :: "crypto \<Rightarrow> (string \<Rightarrow> string + json) \<Rightarrow> request \<Rightarrow> (string \<times> string) api" where
  "login C parse rq =
     api_then (given (post_body parse rq)) (\<lambda>body.
     api_then (given (string_field body ''username'')) (\<lambda>username.
     api_then (given (string_field body ''password'')) (\<lambda>password.
     api_then (stored (query (login_candidate username))) (\<lambda>candidate.
       (let matches = cy_verify C password (case candidate of Some (_, h) \<Rightarrow> h | None \<Rightarrow> DECOY_HASH)
        in case candidate of
             Some (user, _) \<Rightarrow> if matches then login_as C user else refused (Unauthorized BAD_LOGIN)
           | None \<Rightarrow> refused (Unauthorized BAD_LOGIN))))))"

definition logout :: "crypto \<Rightarrow> request \<Rightarrow> string api" where
  "logout C rq =
     api_then (given (post_gate rq)) (\<lambda>_.
     api_then (case session_token rq of
                 Some token \<Rightarrow> stored (exec (\<lambda>_. delete_session (cy_digest C token)))
               | None \<Rightarrow> answer ()) (\<lambda>_.
       answer cleared_session_cookie))"

definition require_session :: "crypto \<Rightarrow> request \<Rightarrow> current_user api" where
  "require_session C rq =
     (case session_token rq of
        None \<Rightarrow> refused (Unauthorized LOGIN_REQUIRED)
      | Some token \<Rightarrow> do {
          now \<leftarrow> look (\<lambda>w. w_now w (w_calls w));
          api_then (stored (query (session_user (cy_digest C token) now))) (\<lambda>found.
            case found of Some user \<Rightarrow> answer user | None \<Rightarrow> refused (Unauthorized LOGIN_REQUIRED)) })"

end
