(* ===== verification/Operator.thy ===== *)
theory Operator
  imports Accounts Cycle
begin

text \<open>
The operator's writes to findings and to the scheduler (\<open>server.rs\<close>): verdicts, rechecks, the fix queue, budget overrides and
the loop's switches.

A handler answers with the rows it read back, and says whether it woke the scheduler's loop; the flags of the loop are the state
\<open>scheduler\<close>. The write half of a handler is a definition of its own (\<open>apply_verdict\<close>, \<open>apply_recheck\<close>, \<open>apply_unqueue\<close>): it runs
on the row as it was read, in whatever state the store is by then.
\<close>

section \<open>Answers\<close>

datatype body =
  Ok_finding finding
| Queued_finding finding
| Cleared_overrides int
| Ok_repo repo
| Ok_only
| Ok_notes string
| Started
| Paused bool
| Overdrive bool
| Error_text string

record reply =
  re_status :: nat
  re_body :: body
  re_wake :: bool

definition replied :: "nat \<Rightarrow> body \<Rightarrow> bool \<Rightarrow> reply" where
  "replied status b wake = \<lparr>re_status = status, re_body = b, re_wake = wake\<rparr>"

record scheduler =
  sd_running :: bool
  sd_paused :: bool
  sd_overdrive :: bool
  sd_wake :: bool

record server =
  sv_parse :: "string \<Rightarrow> string + json"
  sv_show :: "json \<Rightarrow> string"
  sv_crypto :: crypto
  sv_config :: config
  sv_backend :: backend
  sv_status_html :: "string io"
  sv_reason :: "reason \<Rightarrow> string"
  sv_context :: "string \<Rightarrow> int option"
  sv_canonical :: "disk \<Rightarrow> string \<Rightarrow> string option"

section \<open>Store calls of the API\<close>

definition log_user_event :: "current_user \<Rightarrow> string \<Rightarrow> string \<Rightarrow> int option \<Rightarrow> unit io" where
  "log_user_event user kind message fid = exec (\<lambda>now. insert_event now kind message None fid (Some (us_id user)))"

definition fetch_finding :: "int \<Rightarrow> finding api" where
  "fetch_finding fid =
     api_then (stored (query (\<lambda>d. get_finding d fid))) (\<lambda>found.
       case found of Some f \<Rightarrow> answer f | None \<Rightarrow> refused (NotFoundError (''no finding '' @ show_int fid)))"

definition fetch_repo :: "int \<Rightarrow> repo api" where
  "fetch_repo rid =
     api_then (stored (query (get_repo_by_id rid))) (\<lambda>found.
       case found of Some r \<Rightarrow> answer r | None \<Rightarrow> refused (NotFoundError (''no repo '' @ show_int rid)))"

definition changed_meanwhile :: "int \<Rightarrow> string \<Rightarrow> api_error" where
  "changed_meanwhile fid what = ConflictError (''finding #'' @ show_int fid @ '' changed while '' @ what @ ''; reload and retry'')"

section \<open>Verdicts\<close>

definition verdict_status_of :: "json \<Rightarrow> api_error + finding_status" where
  "verdict_status_of body =
     (case find (\<lambda>s. finding_status_str s = unwrap_or (str_field body ''status'') []) (filter is_verdict finding_status_all) of
        Some s \<Rightarrow> Inr s
      | None \<Rightarrow> Inl (BadRequest ''status must be one of ['queued', 'rejected', 'wontfix', 'note']''))"

text \<open>A text trimmed, absent when blank; anything Python would call false is absent too.\<close>

definition verdict_reason_of :: "json \<Rightarrow> api_error + string option" where
  "verdict_reason_of body =
     (case json_get body ''reason'' of
        None \<Rightarrow> Inr None
      | Some JNull \<Rightarrow> Inr None
      | Some (JString s) \<Rightarrow> Inr (if trim s = [] then None else Some (trim s))
      | Some v \<Rightarrow> if python_truthy v then Inl (BadRequest ''reason must be a string'') else Inr None)"

definition required_reason :: "finding_status \<Rightarrow> string option \<Rightarrow> api_error + unit" where
  "required_reason status reason =
     (if reason_required status \<and> reason = None
      then Inl (BadRequest (''reason required for status '' @ [CHR 0x27] @ finding_status_str status @ [CHR 0x27]))
      else Inr ())"

definition not_awaiting :: "finding \<Rightarrow> api_error" where
  "not_awaiting f = BadRequest (''finding #'' @ show_int (f_id f) @ '' is '' @ [CHR 0x27] @ finding_status_str (f_status f) @
     [CHR 0x27] @ ''; a verdict applies only to new, blocked, note or closed findings, and must change its status'')"

text \<open>The write, on the row as it was read.\<close>

definition apply_verdict :: "current_user \<Rightarrow> finding \<Rightarrow> finding_status \<Rightarrow> string option \<Rightarrow> reply api" where
  "apply_verdict user f status reason =
     (let fid = f_id f
      in if \<not> awaits_verdict (f_status f) \<or> f_status f = status then refused (not_awaiting f)
         else
           api_then (stored (case reason of
               Some r \<Rightarrow> call (\<lambda>now. set_verdict_if now fid (f_status f) status r)
             | None \<Rightarrow> call (\<lambda>now. claim_in_progress now fid (f_status f) status))) (\<lambda>applied.
           if \<not> applied then refused (changed_meanwhile fid ''the verdict was being applied'')
           else
             api_then (stored (log_user_event user ''verdict''
                 (''finding '' @ show_int fid @ '' ['' @ f_fingerprint f @ ''] -> '' @ finding_status_str status @
                  (case reason of Some r \<Rightarrow> '': '' @ r | None \<Rightarrow> [])) (Some fid))) (\<lambda>_.
             api_then (fetch_finding fid) (\<lambda>refreshed.
               answer (replied 200 (Ok_finding refreshed) True)))))"

definition verdict_handler :: "server \<Rightarrow> current_user \<Rightarrow> request \<Rightarrow> reply api" where
  "verdict_handler V user rq =
     api_then (given (post_body (sv_parse V) rq)) (\<lambda>body.
     api_then (given (require_int body ''id'' ''id must be an integer'')) (\<lambda>fid.
     api_then (given (verdict_status_of body)) (\<lambda>status.
     api_then (given (verdict_reason_of body)) (\<lambda>reason.
     api_then (given (required_reason status reason)) (\<lambda>_.
     api_then (fetch_finding fid) (\<lambda>f.
       apply_verdict user f status reason))))))"

section \<open>Rechecks and the queue\<close>

definition moved_by_operator ::
  "current_user \<Rightarrow> finding \<Rightarrow> finding_status \<Rightarrow> finding_status \<Rightarrow> string \<Rightarrow> string \<Rightarrow> string \<Rightarrow> (finding \<Rightarrow> body) \<Rightarrow> reply api" where
  "moved_by_operator user f from_status to_status kind note what b =
     (let fid = f_id f
      in if f_status f \<noteq> from_status
         then refused (BadRequest (''finding #'' @ show_int fid @ '' is '' @ [CHR 0x27] @ finding_status_str (f_status f) @
                [CHR 0x27] @ '', not '' @ [CHR 0x27] @ finding_status_str from_status @ [CHR 0x27]))
         else
           api_then (stored (call (\<lambda>now. claim_in_progress now fid from_status to_status))) (\<lambda>claimed.
           if \<not> claimed then refused (changed_meanwhile fid what)
           else
             api_then (stored (log_user_event user kind (''#'' @ show_int fid @ note) (Some fid))) (\<lambda>_.
             api_then (fetch_finding fid) (\<lambda>refreshed.
               answer (replied 200 (b refreshed) True)))))"

definition apply_recheck :: "current_user \<Rightarrow> finding \<Rightarrow> reply api" where
  "apply_recheck user f =
     moved_by_operator user f New Rechecking ''recheck'' '' queued for recheck'' ''it was being queued for recheck'' Queued_finding"

definition apply_unqueue :: "current_user \<Rightarrow> finding \<Rightarrow> reply api" where
  "apply_unqueue user f =
     moved_by_operator user f Queued New ''unqueue'' '' removed from fix queue'' ''it was being unqueued'' Ok_finding"

definition recheck_handler :: "server \<Rightarrow> current_user \<Rightarrow> request \<Rightarrow> reply api" where
  "recheck_handler V user rq =
     api_then (given (post_body (sv_parse V) rq)) (\<lambda>body.
     api_then (given (require_int body ''id'' ''id must be an integer'')) (\<lambda>fid.
     api_then (fetch_finding fid) (apply_recheck user)))"

definition unqueue_handler :: "server \<Rightarrow> current_user \<Rightarrow> request \<Rightarrow> reply api" where
  "unqueue_handler V user rq =
     api_then (given (post_body (sv_parse V) rq)) (\<lambda>body.
     api_then (given (require_int body ''id'' ''id must be an integer'')) (\<lambda>fid.
     api_then (fetch_finding fid) (apply_unqueue user)))"

section \<open>Budget overrides\<close>

definition override_mode_of :: "json \<Rightarrow> api_error + budget_override option" where
  "override_mode_of v =
     (if v = JNull then Inr None
      else case map_option budget_override_of_text (as_str v) of
        Some (Inr mode) \<Rightarrow> Inr (Some mode)
      | _ \<Rightarrow> Inl (BadRequest ''mode must be 'once', 'exempt', or null''))"

definition clear_overrides :: "current_user \<Rightarrow> reply api" where
  "clear_overrides user =
     api_then (stored (call clear_all_overrides)) (\<lambda>n.
     api_then (stored (log_user_event user ''override'' (''cleared all budget overrides ('' @ show_int n @ '' findings)'') None)) (\<lambda>_.
       answer (replied 200 (Cleared_overrides n) False)))"

definition override_handler :: "server \<Rightarrow> current_user \<Rightarrow> request \<Rightarrow> reply api" where
  "override_handler V user rq =
     api_then (given (post_body (sv_parse V) rq)) (\<lambda>body.
       (let v = unwrap_or (json_get body ''mode'') JNull
        in if str_field body ''id'' = Some ''all'' \<and> v = JNull then clear_overrides user
           else
             api_then (given (require_int body ''id'' ''id must be an integer (or 'all' with mode=null)'')) (\<lambda>fid.
             api_then (given (override_mode_of v)) (\<lambda>mode.
             api_then (fetch_finding fid) (\<lambda>_.
             api_then (stored (exec (\<lambda>now. set_budget_override now fid mode))) (\<lambda>_.
             api_then (stored (log_user_event user ''override'' (''#'' @ show_int fid @ '' budget override: '' @
                 (case mode of Some m \<Rightarrow> budget_override_str m | None \<Rightarrow> ''cleared'')) (Some fid))) (\<lambda>_.
             api_then (fetch_finding fid) (\<lambda>refreshed.
               answer (replied 200 (Ok_finding refreshed) (mode \<noteq> None))))))))))"

section \<open>The loop's switches\<close>

definition cycle_handler :: "scheduler \<Rightarrow> request \<Rightarrow> reply api" where
  "cycle_handler s rq =
     api_then (given (post_gate rq)) (\<lambda>_. answer
       (if sd_paused s then replied 409 (Error_text ''paused'') False
        else if sd_running s then replied 409 (Error_text ''busy'') False
        else replied 202 Started True))"

definition bool_field :: "json \<Rightarrow> string \<Rightarrow> api_error + bool" where
  "bool_field body key =
     (case Option.bind (json_get body key) as_bool of Some b \<Rightarrow> Inr b | None \<Rightarrow> Inl (BadRequest (key @ '' must be a boolean'')))"

text \<open>What the reply says is what the flag is set to.\<close>

definition set_scheduler_paused :: "server \<Rightarrow> request \<Rightarrow> reply api" where
  "set_scheduler_paused V rq =
     api_then (given (post_body (sv_parse V) rq)) (\<lambda>body.
     api_then (given (bool_field body ''paused'')) (\<lambda>b. answer (replied 200 (Paused b) True)))"

definition set_scheduler_overdrive :: "server \<Rightarrow> request \<Rightarrow> reply api" where
  "set_scheduler_overdrive V rq =
     api_then (given (post_body (sv_parse V) rq)) (\<lambda>body.
     api_then (given (bool_field body ''enabled'')) (\<lambda>b. answer (replied 200 (Overdrive b) True)))"

definition after_reply :: "reply \<Rightarrow> scheduler \<Rightarrow> scheduler" where
  "after_reply r s =
     (let s1 = (case re_body r of Paused b \<Rightarrow> s\<lparr>sd_paused := b\<rparr> | Overdrive b \<Rightarrow> s\<lparr>sd_overdrive := b\<rparr> | _ \<Rightarrow> s)
      in if re_wake r then s1\<lparr>sd_wake := True\<rparr> else s1)"

end
