(* ===== verification/RepoApi.thy ===== *)
theory RepoApi
  imports Operator Notes
begin

text \<open>
Repositories in the API (\<open>server.rs\<close>, and their rows in \<open>store.rs\<close>): adding and changing one, its notes, a full re-hunt, deletion in
two phases with the reaper behind it, and the move of notes out of the clones.

The mutex around a repository's notes is not in the model: a handler here runs to its end before another starts on the notes.
\<close>

section \<open>URLs and names of repositories\<close>

definition is_ascii_alphabetic :: "char \<Rightarrow> bool" where
  "is_ascii_alphabetic c \<longleftrightarrow> is_ascii_upper c \<or> is_ascii_lower c"

definition looks_like_scheme :: "string \<Rightarrow> bool" where
  "looks_like_scheme scheme \<longleftrightarrow>
     (case scheme of [] \<Rightarrow> False | c # _ \<Rightarrow> is_ascii_alphabetic c) \<and>
     list_all (\<lambda>c. is_ascii_alphanumeric c \<or> c \<in> {CHR ''+'', CHR ''-'', CHR ''.''}) scheme"

definition valid_repo_url :: "string \<Rightarrow> bool" where
  "valid_repo_url url \<longleftrightarrow>
     \<not> starts_with ''-'' url \<and>
     (case find_sub '':'' url of
        None \<Rightarrow> True
      | Some colon \<Rightarrow>
          (let scheme = take colon url
           in \<not> looks_like_scheme scheme \<or> list_ex (eq_ignore_ascii_case scheme) [''http'', ''https'', ''ssh'']))"

definition MAX_REPO_NAME_CHARS :: nat where "MAX_REPO_NAME_CHARS = 100"

text \<open>The UTF-8 of the separators and the bidirectional controls; in a valid text a code point's bytes occur where it does.\<close>

definition chars_between :: "nat list \<Rightarrow> nat \<Rightarrow> nat \<Rightarrow> string list" where
  "chars_between start a b = map (\<lambda>n. map char_of (start @ [n])) [a..<Suc b]"

definition HIDDEN_CHARS :: "string list" where
  "HIDDEN_CHARS =
     chars_between [0xC2] 0x80 0x9F @
     chars_between [0xE2, 0x80] 0xA8 0xA9 @
     chars_between [0xD8] 0x9C 0x9C @ chars_between [0xE2, 0x80] 0x8E 0x8F @
     chars_between [0xE2, 0x80] 0xAA 0xAE @
     chars_between [0xE2, 0x81] 0xA6 0xA9"

definition valid_repo_name :: "string \<Rightarrow> bool" where
  "valid_repo_name name \<longleftrightarrow>
     name \<noteq> [] \<and> char_count name \<le> MAX_REPO_NAME_CHARS \<and>
     \<not> list_ex (\<lambda>c. byte c < 32 \<or> byte c = 127) name \<and>
     \<not> list_ex (\<lambda>h. contains_sub h name) HIDDEN_CHARS"

section \<open>Rows of repositories\<close>

definition repo_dir :: "string \<Rightarrow> int \<Rightarrow> string" where
  "repo_dir repos_dir rid = path_join repos_dir (''repo-'' @ show_int rid)"

text \<open>The name is unique among all rows, flagged ones included; ids are never reissued.\<close>

definition new_repo :: "millis \<Rightarrow> int \<Rightarrow> string \<Rightarrow> string \<Rightarrow> string \<Rightarrow> string \<Rightarrow> forge_name \<Rightarrow> repo" where
  "new_repo now rid name url path branch forge =
     \<lparr>r_id = rid, r_name = name, r_url = url, r_path = path, r_forge = forge, r_default_branch = branch,
       r_last_hunt_sha = None, r_last_hunt_at = None, r_enabled = 1, r_added_at = now, r_last_full_hunt_at = None,
       r_last_test_gap_at = None, r_last_dep_update_at = None, r_last_refactor_at = None, r_last_modernization_at = None,
       r_last_standards_at = None, r_full_hunt_requested_at = None, r_full_hunt_request_attempted = None,
       r_deleted_at = None\<rparr>"

definition add_repo_row ::
  "millis \<Rightarrow> string \<Rightarrow> string \<Rightarrow> string \<Rightarrow> string \<Rightarrow> forge_name \<Rightarrow> db \<Rightarrow> (string + int) \<times> db" where
  "add_repo_row now name url repos_dir branch forge d =
     (if name \<in> r_name ` set (db_repos d) then (Inl ''UNIQUE constraint failed: repos.name'', d)
      else
        (let rid = db_repo_seq d + 1
         in (Inr rid, d\<lparr>db_repo_seq := rid, db_repos := db_repos d @
              [new_repo now rid name url (repo_dir repos_dir rid) branch forge]\<rparr>)))"

record repo_update =
  ru_enabled :: "int option"
  ru_url :: "string option"
  ru_branch :: "string option"
  ru_forge :: "forge_name option"
  ru_name :: "string option"

text \<open>The API sets no name; another row's would break the constraint on it.\<close>

definition update_repo_row :: "int \<Rightarrow> repo_update \<Rightarrow> db \<Rightarrow> (string + unit) \<times> db" where
  "update_repo_row rid u d =
     (if ru_enabled u = None \<and> ru_url u = None \<and> ru_branch u = None \<and> ru_forge u = None \<and> ru_name u = None then (Inr (), d)
      else if list_ex (\<lambda>r. r_id r \<noteq> rid \<and> ru_name u = Some (r_name r)) (db_repos d) \<and> get_repo_row d rid \<noteq> None
      then (Inl ''UNIQUE constraint failed: repos.name'', d)
      else (Inr (), upd_repo rid (\<lambda>r. r\<lparr>r_enabled := unwrap_or (ru_enabled u) (r_enabled r), r_url := unwrap_or (ru_url u) (r_url r),
             r_default_branch := unwrap_or (ru_branch u) (r_default_branch r), r_forge := unwrap_or (ru_forge u) (r_forge r),
             r_name := unwrap_or (ru_name u) (r_name r)\<rparr>) d))"

definition repo_is_deleted :: "int \<Rightarrow> db \<Rightarrow> bool" where
  "repo_is_deleted rid d \<longleftrightarrow> 0 < rows_affected (\<lambda>r. r_id r = rid \<and> r_deleted_at r \<noteq> None) (db_repos d)"

definition deleted_repo_ids :: "db \<Rightarrow> int list" where
  "deleted_repo_ids d =
     map r_id (sort_key (\<lambda>r. unwrap_or (r_deleted_at r) 0) (filter (\<lambda>r. r_deleted_at r \<noteq> None) (db_repos d)))"


section \<open>Changing a repository\<close>

text \<open>The fields of the body that can be used, and what the event says of each; the others are dropped.\<close>

definition trimmed_field :: "json \<Rightarrow> string \<Rightarrow> string option" where
  "trimmed_field body key =
     (case str_field body key of Some s \<Rightarrow> if trim s = [] then None else Some (trim s) | None \<Rightarrow> None)"

definition repo_update_of :: "json \<Rightarrow> api_error + repo_update" where
  "repo_update_of body =
     (let enabled = map_option (\<lambda>v. if python_truthy v then 1 else 0) (json_get body ''enabled'');
          url = trimmed_field body ''url'';
          forge = (case str_field body ''forge'' of
                     Some s \<Rightarrow> (case forge_name_of_text (trim s) of Inr f \<Rightarrow> Some f | Inl _ \<Rightarrow> None)
                   | None \<Rightarrow> None)
      in case url of
           Some u \<Rightarrow> if valid_repo_url u
                     then Inr \<lparr>ru_enabled = enabled, ru_url = url, ru_branch = trimmed_field body ''default_branch'', ru_forge = forge, ru_name = None\<rparr>
                     else Inl (BadRequest ''url must be http(s) or an ssh clone URL'')
         | None \<Rightarrow> Inr \<lparr>ru_enabled = enabled, ru_url = None, ru_branch = trimmed_field body ''default_branch'', ru_forge = forge, ru_name = None\<rparr>)"

definition update_action :: "repo_update \<Rightarrow> string list" where
  "update_action u =
     part ''enabled'' (map_option show_int (ru_enabled u)) @ part ''url'' (ru_url u) @
     part ''default_branch'' (ru_branch u) @ part ''forge'' (map_option forge_name_str (ru_forge u))"

text \<open>The clone's origin follows the URL, if it still is the old one.\<close>

definition repoint_clone_origin :: "string \<Rightarrow> string \<Rightarrow> string \<Rightarrow> unit act" where
  "repoint_clone_origin dir old_url new_url = do {
     cloned \<leftarrow> look (\<lambda>w. path_exists w (path_join dir ''.git''));
     (if \<not> cloned then State_Monad.return ()
      else do {
        (rc, out) \<leftarrow> shell [''git'', ''-C'', dir, ''config'', ''--get'', ''remote.origin.url''];
        (if rc \<noteq> 0 \<or> trim out \<noteq> old_url then State_Monad.return ()
         else do {
           _ \<leftarrow> shell [''git'', ''-C'', dir, ''remote'', ''set-url'', ''origin'', new_url];
           State_Monad.return () }) }) }"

definition update_repo_handler :: "server \<Rightarrow> current_user \<Rightarrow> request \<Rightarrow> reply api" where
  "update_repo_handler V user rq =
     api_then (given (post_body (sv_parse V) rq)) (\<lambda>body.
     api_then (given (require_int body ''id'' ''id must be an integer'')) (\<lambda>rid.
     api_then (fetch_repo rid) (\<lambda>r.
     api_then (given (repo_update_of body)) (\<lambda>u.
       if update_action u = [] then refused (BadRequest ''no valid fields to update'')
       else
         api_then (stored (row_call (\<lambda>_. update_repo_row rid u))) (\<lambda>_. do {
           _ \<leftarrow> (case ru_url u of
                   Some new \<Rightarrow> if new \<noteq> r_url r then repoint_clone_origin (r_path r) (r_url r) new else State_Monad.return ()
                 | None \<Rightarrow> State_Monad.return ());
           api_then (stored (log_user_event user ''repo''
               (''updated '' @ r_name r @ '': '' @ join '', '' (update_action u)) None)) (\<lambda>_.
           api_then (fetch_repo rid) (\<lambda>refreshed. answer (replied 200 (Ok_repo refreshed) False))) })))))"

section \<open>Adding a repository\<close>

definition added_url :: "json \<Rightarrow> api_error + string" where
  "added_url body =
     (let url = trim (unwrap_or (str_field body ''url'') [])
      in if url = [] then Inl (BadRequest ''name and url are required'')
         else if valid_repo_url url then Inr url
         else Inl (BadRequest ''url must be http(s) or an ssh clone URL''))"

definition added_name :: "json \<Rightarrow> api_error + string" where
  "added_name body =
     (let name = trim (unwrap_or (str_field body ''name'') [])
      in if valid_repo_name name then Inr name else Inl (BadRequest ''invalid repo name''))"

definition added_forge :: "(json \<Rightarrow> string) \<Rightarrow> json \<Rightarrow> string \<Rightarrow> api_error + forge_name" where
  "added_forge show_json body url =
     (case json_get body ''forge'' of
        Some v \<Rightarrow>
          if \<not> python_truthy v then Inr (detect_forge url)
          else (let unknown = (\<lambda>shown. Inl (BadRequest (''unknown forge '' @ [CHR 0x27] @ shown @ [CHR 0x27] @
                                 '' (choose from github, gitlab)'')))
                in case as_str v of
                     Some f \<Rightarrow> (case forge_name_of_text f of Inr fg \<Rightarrow> Inr fg | Inl _ \<Rightarrow> unknown f)
                   | None \<Rightarrow> unknown (show_json v))
      | None \<Rightarrow> Inr (detect_forge url))"

text \<open>A name of digits is looked up as an id.\<close>

definition lookup_repo :: "string \<Rightarrow> repo option io" where
  "lookup_repo key =
     (if list_all is_ascii_digit key
      then (case parse_i64 key of Some rid \<Rightarrow> query (get_repo_by_id rid) | None \<Rightarrow> ok None)
      else query (get_repo_by_name key))"

definition add_repo_handler :: "server \<Rightarrow> current_user \<Rightarrow> request \<Rightarrow> reply api" where
  "add_repo_handler V user rq =
     api_then (given (post_body (sv_parse V) rq)) (\<lambda>body.
     api_then (given (added_name body)) (\<lambda>name.
     api_then (given (added_url body)) (\<lambda>url.
       (let branch = unwrap_or (trimmed_field body ''branch'') ''main'';
            repos_dir = path_join (cf_work_root (sv_config V)) ''repos''
        in api_then (given (added_forge (sv_show V) body url)) (\<lambda>forge.
           api_then (stored (lookup_repo name)) (\<lambda>existing.
             if existing \<noteq> None then refused (ConflictError (''repo '' @ [CHR 0x27] @ name @ [CHR 0x27] @ '' already exists''))
             else
               api_then (stored (row_call (\<lambda>now. add_repo_row now name url repos_dir branch forge))) (\<lambda>rid.
               api_then (stored (log_user_event user ''repo''
                   (''added '' @ name @ '' ('' @ forge_name_str forge @ '') -> '' @ repo_dir repos_dir rid) None)) (\<lambda>_.
               api_then (fetch_repo rid) (\<lambda>r. answer (replied 201 (Ok_repo r) False))))))))))"

section \<open>Deleting a repository\<close>

definition unless_missing :: "unit io \<Rightarrow> unit io" where
  "unless_missing m = do { r \<leftarrow> m; case r of Inl e \<Rightarrow> if e = NOT_FOUND then ok () else err e | Inr _ \<Rightarrow> ok () }"

text \<open>The files first, the row last.\<close>

definition reap_repo :: "string \<Rightarrow> int \<Rightarrow> unit io" where
  "reap_repo repos_dir rid =
     and_then (unless_missing (remove_dir_all (repo_dir repos_dir rid))) (\<lambda>_.
     and_then (case parent_dir repos_dir of
                 Some work_root \<Rightarrow> unless_missing (remove_file (notes_path work_root rid))
               | None \<Rightarrow> ok ()) (\<lambda>_.
     row_call (\<lambda>_. forget_deleted_repo rid)))"

fun reap_each :: "string \<Rightarrow> int list \<Rightarrow> nat \<Rightarrow> nat act" where
  "reap_each repos_dir [] n = State_Monad.return n"
| "reap_each repos_dir (rid # rids) n = do {
     r \<leftarrow> reap_repo repos_dir rid;
     reap_each repos_dir rids (case r of Inr _ \<Rightarrow> Suc n | Inl _ \<Rightarrow> n) }"

definition reap_deleted_repos :: "string \<Rightarrow> nat act" where
  "reap_deleted_repos work_root = do {
     ids \<leftarrow> query deleted_repo_ids;
     reap_each (path_join work_root ''repos'') (result_or ids []) 0 }"

definition soft_deleted :: "int \<Rightarrow> unit api" where
  "soft_deleted rid =
     api_then (stored (call (\<lambda>now. soft_delete_repo now rid))) (\<lambda>r.
       case r of Inl e \<Rightarrow> refused (store_error e) | Inr _ \<Rightarrow> answer ())"

definition delete_repo_handler :: "server \<Rightarrow> current_user \<Rightarrow> request \<Rightarrow> reply api" where
  "delete_repo_handler V user rq =
     api_then (given (post_body (sv_parse V) rq)) (\<lambda>body.
     api_then (given (require_int body ''id'' ''id must be an integer'')) (\<lambda>rid.
       (let repos_dir = path_join (cf_work_root (sv_config V)) ''repos'';
            reaped = do { _ \<leftarrow> reap_repo repos_dir rid; answer (replied 200 Ok_only False) }
        in api_then (stored (query (get_repo_by_id rid))) (\<lambda>found.
             case found of
               None \<Rightarrow>
                 api_then (stored (query (repo_is_deleted rid))) (\<lambda>flagged.
                   if flagged then reaped else refused (NotFoundError (''no repo '' @ show_int rid)))
             | Some r \<Rightarrow>
                 api_then (soft_deleted rid) (\<lambda>_.
                 api_then (stored (log_user_event user ''repo'' (''deleted '' @ r_name r @ '' (#'' @ show_int rid @ '')'') None)) (\<lambda>_.
                   reaped))))))"

section \<open>A full re-hunt, and notes\<close>

definition rehunt_handler :: "server \<Rightarrow> current_user \<Rightarrow> request \<Rightarrow> reply api" where
  "rehunt_handler V user rq =
     api_then (given (post_body (sv_parse V) rq)) (\<lambda>body.
     api_then (given (require_int body ''id'' ''id must be an integer'')) (\<lambda>rid.
     api_then (fetch_repo rid) (\<lambda>r.
     api_then (stored (call (\<lambda>now. request_full_hunt now rid))) (\<lambda>there.
       if \<not> there then refused (NotFoundError (''no repo '' @ show_int rid))
       else
         api_then (stored (log_user_event user ''repo'' (''full re-hunt queued for '' @ r_name r) None)) (\<lambda>_.
         api_then (fetch_repo rid) (\<lambda>refreshed. answer (replied 200 (Ok_repo refreshed) True)))))))"

definition note_of :: "json \<Rightarrow> api_error + string" where
  "note_of body =
     (case trimmed_field body ''note'' of Some n \<Rightarrow> Inr n | None \<Rightarrow> Inl (BadRequest ''note must be a non-empty string''))"

definition note_category :: "json \<Rightarrow> api_error + string option" where
  "note_category body =
     (case json_get body ''category'' of
        None \<Rightarrow> Inr None
      | Some JNull \<Rightarrow> Inr None
      | Some (JString s) \<Rightarrow> Inr (if trim s = [] then None else Some (trim s))
      | Some _ \<Rightarrow> Inl (BadRequest ''category must be a string''))"

definition add_note_handler :: "server \<Rightarrow> current_user \<Rightarrow> request \<Rightarrow> reply api" where
  "add_note_handler V user rq =
     api_then (given (post_body (sv_parse V) rq)) (\<lambda>body.
     api_then (given (require_int body ''id'' ''id must be an integer'')) (\<lambda>rid.
     api_then (given (note_of body)) (\<lambda>note.
     api_then (given (note_category body)) (\<lambda>category.
     api_then (fetch_repo rid) (\<lambda>r.
     api_then (internal (append_repo_note (cf_work_root (sv_config V)) rid (r_name r) note category)) (\<lambda>notes.
     api_then (stored (log_user_event user ''repo''
         (''note added to '' @ r_name r @ (case category of Some c \<Rightarrow> '' ['' @ c @ '']'' | None \<Rightarrow> [])) None)) (\<lambda>_.
       answer (replied 201 (Ok_notes notes) False))))))))"

section \<open>Notes left in the clones\<close>

text \<open>\<open>std::fs::copy\<close> and \<open>rename\<close> of files, and \<open>Path::with_extension\<close>.\<close>

definition copy_file :: "string \<Rightarrow> string \<Rightarrow> unit io" where
  "copy_file src dst = disk_call (\<lambda>k.
     case k_files k src of
       None \<Rightarrow> (Inl NOT_FOUND, k)
     | Some t \<Rightarrow> (Inr (), k\<lparr>k_files := (k_files k)(dst \<mapsto> t)\<rparr>))"

definition rename_file :: "string \<Rightarrow> string \<Rightarrow> unit io" where
  "rename_file src dst = disk_call (\<lambda>k.
     case k_files k src of
       None \<Rightarrow> (Inl NOT_FOUND, k)
     | Some t \<Rightarrow> (Inr (), k\<lparr>k_files := ((k_files k)(src := None))(dst \<mapsto> t)\<rparr>))"

definition with_extension :: "string \<Rightarrow> string \<Rightarrow> string" where
  "with_extension p ext =
     (case rsplit_once ''.'' (file_name p) of
        Some (stem, old) \<Rightarrow> if stem = [] then p @ ''.'' @ ext else take (length p - length old) p @ ext
      | None \<Rightarrow> p @ ''.'' @ ext)"

text \<open>The three steps that put a file at a new path whole, or leave the old one.\<close>

definition staged_move :: "string \<Rightarrow> string \<Rightarrow> string \<Rightarrow> unit io" where
  "staged_move old staged new =
     and_then (copy_file old staged) (\<lambda>_. and_then (rename_file staged new) (\<lambda>_. ok ()))"

definition park_notes :: "string \<Rightarrow> string \<Rightarrow> unit act" where
  "park_notes old new = do {
     r \<leftarrow> and_then (staged_move old (with_extension new ''legacy.md.part'') (with_extension new ''legacy.md'')) (\<lambda>_. remove_file old);
     (if is_ok r then State_Monad.return () else ignore (remove_file (with_extension new ''legacy.md.part''))) }"

definition move_notes :: "string \<Rightarrow> string \<Rightarrow> bool act" where
  "move_notes old new = do {
     r \<leftarrow> staged_move old (with_extension new ''md.part'') new;
     (if is_ok r then do { gone \<leftarrow> remove_file old; State_Monad.return (is_ok gone) }
      else do { _ \<leftarrow> remove_file (with_extension new ''md.part''); State_Monad.return False }) }"

definition clone_id :: "string \<Rightarrow> int option" where
  "clone_id dir = Option.bind (strip_prefix ''repo-'' (file_name dir)) parse_i64"

text \<open>Whether a file was moved out of one clone.\<close>

definition migrate_clone :: "string \<Rightarrow> string \<Rightarrow> bool act" where
  "migrate_clone work_root dir =
     (case clone_id dir of
        None \<Rightarrow> State_Monad.return False
      | Some rid \<Rightarrow>
          (let old = path_join dir ''NOTES.md''; new = notes_path work_root rid
           in do {
             there \<leftarrow> look (\<lambda>w. k_files (w_disk w) old \<noteq> None);
             (if \<not> there then State_Monad.return False
              else do {
                (rc, _) \<leftarrow> shell_in (Some dir) [''git'', ''ls-files'', ''--error-unmatch'', ''--'', ''NOTES.md''];
                (if rc \<noteq> 1 then State_Monad.return False
                 else do {
                   made \<leftarrow> (case parent_dir new of Some p \<Rightarrow> create_dir_all p | None \<Rightarrow> ok ());
                   (if \<not> is_ok made then State_Monad.return False
                    else do {
                      current \<leftarrow> look (\<lambda>w. path_exists w new);
                      (if current then do { _ \<leftarrow> park_notes old new; State_Monad.return False }
                       else move_notes old new) }) }) }) }))"

fun migrate_each :: "string \<Rightarrow> string list \<Rightarrow> nat \<Rightarrow> nat act" where
  "migrate_each work_root [] n = State_Monad.return n"
| "migrate_each work_root (dir # dirs) n = do {
     moved \<leftarrow> migrate_clone work_root dir;
     migrate_each work_root dirs (if moved then Suc n else n) }"

definition migrate_repo_notes :: "string \<Rightarrow> nat act" where
  "migrate_repo_notes work_root = do {
     dirs \<leftarrow> look (\<lambda>w. child_dirs (path_join work_root ''repos'') (w_disk w));
     migrate_each work_root dirs 0 }"

end
