(* ===== verification/Views.thy ===== *)
theory Views
  imports RepoApi
begin

text \<open>
The reads of the API (\<open>server.rs\<close>) and the store's queries under them: the summary with the next candidate and the activity line, the
findings with their timelines, one finding, jobs, repositories, events and the statistics.

A view carries the rows and the computed keys a handler serialises; which keys serde leaves out is not modelled. SQLite's sums are
exact integers and rationals here; a group without an order of its own is listed by its key.
\<close>

section \<open>Rows with what is joined to them\<close>

record job_view =
  jv_job :: job
  jv_repo_name :: string
  jv_finding_summary :: "string option"
  jv_finding_fingerprint :: "string option"

record job_entry =
  je_job :: job_view
  je_produced :: "int list"

record event_view =
  ev_event :: event
  ev_username :: "string option"

definition joined_job :: "db \<Rightarrow> job \<Rightarrow> job_view option" where
  "joined_job d j =
     map_option (\<lambda>r. \<lparr>jv_job = j, jv_repo_name = r_name r, jv_finding_summary = None, jv_finding_fingerprint = None\<rparr>)
       (get_repo_row d (j_repo_id j))"

definition newest_jobs :: "(job \<Rightarrow> bool) \<Rightarrow> db \<Rightarrow> job_view list" where
  "newest_jobs P d = List.map_filter (joined_job d) (rev (sort_key j_id (filter P (db_jobs d))))"

text \<open>\<open>group_concat\<close> of the ids a job found, split and parsed again.\<close>

definition group_concat :: "string list \<Rightarrow> string option" where
  "group_concat xs = (if xs = [] then None else Some (join '','' xs))"

definition produced_ids :: "db \<Rightarrow> int \<Rightarrow> int list" where
  "produced_ids d jid =
     List.map_filter parse_i64 (split_on (CHR '','')
       (unwrap_or (group_concat (map (\<lambda>f. show_int (f_id f)) (filter (\<lambda>f. f_found_by_job f = Some jid) (db_findings d)))) []))"

definition list_jobs :: "nat \<Rightarrow> db \<Rightarrow> job_entry list" where
  "list_jobs n d =
     map (\<lambda>v. \<lparr>je_job = v, je_produced = produced_ids d (j_id (jv_job v))\<rparr>) (take n (newest_jobs (\<lambda>_. True) d))"

definition jobs_by_finding :: "int \<Rightarrow> db \<Rightarrow> job_view list" where
  "jobs_by_finding fid d = newest_jobs (\<lambda>j. j_finding_id j = Some fid) d"

definition current_job :: "db \<Rightarrow> job_view option" where
  "current_job d =
     (case newest_jobs (\<lambda>j. j_state j = JRunning) d of
        [] \<Rightarrow> None
      | v # _ \<Rightarrow>
          (let f = Option.bind (j_finding_id (jv_job v)) (get_finding d)
           in Some (v\<lparr>jv_finding_summary := map_option f_summary f, jv_finding_fingerprint := map_option f_fingerprint f\<rparr>)))"

definition event_by :: "db \<Rightarrow> event \<Rightarrow> event_view" where
  "event_by d e =
     \<lparr>ev_event = e,
      ev_username = Option.bind (e_user_id e) (\<lambda>uid. map_option u_username (find (\<lambda>u. u_id u = uid) (db_users d)))\<rparr>"

definition newest_events :: "(event \<Rightarrow> bool) \<Rightarrow> db \<Rightarrow> event list" where
  "newest_events P d = rev (sort_key e_id (filter P (db_events d)))"

definition recent_events :: "nat \<Rightarrow> db \<Rightarrow> event_view list" where
  "recent_events n d = map (event_by d) (take n (newest_events (\<lambda>_. True) d))"

definition last_cycle_event :: "db \<Rightarrow> event_view option" where
  "last_cycle_event d =
     (case newest_events (\<lambda>e. e_kind e = ''cycle'') d of [] \<Rightarrow> None | e # _ \<Rightarrow> Some \<lparr>ev_event = e, ev_username = None\<rparr>)"

definition scheduler_state :: "db \<Rightarrow> sched_state option" where
  "scheduler_state d = db_sched d"

definition push_entry :: "'k::linorder \<Rightarrow> 'v \<Rightarrow> ('k \<times> 'v list) list \<Rightarrow> ('k \<times> 'v list) list" where
  "push_entry k v m = btree_insert k (unwrap_or (map_of m k) [] @ [v]) m"

definition events_by_finding :: "int list \<Rightarrow> db \<Rightarrow> (int \<times> event_view list) list" where
  "events_by_finding ids d =
     (let rows = concat (map (\<lambda>e. map (\<lambda>_. event_by d e) (filter (\<lambda>i. e_finding_id e = Some i) ids)) (db_events d));
          grouped = fold (\<lambda>v m. case e_finding_id (ev_event v) of Some fid \<Rightarrow> push_entry fid v m | None \<Rightarrow> m) rows []
      in map (\<lambda>(fid, vs). (fid, sort_key (\<lambda>v. e_id (ev_event v)) vs)) grouped)"

definition finding_exists :: "int \<Rightarrow> db \<Rightarrow> bool" where
  "finding_exists fid d \<longleftrightarrow> 0 < rows_affected (\<lambda>f. f_id f = fid) (db_findings d)"

definition count_enabled_repos :: "db \<Rightarrow> int" where
  "count_enabled_repos d = int (length (filter (\<lambda>r. r_enabled r = 1 \<and> r_deleted_at r = None) (db_repos d)))"

section \<open>Counts\<close>

definition grouped_counts :: "string list \<Rightarrow> (string \<times> int) list \<Rightarrow> (string \<times> int) list" where
  "grouped_counts xs start = fold (\<lambda>x. btree_insert x (int (count_list xs x))) (remdups xs) start"

definition status_counts :: "db \<Rightarrow> (string \<times> int) list" where
  "status_counts d =
     grouped_counts (map (\<lambda>f. finding_status_str (f_status f)) (db_findings d))
       (fold (\<lambda>s. btree_insert (finding_status_str s) 0) finding_status_all [])"

definition type_counts :: "db \<Rightarrow> (string \<times> int) list" where
  "type_counts d = grouped_counts (map (\<lambda>f. finding_type_str (f_kind f)) (db_findings d)) []"

text \<open>\<open>SUM\<close> is null over no value, whatever the number of rows.\<close>

definition sql_sum :: "'a::comm_monoid_add option list \<Rightarrow> 'a option" where
  "sql_sum xs = (let vs = List.map_filter (\<lambda>x. x) xs in if vs = [] then None else Some (sum_list vs))"

definition sql_avg :: "int option list \<Rightarrow> rat option" where
  "sql_avg xs = map_option (\<lambda>n. of_int n / of_nat (length (List.map_filter (\<lambda>x. x) xs))) (sql_sum xs)"

definition in_state :: "job_state \<Rightarrow> job list \<Rightarrow> int option" where
  "in_state s js = sql_sum (map (\<lambda>j. Some (if j_state j = s then 1 else 0)) js)"

record stats_row =
  sr_jobs :: int
  sr_total_tokens :: "int option"
  sr_total_calls :: "int option"
  sr_total_usage_delta :: "rat option"
  sr_done :: "int option"
  sr_denied :: "int option"

definition stats_of :: "job list \<Rightarrow> stats_row" where
  "stats_of js =
     \<lparr>sr_jobs = int (length js), sr_total_tokens = sql_sum (map j_tokens_new js), sr_total_calls = sql_sum (map j_calls js),
      sr_total_usage_delta = sql_sum (map j_usage_delta js), sr_done = in_state JDone js, sr_denied = in_state JDenied js\<rparr>"

definition stats_totals :: "db \<Rightarrow> stats_row" where
  "stats_totals d = stats_of (db_jobs d)"

record stats_by_kind =
  sk_kind :: job_kind
  sk_row :: stats_row
  sk_failed :: "int option"
  sk_killed :: "int option"
  sk_avg_tokens :: "rat option"
  sk_models :: "string option"

definition stats_by_kind :: "db \<Rightarrow> stats_by_kind list" where
  "stats_by_kind d =
     map (\<lambda>k. let js = filter (\<lambda>j. j_kind j = k) (db_jobs d)
              in \<lparr>sk_kind = k, sk_row = stats_of js, sk_failed = in_state JFailed js, sk_killed = in_state JKilled js,
                  sk_avg_tokens = sql_avg (map j_tokens_new js),
                  sk_models = group_concat (remdups (List.map_filter j_model js))\<rparr>)
       (sort_key job_kind_str (remdups (map j_kind (db_jobs d))))"

record stats_by_finding =
  sf_finding :: finding
  sf_row :: stats_row

text \<open>Most tokens first; a sum of nothing comes last.\<close>

definition stats_by_finding :: "db \<Rightarrow> stats_by_finding list" where
  "stats_by_finding d =
     (let rows = List.map_filter (\<lambda>fid. map_option
              (\<lambda>f. \<lparr>sf_finding = f, sf_row = stats_of (filter (\<lambda>j. j_finding_id j = Some fid) (db_jobs d))\<rparr>) (get_finding d fid))
            (sort (remdups (List.map_filter j_finding_id (db_jobs d))));
          total = (\<lambda>r. sr_total_tokens (sf_row r))
      in sort_key (\<lambda>r. - unwrap_or (total r) 0) (filter (\<lambda>r. total r \<noteq> None) rows) @ filter (\<lambda>r. total r = None) rows)"

end
