(* ===== verification/Server.thy ===== *)
theory Server
  imports Views
begin

text \<open>
The server itself (\<open>server.rs\<close>): the handlers of the reads, the static files, and the routes with the \<open>Host\<close> check in front of every
one of them and the session guard in front of every \<open>/api\<close> route but the login.

The status page's HTML, the backend and \<open>canonicalize\<close> are parameters. axum answers a method that a route does not have with 405 and an
\<open>/api\<close> path without a route by the fallback; every answer carries \<open>Cache-Control: no-store\<close>.
\<close>

section \<open>The summary\<close>

datatype budget_state = Allowed_now | Denied_now

record next_candidate =
  nc_kind :: job_kind
  nc_id :: int
  nc_label :: "string option"
  nc_is_finding :: bool
  nc_is_prioritized :: bool
  nc_budget_state :: budget_state
  nc_budget_reason :: string
  nc_budget_retry_at :: "rat option"

datatype activity =
  Running_job job_view
| Working
| Error_activity string
| Paused_on next_candidate
| Ready_for next_candidate
| Idle
| Warming_up

record repo_brief =
  rb_id :: int
  rb_name :: string
  rb_url :: string
  rb_path :: string
  rb_forge :: string
  rb_default_branch :: string
  rb_last_hunt_sha :: "string option"
  rb_last_hunt_at :: "millis option"
  rb_enabled :: int
  rb_added_at :: millis
  rb_full_hunt_requested_at :: "int option"

definition repo_brief_of :: "repo \<Rightarrow> repo_brief" where
  "repo_brief_of r =
     \<lparr>rb_id = r_id r, rb_name = r_name r, rb_url = r_url r, rb_path = r_path r, rb_forge = forge_name_str (r_forge r),
      rb_default_branch = r_default_branch r, rb_last_hunt_sha = r_last_hunt_sha r, rb_last_hunt_at = r_last_hunt_at r,
      rb_enabled = r_enabled r, rb_added_at = r_added_at r, rb_full_hunt_requested_at = r_full_hunt_requested_at r\<rparr>"

record summary_view =
  sm_status_html :: string
  sm_counts :: "(string \<times> int) list"
  sm_type_counts :: "(string \<times> int) list"
  sm_repos :: "repo_brief list"
  sm_last_cycle :: "event_view option"
  sm_cycle_running :: bool
  sm_paused :: bool
  sm_overdrive :: bool
  sm_current_job :: "job_view option"
  sm_next_candidate :: "next_candidate option"
  sm_scheduler_state :: "sched_state option"
  sm_activity :: activity

definition candidate_view :: "server \<Rightarrow> bool \<Rightarrow> candidate \<Rightarrow> verdict \<Rightarrow> next_candidate" where
  "candidate_view V prioritized_now c v =
     (let (state, why, retry) =
            (case v of Denied r t \<Rightarrow> (Denied_now, r, t) | Granted _ r \<Rightarrow> (Allowed_now, r, None))
      in \<lparr>nc_kind = cand_job_kind c, nc_id = cand_target_id c, nc_label = cand_label c,
          nc_is_finding = (case cand_job_kind c of Finding_kind _ \<Rightarrow> True | Repo_kind _ \<Rightarrow> False),
          nc_is_prioritized = prioritized_now, nc_budget_state = state, nc_budget_reason = sv_reason V why,
          nc_budget_retry_at = retry\<rparr>)"

text \<open>Nothing is shown for a pick that failed; the reservation's and the budget's failures are the request's.\<close>

definition next_up :: "server \<Rightarrow> scheduler \<Rightarrow> next_candidate option api" where
  "next_up V s = do {
     picked \<leftarrow> preview_next (sv_context V) (sv_config V);
     (case Option.bind (result_or picked None) id of
        None \<Rightarrow> answer None
      | Some c \<Rightarrow>
          api_then (internal (candidate_reservation (sv_config V) c)) (\<lambda>anticipated.
          api_then (internal (bk_decide (sv_backend V) anticipated)) (\<lambda>out.
            (let first = sd_overdrive s \<or> cand_override c \<noteq> None
             in answer (Some (candidate_view V first c (if first then prioritized out else normal out))))))) }"

definition activity_of :: "job_view option \<Rightarrow> bool \<Rightarrow> sched_state option \<Rightarrow> next_candidate option \<Rightarrow> activity" where
  "activity_of current running state candidate =
     (case current of
        Some j \<Rightarrow> Running_job j
      | None \<Rightarrow>
          if running then Working
          else (case state of
                  Some st \<Rightarrow>
                    if ss_state st = ''error'' then Error_activity (ss_detail st)
                    else (case candidate of
                            Some c \<Rightarrow> if nc_budget_state c = Denied_now then Paused_on c else Ready_for c
                          | None \<Rightarrow> Idle)
                | None \<Rightarrow>
                    (case candidate of
                       Some c \<Rightarrow> if nc_budget_state c = Denied_now then Paused_on c else Ready_for c
                     | None \<Rightarrow> Warming_up)))"

definition summary :: "server \<Rightarrow> scheduler \<Rightarrow> summary_view api" where
  "summary V s =
     api_then (stored (query status_counts)) (\<lambda>counts.
     api_then (stored (query type_counts)) (\<lambda>types.
     api_then (stored (query list_repos)) (\<lambda>repos.
     api_then (stored (query last_cycle_event)) (\<lambda>last_cycle.
     api_then (stored (query current_job)) (\<lambda>current.
     api_then (stored (query scheduler_state)) (\<lambda>state.
     api_then (internal (sv_status_html V)) (\<lambda>html.
     api_then (if current = None then next_up V s else answer None) (\<lambda>candidate.
       answer \<lparr>sm_status_html = html, sm_counts = counts, sm_type_counts = types, sm_repos = map repo_brief_of repos,
               sm_last_cycle = last_cycle, sm_cycle_running = sd_running s, sm_paused = sd_paused s,
               sm_overdrive = sd_overdrive s, sm_current_job = current, sm_next_candidate = candidate,
               sm_scheduler_state = state, sm_activity = activity_of current (sd_running s) state candidate\<rparr>))))))))"

section \<open>Findings\<close>

record finding_out =
  fo_finding :: finding
  fo_category :: "string option option"
  fo_timeline :: "event_view list"
  fo_needs_attention :: "string option option"
  fo_blocker :: "string option"
  fo_follow_up_of :: "int option"
  fo_follow_ups :: "int list"

definition category_of :: "finding \<Rightarrow> string option" where
  "category_of f =
     (case f_kind f of
        TBug \<Rightarrow> map_option bug_class_str (f_bug_class f)
      | TDepUpdate \<Rightarrow> f_update_type f
      | TTestGap \<Rightarrow> Some ''coverage''
      | TRefactor \<Rightarrow> f_smell_type f
      | TModernization \<Rightarrow> f_modernization_class f
      | TStandards \<Rightarrow> f_standard_section f)"

text \<open>The filter of a query: none at all when a value of it can match nothing.\<close>

definition known_status :: "string option \<Rightarrow> finding_status option" where
  "known_status p = Option.bind p (\<lambda>s. find (\<lambda>x. finding_status_str x = s) finding_status_all)"

definition known_type :: "string option \<Rightarrow> finding_type option" where
  "known_type p = Option.bind p (\<lambda>s. case finding_type_of_text s of Inr t \<Rightarrow> Some t | Inl _ \<Rightarrow> None)"

definition repo_of_key :: "string option \<Rightarrow> int option api" where
  "repo_of_key key =
     (case key of
        None \<Rightarrow> answer None
      | Some k \<Rightarrow>
          api_then (stored (lookup_repo k)) (\<lambda>found.
            case found of Some r \<Rightarrow> answer (Some (r_id r)) | None \<Rightarrow> refused (BadRequest (''unknown repo '' @ k))))"

definition rank_of_severity :: "string option \<Rightarrow> api_error + int option" where
  "rank_of_severity p =
     (case p of
        None \<Rightarrow> Inr None
      | Some s \<Rightarrow> (case severity_parse s of
                     Some v \<Rightarrow> Inr (Some (severity_rank v))
                   | None \<Rightarrow> Inl (BadRequest (''invalid severity '' @ s))))"

definition finding_out_of ::
  "bool \<Rightarrow> (int \<times> event_view list) list \<Rightarrow> (int \<times> string option) list \<Rightarrow> (int \<times> string) list \<Rightarrow> (int \<times> int) list \<Rightarrow>
   finding \<Rightarrow> finding_out" where
  "finding_out_of unified timelines attention blockers pairs f =
     \<lparr>fo_finding = f, fo_category = (if unified then Some (category_of f) else None),
      fo_timeline = unwrap_or (map_of timelines (f_id f)) [],
      fo_needs_attention = (if f_status f = finding_status.PrOpen then map_of attention (f_id f) else None),
      fo_blocker = map_of blockers (f_id f),
      fo_follow_up_of = map_option fst (find (\<lambda>(_, follow_up). follow_up = f_id f) (rev pairs)),
      fo_follow_ups = map snd (filter (\<lambda>(source, _). source = f_id f) pairs)\<rparr>"

definition findings_handler :: "request \<Rightarrow> finding_out list api" where
  "findings_handler rq =
     (let unified = unwrap_or (param rq ''unified'') ''1'' = ''1'';
          status = known_status (param rq ''status'');
          kind_param = (if unified then param rq ''type'' else None);
          kind = known_type kind_param
      in if param rq ''status'' \<noteq> None \<and> status = None then answer []
         else
           api_then (repo_of_key (param rq ''repo'')) (\<lambda>rid.
           api_then (given (rank_of_severity (param rq ''severity''))) (\<lambda>rank.
             if kind_param \<noteq> None \<and> kind = None then answer []
             else
               api_then (stored (query (list_findings
                   \<lparr>ff_status = status, ff_repo_id = rid, ff_kind = kind, ff_min_severity_rank = rank\<rparr>))) (\<lambda>rows.
                 (let ids = map f_id rows
                  in api_then (stored (query (events_by_finding ids))) (\<lambda>timelines.
                     api_then (stored (query pr_attention)) (\<lambda>attention.
                     api_then (stored (query held_fix_blockers)) (\<lambda>blockers.
                     api_then (stored (query (follow_up_pairs ids))) (\<lambda>pairs.
                       answer (map (finding_out_of unified timelines attention blockers pairs) rows))))))))))"

definition digits_param :: "request \<Rightarrow> string option" where
  "digits_param rq = (case param rq ''id'' of Some v \<Rightarrow> if list_all is_ascii_digit v then Some v else None | None \<Rightarrow> None)"

definition finding_detail :: "request \<Rightarrow> (job_view list \<times> pr option) api" where
  "finding_detail rq =
     (let no_such = NotFoundError ''no such finding''
      in case Option.bind (digits_param rq) parse_i64 of
           None \<Rightarrow> refused no_such
         | Some fid \<Rightarrow>
             api_then (stored (query (finding_exists fid))) (\<lambda>there.
               if \<not> there then refused no_such
               else
                 api_then (stored (query (jobs_by_finding fid))) (\<lambda>js.
                 api_then (stored (query (\<lambda>d. get_pr_state d fid))) (\<lambda>p. answer (js, p)))))"

definition repo_notes_handler :: "server \<Rightarrow> request \<Rightarrow> string api" where
  "repo_notes_handler V rq =
     (case digits_param rq of
        None \<Rightarrow> refused (BadRequest ''id query param must be an integer'')
      | Some raw \<Rightarrow>
          api_then (case parse_i64 raw of Some rid \<Rightarrow> stored (query (get_repo_by_id rid)) | None \<Rightarrow> answer None) (\<lambda>found.
            case found of
              None \<Rightarrow> refused (NotFoundError (''no repo '' @ raw))
            | Some r \<Rightarrow> do { notes \<leftarrow> repo_notes (cf_work_root (sv_config V)) (r_id r); answer notes }))"

section \<open>Static files\<close>

datatype content =
  Written body
| Summary summary_view
| Findings "finding_out list"
| Detail "job_view list" "pr option"
| Jobs "job_entry list"
| Repos "repo list"
| Events "event_view list"
| Statistics stats_row "stats_by_kind list" "stats_by_finding list"
| Notes_text string
| Me string
| Logged_in string string
| Logged_out string
| Asset string string
| Error_body string

record response =
  rs_status :: nat
  rs_content :: content
  rs_wake :: bool

definition responded :: "nat \<Rightarrow> content \<Rightarrow> response" where
  "responded status c = \<lparr>rs_status = status, rs_content = c, rs_wake = False\<rparr>"

definition error_response :: "api_error \<Rightarrow> response" where
  "error_response e = responded (error_status e) (Error_body (error_message e))"

definition not_found :: "string \<Rightarrow> response" where
  "not_found message = responded 404 (Error_body message)"

definition content_type_of :: "string \<Rightarrow> string option" where
  "content_type_of path =
     (case rsplit_once ''.'' path of
        Some (_, ext) \<Rightarrow>
          if ext = ''js'' then Some ''application/javascript; charset=utf-8''
          else if ext = ''css'' then Some ''text/css; charset=utf-8''
          else if ext = ''map'' then Some ''application/json''
          else None
      | None \<Rightarrow> None)"

text \<open>The traversal guard: links resolved, the target strictly below the directory.\<close>

definition served_asset :: "server \<Rightarrow> string \<Rightarrow> string option act" where
  "served_asset V path =
     (let ui_dir = cf_ui_dir (sv_config V);
          asset = path_join ui_dir (dropWhile (\<lambda>c. c = CHR ''/'') path)
      in look (\<lambda>w.
           (case (sv_canonical V (w_disk w) ui_dir, sv_canonical V (w_disk w) asset) of
              (Some dir, Some resolved) \<Rightarrow>
                if \<not> path_starts_with resolved dir \<or> components resolved = components dir then None else Some resolved
            | _ \<Rightarrow> None)))"

definition static_files :: "server \<Rightarrow> string \<Rightarrow> response act" where
  "static_files V path =
     (if starts_with ''/api/'' path then State_Monad.return (not_found ''not found'')
      else if path = ''/'' \<or> path = ''/index.html''
      then do {
        r \<leftarrow> read_file (path_join (cf_ui_dir (sv_config V)) ''index.html'');
        State_Monad.return (case r of Inr bytes \<Rightarrow> responded 200 (Asset ''text/html; charset=utf-8'' bytes)
                            | Inl _ \<Rightarrow> not_found ''ui/index.html missing'') }
      else
        (case content_type_of path of
           None \<Rightarrow> State_Monad.return (not_found ''not found'')
         | Some ctype \<Rightarrow> do {
             target \<leftarrow> served_asset V path;
             (case target of
                None \<Rightarrow> State_Monad.return (not_found ''not found'')
              | Some file \<Rightarrow> do {
                  r \<leftarrow> read_file file;
                  State_Monad.return (case r of Inr bytes \<Rightarrow> responded 200 (Asset ctype bytes)
                                      | Inl _ \<Rightarrow> not_found ''not found'') }) }))"

section \<open>The routes\<close>

definition respond :: "('a \<Rightarrow> response) \<Rightarrow> 'a api \<Rightarrow> response act" where
  "respond f m = do { r \<leftarrow> m; State_Monad.return (case r of Inl e \<Rightarrow> error_response e | Inr x \<Rightarrow> f x) }"

definition shown :: "content \<Rightarrow> response" where
  "shown c = responded 200 c"

definition wrote :: "reply \<Rightarrow> response" where
  "wrote r = \<lparr>rs_status = re_status r, rs_content = Written (re_body r), rs_wake = re_wake r\<rparr>"

definition listed :: "(db \<Rightarrow> 'a) \<Rightarrow> ('a \<Rightarrow> content) \<Rightarrow> response act" where
  "listed q c = respond (\<lambda>x. shown (c x)) (stored (query q))"

definition stats_handler :: "response act" where
  "stats_handler = respond (\<lambda>(t, k, f). shown (Statistics t k f))
     (api_then (stored (query stats_totals)) (\<lambda>t.
      api_then (stored (query stats_by_kind)) (\<lambda>k.
      api_then (stored (query stats_by_finding)) (\<lambda>f. answer (t, k, f)))))"

text \<open>A route: method, path, and what answers.\<close>

type_synonym route = "rq_method \<times> string \<times> response act"

definition api_routes :: "server \<Rightarrow> scheduler \<Rightarrow> request \<Rightarrow> current_user \<Rightarrow> route list" where
  "api_routes V s rq user =
     [(GET, ''/api/summary'', respond (\<lambda>v. shown (Summary v)) (summary V s)),
      (GET, ''/api/findings'', respond (\<lambda>fs. shown (Findings fs)) (findings_handler rq)),
      (GET, ''/api/finding'', respond (\<lambda>(js, p). shown (Detail js p)) (finding_detail rq)),
      (GET, ''/api/jobs'', listed (list_jobs 50) Jobs),
      (GET, ''/api/repos'', listed list_repos Repos),
      (POST, ''/api/repos'', respond wrote (add_repo_handler V user rq)),
      (POST, ''/api/repo'', respond wrote (update_repo_handler V user rq)),
      (GET, ''/api/repo/notes'', respond (\<lambda>t. shown (Notes_text t)) (repo_notes_handler V rq)),
      (POST, ''/api/repo/notes'', respond wrote (add_note_handler V user rq)),
      (POST, ''/api/repo/delete'', respond wrote (delete_repo_handler V user rq)),
      (POST, ''/api/repo/rehunt'', respond wrote (rehunt_handler V user rq)),
      (GET, ''/api/events'', listed (recent_events 100) Events),
      (GET, ''/api/stats'', stats_handler),
      (POST, ''/api/verdict'', respond wrote (verdict_handler V user rq)),
      (POST, ''/api/cycle'', respond wrote (cycle_handler s rq)),
      (POST, ''/api/scheduler'', respond wrote (set_scheduler_paused V rq)),
      (POST, ''/api/overdrive'', respond wrote (set_scheduler_overdrive V rq)),
      (POST, ''/api/recheck'', respond wrote (recheck_handler V user rq)),
      (POST, ''/api/unqueue'', respond wrote (unqueue_handler V user rq)),
      (POST, ''/api/override'', respond wrote (override_handler V user rq)),
      (GET, ''/api/me'', respond (\<lambda>_. shown (Me (us_name user))) (answer ())),
      (POST, ''/api/logout'', respond (\<lambda>c. shown (Logged_out c)) (logout (sv_crypto V) rq))]"

definition API_PATHS :: "string list" where
  "API_PATHS = [''/api/summary'', ''/api/findings'', ''/api/finding'', ''/api/jobs'', ''/api/repos'', ''/api/repo'', ''/api/repo/notes'',
     ''/api/repo/delete'', ''/api/repo/rehunt'', ''/api/events'', ''/api/stats'', ''/api/verdict'', ''/api/cycle'', ''/api/scheduler'',
     ''/api/overdrive'', ''/api/recheck'', ''/api/unqueue'', ''/api/override'', ''/api/me'', ''/api/logout'']"

definition taken_route :: "request \<Rightarrow> route list \<Rightarrow> response act" where
  "taken_route rq routes =
     (case find (\<lambda>(m, p, _). m = rq_method rq \<and> p = rq_path rq) routes of
        Some (_, _, handler) \<Rightarrow> handler
      | None \<Rightarrow> State_Monad.return (responded 405 (Error_body [])))"

definition with_session :: "crypto \<Rightarrow> request \<Rightarrow> (current_user \<Rightarrow> response act) \<Rightarrow> response act" where
  "with_session C rq k = do {
     r \<leftarrow> require_session C rq;
     (case r of Inl e \<Rightarrow> State_Monad.return (error_response e) | Inr user \<Rightarrow> k user) }"

definition routed :: "server \<Rightarrow> scheduler \<Rightarrow> request \<Rightarrow> response act" where
  "routed V s rq =
     (if rq_path rq \<in> set API_PATHS
      then with_session (sv_crypto V) rq (\<lambda>user. taken_route rq (api_routes V s rq user))
      else if rq_path rq = ''/api/login''
      then taken_route rq [(POST, ''/api/login'',
             respond (\<lambda>(name, cookie). shown (Logged_in name cookie)) (login (sv_crypto V) (sv_parse V) rq))]
      else static_files V (rq_path rq))"

definition serve :: "server \<Rightarrow> scheduler \<Rightarrow> request \<Rightarrow> response act" where
  "serve V s rq =
     (case require_allowed_host rq (cf_allowed_hosts (sv_config V)) of
        Inl e \<Rightarrow> State_Monad.return (error_response e)
      | Inr _ \<Rightarrow> routed V s rq)"

text \<open>What a request does to the scheduler's switches.\<close>

definition after_response :: "response \<Rightarrow> scheduler \<Rightarrow> scheduler" where
  "after_response r s =
     (case rs_content r of
        Written b \<Rightarrow> after_reply (replied (rs_status r) b (rs_wake r)) s
      | _ \<Rightarrow> s)"

end
