(* ===== verification/Daemon.thy ===== *)
theory Daemon
  imports Server
begin

text \<open>
The daemon (\<open>daemon.rs\<close>): what it recovers from a process that died, one pass of its loop, and how long it sleeps after one.

The processes' working directories (\<open>/proc\<close>) and \<open>canonicalize\<close> are parameters. Seconds are rational: the clock's reading in
milliseconds, without the rounding of \<open>f64\<close>. Signals, the lockfile, the listener and the prober task are not modelled.
\<close>

record daemon =
  dm_executors :: executors
  dm_omp :: omp
  dm_working_dirs :: "world \<Rightarrow> string list option"
  dm_canonical :: "disk \<Rightarrow> string \<Rightarrow> string option"

section \<open>Work a dead process left\<close>

definition tree_in_use :: "daemon \<Rightarrow> string \<Rightarrow> world \<Rightarrow> bool" where
  "tree_in_use D tree w =
     (case dm_canonical D (w_disk w) tree of
        None \<Rightarrow> False
      | Some t \<Rightarrow> (case dm_working_dirs D w of None \<Rightarrow> False | Some dirs \<Rightarrow> list_ex (\<lambda>cwd. path_starts_with cwd t) dirs))"

text \<open>The session file, and the tokens the orphaned job spent itself.\<close>

definition orphan_work :: "daemon \<Rightarrow> string \<Rightarrow> job \<Rightarrow> (string \<times> int) option io" where
  "orphan_work D work_root j =
     and_then (query (resume_origin_job (j_id j))) (\<lambda>origin.
       (let ws = for_chain work_root [] origin
        in do {
          usage \<leftarrow> look (\<lambda>w. ledger_dir_usage (dm_omp D) (ws_session ws) (w_disk w));
          (case usage of
             None \<Rightarrow> ok None
           | Some (file, tokens, _) \<Rightarrow>
               and_then (query (ancestor_tokens (j_id j))) (\<lambda>spent. do {
                 busy \<leftarrow> look (tree_in_use D (ws_tree ws));
                 ok (if tokens - spent \<le> 0 \<or> busy then None else Some (file, tokens - spent)) })) }))"

definition ORPHAN_NOTE :: string where
  "ORPHAN_NOTE = ''reconciled at cycle startup -- prior process died mid-job; transcript kept for the resume''"

definition suspend_if_worked :: "daemon \<Rightarrow> string \<Rightarrow> job \<Rightarrow> unit io" where
  "suspend_if_worked D work_root j =
     and_then (orphan_work D work_root j) (\<lambda>work.
       case work of
         None \<Rightarrow> ok ()
       | Some (file, tokens) \<Rightarrow>
           and_then (exec (\<lambda>now. suspend_orphan (j_id j) file tokens ORPHAN_NOTE now)) (\<lambda>_. do {
             _ \<leftarrow> event ''resume'' (''orphaned '' @ job_kind_str (j_kind j) @ '' job #'' @ show_int (j_id j) @
                   '' suspended for resume ('' @ show_int tokens @ '' tok of work in '' @ file @ '')'') (Some (j_id j)) (j_finding_id j);
             ok () }))"

fun each_ok :: "('e \<Rightarrow> unit io) \<Rightarrow> 'e list \<Rightarrow> unit io" where
  "each_ok f [] = ok ()"
| "each_ok f (e # es) = and_then (f e) (\<lambda>_. each_ok f es)"

definition debug_int :: "int option \<Rightarrow> string" where
  "debug_int x = (case x of Some n \<Rightarrow> ''Some('' @ show_int n @ '')'' | None \<Rightarrow> ''None'')"

definition reconcile_and_log :: "daemon \<Rightarrow> string \<Rightarrow> unit io" where
  "reconcile_and_log D work_root =
     and_then (query list_running_jobs) (\<lambda>running.
     and_then (each_ok (suspend_if_worked D work_root) running) (\<lambda>_.
     and_then (call reconcile_orphaned_jobs) (\<lambda>(stuck, orphans). do {
       _ \<leftarrow> for_each (\<lambda>f. ignore (event ''error'' (''reconciled #'' @ show_int (f_id f) @ '' stuck '' @ [CHR 0x27] @ ''fixing'' @
              [CHR 0x27] @ '' -> '' @ [CHR 0x27] @ ''queued'' @ [CHR 0x27] @ '' -- prior process died mid-fix'') None (Some (f_id f)))) stuck;
       _ \<leftarrow> for_each (\<lambda>j. ignore (event ''error'' (''reconciled orphaned '' @ job_kind_str (j_kind j) @ '' job #'' @ show_int (j_id j) @
              '' (finding '' @ debug_int (j_finding_id j) @ '') -- prior process died mid-job'') (Some (j_id j)) (j_finding_id j))) orphans;
       ok () })))"

definition sweep_workspaces :: "string \<Rightarrow> unit act" where
  "sweep_workspaces work_root = do {
     now \<leftarrow> look (\<lambda>w. w_now w (w_calls w));
     ignore (sweep work_root now) }"

section \<open>What a cycle was, and how long to sleep\<close>

text \<open>The states of an attempt that came to something.\<close>

definition came_to_something :: "cycle_summary \<Rightarrow> bool" where
  "came_to_something s \<longleftrightarrow> cs_state s \<in> {Some JDone, Some JKilled, Some JFailed, Some JSuspended}"

definition described_target :: "cycle_summary \<Rightarrow> string" where
  "described_target s =
     (case cs_finding_id s of
        Some fid \<Rightarrow> ''#'' @ show_int fid
      | None \<Rightarrow> (case cs_repo s of Some r \<Rightarrow> ''('' @ r @ '')'' | None \<Rightarrow> ''(?)''))"

definition described_end :: "cycle_summary \<Rightarrow> string" where
  "described_end s =
     (case cs_outcome s of
        Some out \<Rightarrow> '' -> '' @ out
      | None \<Rightarrow>
          if cs_state s = Some JDone then []
          else '' '' @ (case cs_state s of Some st \<Rightarrow> job_state_str st | None \<Rightarrow> []))"

definition describe_cycle :: "cycle_summary \<Rightarrow> string \<times> string" where
  "describe_cycle s =
     (case cs_error s of
        Some e \<Rightarrow> (''error'', take_chars 200 e)
      | None \<Rightarrow>
     (case cs_idle s of
        Some v \<Rightarrow> (''idle'', v)
      | None \<Rightarrow>
     (case cs_skipped s of
        Some v \<Rightarrow> (''idle'', v)
      | None \<Rightarrow>
     (case cs_denied s of
        Some d \<Rightarrow> (''denied'', ''last: '' @ d)
      | None \<Rightarrow>
          if came_to_something s \<and> cs_kind s \<noteq> None
          then (''idle'', ''last: '' @ (case cs_kind s of Some k \<Rightarrow> job_kind_str k | None \<Rightarrow> []) @ '' '' @ described_target s @ described_end s)
          else (''idle'', ''cycle produced no actionable outcome'')))))"

definition PR_SYNC_INTERVAL_S :: rat where "PR_SYNC_INTERVAL_S = 300"

definition or_zero :: "int io \<Rightarrow> int act" where
  "or_zero m = do { r \<leftarrow> m; State_Monad.return (result_or r 0) }"

definition after_work :: "int \<Rightarrow> int \<Rightarrow> int \<Rightarrow> rat" where
  "after_work queued inserted enabled =
     (if 0 < queued then 0 else if 0 < inserted then 5 else if 0 < enabled then 60 else 15 * 60)"

definition clamped :: "rat \<Rightarrow> rat" where
  "clamped x = max 60 (min 3600 x)"

definition after_denial :: "int option \<Rightarrow> millis \<Rightarrow> rat" where
  "after_denial until now =
     (case until of
        Some t \<Rightarrow> if 0 < t then clamped (of_int t / 1000 - of_int now / 1000 + 30) else 30 * 60
      | None \<Rightarrow> 30 * 60)"

definition base_sleep :: "cycle_summary \<Rightarrow> rat act" where
  "base_sleep s =
     (if cs_error s \<noteq> None then State_Monad.return (5 * 60)
      else if came_to_something s
      then do {
        queued \<leftarrow> or_zero (query count_queued);
        enabled \<leftarrow> or_zero (query count_enabled_repos);
        State_Monad.return (after_work queued (case cs_ingest s of Some i \<Rightarrow> ir_inserted i | None \<Rightarrow> 0) enabled) }
      else if cs_denied s \<noteq> None then look (\<lambda>w. after_denial (cs_retry_at s) (w_now w (w_calls w)))
      else if cs_skipped s \<noteq> None then State_Monad.return 0
      else State_Monad.return (15 * 60))"

text \<open>Open pull requests are looked at every five minutes, unless the budget said no.\<close>

definition compute_sleep_s :: "cycle_summary \<Rightarrow> rat act" where
  "compute_sleep_s s = do {
     sleep \<leftarrow> base_sleep s;
     State_Monad.return (if cs_sync s \<noteq> None \<and> cs_denied s = None then min sleep PR_SYNC_INTERVAL_S else sleep) }"

section \<open>One pass of the loop\<close>

definition cycle_body :: "daemon \<Rightarrow> config \<Rightarrow> cycle_summary io" where
  "cycle_body D cfg =
     and_then (reconcile_and_log D (cf_work_root cfg)) (\<lambda>_. do {
       _ \<leftarrow> reap_deleted_repos (cf_work_root cfg);
       _ \<leftarrow> sweep_workspaces (cf_work_root cfg);
       s \<leftarrow> run_cycle (dm_executors D) cfg None;
       ok s })"

definition record_state :: "string \<Rightarrow> string \<Rightarrow> rat \<Rightarrow> unit act" where
  "record_state label detail sleep = do {
     now \<leftarrow> look (\<lambda>w. w_now w (w_calls w));
     ignore (exec (\<lambda>t. set_scheduler_state t label detail (Some (now + \<lfloor>sleep * 1000\<rfloor>)))) }"

definition cycle_pass :: "daemon \<Rightarrow> config \<Rightarrow> rat act" where
  "cycle_pass D cfg = do {
     r \<leftarrow> cycle_body D cfg;
     (case r of
        Inr s \<Rightarrow> do {
          sleep \<leftarrow> compute_sleep_s s;
          _ \<leftarrow> record_state (fst (describe_cycle s)) (snd (describe_cycle s)) sleep;
          State_Monad.return sleep }
      | Inl e \<Rightarrow> do {
          _ \<leftarrow> record_state ''error'' (take_chars 200 (''daemon loop crashed: '' @ e)) (5 * 60);
          State_Monad.return (5 * 60) }) }"

text \<open>A turn: paused, it waits for a request to wake it; otherwise a pass, and a sleep that a request may end.\<close>

definition daemon_turn :: "daemon \<Rightarrow> config \<Rightarrow> bool \<Rightarrow> rat option act" where
  "daemon_turn D cfg paused =
     (if paused
      then do {
        _ \<leftarrow> exec (\<lambda>t. set_scheduler_state t ''paused'' ''scheduler paused by operator'' None);
        State_Monad.return None }
      else do { sleep \<leftarrow> cycle_pass D cfg; State_Monad.return (Some sleep) })"

definition start_up :: "daemon \<Rightarrow> config \<Rightarrow> unit io" where
  "start_up D cfg = do {
     _ \<leftarrow> migrate_repo_notes (cf_work_root cfg);
     _ \<leftarrow> reap_deleted_repos (cf_work_root cfg);
     _ \<leftarrow> sweep_workspaces (cf_work_root cfg);
     (if cf_backend_type cfg = ''omp-scavenge'' then ok () else err (''unknown backend_type: '' @ rd_debug (ex_readers (dm_executors D)) (cf_backend_type cfg))) }"

end
