(* ===== verification/RestartSafety.thy ===== *)
theory RestartSafety
  imports Daemon Sweep
begin

text \<open>
What a start finds of a process that died mid-job (\<open>reconcile_and_log\<close>), and how long the daemon sleeps (\<open>compute_sleep_s\<close>).
\<close>

section \<open>Rows of jobs and findings\<close>

definition killed_orphan :: "string \<Rightarrow> millis \<Rightarrow> job \<Rightarrow> job" where
  "killed_orphan remark t j = j\<lparr>j_state := JKilled, j_pid := None, j_killed_reason := Some ''orphaned'', j_notes := Some remark,
     j_finished_at := Some t\<rparr>"

definition suspended_orphan :: "string \<Rightarrow> int \<Rightarrow> string \<Rightarrow> millis \<Rightarrow> job \<Rightarrow> job" where
  "suspended_orphan session tokens remark t j = j\<lparr>j_state := JSuspended, j_pid := None, j_killed_reason := Some ''orphaned'',
     j_session_file := Some session, j_tokens_new := Some tokens, j_notes := Some remark, j_finished_at := Some t\<rparr>"

lemma orphan_fields [simp]:
  "j_id (killed_orphan n t j) = j_id j" "j_state (killed_orphan n t j) = JKilled"
  "killed_orphan n t (killed_orphan n t j) = killed_orphan n t j"
  "j_id (suspended_orphan f k n t j) = j_id j" "j_state (suspended_orphan f k n t j) = JSuspended"
  "j_repo_id (killed_orphan n t j) = j_repo_id j" "j_repo_id (suspended_orphan f k n t j) = j_repo_id j"
  by (simp_all add: killed_orphan_def suspended_orphan_def)

text \<open>A job that was running is killed, or suspended with the work of its own it had done.\<close>

inductive job_recovered :: "job \<Rightarrow> job \<Rightarrow> bool" where
  same: "job_recovered j j"
| killed: "j_state j = JRunning \<Longrightarrow> job_recovered j (killed_orphan remark t j)"
| suspended: "j_state j = JRunning \<Longrightarrow> 0 < tokens \<Longrightarrow> job_recovered j (suspended_orphan session tokens remark t j)"

inductive_cases job_recoveredE: "job_recovered j j'"



lemma job_recovered_running: "job_recovered i j \<Longrightarrow> j_state j = JRunning \<Longrightarrow> j = i"
  by (elim job_recoveredE) auto














section \<open>Recovering\<close>


definition other_rows :: "db \<Rightarrow> finding list \<times> repo list \<times> pr list" where
  "other_rows d = (db_findings d, db_repos d, db_prs d)"





lemma event_rows [simp]:
  "other_rows (log_event t kind message j f d) = other_rows d" "db_jobs (log_event t kind message j f d) = db_jobs d"
  by (simp_all add: other_rows_def log_event_def frame_simps)

lemma suspend_other_rows [simp]: "other_rows (suspend_orphan jid session tokens remark t d) = other_rows d"
  by (simp add: other_rows_def suspend_orphan_def frame_simps)















section \<open>How long it sleeps\<close>

definition denied_cycle :: "cycle_summary \<Rightarrow> bool" where
  "denied_cycle s \<longleftrightarrow> cs_error s = None \<and> \<not> came_to_something s \<and> cs_denied s \<noteq> None"

text \<open>Clamped, a denial's sleep ends thirty seconds after the time the budget named, if that is within the hour.\<close>

definition outlasts :: "rat \<Rightarrow> millis \<Rightarrow> millis \<Rightarrow> bool" where
  "outlasts sleep now t \<longleftrightarrow> of_int t / 1000 + 30 \<le> of_int now / 1000 + sleep"

lemma after_denial_bounds:
  "60 \<le> after_denial until now" "after_denial until now \<le> 3600"
  "until = Some t \<Longrightarrow> 0 < t \<Longrightarrow> t + 30000 \<le> now + 3600000 \<Longrightarrow> outlasts (after_denial until now) now t"
proof -
  show "60 \<le> after_denial until now" "after_denial until now \<le> 3600"
    by (auto simp: after_denial_def clamped_def split: option.split)
  assume until: "until = Some t" "0 < t" "t + 30000 \<le> now + 3600000"
  have "of_int t + 30000 \<le> (of_int now + 3600000 :: rat)" using until(3) by (metis of_int_add of_int_le_iff of_int_numeral)
  with until(1,2) show "outlasts (after_denial until now) now t"
    by (simp add: outlasts_def after_denial_def clamped_def min_def max_def field_simps)
qed

definition base_end :: "cycle_summary \<Rightarrow> world \<Rightarrow> rat \<Rightarrow> world \<Rightarrow> bool" where
  "base_end s w x w' \<longleftrightarrow>
     w_db w' = w_db w \<and> 0 \<le> x \<and> x \<le> 3600 \<and> (denied_cycle s \<longrightarrow> x = after_denial (cs_retry_at s) (w_now w (w_calls w))) \<and>
     (x = 0 \<longrightarrow> cs_error s = None \<and> (if came_to_something s then 0 < count_queued (w_db w) else cs_denied s = None \<and> cs_skipped s \<noteq> None))"

lemma wp_or_zero: "wp (or_zero (query q)) Q w = Q (if w_fault w (w_calls w) = None then q (w_db w) else 0) (tick w)"
  by (simp add: or_zero_def wp_simps split: option.split)

lemma wp_base_sleep: "wp (base_sleep s) (base_end s w) w"
  using after_denial_bounds(1,2) [of "cs_retry_at s" "w_now w (w_calls w)"]
  by (auto simp: base_sleep_def wp_simps wp_or_zero base_end_def denied_cycle_def after_work_def)

text \<open>C38. The daemon neither spins nor oversleeps. A sleep is at most an hour, and reads the store without changing it; it is zero only when
  the cycle was skipped, or came to something and findings are waiting; after a denial it is at least a minute, and lasts until thirty
  seconds after the time the budget named if that is within the hour; and when pull requests are watched it is at most five minutes, unless
  the budget said no.\<close>

theorem sleep_bounded:
  assumes "run_state (compute_sleep_s s) w = (x, w')"
  shows "w_db w' = w_db w \<and> 0 \<le> x \<and> x \<le> 3600 \<and>
    (x = 0 \<longrightarrow> cs_error s = None \<and> (if came_to_something s then 0 < count_queued (w_db w) else cs_denied s = None \<and> cs_skipped s \<noteq> None)) \<and>
    (denied_cycle s \<longrightarrow> 60 \<le> x \<and> (\<forall>t. cs_retry_at s = Some t \<and> 0 < t \<and> t + 30000 \<le> w_now w (w_calls w) + 3600000 \<longrightarrow>
       outlasts x (w_now w (w_calls w)) t)) \<and>
    (cs_sync s \<noteq> None \<and> cs_denied s = None \<longrightarrow> x \<le> 300)"
proof -
  have "wp (compute_sleep_s s) (\<lambda>x w'. \<exists>y. base_end s w y w' \<and>
      x = (if cs_sync s \<noteq> None \<and> cs_denied s = None then min y PR_SYNC_INTERVAL_S else y)) w"
    unfolding compute_sleep_s_def wp_bind by (rule wp_mono [OF wp_base_sleep]) (auto simp: wp_simps)
  from wp_run [OF this assms] obtain y where y: "base_end s w y w'"
    and x: "x = (if cs_sync s \<noteq> None \<and> cs_denied s = None then min y 300 else y)"
    by (auto simp: PR_SYNC_INTERVAL_S_def)
  have "x = y" if "denied_cycle s" using that x by (auto simp: denied_cycle_def)
  moreover have "0 \<le> x" "x \<le> 3600" "x = 0 \<longleftrightarrow> y = 0" "cs_sync s \<noteq> None \<and> cs_denied s = None \<Longrightarrow> x \<le> 300"
    using y x by (auto simp: base_end_def min_def)
  ultimately show ?thesis
    using y after_denial_bounds(1,2) [of "cs_retry_at s" "w_now w (w_calls w)"]
      after_denial_bounds(3) [where now = "w_now w (w_calls w)"] by (simp add: base_end_def)
qed

theorem sleep_bounded_witness:
  "\<exists>x w'. run_state (compute_sleep_s (no_summary\<lparr>cs_denied := Some ''short window'', cs_retry_at := Some 100000\<rparr>)) (quiet 50000 sample_db) = (x, w') \<and>
     60 \<le> x \<and> x \<le> 3600 \<and> outlasts x 50000 100000"
proof -
  define s where "s = no_summary\<lparr>cs_denied := Some ''short window'', cs_retry_at := Some 100000\<rparr>"
  have denied: "denied_cycle s" "cs_retry_at s = Some 100000"
    by (simp_all add: s_def denied_cycle_def came_to_something_def no_summary_def)
  obtain x w' where run: "run_state (compute_sleep_s s) (quiet 50000 sample_db) = (x, w')" by fastforce
  from sleep_bounded [OF run] denied have "60 \<le> x \<and> x \<le> 3600 \<and> outlasts x 50000 100000" by simp
  with run show ?thesis by (auto simp: s_def)
qed

end
