(* ===== verification/OperatorSafety.thy ===== *)
theory OperatorSafety
  imports Operator
begin

text \<open>
What the operator's writes may do to a finding. Between the read that checked a finding and the write, the scheduler may have moved it:
so the writes are looked at in any state of the store, with any row as the one that was read.
\<close>

section \<open>A conditional move\<close>

text \<open>The rows with the id and the status that was read take the new status; every other row is the one it was.\<close>

definition moved_from :: "int \<Rightarrow> finding_status \<Rightarrow> finding_status \<Rightarrow> finding \<Rightarrow> finding \<Rightarrow> bool" where
  "moved_from fid from_status to_status f f' \<longleftrightarrow>
     (if f_id f = fid \<and> f_status f = from_status then f_id f' = fid \<and> f_status f' = to_status else f' = f)"

definition takes_status :: "int \<Rightarrow> finding_status \<Rightarrow> finding_status \<Rightarrow> db \<Rightarrow> db \<Rightarrow> bool" where
  "takes_status fid from_status to_status d d' \<longleftrightarrow>
     list_all2 (moved_from fid from_status to_status) (db_findings d) (db_findings d') \<and>
     list_ex (\<lambda>f. f_id f = fid \<and> f_status f = from_status) (db_findings d)"

lemma takes_upd:
  assumes "\<And>f. f_id (g f) = f_id f" "\<And>f. f_status (g f) = t"
    and "0 < rows_affected (\<lambda>f. f_id f = fid \<and> f_status f = s) (db_findings d)"
    and "db_findings d' = db_findings (upd_findings (\<lambda>f. f_id f = fid \<and> f_status f = s) g d)"
  shows "takes_status fid s t d d'"
proof -
  have "moved_from fid s t f (if f_id f = fid \<and> f_status f = s then g f else f)" for f
    by (simp add: moved_from_def assms(1,2))
  moreover have "list_ex (\<lambda>f. f_id f = fid \<and> f_status f = s) (db_findings d)"
    using assms(3) by (auto simp: rows_affected_pos list_ex_iff)
  ultimately show ?thesis
    by (simp add: takes_status_def assms(4) upd_findings_def update_where_def list_all2_map2 list_all2_same)
qed

lemma none_upd:
  "\<not> 0 < rows_affected P (db_findings d) \<Longrightarrow> db_findings (upd_findings P g d) = db_findings d"
  by (auto simp: rows_affected_pos upd_findings_def update_where_def intro!: map_idI)

lemma claim_takes:
  "fst (claim_in_progress now fid s t d) \<Longrightarrow> takes_status fid s t d (snd (claim_in_progress now fid s t d))"
  by (rule takes_upd [where g = "\<lambda>f. f\<lparr>f_status := t, f_updated_at := now\<rparr>"]) (auto simp: claim_in_progress_def Let_def)

lemma claim_misses:
  "\<not> fst (claim_in_progress now fid s t d) \<Longrightarrow> db_findings (snd (claim_in_progress now fid s t d)) = db_findings d"
  by (auto simp: claim_in_progress_def Let_def none_upd)

lemma verdict_takes:
  "fst (set_verdict_if now fid s t r d) \<Longrightarrow> takes_status fid s t d (snd (set_verdict_if now fid s t r d))"
  by (rule takes_upd [where g = "\<lambda>f. f\<lparr>f_status := t, f_verdict_reason := Some r, f_updated_at := now\<rparr>"])
    (auto simp: set_verdict_if_def Let_def write_anchor_def split: option.split)

lemma verdict_misses:
  "\<not> fst (set_verdict_if now fid s t r d) \<Longrightarrow> db_findings (snd (set_verdict_if now fid s t r d)) = db_findings d"
  by (auto simp: set_verdict_if_def Let_def none_upd write_anchor_def split: option.split)

section \<open>After the write\<close>

text \<open>The event and the read back leave the findings alone; what they answer is the store's error, the row's absence or the reply.\<close>

lemma keeps_user_event [keeps_intros]: "keeps db_findings (log_user_event user kind message fid)"
  unfolding log_user_event_def by (intro keeps_exec) (simp add: insert_event_frame)

lemma keeps_fetch [keeps_intros]: "keeps h (fetch_finding fid)" "keeps h (fetch_repo rid)"
  unfolding fetch_finding_def fetch_repo_def by (auto intro!: keeps_intros)

section \<open>The operator's writes\<close>

datatype operator_write = Give_verdict finding_status "string option" | Ask_recheck | Take_off_queue

fun apply_write :: "operator_write \<Rightarrow> current_user \<Rightarrow> finding \<Rightarrow> reply api" where
  "apply_write (Give_verdict s reason) user f = apply_verdict user f s reason"
| "apply_write Ask_recheck user f = apply_recheck user f"
| "apply_write Take_off_queue user f = apply_unqueue user f"

fun written_status :: "operator_write \<Rightarrow> finding_status" where
  "written_status (Give_verdict s _) = s"
| "written_status Ask_recheck = Rechecking"
| "written_status Take_off_queue = New"

fun may_be_written :: "operator_write \<Rightarrow> finding_status \<Rightarrow> bool" where
  "may_be_written (Give_verdict s _) from_status \<longleftrightarrow> awaits_verdict from_status \<and> from_status \<noteq> s"
| "may_be_written Ask_recheck from_status \<longleftrightarrow> from_status = New"
| "may_be_written Take_off_queue from_status \<longleftrightarrow> from_status = Queued"

text \<open>What a write that found its row, or did not, leaves.\<close>

definition held_to :: "finding \<Rightarrow> finding_status \<Rightarrow> api_error + reply \<Rightarrow> db \<Rightarrow> db \<Rightarrow> bool" where
  "held_to f t r d d' \<longleftrightarrow>
     (\<forall>rep. r = Inr rep \<longrightarrow> re_wake rep) \<and>
     (if \<exists>rep. r = Inr rep then takes_status (f_id f) (f_status f) t d d'
      else db_findings d' = db_findings d \<or> takes_status (f_id f) (f_status f) t d d')"

text \<open>The event, and the row read back.\<close>

lemma wp_told:
  assumes "takes_status (f_id f) (f_status f) t d (w_db w)"
  shows "wp (api_then (stored (log_user_event user kind message fid)) (\<lambda>_. api_then (fetch_finding n) (\<lambda>g. answer (replied 200 (b g) True))))
           (\<lambda>r w'. held_to f t r d (w_db w')) w"
proof -
  have "keeps db_findings (api_then (stored (log_user_event user kind message fid))
      (\<lambda>_. api_then (fetch_finding n) (\<lambda>g. answer (replied 200 (b g) True))))"
    by (intro keeps_intros)
  then have "wp (api_then (stored (log_user_event user kind message fid))
      (\<lambda>_. api_then (fetch_finding n) (\<lambda>g. answer (replied 200 (b g) True))))
      (\<lambda>r w'. db_findings (w_db w') = db_findings (w_db w)) w"
    unfolding keeps_wp by blast
  moreover have "wp (api_then (stored (log_user_event user kind message fid))
      (\<lambda>_. api_then (fetch_finding n) (\<lambda>g. answer (replied 200 (b g) True)))) (\<lambda>r w'. \<forall>rep. r = Inr rep \<longrightarrow> re_wake rep) w"
    by (auto simp: log_user_event_def fetch_finding_def wp_simps replied_def split: option.split)
  ultimately show ?thesis
    by (rule wp_mono [OF wp_conj]) (use assms in \<open>auto simp: held_to_def takes_status_def\<close>)
qed

text \<open>The call that may move the row, and what is told of it.\<close>

lemma wp_conditional:
  assumes "\<And>now d. fst (g now d) \<Longrightarrow> takes_status (f_id f) (f_status f) t d (snd (g now d))"
    and "\<And>now d. \<not> fst (g now d) \<Longrightarrow> db_findings (snd (g now d)) = db_findings d"
  shows "wp (api_then (stored (call g)) (\<lambda>applied.
           if \<not> applied then refused e
           else api_then (stored (log_user_event user kind message fid)) (\<lambda>_. api_then (fetch_finding n) (\<lambda>g. answer (replied 200 (b g) True)))))
         (\<lambda>r w'. held_to f t r (w_db w) (w_db w')) w"
proof -
  have missed: "held_to f t (Inl e) d d'" if "db_findings d' = db_findings d" for e d d'
    using that by (simp add: held_to_def)
  show ?thesis
    unfolding wp_api_then [of "stored (call g)"] wp_stored wp_call
    using assms by (auto simp: wp_if wp_refused split: option.split intro!: wp_told missed)
qed

lemma held_write:
  "wp (apply_write op user f) (\<lambda>r w'. if may_be_written op (f_status f) then held_to f (written_status op) r (w_db w) (w_db w')
     else db_findings (w_db w') = db_findings (w_db w) \<and> (\<exists>e. r = Inl e)) w"
proof (cases op)
  case (Give_verdict s reason)
  show ?thesis
  proof (cases reason)
    case None
    then show ?thesis
      by (simp add: Give_verdict apply_verdict_def Let_def wp_refused)
        (auto intro!: wp_conditional claim_takes claim_misses)
  next
    case (Some r)
    then show ?thesis
      by (simp add: Give_verdict apply_verdict_def Let_def wp_refused)
        (auto intro!: wp_conditional verdict_takes verdict_misses)
  qed
next
  case Ask_recheck
  then show ?thesis
    by (auto simp: apply_recheck_def moved_by_operator_def Let_def wp_refused intro!: wp_conditional claim_takes claim_misses)
next
  case Take_off_queue
  then show ?thesis
    by (auto simp: apply_unqueue_def moved_by_operator_def Let_def wp_refused intro!: wp_conditional claim_takes claim_misses)
qed

text \<open>C26. A write of the operator is a compare-and-set on the status that was checked. Whatever happened to the store since the finding
  was read: a reply means that the row still stood where it was read, in a status the operator may write, and that exactly it took the new
  status and the loop was woken; an error leaves every finding as it was, unless the write was done and only telling of it failed. What a
  fix, a recheck or an open pull request owns is never moved.\<close>

theorem operator_write_conditional:
  assumes "run_state (apply_write op user f) w = (r, w')"
  shows "(case r of
      Inr rep \<Rightarrow> re_wake rep \<and> may_be_written op (f_status f) \<and> f_status f \<notin> {Fixing, Rechecking, finding_status.PrOpen} \<and>
        takes_status (f_id f) (f_status f) (written_status op) (w_db w) (w_db w')
    | Inl e \<Rightarrow> db_findings (w_db w') = db_findings (w_db w) \<or>
        may_be_written op (f_status f) \<and> takes_status (f_id f) (f_status f) (written_status op) (w_db w) (w_db w'))"
proof -
  have open_status: "f_status f \<notin> {Fixing, Rechecking, finding_status.PrOpen}" if "may_be_written op (f_status f)"
    using that by (cases op) auto
  show ?thesis
    using wp_run [OF held_write assms] open_status by (auto simp: held_to_def split: sum.split if_splits)
qed

text \<open>A fix claimed the finding after the operator's page was loaded: the verdict is refused, and the claim stands.\<close>

definition claimed_since :: db where
  "claimed_since = empty_db\<lparr>db_findings := [sample_finding\<lparr>f_status := Fixing\<rparr>]\<rparr>"

theorem operator_write_conditional_witness:
  "\<forall>reason user. \<exists>e w'. run_state (apply_write (Give_verdict Rejected (Some reason)) user sample_finding) (quiet 7 claimed_since) = (Inl e, w') \<and>
     db_findings (w_db w') = db_findings claimed_since"
proof (intro allI)
  fix reason user
  obtain r w' where run: "run_state (apply_write (Give_verdict Rejected (Some reason)) user sample_finding) (quiet 7 claimed_since) = (r, w')"
    by fastforce
  have read: "f_status sample_finding = New" by (simp add: sample_finding_def new_finding_def)
  have "\<not> takes_status (f_id sample_finding) New t claimed_since d" for t d
    by (simp add: takes_status_def claimed_since_def)
  then show "\<exists>e w'. run_state (apply_write (Give_verdict Rejected (Some reason)) user sample_finding) (quiet 7 claimed_since) = (Inl e, w') \<and>
     db_findings (w_db w') = db_findings claimed_since"
    using operator_write_conditional [OF run] run by (cases r) (auto simp: read simp del: apply_write.simps)
qed

end
