(* ===== verification/AccountSafety.thy ===== *)
theory AccountSafety
  imports Server
begin

text \<open>
Who gets in: what a request without a session may do and learn, what a login takes and gives, and that a disabled account stays out.
\<close>

section \<open>Tokens\<close>

definition is_hex :: "char \<Rightarrow> bool" where
  "is_hex c \<longleftrightarrow> is_ascii_digit c \<or> (97 \<le> byte c \<and> byte c \<le> 102)"

lemma hex_digit_is_hex: "n < 16 \<Longrightarrow> is_hex (hex_digit n)"
  by (auto simp: is_hex_def hex_digit_def is_ascii_digit_def byte_def)

lemma hex_chars: "list_all is_hex (hex bytes)"
proof -
  have "is_hex (hex_digit (byte b div 16)) \<and> is_hex (hex_digit (byte b mod 16))" for b
    using hex_digit_is_hex [of "byte b div 16"] hex_digit_is_hex [of "byte b mod 16"] by (simp add: byte_def less_mult_imp_div_less)
  then show ?thesis by (auto simp: hex_def list_all_iff)
qed

lemma hex_nonempty: "bytes \<noteq> [] \<Longrightarrow> hex bytes \<noteq> []"
  by (cases bytes) (simp_all add: hex_def)

definition printable :: "char \<Rightarrow> bool" where
  "printable c \<longleftrightarrow> 32 \<le> byte c \<and> byte c < 127"

lemma hex_printable: "is_hex c \<Longrightarrow> printable c"
  by (auto simp: is_hex_def printable_def is_ascii_digit_def)

definition COOKIE_TAIL :: string where
  "COOKIE_TAIL = ''; Path=/; HttpOnly; SameSite=Strict; Max-Age=2592000''"

definition cookie_with :: "string \<Rightarrow> string" where
  "cookie_with token = ''hunter_session='' @ token @ COOKIE_TAIL"

lemma session_cookie_printable:
  assumes "list_all printable token"
  shows "session_cookie token = Inr (cookie_with token)"
proof -
  have age: "show_int (SESSION_TTL_MS div 1000) = ''2592000''"
    by (simp add: SESSION_TTL_MS_def show_int_def show_nat.simps digit_char_def) (simp add: char_of_def bit_iff_odd)
  have ok: "list_all (\<lambda>c. 32 \<le> byte c \<and> byte c \<noteq> 127 \<or> byte c = 9) s" if "list_all printable s" for s
    using that by (auto simp: list_all_iff printable_def)
  have "list_all printable ''hunter_session=''" "list_all printable COOKIE_TAIL"
    by (simp_all add: printable_def byte_def COOKIE_TAIL_def)
  with assms have "list_all printable (''hunter_session='' @ token @ COOKIE_TAIL)" by simp
  from ok [OF this] show ?thesis
    by (simp add: session_cookie_def cookie_with_def SESSION_COOKIE_def age COOKIE_TAIL_def)
qed

section \<open>Without a session\<close>

definition same_store :: "world \<Rightarrow> world \<Rightarrow> bool" where
  "same_store w w' \<longleftrightarrow> w_db w' = w_db w \<and> w_disk w' = w_disk w"

lemma same_tick [simp]: "same_store w (tick w)" and same_refl [simp]: "same_store w w"
  by (simp_all add: same_store_def)

lemma same_trans: "same_store w w1 \<Longrightarrow> same_store w1 w2 \<Longrightarrow> same_store w w2"
  by (simp add: same_store_def)

text \<open>The account a request is let in as.\<close>

definition session_of :: "crypto \<Rightarrow> request \<Rightarrow> world \<Rightarrow> current_user option" where
  "session_of C rq w = Option.bind (session_token rq) (\<lambda>t. session_user (cy_digest C t) (w_now w (w_calls w)) (w_db w))"

lemma wp_require_session:
  "wp (require_session C rq) (\<lambda>r w'. same_store w w' \<and>
     (case r of Inr user \<Rightarrow> session_of C rq w = Some user
      | Inl e \<Rightarrow> error_status e \<in> {401, 500} \<and> (w_fault w (w_calls w) = None \<longrightarrow> error_status e = 401))) w"
  by (auto simp: require_session_def session_of_def wp_simps split: option.split)

text \<open>A refusal: an error status and a message. A file of the user interface: its page, or a script, style sheet or source
  map whose real path lies strictly below the real path of the interface's directory.\<close>

definition refusal :: "response \<Rightarrow> bool" where
  "refusal r \<longleftrightarrow> (\<exists>m. rs_content r = Error_body m) \<and> 400 \<le> rs_status r"

definition below :: "string \<Rightarrow> string \<Rightarrow> bool" where
  "below dir target \<longleftrightarrow> (\<exists>rest. rest \<noteq> [] \<and> components target = components dir @ rest)"

definition has_type :: "string \<Rightarrow> string \<Rightarrow> bool" where
  "has_type path t \<longleftrightarrow>
     (\<exists>stem. path = stem @ ''.js'' \<and> t = ''application/javascript; charset=utf-8'' \<or>
        path = stem @ ''.css'' \<and> t = ''text/css; charset=utf-8'' \<or> path = stem @ ''.map'' \<and> t = ''application/json'')"

definition ui_file :: "server \<Rightarrow> disk \<Rightarrow> string \<Rightarrow> response \<Rightarrow> bool" where
  "ui_file V k path r \<longleftrightarrow>
     (let ui = cf_ui_dir (sv_config V)
      in path \<in> {''/'', ''/index.html''} \<and>
           (\<exists>bytes. k_files k (path_join ui ''index.html'') = Some bytes \<and> r = responded 200 (Asset ''text/html; charset=utf-8'' bytes)) \<or>
         (\<exists>dir target bytes t. sv_canonical V k ui = Some dir \<and>
            sv_canonical V k (path_join ui (dropWhile (\<lambda>c. c = CHR ''/'') path)) = Some target \<and>
            below dir target \<and> has_type path t \<and> k_files k target = Some bytes \<and> r = responded 200 (Asset t bytes)))"

lemma error_status_refuses: "400 \<le> error_status e"
  by (cases e) simp_all

lemma refusals [simp]: "refusal (error_response e)" "refusal (not_found m)" "400 \<le> n \<Longrightarrow> refusal (responded n (Error_body m))"
  by (simp_all add: refusal_def error_response_def not_found_def responded_def error_status_refuses)

lemma content_type_has_type: "content_type_of path = Some t \<Longrightarrow> has_type path t"
  unfolding content_type_of_def has_type_def by (auto dest!: rsplit_once_Some split: option.splits if_splits)

lemma starts_below: "path_starts_with target dir \<Longrightarrow> components target \<noteq> components dir \<Longrightarrow> below dir target"
  unfolding path_starts_with_def below_def
  by (intro exI [of _ "drop (length (components dir)) (components target)"]) (metis append_take_drop_id append_Nil2)

lemma wp_read_file:
  "wp (read_file p) (\<lambda>r w'. same_store w w' \<and> (\<forall>t. r = Inr t \<longrightarrow> k_files (w_disk w) p = Some t)) w"
  by (auto simp: read_file_def wp_simps same_store_def split: option.split)

lemma wp_served_asset:
  "wp (served_asset V path) (\<lambda>r w'. w' = w \<and> (\<forall>target. r = Some target \<longrightarrow>
     (\<exists>dir. sv_canonical V (w_disk w) (cf_ui_dir (sv_config V)) = Some dir \<and>
        sv_canonical V (w_disk w) (path_join (cf_ui_dir (sv_config V)) (dropWhile (\<lambda>c. c = CHR ''/'') path)) = Some target \<and> below dir target))) w"
  by (auto simp: served_asset_def Let_def wp_look starts_below split: option.splits if_splits)

definition static_answer :: "server \<Rightarrow> disk \<Rightarrow> string \<Rightarrow> response \<Rightarrow> bool" where
  "static_answer V k path r \<longleftrightarrow> refusal r \<or> \<not> starts_with ''/api/'' path \<and> ui_file V k path r"

lemma static_refusal: "refusal r \<Longrightarrow> static_answer V k path r"
  by (simp add: static_answer_def)

lemma wp_page: "path = ''/'' \<or> path = ''/index.html'' \<Longrightarrow>
    wp (static_files V path) (\<lambda>r w'. same_store w w' \<and> static_answer V (w_disk w) path r) w"
  unfolding static_files_def
  by (auto simp: wp_bind wp_return static_answer_def ui_file_def Let_def split: sum.split
      intro!: wp_mono [OF wp_read_file])

lemma wp_script:
  assumes "\<not> starts_with ''/api/'' path" "path \<noteq> ''/''" "path \<noteq> ''/index.html''"
  shows "wp (static_files V path) (\<lambda>r w'. same_store w w' \<and> static_answer V (w_disk w) path r) w"
proof (cases "content_type_of path")
  case None
  then show ?thesis using assms by (simp add: static_files_def wp_return static_refusal)
next
  case (Some t)
  from content_type_has_type [OF Some] have typed: "has_type path t" .
  have "wp (read_file target \<bind> (\<lambda>r. State_Monad.return (case r of Inr bytes \<Rightarrow> responded 200 (Asset t bytes) | Inl _ \<Rightarrow> not_found ''not found'')))
      (\<lambda>r w'. same_store w w' \<and> static_answer V (w_disk w) path r) w"
    if "sv_canonical V (w_disk w) (cf_ui_dir (sv_config V)) = Some dir" "below dir target"
      "sv_canonical V (w_disk w) (path_join (cf_ui_dir (sv_config V)) (dropWhile (\<lambda>c. c = CHR ''/'') path)) = Some target" for dir target
    unfolding wp_bind
    by (rule wp_mono [OF wp_read_file]) (use assms(1) typed that in \<open>auto simp: wp_return static_answer_def ui_file_def Let_def split: sum.split\<close>)
  then show ?thesis
    using assms Some unfolding static_files_def
    by (auto simp: wp_bind wp_return static_refusal intro!: wp_mono [OF wp_served_asset] split: option.split)
qed

lemma wp_static_files: "wp (static_files V path) (\<lambda>r w'. same_store w w' \<and> static_answer V (w_disk w) path r) w"
proof (cases "starts_with ''/api/'' path")
  case True
  then show ?thesis by (simp add: static_files_def wp_return static_refusal)
next
  case False
  then show ?thesis using wp_page wp_script by (cases "path = ''/'' \<or> path = ''/index.html''") simp_all
qed

lemma wp_token:
  "wp (internal (new_session_token C)) (\<lambda>r w'. w' = w \<and> (\<forall>t. r = Inr t \<longrightarrow> (\<exists>b. cy_random C (w_calls w) = Inr b \<and> t = hex b))) w"
  by (auto simp: internal_def new_session_token_def wp_simps split: sum.split)

text \<open>A login that fails leaves no session; one that succeeds leaves the one its cookie names.\<close>

definition now_of :: "world \<Rightarrow> millis" where
  "now_of w = w_now w (w_calls w)"

definition opened :: "crypto \<Rightarrow> current_user \<Rightarrow> string \<Rightarrow> world \<Rightarrow> world \<Rightarrow> bool" where
  "opened C user token w w' \<longleftrightarrow>
     w_disk w' = w_disk w \<and>
     create_session (now_of w) (us_id user) (cy_digest C token) (now_of w + SESSION_TTL_MS) (w_db w) = (Inr (), w_db w')"

definition drawn :: "crypto \<Rightarrow> string \<Rightarrow> bool" where
  "drawn C token \<longleftrightarrow> (\<exists>n b. cy_random C n = Inr b \<and> token = hex b)"

lemma drawn_hex: "cy_random C n = Inr b \<Longrightarrow> drawn C (hex b)"
  unfolding drawn_def by blast

lemma create_session_refused: "fst (create_session now uid h e d) = Inl x \<Longrightarrow> snd (create_session now uid h e d) = d"
proof -
  have "fst (create_session now uid h e d) = Inr () \<or> snd (create_session now uid h e d) = d"
    by (simp add: create_session_def Let_def)
  then show "fst (create_session now uid h e d) = Inl x \<Longrightarrow> snd (create_session now uid h e d) = d" by force
qed

lemma cookie_of_hex: "session_cookie (hex b) = Inr (cookie_with (hex b))"
  using hex_chars [of b] hex_printable by (intro session_cookie_printable) (auto simp: list_all_iff)

lemma wp_login_as:
  "wp (login_as C user) (\<lambda>r w'. case r of
      Inl e \<Rightarrow> same_store w w'
    | Inr (name, cookie) \<Rightarrow> name = us_name user \<and>
        (\<exists>token. drawn C token \<and> cookie = cookie_with token \<and> opened C user token w w')) w"
proof -
  have created: "wp (stored (row_call (\<lambda>t. create_session t (us_id user) (cy_digest C (hex b)) (now_of w + SESSION_TTL_MS))))
      (\<lambda>r w'. case r of Inl e \<Rightarrow> same_store w w' | Inr _ \<Rightarrow> opened C user (hex b) w w') w" for b
    by (auto simp: wp_simps same_store_def opened_def now_of_def prod_eq_iff split: option.split sum.split dest: create_session_refused)
  show ?thesis
    unfolding login_as_def wp_api_then [of "internal _"]
    by (rule wp_mono [OF wp_token], auto simp: wp_bind wp_look wp_api_then split: sum.split)
      (rule wp_mono [OF created [unfolded now_of_def]],
       auto simp: internal_def wp_simps cookie_of_hex split: sum.split, blast intro: drawn_hex)
qed

definition credentials :: "(string \<Rightarrow> string + json) \<Rightarrow> request \<Rightarrow> string \<Rightarrow> string \<Rightarrow> bool" where
  "credentials parse rq username password \<longleftrightarrow>
     (\<exists>body. post_body parse rq = Inr body \<and> str_field body ''username'' = Some username \<and> str_field body ''password'' = Some password)"

definition logs_in :: "crypto \<Rightarrow> (string \<Rightarrow> string + json) \<Rightarrow> request \<Rightarrow> current_user \<Rightarrow> db \<Rightarrow> bool" where
  "logs_in C parse rq user d \<longleftrightarrow>
     (\<exists>username password h. credentials parse rq username password \<and> login_candidate username d = Some (user, h) \<and> cy_verify C password h)"

lemma logs_inI:
  assumes "post_body parse rq = Inr body" "string_field body ''username'' = Inr username" "string_field body ''password'' = Inr password"
    and "login_candidate username d = Some (user, h)" "cy_verify C password h"
  shows "logs_in C parse rq user d"
proof -
  have "str_field body key = Some x" if "string_field body key = Inr x" for key x
    using that by (simp add: string_field_def split: option.splits)
  with assms have "credentials parse rq username password" unfolding credentials_def by blast
  with assms(4,5) show ?thesis unfolding logs_in_def by blast
qed

definition login_end :: "crypto \<Rightarrow> (string \<Rightarrow> string + json) \<Rightarrow> request \<Rightarrow> world \<Rightarrow> api_error + string \<times> string \<Rightarrow> world \<Rightarrow> bool" where
  "login_end C parse rq w r w' \<longleftrightarrow>
     (case r of
        Inl e \<Rightarrow> same_store w w'
      | Inr (name, cookie) \<Rightarrow> \<exists>user token. logs_in C parse rq user (w_db w) \<and> name = us_name user \<and>
          drawn C token \<and> cookie = cookie_with token \<and> opened C user token (tick w) w')"

lemma wp_login: "wp (login C parse rq) (login_end C parse rq w) w"
proof -
  have failed: "login_end C parse rq w (Inl e) w'" if "same_store w w'" for e w'
    using that by (simp add: login_end_def)
  have entered: "wp (login_as C user) (login_end C parse rq w) (tick w)" if "logs_in C parse rq user (w_db w)" for user
    by (rule wp_mono [OF wp_login_as]) (use that in \<open>auto simp: login_end_def same_store_def split: sum.split prod.split\<close>)
  show ?thesis
    unfolding login_def wp_api_then wp_given
    by (auto simp: wp_stored wp_query wp_refused split: sum.split option.split prod.split intro!: entered failed intro: logs_inI)
qed

text \<open>A request from a name the server does not answer to.\<close>

definition foreign_host :: "server \<Rightarrow> request \<Rightarrow> bool" where
  "foreign_host V rq \<longleftrightarrow>
     header_str rq ''host'' \<noteq> [] \<and> \<not> allows (cf_allowed_hosts (sv_config V)) (host_name (header_str rq ''host''))"

text \<open>What a stranger gets: a refusal under \<open>/api/\<close>, and for a route of the API the refusal of the session check.\<close>

definition stranger_answer :: "server \<Rightarrow> world \<Rightarrow> request \<Rightarrow> response \<Rightarrow> bool" where
  "stranger_answer V w rq r \<longleftrightarrow>
     static_answer V (w_disk w) (rq_path rq) r \<and>
     (rq_path rq \<in> set API_PATHS \<longrightarrow> rs_status r \<in> {401, 500} \<and> (w_fault w (w_calls w) = None \<longrightarrow> rs_status r = 401))"

lemma nothing_switched: "static_answer V k path r \<Longrightarrow> after_response r s = s"
  by (auto simp: static_answer_def refusal_def ui_file_def Let_def after_response_def responded_def)

lemma wp_without_session:
  assumes "session_of C rq w = None"
  shows "wp (with_session C rq k) (\<lambda>r w'. same_store w w' \<and> stranger_answer V w rq r) w"
  unfolding with_session_def wp_bind
  by (rule wp_mono [OF wp_require_session])
    (use assms in \<open>auto simp: wp_return stranger_answer_def static_refusal error_response_def responded_def refusal_def error_status_refuses
      split: sum.split\<close>)

lemma wp_without_login:
  assumes "\<And>user. \<not> logs_in C parse rq user (w_db w)"
  shows "wp (respond f (login C parse rq)) (\<lambda>r w'. same_store w w' \<and> refusal r) w"
  unfolding respond_def wp_bind
  by (rule wp_mono [OF wp_login]) (use assms in \<open>auto simp: wp_return login_end_def split: sum.splits prod.splits\<close>)

lemma wp_foreign: "foreign_host V rq \<Longrightarrow> wp (serve V s rq) (\<lambda>r w'. r = error_response Forbidden \<and> w' = w) w"
  by (simp add: serve_def foreign_host_def require_allowed_host_def Let_def wp_return)

lemma login_path: "''/api/login'' \<notin> set API_PATHS"
  by (simp add: API_PATHS_def)

lemma wp_stranger:
  assumes "session_of (sv_crypto V) rq w = None" "\<And>user. \<not> logs_in (sv_crypto V) (sv_parse V) rq user (w_db w)"
    and "\<not> foreign_host V rq"
  shows "wp (serve V s rq) (\<lambda>r w'. same_store w w' \<and> stranger_answer V w rq r) w"
proof -
  have served: "serve V s rq = routed V s rq"
    using assms(3) by (simp add: serve_def foreign_host_def require_allowed_host_def Let_def)
  consider "rq_path rq \<in> set API_PATHS" | "rq_path rq = ''/api/login''" | "rq_path rq \<notin> set API_PATHS" "rq_path rq \<noteq> ''/api/login''"
    by blast
  then show ?thesis
  proof cases
    case 1
    then show ?thesis unfolding served routed_def by (simp add: wp_without_session assms(1))
  next
    case 2
    have one: "wp (taken_route rq [(POST, ''/api/login'', respond f (login (sv_crypto V) (sv_parse V) rq))])
        (\<lambda>r w'. same_store w w' \<and> refusal r) w" for f
      unfolding taken_route_def using wp_without_login [OF assms(2)] by (simp add: wp_return)
    then show ?thesis
      unfolding served routed_def using 2 login_path by (auto simp: stranger_answer_def static_refusal intro!: wp_mono [OF one])
  next
    case 3
    then show ?thesis
      unfolding served routed_def by (simp add: wp_mono [OF wp_static_files] stranger_answer_def)
  qed
qed

text \<open>C2. A request whose \<open>Host\<close> is not one the server answers to is answered 403, whoever sent it. One without a live session and
  without the password of an enabled account is refused on every path below \<open>/api/\<close>: with 401 on a route of the API, or 500 if the store
  fails to look the session up. On any other path it gets a refusal or a file of the user interface and no other: the page itself, or a script,
  style sheet or source map whose real path lies strictly below the real path of the interface's directory, byte for byte. In all cases the
  database, the files and the scheduler's switches are as they were.\<close>

theorem strangers_shut_out:
  assumes "run_state (serve V s rq) w = (r, w')"
    and "foreign_host V rq \<or>
      session_of (sv_crypto V) rq w = None \<and> (\<forall>user. \<not> logs_in (sv_crypto V) (sv_parse V) rq user (w_db w))"
  shows "w_db w' = w_db w \<and> w_disk w' = w_disk w \<and> after_response r s = s \<and>
    (if foreign_host V rq then r = error_response Forbidden
     else if starts_with ''/api/'' (rq_path rq) then refusal r
     else refusal r \<or> ui_file V (w_disk w) (rq_path rq) r) \<and>
    (\<not> foreign_host V rq \<and> rq_path rq \<in> set API_PATHS \<longrightarrow>
       rs_status r \<in> {401, 500} \<and> (w_fault w (w_calls w) = None \<longrightarrow> rs_status r = 401))"
proof (cases "foreign_host V rq")
  case True
  with wp_run [OF wp_foreign assms(1)] show ?thesis by (simp add: after_response_def error_response_def responded_def)
next
  case False
  with assms(2) have "session_of (sv_crypto V) rq w = None" "\<And>user. \<not> logs_in (sv_crypto V) (sv_parse V) rq user (w_db w)" by auto
  from wp_run [OF wp_stranger [OF this False] assms(1)] False show ?thesis
    using nothing_switched [of V "w_disk w" "rq_path rq" r s] by (auto simp: stranger_answer_def static_answer_def same_store_def)
qed

section \<open>The session a login opens\<close>

lemma is_hex_facts: "is_hex c \<Longrightarrow> \<not> is_space c \<and> c \<noteq> CHR '';'' \<and> 32 \<le> byte c \<and> byte c \<le> 126"
  by (auto simp: is_hex_def is_space_def is_ascii_digit_def byte_def)

lemma dropWhile_solid: "s \<noteq> [] \<Longrightarrow> \<not> P (hd s) \<Longrightarrow> dropWhile P s = s"
  by (cases s) auto

lemma trim_solid: "s \<noteq> [] \<Longrightarrow> \<not> is_space (hd s) \<Longrightarrow> \<not> is_space (last s) \<Longrightarrow> trim s = s"
  by (simp add: trim_def trim_by_def trim_start_by_def trim_end_by_def dropWhile_solid hd_rev)

lemma session_pair_cookie:
  assumes "list_all is_hex token" "token \<noteq> []"
  shows "session_pair (''hunter_session='' @ token) = Some token"
proof -
  have "last (''hunter_session='' @ token) = last token" using assms(2) by simp
  moreover have "is_hex (last token)" using assms by (auto simp: list_all_iff)
  ultimately have "trim (''hunter_session='' @ token) = ''hunter_session='' @ token"
    by (intro trim_solid) (auto dest: is_hex_facts simp: is_space_def byte_def)
  moreover have "split_once ''='' (''hunter_session='' @ token) = Some (''hunter_session'', token)"
    by (simp add: split_once_def)
  ultimately show ?thesis using assms(2) by (simp add: session_pair_def SESSION_COOKIE_def)
qed

text \<open>The pair as a browser sends it back.\<close>

definition sends_token :: "string \<Rightarrow> request \<Rightarrow> bool" where
  "sends_token token rq \<longleftrightarrow> rq_headers rq = [(''cookie'', ''hunter_session='' @ token)]"

lemma session_token_cookie:
  assumes "list_all is_hex token" "token \<noteq> []" "sends_token token rq"
  shows "session_token rq = Some token"
proof -
  have "list_all (\<lambda>c. 32 \<le> byte c \<and> byte c \<le> 126) (''hunter_session='' @ token)" "CHR '';'' \<notin> set (''hunter_session='' @ token)"
    using assms(1) is_hex_facts by (auto simp: list_all_iff byte_def)
  then have "cookie_pairs rq = [''hunter_session='' @ token]"
    using assms(3) by (simp add: cookie_pairs_def sends_token_def map_filter_def to_str_def list_all_iff split_on_word)
  then show ?thesis
    by (simp add: session_token_def map_filter_simps session_pair_cookie [OF assms(1,2)] del: append.simps)
qed

lemma find_distinct_key:
  assumes "distinct (map key xs)" "x \<in> set xs" "P x"
  shows "find (\<lambda>y. key y = key x \<and> P y) xs = Some x"
proof -
  have only: "y = x" if "y \<in> set xs" "key y = key x" for y
    using assms(1,2) that by (meson distinct_map inj_onD)
  have "find (\<lambda>y. key y = key x \<and> P y) xs \<noteq> None"
    unfolding find_None_iff using assms(2,3) by blast
  then obtain y where y: "find (\<lambda>y. key y = key x \<and> P y) xs = Some y" by blast
  from find_Some_set [OF y] have "y = x" by (intro only) simp_all
  with y show ?thesis by simp
qed

lemma candidate_row:
  assumes "login_candidate username d = Some (user, h)"
  obtains u where "u \<in> set (db_users d)" "named username u" "u_disabled_at u = None" "u_password_hash u = h"
    "user = \<lparr>us_id = u_id u, us_name = u_username u\<rparr>"
proof -
  from assms obtain u where u: "find (\<lambda>u. named username u \<and> u_disabled_at u = None) (db_users d) = Some u"
    "user = \<lparr>us_id = u_id u, us_name = u_username u\<rparr>" "h = u_password_hash u"
    by (auto simp: login_candidate_def)
  from find_Some_set [OF u(1)] u(2,3) show ?thesis by (intro that) auto
qed

lemma opened_session_user:
  assumes "opened C user token w w'" "logs_in C parse rq user (w_db w)" "distinct (map u_id (db_users (w_db w)))"
    and "db_users d = db_users (w_db w')" "db_sessions d = db_sessions (w_db w')"
  shows "session_user (cy_digest C token) t d = (if t < now_of w + SESSION_TTL_MS then Some user else None)"
proof -
  obtain username h where "login_candidate username (w_db w) = Some (user, h)" using assms(2) by (auto simp: logs_in_def)
  then obtain u where u: "u \<in> set (db_users (w_db w))" "u_disabled_at u = None" "user = \<lparr>us_id = u_id u, us_name = u_username u\<rparr>"
    by (rule candidate_row)
  let ?live = "filter (\<lambda>s. now_of w < se_expires_at s) (db_sessions (w_db w))"
  let ?new = "\<lparr>se_token_hash = cy_digest C token, se_user_id = us_id user, se_created_at = now_of w,
      se_expires_at = now_of w + SESSION_TTL_MS\<rparr>"
  have made: "cy_digest C token \<notin> se_token_hash ` set ?live" "w_db w' = (w_db w)\<lparr>db_sessions := ?live @ [?new]\<rparr>"
    using assms(1) unfolding opened_def create_session_def Let_def by (auto split: if_splits)
  then have "find (\<lambda>s. se_token_hash s = cy_digest C token \<and> t < se_expires_at s) ?live = None"
    by (auto simp: find_None_iff image_iff)
  moreover have "db_sessions d = ?live @ [?new]" "db_users d = db_users (w_db w)" by (simp_all add: assms(4,5) made(2))
  moreover have "find (\<lambda>v. u_id v = u_id u \<and> u_disabled_at v = None) (db_users (w_db w)) = Some u"
    by (rule find_distinct_key) (use u assms(3) in auto)
  ultimately show ?thesis by (simp add: session_user_def find_append u(3))
qed

lemma opened_table:
  assumes "opened C user token w w'"
  shows "cy_digest C token \<notin> se_token_hash ` set (filter (\<lambda>s. now_of w < se_expires_at s) (db_sessions (w_db w))) \<and>
    w_db w' = (w_db w)\<lparr>db_sessions := filter (\<lambda>s. now_of w < se_expires_at s) (db_sessions (w_db w)) @
      [\<lparr>se_token_hash = cy_digest C token, se_user_id = us_id user, se_created_at = now_of w,
        se_expires_at = now_of w + SESSION_TTL_MS\<rparr>]\<rparr> \<and> w_disk w' = w_disk w"
  using assms unfolding opened_def create_session_def Let_def by (auto split: if_splits)

text \<open>The account whose name and password the request carries.\<close>

definition proves :: "crypto \<Rightarrow> (string \<Rightarrow> string + json) \<Rightarrow> request \<Rightarrow> user \<Rightarrow> bool" where
  "proves C parse rq u \<longleftrightarrow>
     (\<exists>username password. credentials parse rq username password \<and> named username u \<and> cy_verify C password (u_password_hash u))"

text \<open>C27. A login that answers is one of an enabled account whose name and password it carried, and it opens exactly one session: the
  store is as it was but for its session table, which keeps the sessions that have not expired, loses the expired ones, and gains one row,
  for that account, under a digest no live session has, with an expiry thirty days after the login. The cookie, sent back by the browser, is
  that account's session until that moment and not after it.\<close>

theorem login_opens_session:
  assumes "run_state (login C parse rq) w = (Inr (name, cookie), w')"
    and "distinct (map u_id (db_users (w_db w)))" "\<And>n. cy_random C n \<noteq> Inr []"
  shows "\<exists>u token. u \<in> set (db_users (w_db w)) \<and> u_disabled_at u = None \<and> proves C parse rq u \<and>
    name = u_username u \<and> cookie = cookie_with token \<and> w_disk w' = w_disk w \<and>
    cy_digest C token \<notin> se_token_hash ` set (filter (\<lambda>s. now_of (tick w) < se_expires_at s) (db_sessions (w_db w))) \<and>
    w_db w' = (w_db w)\<lparr>db_sessions := filter (\<lambda>s. now_of (tick w) < se_expires_at s) (db_sessions (w_db w)) @
      [\<lparr>se_token_hash = cy_digest C token, se_user_id = u_id u, se_created_at = now_of (tick w),
        se_expires_at = now_of (tick w) + 2592000000\<rparr>]\<rparr> \<and>
    (\<forall>rq' w2. sends_token token rq' \<and> db_users (w_db w2) = db_users (w_db w') \<and> db_sessions (w_db w2) = db_sessions (w_db w') \<longrightarrow>
       session_of C rq' w2 =
         (if now_of w2 < now_of (tick w) + 2592000000 then Some \<lparr>us_id = u_id u, us_name = u_username u\<rparr> else None))"
proof -
  have ttl: "SESSION_TTL_MS = 2592000000" by (simp add: SESSION_TTL_MS_def)
  obtain user token where got: "logs_in C parse rq user (w_db w)" "name = us_name user" "drawn C token" "cookie = cookie_with token"
      "opened C user token (tick w) w'"
    using wp_run [OF wp_login assms(1)] by (auto simp: login_end_def)
  obtain n b where "cy_random C n = Inr b" "token = hex b" using got(3) by (auto simp: drawn_def)
  with assms(3) have token: "list_all is_hex token" "token \<noteq> []" using hex_chars hex_nonempty by metis+
  obtain username password h where "credentials parse rq username password" "cy_verify C password h"
      "login_candidate username (w_db w) = Some (user, h)"
    using got(1) by (auto simp: logs_in_def)
  with candidate_row obtain u where u: "u \<in> set (db_users (w_db w))" "u_disabled_at u = None" "proves C parse rq u"
      "user = \<lparr>us_id = u_id u, us_name = u_username u\<rparr>"
    unfolding proves_def by metis
  have "session_of C rq' w2 = (if now_of w2 < now_of (tick w) + 2592000000 then Some user else None)"
    if "sends_token token rq'" "db_users (w_db w2) = db_users (w_db w')" "db_sessions (w_db w2) = db_sessions (w_db w')" for rq' w2
    using opened_session_user [OF got(5) _ _ that(2,3), of parse rq "now_of w2"] got(1) assms(2)
      session_token_cookie [OF token that(1)] by (simp add: session_of_def now_of_def ttl)
  with u got(2,4) opened_table [OF got(5)] show ?thesis by (intro exI [of _ u] exI [of _ token]) (simp add: ttl)
qed

section \<open>One account\<close>

definition ann :: user where
  "ann = \<lparr>u_id = 1, u_username = ''ann'', u_password_hash = ''mellon'', u_created_at = 0, u_disabled_at = None\<rparr>"

definition account_db :: db where
  "account_db = empty_db\<lparr>db_users := [ann]\<rparr>"

definition plain_crypto :: crypto where
  "plain_crypto = \<lparr>cy_hash = (\<lambda>_ p. Inr p), cy_verify = (\<lambda>p h. p = h), cy_digest = (\<lambda>t. t), cy_random = (\<lambda>_. Inr ''K''), cy_debug = (\<lambda>s. s)\<rparr>"

definition knows_password :: "string \<Rightarrow> string + json" where
  "knows_password _ = Inr (JObject [(''username'', JString ''ann''), (''password'', JString ''mellon'')])"

definition login_request :: request where
  "login_request = \<lparr>rq_method = POST, rq_path = ''/api/login'', rq_query = [], rq_headers = [(''content-type'', ''application/json'')],
     rq_body = ''{}''\<rparr>"

definition bare_request :: "string \<Rightarrow> string \<Rightarrow> request" where
  "bare_request path b = \<lparr>rq_method = POST, rq_path = path, rq_query = [], rq_headers = [], rq_body = b\<rparr>"

theorem strangers_shut_out_witness:
  "\<forall>V s k path b. \<exists>r w'. run_state (serve V s (bare_request path b)) ((quiet 5 account_db)\<lparr>w_disk := k\<rparr>) = (r, w') \<and>
     w_db w' = account_db \<and> w_disk w' = k \<and> after_response r s = s \<and>
     (if starts_with ''/api/'' path then refusal r else refusal r \<or> ui_file V k path r)"
proof (intro allI)
  fix V s k path b
  let ?rq = "bare_request path b" and ?w = "(quiet 5 account_db)\<lparr>w_disk := k\<rparr>"
  obtain r w' where run: "run_state (serve V s ?rq) ?w = (r, w')" by fastforce
  have "session_of (sv_crypto V) ?rq ?w = None"
    by (simp add: session_of_def session_token_def cookie_pairs_def bare_request_def map_filter_def)
  moreover have "\<not> logs_in (sv_crypto V) (sv_parse V) ?rq user (w_db ?w)" for user
    by (simp add: logs_in_def credentials_def post_body_def post_gate_def header_str_def bare_request_def)
  moreover have f: "\<not> foreign_host V ?rq" by (simp add: foreign_host_def header_str_def bare_request_def)
  moreover have p: "rq_path ?rq = path" and k: "w_disk ?w = k" "w_db ?w = account_db" by (simp_all add: bare_request_def)
  ultimately show "\<exists>r w'. run_state (serve V s ?rq) ?w = (r, w') \<and>
     w_db w' = account_db \<and> w_disk w' = k \<and> after_response r s = s \<and>
     (if starts_with ''/api/'' path then refusal r else refusal r \<or> ui_file V k path r)"
    using strangers_shut_out [OF run, unfolded p k] run by (intro exI [of _ r] exI [of _ w']) simp
qed

definition ann_body :: json where
  "ann_body = JObject [(''username'', JString ''ann''), (''password'', JString ''mellon'')]"

lemma ann_fields:
  "post_body knows_password login_request = Inr ann_body"
  "string_field ann_body ''username'' = Inr ''ann''" "string_field ann_body ''password'' = Inr ''mellon''"
  by (simp_all add: post_body_def post_gate_def header_str_def to_str_def login_request_def byte_def parse_object_def
      knows_password_def ann_body_def string_field_def str_field_def)

lemma ann_candidate: "login_candidate ''ann'' account_db = Some (\<lparr>us_id = 1, us_name = ''ann''\<rparr>, ''mellon'')"
  by (simp add: login_candidate_def account_db_def ann_def named_def to_ascii_lowercase_def to_lower_def byte_def)

lemma ann_logs_in: "wp (login plain_crypto knows_password login_request) (\<lambda>r w'. \<exists>name cookie. r = Inr (name, cookie)) (quiet 5 account_db)"
proof -
  have made: "fst (create_session 5 1 h e account_db) = Inr ()" for h e
    by (simp add: create_session_def Let_def account_db_def ann_def empty_db_def)
  have token: "cy_random plain_crypto n = Inr ''K''" "cy_verify plain_crypto p h \<longleftrightarrow> p = h" for n p h
    by (simp_all add: plain_crypto_def)
  show ?thesis
    unfolding login_def
    by (simp add: wp_simps ann_fields ann_candidate token login_as_def internal_def new_session_token_def made cookie_of_hex tick_simps)
qed

definition sent :: "string \<Rightarrow> request" where
  "sent token = \<lparr>rq_method = GET, rq_path = ''/api/me'', rq_query = [], rq_headers = [(''cookie'', ''hunter_session='' @ token)], rq_body = []\<rparr>"

theorem login_opens_session_witness:
  "\<exists>cookie w' token. run_state (login plain_crypto knows_password login_request) (quiet 5 account_db) = (Inr (''ann'', cookie), w') \<and>
     cookie = cookie_with token \<and>
     db_sessions (w_db w') = [\<lparr>se_token_hash = token, se_user_id = 1, se_created_at = 5, se_expires_at = 2592000005\<rparr>] \<and>
     session_of plain_crypto (sent token) (quiet 6 (w_db w')) = Some \<lparr>us_id = 1, us_name = ''ann''\<rparr> \<and>
     session_of plain_crypto (sent token) (quiet 2592000005 (w_db w')) = None"
proof -
  let ?w = "quiet 5 account_db"
  obtain r w' where "run_state (login plain_crypto knows_password login_request) ?w = (r, w')" by fastforce
  moreover from wp_run [OF ann_logs_in this] obtain name cookie where "r = Inr (name, cookie)" by blast
  ultimately have run: "run_state (login plain_crypto knows_password login_request) ?w = (Inr (name, cookie), w')" by simp
  have now: "now_of (tick ?w) = 5" "w_db ?w = account_db" "db_users account_db = [ann]" "db_sessions account_db = []"
    by (simp_all add: now_of_def account_db_def empty_db_def)
  have "distinct (map u_id (db_users (w_db ?w)))" "\<And>n. cy_random plain_crypto n \<noteq> Inr []"
    by (simp_all add: now plain_crypto_def)
  from login_opens_session [OF run this, unfolded now] obtain token where got: "name = ''ann''" "cookie = cookie_with token"
      "db_sessions (w_db w') = [\<lparr>se_token_hash = token, se_user_id = 1, se_created_at = 5, se_expires_at = 2592000005\<rparr>]"
    and later: "\<And>rq' w2. sends_token token rq' \<Longrightarrow> db_users (w_db w2) = db_users (w_db w') \<Longrightarrow> db_sessions (w_db w2) = db_sessions (w_db w') \<Longrightarrow>
       session_of plain_crypto rq' w2 = (if now_of w2 < 2592000005 then Some \<lparr>us_id = 1, us_name = ''ann''\<rparr> else None)"
    by (auto simp: ann_def plain_crypto_def)
  have "session_of plain_crypto (sent token) (quiet t (w_db w')) = (if t < 2592000005 then Some \<lparr>us_id = 1, us_name = ''ann''\<rparr> else None)" for t
    by (subst later) (simp_all add: sends_token_def sent_def now_of_def)
  with run got show ?thesis by (intro exI [of _ cookie] exI [of _ w'] exI [of _ token]) simp
qed

end
