(* ===== verification/LoginsFrame.thy ===== *)
theory LoginsFrame
  imports Cycle Frames
begin

text \<open>
The scheduler leaves the accounts and the sessions alone: no cycle, whatever it picks and whatever fails, writes a row of either
table. The rules follow the structure of the executors.
\<close>

definition logins :: "db \<Rightarrow> user list \<times> session list" where
  "logins d = (db_users d, db_sessions d)"

section \<open>The store's writes\<close>

lemma logins_tables [simp]:
  "logins (d\<lparr>db_findings := f\<rparr>) = logins d" "logins (d\<lparr>db_jobs := j\<rparr>) = logins d" "logins (d\<lparr>db_repos := r\<rparr>) = logins d"
  "logins (d\<lparr>db_prs := p\<rparr>) = logins d" "logins (d\<lparr>db_anchors := a\<rparr>) = logins d" "logins (d\<lparr>db_events := e\<rparr>) = logins d"
  "logins (d\<lparr>db_window_log := w\<rparr>) = logins d" "logins (d\<lparr>db_calibration := c\<rparr>) = logins d" "logins (d\<lparr>db_sched := s\<rparr>) = logins d"
  "logins (d\<lparr>db_repo_seq := n\<rparr>) = logins d"
  by (simp_all add: logins_def)

lemma logins_upd [simp]:
  "logins (upd_findings P f d) = logins d" "logins (upd_jobs Q g d) = logins d" "logins (upd_repos R h d) = logins d"
  "logins (upd_prs S k d) = logins d" "logins (upd_repo rid h d) = logins d" "logins (write_anchor now fid anchor d) = logins d"
  "logins (insert_event now kind m x y z d) = logins d" "logins (log_event now kind m x y d) = logins d"
  by (simp_all add: upd_findings_def upd_jobs_def upd_repos_def upd_prs_def upd_repo_def write_anchor_def insert_event_def log_event_def
      split: option.split)

lemma logins_fold: "(\<And>x d. logins (f x d) = logins d) \<Longrightarrow> logins (fold f xs d) = logins d"
  by (induction xs arbitrary: d) simp_all

lemma logins_fold_snd: "(\<And>x r. logins (snd (f x r)) = logins (snd r)) \<Longrightarrow> logins (snd (fold f xs r)) = logins (snd r)"
  by (induction xs arbitrary: r) simp_all

lemma logins_upsert_pr [simp]: "logins (upsert_pr fid fresh change d) = logins d"
  by (simp add: upsert_pr_def)

lemma logins_set_finding_status [simp]: "logins (set_finding_status now fid status d) = logins d"
  by (auto simp: set_finding_status_def Let_def split: option.split prod.split)

lemma logins_retire_job [simp]: "logins (retire_job jid state killed notes d) = logins d"
  by (auto simp: retire_job_def Let_def split: option.split prod.split)

lemma logins_retire_suspended_job [simp]: "logins (retire_suspended_job jid state killed notes d) = logins d"
  by (auto simp: retire_suspended_job_def Let_def split: option.split prod.split)

lemma logins_set_last_kind_at [simp]: "logins (set_last_kind_at now rid kind d) = logins d"
  by (auto simp: set_last_kind_at_def Let_def split: option.split prod.split)

lemma logins_set_anchored_verdict [simp]: "logins (set_anchored_verdict now fid status reason anchor d) = logins d"
  by (auto simp: set_anchored_verdict_def Let_def split: option.split prod.split)

lemma logins_set_finding_verdict [simp]: "logins (set_finding_verdict now fid status reason d) = logins d"
  by (auto simp: set_finding_verdict_def Let_def split: option.split prod.split)

lemma logins_claim_in_progress [simp]: "logins (snd (claim_in_progress now fid from_status to_status d)) = logins d"
  by (auto simp: claim_in_progress_def Let_def split: option.split prod.split)

lemma logins_set_last_dep_update [simp]: "logins (set_last_dep_update now rid d) = logins d"
  by (auto simp: set_last_dep_update_def Let_def split: option.split prod.split)

lemma logins_set_budget_override [simp]: "logins (set_budget_override now fid mode d) = logins d"
  by (auto simp: set_budget_override_def Let_def split: option.split prod.split)

lemma logins_set_scheduler_state [simp]: "logins (set_scheduler_state now state detail wake d) = logins d"
  by (auto simp: set_scheduler_state_def Let_def split: option.split prod.split)

lemma logins_set_last_hunt [simp]: "logins (set_last_hunt now rid sha d) = logins d"
  by (auto simp: set_last_hunt_def Let_def split: option.split prod.split)

lemma logins_mark_pr_harvested [simp]: "logins (mark_pr_harvested fid stamp d) = logins d"
  by (auto simp: mark_pr_harvested_def Let_def split: option.split prod.split)

lemma logins_mark_pr_closed [simp]: "logins (mark_pr_closed fid number synced d) = logins d"
  by (auto simp: mark_pr_closed_def Let_def split: option.split prod.split)

lemma logins_clear_recheck_attempts [simp]: "logins (clear_recheck_attempts now fid d) = logins d"
  by (auto simp: clear_recheck_attempts_def Let_def split: option.split prod.split)

lemma logins_clear_fix_attempts [simp]: "logins (clear_fix_attempts now fid d) = logins d"
  by (auto simp: clear_fix_attempts_def Let_def split: option.split prod.split)

lemma logins_mark_pr_engaged [simp]: "logins (mark_pr_engaged fid activity synced fp sha d) = logins d"
  by (auto simp: mark_pr_engaged_def Let_def split: option.split prod.split)

lemma logins_mark_full_hunt_attempted [simp]: "logins (mark_full_hunt_attempted rid request d) = logins d"
  by (auto simp: mark_full_hunt_attempted_def Let_def split: option.split prod.split)

lemma logins_clear_harvest_attempts [simp]: "logins (clear_harvest_attempts fid d) = logins d"
  by (auto simp: clear_harvest_attempts_def Let_def split: option.split prod.split)

lemma logins_retire_stranded_suspensions [simp]: "logins (snd (retire_stranded_suspensions now d)) = logins d"
  by (simp add: retire_stranded_suspensions_def, rule logins_fold) (simp add: retire_stranded_one_def Let_def split_beta)

lemma logins_create_job [simp]: "logins (snd (create_job now kind repo_id finding_id cap state est resumed d)) = logins d"
  by (simp add: create_job_def Let_def logins_fold [where f = "supersede_one now kind finding_id jid" for jid] supersede_one_def)

lemma logins_update_finding_analysis [simp]: "logins (update_finding_analysis now fid an d) = logins d"
  by (auto simp: update_finding_analysis_def Let_def split: option.split prod.split)

lemma logins_suspend_orphan [simp]: "logins (suspend_orphan jid session tokens notes finished d) = logins d"
  by (auto simp: suspend_orphan_def Let_def split: option.split prod.split)

lemma logins_set_last_full_hunt [simp]: "logins (set_last_full_hunt now rid d) = logins d"
  by (auto simp: set_last_full_hunt_def Let_def split: option.split prod.split)

lemma logins_set_finding_pr_open [simp]: "logins (set_finding_pr_open now fid url d) = logins d"
  by (auto simp: set_finding_pr_open_def Let_def split: option.split prod.split)

lemma logins_set_attention_aside [simp]: "logins (set_attention_aside now fid d) = logins d"
  by (auto simp: set_attention_aside_def Let_def split: option.split prod.split)

lemma logins_reconfirm_anchor [simp]: "logins (reconfirm_anchor now fid sha holds d) = logins d"
  by (auto simp: reconfirm_anchor_def Let_def split: option.split prod.split)

lemma logins_mark_pr_merged [simp]: "logins (mark_pr_merged fid number synced d) = logins d"
  by (auto simp: mark_pr_merged_def Let_def split: option.split prod.split)

lemma logins_finalize_in_progress [simp]: "logins (finalize_in_progress now fid expected fallback d) = logins d"
  by (auto simp: finalize_in_progress_def Let_def split: option.split prod.split)

lemma logins_fail_unstarted_job [simp]: "logins (fail_unstarted_job now jid notes d) = logins d"
  by (auto simp: fail_unstarted_job_def Let_def split: option.split prod.split)

lemma logins_complete_job [simp]: "logins (complete_job jid out d) = logins d"
  by (auto simp: complete_job_def Let_def split: option.split prod.split)

lemma logins_sync_pr_open [simp]: "logins (sync_pr_open fid s d) = logins d"
  by (auto simp: sync_pr_open_def Let_def split: option.split prod.split)

lemma logins_settle_full_hunt_request [simp]: "logins (settle_full_hunt_request rid jid d) = logins d"
  by (auto simp: settle_full_hunt_request_def Let_def split: option.split prod.split)

lemma logins_set_pr_number [simp]: "logins (set_pr_number fid number d) = logins d"
  by (auto simp: set_pr_number_def Let_def split: option.split prod.split)

lemma logins_set_pinned_sha [simp]: "logins (set_pinned_sha jid sha d) = logins d"
  by (auto simp: set_pinned_sha_def Let_def split: option.split prod.split)

lemma logins_observe_one [simp]: "logins (observe_one ms q now lw d) = logins d"
  by (auto simp: observe_one_def record_calibration_sample_def log_window_observation_def Let_def split: option.split)

lemma logins_mark_full_history [simp]: "logins (mark_full_history jid request d) = logins d"
  by (auto simp: mark_full_history_def Let_def split: option.split prod.split)

lemma logins_fail_job [simp]: "logins (fail_job jid notes d) = logins d"
  by (auto simp: fail_job_def Let_def split: option.split prod.split)

lemma logins_clear_last_hunt_sha [simp]: "logins (clear_last_hunt_sha rid d) = logins d"
  by (auto simp: clear_last_hunt_sha_def Let_def split: option.split prod.split)

lemma logins_block_fix_job [simp]: "logins (snd (block_fix_job now fid jid reason d)) = logins d"
  by (auto simp: block_fix_job_def Let_def split: option.split prod.split)

lemma logins_reconcile_orphaned_jobs [simp]: "logins (snd (reconcile_orphaned_jobs now d)) = logins d"
  by (simp add: reconcile_orphaned_jobs_def Let_def logins_fold orphan_job_def)

lemma logins_upsert_finding [simp]: "logins (snd (upsert_finding now repo_id row kind found_by d)) = logins d"
  by (auto simp: upsert_finding_def Let_def split: option.split prod.split)

lemma logins_supersede_unproposed_dep_updates [simp]: "logins (snd (supersede_unproposed_dep_updates now repo_id proposed unchecked d)) = logins d"
  by (auto simp: supersede_unproposed_dep_updates_def Let_def split: option.split prod.split)

lemma logins_reopen_suppressed [simp]: "logins (snd (reopen_suppressed now fid row d)) = logins d"
  by (auto simp: reopen_suppressed_def Let_def split: option.split prod.split)

lemma logins_refresh_dep_update [simp]: "logins (snd (refresh_dep_update now fid row d)) = logins d"
  by (auto simp: refresh_dep_update_def Let_def split: option.split prod.split)

lemma logins_record_recheck_attempt [simp]: "logins (snd (record_recheck_attempt now fid fp d)) = logins d"
  by (auto simp: record_recheck_attempt_def Let_def split: option.split prod.split)

lemma logins_record_fix_attempt [simp]: "logins (snd (record_fix_attempt now fid fp d)) = logins d"
  by (auto simp: record_fix_attempt_def Let_def split: option.split prod.split)

lemma logins_record_closed_harvest [simp]: "logins (snd (record_closed_harvest now fid status reason anchor stamp d)) = logins d"
  by (auto simp: record_closed_harvest_def Let_def split: option.split prod.split)

lemma logins_hand_over_queued_dep_updates [simp]: "logins (snd (hand_over_queued_dep_updates now repo_id moves d)) = logins d"
  unfolding hand_over_queued_dep_updates_def by (subst logins_fold_snd) (simp_all add: hand_over_one_def Let_def split_beta)

lemma logins_record_harvest_attempt [simp]: "logins (snd (record_harvest_attempt fid fp d)) = logins d"
  by (auto simp: record_harvest_attempt_def Let_def split: option.split prod.split)

lemma logins_forget_deleted_repo [simp]: "logins (snd (forget_deleted_repo rid d)) = logins d"
  by (auto simp: forget_deleted_repo_def Let_def split: option.split prod.split)

section \<open>Rules\<close>

lemma logins_call [keeps_intros]: "(\<And>now d. logins (snd (f now d)) = logins d) \<Longrightarrow> keeps logins (call f)"
  by (rule keeps_call)

lemma logins_exec [keeps_intros]: "(\<And>now d. logins (f now d) = logins d) \<Longrightarrow> keeps logins (exec f)"
  by (rule keeps_exec)

lemma logins_event [keeps_intros]: "keeps logins (event k m x y)"
  by (rule keeps_event) simp

lemma logins_call_r [keeps_intros]:
  assumes "\<And>now d. logins (snd (f now d)) = logins d"
  shows "keeps logins (call_r f)"
proof -
  have "call_r f = call f \<bind> (\<lambda>r. State_Monad.return
      (case r of Inl e \<Rightarrow> Inl e | Inr (Inl e) \<Rightarrow> Inl (write_error_text e) | Inr (Inr x) \<Rightarrow> Inr x))"
    unfolding call_r_def by (rule state.expand) (auto simp: fun_eq_iff split: prod.split sum.split)
  then show ?thesis by (auto intro!: keeps_intros simp: assms)
qed

lemmas logins_shared [keeps_intros] = keeps_or_false keeps_changed_since keeps_file_entries keeps_anchored_by_fingerprint

lemma logins_keeps_files [keeps_intros]:
  "keeps h (remove_file p)" "keeps h (remove_dir_all p)" "keeps h (read_file p)" "keeps h (create_dir_all p)" "keeps h (append_file p t)"
  "keeps h (remove_empty_dir p)"
  unfolding remove_file_def remove_dir_all_def read_file_def create_dir_all_def append_file_def remove_empty_dir_def by (intro keeps_intros)+

section \<open>Clones, trees and workspaces\<close>

lemma logins_git [keeps_intros]: "keeps h (git argv)"
  unfolding git_def by (rule keeps_shell)

lemma logins_with_context [keeps_intros]: "keeps h m \<Longrightarrow> keeps h (with_context what m)"
  unfolding with_context_def by (auto intro!: keeps_intros split: sum.split)

lemma logins_commit [keeps_intros]: "keeps logins (commit ws revision)"
  unfolding commit_def resolve_rev_def by (auto intro!: keeps_intros)

lemma logins_add_tree [keeps_intros]: "keeps logins (add_tree ws spec)"
  unfolding add_tree_def Let_def by (auto intro!: keeps_intros split: tree_spec.split)

lemma logins_create [keeps_intros]: "keeps logins (create ws spec)"
  unfolding create_def by (auto intro!: keeps_intros)

lemma logins_release_if_idle [keeps_intros]: "keeps logins (release_if_idle ws)"
  unfolding release_if_idle_def by (auto intro!: keeps_intros)

lemma logins_release_superseded [keeps_intros]: "keeps logins (release_superseded cfg clone olds)"
  by (induction olds) (auto intro!: keeps_intros)

lemma logins_open_workspace [keeps_intros]: "keeps logins (open_workspace cfg r created resume spec kind log_prefix fid)"
  unfolding open_workspace_def Let_def by (auto intro!: keeps_intros)

lemma logins_scan_discard [keeps_intros]: "keeps logins (scan_discard tree)"
  unfolding scan_discard_def by (auto intro!: keeps_intros)

lemma logins_scan_create [keeps_intros]: "keeps logins (scan_create work_root clone repo_id at_rev)"
  unfolding scan_create_def Let_def by (auto intro!: keeps_intros)

lemma logins_sync_repo [keeps_intros]: "keeps logins (sync_repo url rpath log_prefix fid)"
  unfolding sync_repo_def same_clone_def make_clone_def sync_failed_def Let_def
  by (auto intro!: keeps_intros split: option.split)

section \<open>The steps of a job\<close>

lemma logins_budget_gate [keeps_intros]:
  "(\<And>n. keeps logins (bk_decide (ev_backend E) n)) \<Longrightarrow>
   keeps logins (budget_gate E cfg rid kind use log_prefix fid resume)"
  unfolding budget_gate_def reserved_for_def anticipated_tokens_def
  by (auto intro!: keeps_intros split: verdict.split option.split)

lemma logins_begin_job [keeps_intros]: "keeps logins (begin_job kind r fid cap anticipated resume)"
  unfolding begin_job_def by (auto intro!: keeps_intros split: sum.split)

lemma logins_recorded_state [keeps_intros]: "keeps logins (recorded_state cfg model jid rr resume)"
  unfolding recorded_state_def record_job_def Let_def by (auto intro!: keeps_intros)

lemma logins_spend_override [keeps_intros]: "keeps logins (spend_override f)"
  unfolding spend_override_def by (auto intro!: keeps_intros)

lemma logins_rows [keeps_intros]:
  "keeps logins (repo_of label f)" "keeps logins (pr_row_of label missing f)" "keeps logins (pr_number_of label f r ps)"
  "keeps logins (fetch_branch label f r branch)" "keeps logins (refuse shown fid why)"
  unfolding repo_of_def pr_row_of_def pr_number_of_def fetch_branch_def refuse_def
  by (auto intro!: keeps_intros split: sum.split option.split)


lemma logins_steps [keeps_intros]:
  "keeps logins m \<Longrightarrow> (\<And>a. keeps logins (k a)) \<Longrightarrow> keeps logins (unless_ended m k)"
  "keeps logins m \<Longrightarrow> (\<And>a. keeps logins (k' a)) \<Longrightarrow> keeps logins (ended_or m k')"
  unfolding unless_ended_def ended_or_def by (auto intro!: keeps_intros)

lemma logins_make_parent [keeps_intros]: "keeps logins (make_parent p)"
  unfolding make_parent_def by (intro keeps_intros)

lemma logins_suppression_list [keeps_intros]: "keeps logins (suppression_list p rows sha)"
  by (induction p rows sha rule: suppression_list.induct) (auto intro!: keeps_intros)

section \<open>Findings\<close>

lemma logins_file_entry [keeps_intros]: "keeps logins (file_entry J repo_id types jid source mode i f r)"
  unfolding file_entry_def file_duplicate_def refresh_duplicate_def reopen_if_changed_def error_event_def Let_def
  by (auto intro!: keeps_intros split: sum.split bool.split option.split prod.split)

lemma logins_ingest [keeps_intros]:
  "keeps logins (ingest_findings J repo_id path types jid source)"
  "keeps logins (ingest_scan_findings J repo_id path types j)"
  unfolding ingest_findings_def ingest_scan_findings_def ingest_def error_event_def
  by (auto intro!: keeps_intros)

lemma logins_move_anchors [keeps_intros]: "keeps logins (move_anchors m sha es)"
  by (induction m sha es rule: move_anchors.induct) (auto intro!: keeps_intros)

lemma logins_reconfirmations [keeps_intros]: "keeps logins (apply_reconfirmations parse r kinds out_path sha)"
  unfolding apply_reconfirmations_def Let_def by (auto intro!: keeps_intros)

lemma logins_followups [keeps_intros]: "keeps logins (ingest_followups J rid tree fid jid kind)"
  unfolding ingest_followups_def by (auto intro!: keeps_intros)


section \<open>Prompts\<close>

lemma logins_fill [keeps_intros]: "keeps h (fill dir name values)"
  unfolding fill_def read_template_def Let_def by (auto intro!: keeps_intros)

lemma logins_repo_notes [keeps_intros]: "keeps logins (repo_notes work_root rid)"
  unfolding repo_notes_def by (auto intro!: keeps_intros)

lemma logins_recheck_prompt [keeps_intros]: "keeps h (build_recheck_prompt T dir f r tree out_path notes)"
  unfolding build_recheck_prompt_def Let_def by (auto intro!: keeps_intros)

lemma logins_harvest_prompts [keeps_intros]:
  "keeps h (build_harvest_prompt T dir f tree branch r pr n notes)"
  "keeps h (build_harvest_closed_prompt T dir f tree r pr n diff tree_at notes)"
  unfolding build_harvest_prompt_def build_harvest_closed_prompt_def Let_def by (auto intro!: keeps_intros)

lemma logins_hunt_prompt [keeps_intros]:
  "keeps h (build_hunt_prompt dir r tree revs note listed known out_path most notes)"
  unfolding build_hunt_prompt_def Let_def by (auto intro!: keeps_intros)

lemma logins_analysis_prompts [keeps_intros]:
  "keeps h (build_analysis_prompt template x y dir r tree note listed known out_path most notes)"
  unfolding build_analysis_prompt_def Let_def by (auto intro!: keeps_intros)

lemma logins_scan_prompts [keeps_intros]:
  "keeps h (build_standards_prompt dir r tree note listed known out_path most notes)"
  "keeps h (as_prompt TEST_GAP_SPEC dir r tree note listed known out_path most notes)"
  "keeps h (as_prompt DEP_UPDATE_SPEC dir r tree note listed known out_path most notes)"
  "keeps h (as_prompt REFACTOR_SPEC dir r tree note listed known out_path most notes)"
  "keeps h (as_prompt MODERNIZATION_SPEC dir r tree note listed known out_path most notes)"
  "keeps h (as_prompt STANDARDS_SPEC dir r tree note listed known out_path most notes)"
  unfolding TEST_GAP_SPEC_def DEP_UPDATE_SPEC_def REFACTOR_SPEC_def MODERNIZATION_SPEC_def STANDARDS_SPEC_def
    build_test_gap_prompt_def build_dep_update_prompt_def build_refactor_prompt_def build_modernization_prompt_def
    build_standards_prompt_def read_template_def
  by (auto simp: Let_def intro!: keeps_intros)


section \<open>Harvests, rechecks and scans\<close>

lemma logins_judged_at [keeps_intros]: "keeps logins (judged_at start resume)"
  unfolding judged_at_def resolve_rev_def by (auto intro!: keeps_intros)

lemma logins_harvest_failure [keeps_intros]: "keeps logins (record_harvest_failure fid jid key detail)"
  unfolding record_harvest_failure_def Let_def by (auto intro!: keeps_intros split: sum.split option.split)

lemma logins_record_harvest [keeps_intros]: "keeps logins (record_harvest f start resume state closure failure gave_up summary)"
  unfolding record_harvest_def record_review_def record_closure_def suspended_harvest_def harvested_def Let_def
  by (auto intro!: keeps_intros split: option.split sum.split bool.split simp del: append.simps)

lemma logins_finish_harvest [keeps_intros]: "keeps logins (finish_harvest R cfg f resume start rr)"
  unfolding finish_harvest_def counted_failure_def harvest_followups_def read_close_reason_def Let_def
  by (auto intro!: keeps_intros split: option.split simp del: append.simps)


lemma logins_prefetched [keeps_intros]: "keeps logins m \<Longrightarrow> keeps logins (prefetched fid handoff what m)"
  unfolding prefetched_def harvest_prefetch_failed_def
  by (auto intro!: keeps_intros split: sum.split simp del: append.simps)

lemma logins_open_harvest [keeps_intros]: "keeps logins (open_harvest cfg f resume target anticipated)"
  unfolding open_harvest_def Let_def by (auto intro!: keeps_intros split: prod.split simp del: append.simps)

lemma logins_recheck_failure [keeps_intros]: "keeps logins (handle_recheck_failure summary fid jid key detail override)"
  unfolding handle_recheck_failure_def Let_def
  by (auto intro!: keeps_intros split: sum.split option.split simp del: append.simps)

lemma logins_open_recheck [keeps_intros]: "keeps logins (open_recheck cfg f r cap created resume)"
  unfolding open_recheck_def Let_def
  by (auto intro!: keeps_intros split: sum.split prod.split simp del: append.simps)

lemma logins_record_verdict [keeps_intros]: "keeps logins (record_verdict f start v summary)"
  unfolding record_verdict_def record_confirmed_def record_stale_def record_invalid_def cleared_recheck_def
    Rechecking.settled_def Let_def
  by (auto intro!: keeps_intros split: option.split recheck_outcome.split simp del: append.simps)

lemma logins_finish_recheck [keeps_intros]: "keeps logins (finish_recheck R cfg f resume start rr)"
  unfolding finish_recheck_def suspended_recheck_def read_verdict_def Let_def
  by (auto intro!: keeps_intros split: option.split simp del: append.simps)

lemma logins_fetch_tip [keeps_intros]: "keeps logins (fetch_tip r)"
  unfolding fetch_tip_def resolve_rev_def
  by (auto intro!: keeps_intros split: option.split simp del: append.simps)

lemma logins_prior_findings [keeps_intros]: "keeps logins (prior_findings rid fts label)"
  by (induction fts) (auto intro!: keeps_intros simp: suppressed_def simp del: append.simps)

lemma logins_cold_findings [keeps_intros]: "keeps logins (cold_findings rid fts label resume)"
  unfolding cold_findings_def by (auto intro!: keeps_intros)

lemma logins_hunt_scope [keeps_intros]: "keeps logins (hunt_scope_of cfg r resume)"
  unfolding hunt_scope_of_def hunt_head_def start_rehunt_def resumed_full_def hunt_range_def first_range_def
    no_new_commits_def Let_def
  by (auto intro!: keeps_intros split: option.split prod.split simp del: append.simps)

lemma logins_mark_scope [keeps_intros]: "keeps logins (mark_scope r sc jid resume)"
  unfolding mark_scope_def by (auto intro!: keeps_intros split: option.split simp del: append.simps)

lemma logins_finish_scans [keeps_intros]:
  "keeps logins (finish_hunt R cfg r sc start out_path resume rr)"
  "keeps logins (finish_analysis R cfg r spec start out_path resume rr)"
  unfolding finish_hunt_def ingest_hunt_def record_hunted_def finish_analysis_def ingest_analysis_def Let_def
  by (auto intro!: keeps_intros simp del: append.simps)

lemma logins_file_scan [keeps_intros]: "keeps logins (file_scan R N cfg r scan)"
  unfolding file_scan_def settle_dep_updates_def write_file_def Let_def
  by (auto intro!: keeps_intros split: sum.split simp del: append.simps)


lemma logins_begin_scan:
  assumes "quiet_backend (ev_backend E) logins" "\<And>jid. keeps logins (marked jid)"
  shows "keeps logins (begin_scan E cfg r kind label marked spec resume)"
  unfolding begin_scan_def by (auto intro!: keeps_intros assms(2) assms quiet_backend.decide_keeps [OF assms(1)] split: prod.split)

lemma logins_run_harvest:
  assumes "quiet_backend (ev_backend E) logins"
  shows "keeps logins (run_harvest E R cfg f resume)"
  unfolding run_harvest_def start_harvest_def harvest_prompt_def Let_def
  by (auto intro!: keeps_intros quiet_backend.decide_keeps [OF assms(1)] quiet_backend.run_keeps [OF assms(1)] simp del: append.simps split: prod.split)

lemma logins_run_recheck:
  assumes "quiet_backend (ev_backend E) logins"
  shows "keeps logins (run_recheck E R cfg f resume)"
  unfolding run_recheck_def start_recheck_def recheck_prompt_def Let_def
  by (auto intro!: keeps_intros quiet_backend.decide_keeps [OF assms(1)] quiet_backend.run_keeps [OF assms(1)] simp del: append.simps split: prod.split option.split)

lemma logins_run_hunt:
  assumes "quiet_backend (ev_backend E) logins"
  shows "keeps logins (run_hunt E R cfg r resume)"
  unfolding run_hunt_def hunt_prompt_def Let_def
  by (auto intro!: keeps_intros logins_begin_scan [OF assms(1)] quiet_backend.run_keeps [OF assms(1)] simp del: append.simps split: prod.split option.split)

lemma logins_run_analysis:
  assumes "quiet_backend (ev_backend E) logins"
    "\<And>dir tree note listed known out_path most notes. keeps logins (as_prompt spec dir r tree note listed known out_path most notes)"
  shows "keeps logins (run_analysis_job E R cfg r spec resume)"
  unfolding run_analysis_job_def analysis_prompt_def not_cloned_def Let_def
  by (auto intro!: keeps_intros assms(2) logins_begin_scan [OF assms(1)] quiet_backend.run_keeps [OF assms(1)] simp del: append.simps split: prod.split option.split)

lemma logins_run_dep_update:
  assumes "quiet_backend (ev_backend E) logins"
  shows "keeps logins (run_dep_update E R N cfg r resume)"
  unfolding run_dep_update_def renovate_scan_def github_token_def not_cloned_def Let_def
  by (auto intro!: keeps_intros logins_run_analysis [OF assms(1)] quiet_backend.run_keeps [OF assms(1)] simp del: append.simps split: prod.split option.split)

section \<open>Fixes and engages\<close>

lemma logins_release_claim [keeps_intros]: "keeps logins (release_claim fid)"
  unfolding release_claim_def by (auto intro!: keeps_intros)

lemma logins_hold_blocked [keeps_intros]: "keeps logins (hold_blocked fid jid report)"
  unfolding hold_blocked_def by (auto intro!: keeps_intros split: sum.split)

lemma logins_fix_event [keeps_intros]: "keeps logins (fix_event kind fid jid message)"
  unfolding fix_event_def by (auto intro!: keeps_intros)

lemma logins_fix_failure [keeps_intros]: "keeps logins (record_fix_failure fid jid failure detail summary)"
  unfolding record_fix_failure_def Let_def
  by (auto intro!: keeps_intros split: sum.split simp del: append.simps)

lemma logins_retire_concluded [keeps_intros]: "keeps logins (retire_concluded jid outcome)"
  unfolding retire_concluded_def by (auto intro!: keeps_intros)

lemma logins_record_job [keeps_intros]: "keeps logins (record_job jid rr model resume)"
  unfolding record_job_def Let_def by (auto intro!: keeps_intros split: option.split simp del: append.simps)

section \<open>A fix\<close>

lemma logins_fix_opens: "keeps logins (create_pr fg rpath head base title body)"
  by (cases fg; auto simp: github_create_pr_def gitlab_create_pr_def must_def  Let_def
      intro!: keeps_intros split: prod.split option.split bool.split simp del: append.simps)

lemma logins_fix_ships: "keeps logins (ship_pr r branch tree state)"
  unfolding ship_pr_def open_pr_def commits_ahead_def Let_def
  by (auto intro!: keeps_intros logins_fix_opens  split: prod.split option.split sum.split simp del: append.simps)

lemma logins_fix_concludes: "keeps logins (conclude_fix f start state previous)"
  unfolding conclude_fix_def read_report_def Let_def
  by (auto intro!: keeps_intros logins_fix_ships split: option.split sum.split simp del: append.simps)

lemma logins_fix_records: "keeps logins (record_fix_outcome f start outcome stdout_tail summary)"
  unfolding record_fix_outcome_def hold_blocked_fix_def record_declined_fix_def record_shipped_def after_fix_def Let_def
  by (auto intro!: keeps_intros split: fix_outcome.split sum.split prod.split simp del: append.simps)

lemma logins_fix_finishes: "keeps logins (finish_fix cfg f resume start rr)"
  unfolding finish_fix_def Let_def
  by (auto intro!: keeps_intros logins_fix_concludes logins_fix_records simp del: append.simps)

lemma logins_fix_claims: "keeps logins (claimed_fix cfg f r resume cap anticipated)"
  unfolding claimed_fix_def prepare_blocked_resume_def open_fix_def count_unmade_tree_def Let_def
  by (auto intro!: keeps_intros logins_open_workspace split: option.split sum.split prod.split simp del: append.simps)


section \<open>An engage\<close>

lemma logins_engage_pushes: "keeps logins (push_leased start)"
  unfolding push_leased_def Let_def
  by (auto intro!: keeps_intros   simp del: append.simps)


lemma logins_engage_replies: "keeps logins (post_reply start)"
  unfolding post_reply_def Let_def
  by (auto intro!: keeps_intros  split: sum.split simp del: append.simps)

lemma logins_engage_records: "keeps logins (record_engage f start state published stdout_tail summary)"
  unfolding record_engage_def record_incomplete_def record_published_def Let_def
  by (auto intro!: keeps_intros logins_spend_override split: sum.split prod.split simp del: append.simps)

lemma logins_engage_withdraws: "keeps logins (withdraw_pr fid start reason summary)"
  unfolding withdraw_pr_def withdrawal_aborted_def record_withdrawal_def Let_def
  by (auto intro!: keeps_intros  split: sum.split simp del: append.simps)

lemma logins_engage_concludes: "keeps logins (conclude_engage f start state stdout_tail summary)"
  unfolding conclude_engage_def push_and_reply_def Let_def
  by (auto intro!: keeps_intros logins_engage_withdraws logins_engage_pushes logins_engage_replies logins_engage_records
      logins_spend_override simp del: append.simps)

lemma logins_start_engage:
  assumes "\<And>n. keeps logins (bk_decide (ev_backend E) n)"
  shows "keeps logins (start_engage E R cfg f resume)"
  unfolding start_engage_def engage_target_def engage_head_ref_def engage_view_def Let_def
  by (auto intro!: keeps_intros assms split: prod.split option.split sum.split simp del: append.simps)

lemma logins_engage_prompt: "keeps logins (engage_prompt cfg f start resume)"
  unfolding engage_prompt_def build_engage_prompt_def
  by (auto intro!: keeps_intros split: option.split simp del: append.simps)

lemma logins_fix_prompt: "keeps logins (fix_prompt T cfg f start resume)"
  unfolding fix_prompt_def build_fix_prompt_def build_apply_improvement_prompt_def build_apply_modernization_prompt_def
  by (auto intro!: keeps_intros split: option.split sum.split finding_type.split simp del: append.simps)

section \<open>Who writes\<close>

lemma logins_engage_continues:
  assumes "quiet_backend (ev_backend E) logins"
  shows "keeps logins (continue_into_harvest E R cfg r fid jid ws pinned session)"
  unfolding continue_into_harvest_def hand_off_def anticipated_tokens_def Let_def
  by (auto intro!: keeps_intros logins_run_harvest [OF assms(1)] split: option.split sum.split simp del: append.simps)

lemma logins_run_engage:
  assumes "quiet_backend (ev_backend E) logins"
  shows "keeps logins (run_engage E R cfg f resume)"
  unfolding run_engage_def finish_engage_def
  by (auto intro!: keeps_intros logins_engage_concludes logins_start_engage [OF quiet_backend.decide_keeps [OF assms(1)]] logins_engage_prompt
      quiet_backend.run_keeps [OF assms(1)] quiet_backend.decide_keeps [OF assms(1)] quiet_backend.decide_keeps [OF assms(1)] logins_recorded_state
      logins_engage_continues [OF assms(1)]
      split: prod.split option.split simp del: append.simps)

lemma logins_run_fix:
  assumes "quiet_backend (ev_backend E) logins"
  shows "keeps logins (run_fix E T cfg f resume)"
  unfolding run_fix_def start_fix_def Let_def
  by (auto intro!: keeps_intros logins_fix_prompt logins_fix_claims logins_fix_finishes quiet_backend.run_keeps [OF assms(1)] logins_budget_gate [OF quiet_backend.decide_keeps [OF assms(1)]]
      quiet_backend.decide_keeps [OF assms(1)] split: prod.split option.split sum.split simp del: append.simps)

lemma logins_finding_job:
  assumes "quiet_backend (ev_backend (ex_env X)) logins"
  shows "keeps logins (run_finding_job X cfg kind fid resume)"
  unfolding run_finding_job_def Let_def
  by (auto intro!: keeps_intros logins_run_engage [OF assms(1)] logins_run_fix [OF assms(1)] logins_run_harvest [OF assms(1)] logins_run_recheck [OF assms(1)]
      split: finding_job_kind.split)

lemma logins_repo_job:
  assumes "quiet_backend (ev_backend (ex_env X)) logins"
  shows "keeps logins (run_repo_job X cfg kind rid resume)"
  unfolding run_repo_job_def Let_def
  by (auto intro!: keeps_intros logins_run_hunt [OF assms(1)] logins_run_analysis [OF assms(1)] logins_run_dep_update [OF assms(1)] 
      split: repo_job_kind.split)

lemma logins_dispatch:
  assumes "quiet_backend (ev_backend (ex_env X)) logins"
  shows "keeps logins (dispatch X cfg c)"
  unfolding dispatch_def
  by (cases c) (auto intro!: keeps_intros logins_finding_job [OF assms(1)] logins_repo_job [OF assms(1)] 
      split: job_kind.split option.split simp del: append.simps)


section \<open>The cycle and the pass\<close>

lemma logins_steps_of_a_cycle [keeps_intros]:
  "keeps logins (take_turn turn)" "keeps h (disk_gate X cfg)"
  unfolding take_turn_def disk_gate_def by (auto intro!: keeps_intros split: option.split)

lemma logins_sync_one: "keeps logins (sync_one D cfg f s)"
  unfolding sync_one_def sync_urlless_def sync_error_def sync_merged_def sync_closed_def sync_open_def Let_def
  by (auto intro!: keeps_intros split: sum.split pr_state.split option.split prod.split simp del: append.simps)

lemma logins_sync_each: "keeps logins (sync_each D cfg fs s)"
  by (induction fs arbitrary: s) (auto intro!: keeps_intros logins_sync_one)

lemma logins_sync: "keeps logins (sync_open_prs X cfg)"
  unfolding sync_open_prs_def sync_prs_def by (auto intro!: keeps_intros logins_sync_each)

lemma logins_resume_plan: "keeps logins (resume_plan_of ctx_of cfg j mode)"
  unfolding resume_plan_of_def within_ceiling_def give_up_def retire_gone_def Let_def
  by (auto intro!: keeps_intros split: option.split job_kind.split simp del: append.simps)

lemma logins_given_up: "keeps logins (count_given_up_chain kind fid jid why)"
  unfolding count_given_up_chain_def Let_def
  by (auto intro!: keeps_intros split: finding_job_kind.split sum.split prod.split simp del: append.simps)

lemma logins_finding_pick: "keeps logins (finding_pick ctx_of cfg kind f mode)"
  unfolding finding_pick_def finding_pick_one_def
  by (auto intro!: keeps_intros keeps_first_of logins_resume_plan logins_given_up split: resumability.split)

lemma logins_pick_resume: "keeps logins (pick_resume ctx_of cfg force_id mode)"
  unfolding pick_resume_def by (auto intro!: keeps_intros keeps_first_of logins_resume_plan)

lemma logins_select_round: "keeps logins (select_round ctx_of cfg force_repo mode)"
  unfolding select_round_def serve_def
  by (auto intro!: keeps_intros logins_finding_pick logins_pick_resume split: option.split prod.split)

lemma logins_select_upto: "keeps logins (select_upto n ctx_of cfg force_repo mode)"
  by (induction n) (auto intro!: keeps_intros logins_select_round split: option.split)

lemma logins_pick: "keeps logins (pick_next ctx_of cfg force_repo)"
  unfolding pick_next_def select_def by (intro keeps_intros logins_select_upto)

lemma logins_run_cycle:
  assumes "quiet_backend (ev_backend (ex_env X)) logins"
  shows "keeps logins (run_cycle X cfg force_repo)"
  unfolding run_cycle_def run_cycle_inner_def work_on_def Let_def
  by (auto intro!: keeps_intros logins_dispatch [OF assms] logins_sync logins_pick split: sum.split option.split simp del: append.simps)

end
