(* ===== verification/DisabledOut.thy ===== *)
theory DisabledOut
  imports AccountSafety Daemon LoginsFrame
begin

text \<open>
A disabled account stays out, whatever requests are served, accounts administered and cycles run afterwards: no handler but the
administration's touches the rows of the accounts.
\<close>

section \<open>Requests leave the accounts alone\<close>

lemma keeps_users_call: "(\<And>now d. db_users (snd (f now d)) = db_users d) \<Longrightarrow> keeps db_users (call f)"
  by (rule keeps_call)

lemma users_upd: "db_users (upd_repos P f d) = db_users d" "db_users (upd_findings Q g d) = db_users d"
  by (simp_all add: upd_repos_def upd_findings_def)

lemma users_frames:
  "db_users (snd (claim_in_progress now fid s t d)) = db_users d"
  "db_users (snd (set_verdict_if now fid s t r d)) = db_users d"
  "db_users (set_budget_override now fid mode d) = db_users d"
  "db_users (snd (clear_all_overrides now d)) = db_users d"
  "db_users (insert_event now k m x y z d) = db_users d"
  "db_users (snd (update_repo_row rid u d)) = db_users d"
  "db_users (snd (add_repo_row now n url rd b fg d)) = db_users d"
  "db_users (snd (soft_delete_repo now rid d)) = db_users d"
  "db_users (snd (forget_deleted_repo rid d)) = db_users d"
  "db_users (snd (request_full_hunt now rid d)) = db_users d"
  "db_users (snd (create_session now uid h e d)) = db_users d"
  "db_users (delete_session h d) = db_users d"
  by (simp_all add: claim_in_progress_def set_verdict_if_def set_budget_override_def clear_all_overrides_def insert_event_def
      update_repo_row_def add_repo_row_def soft_delete_repo_def forget_deleted_repo_def request_full_hunt_def create_session_def
      delete_session_def upd_repo_def write_anchor_def Let_def users_upd split: option.split)

lemmas users_keeps = keeps_call keeps_exec keeps_row_call

lemma keeps_users_event [keeps_intros]: "keeps db_users (log_user_event user k m x)"
  unfolding log_user_event_def by (intro keeps_exec) (simp add: users_frames)

lemma keeps_internal [keeps_intros]: "keeps h m \<Longrightarrow> keeps h (internal m)"
  unfolding internal_def by (auto intro!: keeps_intros split: sum.split)

lemma keeps_fetches [keeps_intros]: "keeps h (fetch_finding fid)" "keeps h (fetch_repo rid)"
  unfolding fetch_finding_def fetch_repo_def by (auto intro!: keeps_intros)

lemma keeps_respond [keeps_intros]: "keeps h m \<Longrightarrow> keeps h (respond f m)"
  unfolding respond_def by (auto intro!: keeps_intros)

lemma keeps_verdict: "keeps db_users (verdict_handler V user rq)"
  unfolding verdict_handler_def apply_verdict_def Let_def
  by (auto intro!: users_keeps keeps_intros simp: users_frames simp del: append.simps awaits_verdict.simps split: option.split)

lemma keeps_moved: "keeps db_users (moved_by_operator user f s t k n x b)"
  unfolding moved_by_operator_def Let_def by (auto intro!: users_keeps keeps_intros simp: users_frames simp del: append.simps awaits_verdict.simps)

lemma keeps_queue_handlers: "keeps db_users (recheck_handler V user rq)" "keeps db_users (unqueue_handler V user rq)"
  unfolding recheck_handler_def unqueue_handler_def apply_recheck_def apply_unqueue_def
  by (auto intro!: keeps_intros keeps_moved)

lemma keeps_override: "keeps db_users (override_handler V user rq)"
  unfolding override_handler_def clear_overrides_def Let_def
  by (auto intro!: users_keeps keeps_intros simp: users_frames simp del: append.simps awaits_verdict.simps)

lemma keeps_switches:
  "keeps h (cycle_handler s rq)" "keeps h (set_scheduler_paused V rq)" "keeps h (set_scheduler_overdrive V rq)"
  unfolding cycle_handler_def set_scheduler_paused_def set_scheduler_overdrive_def by (auto intro!: keeps_intros)

lemma keeps_repoint: "keeps h (repoint_clone_origin dir u v)"
  unfolding repoint_clone_origin_def by (auto intro!: keeps_intros)

lemma keeps_update_repo: "keeps db_users (update_repo_handler V user rq)"
  unfolding update_repo_handler_def by (auto intro!: users_keeps keeps_intros keeps_repoint simp: users_frames simp del: append.simps)

lemma keeps_lookup: "keeps h (lookup_repo k)"
  unfolding lookup_repo_def by (auto intro!: keeps_intros)

lemma keeps_add_repo: "keeps db_users (add_repo_handler V user rq)"
  unfolding add_repo_handler_def Let_def
  by (auto intro!: users_keeps keeps_intros keeps_lookup simp: users_frames simp del: append.simps)

lemma keeps_files:
  "keeps h (remove_file p)" "keeps h (remove_dir_all p)" "keeps h (read_file p)" "keeps h (create_dir_all p)" "keeps h (append_file p t)"
  unfolding remove_file_def remove_dir_all_def read_file_def create_dir_all_def append_file_def by (intro keeps_intros)+

lemma keeps_reap: "keeps db_users (reap_repo repos_dir rid)"
  unfolding reap_repo_def unless_missing_def
  by (auto intro!: users_keeps keeps_intros keeps_files simp: users_frames)

lemma keeps_delete_repo: "keeps db_users (delete_repo_handler V user rq)"
  unfolding delete_repo_handler_def soft_deleted_def Let_def
  by (auto intro!: users_keeps keeps_intros keeps_reap simp: users_frames simp del: append.simps)

lemma keeps_rehunt: "keeps db_users (rehunt_handler V user rq)"
  unfolding rehunt_handler_def by (auto intro!: users_keeps keeps_intros simp: users_frames simp del: append.simps)

lemma keeps_read_notes: "keeps h (repo_notes work_root rid)"
  unfolding repo_notes_def by (auto intro!: keeps_intros keeps_files)

lemma keeps_add_note: "keeps db_users (add_note_handler V user rq)"
  unfolding add_note_handler_def append_repo_note_def Let_def
  by (auto intro!: keeps_intros keeps_files keeps_read_notes simp del: append.simps split: option.split)

section \<open>The whole server\<close>

lemma keeps_preview: "keeps h (preview_next ctx_of cfg)"
  unfolding preview_next_def select_def by (intro keeps_intros keeps_select_preview)

lemma keeps_reservation: "keeps h (candidate_reservation cfg c)"
  unfolding candidate_reservation_def by (auto intro!: keeps_intros split: candidate.split)

lemma keeps_summary:
  assumes "quiet_backend (sv_backend V) h" "keeps h (sv_status_html V)"
  shows "keeps h (summary V s)"
  unfolding summary_def next_up_def Let_def
  by (auto intro!: keeps_intros keeps_preview keeps_reservation quiet_backend.decide_keeps [OF assms(1)] assms(2))

lemma keeps_reads:
  "keeps h (findings_handler rq)" "keeps h (finding_detail rq)" "keeps h (repo_notes_handler V rq)" "keeps h stats_handler"
  unfolding findings_handler_def repo_of_key_def finding_detail_def repo_notes_handler_def stats_handler_def Let_def
  by (auto intro!: keeps_intros keeps_lookup keeps_read_notes)

lemma keeps_listed: "keeps h (listed q c)"
  unfolding listed_def by (intro keeps_intros)

lemma keeps_require_session: "keeps h (require_session C rq)"
  unfolding require_session_def by (auto intro!: keeps_intros)

lemma keeps_logout: "keeps db_users (logout C rq)"
  unfolding logout_def by (auto intro!: users_keeps keeps_intros simp: users_frames split: option.split)

lemma keeps_login_as: "keeps db_users (login_as C user)"
  unfolding login_as_def new_session_token_def
  by (auto intro!: users_keeps keeps_intros simp: users_frames split: sum.split)

lemma keeps_login: "keeps db_users (login C parse rq)"
  unfolding login_def Let_def by (auto intro!: keeps_intros keeps_login_as split: option.split prod.split)

lemma keeps_static: "keeps h (static_files V path)"
  unfolding static_files_def served_asset_def Let_def by (auto intro!: keeps_intros keeps_files split: option.split)

lemma keeps_taken: "(\<And>m p handler. (m, p, handler) \<in> set routes \<Longrightarrow> keeps h handler) \<Longrightarrow> keeps h (taken_route rq routes)"
  unfolding taken_route_def using find_Some_set by (fastforce intro: keeps_intros split: option.split)

lemma keeps_api_routes:
  assumes "quiet_backend (sv_backend V) db_users" "keeps db_users (sv_status_html V)" "(m, p, handler) \<in> set (api_routes V s rq user)"
  shows "keeps db_users handler"
  using assms(3) unfolding api_routes_def
  by (auto intro!: keeps_respond keeps_summary [OF assms(1,2)] keeps_reads keeps_listed keeps_update_repo keeps_add_repo keeps_delete_repo
      keeps_rehunt keeps_add_note keeps_verdict keeps_queue_handlers keeps_override keeps_switches keeps_logout keeps_api)

lemma keeps_serve:
  assumes "quiet_backend (sv_backend V) db_users" "keeps db_users (sv_status_html V)"
  shows "keeps db_users (serve V s rq)"
proof -
  have api: "keeps db_users (taken_route rq (api_routes V s rq user))" for user
    by (rule keeps_taken) (rule keeps_api_routes [OF assms])
  have "keeps db_users (taken_route rq [(POST, ''/api/login'', respond f (login (sv_crypto V) (sv_parse V) rq))])" for f
    by (rule keeps_taken) (auto intro: keeps_respond keeps_login)
  with api show ?thesis
    unfolding serve_def routed_def with_session_def
    by (auto intro!: keeps_intros keeps_static keeps_require_session split: sum.split)
qed

section \<open>The daemon leaves the accounts alone\<close>

lemma keeps_each_ok: "(\<And>e. keeps h (f e)) \<Longrightarrow> keeps h (each_ok f es)"
  by (induction es) (auto intro!: keeps_intros)

lemma logins_reconcile: "keeps logins (reconcile_and_log D work_root)"
  unfolding reconcile_and_log_def suspend_if_worked_def orphan_work_def Let_def
  by (auto intro!: keeps_intros keeps_each_ok keeps_for_each split: option.split prod.split simp del: append.simps)

lemma logins_reap: "keeps logins (reap_deleted_repos work_root)"
proof -
  have one: "keeps logins (reap_repo dir rid)" for dir rid
    unfolding reap_repo_def unless_missing_def
    by (auto intro!: keeps_intros keeps_row_call split: option.split)
  have "keeps logins (reap_each dir rids n)" for dir rids n
    by (induction rids arbitrary: n) (auto intro!: keeps_intros one)
  then show ?thesis unfolding reap_deleted_repos_def by (intro keeps_intros)
qed

lemma logins_sweep: "keeps logins (sweep_workspaces work_root)"
  unfolding sweep_workspaces_def sweep_reclaims by (auto intro!: keeps_intros keeps_reclaim)

lemma logins_cycle_pass:
  assumes "quiet_backend (ev_backend (ex_env (dm_executors D))) logins"
  shows "keeps logins (cycle_pass D cfg)"
  unfolding cycle_pass_def cycle_body_def compute_sleep_s_def base_sleep_def or_zero_def record_state_def
  by (auto intro!: keeps_intros logins_reconcile logins_reap logins_sweep logins_run_cycle [OF assms]
      split: sum.split option.split simp del: append.simps)

lemma logins_daemon_turn:
  assumes "quiet_backend (ev_backend (ex_env (dm_executors D))) logins"
  shows "keeps logins (daemon_turn D cfg paused)"
  unfolding daemon_turn_def by (auto intro!: keeps_intros logins_cycle_pass [OF assms])

lemma logins_start_up: "keeps logins (start_up D cfg)"
proof -
  have one: "keeps logins (migrate_clone work_root dir)" for work_root dir
    unfolding migrate_clone_def park_notes_def move_notes_def staged_move_def copy_file_def rename_file_def Let_def
    by (auto intro!: keeps_intros split: option.split prod.split sum.split simp del: append.simps)
  have "keeps logins (migrate_each work_root dirs n)" for work_root dirs n
    by (induction dirs arbitrary: n) (auto intro!: keeps_intros one)
  then have "keeps logins (migrate_repo_notes work_root)" for work_root
    unfolding migrate_repo_notes_def by (intro keeps_intros)
  then show ?thesis unfolding start_up_def by (auto intro!: keeps_intros logins_reap logins_sweep)
qed

section \<open>Any run\<close>

text \<open>Requests; the second half of a login, as that of an account that was let in before; \<open>hunter user\<close>; the daemon starting up and
  each turn of its loop, with the whole cycle it runs; and whatever happens outside the database: the disk, the clock, the forge.\<close>

inductive account_run :: "server \<Rightarrow> daemon \<Rightarrow> world \<Rightarrow> world \<Rightarrow> bool" for V D where
  here: "account_run V D w w"
| request: "account_run V D w w1 \<Longrightarrow> run_state (serve V s rq) w1 = (r, w2) \<Longrightarrow> account_run V D w w2"
| late_login: "account_run V D w w1 \<Longrightarrow> run_state (login_as (sv_crypto V) user) w1 = (r1, w2) \<Longrightarrow> account_run V D w w2"
| added: "account_run V D w w1 \<Longrightarrow> run_state (add_user C name password) w1 = (r2, w2) \<Longrightarrow> account_run V D w w2"
| password: "account_run V D w w1 \<Longrightarrow> run_state (change_password C name password) w1 = (r3, w2) \<Longrightarrow> account_run V D w w2"
| disabled: "account_run V D w w1 \<Longrightarrow> run_state (disable_user C name) w1 = (r3, w2) \<Longrightarrow> account_run V D w w2"
| started: "account_run V D w w1 \<Longrightarrow> run_state (start_up D cfg) w1 = (r4, w2) \<Longrightarrow> account_run V D w w2"
| turn: "account_run V D w w1 \<Longrightarrow> run_state (daemon_turn D cfg paused) w1 = (r5, w2) \<Longrightarrow> account_run V D w w2"
| cycle: "account_run V D w w1 \<Longrightarrow> run_state (run_cycle (dm_executors D) cfg force) w1 = (r6, w2) \<Longrightarrow> account_run V D w w2"
| outside: "account_run V D w w1 \<Longrightarrow> w_db w2 = w_db w1 \<Longrightarrow> account_run V D w w2"

definition barred :: "int \<Rightarrow> db \<Rightarrow> bool" where
  "barred uid d \<longleftrightarrow> distinct (map u_id (db_users d)) \<and> (\<exists>u \<in> set (db_users d). u_id u = uid \<and> u_disabled_at u \<noteq> None)"

lemma barred_cong: "db_users d' = db_users d \<Longrightarrow> barred uid d \<Longrightarrow> barred uid d'"
  by (simp add: barred_def)

lemma barred_create: "barred uid d \<Longrightarrow> barred uid (snd (create_user C now name h d))"
  using next_id_notin [of "map u_id (db_users d)"]
  by (auto simp: barred_def create_user_def Let_def simp del: next_id_notin split: option.split)

lemma barred_change:
  assumes "\<And>u. u_id (f u) = u_id u" "\<And>u. u_disabled_at u \<noteq> None \<Longrightarrow> u_disabled_at (f u) \<noteq> None" "barred uid d"
  shows "barred uid (snd (change_account f name d))"
proof (cases "find_user name d")
  case None
  with assms(3) show ?thesis by (simp add: change_account_def)
next
  case (Some v)
  have "map u_id (update_where (named name) f us) = map u_id us" for us
    by (simp add: update_where_def assms(1))
  moreover have "\<exists>u \<in> set (update_where (named name) f (db_users d)). u_id u = uid \<and> u_disabled_at u \<noteq> None"
  proof -
    obtain u where u: "u \<in> set (db_users d)" "u_id u = uid" "u_disabled_at u \<noteq> None" using assms(3) by (auto simp: barred_def)
    let ?u = "if named name u then f u else u"
    have "?u \<in> set (update_where (named name) f (db_users d))" using u(1) by (auto simp: update_where_def)
    moreover have "u_id ?u = uid" "u_disabled_at ?u \<noteq> None" using u(2,3) assms(1,2) by auto
    ultimately show ?thesis by blast
  qed
  ultimately show ?thesis using assms(3) by (simp add: change_account_def Some barred_def)
qed

lemma barred_admin:
  assumes "barred uid (w_db w)"
  shows "wp (add_user C name password) (\<lambda>_ w'. barred uid (w_db w')) w"
    "wp (change_password C name password) (\<lambda>_ w'. barred uid (w_db w')) w"
    "wp (disable_user C name) (\<lambda>_ w'. barred uid (w_db w')) w"
proof -
  have set_password: "barred uid (snd (set_password name h d))" if "barred uid d" for name h d
    unfolding set_password_def by (rule barred_change) (use that in auto)
  have disable: "barred uid (snd (disable_user_row now name d))" if "barred uid d" for now name d
    unfolding disable_user_row_def by (rule barred_change) (use that in \<open>auto simp: coalesce_def split: option.split\<close>)
  show "wp (add_user C name password) (\<lambda>_ w'. barred uid (w_db w')) w"
    using assms by (auto simp: add_user_def checked_def hash_off_runtime_def wp_simps barred_create split: sum.split option.split)
  show "wp (change_password C name password) (\<lambda>_ w'. barred uid (w_db w')) w"
    using assms by (auto simp: change_password_def checked_def hash_off_runtime_def no_user_def wp_simps set_password split: sum.split option.split)
  show "wp (disable_user C name) (\<lambda>_ w'. barred uid (w_db w')) w"
    using assms by (auto simp: disable_user_def no_user_def wp_simps disable split: sum.split option.split)
qed

lemma users_of_logins: "logins d' = logins d \<Longrightarrow> db_users d' = db_users d"
  by (simp add: logins_def)

lemma run_stays_barred:
  assumes "account_run V D w w'" "quiet_backend (sv_backend V) db_users" "keeps db_users (sv_status_html V)"
    and "quiet_backend (ev_backend (ex_env (dm_executors D))) logins" "barred uid (w_db w)"
  shows "barred uid (w_db w')"
  using assms
proof (induction rule: account_run.induct)
  case (request w w1 s rq r w2)
  then show ?case using keepsD [OF keeps_serve [OF request.prems(1,2)] request.hyps(2)] by (blast intro: barred_cong)
next
  case (late_login w w1 user r1 w2)
  then show ?case using keepsD [OF keeps_login_as late_login.hyps(2)] by (blast intro: barred_cong)
next
  case (started w w1 cfg r4 w2)
  then show ?case using keepsD [OF logins_start_up started.hyps(2)] by (blast intro: barred_cong users_of_logins)
next
  case (turn w w1 cfg paused r5 w2)
  then show ?case
    using keepsD [OF logins_daemon_turn [OF turn.prems(3)] turn.hyps(2)] by (blast intro: barred_cong users_of_logins)
next
  case (cycle w w1 cfg force r6 w2)
  then show ?case
    using keepsD [OF logins_run_cycle [OF cycle.prems(3)] cycle.hyps(2)] by (blast intro: barred_cong users_of_logins)
qed (auto intro: barred_cong dest: wp_run [OF barred_admin(1)] wp_run [OF barred_admin(2)] wp_run [OF barred_admin(3)])

lemma session_row:
  assumes "session_user h t d = Some user"
  obtains v where "v \<in> set (db_users d)" "u_disabled_at v = None" "user = \<lparr>us_id = u_id v, us_name = u_username v\<rparr>"
proof (cases "find (\<lambda>s. se_token_hash s = h \<and> t < se_expires_at s) (db_sessions d)")
  case None
  with assms show ?thesis by (simp add: session_user_def)
next
  case (Some s)
  with assms obtain v where v: "find (\<lambda>u. u_id u = se_user_id s \<and> u_disabled_at u = None) (db_users d) = Some v"
    "user = \<lparr>us_id = u_id v, us_name = u_username v\<rparr>"
    by (auto simp: session_user_def)
  from find_Some_set [OF v(1)] v(2) show ?thesis by (intro that) auto
qed

lemma barred_shut_out:
  assumes "barred uid d" "us_id user = uid"
  shows "session_user h t d \<noteq> Some user" "\<not> logs_in C parse rq user d"
proof -
  from assms(1) obtain u where u: "u \<in> set (db_users d)" "u_id u = uid" "u_disabled_at u \<noteq> None" "distinct (map u_id (db_users d))"
    by (auto simp: barred_def)
  have no_row: "v \<notin> set (db_users d)" if "u_id v = uid" "u_disabled_at v = None" for v
    using u that by (metis distinct_map inj_onD)
  show "session_user h t d \<noteq> Some user"
    using no_row assms(2) by (auto elim!: session_row)
  show "\<not> logs_in C parse rq user d"
    using no_row assms(2) by (auto simp: logs_in_def elim!: candidate_row)
qed

text \<open>Disabling is what bars.\<close>

lemma disable_bars:
  assumes "run_state (disable_user C name) w = (Inr (), w')" "distinct (map u_id (db_users (w_db w)))"
    and "u \<in> set (db_users (w_db w))" "named name u"
  shows "barred (u_id u) (w_db w')"
proof -
  have bars: "barred (u_id u) (snd (disable_user_row now name (w_db w)))" if "fst (disable_user_row now name (w_db w))" for now
  proof -
    let ?f = "\<lambda>u. u\<lparr>u_disabled_at := coalesce (u_disabled_at u) (Some now)\<rparr>"
    have "?f u \<in> set (update_where (named name) ?f (db_users (w_db w)))"
      using assms(3,4) by (auto simp: update_where_def)
    moreover have "u_id (?f u) = u_id u \<and> u_disabled_at (?f u) \<noteq> None" by (cases "u_disabled_at u") (simp_all add: coalesce_def)
    ultimately have "\<exists>v \<in> set (update_where (named name) ?f (db_users (w_db w))). u_id v = u_id u \<and> u_disabled_at v \<noteq> None" by blast
    moreover have "map u_id (update_where (named name) ?f us) = map u_id us" for us by (simp add: update_where_def)
    ultimately show ?thesis
      using that assms(2) unfolding barred_def disable_user_row_def change_account_def by (auto split: option.splits)
  qed
  have "wp (disable_user C name) (\<lambda>r w'. r = Inr () \<longrightarrow> barred (u_id u) (w_db w')) w"
    by (auto simp: disable_user_def no_user_def wp_simps bars split: option.split)
  from wp_run [OF this assms(1)] show ?thesis by simp
qed

text \<open>C20. A disabled account stays out. After \<open>hunter user disable\<close> answered, no run of requests, logins begun before it, accounts added,
  passwords changed, starts of the daemon, turns of its loop and cycles of the scheduler brings the account back, whatever fails in them: no
  cookie, old or new, is let in as it, and no password logs it in. The backend is one that does not write the accounts' tables itself, as the
  omp backend and its overdrive switch do not.\<close>

theorem disabled_account_stays_out:
  assumes "run_state (disable_user C name) w = (Inr (), w1)" "account_run V D w1 w2"
    and "distinct (map u_id (db_users (w_db w)))" "u \<in> set (db_users (w_db w))" "named name u" "us_id user = u_id u"
    and "quiet_backend (sv_backend V) db_users" "keeps db_users (sv_status_html V)"
    and "quiet_backend (ev_backend (ex_env (dm_executors D))) logins"
  shows "session_of (sv_crypto V) rq w2 \<noteq> Some user \<and> \<not> logs_in (sv_crypto V) (sv_parse V) rq user (w_db w2)"
proof -
  have "barred (u_id u) (w_db w2)"
    using run_stays_barred [OF assms(2,7,8,9) disable_bars [OF assms(1,3-5)]] .
  with assms(6) show ?thesis
    using barred_shut_out by (auto simp: session_of_def bind_eq_Some_conv)
qed

definition plain_server :: server where
  "plain_server = \<lparr>sv_parse = knows_password, sv_show = (\<lambda>_. []), sv_crypto = plain_crypto, sv_config = sample_config,
     sv_backend = null_backend, sv_status_html = ok [], sv_reason = (\<lambda>_. []), sv_context = (\<lambda>_. None), sv_canonical = (\<lambda>_ _. None)\<rparr>"

text \<open>Ann is disabled; a login of hers begun before that still writes its session, the daemon takes a turn, and she is not let in.\<close>

theorem disabled_account_stays_out_witness:
  "\<forall>D M (U :: nat mirror) cfg enabled. \<exists>w1 w2 w3 r t.
     let D' = D\<lparr>dm_executors := (dm_executors D)\<lparr>ex_env := (ex_env (dm_executors D))
           \<lparr>ev_backend := overdrive_backend enabled (omp_backend M U cfg)\<rparr>\<rparr>\<rparr>
     in run_state (disable_user plain_crypto ''ann'') (quiet 5 account_db) = (Inr (), w1) \<and>
       run_state (login_as plain_crypto \<lparr>us_id = 1, us_name = ''ann''\<rparr>) w1 = (r, w2) \<and>
       run_state (daemon_turn D' cfg False) w2 = (t, w3) \<and>
       (\<forall>rq. session_of plain_crypto rq w3 \<noteq> Some \<lparr>us_id = 1, us_name = ''ann''\<rparr> \<and>
          \<not> logs_in plain_crypto knows_password rq \<lparr>us_id = 1, us_name = ''ann''\<rparr> (w_db w3))"
proof (intro allI, unfold Let_def)
  fix D :: daemon and M and U :: "nat mirror" and cfg enabled
  let ?D = "D\<lparr>dm_executors := (dm_executors D)\<lparr>ex_env := (ex_env (dm_executors D))
      \<lparr>ev_backend := overdrive_backend enabled (omp_backend M U cfg)\<rparr>\<rparr>\<rparr>"
  let ?user = "\<lparr>us_id = 1, us_name = ''ann''\<rparr>"
  have there: "named ''ann'' ann" "ann \<in> set (db_users (w_db (quiet 5 account_db)))" "distinct (map u_id (db_users (w_db (quiet 5 account_db))))"
    by (simp_all add: named_def ann_def account_db_def)
  then have "fst (disable_user_row now ''ann'' account_db)" for now
    by (simp add: disable_user_row_def change_account_def find_user_def account_db_def)
  then have "wp (disable_user plain_crypto ''ann'') (\<lambda>r _. r = Inr ()) (quiet 5 account_db)"
    by (simp add: disable_user_def no_user_def wp_simps)
  moreover obtain r1 w1 where "run_state (disable_user plain_crypto ''ann'') (quiet 5 account_db) = (r1, w1)" by fastforce
  ultimately have disabled: "run_state (disable_user plain_crypto ''ann'') (quiet 5 account_db) = (Inr (), w1)"
    using wp_run by fastforce
  obtain r w2 where late: "run_state (login_as plain_crypto ?user) w1 = (r, w2)" by fastforce
  obtain t w3 where turn: "run_state (daemon_turn ?D cfg False) w2 = (t, w3)" by fastforce
  have "account_run plain_server ?D w1 w2"
    by (rule account_run.late_login [OF account_run.here, of plain_server ?user]) (simp add: plain_server_def late)
  then have "account_run plain_server ?D w1 w3" by (rule account_run.turn) (rule turn)
  moreover have "quiet_backend (sv_backend plain_server) db_users" "keeps db_users (sv_status_html plain_server)"
    by (simp_all add: plain_server_def null.quiet_backend_axioms keeps_ok)
  moreover have "quiet_backend (ev_backend (ex_env (dm_executors ?D))) logins"
    by (simp add: overdriven.quiet_backend_axioms)
  ultimately have "session_of plain_crypto rq w3 \<noteq> Some ?user \<and> \<not> logs_in plain_crypto knows_password rq ?user (w_db w3)" for rq
    using disabled_account_stays_out [OF disabled, of plain_server ?D w3 ann ?user rq] there
    by (simp add: ann_def plain_server_def)
  with disabled late turn show "\<exists>w1 w2 w3 r t. run_state (disable_user plain_crypto ''ann'') (quiet 5 account_db) = (Inr (), w1) \<and>
       run_state (login_as plain_crypto ?user) w1 = (r, w2) \<and> run_state (daemon_turn ?D cfg False) w2 = (t, w3) \<and>
       (\<forall>rq. session_of plain_crypto rq w3 \<noteq> Some ?user \<and> \<not> logs_in plain_crypto knows_password rq ?user (w_db w3))"
    by blast
qed

end
