(* ===== verification/ReapSafety.thy ===== *)
theory ReapSafety
  imports RepoApi Sweep
begin

text \<open>
What the reaper may do (\<open>reap_deleted_repos\<close>): remove the files of repositories flagged deleted, and a row only once they are gone.
\<close>

section \<open>The files of a repository\<close>

definition in_area :: "string \<Rightarrow> int \<Rightarrow> string \<Rightarrow> bool" where
  "in_area wr rid q \<longleftrightarrow> path_starts_with q (repo_dir (path_join wr ''repos'') rid) \<or> q = notes_path wr rid"

definition cleared :: "string \<Rightarrow> int \<Rightarrow> disk \<Rightarrow> bool" where
  "cleared wr rid k \<longleftrightarrow> repo_dir (path_join wr ''repos'') rid \<notin> set (k_dirs k) \<and> k_files k (notes_path wr rid) = None"

text \<open>Paths only go, and only those of the given repositories.\<close>

definition only_clears :: "string \<Rightarrow> int set \<Rightarrow> disk \<Rightarrow> disk \<Rightarrow> bool" where
  "only_clears wr ids k k' \<longleftrightarrow>
     (\<forall>q. k_files k' q = k_files k q \<or> k_files k' q = None \<and> (\<exists>i\<in>ids. in_area wr i q)) \<and>
     set (k_dirs k') \<subseteq> set (k_dirs k) \<and> (\<forall>q \<in> set (k_dirs k). q \<in> set (k_dirs k') \<or> (\<exists>i\<in>ids. in_area wr i q))"

lemma only_clears_refl [simp]: "only_clears wr ids k k"
  by (simp add: only_clears_def)

lemma only_clears_trans: "only_clears wr ids k k' \<Longrightarrow> only_clears wr ids k' k'' \<Longrightarrow> only_clears wr ids k k''"
proof -
  assume steps: "only_clears wr ids k k'" "only_clears wr ids k' k''"
  have "k_files k'' q = k_files k q \<or> k_files k'' q = None \<and> (\<exists>i\<in>ids. in_area wr i q)" for q
    using steps unfolding only_clears_def by (elim conjE allE [of _ q]) auto
  with steps show ?thesis unfolding only_clears_def by blast
qed

lemma only_clears_mono: "only_clears wr ids k k' \<Longrightarrow> ids \<subseteq> ids' \<Longrightarrow> only_clears wr ids' k k'"
  unfolding only_clears_def by blast

lemma cleared_mono: "cleared wr i k \<Longrightarrow> only_clears wr ids k k' \<Longrightarrow> cleared wr i k'"
  unfolding cleared_def only_clears_def by (elim conjE allE [of _ "notes_path wr i"]) auto

lemma components_repo_dir: "components (repo_dir (path_join wr ''repos'') rid) = components wr @ [''repos'', ''repo-'' @ show_int rid]"
proof -
  have "plain_name ''repos''" "plain_name (''repo-'' @ show_int rid)" using show_int_plain [of rid] by (auto simp: plain_name_def)
  then show ?thesis by (simp add: repo_dir_def components_join)
qed

lemma components_notes_path: "components (notes_path wr rid) = components wr @ [''notes'', ''repo-'' @ show_int rid @ ''.md'']"
proof -
  have "plain_name ''notes''" "plain_name (''repo-'' @ show_int rid @ ''.md'')" using show_int_plain [of rid] by (auto simp: plain_name_def)
  then show ?thesis by (simp add: notes_path_def components_join)
qed

lemma areas_apart:
  assumes "in_area wr i q" "in_area wr j q"
  shows "i = j"
proof -
  have "\<not> path_starts_with (notes_path wr i) (repo_dir (path_join wr ''repos'') j)" for i j
    by (auto simp: path_starts_with_components components_notes_path components_repo_dir)
  moreover have "i = j" if "notes_path wr i = notes_path wr j"
    using arg_cong [OF that, of components] by (simp add: components_notes_path)
  ultimately show ?thesis
    using assms by (auto simp: in_area_def path_starts_with_components components_repo_dir)
qed

lemma parent_of_repos: "wr \<noteq> [] \<Longrightarrow> \<not> ends_with ''/'' wr \<Longrightarrow> parent_dir (path_join wr ''repos'') = Some wr"
proof -
  assume wr: "wr \<noteq> []" "\<not> ends_with ''/'' wr"
  then obtain p c where "wr = p @ [c]" "c \<noteq> CHR ''/''" by (cases wr rule: rev_cases) (auto simp: ends_with_iff)
  with wr(2) show ?thesis by (simp add: parent_dir_def path_join_def trim_end_by_def Let_def)
qed

section \<open>One repository\<close>

definition reaped :: "string \<Rightarrow> int \<Rightarrow> world \<Rightarrow> world \<Rightarrow> bool" where
  "reaped wr rid w w' \<longleftrightarrow>
     w_fault w' = w_fault w \<and> only_clears wr {rid} (w_disk w) (w_disk w') \<and>
     (w_db w' = w_db w \<or> cleared wr rid (w_disk w') \<and> w_db w' = snd (forget_deleted_repo rid (w_db w))) \<and>
     (calm w \<longrightarrow> w_db w' = snd (forget_deleted_repo rid (w_db w)))"

lemma clears_dir: "only_clears wr {rid} k (without (repo_dir (path_join wr ''repos'') rid) k)"
  by (auto simp: only_clears_def without_def in_area_def)

lemma clears_notes: "only_clears wr {rid} k (k\<lparr>k_files := (k_files k)(notes_path wr rid := None)\<rparr>)"
  by (auto simp: only_clears_def in_area_def)

lemma without_self [simp]: "p \<notin> set (k_dirs (without p k))"
  by (simp add: without_def path_starts_with_def)

lemma wp_remove_clone:
  assumes "\<And>n. w_fault w n \<noteq> Some NOT_FOUND"
  shows "wp (unless_missing (remove_dir_all (repo_dir (path_join wr ''repos'') rid)))
    (\<lambda>r w'. w_fault w' = w_fault w \<and> w_db w' = w_db w \<and> only_clears wr {rid} (w_disk w) (w_disk w') \<and>
      (is_ok r \<longrightarrow> repo_dir (path_join wr ''repos'') rid \<notin> set (k_dirs (w_disk w'))) \<and> (calm w \<longrightarrow> is_ok r)) w"
  using assms
  by (auto simp: unless_missing_def remove_dir_all_def wp_simps clears_dir calm_def split: option.split)

lemma wp_remove_notes:
  assumes "\<And>n. w_fault w n \<noteq> Some NOT_FOUND"
  shows "wp (unless_missing (remove_file (notes_path wr rid)))
    (\<lambda>r w'. w_fault w' = w_fault w \<and> w_db w' = w_db w \<and> only_clears wr {rid} (w_disk w) (w_disk w') \<and>
      (is_ok r \<longrightarrow> k_files (w_disk w') (notes_path wr rid) = None) \<and> (calm w \<longrightarrow> is_ok r)) w"
  using assms
  by (auto simp: unless_missing_def remove_file_def wp_simps clears_notes calm_def split: option.split)

lemma wp_reap_repo:
  assumes "\<And>n. w_fault w n \<noteq> Some NOT_FOUND" "wr \<noteq> []" "\<not> ends_with ''/'' wr"
  shows "wp (reap_repo (path_join wr ''repos'') rid) (\<lambda>_. reaped wr rid w) w"
proof -
  have forget: "wp (row_call (\<lambda>_. forget_deleted_repo rid)) (\<lambda>_. reaped wr rid w) w2"
    if "w_fault w2 = w_fault w" "w_db w2 = w_db w" "only_clears wr {rid} (w_disk w) (w_disk w2)" "cleared wr rid (w_disk w2)" for w2 :: world
    using that by (auto simp: wp_simps reaped_def calm_def split: option.split)
  have notes_step: "wp (and_then (unless_missing (remove_file (notes_path wr rid))) (\<lambda>_. row_call (\<lambda>_. forget_deleted_repo rid)))
      (\<lambda>_. reaped wr rid w) w1"
    if "w_fault w1 = w_fault w" "w_db w1 = w_db w" "only_clears wr {rid} (w_disk w) (w_disk w1)"
       "repo_dir (path_join wr ''repos'') rid \<notin> set (k_dirs (w_disk w1))" for w1 :: world
  proof -
    have "\<And>n. w_fault w1 n \<noteq> Some NOT_FOUND" using assms(1) that(1) by simp
    show ?thesis
      unfolding wp_and_then
    proof (rule wp_mono [OF wp_remove_notes [OF \<open>\<And>n. w_fault w1 n \<noteq> Some NOT_FOUND\<close>]])
      fix r :: "string + unit" and w2 :: world
      assume step: "w_fault w2 = w_fault w1 \<and> w_db w2 = w_db w1 \<and> only_clears wr {rid} (w_disk w1) (w_disk w2) \<and>
        (is_ok r \<longrightarrow> k_files (w_disk w2) (notes_path wr rid) = None) \<and> (calm w1 \<longrightarrow> is_ok r)"
      then have all: "only_clears wr {rid} (w_disk w) (w_disk w2)" using that(3) only_clears_trans by blast
      show "(case r of Inl e \<Rightarrow> reaped wr rid w | Inr x \<Rightarrow> wp (row_call (\<lambda>_. forget_deleted_repo rid)) (\<lambda>_. reaped wr rid w)) w2"
      proof (cases r)
        case (Inl e)
        with step all that show ?thesis by (auto simp: reaped_def calm_def)
      next
        case (Inr x)
        moreover have "cleared wr rid (w_disk w2)"
          using step that(4) Inr by (auto simp: cleared_def only_clears_def)
        ultimately show ?thesis using step all that forget by simp
      qed
    qed
  qed
  show ?thesis
    unfolding reap_repo_def parent_of_repos [OF assms(2,3)] wp_and_then [of "unless_missing (remove_dir_all p)" for p]
    by (rule wp_mono [OF wp_remove_clone [OF assms(1)]])
      (auto simp: reaped_def calm_def intro!: notes_step split: sum.split)
qed

section \<open>The walk\<close>

definition unreferenced :: "int \<Rightarrow> db \<Rightarrow> bool" where
  "unreferenced rid d \<longleftrightarrow> rid \<notin> f_repo_id ` set (db_findings d) \<and> rid \<notin> j_repo_id ` set (db_jobs d)"

definition walk_reaped :: "string \<Rightarrow> int set \<Rightarrow> world \<Rightarrow> world \<Rightarrow> bool" where
  "walk_reaped wr ids w w' \<longleftrightarrow>
     w_fault w' = w_fault w \<and> only_clears wr ids (w_disk w) (w_disk w') \<and>
     w_db w' = (w_db w)\<lparr>db_repos := db_repos (w_db w')\<rparr> \<and> set (db_repos (w_db w')) \<subseteq> set (db_repos (w_db w)) \<and>
     (\<forall>r \<in> set (db_repos (w_db w)).
        (r \<in> set (db_repos (w_db w')) \<or> r_deleted_at r \<noteq> None \<and> cleared wr (r_id r) (w_disk w')) \<and>
        (calm w \<and> r_deleted_at r \<noteq> None \<and> r_id r \<in> ids \<and> unreferenced (r_id r) (w_db w) \<longrightarrow> r \<notin> set (db_repos (w_db w'))))"

lemma forgotten:
  "snd (forget_deleted_repo rid d) = d\<lparr>db_repos := db_repos (snd (forget_deleted_repo rid d))\<rparr>"
  "set (db_repos (snd (forget_deleted_repo rid d))) \<subseteq> set (db_repos d)"
  "r \<in> set (db_repos d) \<Longrightarrow> r \<in> set (db_repos (snd (forget_deleted_repo rid d))) \<or> r_deleted_at r \<noteq> None \<and> r_id r = rid"
  "unreferenced rid d \<Longrightarrow> r_deleted_at r \<noteq> None \<Longrightarrow> r_id r = rid \<Longrightarrow> r \<notin> set (db_repos (snd (forget_deleted_repo rid d)))"
  by (auto simp: forget_deleted_repo_def Let_def unreferenced_def)

lemma reaped_walk:
  assumes "reaped wr rid w w'"
  shows "walk_reaped wr {rid} w w'"
proof -
  have "w_db w' = w_db w \<or> cleared wr rid (w_disk w') \<and> w_db w' = snd (forget_deleted_repo rid (w_db w))"
    and no_fault_step: "calm w \<Longrightarrow> w_db w' = snd (forget_deleted_repo rid (w_db w))"
    and rest: "w_fault w' = w_fault w" "only_clears wr {rid} (w_disk w) (w_disk w')"
    using assms by (auto simp: reaped_def)
  then consider (same) "w_db w' = w_db w" | (gone) "cleared wr rid (w_disk w')" "w_db w' = snd (forget_deleted_repo rid (w_db w))" by blast
  then show ?thesis
  proof cases
    case same
    then show ?thesis using rest no_fault_step forgotten(4) [of rid "w_db w"] by (auto simp: walk_reaped_def)
  next
    case gone
    have "r \<in> set (db_repos (w_db w')) \<or> r_deleted_at r \<noteq> None \<and> cleared wr (r_id r) (w_disk w')"
      if "r \<in> set (db_repos (w_db w))" for r
      using forgotten(3) [OF that, of rid] gone by auto
    then show ?thesis
      using rest gone(2) forgotten(1,2,4) [of rid "w_db w"] by (auto simp: walk_reaped_def)
  qed
qed

lemma only_repos: "d1 = d\<lparr>db_repos := x\<rparr> \<Longrightarrow> d1\<lparr>db_repos := y\<rparr> = d\<lparr>db_repos := y\<rparr>"
  by simp

lemma unreferenced_repos: "unreferenced i (d\<lparr>db_repos := x\<rparr>) = unreferenced i d"
  by (simp add: unreferenced_def)

lemma walk_trans:
  assumes "walk_reaped wr ids w w1" "walk_reaped wr ids' w1 w2"
  shows "walk_reaped wr (ids \<union> ids') w w2"
proof -
  have clears: "only_clears wr (ids \<union> ids') (w_disk w) (w_disk w2)"
    by (rule only_clears_trans [of _ _ _ "w_disk w1"]; rule only_clears_mono)
      (use assms in \<open>auto simp: walk_reaped_def\<close>)
  have db: "w_db w2 = (w_db w)\<lparr>db_repos := db_repos (w_db w2)\<rparr>"
  proof -
    have "w_db w1 = (w_db w)\<lparr>db_repos := db_repos (w_db w1)\<rparr>" "w_db w2 = (w_db w1)\<lparr>db_repos := db_repos (w_db w2)\<rparr>"
      using assms by (auto simp only: walk_reaped_def)
    then show ?thesis by (metis only_repos)
  qed
  have same: "unreferenced i (w_db w1) = unreferenced i (w_db w)" "calm w1 = calm w" for i
  proof -
    have "w_db w1 = (w_db w)\<lparr>db_repos := db_repos (w_db w1)\<rparr>" "w_fault w1 = w_fault w"
      using assms(1) by (auto simp only: walk_reaped_def)
    then show "unreferenced i (w_db w1) = unreferenced i (w_db w)" "calm w1 = calm w"
      by (metis unreferenced_repos, simp add: calm_def)
  qed
  have "(r \<in> set (db_repos (w_db w2)) \<or> r_deleted_at r \<noteq> None \<and> cleared wr (r_id r) (w_disk w2)) \<and>
      (calm w \<and> r_deleted_at r \<noteq> None \<and> r_id r \<in> ids \<union> ids' \<and> unreferenced (r_id r) (w_db w) \<longrightarrow> r \<notin> set (db_repos (w_db w2)))"
    if r: "r \<in> set (db_repos (w_db w))" for r
  proof (cases "r \<in> set (db_repos (w_db w1))")
    case True
    with assms r same show ?thesis by (auto simp: walk_reaped_def)
  next
    case False
    then have "r_deleted_at r \<noteq> None" "cleared wr (r_id r) (w_disk w1)" using assms(1) r by (auto simp: walk_reaped_def)
    moreover have "r \<notin> set (db_repos (w_db w2))" using False assms(2) by (auto simp: walk_reaped_def)
    ultimately show ?thesis using assms(2) cleared_mono by (auto simp: walk_reaped_def)
  qed
  with assms clears db show ?thesis by (auto simp: walk_reaped_def)
qed

lemma walk_refl [simp]: "w_fault w' = w_fault w \<Longrightarrow> w_disk w' = w_disk w \<Longrightarrow> w_db w' = w_db w \<Longrightarrow> walk_reaped wr {} w w'"
  by (simp add: walk_reaped_def)

lemma wp_reap_each:
  assumes "\<And>n. w_fault w n \<noteq> Some NOT_FOUND" "wr \<noteq> []" "\<not> ends_with ''/'' wr"
  shows "wp (reap_each (path_join wr ''repos'') ids n) (\<lambda>_. walk_reaped wr (set ids) w) w"
  using assms(1)
proof (induction ids arbitrary: n w)
  case Nil
  then show ?case by (simp add: wp_simps)
next
  case (Cons i ids)
  show ?case
    unfolding reap_each.simps wp_bind
  proof (rule wp_mono [OF wp_reap_repo [OF Cons.prems assms(2,3)]])
    fix r w1
    assume "reaped wr i w w1"
    then have step: "walk_reaped wr {i} w w1" by (rule reaped_walk)
    then have "\<And>n. w_fault w1 n \<noteq> Some NOT_FOUND" using Cons.prems by (simp add: walk_reaped_def)
    from wp_mono [OF Cons.IH [OF this]]
    show "wp (reap_each (path_join wr ''repos'') ids (case r of Inl _ \<Rightarrow> n | Inr _ \<Rightarrow> Suc n)) (\<lambda>_. walk_reaped wr (set (i # ids)) w) w1"
      using walk_trans [OF step, of "set ids"] by fastforce
  qed
qed

text \<open>C21. The reaper removes files before rows, and only what an operator deleted. Whatever fails, a live repository keeps its row and
  every path of its clone and notes; the row of a deleted one goes only when its clone and its notes are gone, so a failure leaves it
  for the next round; and when nothing fails and nothing refers to it any more, the row does go.\<close>

theorem reaping_files_first:
  assumes "run_state (reap_deleted_repos wr) w = (n, w')" "r \<in> set (db_repos (w_db w))" "distinct (map r_id (db_repos (w_db w)))"
    and "wr \<noteq> []" "\<not> ends_with ''/'' wr" "\<And>i. w_fault w i \<noteq> Some NOT_FOUND"
  shows "if r_deleted_at r = None
    then r \<in> set (db_repos (w_db w')) \<and>
      (\<forall>q. in_area wr (r_id r) q \<longrightarrow> k_files (w_disk w') q = k_files (w_disk w) q \<and>
         (q \<in> set (k_dirs (w_disk w')) \<longleftrightarrow> q \<in> set (k_dirs (w_disk w))))
    else (r \<notin> set (db_repos (w_db w')) \<longrightarrow> cleared wr (r_id r) (w_disk w')) \<and>
      (calm w \<and> unreferenced (r_id r) (w_db w) \<longrightarrow> r \<notin> set (db_repos (w_db w')))"
proof -
  define ids where "ids = (if w_fault w (w_calls w) = None then set (deleted_repo_ids (w_db w)) else {})"
  have "wp (reap_deleted_repos wr) (\<lambda>_. walk_reaped wr ids w) w"
  proof -
    have tick: "walk_reaped wr ids w w2" if "walk_reaped wr ids (tick w) w2" for w2
      using that walk_trans [OF walk_refl, of "tick w" w wr ids w2] by simp
    have "\<And>n. w_fault (tick w) n \<noteq> Some NOT_FOUND" using assms(6) by simp
    from wp_mono [OF wp_reap_each [OF this assms(4,5)] tick]
    show ?thesis
      by (auto simp: reap_deleted_repos_def wp_simps ids_def split: option.splits)
  qed
  from wp_run [OF this assms(1)] have walk: "walk_reaped wr ids w w'" .
  have flagged: "i \<in> ids \<Longrightarrow> \<exists>r \<in> set (db_repos (w_db w)). r_id r = i \<and> r_deleted_at r \<noteq> None" for i
    by (auto simp: ids_def deleted_repo_ids_def split: if_splits)
  show ?thesis
  proof (cases "r_deleted_at r = None")
    case True
    then have "r_id r \<notin> ids" using flagged assms(2,3) by (metis distinct_map inj_onD)
    then have "\<not> (\<exists>i\<in>ids. in_area wr i q)" if "in_area wr (r_id r) q" for q using that areas_apart by blast
    then show ?thesis using walk True assms(2) by (fastforce simp: walk_reaped_def only_clears_def)
  next
    case False
    have "r_id r \<in> ids" if "calm w"
      using that False assms(2) by (auto simp: ids_def calm_def deleted_repo_ids_def)
    with walk False assms(2) show ?thesis by (auto simp: walk_reaped_def)
  qed
qed

text \<open>Repository 7 was deleted and nothing refers to it; its notes are still there.\<close>

definition flagged_repo :: repo where
  "flagged_repo = sample_repo\<lparr>r_id := 7, r_deleted_at := Some 3\<rparr>"

definition flagged_world :: world where
  "flagged_world = (quiet 5 (sample_db\<lparr>db_repos := [flagged_repo], db_findings := [], db_jobs := []\<rparr>))\<lparr>w_disk :=
     \<lparr>k_files = [''/w/notes/repo-7.md'' \<mapsto> ''a note''], k_dirs = [], k_mtime = Map.empty\<rparr>\<rparr>"

theorem reaping_files_first_witness:
  "\<exists>n w'. run_state (reap_deleted_repos ''/w'') flagged_world = (n, w') \<and> flagged_repo \<in> set (db_repos (w_db flagged_world)) \<and>
     flagged_repo \<notin> set (db_repos (w_db w')) \<and> k_files (w_disk flagged_world) (notes_path ''/w'' 7) = Some ''a note'' \<and>
     k_files (w_disk w') (notes_path ''/w'' 7) = None"
proof -
  obtain n w' where run: "run_state (reap_deleted_repos ''/w'') flagged_world = (n, w')" by fastforce
  have there: "flagged_repo \<in> set (db_repos (w_db flagged_world))" "distinct (map r_id (db_repos (w_db flagged_world)))"
    by (simp_all add: flagged_world_def)
  have calm: "calm flagged_world" "unreferenced (r_id flagged_repo) (w_db flagged_world)"
    by (simp_all add: flagged_world_def calm_def unreferenced_def)
  have id: "r_id flagged_repo = 7" "r_deleted_at flagged_repo \<noteq> None" by (simp_all add: flagged_repo_def)
  have path: "notes_path ''/w'' 7 = ''/w/notes/repo-7.md''" by (simp add: notes_path_def path_join_def ends_with_def show_int_def show_nat.simps digit_char_def) (simp add: char_of_def bit_iff_odd)
  have root: "\<not> ends_with ''/'' ''/w''" "\<And>i. w_fault flagged_world i \<noteq> Some NOT_FOUND" by (simp_all add: ends_with_def flagged_world_def)
  from reaping_files_first [OF run there _ root] calm id
  have "flagged_repo \<notin> set (db_repos (w_db w'))" "cleared ''/w'' 7 (w_disk w')" by simp_all
  with run there(1) show ?thesis by (auto simp: cleared_def path flagged_world_def)
qed

end
