(* ===== verification/NotesSafety.thy ===== *)
theory NotesSafety
  imports RepoApi Sweep
begin

text \<open>
Moving notes out of a clone (\<open>migrate_clone\<close>): whatever fails, neither the notes that are there nor the ones to move are lost.
\<close>

section \<open>The files of a move\<close>

lemma rfind_sub_end: "c \<notin> set b \<Longrightarrow> rfind_sub [c] (a @ c # b) = Some (length a)"
proof (induction a)
  case Nil
  have "rfind_sub [c] b = None" using Nil by (induction b) auto
  then show ?case by simp
qed simp

lemma path_join_append: "path_join a b @ e = path_join a (b @ e)"
  by (simp add: path_join_def)

definition notes_base :: "string \<Rightarrow> int \<Rightarrow> string" where
  "notes_base wr rid = path_join (path_join wr ''notes'') (''repo-'' @ show_int rid)"

lemma notes_path_base: "notes_path wr rid = notes_base wr rid @ ''.md''"
  by (simp add: notes_path_def notes_base_def path_join_append)

lemma repo_name_plain: "plain_name (''repo-'' @ show_int rid @ e)" if "CHR ''/'' \<notin> set e"
  using show_int_plain [of rid] that by (auto simp: plain_name_def)

lemma components_notes: "CHR ''/'' \<notin> set e \<Longrightarrow>
    components (notes_base wr rid @ e) = components wr @ [''notes'', ''repo-'' @ show_int rid @ e]"
proof -
  assume "CHR ''/'' \<notin> set e"
  moreover have "plain_name ''notes''" by (simp add: plain_name_def)
  ultimately show ?thesis by (simp add: notes_base_def path_join_append components_join repo_name_plain del: append.simps)
qed

lemma with_extension_notes: "with_extension (notes_path wr rid) e = notes_base wr rid @ ''.'' @ e"
proof -
  have "file_name (notes_path wr rid) = (''repo-'' @ show_int rid) @ ''.'' @ ''md''"
    by (simp add: file_name_def notes_path_base components_notes)
  moreover have "rsplit_once ''.'' ((''repo-'' @ show_int rid) @ ''.'' @ ''md'') = Some (''repo-'' @ show_int rid, ''md'')"
    using rfind_sub_end [of "CHR ''.''" "''md''" "''repo-'' @ show_int rid"] by (simp add: rsplit_once_def)
  ultimately show ?thesis
    by (simp add: with_extension_def notes_path_base del: append.simps)
qed

definition clone_notes :: "string \<Rightarrow> string" where
  "clone_notes dir = path_join dir ''NOTES.md''"

definition legacy_notes :: "string \<Rightarrow> int \<Rightarrow> string" where
  "legacy_notes wr rid = with_extension (notes_path wr rid) ''legacy.md''"

lemma clone_notes_apart:
  assumes "components dir = components wr @ [''repos'', d]" "CHR ''/'' \<notin> set e"
  shows "clone_notes dir \<noteq> notes_base wr rid @ e"
proof -
  have "plain_name ''NOTES.md''" by (simp add: plain_name_def)
  then have "components (clone_notes dir) = components wr @ [''repos'', d, ''NOTES.md'']"
    by (simp add: clone_notes_def components_join assms(1))
  then show ?thesis using components_notes [OF assms(2), of wr rid] by auto
qed

section \<open>What a move may do\<close>

definition notes_kept :: "string \<Rightarrow> string \<Rightarrow> int \<Rightarrow> string \<Rightarrow> disk \<Rightarrow> bool \<Rightarrow> disk \<Rightarrow> bool" where
  "notes_kept wr dir rid text k moved k' \<longleftrightarrow>
     (\<forall>n. k_files k (notes_path wr rid) = Some n \<longrightarrow> k_files k' (notes_path wr rid) = Some n) \<and>
     (k_files k' (clone_notes dir) = Some text \<or> k_files k' (notes_path wr rid) = Some text \<or> k_files k' (legacy_notes wr rid) = Some text) \<and>
     (moved \<longrightarrow> k_files k' (clone_notes dir) = None \<and> k_files k' (notes_path wr rid) = Some text) \<and>
     (\<forall>q. q \<noteq> clone_notes dir \<and> (\<forall>e. q \<noteq> notes_base wr rid @ ''.'' @ e) \<longrightarrow> k_files k' q = k_files k q)"

lemma wp_park_notes:
  assumes "k_files (w_disk w) old = Some text"
    and names: "staged = with_extension new ''legacy.md.part''" "parked = with_extension new ''legacy.md''"
    and "distinct [old, new, staged, parked]"
  shows "wp (park_notes old new) (\<lambda>_ w'.
    k_files (w_disk w') new = k_files (w_disk w) new \<and> (k_files (w_disk w') old = Some text \<or> k_files (w_disk w') parked = Some text) \<and>
    (\<forall>q. q \<notin> {old, staged, parked} \<longrightarrow> k_files (w_disk w') q = k_files (w_disk w) q)) w"
  using assms
  by (auto simp: park_notes_def staged_move_def copy_file_def rename_file_def remove_file_def wp_simps names [symmetric] split: option.split)

lemma wp_move_notes:
  assumes "k_files (w_disk w) old = Some text"
    and names: "staged = with_extension new ''md.part''" and "distinct [old, new, staged]"
  shows "wp (move_notes old new) (\<lambda>moved w'.
    (k_files (w_disk w') old = Some text \<or> k_files (w_disk w') new = Some text) \<and>
    (moved \<longrightarrow> k_files (w_disk w') old = None \<and> k_files (w_disk w') new = Some text) \<and>
    (\<forall>q. q \<notin> {old, new, staged} \<longrightarrow> k_files (w_disk w') q = k_files (w_disk w) q)) w"
  using assms
  by (auto simp: move_notes_def staged_move_def copy_file_def rename_file_def remove_file_def wp_simps names [symmetric] split: option.split)

section \<open>One clone\<close>

lemma wp_migrate_clone:
  assumes "clone_id dir = Some rid" "components dir = components wr @ [''repos'', d]"
    and "k_files (w_disk w) (clone_notes dir) = Some text" "\<And>n cwd argv k. snd (w_shell w n cwd argv k) = k"
  shows "wp (migrate_clone wr dir) (\<lambda>moved w'. notes_kept wr dir rid text (w_disk w) moved (w_disk w')) w"
proof -
  let ?old = "clone_notes dir" and ?new = "notes_path wr rid" and ?x = "with_extension (notes_path wr rid)"
  have names: "distinct [?old, ?new, ?x ''legacy.md.part'', legacy_notes wr rid]" "distinct [?old, ?new, ?x ''md.part'']"
    unfolding legacy_notes_def with_extension_notes unfolding notes_path_base
    using clone_notes_apart [OF assms(2), of _ rid] by simp_all
  have unmoved: "notes_kept wr dir rid text (w_disk w) False (w_disk w')" if "k_files (w_disk w') = k_files (w_disk w)" for w' :: world
    using that assms(3) by (simp add: notes_kept_def)
  have outside: "q \<notin> {?old, ?new, ?x ''legacy.md.part'', legacy_notes wr rid, ?x ''md.part''}"
    if "q \<noteq> ?old" "\<forall>e. q \<noteq> notes_base wr rid @ ''.'' @ e" for q
    unfolding legacy_notes_def with_extension_notes using that(1) that(2) [THEN spec, of "''md''"] that(2) [THEN spec, of "''md.part''"]
      that(2) [THEN spec, of "''legacy.md''"] that(2) [THEN spec, of "''legacy.md.part''"] unfolding notes_path_base by simp
  have park_step: "wp (park_notes ?old ?new) (\<lambda>_ w'. notes_kept wr dir rid text (w_disk w) False (w_disk w')) w1"
    if "k_files (w_disk w1) = k_files (w_disk w)" for w1
    by (rule wp_mono [OF wp_park_notes [of w1 ?old "text" _ ?new, OF _ refl legacy_notes_def names(1)]])
      (use that assms(3) outside in \<open>auto simp: notes_kept_def\<close>)
  have move_step: "wp (move_notes ?old ?new) (\<lambda>moved w'. notes_kept wr dir rid text (w_disk w) moved (w_disk w')) w1"
    if "k_files (w_disk w1) = k_files (w_disk w)" "k_files (w_disk w) ?new = None" for w1
    by (rule wp_mono [OF wp_move_notes [of w1 ?old "text" _ ?new, OF _ refl names(2)]])
      (use that assms(3) outside in \<open>auto simp: notes_kept_def\<close>)
  show ?thesis
    unfolding migrate_clone_def assms(1) option.case Let_def clone_notes_def [symmetric]
    using assms(3,4)
    by (auto simp: split_beta wp_simps create_dir_all_def path_exists_def intro!: unmoved park_step move_step split: option.split)
qed

text \<open>C25. Moving notes out of a clone loses none. Whatever fails on the way, notes already at the new path stay as they are; what the clone's
  file said is afterwards still there, or at the new path, or parked beside it; a move that is reported has put it at the new path and
  taken it out of the clone; and no file but these and their stages is touched. That asking git whether the file is tracked changes no
  file is what the code relies on.\<close>

theorem notes_moved_whole:
  assumes "run_state (migrate_clone work_root dir) w = (moved, w')"
    and "clone_id dir = Some rid" "components dir = components work_root @ [''repos'', d]"
    and "k_files (w_disk w) (clone_notes dir) = Some text" "\<And>n cwd argv k. snd (w_shell w n cwd argv k) = k"
  shows "(\<forall>n. k_files (w_disk w) (notes_path work_root rid) = Some n \<longrightarrow> k_files (w_disk w') (notes_path work_root rid) = Some n) \<and>
    Some text \<in> k_files (w_disk w') ` {clone_notes dir, notes_path work_root rid, legacy_notes work_root rid} \<and>
    (moved \<longrightarrow> k_files (w_disk w') (clone_notes dir) = None \<and> k_files (w_disk w') (notes_path work_root rid) = Some text) \<and>
    (\<forall>q. q \<noteq> clone_notes dir \<and> (\<forall>e. q \<noteq> notes_base work_root rid @ ''.'' @ e) \<longrightarrow> k_files (w_disk w') q = k_files (w_disk w) q)"
  using wp_run [OF wp_migrate_clone [OF assms(2-5)] assms(1)] by (auto simp: notes_kept_def)

definition cloned_world :: world where
  "cloned_world = (quiet 5 sample_db)\<lparr>w_disk := \<lparr>k_files = [''/w/repos/repo-7/NOTES.md'' \<mapsto> ''a note''], k_dirs = [], k_mtime = Map.empty\<rparr>,
     w_shell := (\<lambda>_ _ _ k. ((1, []), k))\<rparr>"

theorem notes_moved_whole_witness:
  "\<exists>moved w'. run_state (migrate_clone ''/w'' ''/w/repos/repo-7'') cloned_world = (moved, w') \<and>
     Some ''a note'' \<in> k_files (w_disk w') ` {''/w/repos/repo-7/NOTES.md'', notes_path ''/w'' 7, legacy_notes ''/w'' 7}"
proof -
  obtain moved w' where run: "run_state (migrate_clone ''/w'' ''/w/repos/repo-7'') cloned_world = (moved, w')" by fastforce
  have path: "clone_notes ''/w/repos/repo-7'' = ''/w/repos/repo-7/NOTES.md''"
    by (simp add: clone_notes_def path_join_def ends_with_def)
  have parts: "components ''/w/repos/repo-7'' = components ''/w'' @ [''repos'', ''repo-7'']"
    by (simp add: components_def Let_def)
  have id: "clone_id ''/w/repos/repo-7'' = Some 7"
    by (simp add: clone_id_def file_name_def parts strip_prefix_def) (simp add: parse_i64_def parse_digits_def digits_value_def is_ascii_digit_def byte_def in_i64_def i64_min_def i64_max_def)
  have there: "k_files (w_disk cloned_world) (clone_notes ''/w/repos/repo-7'') = Some ''a note''"
    "\<And>n cwd argv k. snd (w_shell cloned_world n cwd argv k) = k"
    by (simp_all add: cloned_world_def path)
  from notes_moved_whole [OF run id parts there] run show ?thesis unfolding path by blast
qed

end
