(* ===== verification/DaemonLoop.thy ===== *)
theory DaemonLoop
  imports Daemon
begin

text \<open>
The scheduler's loop (\<open>run_daemon\<close>) as a state machine beside the tasks that steer it: the handlers of the API, which set its switches and
leave it a wake-up, and the task that latches the first termination signal. What a pass of the loop does is \<open>Daemon.daemon_turn\<close>;
here only the order of its steps matters, with every interleaving between them.

\<open>Notify\<close> keeps one wake-up until a wait takes it, and the watch channel keeps the signal; a wait that two things end takes either.
\<close>

section \<open>Steps\<close>

text \<open>Where the loop is: at its head, past a reading of the pause switch, in a cycle, in one of its two waits, past a wait, or out.\<close>

datatype phase = At_head | Not_paused | In_cycle | Asleep | Held | Awake | Out

record looping =
  lp_phase :: phase
  lp_switches :: scheduler
  lp_shutdown :: bool
  lp_cycles :: nat

inductive loop_step :: "looping \<Rightarrow> looping \<Rightarrow> bool" where
  held: "lp_phase L = At_head \<Longrightarrow> sd_paused (lp_switches L) \<Longrightarrow> loop_step L (L\<lparr>lp_phase := Held\<rparr>)"
| not_paused: "lp_phase L = At_head \<Longrightarrow> \<not> sd_paused (lp_switches L) \<Longrightarrow> loop_step L (L\<lparr>lp_phase := Not_paused\<rparr>)"
| cycle: "lp_phase L = Not_paused \<Longrightarrow>
    loop_step L (L\<lparr>lp_phase := In_cycle, lp_switches := (lp_switches L)\<lparr>sd_running := True\<rparr>, lp_cycles := Suc (lp_cycles L)\<rparr>)"
| cycle_over: "lp_phase L = In_cycle \<Longrightarrow>
    loop_step L (L\<lparr>lp_phase := Asleep, lp_switches := (lp_switches L)\<lparr>sd_running := False\<rparr>\<rparr>)"
| slept: "lp_phase L = Asleep \<Longrightarrow> loop_step L (L\<lparr>lp_phase := Awake\<rparr>)"
| notified: "lp_phase L \<in> {Asleep, Held} \<Longrightarrow> sd_wake (lp_switches L) \<Longrightarrow>
    loop_step L (L\<lparr>lp_phase := Awake, lp_switches := (lp_switches L)\<lparr>sd_wake := False\<rparr>\<rparr>)"
| signalled: "lp_phase L \<in> {Asleep, Held} \<Longrightarrow> lp_shutdown L \<Longrightarrow> loop_step L (L\<lparr>lp_phase := Awake\<rparr>)"
| again: "lp_phase L = Awake \<Longrightarrow> \<not> lp_shutdown L \<Longrightarrow> loop_step L (L\<lparr>lp_phase := At_head\<rparr>)"
| stop: "lp_phase L = Awake \<Longrightarrow> lp_shutdown L \<Longrightarrow> loop_step L (L\<lparr>lp_phase := Out\<rparr>)"

text \<open>What the other tasks do to it meanwhile: a request is answered, a signal is latched.\<close>

inductive outside_step :: "looping \<Rightarrow> looping \<Rightarrow> bool" where
  request: "run_state (serve V (lp_switches L) rq) w = (r, w') \<Longrightarrow> outside_step L (L\<lparr>lp_switches := after_response r (lp_switches L)\<rparr>)"
| signal: "outside_step L (L\<lparr>lp_shutdown := True\<rparr>)"

inductive_cases loop_stepE: "loop_step L L'"
inductive_cases outside_stepE: "outside_step L L'"

text \<open>A run, with the number of steps the loop itself took.\<close>

inductive loop_run :: "nat \<Rightarrow> looping \<Rightarrow> looping \<Rightarrow> bool" where
  here: "loop_run 0 L L"
| own: "loop_run n L L1 \<Longrightarrow> loop_step L1 L2 \<Longrightarrow> loop_run (Suc n) L L2"
| outside: "loop_run n L L1 \<Longrightarrow> outside_step L1 L2 \<Longrightarrow> loop_run n L L2"

definition started :: looping where
  "started = \<lparr>lp_phase = At_head, lp_switches = \<lparr>sd_running = False, sd_paused = False, sd_overdrive = False, sd_wake = False\<rparr>,
     lp_shutdown = False, lp_cycles = 0\<rparr>"

section \<open>Requests and switches\<close>

lemma after_response_running [simp]: "sd_running (after_response r s) = sd_running s"
  by (simp add: after_response_def after_reply_def replied_def Let_def split: content.split body.split)

lemma after_response_wake: "sd_wake s \<Longrightarrow> sd_wake (after_response r s)"
  by (simp add: after_response_def after_reply_def replied_def Let_def split: content.split body.split)

text \<open>A predicate on what an action comes to, whatever the world.\<close>

definition ends :: "('a \<Rightarrow> bool) \<Rightarrow> 'a act \<Rightarrow> bool" where
  "ends P m \<longleftrightarrow> (\<forall>w. P (fst (run_state m w)))"

definition told_of_pause :: "api_error + reply \<Rightarrow> bool" where
  "told_of_pause r \<longleftrightarrow> (\<forall>rep b. r = Inr rep \<and> re_body rep = Paused b \<longrightarrow> re_wake rep)"

definition wakes_on_pause :: "response \<Rightarrow> bool" where
  "wakes_on_pause r \<longleftrightarrow> (\<forall>b. rs_content r = Written (Paused b) \<longrightarrow> rs_wake r)"

named_theorems ends_intros

lemma ends_return [ends_intros]: "P a \<Longrightarrow> ends P (State_Monad.return a)"
  by (simp add: ends_def)

lemma ends_bind [ends_intros]: "(\<And>a. ends P (k a)) \<Longrightarrow> ends P (m \<bind> k)"
  by (simp add: ends_def split_beta)

lemma ends_api [ends_intros]:
  "ends told_of_pause (refused e)" "(\<And>b. re_body rep = Paused b \<Longrightarrow> re_wake rep) \<Longrightarrow> ends told_of_pause (answer rep)"
  by (auto simp: ends_def refused_def answer_def told_of_pause_def)

lemma ends_api_then [ends_intros]: "(\<And>x. ends told_of_pause (k x)) \<Longrightarrow> ends told_of_pause (api_then m k)"
  unfolding api_then_def by (intro ends_bind) (auto intro: ends_intros split: sum.split)

lemma ends_wrote: "ends told_of_pause m \<Longrightarrow> ends wakes_on_pause (respond wrote m)"
  by (auto simp: ends_def respond_def told_of_pause_def wakes_on_pause_def wrote_def error_response_def responded_def split_beta split: sum.split)

lemma ends_shown: "(\<And>x. wakes_on_pause (f x)) \<Longrightarrow> ends wakes_on_pause (respond f m)"
  by (auto simp: ends_def respond_def wakes_on_pause_def error_response_def responded_def split_beta split: sum.split)

lemma handlers_tell_of_pause:
  "ends told_of_pause (verdict_handler V user rq)" "ends told_of_pause (recheck_handler V user rq)"
  "ends told_of_pause (unqueue_handler V user rq)" "ends told_of_pause (override_handler V user rq)"
  "ends told_of_pause (cycle_handler s rq)" "ends told_of_pause (set_scheduler_paused V rq)"
  "ends told_of_pause (set_scheduler_overdrive V rq)"
  by (auto simp: verdict_handler_def apply_verdict_def recheck_handler_def apply_recheck_def unqueue_handler_def apply_unqueue_def
      moved_by_operator_def override_handler_def clear_overrides_def cycle_handler_def set_scheduler_paused_def set_scheduler_overdrive_def
      replied_def Let_def intro!: ends_intros)

lemma repo_handlers_tell_of_pause:
  "ends told_of_pause (add_repo_handler V user rq)" "ends told_of_pause (update_repo_handler V user rq)"
  "ends told_of_pause (add_note_handler V user rq)" "ends told_of_pause (delete_repo_handler V user rq)"
  "ends told_of_pause (rehunt_handler V user rq)"
  by (auto simp: add_repo_handler_def update_repo_handler_def add_note_handler_def delete_repo_handler_def rehunt_handler_def
      replied_def Let_def intro!: ends_intros split: option.split)

lemma ends_reads: "wakes_on_pause (shown c)" if "\<And>b. c \<noteq> Written (Paused b)"
  using that by (simp add: wakes_on_pause_def shown_def responded_def)

lemma ends_all_routes: "list_all (\<lambda>(m, p, h). ends wakes_on_pause h) (api_routes V s rq user)"
  by (simp add: api_routes_def listed_def stats_handler_def handlers_tell_of_pause [THEN ends_wrote]
      repo_handlers_tell_of_pause [THEN ends_wrote]) (auto intro!: ends_shown ends_reads)

lemma ends_routes: "(m, p, h) \<in> set (api_routes V s rq user) \<Longrightarrow> ends wakes_on_pause h"
  using ends_all_routes by (fastforce simp: list_all_iff)

lemma wakes_error [simp]: "wakes_on_pause (error_response e)" "wakes_on_pause (responded n (Error_body b))"
  by (simp_all add: wakes_on_pause_def error_response_def responded_def)

lemma served_wakes:
  assumes "run_state (serve V s rq) w = (r, w')"
  shows "wakes_on_pause r"
proof -
  have "ends wakes_on_pause (taken_route rq (api_routes V s rq user))" for user
    unfolding taken_route_def
    by (auto intro!: ends_intros split: option.split dest!: find_Some_set intro: ends_routes)
  moreover have "ends wakes_on_pause (taken_route rq [(POST, ''/api/login'',
             respond (\<lambda>(name, cookie). shown (Logged_in name cookie)) (login (sv_crypto V) (sv_parse V) rq))])"
    by (auto simp: taken_route_def intro!: ends_intros ends_shown ends_reads)
  moreover have "ends wakes_on_pause (static_files V path)" for path
    by (auto simp: static_files_def Let_def not_found_def responded_def wakes_on_pause_def intro!: ends_intros split: option.split sum.split)
  ultimately have "ends wakes_on_pause (serve V s rq)"
    by (auto simp: serve_def routed_def with_session_def intro!: ends_intros split: sum.split)
  then show ?thesis using assms by (auto simp: ends_def dest: spec [of _ w])
qed

lemma after_response_resumed:
  assumes "wakes_on_pause r" "\<not> sd_paused (after_response r s)"
  shows "\<not> sd_paused s \<or> sd_wake (after_response r s)"
  using assms
  by (auto simp: wakes_on_pause_def after_response_def after_reply_def replied_def Let_def split: content.splits body.splits if_splits)

section \<open>Never held without reason\<close>

definition loop_ok :: "looping \<Rightarrow> bool" where
  "loop_ok L \<longleftrightarrow> (sd_running (lp_switches L) \<longleftrightarrow> lp_phase L = In_cycle) \<and> (lp_phase L = Out \<longrightarrow> lp_shutdown L)"

lemma loop_ok_run: "loop_run n L L' \<Longrightarrow> loop_ok L \<Longrightarrow> loop_ok L'"
proof (induction rule: loop_run.induct)
  case (own n L L1 L2)
  then show ?case by (auto simp: loop_ok_def elim!: loop_stepE)
next
  case (outside n L L1 L2)
  then show ?case by (auto simp: loop_ok_def elim!: outside_stepE)
qed simp

definition can_go_on :: "looping \<Rightarrow> bool" where
  "can_go_on L \<longleftrightarrow> (\<exists>L'. loop_step L L')"

lemma can_go_on_iff:
  "can_go_on L \<longleftrightarrow> lp_phase L \<noteq> Out \<and> (lp_phase L = Held \<longrightarrow> sd_wake (lp_switches L) \<or> lp_shutdown L)"
proof (cases "lp_phase L")
  case At_head
  then show ?thesis by (cases "sd_paused (lp_switches L)") (auto simp: can_go_on_def intro: loop_step.intros)
next
  case Awake
  then show ?thesis by (cases "lp_shutdown L") (auto simp: can_go_on_def intro: loop_step.intros)
qed (auto simp: can_go_on_def intro: loop_step.intros elim!: loop_stepE)

section \<open>Stopping\<close>

text \<open>The most steps of its own the loop still takes once a signal is latched.\<close>

fun steps_left :: "phase \<Rightarrow> nat" where
  "steps_left At_head = 5"
| "steps_left Not_paused = 4"
| "steps_left In_cycle = 3"
| "steps_left Asleep = 2"
| "steps_left Held = 2"
| "steps_left Awake = 1"
| "steps_left Out = 0"

definition cycles_left :: "phase \<Rightarrow> nat" where
  "cycles_left p = (if p \<in> {At_head, Not_paused} then 1 else 0)"

lemma stopping_run:
  "loop_run n L L' \<Longrightarrow> lp_shutdown L \<Longrightarrow>
     lp_shutdown L' \<and> n + steps_left (lp_phase L') \<le> steps_left (lp_phase L) \<and>
     lp_cycles L' + cycles_left (lp_phase L') \<le> lp_cycles L + cycles_left (lp_phase L)"
proof (induction rule: loop_run.induct)
  case (own n L L1 L2)
  then show ?case by (auto simp: cycles_left_def elim!: loop_stepE)
next
  case (outside n L L1 L2)
  then show ?case by (auto elim!: outside_stepE)
qed simp

text \<open>C23. A daemon told to stop stops. From the moment a signal is latched, wherever its loop is and whatever requests and signals come in
  between, the loop takes at most five more steps and begins at most one more cycle (none, once it is past its head); it is never stuck on
  the way, so it ends, and it only ends outside a cycle, which a signal never cuts short.\<close>

theorem stopping_daemon_stops:
  assumes "loop_run n L L'" "lp_shutdown L" "loop_ok L"
  shows "n + steps_left (lp_phase L') \<le> steps_left (lp_phase L) \<and> steps_left (lp_phase L) \<le> 5 \<and>
    lp_cycles L' \<le> lp_cycles L + cycles_left (lp_phase L) \<and>
    (can_go_on L' \<longleftrightarrow> lp_phase L' \<noteq> Out) \<and> (lp_phase L' = Out \<longrightarrow> \<not> sd_running (lp_switches L'))"
proof -
  have "steps_left p \<le> 5" for p by (cases p) auto
  then show ?thesis
    using stopping_run [OF assms(1,2)] loop_ok_run [OF assms(1,3)] by (auto simp: can_go_on_iff loop_ok_def)
qed

text \<open>A loop in a cycle when the signal is latched: it finishes the cycle, wakes from its sleep at once, and is out.\<close>

definition told_to_stop :: looping where
  "told_to_stop = started\<lparr>lp_phase := In_cycle, lp_shutdown := True, lp_switches := (lp_switches started)\<lparr>sd_running := True\<rparr>, lp_cycles := 1\<rparr>"

theorem stopping_daemon_stops_witness:
  "\<exists>L'. loop_run 3 told_to_stop L' \<and> lp_phase L' = Out \<and> \<not> can_go_on L' \<and> \<not> sd_running (lp_switches L') \<and> lp_cycles L' \<le> 1"
proof -
  let ?asleep = "told_to_stop\<lparr>lp_phase := Asleep, lp_switches := (lp_switches told_to_stop)\<lparr>sd_running := False\<rparr>\<rparr>"
  let ?awake = "?asleep\<lparr>lp_phase := Awake\<rparr>" and ?out = "?asleep\<lparr>lp_phase := Awake\<rparr>\<lparr>lp_phase := Out\<rparr>"
  have "loop_run (Suc 0) told_to_stop ?asleep"
    by (rule loop_run.own [OF loop_run.here loop_step.cycle_over]) (simp add: told_to_stop_def)
  then have "loop_run (Suc (Suc 0)) told_to_stop ?awake"
    by (rule loop_run.own) (rule loop_step.signalled; simp add: told_to_stop_def)
  then have run: "loop_run (Suc (Suc (Suc 0))) told_to_stop ?out"
    by (rule loop_run.own) (rule loop_step.stop; simp add: told_to_stop_def)
  have stopping: "lp_shutdown told_to_stop" "loop_ok told_to_stop" by (simp_all add: told_to_stop_def loop_ok_def)
  from stopping_daemon_stops [OF run stopping] run show ?thesis
    by (intro exI [of _ ?out]) (simp add: told_to_stop_def cycles_left_def numeral_3_eq_3)
qed

section \<open>Pausing and resuming\<close>

definition held_ok :: "looping \<Rightarrow> bool" where
  "held_ok L \<longleftrightarrow> (lp_phase L = Held \<longrightarrow> sd_paused (lp_switches L) \<or> sd_wake (lp_switches L))"

lemma held_ok_run: "loop_run n L L' \<Longrightarrow> held_ok L \<Longrightarrow> held_ok L'"
proof (induction rule: loop_run.induct)
  case (own n L L1 L2)
  then show ?case by (auto simp: held_ok_def elim!: loop_stepE)
next
  case (outside n L L1 L2)
  then show ?case
    by (auto simp: held_ok_def elim!: outside_stepE dest: after_response_resumed [OF served_wakes] after_response_wake)
qed simp

text \<open>C24. A daemon that is not paused goes on. However requests and signals fall between its steps, the loop only ever rests in its paused
  wait while the switch says paused and nothing has woken it: resuming it, even between its reading of the switch and its wait, leaves the
  wake-up that ends the wait. And what the API shows as running is a cycle, no more and no less.\<close>

theorem unpaused_daemon_goes_on:
  assumes "loop_run n started L"
  shows "(can_go_on L \<longleftrightarrow> lp_phase L \<noteq> Out \<and>
      \<not> (lp_phase L = Held \<and> sd_paused (lp_switches L) \<and> \<not> sd_wake (lp_switches L) \<and> \<not> lp_shutdown L)) \<and>
    (sd_running (lp_switches L) \<longleftrightarrow> lp_phase L = In_cycle)"
proof -
  have "held_ok started" "loop_ok started" by (simp_all add: held_ok_def loop_ok_def started_def)
  then show ?thesis
    using held_ok_run [OF assms] loop_ok_run [OF assms] by (auto simp: can_go_on_iff held_ok_def loop_ok_def)
qed

theorem unpaused_daemon_goes_on_witness:
  "\<exists>L. loop_run 1 started L \<and> can_go_on L \<and> \<not> sd_running (lp_switches L)"
proof -
  have run: "loop_run (Suc 0) started (started\<lparr>lp_phase := Not_paused\<rparr>)"
    by (rule loop_run.own [OF loop_run.here loop_step.not_paused]) (simp_all add: started_def)
  from unpaused_daemon_goes_on [OF run] run show ?thesis by (intro exI [of _ "started\<lparr>lp_phase := Not_paused\<rparr>"]) simp
qed

text \<open>A run through which the switch says paused.\<close>

inductive paused_run :: "looping \<Rightarrow> looping \<Rightarrow> bool" where
  here: "sd_paused (lp_switches L) \<Longrightarrow> paused_run L L"
| step: "paused_run L L1 \<Longrightarrow> loop_step L1 L2 \<or> outside_step L1 L2 \<Longrightarrow> sd_paused (lp_switches L2) \<Longrightarrow> paused_run L L2"

definition window :: "looping \<Rightarrow> nat" where
  "window L = (if lp_phase L = Not_paused then 1 else 0)"

lemma paused_run_window: "paused_run L L' \<Longrightarrow> sd_paused (lp_switches L') \<and> lp_cycles L' + window L' \<le> lp_cycles L + window L"
proof (induction rule: paused_run.induct)
  case (step L L1 L2)
  then show ?case by (auto simp: window_def elim!: loop_stepE outside_stepE)
qed simp

text \<open>Paused is paused. While the switch says paused no cycle begins, whatever requests come in, except the one that had already read the
  switch when it was set.\<close>

lemma paused_daemon_starts_nothing:
  assumes "paused_run L L'"
  shows "lp_cycles L' \<le> lp_cycles L + (if lp_phase L = Not_paused then 1 else 0)"
  using paused_run_window [OF assms] by (simp add: window_def split: if_splits)

end
