(* ===== verification/Cli.thy ===== *)
theory Cli
  imports Daemon
begin

text \<open>
The command line (\<open>main.rs\<close>): what its words mean, and the account commands. Reading a password without echo is a parameter, and so are
loading the configuration (\<open>Config.load\<close>) and the daemon it starts.
\<close>

datatype user_command = Add string | Passwd string | Disable string

record cli =
  cl_root :: string
  cl_port :: "nat option"
  cl_user :: "user_command option"

definition parse_u16 :: "string \<Rightarrow> nat option" where
  "parse_u16 s =
     (case s of
        [] \<Rightarrow> None
      | c # cs \<Rightarrow>
          Option.bind (if c = CHR ''+'' then parse_digits cs else parse_digits s)
            (\<lambda>n. if n < 2 ^ 16 then Some n else None))"

fun user_command_of :: "(string \<Rightarrow> string) \<Rightarrow> string \<Rightarrow> string \<Rightarrow> string + user_command" where
  "user_command_of debug action name =
     (if action = ''add'' then Inr (Add name)
      else if action = ''passwd'' then Inr (Passwd name)
      else if action = ''disable'' then Inr (Disable name)
      else Inl (''unknown user command '' @ debug action))"

text \<open>One argument and its values; what is said later counts.\<close>

fun take_arg :: "(string \<Rightarrow> string) \<Rightarrow> string \<Rightarrow> string list \<Rightarrow> cli \<Rightarrow> string + (string list \<times> cli)" where
  "take_arg debug arg args c =
     (if arg = ''--root''
      then (case args of
              [] \<Rightarrow> Inl ''--root requires a value''
            | value # rest \<Rightarrow> Inr (rest, c\<lparr>cl_root := value\<rparr>))
      else if arg = ''--port''
      then (case args of
              [] \<Rightarrow> Inl ''--port requires a value''
            | value # rest \<Rightarrow>
                (case parse_u16 value of
                   None \<Rightarrow> Inl (''invalid port '' @ debug value)
                 | Some port \<Rightarrow> Inr (rest, c\<lparr>cl_port := Some port\<rparr>)))
      else if arg = ''user''
      then (case args of
              [] \<Rightarrow> Inl ''user requires add, passwd or disable''
            | [action] \<Rightarrow> Inl (''user '' @ action @ '' requires a name'')
            | action # name # rest \<Rightarrow>
                (case user_command_of debug action name of
                   Inl e \<Rightarrow> Inl e
                 | Inr command \<Rightarrow> Inr (rest, c\<lparr>cl_user := Some command\<rparr>)))
      else Inl (''unknown argument '' @ debug arg))"

lemma take_arg_shorter: "take_arg debug arg args c = Inr (rest, c') \<Longrightarrow> length rest < Suc (length args)"
  by (auto split: if_splits list.splits option.splits sum.splits)

function parse_from :: "(string \<Rightarrow> string) \<Rightarrow> string list \<Rightarrow> cli \<Rightarrow> string + cli" where
  "parse_from debug [] c = Inr c"
| "parse_from debug (arg # args) c =
     (case take_arg debug arg args c of Inl e \<Rightarrow> Inl e | Inr (rest, c') \<Rightarrow> parse_from debug rest c')"
  by pat_completeness auto
termination
  by (relation "measure (\<lambda>(_, args, _). length args)") (auto dest: take_arg_shorter simp del: take_arg.simps)

definition parse_args :: "(string \<Rightarrow> string) \<Rightarrow> string list \<Rightarrow> string + cli" where
  "parse_args debug args = parse_from debug args \<lparr>cl_root = ''../hunter'', cl_port = None, cl_user = None\<rparr>"

section \<open>Account commands\<close>

definition run_user :: "crypto \<Rightarrow> string io \<Rightarrow> user_command \<Rightarrow> unit io" where
  "run_user C read_password command =
     (case command of
        Add name \<Rightarrow> and_then read_password (\<lambda>password. and_then (add_user C name password) (\<lambda>_. ok ()))
      | Passwd name \<Rightarrow> and_then read_password (\<lambda>password. change_password C name password)
      | Disable name \<Rightarrow> disable_user C name)"

text \<open>A command for an account runs beside the daemon and never starts one; the port given wins over the configured one.\<close>

definition run :: "crypto \<Rightarrow> string io \<Rightarrow> (string \<Rightarrow> config io) \<Rightarrow> (config \<Rightarrow> unit io) \<Rightarrow> cli \<Rightarrow> unit io" where
  "run C read_password load_config run_daemon c =
     and_then (load_config (cl_root c)) (\<lambda>cfg.
       case cl_user c of
         Some command \<Rightarrow> run_user C read_password command
       | None \<Rightarrow> run_daemon (case cl_port c of Some port \<Rightarrow> cfg\<lparr>cf_serve_port := port\<rparr> | None \<Rightarrow> cfg))"

section \<open>What a command line says\<close>

text \<open>The words of a command line.\<close>

fun user_words :: "user_command \<Rightarrow> string list" where
  "user_words (Add name) = [''user'', ''add'', name]"
| "user_words (Passwd name) = [''user'', ''passwd'', name]"
| "user_words (Disable name) = [''user'', ''disable'', name]"

definition cli_words :: "cli \<Rightarrow> string list" where
  "cli_words c =
     [''--root'', cl_root c] @ (case cl_port c of Some port \<Rightarrow> [''--port'', show_nat port] | None \<Rightarrow> []) @
     (case cl_user c of Some command \<Rightarrow> user_words command | None \<Rightarrow> [])"

lemma parse_u16_show_nat: "port < 2 ^ 16 \<Longrightarrow> parse_u16 (show_nat port) = Some port"
proof -
  assume port: "port < 2 ^ 16"
  obtain c cs where digits: "show_nat port = c # cs" by (cases "show_nat port") auto
  have "c \<noteq> CHR ''+''" using show_nat_hd_digit [of port] by (auto simp: digits is_ascii_digit_def byte_def)
  then have "parse_u16 (c # cs) = Option.bind (parse_digits (show_nat port)) (\<lambda>n. if n < 2 ^ 16 then Some n else None)"
    by (simp add: parse_u16_def digits)
  with port show ?thesis unfolding digits [symmetric] by simp
qed

lemma command_line_round_trip:
  assumes "\<And>port. cl_port c = Some port \<Longrightarrow> port < 2 ^ 16"
  shows "parse_args debug (cli_words c) = Inr c"
proof (cases c)
  case (fields dir port user)
  have words: "parse_from debug (user_words command) c' = Inr (c'\<lparr>cl_user := Some command\<rparr>)" for command c'
    by (cases command) simp_all
  show ?thesis
    using assms
    by (cases port; cases user) (simp_all add: fields parse_args_def cli_words_def words parse_u16_show_nat)
qed

end
