(* ===== verification/Status.thy ===== *)
theory Status
  imports Backend
begin

text \<open>
The status page (\<open>render_status\<close> and \<open>status_html\<close> of \<open>facade.rs\<close>): one bar of markup per quota window, which the web interface injects as
it is. Floats are rationals; a negative zero is a zero here. What a calendar month's length is, is the mirror's parameter.
\<close>

section \<open>Texts\<close>

definition replace_char :: "char \<Rightarrow> string \<Rightarrow> string \<Rightarrow> string" where
  "replace_char c by s = concat (map (\<lambda>x. if x = c then by else [x]) s)"

definition esc :: "string \<Rightarrow> string" where
  "esc s =
     replace_char (CHR 0x27) ''&#x27;''
       (replace_char (CHR 0x22) ''&quot;''
          (replace_char (CHR ''>'') ''&gt;'' (replace_char (CHR ''<'') ''&lt;'' (replace_char (CHR ''&'') ''&amp;'' s))))"

text \<open>\<open>round_ties_even\<close>, and the formats \<open>{:.0}\<close> and \<open>{:.1}\<close>.\<close>

definition round_ties_even :: "rat \<Rightarrow> int" where
  "round_ties_even x =
     (let n = \<lfloor>x\<rfloor>; d = x - of_int n
      in if d < 1 / 2 then n else if 1 / 2 < d then n + 1 else if even n then n else n + 1)"

definition fixed0 :: "rat \<Rightarrow> string" where
  "fixed0 x = (if x < 0 then ''-'' else []) @ show_nat (nat \<bar>round_ties_even x\<bar>)"

definition fixed1 :: "rat \<Rightarrow> string" where
  "fixed1 x =
     (let n = nat \<bar>round_ties_even (10 * x)\<bar>
      in (if x < 0 then ''-'' else []) @ show_nat (n div 10) @ ''.'' @ show_nat (n mod 10))"

definition fmt_tokens :: "rat \<Rightarrow> string" where
  "fmt_tokens n =
     (if 1000000 \<le> n then fixed1 (n / 1000000) @ ''M''
      else if 1000 \<le> n then fixed0 (n / 1000) @ ''k''
      else show_int (trunc_i64 n))"

definition percent :: "rat \<Rightarrow> string" where
  "percent x = fixed0 (x * 100) @ ''%''"

definition pad2 :: "int \<Rightarrow> string" where
  "pad2 n = (if n < 10 then ''0'' else []) @ show_int n"

definition middle_dot :: string where
  "middle_dot = '' '' @ map char_of [0xC2, 0xB7 :: nat] @ '' ''"

definition stale_sign :: string where
  "stale_sign = '' '' @ map char_of [0xE2, 0x9A, 0xA0, 0xEF, 0xB8, 0x8F :: nat] @ ''stale''"

section \<open>One window\<close>

definition NO_WINDOW_DATA :: string where
  "NO_WINDOW_DATA = ''<div class='' @ [CHR 0x22] @ ''scv-note'' @ [CHR 0x22] @ ''>No window data available</div>''"

record status_inputs =
  si_now_ms :: millis
  si_provider :: llm_provider
  si_windows :: windows
  si_unaccounted :: "(string \<times> rat) list"
  si_capacities :: "(string \<times> rat option) list"
  si_stale_after_s :: rat

definition window_label :: "llm_provider \<Rightarrow> string \<Rightarrow> string" where
  "window_label p lid =
     (let other = unwrap_or (Option.bind (strip_prefix (provider_name p) lid) (strip_prefix '':'')) lid @ '' window''
      in case gating_window (provider_quota p) lid of
           Some qw \<Rightarrow> if qw_limit_id qw = lid then qw_label qw else other
         | None \<Rightarrow> other)"

definition in_flight :: "status_inputs \<Rightarrow> string \<Rightarrow> rat" where
  "in_flight I lid =
     (case gating_window (provider_quota (si_provider I)) lid of
        Some qw \<Rightarrow> unwrap_or (map_of (si_unaccounted I) (qw_limit_id qw)) 0
      | None \<Rightarrow> 0)"

definition ramp_of :: "(millis \<Rightarrow> millis option) \<Rightarrow> status_inputs \<Rightarrow> string \<Rightarrow> window_state \<Rightarrow> rat option" where
  "ramp_of month_length I lid w =
     Option.bind (gating_window (provider_quota (si_provider I)) lid) (\<lambda>qw. ramp month_length qw (ws_resets_at w) (si_now_ms I))"

definition elapsed_of :: "(millis \<Rightarrow> millis option) \<Rightarrow> status_inputs \<Rightarrow> string \<Rightarrow> window_state \<Rightarrow> millis option" where
  "elapsed_of month_length I lid w =
     Option.bind (gating_window (provider_quota (si_provider I)) lid) (\<lambda>qw.
       case (qw_pacing qw, ramp month_length qw (ws_resets_at w) (si_now_ms I), ws_resets_at w,
             length_ms month_length (qw_period qw) (ws_resets_at w)) of
         (AfterHeadroom, Some _, Some reset, Some period) \<Rightarrow> Some (period - (reset - si_now_ms I))
       | _ \<Rightarrow> None)"

definition clamped_to :: "int \<Rightarrow> int \<Rightarrow> int \<Rightarrow> int" where
  "clamped_to lo hi n = max lo (min hi n)"

definition fill_pct :: "window_state \<Rightarrow> int" where
  "fill_pct w = clamped_to 0 100 (trunc_i64 (of_int (round_ties_even (unwrap_or (ws_used_fraction w) 0 * 100))))"

definition soft_pct :: "window_state \<Rightarrow> rat \<Rightarrow> int" where
  "soft_pct w unacct = clamped_to 0 (100 - fill_pct w) (trunc_i64 (of_int (round_ties_even (unacct * 100))))"

definition ramp_pct :: "rat \<Rightarrow> int" where
  "ramp_pct r = clamped_to 0 100 (trunc_i64 (of_int (round_ties_even (r * 100))))"

definition avail_text :: "status_inputs \<Rightarrow> string \<Rightarrow> window_state \<Rightarrow> rat option \<Rightarrow> rat \<Rightarrow> string" where
  "avail_text I lid w ramp_val unacct =
     (let frac = max 0 (unwrap_or ramp_val 1 - unwrap_or (ws_used_fraction w) 0 - unacct)
      in if ws_used_fraction w = None then []
         else case unwrap_or (map_of (si_capacities I) lid) None of
                Some c \<Rightarrow> if 0 < c then middle_dot @ percent frac @ '' avail (~'' @ fmt_tokens (frac * c) @ '' tok)''
                          else middle_dot @ percent frac @ '' avail''
              | None \<Rightarrow> middle_dot @ percent frac @ '' avail'')"

definition is_stale :: "status_inputs \<Rightarrow> window_state \<Rightarrow> bool" where
  "is_stale I w \<longleftrightarrow> si_stale_after_s I < ws_age_s w"

definition tone :: "status_inputs \<Rightarrow> window_state \<Rightarrow> string" where
  "tone I w =
     (if is_stale I w then ''stale''
      else if ws_status w = Some ''exhausted'' \<or> (case ws_used_fraction w of Some f \<Rightarrow> 1 \<le> f | None \<Rightarrow> False) then ''bad''
      else ''ok'')"

definition time_tag :: "millis \<Rightarrow> string" where
  "time_tag r = ''<time data-ms='' @ [CHR 0x22] @ show_int r @ [CHR 0x22] @ ''></time>''"

definition countdown :: "rat \<Rightarrow> string" where
  "countdown remain_s =
     (let h = \<lfloor>remain_s / 3600\<rfloor>; m = \<lfloor>(remain_s - of_int h * 3600) / 60\<rfloor>
      in if 0 < h then show_int h @ ''h'' @ pad2 m @ ''m'' else show_int m @ ''m'')"

definition reset_text :: "status_inputs \<Rightarrow> window_state \<Rightarrow> string" where
  "reset_text I w =
     (case ws_resets_at w of
        Some r \<Rightarrow>
          (let remain_s = of_int (r - si_now_ms I) / 1000
           in if 0 < remain_s then ''resets '' @ time_tag r @ '' ('' @ countdown remain_s @ '')'' else ''resetting'')
      | None \<Rightarrow> ''reset unknown'')"

definition headroom_text :: "millis option \<Rightarrow> string" where
  "headroom_text elapsed =
     (case elapsed of
        Some e \<Rightarrow> if 1 \<le> e \<and> e < HEADROOM_MS then middle_dot @ ''headroom '' @ show_int ((HEADROOM_MS - e) div 60000) @ ''m'' else []
      | None \<Rightarrow> [])"

definition marker_tag :: "int option \<Rightarrow> string" where
  "marker_tag r =
     (case r of
        Some rp \<Rightarrow>
          if 0 < rp then ''<i class='' @ [CHR 0x22] @ ''scv-ramp'' @ [CHR 0x22] @ '' style='' @ [CHR 0x22] @ ''left:'' @ show_int rp @ ''%'' @
                         [CHR 0x22] @ ''></i>''
          else []
      | None \<Rightarrow> [])"

definition bar_tag :: "string \<Rightarrow> int \<Rightarrow> string" where
  "bar_tag cls pct = ''<i class='' @ [CHR 0x22] @ cls @ [CHR 0x22] @ '' style='' @ [CHR 0x22] @ ''width:'' @ show_int pct @ ''%'' @ [CHR 0x22] @ ''></i>''"

definition div_tag :: "string \<Rightarrow> string" where
  "div_tag cls = ''<div class='' @ [CHR 0x22] @ cls @ [CHR 0x22] @ ''>''"

definition fragment :: "(millis \<Rightarrow> millis option) \<Rightarrow> status_inputs \<Rightarrow> string \<times> window_state \<Rightarrow> string" where
  "fragment month_length I = (\<lambda>(lid, w).
     (let unacct = in_flight I lid; ramp_val = ramp_of month_length I lid w
      in div_tag ''scv-win'' @ div_tag ''scv-lab'' @
         ''<b>'' @ esc (window_label (si_provider I) lid) @ ''</b>'' @
         ''<span>'' @ esc (case ws_used_fraction w of Some f \<Rightarrow> percent f | None \<Rightarrow> ''?'') @ '' used'' @
           esc (if 5 / 1000 < unacct then '' +'' @ percent unacct @ '' in flight'' else []) @
           esc (avail_text I lid w ramp_val unacct) @ (if is_stale I w then stale_sign else []) @ ''</span>'' @
         ''</div>'' @
         div_tag ''scv-bar'' @ bar_tag (''scv-fill scv-'' @ tone I w) (fill_pct w) @ bar_tag ''scv-soft'' (soft_pct w unacct) @
           marker_tag (map_option ramp_pct ramp_val) @ ''</div>'' @
         div_tag ''scv-sub'' @ reset_text I w @ esc (headroom_text (elapsed_of month_length I lid w)) @
           middle_dot @ ''probed '' @ esc (fixed0 (ws_age_s w / 60) @ ''m ago'') @ ''</div>'' @
         ''</div>''))"

definition render_status :: "(millis \<Rightarrow> millis option) \<Rightarrow> status_inputs \<Rightarrow> string" where
  "render_status month_length I =
     (if si_windows I = [] then NO_WINDOW_DATA
      else join [CHR 0x0A] (map (fragment month_length I) (si_windows I)))"

section \<open>What it is rendered from\<close>

fun capacities_of :: "(millis \<Rightarrow> db \<Rightarrow> ledger) \<Rightarrow> string list \<Rightarrow> (string \<times> rat option) list io" where
  "capacities_of L [] = ok []"
| "capacities_of L (lid # lids) =
     and_then (call (\<lambda>t d. (estimate_capacity (L t d) lid, d))) (\<lambda>c.
     and_then (capacities_of L lids) (\<lambda>cs. ok ((lid, c) # cs)))"

definition status_html :: "'raw mirror \<Rightarrow> config \<Rightarrow> string io" where
  "status_html U cfg =
     (let p = cf_llm_provider cfg; q = provider_quota p
      in do {
        now \<leftarrow> look (\<lambda>w. w_now w (w_calls w));
        wins \<leftarrow> look (mirror_windows U p);
        (if wins = [] then ok NO_WINDOW_DATA
         else
           and_then (call (\<lambda>t d. (store_ledger (mi_month_start U) t d, d))) (\<lambda>L.
           and_then (capacities_of (store_ledger (mi_month_start U)) (map fst wins)) (\<lambda>capacities.
             ok (render_status (mi_month_length U) \<lparr>si_now_ms = now, si_provider = p, si_windows = wins,
                   si_unaccounted = map (\<lambda>(qw, r). (qw_limit_id qw, rv_gate r)) (zip (q_windows q) (reservations L q wins 0)),
                   si_capacities = capacities, si_stale_after_s = cf_stale_after_s cfg\<rparr>)))) })"

text \<open>Rendering the page only reads.\<close>

lemma keeps_capacities_of: "keeps h (capacities_of L lids)"
  by (induction lids) (auto intro!: keeps_intros keeps_call)

lemma keeps_status_html: "keeps h (status_html U cfg)"
  unfolding status_html_def Let_def by (intro keeps_intros keeps_call keeps_capacities_of) simp_all

section \<open>The markup of the page\<close>

text \<open>What is left of a page when the text between its tags is dropped.\<close>

fun markup :: "bool \<Rightarrow> string \<Rightarrow> string" where
  "markup inside [] = []"
| "markup False (c # cs) = (if c = CHR ''<'' then c # markup True cs else markup False cs)"
| "markup True (c # cs) = c # markup (c \<noteq> CHR ''>'') cs"

lemma markup_text: "CHR ''<'' \<notin> set t \<Longrightarrow> markup False (t @ s) = markup False s"
  by (induction t) auto

lemma markup_inside: "CHR ''>'' \<notin> set t \<Longrightarrow> markup True (t @ s) = t @ markup True s"
  by (induction t) auto

definition tag :: "string \<Rightarrow> bool" where
  "tag t \<longleftrightarrow> (\<forall>s. markup False (t @ s) = t @ markup False s)"

lemma tagI: "CHR ''>'' \<notin> set b \<Longrightarrow> tag (''<'' @ b @ ''>'')"
  by (simp add: tag_def markup_inside)

lemma tag_append: "tag a \<Longrightarrow> tag b \<Longrightarrow> tag (a @ b)"
  by (simp add: tag_def)

lemma tag_Nil: "tag []"
  by (simp add: tag_def)

lemma set_replace_char: "set (replace_char c by s) \<subseteq> (set s - {c}) \<union> set by"
  by (auto simp: replace_char_def split: if_splits)

lemma esc_text: "CHR ''<'' \<notin> set (esc s)"
proof -
  have "CHR ''<'' \<notin> set (replace_char (CHR ''<'') ''&lt;'' t)" for t
    using set_replace_char [of "CHR ''<''" "''&lt;''" t] by auto
  moreover have "CHR ''<'' \<notin> set (replace_char c by t)" if "CHR ''<'' \<notin> set t" "CHR ''<'' \<notin> set by" for c "by" t
    using set_replace_char [of c "by" t] that by auto
  ultimately show ?thesis by (simp add: esc_def)
qed

lemma show_int_chars: "c \<in> set (show_int n) \<Longrightarrow> is_ascii_digit c \<or> c = CHR ''-''"
  using show_nat_digits by (auto simp: show_int_def list_all_iff split: if_splits)

lemma show_int_text [simp]: "CHR ''<'' \<notin> set (show_int n)" "CHR ''>'' \<notin> set (show_int n)"
  using show_int_chars [of "CHR ''<''" n] show_int_chars [of "CHR ''>''" n] by (auto simp: is_ascii_digit_def byte_def)

lemma tags:
  "tag (div_tag ''scv-win'')" "tag (div_tag ''scv-lab'')" "tag (div_tag ''scv-bar'')" "tag (div_tag ''scv-sub'')"
  "tag ''</div>''" "tag ''<b>''" "tag ''</b>''" "tag ''<span>''" "tag ''</span>''" "tag ''</i>''" "tag ''</time>''"
  by (simp_all add: tag_def div_tag_def)

lemma tag_bar: "CHR ''>'' \<notin> set cls \<Longrightarrow> tag (bar_tag cls pct)"
  using tag_append [OF tagI tags(10), of "''i class='' @ [CHR 0x22] @ cls @ [CHR 0x22] @ '' style='' @ [CHR 0x22] @ ''width:'' @ show_int pct @ ''%'' @ [CHR 0x22]"]
  by (simp add: bar_tag_def)

lemma tag_marker: "tag (marker_tag r)"
  using tag_append [OF tagI tags(10), of "''i class='' @ [CHR 0x22] @ ''scv-ramp'' @ [CHR 0x22] @ '' style='' @ [CHR 0x22] @ ''left:'' @ show_int (the r) @ ''%'' @ [CHR 0x22]"]
  by (auto simp: marker_tag_def tag_Nil split: option.split)

lemma tag_time: "tag (time_tag r)"
  using tag_append [OF tagI tags(11), of "''time data-ms='' @ [CHR 0x22] @ show_int r @ [CHR 0x22]"]
  by (simp add: time_tag_def)

lemma countdown_text: "CHR ''<'' \<notin> set (countdown x)"
  by (auto simp: countdown_def pad2_def Let_def)

lemma signs_text: "CHR ''<'' \<notin> set middle_dot" "CHR ''<'' \<notin> set stale_sign"
  by (simp_all add: middle_dot_def stale_sign_def) (simp_all add: char_of_def bit_iff_odd)

definition shown_reset :: "status_inputs \<Rightarrow> window_state \<Rightarrow> millis option" where
  "shown_reset I w = (case ws_resets_at w of Some r \<Rightarrow> if si_now_ms I < r then Some r else None | None \<Rightarrow> None)"

definition reset_tag :: "millis option \<Rightarrow> string" where
  "reset_tag r = (case r of Some t \<Rightarrow> time_tag t | None \<Rightarrow> [])"

lemma markup_reset: "markup False (reset_text I w @ s) = reset_tag (shown_reset I w) @ markup False s"
proof (cases "ws_resets_at w")
  case (Some r)
  show ?thesis
  proof (cases "si_now_ms I < r")
    case True
    have "markup False (''resets '' @ time_tag r @ '' ('' @ countdown x @ '')'' @ s) = time_tag r @ markup False s" for x
      using tag_time [of r] markup_text [of "''resets ''" "time_tag r @ '' ('' @ countdown x @ '')'' @ s"]
        markup_text [of "'' ('' @ countdown x @ '')''" s] countdown_text [of x] by (simp add: tag_def)
    with Some True show ?thesis by (simp add: reset_text_def shown_reset_def reset_tag_def Let_def)
  next
    case False
    with Some show ?thesis by (simp add: reset_text_def shown_reset_def reset_tag_def Let_def)
  qed
qed (simp add: reset_text_def shown_reset_def reset_tag_def)

text \<open>The tags of a window's bar, and what of the window they show.\<close>

type_synonym bar = "string \<times> int \<times> int \<times> int option \<times> millis option"

definition bar_of :: "(millis \<Rightarrow> millis option) \<Rightarrow> status_inputs \<Rightarrow> string \<times> window_state \<Rightarrow> bar" where
  "bar_of month_length I = (\<lambda>(lid, w).
     (tone I w, fill_pct w, soft_pct w (in_flight I lid), map_option ramp_pct (ramp_of month_length I lid w), shown_reset I w))"

definition bar_markup :: "bar \<Rightarrow> string" where
  "bar_markup = (\<lambda>(tone, fill, soft, ramp_at, reset).
     div_tag ''scv-win'' @ div_tag ''scv-lab'' @ ''<b></b><span></span></div>'' @
     div_tag ''scv-bar'' @ bar_tag (''scv-fill scv-'' @ tone) fill @ bar_tag ''scv-soft'' soft @ marker_tag ramp_at @ ''</div>'' @
     div_tag ''scv-sub'' @ reset_tag reset @ ''</div></div>'')"

lemma tone_text: "CHR ''>'' \<notin> set (''scv-fill scv-'' @ tone I w)"
  by (simp add: tone_def)

lemmas drop_tags = tags(1-4) [unfolded tag_def, rule_format] tag_marker [unfolded tag_def, rule_format]
  tag_bar [OF tone_text, unfolded tag_def, rule_format]

lemmas drop_texts = markup_text [OF esc_text] markup_text [OF signs_text(1)] markup_text [OF signs_text(2)] markup_reset

lemma drop_soft: "markup False (bar_tag ''scv-soft'' n @ s) = bar_tag ''scv-soft'' n @ markup False s"
  using tag_bar [of "''scv-soft''" n] by (simp add: tag_def)

lemma markup_fragment: "markup False (fragment month_length I x @ s) = bar_markup (bar_of month_length I x) @ markup False s"
proof (cases x)
  case (Pair lid w)
  have stale: "markup False ((if b then stale_sign else []) @ t) = markup False t" for b t by (simp add: drop_texts)
  show ?thesis
    unfolding Pair fragment_def bar_of_def bar_markup_def prod.case Let_def append_assoc drop_tags drop_soft
    by (simp add: drop_tags [simplified] drop_soft drop_texts stale)
qed

lemma markup_join:
  "fs \<noteq> [] \<Longrightarrow> (\<And>f s. f \<in> set fs \<Longrightarrow> markup False (g f @ s) = h f @ markup False s) \<Longrightarrow>
     markup False (join [CHR 0x0A] (map g fs)) = concat (map h fs)"
proof (induction fs rule: induct_list012)
  case (2 f)
  then show ?case using 2(2) [of f "[]"] by simp
next
  case (3 f g' fs)
  then show ?case by simp
qed simp

definition bar_ok :: "bar \<Rightarrow> bool" where
  "bar_ok = (\<lambda>(tone, fill, soft, ramp_at, reset).
     tone \<in> {''ok'', ''bad'', ''stale''} \<and> 0 \<le> fill \<and> 0 \<le> soft \<and> fill + soft \<le> 100 \<and>
     (case ramp_at of Some r \<Rightarrow> 0 \<le> r \<and> r \<le> 100 | None \<Rightarrow> True))"

lemma clamped_bounds: "lo \<le> hi \<Longrightarrow> lo \<le> clamped_to lo hi n \<and> clamped_to lo hi n \<le> hi"
  by (simp add: clamped_to_def)

lemma bar_of_ok: "bar_ok (bar_of month_length I x)"
proof (cases x)
  case (Pair lid w)
  have "tone I w \<in> {''ok'', ''bad'', ''stale''}" unfolding tone_def by (simp del: list.inject)
  moreover have fill: "0 \<le> fill_pct w \<and> fill_pct w \<le> 100" unfolding fill_pct_def by (rule clamped_bounds) simp
  moreover have "0 \<le> soft_pct w u \<and> soft_pct w u \<le> 100 - fill_pct w" for u
    unfolding soft_pct_def by (rule clamped_bounds) (use fill in simp)
  moreover have "0 \<le> ramp_pct r \<and> ramp_pct r \<le> 100" for r unfolding ramp_pct_def by (rule clamped_bounds) simp
  moreover have "case map_option ramp_pct v of Some r \<Rightarrow> 0 \<le> r \<and> r \<le> 100 | None \<Rightarrow> True" for v
    using calculation(4) by (cases v) simp_all
  moreover have "fill_pct w + soft_pct w u \<le> 100" for u using calculation(3) [of u] by simp
  ultimately show ?thesis unfolding bar_ok_def bar_of_def Pair prod.case by blast
qed

text \<open>C39. Nothing that is read can add markup to the status page. Dropping the text between its tags leaves, for every window, the fixed tags of
  its bar with one of three tones and the percentages and times they show, whatever the window is called and whatever is recorded of it;
  and the filled and the reserved part of a bar fit into it.\<close>

theorem status_markup_fixed:
  assumes "si_windows I \<noteq> []"
  shows "markup False (render_status month_length I) = concat (map (\<lambda>x. bar_markup (bar_of month_length I x)) (si_windows I)) \<and>
    list_all (\<lambda>x. bar_ok (bar_of month_length I x)) (si_windows I)"
  using assms markup_join [of "si_windows I" "fragment month_length I"] markup_fragment bar_of_ok
  by (simp add: render_status_def list_all_iff)

definition script_window :: window_state where
  "script_window = \<lparr>ws_limit_id = ''<script>'', ws_used_fraction = Some (1 / 2), ws_status = None, ws_resets_at = None,
     ws_recorded_at = 0, ws_age_s = 1\<rparr>"

definition script_inputs :: status_inputs where
  "script_inputs = \<lparr>si_now_ms = 1000, si_provider = Anthropic, si_windows = [(''<script>'', script_window)],
     si_unaccounted = [], si_capacities = [], si_stale_after_s = 900\<rparr>"

theorem status_markup_fixed_witness:
  "markup False (render_status (\<lambda>_. None) script_inputs) = bar_markup (''ok'', 50, 0, None, None)"
proof -
  have "gating_window (provider_quota Anthropic) ''<script>'' = None"
    by (simp add: gating_window_def gates_def ANTHROPIC_def)
  then have ungated: "in_flight script_inputs ''<script>'' = 0" "ramp_of (\<lambda>_. None) script_inputs ''<script>'' script_window = None"
    by (simp_all add: in_flight_def ramp_of_def script_inputs_def)
  have "round_ties_even 50 = 50" "round_ties_even 0 = 0" by (simp_all add: round_ties_even_def Let_def)
  moreover have "trunc_i64 50 = 50" "trunc_i64 0 = 0" by (simp_all add: trunc_i64_def i64_max_def)
  ultimately have "fill_pct script_window = 50" "soft_pct script_window 0 = 0"
    by (simp_all add: fill_pct_def soft_pct_def clamped_to_def script_window_def)
  moreover have "tone script_inputs script_window = ''ok''" "shown_reset script_inputs script_window = None"
    by (simp_all add: tone_def is_stale_def shown_reset_def script_window_def script_inputs_def)
  ultimately have bar: "bar_of (\<lambda>_. None) script_inputs (''<script>'', script_window) = (''ok'', 50, 0, None, None)"
    by (simp only: bar_of_def prod.case ungated option.map)
  have only: "si_windows script_inputs = [(''<script>'', script_window)]" by (simp add: script_inputs_def)
  then have "si_windows script_inputs \<noteq> []" by simp
  from status_markup_fixed [OF this, of "\<lambda>_. None"] show ?thesis
    by (simp only: only list.map concat.simps bar append_Nil2)
qed

end
