(* ===== verification/Spec2Isabelle.thy ===== *)
theory Spec2Isabelle
  imports Domain Budget StoreLedger StorePrs Config Selection Sweep Screening Ingest Prompts FixSafety PrAttention EngageSafety
    CycleSafety ForgeWrites ScanSafety RecheckSafety HarvestSafety RestartSafety OperatorSafety DisabledOut
    ReapSafety NotesSafety DaemonLoop Cli Status
begin

text \<open>
A verification development for \<open>hunter-rs\<close> (\<open>src/hunter-rs/src\<close>), the daemon that hunts for bugs in watched repositories on
spare LLM quota: it scans repositories with an LLM worker, files what the worker finds, fixes findings in draft pull requests, answers what
happens on them, and harvests what they taught. An operator steers it through an HTTP API.

\<^bold>\<open>How the program's parts interact.\<close> The daemon's loop (\<open>daemon.rs\<close>) recovers what a dead process left, reaps deleted repositories, sweeps the
workspaces and runs one cycle (\<open>scheduler.rs\<close>): sync the open pull requests, pick the most urgent work, ask the backend for budget
(\<open>backend.rs\<close>, \<open>backends/omp_scavenge\<close>), run one executor, record its outcome. All state that outlives a cycle is in the SQLite
store (\<open>store.rs\<close>) and on disk; the API (\<open>server.rs\<close>) reads the store, writes to it beside the loop, and wakes the loop.

\<^bold>\<open>The model's world.\<close> \<open>World\<close> is the state monad the effectful code is written in: the database, the disk, the log, what the n-th command
of the shell prints and does to the disk, and which of the effects fail. A store call, a file operation or a log line may fail at every
place where the code has a \<open>?\<close>, and a theorem about a run holds under any schedule of failures unless it says otherwise
(\<open>calm\<close>: nothing fails). \<open>wp\<close> is the weakest precondition of an action; \<open>keeps\<close> and \<open>preserves\<close> say what it leaves alone.
A failing effect is taken to have no effect. A store call is one step: the code's transactions are atomic, and a call that is
several statements is written out as several calls.

\<^bold>\<open>Which theory models what.\<close>
\<^item> \<open>Prelude\<close>, \<open>Json\<close>, \<open>Utf8\<close>, \<open>Calendar\<close>: the string, JSON, UTF-8 and date operations the crate calls.
\<^item> \<open>Domain\<close> (\<open>domain.rs\<close>): the closed vocabularies, with the locale \<open>text_enum\<close> for their text forms.
\<^item> \<open>Quota\<close>, \<open>Budget\<close>, \<open>Backend\<close> (\<open>provider.rs\<close>, \<open>capacity.rs\<close>, \<open>facade.rs\<close>, \<open>backend.rs\<close>): quota windows and pacing ramps, the
  budget decision over the locale \<open>spend_ledger\<close>, and the backends over the locales \<open>backend\<close> and \<open>quiet_backend\<close>; \<open>Status\<close> is the status page.
\<^item> \<open>Tables\<close>, \<open>StoreFindings\<close>, \<open>StoreJobs\<close>, \<open>StorePrs\<close>, \<open>StoreLedger\<close> (\<open>types.rs\<close>, \<open>store.rs\<close>): a table is the list of its rows in
  insertion order, a query a filter, an UPDATE \<open>update_where\<close>; locales \<open>keyed_table\<close>, \<open>streak\<close>, \<open>retiring\<close>.
\<^item> \<open>Config\<close> (\<open>config.rs\<close>), \<open>Notes\<close>, \<open>Suppress\<close> (\<open>suppression.rs\<close>), \<open>Ingest\<close> (\<open>ingest.rs\<close>), \<open>Playbooks\<close> (\<open>playbooks.rs\<close>).
\<^item> \<open>ForgeUrl\<close>, \<open>Forge\<close> (\<open>forge.rs\<close>): URLs over the locale \<open>forge_urls\<close>, and every operation of the trait as the command lines it runs.
\<^item> \<open>Commands\<close> (\<open>util.rs\<close>), \<open>Harness\<close> (\<open>harness.rs\<close>), \<open>DepScan\<close> (\<open>dep_scan.rs\<close>): running commands, workers and Renovate.
\<^item> \<open>Attempts\<close>, \<open>Select\<close>, \<open>Workspace\<close>, \<open>Executor\<close>, \<open>Pipeline\<close>, \<open>Fixing\<close>, \<open>PrSync\<close>, \<open>Engaging\<close>, \<open>Harvesting\<close>,
  \<open>Rechecking\<close>, \<open>Hunting\<close>, \<open>Cycle\<close> (\<open>scheduler.rs\<close>, \<open>workspace.rs\<close>): the pick, the workspaces, each executor and the cycle.
\<^item> \<open>Http\<close>, \<open>Accounts\<close>, \<open>Operator\<close>, \<open>RepoApi\<close>, \<open>Views\<close>, \<open>Server\<close> (\<open>server.rs\<close>, \<open>auth.rs\<close>, \<open>store.rs\<close>): the API from the
  gates of a request to the table of routes; a handler is an action that answers a value or one of the code's errors.
\<^item> \<open>Daemon\<close>, \<open>DaemonLoop\<close> (\<open>daemon.rs\<close>) and \<open>Cli\<close> (\<open>main.rs\<close>): start-up, one pass of the loop, the loop as a state machine beside
  requests and signals, and the command line.

\<^bold>\<open>What the groups of lemmas show.\<close>
\<^item> Budget (\<open>Quota\<close>, \<open>Budget\<close>): grants cover what they were asked for and retry times are exact, both in exact arithmetic; and an example
  of prioritized work that is granted past an exhausted window, which the notes of the provider exclude.
\<^item> Store (\<open>StoreJobs\<close>): resume chains are acyclic whatever operations run, a suspension is continued once, and after the sweep
  what is suspended and not continued can be resumed or is held, and nothing that could be resumed is lost.
\<^item> Selection (\<open>Selection\<close>): it comes back, what it picks is due, and the resume tier drains.
\<^item> Disk (\<open>Sweep\<close>, \<open>ReapSafety\<close>, \<open>NotesSafety\<close>): the sweep, the reaper and the move of notes touch nothing that is live.
\<^item> Workers (\<open>Watchdog\<close>, \<open>Commands\<close>): a worker or command comes back, with what ended it, and its output is read only once its process group
  has left or was killed; nothing unmetered is recorded as done.
\<^item> Forge (\<open>ForgeUrl\<close>, \<open>Screening\<close>, \<open>ForgeWrites\<close>): URLs round-trip, screening refines the rule who may steer a pull request, and what
  an attempt may change on the forge follows from its kind (\<open>Asking\<close> is the calculus of commands behind it).
\<^item> Executors (\<open>FixSafety\<close>, \<open>PrAttention\<close>, \<open>EngageSafety\<close>, \<open>HarvestSafety\<close>, \<open>RecheckSafety\<close>, \<open>ScanSafety\<close>, \<open>CycleSafety\<close>, with
  \<open>Frames\<close> and \<open>ForgeFrame\<close>): no finding is stranded, closed pull requests reach the harvest, a verdict file's word decides, a whole
  hunt moves its watermark only in the ways listed, a harvest to be redone leaves no trace but in one case, the cycle records the turn of
  what ended.
\<^item> Input (\<open>Ingest\<close>, \<open>Prompts\<close>, \<open>DepScan\<close>, \<open>Config\<close>): filed findings respect standing verdicts, prompts cannot be broken out of, a scan runs
  nothing of the checkout and its fingerprints tell apart where dependencies stand, a loaded configuration has passed its checks and lets in
  the hosts it lists.
\<^item> API (\<open>AccountSafety\<close>, \<open>DisabledOut\<close>, \<open>OperatorSafety\<close>): strangers change nothing and get a refusal or a file of the interface,
  a disabled account stays out, also across cycles (\<open>LoginsFrame\<close>: no cycle writes the accounts), the operator's writes are compare-and-sets; nothing read adds markup to the status page (\<open>Status\<close>).
\<^item> Daemon (\<open>RestartSafety\<close>, \<open>DaemonLoop\<close>): a restart recovers what was running and no more, sleeps are bounded, the loop stops when told and
  never rests unasked.

\<^bold>\<open>Bounds and fuel.\<close> \<open>Select.select_upto\<close> runs one round more than there are waiting findings, and \<open>Selection.select_terminates\<close> proves that
enough. A worker and a command are watched for as many polls as their wall clock allows (\<open>Harness.watch_worker\<close>, \<open>Commands.wait_polls\<close>,
\<open>Commands.KILL_PROBES\<close>); \<open>Watchdog.run_worker_returns\<close> and \<open>Commands.command_comes_back\<close> prove that they come back within it. Resume chains are
walked at most 64 links, as the source's recursive queries do. Stored integers are \<open>int\<close>; where a text or a sum can leave 64 bits
(\<open>parse_i64\<close>, \<open>trunc_i64\<close>, \<open>iso_ms\<close>, \<open>wrap_i64\<close>) the bound or the wrap-around is written out. Floats are
rationals, so what is exact here can be off by a rounding in the code. White space is that of ASCII, where the code's \<open>trim\<close> and
\<open>is_whitespace\<close> know the rest of Unicode. Foreign keys of an INSERT are not derived from the tables: a violated one is a failing call.

\<^bold>\<open>Parameters.\<close> What the code calls and does not define is an argument: git, gh, glab, Renovate and omp (the shell and the worker of a world),
serde's parsers and printers, the usage database of omp, \<open>statvfs\<close>, \<open>canonicalize\<close>, \<open>/proc\<close>, argon2, SHA-256 and the random source,
the clocks. What a theorem relies on of them is a hypothesis of it.

\<^bold>\<open>Not modelled.\<close> SQL text, migrations and connection handling; axum's routing internals, sockets and headers
that are not read; the lockfile, signal handlers, tracing, terminal echo and the prober task's timer; log lines that only tracing sees;
the web interface, the build script and the tests. Interleaving is modelled where the code names it: an operator's write against a store that
moved since the read, a login against a later change of its account, requests and signals against the steps of the loop. That the handlers
and a cycle otherwise interleave at every await is not; nor are partial writes of a failing file operation.
\<close>

end
